(* ===== verification/Prelude.thy ===== *)
theory Prelude
  imports Main "HOL-Library.Word" "HOL-Library.Sublist"
begin

text \<open>
  Shared vocabulary of the development: Go's strings as byte strings (lists of \<open>char\<close>,
  one per byte), \<open>[]byte\<close> as lists of 8-bit words, \<open>time.Time\<close> as nanoseconds since the
  Unix epoch, the library functions of package \<^verbatim>\<open>strings\<close>, \<^verbatim>\<open>encoding/hex\<close> and
  \<^verbatim>\<open>encoding/binary\<close> that the code calls, and the errors the layers exchange.
\<close>

unbundle bit_operations_syntax

named_theorems go_simps \<open>characteristic equations of the Go library model\<close>

section \<open>Bytes, strings and times\<close>

type_synonym byte = "8 word"
type_synonym bytes = "8 word list"
type_synonym time = int
type_synonym duration = int

definition bytes_of_string :: "string \<Rightarrow> bytes" where
  "bytes_of_string s = map (\<lambda>c. word_of_nat (of_char c)) s"

definition string_of_bytes :: "bytes \<Rightarrow> string" where
  "string_of_bytes b = map (\<lambda>w. char_of (unat w)) b"

lemma bytes_string_roundtrip [simp]: "bytes_of_string (string_of_bytes b) = b"
proof -
  have "word_of_nat (of_char (char_of (unat w) :: char)) = w" for w :: byte
    using unsigned_less [of w, where 'a = nat] by simp
  then show ?thesis
    by (simp add: bytes_of_string_def string_of_bytes_def comp_def map_idI)
qed

lemma length_bytes_of_string [simp]: "length (bytes_of_string s) = length s"
  by (simp add: bytes_of_string_def)

lemma length_string_of_bytes [simp]: "length (string_of_bytes b) = length b"
  by (simp add: string_of_bytes_def)

lemma string_bytes_roundtrip [simp]: "string_of_bytes (bytes_of_string s) = s"
proof -
  have "char_of (unat (word_of_nat (of_char c) :: byte)) = (c :: char)" for c
    by (simp add: unsigned_of_nat take_bit_eq_mod)
  then show ?thesis
    by (simp add: bytes_of_string_def string_of_bytes_def comp_def map_idI)
qed

lemma bytes_of_string_eq_Nil [simp]: "bytes_of_string s = [] \<longleftrightarrow> s = []"
  by (simp add: bytes_of_string_def)

lemma string_of_bytes_eq_Nil [simp]: "string_of_bytes b = [] \<longleftrightarrow> b = []"
  by (simp add: string_of_bytes_def)

text \<open>
  \<open>time.Time{}\<close> is midnight of 1 January of year 1; \<open>IsZero\<close> tests for it.
  Durations count nanoseconds.
\<close>

definition zero_time :: time where
  "zero_time = -62135596800000000000"

definition second :: duration where "second = 1000000000"
definition millisecond :: duration where "millisecond = 1000000"
definition minute :: duration where "minute = 60 * second"
definition hour :: duration where "hour = 60 * minute"

definition time_UnixMilli :: "int \<Rightarrow> time" where
  "time_UnixMilli ms = ms * 1000000"

definition UnixMilli :: "time \<Rightarrow> int" where
  "UnixMilli t = t div 1000000"

lemma UnixMilli_roundtrip [simp]: "UnixMilli (time_UnixMilli ms) = ms"
  by (simp add: UnixMilli_def time_UnixMilli_def)

section \<open>Package strings\<close>

text \<open>
  \<open>strings.TrimSpace\<close> removes Unicode white space at both ends. The list holds the UTF-8
  encodings of every rune for which \<open>unicode.IsSpace\<close> holds; decoding the first or the
  last rune of a byte string finds white space exactly when one of them is a prefix or a
  suffix, also in strings that are not valid UTF-8.
\<close>

definition space_runes :: "string list" where
  "space_runes =
     [[CHR 0x09], [CHR 0x0A], [CHR 0x0B], [CHR 0x0C], [CHR 0x0D], [CHR 0x20],
      [CHR 0xC2, CHR 0x85], [CHR 0xC2, CHR 0xA0], [CHR 0xE1, CHR 0x9A, CHR 0x80],
      [CHR 0xE2, CHR 0x80, CHR 0x80], [CHR 0xE2, CHR 0x80, CHR 0x81],
      [CHR 0xE2, CHR 0x80, CHR 0x82], [CHR 0xE2, CHR 0x80, CHR 0x83],
      [CHR 0xE2, CHR 0x80, CHR 0x84], [CHR 0xE2, CHR 0x80, CHR 0x85],
      [CHR 0xE2, CHR 0x80, CHR 0x86], [CHR 0xE2, CHR 0x80, CHR 0x87],
      [CHR 0xE2, CHR 0x80, CHR 0x88], [CHR 0xE2, CHR 0x80, CHR 0x89],
      [CHR 0xE2, CHR 0x80, CHR 0x8A], [CHR 0xE2, CHR 0x80, CHR 0xA8],
      [CHR 0xE2, CHR 0x80, CHR 0xA9], [CHR 0xE2, CHR 0x80, CHR 0xAF],
      [CHR 0xE2, CHR 0x81, CHR 0x9F], [CHR 0xE3, CHR 0x80, CHR 0x80]]"

fun is_prefix :: "string \<Rightarrow> string \<Rightarrow> bool" where
  "is_prefix [] s = True"
| "is_prefix (c # cs) [] = False"
| "is_prefix (c # cs) (d # ds) = (c = d \<and> is_prefix cs ds)"

lemma is_prefix_iff: "is_prefix p s \<longleftrightarrow> (\<exists>r. s = p @ r)"
  by (induction p s rule: is_prefix.induct) auto

text \<open>Strips leading members of \<open>ws\<close>; an empty member is ignored.\<close>

function strip :: "string list \<Rightarrow> string \<Rightarrow> string" where
  "strip ws s =
     (case find (\<lambda>w. w \<noteq> [] \<and> is_prefix w s) ws of
        None \<Rightarrow> s
      | Some w \<Rightarrow> strip ws (drop (length w) s))"
  by pat_completeness auto
termination
  by (relation "measure (\<lambda>(ws, s). length s)")
     (auto simp: find_Some_iff is_prefix_iff)

declare strip.simps [simp del]

lemma strip_None: "find (\<lambda>w. w \<noteq> [] \<and> is_prefix w s) ws = None \<Longrightarrow> strip ws s = s"
  by (simp add: strip.simps)

lemma strip_Some:
  "find (\<lambda>w. w \<noteq> [] \<and> is_prefix w s) ws = Some v \<Longrightarrow> strip ws s = strip ws (drop (length v) s)"
  by (simp add: strip.simps [of ws s])

lemma strip_suffix: "\<exists>p. s = p @ strip ws s"
proof (induction ws s rule: strip.induct)
  case (1 ws s)
  show ?case
  proof (cases "find (\<lambda>w. w \<noteq> [] \<and> is_prefix w s) ws")
    case None
    then show ?thesis by (simp add: strip_None)
  next
    case (Some v)
    then obtain p where "drop (length v) s = p @ strip ws (drop (length v) s)"
      using "1" by blast
    then have "s = (take (length v) s @ p) @ strip ws (drop (length v) s)"
      by (metis append.assoc append_take_drop_id)
    then show ?thesis unfolding strip_Some [OF Some] by blast
  qed
qed

lemma length_strip: "length (strip ws s) \<le> length s"
  using strip_suffix [of s ws] by (metis length_append le_add2)

lemma strip_no_prefix: "w \<in> set ws \<Longrightarrow> w \<noteq> [] \<Longrightarrow> \<not> is_prefix w (strip ws s)"
proof (induction ws s rule: strip.induct)
  case (1 ws s)
  show ?case
  proof (cases "find (\<lambda>w. w \<noteq> [] \<and> is_prefix w s) ws")
    case None
    then have "\<not> (w \<noteq> [] \<and> is_prefix w s)"
      using "1.prems"(1) unfolding find_None_iff by blast
    with "1.prems"(2) show ?thesis by (simp add: strip_None [OF None])
  next
    case (Some v)
    show ?thesis unfolding strip_Some [OF Some] using "1.IH" [OF Some "1.prems"] .
  qed
qed

lemma strip_id: "(\<And>w. w \<in> set ws \<Longrightarrow> w \<noteq> [] \<Longrightarrow> \<not> is_prefix w s) \<Longrightarrow> strip ws s = s"
  by (rule strip_None) (auto simp: find_None_iff)

lemma strip_Nil [simp]: "strip ws [] = []"
proof (rule strip_id)
  fix w :: string
  assume "w \<noteq> []"
  then show "\<not> is_prefix w []" by (cases w) auto
qed

lemma strip_idem [simp]: "strip ws (strip ws s) = strip ws s"
  by (rule strip_id) (rule strip_no_prefix)

definition trim_left :: "string \<Rightarrow> string" where
  "trim_left s = strip space_runes s"

definition trim_right :: "string \<Rightarrow> string" where
  "trim_right s = rev (strip (map rev space_runes) (rev s))"

definition TrimSpace :: "string \<Rightarrow> string" where
  "TrimSpace s = trim_right (trim_left s)"

lemma trim_right_prefix: "\<exists>r. s = trim_right s @ r"
  using strip_suffix [of "rev s" "map rev space_runes"]
  by (metis rev_append rev_rev_ident trim_right_def)

lemma TrimSpace_Nil [simp]: "TrimSpace [] = []"
  by (simp add: TrimSpace_def trim_left_def trim_right_def)

lemma trim_left_no_space: "w \<in> set space_runes \<Longrightarrow> w \<noteq> [] \<Longrightarrow> \<not> is_prefix w (trim_left s)"
  by (simp add: trim_left_def strip_no_prefix)

lemma trim_left_TrimSpace: "trim_left (TrimSpace s) = TrimSpace s"
  unfolding trim_left_def [of "TrimSpace s"]
proof (rule strip_id)
  fix w assume w: "w \<in> set space_runes" "w \<noteq> []"
  obtain r where r: "trim_left s = TrimSpace s @ r"
    using trim_right_prefix [of "trim_left s"] by (auto simp: TrimSpace_def)
  show "\<not> is_prefix w (TrimSpace s)"
    using trim_left_no_space [OF w, of s] by (auto simp: is_prefix_iff r)
qed

lemma TrimSpace_idem [simp]: "TrimSpace (TrimSpace s) = TrimSpace s"
  unfolding TrimSpace_def [of "TrimSpace s"] trim_left_TrimSpace
  by (simp add: TrimSpace_def trim_right_def)

lemma length_TrimSpace: "length (TrimSpace s) \<le> length s"
proof -
  have "length (trim_right t) \<le> length t" for t
    using length_strip [of "map rev space_runes" "rev t"] by (simp add: trim_right_def)
  moreover have "length (trim_left s) \<le> length s"
    by (simp add: trim_left_def length_strip)
  ultimately show ?thesis by (metis TrimSpace_def le_trans)
qed

text \<open>
  \<open>strings.ToLower\<close> maps ASCII letters and the two runes whose lower case is an ASCII letter
  (the Kelvin sign U+212A and the dotted capital I U+0130); every other byte is kept, so the
  function is exact on strings with no other non-ASCII capital letter.
\<close>

definition ascii_lower :: "char \<Rightarrow> char" where
  "ascii_lower c =
     (if 65 \<le> (of_char c :: nat) \<and> of_char c \<le> (90 :: nat)
      then char_of ((of_char c :: nat) + 32) else c)"

definition kelvin_sign :: string where
  "kelvin_sign = [CHR 0xE2, CHR 0x84, CHR 0xAA]"

definition dotted_I :: string where
  "dotted_I = [CHR 0xC4, CHR 0xB0]"

definition long_s :: string where
  "long_s = [CHR 0xC5, CHR 0xBF]"

function ToLower :: "string \<Rightarrow> string" where
  "ToLower [] = []"
| "ToLower (c # r) =
     (if is_prefix kelvin_sign (c # r) then CHR ''k'' # ToLower (drop 2 r)
      else if is_prefix dotted_I (c # r) then CHR ''i'' # ToLower (drop 1 r)
      else ascii_lower c # ToLower r)"
  by pat_completeness auto
termination by (relation "measure length") auto

text \<open>
  \<open>strings.EqualFold\<close> against an ASCII string: simple case folding identifies the letters of
  either case, the Kelvin sign with k and the long s (U+017F) with s.
\<close>

function fold_case :: "string \<Rightarrow> string" where
  "fold_case [] = []"
| "fold_case (c # r) =
     (if is_prefix kelvin_sign (c # r) then CHR ''k'' # fold_case (drop 2 r)
      else if is_prefix long_s (c # r) then CHR ''s'' # fold_case (drop 1 r)
      else ascii_lower c # fold_case r)"
  by pat_completeness auto
termination by (relation "measure length") auto

definition EqualFold :: "string \<Rightarrow> string \<Rightarrow> bool" where
  "EqualFold s t \<longleftrightarrow> fold_case s = fold_case t"

lemma EqualFold_refl [simp]: "EqualFold s s"
  by (simp add: EqualFold_def)

lemma EqualFold_sym: "EqualFold s t \<Longrightarrow> EqualFold t s"
  by (simp add: EqualFold_def)

text \<open>\<open>strings.Split\<close> and \<open>strings.Join\<close> for a separator of one byte.\<close>

fun Split :: "char \<Rightarrow> string \<Rightarrow> string list" where
  "Split c [] = [[]]"
| "Split c (x # xs) =
     (if x = c then [] # Split c xs
      else (case Split c xs of [] \<Rightarrow> [[x]] | y # ys \<Rightarrow> (x # y) # ys))"

fun Join :: "string list \<Rightarrow> string \<Rightarrow> string" where
  "Join [] sep = []"
| "Join [x] sep = x"
| "Join (x # y # ys) sep = x @ sep @ Join (y # ys) sep"

lemma Split_not_Nil [simp]: "Split c s \<noteq> []"
  by (induction s) (auto split: list.splits)

lemma Join_Cons: "ys \<noteq> [] \<Longrightarrow> Join (x # ys) sep = x @ sep @ Join ys sep"
  by (cases ys) auto

lemma Join_hd: "Join ((x # y) # ys) sep = x # Join (y # ys) sep"
  by (cases ys) auto

lemma Join_Split: "Join (Split c s) [c] = s"
proof (induction s)
  case (Cons x s)
  obtain y ys where y: "Split c s = y # ys" by (cases "Split c s") auto
  with Cons show ?case by (cases "x = c") (simp_all add: Join_Cons Join_hd)
qed simp

lemma length_Split: "length (Split c s) = Suc (count_list s c)"
  by (induction s) (auto split: list.splits)

lemma Split_no_sep: "p \<in> set (Split c s) \<Longrightarrow> c \<notin> set p"
proof (induction s arbitrary: p)
  case (Cons x s)
  obtain y ys where y: "Split c s = y # ys" by (cases "Split c s") auto
  with Cons show ?case by (auto split: if_splits)
qed simp

lemma Split_append:
  "c \<notin> set p \<Longrightarrow> Split c (p @ c # s) = p # Split c s"
  by (induction p) auto

lemma Split_id: "c \<notin> set p \<Longrightarrow> Split c p = [p]"
  by (induction p) auto

lemma Split_Join:
  "ps \<noteq> [] \<Longrightarrow> (\<And>p. p \<in> set ps \<Longrightarrow> c \<notin> set p) \<Longrightarrow> Split c (Join ps [c]) = ps"
proof (induction ps rule: induct_list012)
  case (3 x y zs)
  then show ?case by (simp add: Split_append)
qed (simp_all add: Split_id)

definition HasPrefix :: "string \<Rightarrow> string \<Rightarrow> bool" where
  "HasPrefix s p = is_prefix p s"

definition TrimPrefix :: "string \<Rightarrow> string \<Rightarrow> string" where
  "TrimPrefix s p = (if is_prefix p s then drop (length p) s else s)"

text \<open>\<open>strings.Trim\<close> with a cut set of ASCII bytes.\<close>

definition Trim :: "string \<Rightarrow> string \<Rightarrow> string" where
  "Trim s cutset =
     rev (dropWhile (\<lambda>c. c \<in> set cutset) (rev (dropWhile (\<lambda>c. c \<in> set cutset) s)))"

fun Contains :: "string \<Rightarrow> string \<Rightarrow> bool" where
  "Contains [] sub = (sub = [])"
| "Contains (c # cs) sub = (is_prefix sub (c # cs) \<or> Contains cs sub)"

lemma Trim_Nil [simp]: "Trim [] cutset = []"
  by (simp add: Trim_def)

section \<open>Packages encoding/hex, strconv and encoding/binary\<close>

definition hex_digit :: "nat \<Rightarrow> char" where
  "hex_digit n = (if n < 10 then char_of (48 + n) else char_of (87 + n))"

definition hex_encode :: "bytes \<Rightarrow> string" where
  "hex_encode b = concat (map (\<lambda>w. [hex_digit (unat w div 16), hex_digit (unat w mod 16)]) b)"

lemma length_hex_encode [simp]: "length (hex_encode b) = 2 * length b"
  by (induction b) (simp_all add: hex_encode_def)

text \<open>Little-endian fields: byte \<open>i\<close> of the value is stored at offset \<open>i\<close>.\<close>

fun put_le :: "nat \<Rightarrow> nat \<Rightarrow> bytes" where
  "put_le 0 v = []"
| "put_le (Suc n) v = word_of_nat (v mod 256) # put_le n (v div 256)"

fun get_le :: "bytes \<Rightarrow> nat" where
  "get_le [] = 0"
| "get_le (b # bs) = unat b + 256 * get_le bs"

lemma length_put_le [simp]: "length (put_le n v) = n"
  by (induction n arbitrary: v) auto

lemma unat_byte_mod [simp]: "unat (word_of_nat (v mod 256) :: byte) = v mod 256"
  by (simp add: unsigned_of_nat take_bit_eq_mod)

lemma get_put_le: "get_le (put_le n v) = v mod 256 ^ n"
proof (induction n arbitrary: v)
  case (Suc n)
  then show ?case by (simp add: mod_mult2_eq)
qed simp

lemma get_put_le_id [simp]: "v < 256 ^ n \<Longrightarrow> get_le (put_le n v) = v"
  by (simp add: get_put_le)

lemma get_le_bound: "get_le bs < 256 ^ length bs"
proof (induction bs)
  case (Cons b bs)
  have "unat b < 256" using unsigned_less [of b, where 'a = nat] by simp
  then show ?case using Cons by simp
qed simp

lemma put_get_le: "put_le (length bs) (get_le bs) = bs"
proof (induction bs)
  case (Cons b bs)
  have b: "unat b < 256" using unsigned_less [of b, where 'a = nat] by simp
  have "put_le (length (b # bs)) (get_le (b # bs)) = b # put_le (length bs) (get_le bs)"
    using b by simp
  with Cons show ?case by simp
qed simp

definition get_u16 :: "bytes \<Rightarrow> nat \<Rightarrow> 16 word" where
  "get_u16 b i = word_of_nat (get_le (take 2 (drop i b)))"

definition get_u32 :: "bytes \<Rightarrow> nat \<Rightarrow> 32 word" where
  "get_u32 b i = word_of_nat (get_le (take 4 (drop i b)))"

definition get_u64 :: "bytes \<Rightarrow> nat \<Rightarrow> 64 word" where
  "get_u64 b i = word_of_nat (get_le (take 8 (drop i b)))"

definition put_u16 :: "16 word \<Rightarrow> bytes" where
  "put_u16 w = put_le 2 (unat w)"

definition put_u32 :: "32 word \<Rightarrow> bytes" where
  "put_u32 w = put_le 4 (unat w)"

definition put_u64 :: "64 word \<Rightarrow> bytes" where
  "put_u64 w = put_le 8 (unat w)"

lemma length_put_u [simp]:
  "length (put_u16 w) = 2" "length (put_u32 x) = 4" "length (put_u64 y) = 8"
  by (simp_all add: put_u16_def put_u32_def put_u64_def)

lemma get_put_u16: "take 2 (drop i b) = put_u16 w \<Longrightarrow> get_u16 b i = w"
  using unsigned_less [of w, where 'a = nat] by (simp add: get_u16_def put_u16_def)

lemma get_put_u32: "take 4 (drop i b) = put_u32 w \<Longrightarrow> get_u32 b i = w"
  using unsigned_less [of w, where 'a = nat] by (simp add: get_u32_def put_u32_def)

lemma get_put_u64: "take 8 (drop i b) = put_u64 w \<Longrightarrow> get_u64 b i = w"
  using unsigned_less [of w, where 'a = nat] by (simp add: get_u64_def put_u64_def)

text \<open>Decimal text of an integer (\<open>strconv.Itoa\<close>, the verb \<open>%d\<close>).\<close>

fun nat_digits :: "nat \<Rightarrow> string" where
  "nat_digits n =
     (if n < 10 then [char_of (48 + n)] else nat_digits (n div 10) @ [char_of (48 + n mod 10)])"

declare nat_digits.simps [simp del]

definition Itoa :: "int \<Rightarrow> string" where
  "Itoa i = (if i < 0 then CHR ''-'' # nat_digits (nat (- i)) else nat_digits (nat i))"

section \<open>Errors\<close>

text \<open>
  One constructor per sentinel error of \<^verbatim>\<open>inter\<close> (and the two of authboss the storage layer
  returns); \<open>ErrDB\<close> is any failure of the database driver, \<open>ErrRPC\<close> any failure of a call
  to a peer service, \<open>ErrInvalidIngressRequest\<close> an error wrapping the sentinel of that name in the
  ingress service, and \<open>ErrText\<close> an error made in place with \<open>errors.New\<close> or
  \<open>fmt.Errorf\<close>, named by a key instead of its text.
\<close>

datatype go_error =
    ErrInvalidToken | ErrAccessDenied | ErrDeviceRefused | ErrDevicePending | ErrDeviceUnknown
  | ErrDeviceNotFound | ErrDeviceAlreadyExists | ErrDeviceTokenNotFound | ErrUserNotFound
  | ErrTenantNotFound | ErrTenantUserNotFound | ErrDeviceTenantMismatch
  | ErrDeviceCommandNotFound | ErrDownlinkQueueFull | ErrCannotRemoveSelf
  | ErrInvitationNotFound | ErrInvitationExpired | ErrInvitationAccepted
  | ErrTenantRequired | ErrCrossTenantScope | ErrGroupScopeDenied
  | ErrUserFound | ErrTokenNotFound
  | ErrInvalidIngressRequest string
  | ErrDB | ErrRPC | ErrEOF | ErrUnexpectedEOF | ErrText string

type_synonym 'a result = "go_error + 'a"

text \<open>Maps of the code: \<open>delete(m, k)\<close> and the zero value of a missing entry.\<close>

abbreviation map_delete :: "('k \<Rightarrow> 'v option) \<Rightarrow> 'k \<Rightarrow> ('k \<Rightarrow> 'v option)" where
  "map_delete m k \<equiv> m(k := None)"

definition map_get :: "('k \<Rightarrow> 'v option) \<Rightarrow> 'k \<Rightarrow> 'v \<Rightarrow> 'v" where
  "map_get m k z = (case m k of None \<Rightarrow> z | Some v \<Rightarrow> v)"

lemma map_get_simps [simp]:
  "map_get (m(k \<mapsto> v)) k z = v"
  "k' \<noteq> k \<Longrightarrow> map_get (m(k := x)) k' z = map_get m k' z"
  "map_get (m(k := None)) k z = z"
  by (simp_all add: map_get_def)

end
