(* ===== verification/Float.thy ===== *)
theory Float
  imports Prelude
begin

text \<open>
  IEEE 754 numbers as bit patterns: \<open>float32\<close> is a 32-bit word and \<open>float64\<close> a 64-bit word. The
  two conversions of Go, \<open>float64(x)\<close> (exact) and \<open>float32(x)\<close> (round to nearest, ties to
  even), on natural numbers: sign, biased exponent and fraction.
\<close>

type_synonym float32 = "32 word"
type_synonym float64 = "64 word"

definition f32_parts :: "float32 \<Rightarrow> nat \<times> nat \<times> nat" where
  "f32_parts b = (unat b div 2 ^ 31, unat b div 2 ^ 23 mod 2 ^ 8, unat b mod 2 ^ 23)"

definition f64_parts :: "float64 \<Rightarrow> nat \<times> nat \<times> nat" where
  "f64_parts b = (unat b div 2 ^ 63, unat b div 2 ^ 52 mod 2 ^ 11, unat b mod 2 ^ 52)"

definition f32_make :: "nat \<Rightarrow> nat \<Rightarrow> nat \<Rightarrow> float32" where
  "f32_make s e m = word_of_nat (s * 2 ^ 31 + e * 2 ^ 23 + m)"

definition f64_make :: "nat \<Rightarrow> nat \<Rightarrow> nat \<Rightarrow> float64" where
  "f64_make s e m = word_of_nat (s * 2 ^ 63 + e * 2 ^ 52 + m)"

text \<open>Position of the highest bit that is set.\<close>

fun high_bit :: "nat \<Rightarrow> nat" where
  "high_bit n = (if n \<le> 1 then 0 else Suc (high_bit (n div 2)))"

declare high_bit.simps [simp del]

definition f64_of_f32 :: "float32 \<Rightarrow> float64" where
  "f64_of_f32 b =
     (case f32_parts b of (s, e, m) \<Rightarrow>
        if e = 255 then
          (if m = 0 then f64_make s 2047 0
           else f64_make s 2047 (m mod 2 ^ 22 * 2 ^ 29 + 2 ^ 51))
        else if e = 0 then
          (if m = 0 then f64_make s 0 0
           else let k = high_bit m in f64_make s (874 + k) ((m - 2 ^ k) * 2 ^ (52 - k)))
        else f64_make s (e + 896) (m * 2 ^ 29))"

text \<open>Quotient by \<open>2 ^ sh\<close>, rounded to nearest, ties to even.\<close>

definition round_shift :: "nat \<Rightarrow> nat \<Rightarrow> nat" where
  "round_shift v sh =
     (let q = v div 2 ^ sh; r = v mod 2 ^ sh
      in if 2 * r > 2 ^ sh \<or> (2 * r = 2 ^ sh \<and> odd q) then q + 1 else q)"

definition f32_of_f64 :: "float64 \<Rightarrow> float32" where
  "f32_of_f64 b =
     (case f64_parts b of (s, e, m) \<Rightarrow>
        if e = 2047 then
          (if m = 0 then f32_make s 255 0
           else f32_make s 255 (m div 2 ^ 29 mod 2 ^ 22 + 2 ^ 22))
        else if e > 1150 then f32_make s 255 0
        else if e \<ge> 897 then f32_make s 0 (round_shift ((e - 896) * 2 ^ 52 + m) 29)
        else if e < 800 then f32_make s 0 0
        else f32_make s 0 (round_shift (2 ^ 52 + m) (29 + (897 - e))))"

text \<open>The largest finite number of each sign and the not-a-number patterns.\<close>

definition f32_is_nan :: "float32 \<Rightarrow> bool" where
  "f32_is_nan b \<longleftrightarrow> (case f32_parts b of (s, e, m) \<Rightarrow> e = 255 \<and> m \<noteq> 0)"

lemma high_bit_bounds: "0 < n \<Longrightarrow> 2 ^ high_bit n \<le> n \<and> n < 2 ^ Suc (high_bit n)"
proof (induction n rule: high_bit.induct)
  case (1 n)
  show ?case
  proof (cases "n \<le> 1")
    case True
    with "1.prems" have "n = 1" by simp
    then show ?thesis by (simp add: high_bit.simps)
  next
    case False
    then have "high_bit n = Suc (high_bit (n div 2))" by (subst high_bit.simps) simp
    moreover have "2 ^ high_bit (n div 2) \<le> n div 2 \<and> n div 2 < 2 ^ Suc (high_bit (n div 2))"
      using 1 False by simp
    ultimately show ?thesis by (simp add: power_Suc) linarith
  qed
qed

lemma f32_parts_make:
  "f32_parts b = (s, e, m) \<Longrightarrow> f32_make s e m = b \<and> s < 2 \<and> e < 256 \<and> m < 2 ^ 23"
proof -
  assume p: "f32_parts b = (s, e, m)"
  define u where "u = unat b"
  have u: "u < 2 ^ 32" using unsigned_less [of b, where 'a = nat] by (simp add: u_def)
  have d: "s = u div 2 ^ 31" "e = u div 2 ^ 23 mod 2 ^ 8" "m = u mod 2 ^ 23"
    using p by (auto simp: f32_parts_def u_def)
  have "s * 2 ^ 31 + e * 2 ^ 23 + m = u"
  proof -
    have "u div 2 ^ 31 = u div 2 ^ 23 div 2 ^ 8" by (simp add: div_mult2_eq [symmetric])
    then have "u div 2 ^ 23 = s * 2 ^ 8 + e"
      unfolding d by (metis div_mult_mod_eq)
    moreover have "u = (u div 2 ^ 23) * 2 ^ 23 + m" unfolding d by simp
    ultimately show ?thesis by simp
  qed
  then have "f32_make s e m = b" by (simp add: f32_make_def u_def)
  then show ?thesis using u by (auto simp: d)
qed

lemma f64_parts_of_make:
  assumes "s < 2" "e < 2048" "m < 2 ^ 52"
  shows "f64_parts (f64_make s e m) = (s, e, m)"
proof -
  have "s * 2 ^ 63 + e * 2 ^ 52 + m < 2 ^ 64" using assms by simp
  then have u: "unat (f64_make s e m) = (s * 2 ^ 11 + e) * 2 ^ 52 + m"
    unfolding f64_make_def by (subst unsigned_of_nat) (simp add: take_bit_eq_mod)
  have q: "((s * 2 ^ 11 + e) * 2 ^ 52 + m) div 2 ^ 52 = s * 2 ^ 11 + e"
    using assms(3) by (subst div_mult_self3) auto
  have "((s * 2 ^ 11 + e) * 2 ^ 52 + m) div 2 ^ 63 =
      ((s * 2 ^ 11 + e) * 2 ^ 52 + m) div 2 ^ 52 div 2 ^ 11"
    by (simp add: div_mult2_eq [symmetric])
  then have "((s * 2 ^ 11 + e) * 2 ^ 52 + m) div 2 ^ 63 = s"
    using assms(2) unfolding q by simp
  moreover have "(s * 2 ^ 11 + e) mod 2 ^ 11 = e" using assms(2) by simp
  moreover have "((s * 2 ^ 11 + e) * 2 ^ 52 + m) mod 2 ^ 52 = m"
    using assms(3) by (simp only: mod_mult_self3 mod_less)
  ultimately show ?thesis unfolding f64_parts_def u using q by simp
qed

lemma round_shift_exact: "round_shift (v * 2 ^ sh) sh = v"
  by (simp add: round_shift_def)

text \<open>Widening and narrowing again is the identity, not-a-number patterns aside.\<close>

lemma f32_of_f64_of_f32: "\<not> f32_is_nan b \<Longrightarrow> f32_of_f64 (f64_of_f32 b) = b"
proof -
  assume nn: "\<not> f32_is_nan b"
  obtain s e m where p: "f32_parts b = (s, e, m)" by (cases "f32_parts b") auto
  from f32_parts_make [OF p] have mk: "f32_make s e m = b" and s: "s < 2" and e: "e < 256"
    and m: "m < 2 ^ 23" by auto
  consider "e = 255" "m = 0" | "e = 0" "m = 0" | "e = 0" "m > 0" | "0 < e" "e < 255"
    using nn e unfolding f32_is_nan_def p by (cases "e = 255"; cases "e = 0"; cases "m = 0") auto
  then show ?thesis
  proof cases
    case 1
    then show ?thesis using mk s by (simp add: f64_of_f32_def p f32_of_f64_def f64_parts_of_make)
  next
    case 2
    then show ?thesis using mk s by (simp add: f64_of_f32_def p f32_of_f64_def f64_parts_of_make)
  next
    case 3
    define k where "k = high_bit m"
    have k: "2 ^ k \<le> m" "m < 2 ^ Suc k" using high_bit_bounds [OF 3(2)] by (auto simp: k_def)
    have "(2::nat) ^ k < 2 ^ 23" using k(1) m by linarith
    then have k23: "k < 23" by (rule power_less_imp_less_exp [rotated]) simp
    have split: "(2::nat) ^ 52 = 2 ^ k * 2 ^ (52 - k)" using k23 by (simp flip: power_add)
    have "m - 2 ^ k < 2 ^ k" using k by simp
    then have frac: "(m - 2 ^ k) * 2 ^ (52 - k) < 2 ^ 52" unfolding split by simp
    have full: "2 ^ 52 + (m - 2 ^ k) * 2 ^ (52 - k) = m * 2 ^ (52 - k)"
      unfolding split using k(1) by (simp flip: add_mult_distrib)
    have f: "f64_of_f32 b = f64_make s (874 + k) ((m - 2 ^ k) * 2 ^ (52 - k))"
      using 3 by (simp add: f64_of_f32_def p k_def Let_def)
    have parts: "f64_parts (f64_of_f32 b) = (s, 874 + k, (m - 2 ^ k) * 2 ^ (52 - k))"
      unfolding f by (rule f64_parts_of_make) (use s k23 frac in auto)
    have sh: "29 + (897 - (874 + k)) = 52 - k" using k23 by simp
    show ?thesis
      unfolding f32_of_f64_def parts using k23 mk 3
      by (simp only: prod.case sh full round_shift_exact) simp
  next
    case 4
    have parts: "f64_parts (f64_of_f32 b) = (s, e + 896, m * 2 ^ 29)"
      using 4 s m by (simp add: f64_of_f32_def p f64_parts_of_make)
    have "(e + 896 - 896) * 2 ^ 52 + m * 2 ^ 29 = (e * 2 ^ 23 + m) * 2 ^ 29"
      by simp
    then have "f32_of_f64 (f64_of_f32 b) = f32_make s 0 (e * 2 ^ 23 + m)"
      unfolding f32_of_f64_def parts using 4
      by (simp only: prod.case round_shift_exact) simp
    then show ?thesis using mk by (simp add: f32_make_def ac_simps)
  qed
qed

text \<open>\<open>x >= 1\<close> on a \<open>float32\<close>: between one and infinity.\<close>

definition f32_ge_one :: "float32 \<Rightarrow> bool" where
  "f32_ge_one b \<longleftrightarrow> 0x3F800000 \<le> unat b \<and> unat b \<le> 0x7F800000"

definition f32_one :: float32 where "f32_one = 0x3F800000"
definition f32_zero :: float32 where "f32_zero = 0"

end
