(* ===== verification/AdapterTypes.thy ===== *)
theory AdapterTypes
  imports Float "HOL-Library.AList"
begin

text \<open>
  The protocol-neutral types of \<^verbatim>\<open>protocol-ingress/internal/adapter/adapter.go\<close>. A pointer
  or a nil slice is an option, a Go map is an association list with distinct keys (so its
  length and its sorted keys are computable), and a value of type \<open>any\<close> is a \<open>json\<close> tree. A
  number is a \<open>float64\<close>, or the text of a \<open>json.Number\<close> when the decoder was told to keep it
  (\<open>JDecimal\<close>).
\<close>

datatype json =
    JNull | JBool bool | JNumber float64 | JDecimal string | JString string | JArray "json list"
  | JObject "(string \<times> json) list"

type_synonym string_map = "(string \<times> string) list"
type_synonym any_map = "(string \<times> json) list"

record identity =
  id_Type :: string
  id_Value :: string
  id_Issuer :: string

definition no_identity :: identity where
  "no_identity = \<lparr>id_Type = [], id_Value = [], id_Issuer = []\<rparr>"

record go_value =
  v_Number :: "float64 option"
  v_String :: "string option"
  v_Bool :: "bool option"
  v_Bytes :: "bytes option"
  v_JSON :: "any_map option"

definition no_value :: go_value where
  "no_value = \<lparr>v_Number = None, v_String = None, v_Bool = None, v_Bytes = None, v_JSON = None\<rparr>"

record device_descriptor =
  dd_UUID :: string
  dd_Name :: string
  dd_SerialNumber :: string
  dd_MACAddress :: string
  dd_HardwareVersion :: string
  dd_SoftwareVersion :: string
  dd_ConfigVersion :: string
  dd_Manufacturer :: string
  dd_Vendor :: string
  dd_Model :: string
  dd_FirmwareVersion :: string
  dd_DeviceType :: string
  dd_NetworkAddress :: string
  dd_Identities :: "identity list"
  dd_Labels :: string_map
  dd_Attributes :: "any_map option"

definition no_descriptor :: device_descriptor where
  "no_descriptor =
     \<lparr>dd_UUID = [], dd_Name = [], dd_SerialNumber = [], dd_MACAddress = [],
      dd_HardwareVersion = [], dd_SoftwareVersion = [], dd_ConfigVersion = [],
      dd_Manufacturer = [], dd_Vendor = [], dd_Model = [], dd_FirmwareVersion = [],
      dd_DeviceType = [], dd_NetworkAddress = [], dd_Identities = [], dd_Labels = [],
      dd_Attributes = None\<rparr>"

record metric_point =
  mp_Name :: string
  mp_Value :: go_value
  mp_Unit :: string
  mp_ObservedAt :: time
  mp_LegacyMetricType :: "32 word"
  mp_Tags :: string_map

record state_point =
  sp_Name :: string
  sp_Value :: go_value
  sp_Unit :: string
  sp_ObservedAt :: time
  sp_EntityID :: string
  sp_Tags :: string_map

record log_record =
  lr_Level :: string
  lr_Message :: string
  lr_Namespace :: string
  lr_ObservedAt :: time
  lr_Fields :: "any_map option"

record command_receipt =
  rc_CommandID :: int
  rc_CommandUUID :: string
  rc_Status :: string
  rc_ProtocolCommandCode :: "32 word"
  rc_Operation :: string
  rc_ErrorText :: string
  rc_ObservedAt :: time
  rc_Raw :: bytes

record frame_info =
  fi_MagicNumber :: "32 word"
  fi_CommandCode :: "32 word"
  fi_KeyID :: "32 word"
  fi_Sequence :: "64 word"
  fi_IsAck :: bool
  fi_IsEncrypted :: bool
  fi_IsCompressed :: bool
  fi_PayloadLen :: "32 word"
  fi_Headers :: string_map

definition no_frame :: frame_info where
  "no_frame =
     \<lparr>fi_MagicNumber = 0, fi_CommandCode = 0, fi_KeyID = 0, fi_Sequence = 0, fi_IsAck = False,
      fi_IsEncrypted = False, fi_IsCompressed = False, fi_PayloadLen = 0, fi_Headers = []\<rparr>"

record adapter_event =
  ev_EventID :: string
  ev_AdapterName :: string
  ev_ProtocolName :: string
  ev_ProtocolVersion :: string
  ev_Transport :: string
  ev_RemoteAddr :: string
  ev_LocalAddr :: string
  ev_TenantHint :: string
  ev_TenantID :: string
  ev_RequestID :: string
  ev_TraceID :: string
  ev_CorrelationID :: string
  ev_Identity :: identity
  ev_Identities :: "identity list"
  ev_UUID :: string
  ev_Device :: "device_descriptor option"
  ev_Kind :: string
  ev_OccurredAt :: time
  ev_ReceivedAt :: time
  ev_Metrics :: "metric_point list"
  ev_States :: "state_point list"
  ev_Log :: "log_record option"
  ev_Availability :: string
  ev_Receipt :: "command_receipt option"
  ev_Raw :: bytes
  ev_RawContentType :: string
  ev_Attributes :: "any_map option"
  ev_Labels :: string_map
  ev_Frame :: frame_info

definition no_event :: adapter_event where
  "no_event =
     \<lparr>ev_EventID = [], ev_AdapterName = [], ev_ProtocolName = [], ev_ProtocolVersion = [],
      ev_Transport = [], ev_RemoteAddr = [], ev_LocalAddr = [], ev_TenantHint = [],
      ev_TenantID = [], ev_RequestID = [], ev_TraceID = [], ev_CorrelationID = [],
      ev_Identity = no_identity, ev_Identities = [], ev_UUID = [], ev_Device = None,
      ev_Kind = [], ev_OccurredAt = zero_time, ev_ReceivedAt = zero_time, ev_Metrics = [],
      ev_States = [], ev_Log = None, ev_Availability = [], ev_Receipt = None, ev_Raw = [],
      ev_RawContentType = [], ev_Attributes = None, ev_Labels = [], ev_Frame = no_frame\<rparr>"

record adapter_command =
  ac_CommandID :: int
  ac_CommandUUID :: string
  ac_TenantID :: string
  ac_UUID :: string
  ac_Operation :: string
  ac_ProtocolCommandCode :: "32 word"
  ac_Target :: identity
  ac_Payload :: bytes
  ac_PayloadContentType :: string
  ac_Properties :: string_map
  ac_Options :: "any_map option"
  ac_Timeout :: duration
  ac_MaxAttempts :: int
  ac_Labels :: string_map

definition no_command :: adapter_command where
  "no_command =
     \<lparr>ac_CommandID = 0, ac_CommandUUID = [], ac_TenantID = [], ac_UUID = [], ac_Operation = [],
      ac_ProtocolCommandCode = 0, ac_Target = no_identity, ac_Payload = [],
      ac_PayloadContentType = [], ac_Properties = [], ac_Options = None, ac_Timeout = 0,
      ac_MaxAttempts = 0, ac_Labels = []\<rparr>"

text \<open>Reading a Go map: the zero value when the key is missing.\<close>

definition lookup :: "(string \<times> string) list \<Rightarrow> string \<Rightarrow> string" where
  "lookup m k = (case map_of m k of None \<Rightarrow> [] | Some v \<Rightarrow> v)"

lemma lookup_simps [simp]:
  "lookup [] k = []"
  "lookup ((k, v) # m) k = v"
  "k' \<noteq> k \<Longrightarrow> lookup ((k, v) # m) k' = lookup m k'"
  by (simp_all add: lookup_def)

end
