(* ===== verification/CoreTypes.thy ===== *)
theory CoreTypes
  imports Float
begin

text \<open>
  The types of package \<^verbatim>\<open>inter\<close> (\<^verbatim>\<open>datastore_inter.go\<close>, \<^verbatim>\<open>device_manager_inter.go\<close>,
  \<^verbatim>\<open>authz_inter.go\<close>, \<^verbatim>\<open>protocol_inter.go\<close>) that the core service exchanges: device metadata and
  its status, metric points, downlink messages, tenants, roles and principals.
\<close>

section \<open>Devices\<close>

datatype auth_status =
  Authenticated | AuthenticateRefuse | AuthenticatePending | AuthenticateUnknown
| AuthenticateRevoked

record device_metadata =
  dm_Name :: string
  dm_HWVersion :: string
  dm_SWVersion :: string
  dm_ConfigVersion :: string
  dm_SerialNumber :: string
  dm_MACAddress :: string
  dm_CreatedAt :: time
  dm_Token :: string
  dm_AuthenticateStatus :: auth_status

definition no_metadata :: device_metadata where
  "no_metadata =
     \<lparr>dm_Name = [], dm_HWVersion = [], dm_SWVersion = [], dm_ConfigVersion = [],
      dm_SerialNumber = [], dm_MACAddress = [], dm_CreatedAt = zero_time, dm_Token = [],
      dm_AuthenticateStatus = Authenticated\<rparr>"

record device_record =
  rec_UUID :: string
  rec_Meta :: device_metadata

record metric =
  m_Timestamp :: int
  m_Value :: float32
  m_Type :: byte

datatype device_status = StatusOffline | StatusOnline | StatusDelayed

datatype log_level = LogLevelDebug | LogLevelInfo | LogLevelWarn | LogLevelError

record log_upload =
  lu_Timestamp :: int
  lu_Level :: log_level
  lu_Message :: string

section \<open>Downlink commands\<close>

type_synonym core_cmd = "16 word"

definition CoreCmdConfigPush :: core_cmd where "CoreCmdConfigPush = 0x0201"
definition CoreCmdOtaData :: core_cmd where "CoreCmdOtaData = 0x0202"
definition CoreCmdActionExec :: core_cmd where "CoreCmdActionExec = 0x0203"
definition CoreCmdScreenWy :: core_cmd where "CoreCmdScreenWy = 0x0204"

record downlink_message =
  dl_CommandID :: int
  dl_CmdID :: core_cmd
  dl_Payload :: bytes

definition no_downlink :: downlink_message where
  "no_downlink = \<lparr>dl_CommandID = 0, dl_CmdID = 0, dl_Payload = []\<rparr>"

datatype command_status = CmdQueued | CmdSent | CmdAcked | CmdFailed | CmdOther string

section \<open>Tenants, roles and principals\<close>

definition DefaultTenantID :: string where "DefaultTenantID = ''tenant_legacy''"

datatype permission =
  PermissionNone | PermissionReadOnly | PermissionReadWrite | PermissionAdmin

text \<open>The order of the constants, \<open>p >= q\<close> in the code.\<close>

fun permission_level :: "permission \<Rightarrow> nat" where
  "permission_level PermissionNone = 0"
| "permission_level PermissionReadOnly = 1"
| "permission_level PermissionReadWrite = 2"
| "permission_level PermissionAdmin = 3"

text \<open>A tenant role is a string; the three constants and the empty role.\<close>

type_synonym tenant_role = string

definition TenantRoleAdmin :: tenant_role where "TenantRoleAdmin = ''tenant_admin''"
definition TenantRoleRW :: tenant_role where "TenantRoleRW = ''tenant_rw''"
definition TenantRoleRO :: tenant_role where "TenantRoleRO = ''tenant_ro''"

lemmas role_defs = TenantRoleAdmin_def TenantRoleRW_def TenantRoleRO_def

definition PermissionFromTenantRole :: "tenant_role \<Rightarrow> permission" where
  "PermissionFromTenantRole role =
     (if role = TenantRoleAdmin then PermissionAdmin
      else if role = TenantRoleRW then PermissionReadWrite
      else if role = TenantRoleRO then PermissionReadOnly
      else PermissionNone)"

record scope =
  sc_TenantID :: string
  sc_GroupIDs :: "string list"

record request_principal =
  rp_Username :: string
  rp_Permission :: permission
  rp_Role :: tenant_role
  rp_Scope :: scope
  rp_TenantRoles :: "(string \<times> tenant_role) list"

record tenant =
  tn_ID :: string
  tn_Name :: string
  tn_Status :: string
  tn_CreatedAt :: time
  tn_UpdatedAt :: time

record tenant_user =
  tu_TenantID :: string
  tu_Username :: string
  tu_Role :: tenant_role
  tu_CreatedAt :: time

record tenant_invitation =
  iv_ID :: string
  iv_TenantID :: string
  iv_Username :: string
  iv_Role :: tenant_role
  iv_InvitedBy :: string
  iv_Status :: string
  iv_ExpiresAt :: time
  iv_CreatedAt :: time
  iv_UpdatedAt :: time

record user =
  us_Username :: string
  us_Permission :: permission
  us_TenantRole :: tenant_role
  us_CreatedAt :: time

section \<open>Normal forms of \<^verbatim>\<open>storage/internal/bunrepo/common.go\<close>\<close>

definition NormalizeTenantID :: "string \<Rightarrow> string" where
  "NormalizeTenantID t = (let t = TrimSpace t in if t = [] then DefaultTenantID else t)"

definition NormalizeTenantRole :: "string \<Rightarrow> tenant_role" where
  "NormalizeTenantRole raw =
     (let r = ToLower (TrimSpace raw)
      in if r = TenantRoleAdmin then TenantRoleAdmin
         else if r = TenantRoleRW then TenantRoleRW
         else TenantRoleRO)"

definition PermissionToTenantRole :: "permission \<Rightarrow> tenant_role" where
  "PermissionToTenantRole perm =
     (case perm of PermissionAdmin \<Rightarrow> TenantRoleAdmin
      | PermissionReadWrite \<Rightarrow> TenantRoleRW
      | _ \<Rightarrow> TenantRoleRO)"

definition NullableToken :: "string \<Rightarrow> string option" where
  "NullableToken token = (let t = TrimSpace token in if t = [] then None else Some t)"

definition PayloadStringPtr :: "bytes \<Rightarrow> string option" where
  "PayloadStringPtr payload =
     (let t = TrimSpace (string_of_bytes payload) in if t = [] then None else Some t)"

definition NullableOptionalString :: "string \<Rightarrow> string option" where
  "NullableOptionalString v = (let t = TrimSpace v in if t = [] then None else Some t)"

lemma TrimSpace_DefaultTenantID [simp]: "TrimSpace DefaultTenantID = DefaultTenantID"
  by code_simp

lemma DefaultTenantID_not_Nil [simp]: "DefaultTenantID \<noteq> []"
  by (simp add: DefaultTenantID_def)

lemma NormalizeTenantID_idem [simp]: "NormalizeTenantID (NormalizeTenantID t) = NormalizeTenantID t"
  by (simp add: NormalizeTenantID_def Let_def)

lemma NormalizeTenantID_not_Nil [simp]: "NormalizeTenantID t \<noteq> []"
  by (simp add: NormalizeTenantID_def Let_def)

lemma TrimSpace_NormalizeTenantID [simp]: "TrimSpace (NormalizeTenantID t) = NormalizeTenantID t"
  by (simp add: NormalizeTenantID_def Let_def)

lemma NormalizeTenantRole_range:
  "NormalizeTenantRole r \<in> {TenantRoleAdmin, TenantRoleRW, TenantRoleRO}"
  by (simp add: NormalizeTenantRole_def Let_def)

lemma role_permission_roundtrip:
  "p \<noteq> PermissionNone \<Longrightarrow> PermissionFromTenantRole (PermissionToTenantRole p) = p"
  by (cases p) (simp_all add: PermissionFromTenantRole_def PermissionToTenantRole_def role_defs)

lemma NullableToken_SomeD: "NullableToken t = Some s \<Longrightarrow> s \<noteq> [] \<and> TrimSpace s = s"
  by (auto simp: NullableToken_def Let_def split: if_splits)

end
