(* ===== verification/IngressProto.thy ===== *)
theory IngressProto
  imports AdapterTypes CoreTypes
begin

text \<open>
  The messages of \<^verbatim>\<open>proto/goster/ingress/v1/ingress.proto\<close> that the two services exchange: the
  fields the code reads or writes. A message pointer is an option; the getter of a nil message
  returns the zero value of the field. Device descriptors and identities have the same fields as
  the adapter's types and share their records.
\<close>

datatype transport =
  TransportUnspecified | TransportStream | TransportMessageBus | TransportRequestReply
| TransportDatagram | TransportLocal

datatype event_type =
  EventUnspecified | EventDeviceDiscovered | EventDeviceRegister | EventHeartbeat | EventTelemetry
| EventState | EventLog | EventDeviceEvent | EventDeviceError | EventAvailability | EventTopology
| EventCommandAck | EventCommandFailed | EventRaw

datatype p_auth_status =
  AuthUnspecified | AuthAccepted | AuthPending | AuthRejected | AuthRevoked | AuthUnknown

datatype registration_status =
  RegistrationUnspecified | RegistrationAccepted | RegistrationPending | RegistrationRejected

text \<open>A proto3 enum may carry a number without a name.\<close>

datatype p_command_status =
  PCommandUnspecified | PCommandQueued | PCommandSent | PCommandAcked | PCommandFailed
| PCommandRequeued | PCommandExpired | PCommandOther int

datatype availability = AvailUnspecified | AvailOnline | AvailDelayed | AvailOffline

datatype p_log_level = PLogUnspecified | PLogDebug | PLogInfo | PLogWarn | PLogError

record credential =
  cd_Type :: string
  cd_Value :: string

datatype p_value =
  NumberValue float64 | StringValue string | BoolValue bool | BytesValue bytes | JsonValue "any_map option"

record frame_context =
  fc_MagicNumber :: "32 word"
  fc_CommandCode :: "32 word"
  fc_KeyId :: "32 word"
  fc_Sequence :: "64 word"
  fc_IsAck :: bool
  fc_IsEncrypted :: bool
  fc_IsCompressed :: bool
  fc_PayloadLen :: "32 word"
  fc_Headers :: string_map

record ingress_context =
  ic_RequestId :: string
  ic_TraceId :: string
  ic_CorrelationId :: string
  ic_SourceInstance :: string
  ic_AdapterId :: string
  ic_ProtocolName :: string
  ic_ProtocolVersion :: string
  ic_Transport :: transport
  ic_TenantHint :: string
  ic_TenantId :: string
  ic_ReceivedAt :: "time option"
  ic_RemoteAddr :: string
  ic_LocalAddr :: string
  ic_Frame :: "frame_context option"
  ic_Labels :: string_map
  ic_Extensions :: "any_map option"

record p_metric =
  pm_Name :: string
  pm_Value :: "p_value option"
  pm_Unit :: string
  pm_ObservedAt :: "time option"
  pm_LegacyMetricType :: "32 word"
  pm_Tags :: string_map

record p_state =
  pst_Name :: string
  pst_Value :: "p_value option"
  pst_Unit :: string
  pst_ObservedAt :: "time option"
  pst_EntityId :: string
  pst_Tags :: string_map

record p_log =
  pl_Level :: p_log_level
  pl_Message :: string
  pl_Namespace :: string
  pl_ObservedAt :: "time option"
  pl_Fields :: "any_map option"

record raw_payload =
  raw_ContentType :: string
  raw_Body :: bytes
  raw_Json :: "any_map option"
  raw_Text :: string

record p_receipt =
  prc_CommandId :: int
  prc_CommandUuid :: string
  prc_Status :: p_command_status
  prc_ProtocolCommandCode :: "32 word"
  prc_Operation :: string
  prc_ErrorText :: string
  prc_ObservedAt :: "time option"
  prc_Raw :: "raw_payload option"

record device_event =
  de_EventId :: string
  de_EventSource :: string
  de_SpecVersion :: string
  de_EventType :: event_type
  de_EventTypeName :: string
  de_Context :: "ingress_context option"
  de_PrimaryIdentity :: "identity option"
  de_Identities :: "identity list"
  de_Device :: "device_descriptor option"
  de_OccurredAt :: "time option"
  de_ReceivedAt :: "time option"
  de_IdempotencyKey :: string
  de_CorrelationId :: string
  de_Metrics :: "p_metric option list"
  de_States :: "p_state list"
  de_Logs :: "p_log option list"
  de_Availability :: availability
  de_CommandReceipt :: "p_receipt option"
  de_Raw :: "raw_payload option"
  de_Extensions :: "any_map option"

record canonical_command =
  cc_CommandId :: int
  cc_CommandUuid :: string
  cc_TenantId :: string
  cc_Uuid :: string
  cc_TargetIdentity :: "identity option"
  cc_Operation :: string
  cc_ProtocolCommandCode :: "32 word"
  cc_Payload :: "raw_payload option"
  cc_Timeout :: "duration option"
  cc_MaxAttempts :: int
  cc_AdapterOptions :: "any_map option"
  cc_Properties :: string_map
  cc_Labels :: string_map

section \<open>Requests and responses\<close>

record authenticate_request =
  aq_Credentials :: "credential list"
  aq_Identities :: "identity list"
  aq_DeviceHint :: "device_descriptor option"

record authenticate_response =
  ar_Status :: p_auth_status
  ar_Uuid :: string
  ar_TenantId :: string
  ar_Reason :: string
  ar_Device :: "device_descriptor option"

record register_request =
  rq_Device :: "device_descriptor option"
  rq_Raw :: "raw_payload option"

record register_response =
  rr_Status :: registration_status
  rr_Uuid :: string
  rr_TenantId :: string
  rr_Credential :: "credential option"
  rr_Reason :: string
  rr_Device :: "device_descriptor option"

record heartbeat_request =
  hq_PrimaryIdentity :: "identity option"
  hq_Identities :: "identity list"
  hq_Uuid :: string
  hq_Availability :: availability
  hq_ObservedAt :: "time option"

record heartbeat_response =
  hr_Uuid :: string
  hr_TenantId :: string
  hr_Availability :: availability

record ingest_request =
  iq_Events :: "device_event option list"
  iq_AllowPartialSuccess :: bool

record ingest_result =
  ir_EventId :: string
  ir_Success :: bool
  ir_Uuid :: string
  ir_TenantId :: string
  ir_ErrorCode :: string
  ir_ErrorMessage :: go_error

record pull_request =
  pq_Uuid :: string
  pq_PrimaryIdentity :: "identity option"
  pq_Identities :: "identity list"
  pq_MaxCount :: int
  pq_SupportedOperations :: "string list"
  pq_SupportedProtocolNames :: "string list"

record update_request =
  uq_CommandId :: int
  uq_CommandUuid :: string
  uq_Status :: p_command_status
  uq_ErrorText :: string
  uq_ProtocolCommandCode :: "32 word"
  uq_Raw :: "raw_payload option"
  uq_ObservedAt :: "time option"
  uq_Uuid :: string
  uq_TargetIdentity :: "identity option"
  uq_Command :: "canonical_command option"
  uq_Operation :: string

text \<open>Getters of nil messages.\<close>

definition get_value :: "identity option \<Rightarrow> string" where
  "get_value i = (case i of None \<Rightarrow> [] | Some i \<Rightarrow> id_Value i)"

definition as_time :: "time option \<Rightarrow> time" where
  "as_time t = (case t of None \<Rightarrow> 0 | Some t \<Rightarrow> t)"

definition number_value :: "p_value option \<Rightarrow> float64" where
  "number_value v = (case v of Some (NumberValue x) \<Rightarrow> x | _ \<Rightarrow> 0)"

text \<open>The error codes of a call.\<close>

datatype rpc_error = InvalidArgument go_error | Internal go_error | Unavailable

type_synonym 'a rpc = "rpc_error + 'a"

end
