(* ===== verification/Database.thy ===== *)
theory Database
  imports CoreTypes "HOL-Library.Char_ord" "HOL-Library.List_Lexorder" "HOL-Library.Product_Lexorder"
begin

text \<open>
  The SQL database the repositories of \<^verbatim>\<open>go/src/storage\<close> share, as the tables of
  \<^verbatim>\<open>go/db/schema/sqlite.sql\<close> with their keys and constraints. A table is the list of its rows
  in insertion order. Every statement may fail: the field \<open>faults\<close> says, statement by
  statement, which ones the driver refuses (an empty list: none), and a transaction that fails
  leaves the tables as they were.
\<close>

record device_row =
  d_UUID :: string
  d_TenantID :: string
  d_Name :: string
  d_HWVersion :: string
  d_SWVersion :: string
  d_ConfigVersion :: string
  d_SerialNumber :: string
  d_MACAddress :: string
  d_CreatedAt :: time
  d_Token :: "string option"
  d_AuthStatus :: auth_status

record metric_row =
  mr_UUID :: string
  mr_TenantID :: string
  mr_TS :: int
  mr_Value :: float32
  mr_Type :: byte

record log_row =
  lg_ID :: int
  lg_UUID :: string
  lg_TenantID :: string
  lg_Level :: string
  lg_Message :: string

record command_row =
  c_ID :: int
  c_TenantID :: string
  c_UUID :: string
  c_CmdID :: core_cmd
  c_Command :: string
  c_PayloadJSON :: "string option"
  c_Status :: command_status
  c_ErrorText :: "string option"
  c_ExecutedAt :: "time option"

record user_row =
  u_ID :: int
  u_Email :: "string option"
  u_Username :: string
  u_Password :: string
  u_Permission :: permission
  u_OAuth2UID :: "string option"
  u_OAuth2Provider :: "string option"
  u_OAuth2AccessToken :: "string option"
  u_OAuth2RefreshToken :: "string option"
  u_OAuth2Expiry :: "time option"
  u_RememberToken :: "string option"
  u_RecoverToken :: "string option"
  u_RecoverTokenExpiry :: "time option"
  u_ConfirmToken :: "string option"
  u_Confirmed :: bool
  u_LastLogin :: "time option"
  u_CreatedAt :: time
  u_UpdatedAt :: time

record external_entity_row =
  xe_ID :: int
  xe_TenantID :: string
  xe_Source :: string
  xe_EntityID :: string
  xe_Domain :: string
  xe_GosterUUID :: string
  xe_DeviceID :: string
  xe_Model :: string
  xe_Name :: string
  xe_RoomName :: string
  xe_Unit :: string
  xe_ValueType :: string
  xe_DeviceClass :: string
  xe_StateClass :: string
  xe_AttributesJSON :: "string option"
  xe_LastStateText :: "string option"
  xe_LastStateNum :: "float64 option"
  xe_LastStateBool :: "int option"
  xe_LastSeenTS :: int

record external_observation_row =
  xo_ID :: int
  xo_TenantID :: string
  xo_Source :: string
  xo_EntityID :: string
  xo_TS :: int
  xo_ValueNum :: "float64 option"
  xo_ValueText :: "string option"
  xo_ValueBool :: "int option"
  xo_ValueJSON :: "string option"
  xo_Unit :: string
  xo_ValueSig :: string
  xo_RawEventJSON :: "string option"

record tables =
  t_devices :: "device_row list"
  t_metrics :: "metric_row list"
  t_logs :: "log_row list"
  t_next_log :: int
  t_commands :: "command_row list"
  t_next_command :: int
  t_users :: "user_row list"
  t_next_user :: int
  t_tenants :: "tenant list"
  t_tenant_users :: "tenant_user list"
  t_invitations :: "tenant_invitation list"
  t_entities :: "external_entity_row list"
  t_next_entity :: int
  t_observations :: "external_observation_row list"
  t_next_observation :: int

definition empty_tables :: tables where
  "empty_tables =
     \<lparr>t_devices = [], t_metrics = [], t_logs = [], t_next_log = 1, t_commands = [],
      t_next_command = 1, t_users = [], t_next_user = 1, t_tenants = [], t_tenant_users = [],
      t_invitations = [], t_entities = [], t_next_entity = 1, t_observations = [],
      t_next_observation = 1\<rparr>"

record db =
  tabs :: tables
  faults :: "bool list"

definition empty_db :: db where "empty_db = \<lparr>tabs = empty_tables, faults = []\<rparr>"

section \<open>Statements and transactions\<close>

type_synonym ('a, 's) action = "'s \<Rightarrow> 'a result \<times> 's"

definition bindE :: "('a, 's) action \<Rightarrow> ('a \<Rightarrow> ('b, 's) action) \<Rightarrow> ('b, 's) action" where
  "bindE m f s = (case m s of (Inl e, s') \<Rightarrow> (Inl e, s') | (Inr x, s') \<Rightarrow> f x s')"

definition returnE :: "'a \<Rightarrow> ('a, 's) action" where
  "returnE x s = (Inr x, s)"

definition failE :: "go_error \<Rightarrow> ('a, 's) action" where
  "failE e s = (Inl e, s)"

text \<open>\<open>if err := m; err != nil { return h(err) }\<close>\<close>

definition catchE :: "('a, 's) action \<Rightarrow> (go_error \<Rightarrow> ('a, 's) action) \<Rightarrow> ('a, 's) action" where
  "catchE m h s = (case m s of (Inl e, s') \<Rightarrow> h e s' | (Inr x, s') \<Rightarrow> (Inr x, s'))"

lemmas actionE_defs = bindE_def returnE_def failE_def catchE_def

definition run_stmt :: "(tables \<Rightarrow> 'a result \<times> tables) \<Rightarrow> ('a, db) action" where
  "run_stmt f d =
     (case faults d of
        True # fs \<Rightarrow> (Inl ErrDB, d\<lparr>faults := fs\<rparr>)
      | fs \<Rightarrow> (case f (tabs d) of
                 (Inl e, t) \<Rightarrow> (Inl e, d\<lparr>faults := tl fs\<rparr>)
               | (Inr x, t) \<Rightarrow> (Inr x, d\<lparr>tabs := t, faults := tl fs\<rparr>)))"

definition run_query :: "(tables \<Rightarrow> 'a) \<Rightarrow> ('a, db) action" where
  "run_query f = run_stmt (\<lambda>t. (Inr (f t), t))"

text \<open>BEGIN and COMMIT are statements; a transaction that does not commit is rolled back.\<close>

definition run_tx :: "('a, db) action \<Rightarrow> ('a, db) action" where
  "run_tx body d =
     (case run_query (\<lambda>t. ()) d of
        (Inl e, d1) \<Rightarrow> (Inl e, d1)
      | (Inr _, d1) \<Rightarrow>
          (case body d1 of
             (Inl e, d2) \<Rightarrow> (Inl e, d2\<lparr>tabs := tabs d\<rparr>)
           | (Inr x, d2) \<Rightarrow>
               (case run_query (\<lambda>t. ()) d2 of
                  (Inl e, d3) \<Rightarrow> (Inl e, d3\<lparr>tabs := tabs d\<rparr>)
                | (Inr _, d3) \<Rightarrow> (Inr x, d3))))"

lemma run_stmt_cases:
  obtains (fault) fs where "faults d = True # fs" "run_stmt f d = (Inl ErrDB, d\<lparr>faults := fs\<rparr>)"
  | (err) e t where "f (tabs d) = (Inl e, t)" "run_stmt f d = (Inl e, d\<lparr>faults := tl (faults d)\<rparr>)"
  | (ok) x t where "f (tabs d) = (Inr x, t)"
      "run_stmt f d = (Inr x, d\<lparr>tabs := t, faults := tl (faults d)\<rparr>)"
proof (cases "faults d")
  case Nil
  then show ?thesis using err ok by (cases "f (tabs d)"; cases "fst (f (tabs d))") (auto simp: run_stmt_def)
next
  case (Cons b fs)
  then show ?thesis using fault err ok
    by (cases b; cases "f (tabs d)"; cases "fst (f (tabs d))") (auto simp: run_stmt_def)
qed

lemma run_stmt_Inl: "run_stmt f d = (Inl e, d') \<Longrightarrow> tabs d' = tabs d"
  by (cases f d rule: run_stmt_cases) auto

lemma run_stmt_Inr:
  "run_stmt f d = (Inr x, d') \<Longrightarrow> f (tabs d) = (Inr x, tabs d')"
  by (cases f d rule: run_stmt_cases) auto

lemma run_stmt_result:
  "run_stmt f d = (Inr x, d') \<Longrightarrow> fst (f (tabs d)) = Inr x \<and> tabs d' = snd (f (tabs d))"
  by (drule run_stmt_Inr) simp

lemma run_query_tabs: "run_query f d = (r, d') \<Longrightarrow> tabs d' = tabs d"
  by (cases r) (auto simp: run_query_def dest: run_stmt_Inl run_stmt_Inr)

lemma run_query_Inr: "run_query f d = (Inr x, d') \<Longrightarrow> x = f (tabs d)"
  by (auto simp: run_query_def dest: run_stmt_Inr)

lemma run_query_Inl: "run_query f d = (Inl e, d') \<Longrightarrow> e = ErrDB"
  by (auto simp: run_query_def run_stmt_def split: list.splits bool.splits)

lemma run_query_cases:
  obtains (fault) d' where "run_query f d = (Inl ErrDB, d')" "tabs d' = tabs d"
  | (ok) d' where "run_query f d = (Inr (f (tabs d)), d')" "tabs d' = tabs d"
proof (cases "run_query f d")
  case (Pair r d')
  then show ?thesis
    using fault ok run_query_tabs [OF Pair] run_query_Inr [of f d _ d'] run_query_Inl [of f d _ d']
    by (cases r) auto
qed

lemma find_SomeD: "find P xs = Some x \<Longrightarrow> P x \<and> x \<in> set xs"
  by (auto simp: find_Some_iff)

text \<open>Without faults every statement runs.\<close>

lemma run_stmt_no_fault [simp]:
  "faults d = [] \<Longrightarrow> run_stmt f d =
     (case f (tabs d) of (Inl e, t) \<Rightarrow> (Inl e, d) | (Inr x, t) \<Rightarrow> (Inr x, d\<lparr>tabs := t\<rparr>))"
  by (cases d) (auto simp: run_stmt_def split: prod.splits sum.splits)

lemma run_query_no_fault [simp]: "faults d = [] \<Longrightarrow> run_query f d = (Inr (f (tabs d)), d)"
  by (cases d) (auto simp: run_query_def run_stmt_def)

text \<open>A transaction is atomic: it fails and changes no table, or its body ran and was committed.\<close>

lemma run_tx_Inl: "run_tx body d = (Inl e, d') \<Longrightarrow> tabs d' = tabs d"
  by (auto simp: run_tx_def split: prod.splits sum.splits dest: run_query_tabs)

lemma run_tx_Inr:
  assumes "run_tx body d = (Inr x, d')"
  obtains d1 d2 where "tabs d1 = tabs d" "body d1 = (Inr x, d2)" "tabs d' = tabs d2"
  using assms by (auto simp: run_tx_def split: prod.splits sum.splits dest: run_query_tabs)

lemma bindE_Inr:
  assumes "bindE m f s = (Inr x, s'')"
  obtains y s' where "m s = (Inr y, s')" "f y s' = (Inr x, s'')"
  using assms by (auto simp: bindE_def split: prod.splits sum.splits)

lemma bindE_simps [simp]:
  "m s = (Inr y, s') \<Longrightarrow> bindE m f s = f y s'"
  "m s = (Inl e, s') \<Longrightarrow> bindE m f s = (Inl e, s')"
  by (simp_all add: bindE_def)

lemma actionE_simps [simp]:
  "returnE x s = (Inr x, s)"
  "failE e s = (Inl e, s)"
  "m s = (Inr y, s') \<Longrightarrow> catchE m h s = (Inr y, s')"
  "m s = (Inl e, s') \<Longrightarrow> catchE m h s = h e s'"
  by (simp_all add: actionE_defs)

section \<open>Pages\<close>

text \<open>\<open>LIMIT size OFFSET (page - 1) * size\<close> with the defaults the repositories apply.\<close>

definition page_of :: "int \<Rightarrow> int \<Rightarrow> 'a list \<Rightarrow> 'a list" where
  "page_of page sz xs =
     (let page = (if page \<le> 0 then 1 else page);
          sz = (if sz \<le> 0 then 100 else sz)
      in take (nat sz) (drop (nat ((page - 1) * sz)) xs))"

lemma page_of_length: "0 < sz \<Longrightarrow> length (page_of page sz xs) \<le> nat sz"
  by (simp add: page_of_def Let_def)

text \<open>Consecutive pages are consecutive segments.\<close>

lemma pages_concat:
  assumes "0 < sz"
  shows "concat (map (\<lambda>p. page_of (int p + 1) sz xs) [0..<n]) = take (n * nat sz) xs"
proof (induction n)
  case (Suc n)
  have "nat (int n * sz) = n * nat sz"
    using assms by (simp add: nat_mult_distrib)
  then have "page_of (int n + 1) sz xs = take (nat sz) (drop (n * nat sz) xs)"
    using assms by (simp add: page_of_def Let_def)
  moreover have "take (Suc n * nat sz) xs = take (n * nat sz) xs @ take (nat sz) (drop (n * nat sz) xs)"
    by (metis add.commute mult_Suc take_add)
  ultimately show ?case using Suc by (simp add: add.commute del: mult_Suc)
qed simp

end
