(* ===== verification/DeviceStore.thy ===== *)
theory DeviceStore
  imports Database
begin

text \<open>
  \<^verbatim>\<open>storage/device/repository.go\<close> with the row model of \<^verbatim>\<open>bunrepo/device_models.go\<close>, and the
  interface \<^verbatim>\<open>inter.DeviceRegistryStore\<close> it implements: a record of operations and a locale of
  the laws its clients rely on. Operations take the current time where the code calls
  \<open>time.Now\<close>.
\<close>

section \<open>Rows\<close>

definition NewDeviceModelInTenant ::
    "string \<Rightarrow> string \<Rightarrow> device_metadata \<Rightarrow> time \<Rightarrow> device_row" where
  "NewDeviceModelInTenant tenantID uuid meta now =
     \<lparr>d_UUID = uuid, d_TenantID = NormalizeTenantID tenantID, d_Name = dm_Name meta,
      d_HWVersion = dm_HWVersion meta, d_SWVersion = dm_SWVersion meta,
      d_ConfigVersion = dm_ConfigVersion meta, d_SerialNumber = dm_SerialNumber meta,
      d_MACAddress = dm_MACAddress meta, d_CreatedAt = now,
      d_Token = NullableToken (dm_Token meta), d_AuthStatus = dm_AuthenticateStatus meta\<rparr>"

definition ToMetadata :: "device_row \<Rightarrow> device_metadata" where
  "ToMetadata m =
     \<lparr>dm_Name = d_Name m, dm_HWVersion = d_HWVersion m, dm_SWVersion = d_SWVersion m,
      dm_ConfigVersion = d_ConfigVersion m, dm_SerialNumber = d_SerialNumber m,
      dm_MACAddress = d_MACAddress m, dm_CreatedAt = d_CreatedAt m,
      dm_Token = (case d_Token m of None \<Rightarrow> [] | Some t \<Rightarrow> t),
      dm_AuthenticateStatus = d_AuthStatus m\<rparr>"

definition ToRecord :: "device_row \<Rightarrow> device_record" where
  "ToRecord m = \<lparr>rec_UUID = d_UUID m, rec_Meta = ToMetadata m\<rparr>"

definition find_device :: "string \<Rightarrow> tables \<Rightarrow> device_row option" where
  "find_device uuid t = find (\<lambda>r. d_UUID r = uuid) (t_devices t)"

text \<open>The unique key on the token column: NULL tokens never collide.\<close>

definition token_taken :: "string \<Rightarrow> string option \<Rightarrow> tables \<Rightarrow> bool" where
  "token_taken uuid tok t \<longleftrightarrow>
     tok \<noteq> None \<and> (\<exists>r \<in> set (t_devices t). d_UUID r \<noteq> uuid \<and> d_Token r = tok)"

definition map_devices :: "string \<Rightarrow> (device_row \<Rightarrow> device_row) \<Rightarrow> tables \<Rightarrow> tables" where
  "map_devices uuid f t =
     t\<lparr>t_devices := map (\<lambda>r. if d_UUID r = uuid then f r else r) (t_devices t)\<rparr>"

section \<open>The repository\<close>

definition device_InitDeviceInTenant ::
    "string \<Rightarrow> string \<Rightarrow> device_metadata \<Rightarrow> time \<Rightarrow> (unit, db) action" where
  "device_InitDeviceInTenant tenantID uuid meta now =
     run_stmt (\<lambda>t.
       let row = NewDeviceModelInTenant tenantID uuid meta now
       in if find_device uuid t \<noteq> None \<or> token_taken uuid (d_Token row) t then (Inl ErrDB, t)
          else (Inr (), t\<lparr>t_devices := t_devices t @ [row]\<rparr>))"

definition device_InitDevice :: "string \<Rightarrow> device_metadata \<Rightarrow> time \<Rightarrow> (unit, db) action" where
  "device_InitDevice uuid meta now = device_InitDeviceInTenant DefaultTenantID uuid meta now"

definition device_DestroyDevice :: "string \<Rightarrow> (unit, db) action" where
  "device_DestroyDevice uuid =
     run_tx
       (bindE (run_stmt (\<lambda>t. (Inr (length (filter (\<lambda>r. d_UUID r = uuid) (t_devices t))),
                             t\<lparr>t_devices := filter (\<lambda>r. d_UUID r \<noteq> uuid) (t_devices t)\<rparr>)))
         (\<lambda>rows. if rows = 0 then failE ErrDeviceNotFound
          else bindE (run_stmt (\<lambda>t.
                 (Inr (), t\<lparr>t_metrics := filter (\<lambda>r. mr_UUID r \<noteq> uuid) (t_metrics t)\<rparr>)))
               (\<lambda>_. run_stmt (\<lambda>t.
                 (Inr (), t\<lparr>t_logs := filter (\<lambda>r. lg_UUID r \<noteq> uuid) (t_logs t)\<rparr>)))))"

definition device_LoadConfig :: "string \<Rightarrow> (device_metadata, db) action" where
  "device_LoadConfig uuid =
     bindE (run_query (find_device uuid))
       (\<lambda>r. case r of None \<Rightarrow> failE ErrDeviceNotFound | Some row \<Rightarrow> returnE (ToMetadata row))"

definition device_SaveMetadata :: "string \<Rightarrow> device_metadata \<Rightarrow> (unit, db) action" where
  "device_SaveMetadata uuid meta =
     run_stmt (\<lambda>t.
       let tok = NullableToken (dm_Token meta)
       in if find_device uuid t \<noteq> None \<and> token_taken uuid tok t then (Inl ErrDB, t)
          else (Inr (), map_devices uuid (\<lambda>r. r
            \<lparr>d_Name := dm_Name meta, d_HWVersion := dm_HWVersion meta,
             d_SWVersion := dm_SWVersion meta, d_ConfigVersion := dm_ConfigVersion meta,
             d_SerialNumber := dm_SerialNumber meta, d_MACAddress := dm_MACAddress meta,
             d_AuthStatus := dm_AuthenticateStatus meta, d_Token := tok\<rparr>) t))"

text \<open>\<open>ORDER BY created_at ASC, uuid ASC\<close>\<close>

definition ordered_devices :: "tables \<Rightarrow> device_row list" where
  "ordered_devices t = sort_key (\<lambda>r. (d_CreatedAt r, d_UUID r)) (t_devices t)"

definition device_ListDevices :: "int \<Rightarrow> int \<Rightarrow> (device_record list, db) action" where
  "device_ListDevices page sz =
     run_query (\<lambda>t. map ToRecord (page_of page sz (ordered_devices t)))"

definition device_ListDevicesByStatus ::
    "auth_status \<Rightarrow> int \<Rightarrow> int \<Rightarrow> (device_record list, db) action" where
  "device_ListDevicesByStatus status page sz =
     run_query (\<lambda>t. map ToRecord (page_of page sz
       (filter (\<lambda>r. d_AuthStatus r = status) (ordered_devices t))))"

definition device_GetDeviceByToken :: "string \<Rightarrow> (string \<times> auth_status, db) action" where
  "device_GetDeviceByToken token =
     bindE (run_query (\<lambda>t. find (\<lambda>r. d_Token r = Some token) (t_devices t)))
       (\<lambda>r. case r of None \<Rightarrow> failE ErrDeviceTokenNotFound
            | Some row \<Rightarrow> returnE (d_UUID row, d_AuthStatus row))"

definition device_UpdateToken :: "string \<Rightarrow> string \<Rightarrow> (unit, db) action" where
  "device_UpdateToken uuid newToken =
     bindE
       (run_stmt (\<lambda>t.
         if find_device uuid t \<noteq> None \<and> token_taken uuid (NullableToken newToken) t
         then (Inl ErrDB, t)
         else (Inr (find_device uuid t \<noteq> None),
               map_devices uuid (\<lambda>r. r\<lparr>d_Token := NullableToken newToken\<rparr>) t)))
       (\<lambda>affected. if affected then returnE () else failE ErrDeviceNotFound)"

definition device_ResolveDeviceTenant :: "string \<Rightarrow> (string, db) action" where
  "device_ResolveDeviceTenant uuid =
     bindE (run_query (find_device uuid))
       (\<lambda>r. case r of None \<Rightarrow> failE ErrDeviceNotFound
            | Some row \<Rightarrow> returnE (if TrimSpace (d_TenantID row) \<noteq> []
                                  then TrimSpace (d_TenantID row) else DefaultTenantID))"

definition device_LoadConfigByTenant :: "string \<Rightarrow> string \<Rightarrow> (device_metadata, db) action" where
  "device_LoadConfigByTenant tenantID uuid =
     bindE (run_query (\<lambda>t. find (\<lambda>r. d_UUID r = uuid \<and> d_TenantID r = NormalizeTenantID tenantID)
                             (t_devices t)))
       (\<lambda>r. case r of None \<Rightarrow> failE ErrDeviceNotFound | Some row \<Rightarrow> returnE (ToMetadata row))"

definition device_ListDevicesByTenant ::
    "string \<Rightarrow> auth_status option \<Rightarrow> int \<Rightarrow> int \<Rightarrow> (device_record list, db) action" where
  "device_ListDevicesByTenant tenantID status page sz =
     run_query (\<lambda>t. map ToRecord (page_of page sz
       (filter (\<lambda>r. d_TenantID r = NormalizeTenantID tenantID \<and>
                    (case status of None \<Rightarrow> True | Some s \<Rightarrow> d_AuthStatus r = s))
          (ordered_devices t))))"

section \<open>The interface\<close>

record 'd device_store_ops =
  ds_InitDevice :: "string \<Rightarrow> device_metadata \<Rightarrow> time \<Rightarrow> (unit, 'd) action"
  ds_InitDeviceInTenant :: "string \<Rightarrow> string \<Rightarrow> device_metadata \<Rightarrow> time \<Rightarrow> (unit, 'd) action"
  ds_DestroyDevice :: "string \<Rightarrow> (unit, 'd) action"
  ds_LoadConfig :: "string \<Rightarrow> (device_metadata, 'd) action"
  ds_SaveMetadata :: "string \<Rightarrow> device_metadata \<Rightarrow> (unit, 'd) action"
  ds_ListDevices :: "int \<Rightarrow> int \<Rightarrow> (device_record list, 'd) action"
  ds_ListDevicesByStatus :: "auth_status \<Rightarrow> int \<Rightarrow> int \<Rightarrow> (device_record list, 'd) action"
  ds_GetDeviceByToken :: "string \<Rightarrow> (string \<times> auth_status, 'd) action"
  ds_UpdateToken :: "string \<Rightarrow> string \<Rightarrow> (unit, 'd) action"
  ds_ResolveDeviceTenant :: "string \<Rightarrow> (string, 'd) action"
  ds_LoadConfigByTenant :: "string \<Rightarrow> string \<Rightarrow> (device_metadata, 'd) action"
  ds_ListDevicesByTenant ::
    "string \<Rightarrow> auth_status option \<Rightarrow> int \<Rightarrow> int \<Rightarrow> (device_record list, 'd) action"

text \<open>What saving \<open>m\<close> over \<open>old\<close> stores: the creation time stays, the token is trimmed.\<close>

definition stored_metadata :: "device_metadata \<Rightarrow> time \<Rightarrow> device_metadata" where
  "stored_metadata m created = m\<lparr>dm_CreatedAt := created, dm_Token := TrimSpace (dm_Token m)\<rparr>"

text \<open>
  \<open>devs d u\<close> is the tenant and the metadata of device \<open>u\<close>. An operation that fails changes
  nothing; which error it returns matters only for \<open>ErrDeviceNotFound\<close>.
\<close>

locale device_store =
  fixes D :: "'d device_store_ops" and devs :: "'d \<Rightarrow> string \<Rightarrow> (string \<times> device_metadata) option"
    and store_inv :: "'d \<Rightarrow> bool"
  assumes load_frame: "store_inv d \<Longrightarrow> ds_LoadConfig D u d = (r, d') \<Longrightarrow>
      store_inv d' \<and> devs d' = devs d"
    and load_ok: "store_inv d \<Longrightarrow> ds_LoadConfig D u d = (Inr m, d') \<Longrightarrow> \<exists>t. devs d u = Some (t, m)"
    and load_missing: "store_inv d \<Longrightarrow> ds_LoadConfig D u d = (Inl ErrDeviceNotFound, d') \<Longrightarrow>
      devs d u = None"
    and token_frame: "store_inv d \<Longrightarrow> ds_GetDeviceByToken D tok d = (rt, d') \<Longrightarrow>
      store_inv d' \<and> devs d' = devs d"
    and token_ok: "store_inv d \<Longrightarrow> ds_GetDeviceByToken D tok d = (Inr (u, st), d') \<Longrightarrow>
      \<exists>t m. devs d u = Some (t, m) \<and> dm_Token m = tok \<and> tok \<noteq> [] \<and> dm_AuthenticateStatus m = st"
    and save_inv: "store_inv d \<Longrightarrow> ds_SaveMetadata D u m d = (ru, d') \<Longrightarrow> store_inv d'"
    and save_fail: "store_inv d \<Longrightarrow> ds_SaveMetadata D u m d = (Inl e, d') \<Longrightarrow> devs d' = devs d"
    and save_ok: "store_inv d \<Longrightarrow> ds_SaveMetadata D u m d = (Inr x, d') \<Longrightarrow>
      devs d' = (devs d)(u := map_option
        (\<lambda>(t, old). (t, stored_metadata m (dm_CreatedAt old))) (devs d u))"
    and update_inv: "store_inv d \<Longrightarrow> ds_UpdateToken D u tok d = (ru, d') \<Longrightarrow> store_inv d'"
    and update_fail: "store_inv d \<Longrightarrow> ds_UpdateToken D u tok d = (Inl e, d') \<Longrightarrow>
      devs d' = devs d"
    and update_ok: "store_inv d \<Longrightarrow> ds_UpdateToken D u tok d = (Inr x, d') \<Longrightarrow>
      \<exists>t m. devs d u = Some (t, m) \<and> devs d' = (devs d)(u \<mapsto> (t, m\<lparr>dm_Token := TrimSpace tok\<rparr>))"
    and destroy_inv: "store_inv d \<Longrightarrow> ds_DestroyDevice D u d = (ru, d') \<Longrightarrow> store_inv d'"
    and destroy_fail: "store_inv d \<Longrightarrow> ds_DestroyDevice D u d = (Inl e, d') \<Longrightarrow> devs d' = devs d"
    and destroy_ok: "store_inv d \<Longrightarrow> ds_DestroyDevice D u d = (Inr x, d') \<Longrightarrow>
      devs d u \<noteq> None \<and> devs d' = (devs d)(u := None)"
    and init_inv: "store_inv d \<Longrightarrow> ds_InitDeviceInTenant D tn u m now d = (ru, d') \<Longrightarrow> store_inv d'"
    and init_fail: "store_inv d \<Longrightarrow> ds_InitDeviceInTenant D tn u m now d = (Inl e, d') \<Longrightarrow>
      devs d' = devs d"
    and init_ok: "store_inv d \<Longrightarrow> ds_InitDeviceInTenant D tn u m now d = (Inr x, d') \<Longrightarrow>
      devs d u = None \<and> devs d' = (devs d)(u \<mapsto> (NormalizeTenantID tn, stored_metadata m now))"
    and init_default: "ds_InitDevice D = ds_InitDeviceInTenant D DefaultTenantID"

section \<open>The repository provides it\<close>

definition device_repository :: "db device_store_ops" where
  "device_repository =
     \<lparr>ds_InitDevice = device_InitDevice, ds_InitDeviceInTenant = device_InitDeviceInTenant,
      ds_DestroyDevice = device_DestroyDevice, ds_LoadConfig = device_LoadConfig,
      ds_SaveMetadata = device_SaveMetadata, ds_ListDevices = device_ListDevices,
      ds_ListDevicesByStatus = device_ListDevicesByStatus,
      ds_GetDeviceByToken = device_GetDeviceByToken, ds_UpdateToken = device_UpdateToken,
      ds_ResolveDeviceTenant = device_ResolveDeviceTenant,
      ds_LoadConfigByTenant = device_LoadConfigByTenant,
      ds_ListDevicesByTenant = device_ListDevicesByTenant\<rparr>"

definition db_devs :: "db \<Rightarrow> string \<Rightarrow> (string \<times> device_metadata) option" where
  "db_devs d u = map_option (\<lambda>r. (d_TenantID r, ToMetadata r)) (find_device u (tabs d))"

text \<open>The keys of the devices table, and no stored token is blank.\<close>

definition devices_ok :: "device_row list \<Rightarrow> bool" where
  "devices_ok rows \<longleftrightarrow>
     distinct (map d_UUID rows) \<and>
     (\<forall>r \<in> set rows. d_Token r \<noteq> Some []) \<and>
     (\<forall>r \<in> set rows. \<forall>s \<in> set rows. \<forall>x. d_Token r = Some x \<and> d_Token s = Some x \<longrightarrow>
       d_UUID r = d_UUID s) \<and>
     (\<forall>r \<in> set rows. NormalizeTenantID (d_TenantID r) = d_TenantID r)"

definition db_devices_ok :: "db \<Rightarrow> bool" where
  "db_devices_ok d \<longleftrightarrow> devices_ok (t_devices (tabs d))"

lemma empty_db_devices_ok [simp]: "db_devices_ok empty_db"
  by (simp add: db_devices_ok_def devices_ok_def empty_db_def empty_tables_def)

lemma NullableToken_not_blank [simp]: "NullableToken t \<noteq> Some []"
  by (simp add: NullableToken_def Let_def)

lemma NullableToken_text: "(case NullableToken t of None \<Rightarrow> [] | Some x \<Rightarrow> x) = TrimSpace t"
  by (simp add: NullableToken_def Let_def)

lemma find_device_iff:
  "distinct (map d_UUID (t_devices t)) \<Longrightarrow>
   find_device u t = Some r \<longleftrightarrow> r \<in> set (t_devices t) \<and> d_UUID r = u"
proof -
  have "distinct (map d_UUID rows) \<Longrightarrow>
      find (\<lambda>r. d_UUID r = u) rows = Some r \<longleftrightarrow> r \<in> set rows \<and> d_UUID r = u" for rows
    by (induction rows) force+
  then show "distinct (map d_UUID (t_devices t)) \<Longrightarrow> ?thesis" by (simp add: find_device_def)
qed

lemma find_device_None: "find_device u t = None \<longleftrightarrow> u \<notin> d_UUID ` set (t_devices t)"
  by (auto simp: find_device_def find_None_iff)

lemma find_device_append:
  "find_device u t = None \<Longrightarrow>
   find_device v (t\<lparr>t_devices := t_devices t @ [row]\<rparr>) =
     (if v = d_UUID row then (if find_device v t = None then Some row else find_device v t)
      else find_device v t)"
proof -
  have "find P (rows @ [row]) = (case find P rows of None \<Rightarrow> if P row then Some row else None
      | Some r \<Rightarrow> Some r)" for P rows
    by (induction rows) auto
  then show ?thesis by (auto simp: find_device_def split: option.splits)
qed

lemma find_device_remove:
  "find_device v (t\<lparr>t_devices := filter (\<lambda>r. d_UUID r \<noteq> u) (t_devices t)\<rparr>) =
   (if v = u then None else find_device v t)"
proof -
  have "find (\<lambda>r. d_UUID r = v) (filter (\<lambda>r. d_UUID r \<noteq> u) rows) =
      (if v = u then None else find (\<lambda>r. d_UUID r = v) rows)" for rows
    by (induction rows) auto
  from this [of "t_devices t"] show ?thesis by (simp add: find_device_def)
qed

lemma find_device_map:
  assumes "\<And>r. d_UUID (f r) = d_UUID r"
  shows "find_device v (map_devices u f t) =
    (if v = u then map_option f (find_device v t) else find_device v t)"
proof -
  have "find (\<lambda>r. d_UUID r = v) (map (\<lambda>r. if d_UUID r = u then f r else r) rows) =
      (if v = u then map_option f (find (\<lambda>r. d_UUID r = v) rows)
       else find (\<lambda>r. d_UUID r = v) rows)" for rows
    by (induction rows) (auto simp: assms)
  then show ?thesis by (simp add: find_device_def map_devices_def)
qed

lemma devices_okD:
  assumes "devices_ok rows"
  shows "distinct (map d_UUID rows)"
    and "r \<in> set rows \<Longrightarrow> d_Token r \<noteq> Some []"
    and "r \<in> set rows \<Longrightarrow> s \<in> set rows \<Longrightarrow> d_Token r = Some x \<Longrightarrow> d_Token s = Some x \<Longrightarrow>
      d_UUID r = d_UUID s"
    and "r \<in> set rows \<Longrightarrow> NormalizeTenantID (d_TenantID r) = d_TenantID r"
  using assms unfolding devices_ok_def by blast+

lemma devices_ok_map:
  assumes ok: "devices_ok (t_devices t)"
    and f: "\<And>r. d_UUID (f r) = d_UUID r" "\<And>r. d_TenantID (f r) = d_TenantID r" "\<And>r. d_Token (f r) = tok"
    and tok: "tok \<noteq> Some []" "find_device u t \<noteq> None \<longrightarrow> \<not> token_taken u tok t"
  shows "devices_ok (t_devices (map_devices u f t))"
proof -
  define g where "g r = (if d_UUID r = u then f r else r)" for r
  have ids: "d_UUID (g r) = d_UUID r" for r using f by (simp add: g_def)
  have "map d_UUID (map g (t_devices t)) = map d_UUID (t_devices t)"
    by (simp add: comp_def ids)
  moreover have "d_UUID r = d_UUID s"
    if rs: "r \<in> set (t_devices t)" "s \<in> set (t_devices t)"
      and eq: "d_Token (g r) = Some x" "d_Token (g s) = Some x" for r s x
  proof -
    have free: "d_Token x \<noteq> tok" if "d_UUID y = u" "d_UUID x \<noteq> u" "tok \<noteq> None"
      "x \<in> set (t_devices t)" "y \<in> set (t_devices t)" for x y
    proof -
      have "find_device u t \<noteq> None" using that by (auto simp: find_device_None)
      with tok(2) that show ?thesis unfolding token_taken_def by blast
    qed
    consider "d_UUID r = u" "d_UUID s = u" | "d_UUID r = u" "d_UUID s \<noteq> u"
      | "d_UUID r \<noteq> u" "d_UUID s = u" | "d_UUID r \<noteq> u" "d_UUID s \<noteq> u" by blast
    then show ?thesis
    proof cases
      case 2
      with eq free [of r s] rs show ?thesis by (simp add: f g_def)
    next
      case 3
      with eq free [of s r] rs show ?thesis by (simp add: f g_def)
    next
      case 4
      with eq rs show ?thesis by (intro devices_okD(3) [OF ok]) (simp_all add: g_def)
    qed simp
  qed
  moreover have "\<forall>r \<in> set (t_devices t). d_Token (g r) \<noteq> Some []"
    and "\<forall>r \<in> set (t_devices t). NormalizeTenantID (d_TenantID (g r)) = d_TenantID (g r)"
    using devices_okD(2,4) [OF ok] tok(1) by (simp_all add: f g_def)
  moreover note devices_okD(1) [OF ok]
  moreover have "t_devices (map_devices u f t) = map g (t_devices t)"
    by (simp add: map_devices_def g_def)
  ultimately show ?thesis
    unfolding devices_ok_def by (auto simp: ids comp_def)
qed

lemma devices_ok_append:
  assumes ok: "devices_ok (t_devices t)" and new: "find_device (d_UUID row) t = None"
    and tok: "\<not> token_taken (d_UUID row) (d_Token row) t" "d_Token row \<noteq> Some []"
    and tn: "NormalizeTenantID (d_TenantID row) = d_TenantID row"
  shows "devices_ok (t_devices t @ [row])"
proof -
  have u: "d_UUID r \<noteq> d_UUID row" if "r \<in> set (t_devices t)" for r
    using new that unfolding find_device_None by (metis image_eqI)
  then have free: "d_Token r \<noteq> d_Token row \<or> d_Token row = None" if "r \<in> set (t_devices t)" for r
    using tok(1) that by (auto simp: token_taken_def)
  show ?thesis
    unfolding devices_ok_def
  proof (intro conjI ballI allI impI)
    show "distinct (map d_UUID (t_devices t @ [row]))"
      using devices_okD(1) [OF ok] by (auto dest: u [symmetric])
    fix r assume r: "r \<in> set (t_devices t @ [row])"
    show "d_Token r \<noteq> Some []" "NormalizeTenantID (d_TenantID r) = d_TenantID r"
      using r devices_okD(2,4) [OF ok] tok(2) tn by auto
    fix s x assume "s \<in> set (t_devices t @ [row])" "d_Token r = Some x \<and> d_Token s = Some x"
    then show "d_UUID r = d_UUID s"
      using r devices_okD(3) [OF ok, of r s x] free [of r] free [of s] by auto
  qed
qed

lemma devices_ok_filter: "devices_ok rows \<Longrightarrow> devices_ok (filter P rows)"
  by (auto simp: devices_ok_def distinct_map_filter)

lemma db_devs_cong: "tabs d' = tabs d \<Longrightarrow> db_devs d' = db_devs d"
  by (simp add: db_devs_def fun_eq_iff)

lemma db_devices_ok_cong: "tabs d' = tabs d \<Longrightarrow> db_devices_ok d' = db_devices_ok d"
  by (simp add: db_devices_ok_def)

lemma device_LoadConfig_spec:
  assumes "device_LoadConfig u d = (r, d')"
  shows "tabs d' = tabs d \<and>
    (\<forall>m. r = Inr m \<longrightarrow> (\<exists>row. find_device u (tabs d) = Some row \<and> m = ToMetadata row)) \<and>
    (r = Inl ErrDeviceNotFound \<longrightarrow> find_device u (tabs d) = None)"
  using assms
  by (cases "find_device u" d rule: run_query_cases)
     (auto simp: device_LoadConfig_def split: option.splits)

lemma device_GetDeviceByToken_spec:
  assumes "device_GetDeviceByToken tok d = (r, d')"
  shows "tabs d' = tabs d \<and>
    (\<forall>u st. r = Inr (u, st) \<longrightarrow>
      (\<exists>row \<in> set (t_devices (tabs d)). d_Token row = Some tok \<and> u = d_UUID row \<and> st = d_AuthStatus row))"
  using assms
  by (cases "\<lambda>t :: tables. find (\<lambda>r. d_Token r = Some tok) (t_devices t)" d rule: run_query_cases)
     (auto simp: device_GetDeviceByToken_def split: option.splits dest!: find_SomeD)

lemma device_SaveMetadata_spec:
  assumes ok: "db_devices_ok d" and run: "device_SaveMetadata u m d = (r, d')"
  shows "db_devices_ok d' \<and> (\<forall>e. r = Inl e \<longrightarrow> tabs d' = tabs d) \<and>
    (\<forall>x. r = Inr x \<longrightarrow> db_devs d' = (db_devs d)(u := map_option
        (\<lambda>(t, old). (t, stored_metadata m (dm_CreatedAt old))) (db_devs d u)))"
proof (cases r)
  case (Inl e)
  then have "tabs d' = tabs d" using run unfolding device_SaveMetadata_def by (blast dest: run_stmt_Inl)
  with ok Inl show ?thesis by (simp add: db_devices_ok_def)
next
  case (Inr x)
  define tok where "tok = NullableToken (dm_Token m)"
  define f where "f = (\<lambda>r :: device_row. r\<lparr>d_Name := dm_Name m, d_HWVersion := dm_HWVersion m,
     d_SWVersion := dm_SWVersion m, d_ConfigVersion := dm_ConfigVersion m,
     d_SerialNumber := dm_SerialNumber m, d_MACAddress := dm_MACAddress m,
     d_AuthStatus := dm_AuthenticateStatus m, d_Token := tok\<rparr>)"
  have free: "find_device u (tabs d) \<noteq> None \<longrightarrow> \<not> token_taken u tok (tabs d)"
    and t: "tabs d' = map_devices u f (tabs d)"
    using run_stmt_Inr [OF run [unfolded device_SaveMetadata_def Inr]]
    by (auto simp: Let_def tok_def f_def split: if_splits)
  have "devices_ok (t_devices (map_devices u f (tabs d)))"
    by (rule devices_ok_map [where tok = tok])
       (use ok free in \<open>simp_all add: f_def tok_def db_devices_ok_def\<close>)
  moreover have md: "ToMetadata (f row) = stored_metadata m (d_CreatedAt row)"
    "d_TenantID (f row) = d_TenantID row" "d_UUID (f row) = d_UUID row"
    "dm_CreatedAt (ToMetadata row) = d_CreatedAt row" for row
    by (cases m; simp add: f_def tok_def ToMetadata_def stored_metadata_def NullableToken_text)+
  have "db_devs d' v = ((db_devs d)(u := map_option
        (\<lambda>(t, old). (t, stored_metadata m (dm_CreatedAt old))) (db_devs d u))) v" for v
    unfolding db_devs_def t
    by (subst find_device_map) (simp_all add: md option.map_comp comp_def)
  ultimately show ?thesis by (simp add: Inr t db_devices_ok_def fun_eq_iff)
qed

lemma device_UpdateToken_spec:
  assumes ok: "db_devices_ok d" and run: "device_UpdateToken u tok d = (r, d')"
  shows "db_devices_ok d' \<and> (\<forall>e. r = Inl e \<longrightarrow> db_devs d' = db_devs d) \<and>
    (\<forall>x. r = Inr x \<longrightarrow> (\<exists>t m. db_devs d u = Some (t, m) \<and>
        db_devs d' = (db_devs d)(u \<mapsto> (t, m\<lparr>dm_Token := TrimSpace tok\<rparr>))))"
proof -
  define nt where "nt = NullableToken tok"
  define f where "f = (\<lambda>r :: device_row. r\<lparr>d_Token := nt\<rparr>)"
  define st where "st = (\<lambda>t :: tables. if find_device u t \<noteq> None \<and> token_taken u nt t then (Inl ErrDB, t)
         else (Inr (find_device u t \<noteq> None), map_devices u f t))"
  obtain x d1 where x: "run_stmt st d = (x, d1)" by (cases "run_stmt st d") auto
  have r: "(case x of Inl e \<Rightarrow> (Inl e, d1) | Inr a \<Rightarrow> if a then (Inr (), d1)
       else (Inl ErrDeviceNotFound, d1)) = (r, d')"
    using run x unfolding st_def nt_def f_def device_UpdateToken_def bindE_def
    by (cases x) (simp_all only: sum.case prod.case if_distrib [of "\<lambda>m. m d1"] actionE_simps(1,2))
  show ?thesis
  proof (cases x)
    case (Inl e)
    then have "tabs d' = tabs d" using r run_stmt_Inl [of st d e d1] x by simp
    with r Inl ok db_devs_cong [OF this] show ?thesis by (auto simp: db_devices_ok_def)
  next
    case (Inr a)
    from run_stmt_Inr [of st d a d1] x Inr have sd: "st (tabs d) = (Inr a, tabs d1)" by simp
    have free: "\<not> (find_device u (tabs d) \<noteq> None \<and> token_taken u nt (tabs d))"
    proof
      assume "find_device u (tabs d) \<noteq> None \<and> token_taken u nt (tabs d)"
      then have "st (tabs d) = (Inl ErrDB, tabs d)" unfolding st_def by (rule if_P)
      with sd show False by simp
    qed
    then have "st (tabs d) = (Inr (find_device u (tabs d) \<noteq> None), map_devices u f (tabs d))"
      unfolding st_def by (rule if_not_P)
    with sd have a: "a \<longleftrightarrow> find_device u (tabs d) \<noteq> None" and t: "tabs d1 = map_devices u f (tabs d)"
      by auto
    have d': "d' = d1" using r Inr by (auto split: if_splits)
    have "devices_ok (t_devices (map_devices u f (tabs d)))"
      by (rule devices_ok_map [where tok = nt])
         (use ok free in \<open>auto simp: f_def nt_def db_devices_ok_def\<close>)
    moreover have fd: "find_device v (tabs d1) =
        (if v = u then map_option f (find_device v (tabs d)) else find_device v (tabs d))" for v
      unfolding t by (rule find_device_map) (simp add: f_def)
    moreover have "ToMetadata (f row) = ToMetadata row\<lparr>dm_Token := TrimSpace tok\<rparr>" for row
      by (simp add: ToMetadata_def f_def nt_def NullableToken_text)
    ultimately show ?thesis using r Inr a
      by (cases "find_device u (tabs d)")
         (auto simp: d' t db_devices_ok_def db_devs_def fun_eq_iff f_def split: if_splits)
  qed
qed

lemma device_InitDeviceInTenant_spec:
  assumes ok: "db_devices_ok d" and run: "device_InitDeviceInTenant tn u m now d = (r, d')"
  shows "db_devices_ok d' \<and> (\<forall>e. r = Inl e \<longrightarrow> tabs d' = tabs d) \<and>
    (\<forall>x. r = Inr x \<longrightarrow> db_devs d u = None \<and>
      db_devs d' = (db_devs d)(u \<mapsto> (NormalizeTenantID tn, stored_metadata m now)))"
proof (cases r)
  case (Inl e)
  then have "tabs d' = tabs d"
    using run unfolding device_InitDeviceInTenant_def by (blast dest: run_stmt_Inl)
  with ok Inl show ?thesis by (simp add: db_devices_ok_def)
next
  case (Inr x)
  define row where "row = NewDeviceModelInTenant tn u m now"
  have row: "d_UUID row = u" "d_TenantID row = NormalizeTenantID tn" "d_Token row \<noteq> Some []"
    "ToMetadata row = stored_metadata m now"
    by (cases m; simp add: row_def NewDeviceModelInTenant_def ToMetadata_def stored_metadata_def
        NullableToken_text)+
  have free: "find_device u (tabs d) = None" "\<not> token_taken u (d_Token row) (tabs d)"
    and t: "tabs d' = (tabs d)\<lparr>t_devices := t_devices (tabs d) @ [row]\<rparr>"
    using run_stmt_Inr [OF run [unfolded device_InitDeviceInTenant_def Inr]]
    by (simp_all add: Let_def row_def split: if_splits)
  have "devices_ok (t_devices (tabs d) @ [row])"
    by (rule devices_ok_append) (use ok free row in \<open>simp_all add: db_devices_ok_def\<close>)
  moreover have "db_devs d' v = ((db_devs d)(u \<mapsto> (NormalizeTenantID tn, stored_metadata m now))) v" for v
    unfolding db_devs_def t find_device_append [OF free(1)] using free row by auto
  ultimately show ?thesis
    using Inr free by (simp add: t db_devices_ok_def db_devs_def fun_eq_iff)
qed

lemma run_tx_invariant:
  assumes "run_tx body d = (r, d')" and "I (tabs d)"
    and "\<And>d1 x d2. tabs d1 = tabs d \<Longrightarrow> body d1 = (Inr x, d2) \<Longrightarrow> I (tabs d2)"
  shows "I (tabs d')"
proof (cases r)
  case (Inl e)
  with assms(1,2) show ?thesis by (simp add: run_tx_Inl)
next
  case (Inr x)
  with assms(1) have "run_tx body d = (Inr x, d')" by simp
  then show ?thesis by (rule run_tx_Inr) (use assms(3) in auto)
qed

text \<open>A device is destroyed with its metrics and its logs, or nothing is deleted.\<close>

lemma device_DestroyDevice_tables:
  assumes "device_DestroyDevice u d = (Inr x, d')"
  shows "find_device u (tabs d) \<noteq> None \<and>
    tabs d' = (tabs d)\<lparr>t_devices := filter (\<lambda>r. d_UUID r \<noteq> u) (t_devices (tabs d)),
      t_metrics := filter (\<lambda>r. mr_UUID r \<noteq> u) (t_metrics (tabs d)),
      t_logs := filter (\<lambda>r. lg_UUID r \<noteq> u) (t_logs (tabs d))\<rparr>"
  using assms unfolding device_DestroyDevice_def
proof (rule run_tx_Inr)
  fix d1 d2
  assume t: "tabs d1 = tabs d" "tabs d' = tabs d2"
    and body: "bindE (run_stmt (\<lambda>t. (Inr (length (filter (\<lambda>r. d_UUID r = u) (t_devices t))),
                             t\<lparr>t_devices := filter (\<lambda>r. d_UUID r \<noteq> u) (t_devices t)\<rparr>)))
         (\<lambda>rows. if rows = 0 then failE ErrDeviceNotFound
          else bindE (run_stmt (\<lambda>t.
                 (Inr (), t\<lparr>t_metrics := filter (\<lambda>r. mr_UUID r \<noteq> u) (t_metrics t)\<rparr>)))
               (\<lambda>_. run_stmt (\<lambda>t.
                 (Inr (), t\<lparr>t_logs := filter (\<lambda>r. lg_UUID r \<noteq> u) (t_logs t)\<rparr>)))) d1 = (Inr x, d2)"
  from body obtain n e1 where 1: "run_stmt (\<lambda>t. (Inr (length (filter (\<lambda>r. d_UUID r = u) (t_devices t))),
        t\<lparr>t_devices := filter (\<lambda>r. d_UUID r \<noteq> u) (t_devices t)\<rparr>)) d1 = (Inr n, e1)"
      and n: "n \<noteq> 0"
      and b2: "bindE (run_stmt (\<lambda>t.
                 (Inr (), t\<lparr>t_metrics := filter (\<lambda>r. mr_UUID r \<noteq> u) (t_metrics t)\<rparr>)))
               (\<lambda>_. run_stmt (\<lambda>t.
                 (Inr (), t\<lparr>t_logs := filter (\<lambda>r. lg_UUID r \<noteq> u) (t_logs t)\<rparr>))) e1 = (Inr x, d2)"
    by (rule bindE_Inr) (auto split: if_splits)
  from b2 obtain e2 where
      2: "run_stmt (\<lambda>t. (Inr (), t\<lparr>t_metrics := filter (\<lambda>r. mr_UUID r \<noteq> u) (t_metrics t)\<rparr>)) e1 = (Inr (), e2)"
      and 3: "run_stmt (\<lambda>t. (Inr (), t\<lparr>t_logs := filter (\<lambda>r. lg_UUID r \<noteq> u) (t_logs t)\<rparr>)) e2 = (Inr x, d2)"
    by (rule bindE_Inr) auto
  have "n = length (filter (\<lambda>r. d_UUID r = u) (t_devices (tabs d)))"
    using run_stmt_Inr [OF 1] t by simp
  with n have "find_device u (tabs d) \<noteq> None"
    unfolding find_device_None by (auto simp: filter_empty_conv)
  moreover have e1: "tabs e1 = (tabs d)\<lparr>t_devices := filter (\<lambda>r. d_UUID r \<noteq> u) (t_devices (tabs d))\<rparr>"
    using run_stmt_Inr [OF 1] t by simp
  moreover have e2: "tabs e2 = (tabs e1)\<lparr>t_metrics := filter (\<lambda>r. mr_UUID r \<noteq> u) (t_metrics (tabs e1))\<rparr>"
    using run_stmt_Inr [OF 2] by simp
  moreover have "tabs d2 = (tabs e2)\<lparr>t_logs := filter (\<lambda>r. lg_UUID r \<noteq> u) (t_logs (tabs e2))\<rparr>"
    using run_stmt_Inr [OF 3] by simp
  ultimately show ?thesis by (simp add: t(2))
qed

lemma device_DestroyDevice_spec:
  assumes ok: "db_devices_ok d" and run: "device_DestroyDevice u d = (r, d')"
  shows "db_devices_ok d' \<and> (\<forall>e. r = Inl e \<longrightarrow> tabs d' = tabs d) \<and>
    (\<forall>x. r = Inr x \<longrightarrow> db_devs d u \<noteq> None \<and> db_devs d' = (db_devs d)(u := None))"
proof (cases r)
  case (Inl e)
  then have "tabs d' = tabs d"
    using run unfolding device_DestroyDevice_def by (blast dest: run_tx_Inl)
  with ok Inl show ?thesis by (simp add: db_devices_ok_def)
next
  case (Inr x)
  note t = device_DestroyDevice_tables [OF run [unfolded Inr]]
  have "find_device v (tabs d') = (if v = u then None else find_device v (tabs d))" for v
    using find_device_remove [of v u "tabs d"] t by (simp add: find_device_def)
  then have "db_devs d' = (db_devs d)(u := None)" by (simp add: db_devs_def fun_eq_iff)
  with t ok Inr show ?thesis
    by (auto simp: db_devices_ok_def db_devs_def devices_ok_filter)
qed

interpretation sql_devices: device_store device_repository db_devs db_devices_ok
proof
  fix d d' :: db and u tn tok rm m e rt st ru x now
  assume ok: "db_devices_ok d"
  show "db_devices_ok d' \<and> db_devs d' = db_devs d"
    if "ds_LoadConfig device_repository u d = (rm, d')"
    using device_LoadConfig_spec [of u d rm d'] that ok db_devs_cong [of d' d]
    by (simp add: device_repository_def db_devices_ok_def)
  show "\<exists>t. db_devs d u = Some (t, m)" if "ds_LoadConfig device_repository u d = (Inr m, d')"
    using device_LoadConfig_spec [of u d "Inr m" d'] that
    by (auto simp: device_repository_def db_devs_def)
  show "db_devs d u = None"
    if "ds_LoadConfig device_repository u d = (Inl ErrDeviceNotFound, d')"
    using device_LoadConfig_spec [of u d _ d'] that
    by (auto simp: device_repository_def db_devs_def)
  show "db_devices_ok d' \<and> db_devs d' = db_devs d"
    if "ds_GetDeviceByToken device_repository tok d = (rt, d')"
    using device_GetDeviceByToken_spec [of tok d rt d'] that ok db_devs_cong [of d' d]
    by (simp add: device_repository_def db_devices_ok_def)
  show "\<exists>t m. db_devs d u = Some (t, m) \<and> dm_Token m = tok \<and> tok \<noteq> [] \<and> dm_AuthenticateStatus m = st"
    if run: "ds_GetDeviceByToken device_repository tok d = (Inr (u, st), d')"
  proof -
    from device_GetDeviceByToken_spec [of tok d "Inr (u, st)" d'] run obtain row where
      row: "row \<in> set (t_devices (tabs d))" "d_Token row = Some tok" "u = d_UUID row" "st = d_AuthStatus row"
      by (auto simp: device_repository_def)
    note inv = ok [unfolded db_devices_ok_def]
    have "find_device u (tabs d) = Some row"
      using find_device_iff [OF devices_okD(1) [OF inv]] row by blast
    moreover have "tok \<noteq> []" using devices_okD(2) [OF inv row(1)] row(2) by auto
    ultimately show ?thesis using row by (simp add: db_devs_def ToMetadata_def)
  qed
  show "db_devices_ok d'" if "ds_SaveMetadata device_repository u m d = (ru, d')"
    using device_SaveMetadata_spec [OF ok, of u m ru d'] that by (simp add: device_repository_def)
  show "db_devs d' = db_devs d" if "ds_SaveMetadata device_repository u m d = (Inl e, d')"
    using device_SaveMetadata_spec [OF ok, of u m "Inl e" d'] that db_devs_cong [of d' d]
    by (simp add: device_repository_def)
  show "db_devs d' = (db_devs d)(u := map_option
        (\<lambda>(t, old). (t, stored_metadata m (dm_CreatedAt old))) (db_devs d u))"
    if "ds_SaveMetadata device_repository u m d = (Inr x, d')"
    using device_SaveMetadata_spec [OF ok, of u m "Inr x" d'] that by (simp add: device_repository_def)
  show "db_devices_ok d'" if "ds_UpdateToken device_repository u tok d = (ru, d')"
    using device_UpdateToken_spec [OF ok, of u tok ru d'] that by (simp add: device_repository_def)
  show "db_devs d' = db_devs d" if "ds_UpdateToken device_repository u tok d = (Inl e, d')"
    using device_UpdateToken_spec [OF ok, of u tok "Inl e" d'] that by (simp add: device_repository_def)
  show "\<exists>t m. db_devs d u = Some (t, m) \<and> db_devs d' = (db_devs d)(u \<mapsto> (t, m\<lparr>dm_Token := TrimSpace tok\<rparr>))"
    if "ds_UpdateToken device_repository u tok d = (Inr x, d')"
    using device_UpdateToken_spec [OF ok, of u tok "Inr x" d'] that by (simp add: device_repository_def)
  show "db_devices_ok d'" if "ds_DestroyDevice device_repository u d = (ru, d')"
    using device_DestroyDevice_spec [OF ok, of u ru d'] that by (simp add: device_repository_def)
  show "db_devs d' = db_devs d" if "ds_DestroyDevice device_repository u d = (Inl e, d')"
    using device_DestroyDevice_spec [OF ok, of u "Inl e" d'] that db_devs_cong [of d' d]
    by (simp add: device_repository_def)
  show "db_devs d u \<noteq> None \<and> db_devs d' = (db_devs d)(u := None)"
    if "ds_DestroyDevice device_repository u d = (Inr x, d')"
    using device_DestroyDevice_spec [OF ok, of u "Inr x" d'] that by (simp add: device_repository_def)
  show "db_devices_ok d'" if "ds_InitDeviceInTenant device_repository tn u m now d = (ru, d')"
    using device_InitDeviceInTenant_spec [OF ok, of tn u m now ru d'] that
    by (simp add: device_repository_def)
  show "db_devs d' = db_devs d" if "ds_InitDeviceInTenant device_repository tn u m now d = (Inl e, d')"
    using device_InitDeviceInTenant_spec [OF ok, of tn u m now "Inl e" d'] that db_devs_cong [of d' d]
    by (simp add: device_repository_def)
  show "db_devs d u = None \<and> db_devs d' = (db_devs d)(u \<mapsto> (NormalizeTenantID tn, stored_metadata m now))"
    if "ds_InitDeviceInTenant device_repository tn u m now d = (Inr x, d')"
    using device_InitDeviceInTenant_spec [OF ok, of tn u m now "Inr x" d'] that
    by (simp add: device_repository_def)
next
  show "ds_InitDevice device_repository = ds_InitDeviceInTenant device_repository DefaultTenantID"
    by (simp add: device_repository_def device_InitDevice_def fun_eq_iff)
qed

section \<open>A database with one authenticated device\<close>

definition example_device :: device_row where
  "example_device = NewDeviceModelInTenant [] ''d1''
     (no_metadata\<lparr>dm_Token := ''gt_1'', dm_AuthenticateStatus := Authenticated\<rparr>) 5"

definition example_db :: "bool list \<Rightarrow> db" where
  "example_db fs = \<lparr>tabs = empty_tables\<lparr>t_devices := [example_device]\<rparr>, faults = fs\<rparr>"

lemma example_db_ok: "db_devices_ok (example_db fs)"
proof -
  have "NormalizeTenantID (d_TenantID example_device) = d_TenantID example_device"
    "d_Token example_device \<noteq> Some []"
    by (simp_all add: example_device_def NewDeviceModelInTenant_def)
  then show ?thesis by (simp add: db_devices_ok_def devices_ok_def example_db_def)
qed

end
