(* ===== verification/Presence.thy ===== *)
theory Presence
  imports CoreTypes
begin

text \<open>
  \<^verbatim>\<open>device_presence_service.go\<close> and \<^verbatim>\<open>device_presence_store_memory.go\<close>: the last heartbeat
  of each device and the status computed from its age. The locale states the interface
  \<^verbatim>\<open>inter.DevicePresenceStore\<close>; the in-memory store is its interpretation.
\<close>

section \<open>The store interface\<close>

record 's presence_ops =
  ps_SaveLastSeen :: "string \<Rightarrow> time \<Rightarrow> 's \<Rightarrow> 's"
  ps_LoadLastSeen :: "string \<Rightarrow> 's \<Rightarrow> time \<times> bool"
  ps_Delete :: "string \<Rightarrow> 's \<Rightarrow> 's"

section \<open>The service\<close>

record 's presence_service =
  pr_store :: "'s presence_ops"
  pr_deadline :: duration

definition NewDevicePresenceWithStore :: "duration \<Rightarrow> 's presence_ops \<Rightarrow> 's presence_service" where
  "NewDevicePresenceWithStore deadline store =
     \<lparr>pr_store = store, pr_deadline = (if deadline \<le> 0 then 60 * second else deadline)\<rparr>"

definition SetDeadline :: "duration \<Rightarrow> 's presence_service \<Rightarrow> 's presence_service" where
  "SetDeadline deadline s = (if deadline > 0 then s\<lparr>pr_deadline := deadline\<rparr> else s)"

definition RemoveDevice :: "'s presence_service \<Rightarrow> string \<Rightarrow> 's \<Rightarrow> 's" where
  "RemoveDevice s uuid st = ps_Delete (pr_store s) uuid st"

definition HandleHeartbeat :: "'s presence_service \<Rightarrow> string \<Rightarrow> time \<Rightarrow> 's \<Rightarrow> 's" where
  "HandleHeartbeat s uuid now st =
     (let uuid = TrimSpace uuid
      in if uuid = [] then st else ps_SaveLastSeen (pr_store s) uuid now st)"

definition QueryDeviceStatus ::
    "'s presence_service \<Rightarrow> string \<Rightarrow> time \<Rightarrow> 's \<Rightarrow> device_status \<times> go_error option" where
  "QueryDeviceStatus s uuid now st =
     (let uuid = TrimSpace uuid
      in if uuid = [] then (StatusOffline, Some (ErrText ''empty device id''))
         else (case ps_LoadLastSeen (pr_store s) uuid st of
                 (_, False) \<Rightarrow> (StatusOffline, Some (ErrText ''never online''))
               | (lastSeen, True) \<Rightarrow>
                   let delta = now - lastSeen
                   in if delta < pr_deadline s then (StatusOnline, None)
                      else if delta < 2 * pr_deadline s then (StatusDelayed, None)
                      else (StatusOffline, None)))"

locale presence_store =
  fixes P :: "'s presence_ops"
  assumes load_save: "TrimSpace u \<noteq> [] \<Longrightarrow>
      ps_LoadLastSeen P v (ps_SaveLastSeen P u t st) =
        (if TrimSpace v = TrimSpace u then (t, True) else ps_LoadLastSeen P v st)"
    and load_delete: "TrimSpace u \<noteq> [] \<Longrightarrow>
      snd (ps_LoadLastSeen P v (ps_Delete P u st)) =
        (TrimSpace v \<noteq> TrimSpace u \<and> snd (ps_LoadLastSeen P v st))"
    and delete_other: "TrimSpace v \<noteq> TrimSpace u \<Longrightarrow>
      ps_LoadLastSeen P v (ps_Delete P u st) = ps_LoadLastSeen P v st"
begin

lemma status_after_heartbeat:
  assumes "pr_store s = P" and "TrimSpace u \<noteq> []" and "TrimSpace v = TrimSpace u"
  shows "QueryDeviceStatus s v now (HandleHeartbeat s u seen st) =
    (if now - seen < pr_deadline s then StatusOnline
     else if now - seen < 2 * pr_deadline s then StatusDelayed else StatusOffline, None)"
  using assms by (simp add: QueryDeviceStatus_def HandleHeartbeat_def load_save Let_def)

lemma heartbeat_other:
  assumes "pr_store s = P" and "TrimSpace v \<noteq> TrimSpace u"
  shows "QueryDeviceStatus s v now (HandleHeartbeat s u seen st) = QueryDeviceStatus s v now st"
  using assms by (simp add: QueryDeviceStatus_def HandleHeartbeat_def load_save Let_def)

lemma status_after_remove:
  assumes "pr_store s = P" and "TrimSpace u \<noteq> []"
  shows "QueryDeviceStatus s u now (RemoveDevice s u st) =
    (StatusOffline, Some (ErrText ''never online''))"
proof -
  have "snd (ps_LoadLastSeen P (TrimSpace u) (ps_Delete P u st)) = False"
    using load_delete [OF assms(2)] by simp
  then show ?thesis
    using assms by (auto simp: QueryDeviceStatus_def RemoveDevice_def Let_def split: prod.splits)
qed

end

section \<open>The in-memory store\<close>

type_synonym presence_map = "string \<Rightarrow> time option"

definition mem_SaveLastSeen :: "string \<Rightarrow> time \<Rightarrow> presence_map \<Rightarrow> presence_map" where
  "mem_SaveLastSeen uuid at s =
     (let uuid = TrimSpace uuid in if uuid = [] then s else s(uuid \<mapsto> at))"

definition mem_LoadLastSeen :: "string \<Rightarrow> presence_map \<Rightarrow> time \<times> bool" where
  "mem_LoadLastSeen uuid s =
     (let uuid = TrimSpace uuid
      in if uuid = [] then (zero_time, False)
         else (case s uuid of None \<Rightarrow> (zero_time, False) | Some seenAt \<Rightarrow> (seenAt, True)))"

definition mem_DeleteLastSeen :: "string \<Rightarrow> presence_map \<Rightarrow> presence_map" where
  "mem_DeleteLastSeen uuid s =
     (let uuid = TrimSpace uuid in if uuid = [] then s else map_delete s uuid)"

definition memory_presence :: "presence_map presence_ops" where
  "memory_presence =
     \<lparr>ps_SaveLastSeen = mem_SaveLastSeen, ps_LoadLastSeen = mem_LoadLastSeen,
      ps_Delete = mem_DeleteLastSeen\<rparr>"

lemmas presence_defs = memory_presence_def mem_SaveLastSeen_def mem_LoadLastSeen_def
  mem_DeleteLastSeen_def Let_def

interpretation mem_presence: presence_store memory_presence
  by unfold_locales (auto simp: presence_defs split: option.splits)

lemma NewDevicePresence_deadline [simp]: "0 < pr_deadline (NewDevicePresenceWithStore d P)"
  by (simp add: NewDevicePresenceWithStore_def second_def)

lemma NewDevicePresence_store [simp]: "pr_store (NewDevicePresenceWithStore d P) = P"
  by (simp add: NewDevicePresenceWithStore_def)

section \<open>Properties\<close>

text \<open>After a heartbeat a device is online until the deadline has passed, then delayed until
  twice the deadline, then offline, whatever white space surrounds its identifier; heartbeats of
  one device never change the status of another; a removed device is reported as never seen.
  A service is always built with a positive deadline.\<close>

theorem presence_thresholds:
  "\<forall>s. s = NewDevicePresenceWithStore d memory_presence \<longrightarrow>
     0 < pr_deadline s \<and>
     (TrimSpace u \<noteq> [] \<and> TrimSpace v = TrimSpace u \<longrightarrow>
        QueryDeviceStatus s v now (HandleHeartbeat s u seen st) =
          (if now < seen + pr_deadline s then StatusOnline
           else if now < seen + 2 * pr_deadline s then StatusDelayed else StatusOffline, None) \<and>
        QueryDeviceStatus s u now (RemoveDevice s u st) =
          (StatusOffline, Some (ErrText ''never online''))) \<and>
     (TrimSpace v \<noteq> TrimSpace u \<longrightarrow>
        QueryDeviceStatus s v now (HandleHeartbeat s u seen st) = QueryDeviceStatus s v now st)"
proof (intro allI impI conjI)
  fix s assume s: "s = NewDevicePresenceWithStore d memory_presence"
  then have st: "pr_store s = memory_presence" by simp
  show "0 < pr_deadline s" by (simp add: s)
  show "QueryDeviceStatus s v now (HandleHeartbeat s u seen st) =
      (if now < seen + pr_deadline s then StatusOnline
       else if now < seen + 2 * pr_deadline s then StatusDelayed else StatusOffline, None)"
    if "TrimSpace u \<noteq> [] \<and> TrimSpace v = TrimSpace u"
    using mem_presence.status_after_heartbeat [OF st, of u v now seen] that by auto
  show "QueryDeviceStatus s u now (RemoveDevice s u st) =
      (StatusOffline, Some (ErrText ''never online''))"
    if "TrimSpace u \<noteq> [] \<and> TrimSpace v = TrimSpace u"
    using mem_presence.status_after_remove [OF st] that by blast
  show "QueryDeviceStatus s v now (HandleHeartbeat s u seen st) = QueryDeviceStatus s v now st"
    if "TrimSpace v \<noteq> TrimSpace u"
    using mem_presence.heartbeat_other [OF st that] .
qed

theorem presence_thresholds_witness:
  "QueryDeviceStatus (NewDevicePresenceWithStore (30 * second) memory_presence) ''d1'' (100 * second)
     (HandleHeartbeat (NewDevicePresenceWithStore (30 * second) memory_presence) ''d1''
        (60 * second) (\<lambda>u. None)) = (StatusDelayed, None)"
proof -
  have "TrimSpace ''d1'' = ''d1''" by code_simp
  then show ?thesis
    using presence_thresholds [of "30 * second" "''d1''" "''d1''" "100 * second" "60 * second" "\<lambda>u. None"]
    by (simp add: second_def NewDevicePresenceWithStore_def)
qed

end
