(* ===== verification/Crypto.thy ===== *)
theory Crypto
  imports Prelude
begin

text \<open>
  The cryptographic primitives the code calls (SHA-256, HMAC-SHA256, AES-GCM and X25519) as a
  record of functions every definition that needs one takes as an argument. \<open>crypto_ok\<close>
  states the documented behaviour the proofs rely on: output lengths, and that opening a
  sealed text with the same key, nonce and associated data returns it.
\<close>

record crypto =
  sha256 :: "bytes \<Rightarrow> bytes"
  hmac_sha256 :: "bytes \<Rightarrow> bytes \<Rightarrow> bytes"
  gcm_seal :: "bytes \<Rightarrow> bytes \<Rightarrow> bytes \<Rightarrow> bytes \<Rightarrow> bytes"
  gcm_open :: "bytes \<Rightarrow> bytes \<Rightarrow> bytes \<Rightarrow> bytes \<Rightarrow> bytes option"
  ecdh_public :: "bytes \<Rightarrow> bytes"
  ecdh_secret :: "bytes \<Rightarrow> bytes \<Rightarrow> bytes option"

text \<open>\<open>aes.NewCipher\<close> accepts keys of 16, 24 and 32 bytes.\<close>

definition aes_key_ok :: "bytes \<Rightarrow> bool" where
  "aes_key_ok k \<longleftrightarrow> length k = 16 \<or> length k = 24 \<or> length k = 32"

definition crypto_ok :: "crypto \<Rightarrow> bool" where
  "crypto_ok C \<longleftrightarrow>
     (\<forall>x. length (sha256 C x) = 32) \<and>
     (\<forall>k x. length (hmac_sha256 C k x) = 32) \<and>
     (\<forall>k n p a. length (gcm_seal C k n p a) = length p + 16) \<and>
     (\<forall>k n p a. gcm_open C k n (gcm_seal C k n p a) a = Some p) \<and>
     (\<forall>s. length (ecdh_public C s) = 32) \<and>
     (\<forall>s q x. ecdh_secret C s q = Some x \<longrightarrow> length x = 32)"

lemma crypto_okD:
  assumes "crypto_ok C"
  shows "length (sha256 C x) = 32"
    and "length (hmac_sha256 C k x) = 32"
    and "length (gcm_seal C k n p a) = length p + 16"
    and "gcm_open C k n (gcm_seal C k n p a) a = Some p"
    and "length (ecdh_public C s) = 32"
    and "ecdh_secret C s q = Some y \<Longrightarrow> length y = 32"
  using assms by (auto simp: crypto_ok_def)

text \<open>A concrete instance, for evaluating the model on examples.\<close>

definition toy_pad :: "bytes \<Rightarrow> bytes" where
  "toy_pad x = take 32 (x @ replicate 32 0)"

definition toy_crypto :: crypto where
  "toy_crypto =
     \<lparr>sha256 = toy_pad,
      hmac_sha256 = (\<lambda>k x. toy_pad (x @ k)),
      gcm_seal = (\<lambda>k n p a. p @ replicate 16 0xAA),
      gcm_open = (\<lambda>k n c a.
        if 16 \<le> length c \<and> drop (length c - 16) c = replicate 16 0xAA
        then Some (take (length c - 16) c) else None),
      ecdh_public = toy_pad,
      ecdh_secret = (\<lambda>s q. if length q = 32 then Some (toy_pad (s @ q)) else None)\<rparr>"

lemma length_toy_pad [simp]: "length (toy_pad x) = 32"
  by (simp add: toy_pad_def)

lemma toy_crypto_ok: "crypto_ok toy_crypto"
  by (simp add: crypto_ok_def toy_crypto_def)

end
