(* ===== verification/Registry.thy ===== *)
theory Registry
  imports DeviceStore Presence Crypto
begin

text \<open>
  \<^verbatim>\<open>device_manager/device_registry_service.go\<close>: device identities, tokens and life cycle over a
  device store, with the token cache. The state holds the store, the cache and the state the
  deletion hook acts on. A fresh token takes the bytes \<open>rand.Read\<close> delivered (\<open>None\<close>: it
  failed) and the text of the current time.
\<close>

record ('d, 'h) registry =
  rg_store :: 'd
  rg_cache :: "string \<Rightarrow> string option"
  rg_hook_state :: 'h

record ('d, 'h) registry_service =
  rs_dataStore :: "'d device_store_ops"
  rs_OnDelete :: "(string \<Rightarrow> 'h \<Rightarrow> 'h) option"
  rs_crypto :: crypto

type_synonym random_source = "bytes option \<times> string"

definition NewDeviceRegistryWithHooks ::
    "crypto \<Rightarrow> 'd device_store_ops \<Rightarrow> (string \<Rightarrow> 'h \<Rightarrow> 'h) option \<Rightarrow> ('d, 'h) registry_service" where
  "NewDeviceRegistryWithHooks C ds hooks =
     \<lparr>rs_dataStore = ds, rs_OnDelete = hooks, rs_crypto = C\<rparr>"

definition on_store :: "('a, 'd) action \<Rightarrow> ('a, ('d, 'h) registry) action" where
  "on_store f s = (case f (rg_store s) of (r, d) \<Rightarrow> (r, s\<lparr>rg_store := d\<rparr>))"

definition cache_store :: "string \<Rightarrow> string \<Rightarrow> ('d, 'h) registry \<Rightarrow> ('d, 'h) registry" where
  "cache_store token uuid s = s\<lparr>rg_cache := (rg_cache s)(token \<mapsto> uuid)\<rparr>"

definition cache_delete :: "string \<Rightarrow> ('d, 'h) registry \<Rightarrow> ('d, 'h) registry" where
  "cache_delete token s = s\<lparr>rg_cache := map_delete (rg_cache s) token\<rparr>"

section \<open>Identities and tokens\<close>

definition GenerateUUID :: "('d, 'h) registry_service \<Rightarrow> device_metadata \<Rightarrow> string" where
  "GenerateUUID S meta =
     (let C = rs_crypto S;
          sumSN = sha256 C (bytes_of_string (dm_SerialNumber meta));
          sumMAC = sha256 C (bytes_of_string (dm_MACAddress meta))
      in hex_encode (sha256 C (sumSN @ sumMAC)))"

definition generateLegacyToken ::
    "('d, 'h) registry_service \<Rightarrow> string \<Rightarrow> string \<Rightarrow> string" where
  "generateLegacyToken S seed now_text =
     ''gt_legacy_'' @ hex_encode (take 16 (sha256 (rs_crypto S) (bytes_of_string (seed @ now_text))))"

definition generateSecureToken :: "('d, 'h) registry_service \<Rightarrow> random_source \<Rightarrow> string" where
  "generateSecureToken S rnd =
     (case rnd of (None, now_text) \<Rightarrow> generateLegacyToken S ''fallback'' now_text
      | (Some b, _) \<Rightarrow> ''gt_'' @ hex_encode b)"

section \<open>Operations\<close>

definition RegisterDevice ::
    "('d, 'h) registry_service \<Rightarrow> device_metadata \<Rightarrow> time \<Rightarrow> (unit, ('d, 'h) registry) action" where
  "RegisterDevice S meta now =
     on_store (ds_InitDevice (rs_dataStore S) (GenerateUUID S meta)
       (meta\<lparr>dm_AuthenticateStatus := AuthenticatePending, dm_Token := []\<rparr>) now)"

definition ProvisionDevice ::
    "('d, 'h) registry_service \<Rightarrow> scope \<Rightarrow> device_metadata \<Rightarrow> random_source \<Rightarrow> time \<Rightarrow>
     (string \<times> string, ('d, 'h) registry) action" where
  "ProvisionDevice S sc meta rnd now s =
     (let tenantID = TrimSpace (sc_TenantID sc);
          tenantID = (if tenantID = [] then DefaultTenantID else tenantID);
          uuid = GenerateUUID S meta
      in case on_store (ds_LoadConfig (rs_dataStore S) uuid) s of
           (Inr _, s1) \<Rightarrow> (Inl ErrDeviceAlreadyExists, s1)
         | (Inl e, s1) \<Rightarrow>
             if e \<noteq> ErrDeviceNotFound then (Inl e, s1)
             else
               let token = generateSecureToken S rnd;
                   meta = meta\<lparr>dm_AuthenticateStatus := Authenticated, dm_Token := token\<rparr>
               in bindE (on_store (ds_InitDeviceInTenant (rs_dataStore S) tenantID uuid meta now))
                    (\<lambda>_. returnE (uuid, token)) s1)"

text \<open>
  Authenticate is a lookup (the cache, then the store) and, for a device found authenticated, a
  store into the cache; the two halves are separate definitions because another call may run
  between them. The code returns the identifier together with the errors for known devices.
\<close>

datatype auth_lookup =
  CacheHit string | Found string auth_status | LookupError

definition Authenticate_lookup ::
    "('d, 'h) registry_service \<Rightarrow> string \<Rightarrow> ('d, 'h) registry \<Rightarrow> auth_lookup \<times> ('d, 'h) registry" where
  "Authenticate_lookup S token s =
     (case rg_cache s token of
        Some uuid \<Rightarrow> (CacheHit uuid, s)
      | None \<Rightarrow>
          (case on_store (ds_GetDeviceByToken (rs_dataStore S) token) s of
             (Inl _, s1) \<Rightarrow> (LookupError, s1)
           | (Inr (uuid, status), s1) \<Rightarrow> (Found uuid status, s1)))"

definition Authenticate_finish ::
    "string \<Rightarrow> auth_lookup \<Rightarrow> ('d, 'h) registry \<Rightarrow> (string \<times> go_error option) \<times> ('d, 'h) registry" where
  "Authenticate_finish token l s =
     (case l of
        CacheHit uuid \<Rightarrow> ((uuid, None), s)
      | LookupError \<Rightarrow> (([], Some ErrInvalidToken), s)
      | Found uuid status \<Rightarrow>
          (case status of
             Authenticated \<Rightarrow> ((uuid, None), cache_store token uuid s)
           | AuthenticatePending \<Rightarrow> ((uuid, Some ErrDevicePending), s)
           | AuthenticateRefuse \<Rightarrow> ((uuid, Some ErrDeviceRefused), s)
           | _ \<Rightarrow> ((uuid, Some ErrDeviceUnknown), s)))"

definition Authenticate ::
    "('d, 'h) registry_service \<Rightarrow> string \<Rightarrow> ('d, 'h) registry \<Rightarrow>
     (string \<times> go_error option) \<times> ('d, 'h) registry" where
  "Authenticate S token s =
     (case Authenticate_lookup S token s of (l, s1) \<Rightarrow> Authenticate_finish token l s1)"

text \<open>The cached token of the loaded device is dropped; the new status decides about its token.\<close>

definition drop_cached :: "device_metadata \<Rightarrow> ('d, 'h) registry \<Rightarrow> ('d, 'h) registry" where
  "drop_cached meta s = (if dm_Token meta = [] then s else cache_delete (dm_Token meta) s)"

definition with_status ::
    "('d, 'h) registry_service \<Rightarrow> auth_status \<Rightarrow> random_source \<Rightarrow> device_metadata \<Rightarrow> device_metadata" where
  "with_status S status rnd meta =
     (let meta = meta\<lparr>dm_AuthenticateStatus := status\<rparr>
      in case status of
           Authenticated \<Rightarrow> meta\<lparr>dm_Token := generateSecureToken S rnd\<rparr>
         | AuthenticateUnknown \<Rightarrow> meta
         | _ \<Rightarrow> meta\<lparr>dm_Token := []\<rparr>)"

definition UpdateDeviceAuthenticateStatus ::
    "('d, 'h) registry_service \<Rightarrow> string \<Rightarrow> auth_status \<Rightarrow> random_source \<Rightarrow>
     (string, ('d, 'h) registry) action" where
  "UpdateDeviceAuthenticateStatus S uuid status rnd =
     bindE (on_store (ds_LoadConfig (rs_dataStore S) uuid)) (\<lambda>meta s.
       bindE (on_store (ds_SaveMetadata (rs_dataStore S) uuid (with_status S status rnd meta)))
         (\<lambda>_. returnE (dm_Token (with_status S status rnd meta))) (drop_cached meta s))"

text \<open>RefreshToken returns the new token together with the error of the update.\<close>

definition RefreshToken ::
    "('d, 'h) registry_service \<Rightarrow> string \<Rightarrow> random_source \<Rightarrow> ('d, 'h) registry \<Rightarrow>
     (string \<times> go_error option) \<times> ('d, 'h) registry" where
  "RefreshToken S uuid rnd s =
     (case on_store (ds_LoadConfig (rs_dataStore S) uuid) s of (r, s1) \<Rightarrow>
        let s2 = (case r of Inr meta \<Rightarrow> drop_cached meta s1 | Inl _ \<Rightarrow> s1);
            newToken = generateSecureToken S rnd
        in case on_store (ds_UpdateToken (rs_dataStore S) uuid newToken) s2 of
             (Inl e, s3) \<Rightarrow> ((newToken, Some e), s3)
           | (Inr _, s3) \<Rightarrow> ((newToken, None), s3))"

definition update_status ::
    "auth_status \<Rightarrow> ('d, 'h) registry_service \<Rightarrow> string \<Rightarrow> random_source \<Rightarrow>
     (unit, ('d, 'h) registry) action" where
  "update_status status S uuid rnd =
     bindE (UpdateDeviceAuthenticateStatus S uuid status rnd) (\<lambda>_. returnE ())"

definition RevokeToken ::
    "('d, 'h) registry_service \<Rightarrow> string \<Rightarrow> random_source \<Rightarrow> (unit, ('d, 'h) registry) action" where
  "RevokeToken = update_status AuthenticateRevoked"

definition ApproveDevice ::
    "('d, 'h) registry_service \<Rightarrow> string \<Rightarrow> random_source \<Rightarrow> (unit, ('d, 'h) registry) action" where
  "ApproveDevice = update_status Authenticated"

definition RejectDevice ::
    "('d, 'h) registry_service \<Rightarrow> string \<Rightarrow> random_source \<Rightarrow> (unit, ('d, 'h) registry) action" where
  "RejectDevice = update_status AuthenticateRefuse"

definition UnblockDevice ::
    "('d, 'h) registry_service \<Rightarrow> string \<Rightarrow> random_source \<Rightarrow> (unit, ('d, 'h) registry) action" where
  "UnblockDevice = update_status AuthenticatePending"

definition GetDeviceMetadata ::
    "('d, 'h) registry_service \<Rightarrow> string \<Rightarrow> (device_metadata, ('d, 'h) registry) action" where
  "GetDeviceMetadata S uuid = on_store (ds_LoadConfig (rs_dataStore S) uuid)"

definition DeleteDevice ::
    "('d, 'h) registry_service \<Rightarrow> string \<Rightarrow> (unit, ('d, 'h) registry) action" where
  "DeleteDevice S uuid s =
     (case on_store (ds_LoadConfig (rs_dataStore S) uuid) s of (r, s1) \<Rightarrow>
        let s2 = (case r of Inr meta \<Rightarrow> drop_cached meta s1 | Inl _ \<Rightarrow> s1)
        in bindE (on_store (ds_DestroyDevice (rs_dataStore S) uuid)) (\<lambda>_ s3.
             (Inr (), case rs_OnDelete S of None \<Rightarrow> s3
                      | Some h \<Rightarrow> s3\<lparr>rg_hook_state := h uuid (rg_hook_state s3)\<rparr>)) s2)"

definition ListDevices ::
    "('d, 'h) registry_service \<Rightarrow> auth_status option \<Rightarrow> int \<Rightarrow> int \<Rightarrow>
     (device_record list, ('d, 'h) registry) action" where
  "ListDevices S status page sz =
     on_store (case status of
         None \<Rightarrow> ds_ListDevices (rs_dataStore S) page sz
       | Some st \<Rightarrow> ds_ListDevicesByStatus (rs_dataStore S) st page sz)"

definition ListDevicesByScope ::
    "('d, 'h) registry_service \<Rightarrow> scope \<Rightarrow> auth_status option \<Rightarrow> int \<Rightarrow> int \<Rightarrow>
     (device_record list, ('d, 'h) registry) action" where
  "ListDevicesByScope S sc status page sz =
     (if TrimSpace (sc_TenantID sc) = [] then ListDevices S status page sz
      else on_store (ds_ListDevicesByTenant (rs_dataStore S) (sc_TenantID sc) status page sz))"

definition GetDeviceMetadataByScope ::
    "('d, 'h) registry_service \<Rightarrow> scope \<Rightarrow> string \<Rightarrow> (device_metadata, ('d, 'h) registry) action" where
  "GetDeviceMetadataByScope S sc uuid =
     (if TrimSpace (sc_TenantID sc) = [] then GetDeviceMetadata S uuid
      else on_store (ds_LoadConfigByTenant (rs_dataStore S) (sc_TenantID sc) uuid))"

section \<open>Sequences of operations\<close>

datatype reg_op =
  OpRegister device_metadata time
| OpProvision scope device_metadata random_source time
| OpAuthenticate string
| OpSetStatus string auth_status random_source
| OpRefresh string random_source
| OpDelete string

fun run_reg_op :: "('d, 'h) registry_service \<Rightarrow> reg_op \<Rightarrow> ('d, 'h) registry \<Rightarrow> ('d, 'h) registry" where
  "run_reg_op S (OpRegister meta now) s = snd (RegisterDevice S meta now s)"
| "run_reg_op S (OpProvision sc meta rnd now) s = snd (ProvisionDevice S sc meta rnd now s)"
| "run_reg_op S (OpAuthenticate tok) s = snd (Authenticate S tok s)"
| "run_reg_op S (OpSetStatus u st rnd) s = snd (UpdateDeviceAuthenticateStatus S u st rnd s)"
| "run_reg_op S (OpRefresh u rnd) s = snd (RefreshToken S u rnd s)"
| "run_reg_op S (OpDelete u) s = snd (DeleteDevice S u s)"

section \<open>Coherence of the token cache\<close>

text \<open>Every cached token is the current token of an authenticated device.\<close>

definition coherent ::
    "(string \<Rightarrow> (string \<times> device_metadata) option) \<Rightarrow> (string \<Rightarrow> string option) \<Rightarrow> bool" where
  "coherent devs cache \<longleftrightarrow>
     (\<forall>tok u. cache tok = Some u \<longrightarrow>
       (\<exists>t m. devs u = Some (t, m) \<and> dm_Token m = tok \<and> tok \<noteq> [] \<and>
              dm_AuthenticateStatus m = Authenticated))"

text \<open>Removing the cached token of a device makes room for any change of that device.\<close>

lemma coherentD:
  assumes "coherent devs cache" and "cache tok = Some u"
  obtains t m where "devs u = Some (t, m)" "dm_Token m = tok" "tok \<noteq> []"
    "dm_AuthenticateStatus m = Authenticated"
  using assms unfolding coherent_def by blast

lemma coherent_change:
  assumes co: "coherent devs cache" and u: "devs u = Some (t, m)"
  shows "coherent (devs(u := x)) (if dm_Token m = [] then cache else map_delete cache (dm_Token m))"
  unfolding coherent_def
proof (intro allI impI)
  fix tok v
  assume "(if dm_Token m = [] then cache else map_delete cache (dm_Token m)) tok = Some v"
  then have c: "cache tok = Some v" and tok: "dm_Token m = [] \<or> tok \<noteq> dm_Token m"
    by (auto split: if_splits)
  from coherentD [OF co c] obtain t' m' where
    m': "devs v = Some (t', m')" "dm_Token m' = tok" "tok \<noteq> []"
      "dm_AuthenticateStatus m' = Authenticated" .
  with u tok have "v \<noteq> u" by auto
  with m' show "\<exists>t m. (devs(u := x)) v = Some (t, m) \<and> dm_Token m = tok \<and> tok \<noteq> [] \<and>
      dm_AuthenticateStatus m = Authenticated" by auto
qed

lemma coherent_delete: "coherent devs cache \<Longrightarrow> coherent devs (map_delete cache tok)"
  by (auto simp: coherent_def)

lemma coherent_new: "coherent devs cache \<Longrightarrow> devs u = None \<Longrightarrow> coherent (devs(u \<mapsto> x)) cache"
  by (fastforce simp: coherent_def)

lemma coherent_absent: "coherent devs cache \<Longrightarrow> devs u = None \<Longrightarrow> coherent (devs(u := x)) cache"
  by (fastforce simp: coherent_def)

lemma on_store_cases:
  obtains r d where "f (rg_store s) = (r, d)" "on_store f s = (r, s\<lparr>rg_store := d\<rparr>)"
  by (cases "f (rg_store s)") (auto simp: on_store_def)

text \<open>A store that never fails for a reason other than the data.\<close>

locale reliable_store = device_store D devs store_inv
  for D :: "'d device_store_ops" and devs store_inv +
  fixes reliable :: "'d \<Rightarrow> bool"
  assumes reliable_load: "store_inv d \<Longrightarrow> reliable d \<Longrightarrow> ds_LoadConfig D u d = (r, d') \<Longrightarrow>
      reliable d' \<and> (\<forall>e. r = Inl e \<longrightarrow> e = ErrDeviceNotFound)"
    and reliable_token: "store_inv d \<Longrightarrow> reliable d \<Longrightarrow> ds_GetDeviceByToken D tok d = (rt, d') \<Longrightarrow>
      reliable d'"
    and reliable_token_found: "store_inv d \<Longrightarrow> reliable d \<Longrightarrow> devs d u = Some (t, m) \<Longrightarrow>
      dm_Token m = tok \<Longrightarrow> tok \<noteq> [] \<Longrightarrow>
      fst (ds_GetDeviceByToken D tok d) = Inr (u, dm_AuthenticateStatus m)"
    and reliable_save: "store_inv d \<Longrightarrow> reliable d \<Longrightarrow> ds_SaveMetadata D u m d = (ru, d') \<Longrightarrow> reliable d'"
    and reliable_update: "store_inv d \<Longrightarrow> reliable d \<Longrightarrow> ds_UpdateToken D u tok d = (ru, d') \<Longrightarrow> reliable d'"
    and reliable_destroy: "store_inv d \<Longrightarrow> reliable d \<Longrightarrow> ds_DestroyDevice D u d = (ru, d') \<Longrightarrow> reliable d'"
    and reliable_init: "store_inv d \<Longrightarrow> reliable d \<Longrightarrow>
      ds_InitDeviceInTenant D tn u m now d = (ru, d') \<Longrightarrow> reliable d'"
begin

definition reg_ok :: "('d, 'h) registry \<Rightarrow> bool" where
  "reg_ok s \<longleftrightarrow> store_inv (rg_store s) \<and> reliable (rg_store s) \<and>
     coherent (devs (rg_store s)) (rg_cache s)"

lemma reg_ok_store:
  "reg_ok s \<Longrightarrow> store_inv d \<Longrightarrow> reliable d \<Longrightarrow> devs d = devs (rg_store s) \<Longrightarrow>
   reg_ok (s\<lparr>rg_store := d\<rparr>)"
  by (simp add: reg_ok_def)

lemma init_ok_inv:
  assumes "reg_ok s"
  shows "reg_ok (snd (on_store (ds_InitDeviceInTenant D tn u m now) s))"
proof -
  obtain r d where f: "ds_InitDeviceInTenant D tn u m now (rg_store s) = (r, d)"
    and o: "on_store (ds_InitDeviceInTenant D tn u m now) s = (r, s\<lparr>rg_store := d\<rparr>)"
    by (rule on_store_cases)
  from assms have inv: "store_inv (rg_store s)" "reliable (rg_store s)"
    and c: "coherent (devs (rg_store s)) (rg_cache s)" by (auto simp: reg_ok_def)
  have "coherent (devs d) (rg_cache s)"
  proof (cases r)
    case (Inl e)
    with init_fail [OF inv(1)] f c show ?thesis by simp
  next
    case (Inr x)
    with init_ok [OF inv(1), of tn u m now x d] f c show ?thesis by (simp add: coherent_new)
  qed
  then show ?thesis
    using init_inv [OF inv(1) f] reliable_init [OF inv f] by (simp add: o reg_ok_def)
qed

lemma RegisterDevice_ok: "rs_dataStore S = D \<Longrightarrow> reg_ok s \<Longrightarrow> reg_ok (snd (RegisterDevice S meta now s))"
  by (simp add: RegisterDevice_def init_default init_ok_inv)

lemma load_step:
  assumes "reg_ok s"
  obtains r d where "ds_LoadConfig D u (rg_store s) = (r, d)"
    "on_store (ds_LoadConfig D u) s = (r, s\<lparr>rg_store := d\<rparr>)" "reg_ok (s\<lparr>rg_store := d\<rparr>)"
    "devs d = devs (rg_store s)"
    "(\<exists>m t. r = Inr m \<and> devs (rg_store s) u = Some (t, m)) \<or>
     (r = Inl ErrDeviceNotFound \<and> devs (rg_store s) u = None)"
proof -
  obtain r d where f: "ds_LoadConfig D u (rg_store s) = (r, d)"
    and o: "on_store (ds_LoadConfig D u) s = (r, s\<lparr>rg_store := d\<rparr>)"
    by (rule on_store_cases)
  from assms have inv: "store_inv (rg_store s)" "reliable (rg_store s)" by (auto simp: reg_ok_def)
  note fr = load_frame [OF inv(1) f] reliable_load [OF inv f]
  have "(\<exists>m t. r = Inr m \<and> devs (rg_store s) u = Some (t, m)) \<or>
     (r = Inl ErrDeviceNotFound \<and> devs (rg_store s) u = None)"
    using load_ok [OF inv(1), of u _ d] load_missing [OF inv(1), of u d] f fr(2) by (cases r) auto
  with that [OF f o] fr reg_ok_store [OF assms] show thesis by blast
qed

lemma ProvisionDevice_ok:
  assumes S: "rs_dataStore S = D" and s: "reg_ok s"
  shows "reg_ok (snd (ProvisionDevice S sc meta rnd now s))"
proof -
  obtain r d where l: "on_store (ds_LoadConfig D (GenerateUUID S meta)) s = (r, s\<lparr>rg_store := d\<rparr>)"
    "reg_ok (s\<lparr>rg_store := d\<rparr>)"
    by (rule load_step [OF s])
  show ?thesis
    using l init_ok_inv [OF l(2)]
    by (auto simp: ProvisionDevice_def S Let_def bindE_def returnE_def split: sum.splits prod.splits)
       (metis snd_conv)+
qed

lemma Authenticate_ok:
  assumes S: "rs_dataStore S = D" and s: "reg_ok s"
  shows "reg_ok (snd (Authenticate S tok s)) \<and>
    devs (rg_store (snd (Authenticate S tok s))) = devs (rg_store s) \<and>
    (fst (Authenticate S tok s) = (u, None) \<longleftrightarrow>
      (\<exists>t m. devs (rg_store s) u = Some (t, m) \<and> dm_Token m = tok \<and> tok \<noteq> [] \<and>
             dm_AuthenticateStatus m = Authenticated))"
proof -
  from s have inv: "store_inv (rg_store s)" "reliable (rg_store s)"
    and c: "coherent (devs (rg_store s)) (rg_cache s)" by (auto simp: reg_ok_def)
  obtain r d where f: "ds_GetDeviceByToken D tok (rg_store s) = (r, d)"
    and o: "on_store (ds_GetDeviceByToken D tok) s = (r, s\<lparr>rg_store := d\<rparr>)"
    by (rule on_store_cases)
  have fd: "r = Inr (v, dm_AuthenticateStatus m)"
    if "devs (rg_store s) v = Some (t, m)" "dm_Token m = tok" "tok \<noteq> []" for v t m
    using reliable_token_found [OF inv that] f by simp
  show ?thesis
  proof (cases "rg_cache s tok")
    case (Some v)
    from coherentD [OF c this] obtain t m where
      m: "devs (rg_store s) v = Some (t, m)" "dm_Token m = tok" "tok \<noteq> []"
        "dm_AuthenticateStatus m = Authenticated" .
    have "fst (Authenticate S tok s) = (v, None)" "snd (Authenticate S tok s) = s"
      using Some by (simp_all add: Authenticate_def Authenticate_lookup_def Authenticate_finish_def)
    with m s fd show ?thesis by (metis Inr_inject prod.inject)
  next
    case None
    then have lk: "Authenticate_lookup S tok s =
        (case r of Inl _ \<Rightarrow> (LookupError, s\<lparr>rg_store := d\<rparr>)
         | Inr (v, st) \<Rightarrow> (Found v st, s\<lparr>rg_store := d\<rparr>))"
      by (simp add: Authenticate_lookup_def S o split: sum.splits prod.splits)
    have s1: "reg_ok (s\<lparr>rg_store := d\<rparr>)" and dd: "devs d = devs (rg_store s)"
      using token_frame [OF inv(1) f] reliable_token [OF inv f] reg_ok_store [OF s] by auto
    show ?thesis
    proof (cases r)
      case (Inl e)
      then have "fst (Authenticate S tok s) = ([], Some ErrInvalidToken)"
        "snd (Authenticate S tok s) = s\<lparr>rg_store := d\<rparr>"
        by (simp_all add: Authenticate_def lk Authenticate_finish_def)
      with Inl fd s1 dd show ?thesis by auto
    next
      case (Inr p)
      obtain v st where p: "p = (v, st)" by (cases p)
      from token_ok [OF inv(1), of tok v st d] f Inr p obtain t m where
        m: "devs (rg_store s) v = Some (t, m)" "dm_Token m = tok" "tok \<noteq> []"
          "dm_AuthenticateStatus m = st" by auto
      have "reg_ok (cache_store tok v (s\<lparr>rg_store := d\<rparr>))" if "st = Authenticated"
        using s1 m that dd by (auto simp: reg_ok_def cache_store_def coherent_def)
      then have "reg_ok (snd (Authenticate S tok s)) \<and> devs (rg_store (snd (Authenticate S tok s))) = devs (rg_store s)"
        using s1 dd by (cases st)
          (simp_all add: Authenticate_def lk Inr p Authenticate_finish_def cache_store_def)
      moreover have "fst (Authenticate S tok s) = (u, None) \<longleftrightarrow> u = v \<and> st = Authenticated"
        by (cases st) (auto simp: Authenticate_def lk Inr p Authenticate_finish_def)
      moreover have "u' = v \<and> m' = m" if "devs (rg_store s) u' = Some (t', m')" "dm_Token m' = tok" for u' t' m'
        using fd [OF that m(3)] Inr p m that by auto
      ultimately show ?thesis using m by blast
    qed
  qed
qed

lemma UpdateDeviceAuthenticateStatus_ok:
  assumes S: "rs_dataStore S = D" and s: "reg_ok s"
  shows "reg_ok (snd (UpdateDeviceAuthenticateStatus S u st rnd s))"
proof -
  obtain r d where l: "on_store (ds_LoadConfig D u) s = (r, s\<lparr>rg_store := d\<rparr>)"
    "reg_ok (s\<lparr>rg_store := d\<rparr>)" "devs d = devs (rg_store s)"
    "(\<exists>m t. r = Inr m \<and> devs (rg_store s) u = Some (t, m)) \<or>
     (r = Inl ErrDeviceNotFound \<and> devs (rg_store s) u = None)"
    by (rule load_step [OF s])
  from l(4) show ?thesis
  proof
    assume "r = Inl ErrDeviceNotFound \<and> devs (rg_store s) u = None"
    with l show ?thesis by (simp add: UpdateDeviceAuthenticateStatus_def S)
  next
    assume "\<exists>m t. r = Inr m \<and> devs (rg_store s) u = Some (t, m)"
    then obtain m t where m: "r = Inr m" "devs d u = Some (t, m)" using l(3) by auto
    define c where "c = (if dm_Token m = [] then rg_cache s else map_delete (rg_cache s) (dm_Token m))"
    obtain r2 d2 where f2: "ds_SaveMetadata D u (with_status S st rnd m) d = (r2, d2)"
      by (cases "ds_SaveMetadata D u (with_status S st rnd m) d")
    have inv: "store_inv d" "reliable d" and co: "coherent (devs d) (rg_cache s)"
      using l(2) by (auto simp: reg_ok_def)
    have upd: "snd (UpdateDeviceAuthenticateStatus S u st rnd s) = s\<lparr>rg_store := d2, rg_cache := c\<rparr>"
      using f2 l(1) m(1)
      by (cases r2) (simp_all add: UpdateDeviceAuthenticateStatus_def S drop_cached_def
          cache_delete_def on_store_def bindE_def c_def)
    have "coherent (devs d2) c"
    proof (cases r2)
      case (Inl e)
      with save_fail [OF inv(1)] f2 co show ?thesis by (simp add: c_def coherent_delete)
    next
      case (Inr x)
      with save_ok [OF inv(1), of u "with_status S st rnd m" x d2] f2 coherent_change [OF co m(2)]
      show ?thesis by (simp add: c_def)
    qed
    with save_inv [OF inv(1) f2] reliable_save [OF inv f2] show ?thesis
      unfolding upd by (simp add: reg_ok_def)
  qed
qed

text \<open>The state after the lookup that RefreshToken and DeleteDevice begin with.\<close>

lemma drop_step:
  assumes "reg_ok s"
  obtains r d c where "on_store (ds_LoadConfig D u) s = (r, s\<lparr>rg_store := d\<rparr>)"
    "(case r of Inr meta \<Rightarrow> drop_cached meta (s\<lparr>rg_store := d\<rparr>) | Inl _ \<Rightarrow> s\<lparr>rg_store := d\<rparr>) =
       s\<lparr>rg_store := d, rg_cache := c\<rparr>"
    "store_inv d" "reliable d" "coherent (devs d) c" "\<forall>x. coherent ((devs d)(u := x)) c"
    "\<forall>e. r = Inl e \<longrightarrow> c = rg_cache s"
proof -
  obtain r d where l: "on_store (ds_LoadConfig D u) s = (r, s\<lparr>rg_store := d\<rparr>)"
    "reg_ok (s\<lparr>rg_store := d\<rparr>)" "devs d = devs (rg_store s)"
    "(\<exists>m t. r = Inr m \<and> devs (rg_store s) u = Some (t, m)) \<or>
     (r = Inl ErrDeviceNotFound \<and> devs (rg_store s) u = None)"
    by (rule load_step [OF assms])
  have inv: "store_inv d" "reliable d" and co: "coherent (devs d) (rg_cache s)"
    using l(2) by (auto simp: reg_ok_def)
  from l(4) show thesis
  proof
    assume "r = Inl ErrDeviceNotFound \<and> devs (rg_store s) u = None"
    with that [OF l(1) _ inv co] l(3) coherent_absent [OF co] show thesis by simp
  next
    assume "\<exists>m t. r = Inr m \<and> devs (rg_store s) u = Some (t, m)"
    then obtain m t where m: "r = Inr m" "devs d u = Some (t, m)" using l(3) by auto
    define c where "c = (if dm_Token m = [] then rg_cache s else map_delete (rg_cache s) (dm_Token m))"
    have "coherent (devs d) c" by (simp add: c_def co coherent_delete)
    moreover have "coherent ((devs d)(u := x)) c" for x
      unfolding c_def by (rule coherent_change [OF co m(2)])
    moreover have "drop_cached m (s\<lparr>rg_store := d\<rparr>) = s\<lparr>rg_store := d, rg_cache := c\<rparr>"
      by (simp add: drop_cached_def cache_delete_def c_def)
    ultimately show thesis using that [OF l(1) _ inv] m(1) by simp
  qed
qed

lemma RefreshToken_ok:
  assumes S: "rs_dataStore S = D" and s: "reg_ok s"
  shows "reg_ok (snd (RefreshToken S u rnd s))"
proof -
  obtain r d c where l: "on_store (ds_LoadConfig D u) s = (r, s\<lparr>rg_store := d\<rparr>)"
    "(case r of Inr meta \<Rightarrow> drop_cached meta (s\<lparr>rg_store := d\<rparr>) | Inl _ \<Rightarrow> s\<lparr>rg_store := d\<rparr>) =
       s\<lparr>rg_store := d, rg_cache := c\<rparr>"
    "store_inv d" "reliable d" "coherent (devs d) c" "\<forall>x. coherent ((devs d)(u := x)) c"
    "\<forall>e. r = Inl e \<longrightarrow> c = rg_cache s"
    by (rule drop_step [OF s, where u = u])
  let ?tok = "generateSecureToken S rnd"
  obtain r2 d2 where f2: "ds_UpdateToken D u ?tok d = (r2, d2)" by (cases "ds_UpdateToken D u ?tok d")
  have "snd (RefreshToken S u rnd s) = s\<lparr>rg_store := d2, rg_cache := c\<rparr>"
    using f2 l(1,2,7)
    by (cases r; cases r2) (simp_all add: RefreshToken_def S Let_def on_store_def)
  moreover have "coherent (devs d2) c"
    using update_fail [OF l(3), of u ?tok _ d2] update_ok [OF l(3), of u ?tok _ d2] f2 l(5,6)
    by (cases r2) auto
  ultimately show ?thesis
    using update_inv [OF l(3) f2] reliable_update [OF l(3,4) f2] by (simp add: reg_ok_def)
qed

lemma DeleteDevice_ok:
  assumes S: "rs_dataStore S = D" and s: "reg_ok s"
  shows "reg_ok (snd (DeleteDevice S u s))"
proof -
  obtain r d c where l: "on_store (ds_LoadConfig D u) s = (r, s\<lparr>rg_store := d\<rparr>)"
    "(case r of Inr meta \<Rightarrow> drop_cached meta (s\<lparr>rg_store := d\<rparr>) | Inl _ \<Rightarrow> s\<lparr>rg_store := d\<rparr>) =
       s\<lparr>rg_store := d, rg_cache := c\<rparr>"
    "store_inv d" "reliable d" "coherent (devs d) c" "\<forall>x. coherent ((devs d)(u := x)) c"
    "\<forall>e. r = Inl e \<longrightarrow> c = rg_cache s"
    by (rule drop_step [OF s, where u = u])
  obtain r2 d2 where f2: "ds_DestroyDevice D u d = (r2, d2)" by (cases "ds_DestroyDevice D u d")
  have "rg_store (snd (DeleteDevice S u s)) = d2 \<and> rg_cache (snd (DeleteDevice S u s)) = c"
    using f2 l(1,2,7)
    by (cases r; cases r2)
       (simp_all add: DeleteDevice_def S Let_def on_store_def bindE_def split: option.splits)
  moreover have "coherent (devs d2) c"
    using destroy_fail [OF l(3), of u _ d2] destroy_ok [OF l(3), of u _ d2] f2 l(5,6)
    by (cases r2) auto
  ultimately show ?thesis
    using destroy_inv [OF l(3) f2] reliable_destroy [OF l(3,4) f2] by (simp add: reg_ok_def)
qed

lemma run_reg_op_ok:
  assumes "rs_dataStore S = D" and "reg_ok s"
  shows "reg_ok (run_reg_op S x s)"
proof (cases x)
  case (OpAuthenticate tok)
  then show ?thesis using Authenticate_ok [OF assms] by simp
qed (simp_all add: assms RegisterDevice_ok ProvisionDevice_ok UpdateDeviceAuthenticateStatus_ok
      RefreshToken_ok DeleteDevice_ok)

lemma run_reg_ops_ok:
  "rs_dataStore S = D \<Longrightarrow> reg_ok s \<Longrightarrow> reg_ok (fold (run_reg_op S) xs s)"
  by (induction xs arbitrary: s) (simp_all add: run_reg_op_ok)

end

section \<open>The SQL store without faults is reliable\<close>

lemma run_stmt_faults: "faults d = [] \<Longrightarrow> run_stmt f d = (r, d') \<Longrightarrow> faults d' = []"
  by (auto split: prod.splits sum.splits)

lemma run_query_faults: "faults d = [] \<Longrightarrow> run_query f d = (r, d') \<Longrightarrow> faults d' = []"
  by auto

lemma bindE_faults:
  assumes "faults d = []" and "bindE m f d = (r, d')"
    and "\<And>r1 d1. m d = (r1, d1) \<Longrightarrow> faults d1 = []"
    and "\<And>x d1. faults d1 = [] \<Longrightarrow> faults (snd (f x d1)) = []"
  shows "faults d' = []"
  using assms(2-) by (auto simp: bindE_def split: prod.splits sum.splits) (metis snd_conv)

lemma run_tx_faults:
  assumes "faults d = []" and "run_tx body d = (r, d')"
    and "\<And>d1. faults d1 = [] \<Longrightarrow> faults (snd (body d1)) = []"
  shows "faults d' = []"
proof -
  obtain x d2 where b: "body d = (x, d2)" by (cases "body d")
  then have "faults d2 = []" using assms(1,3) by (metis snd_conv)
  with assms(1,2) b show ?thesis by (cases x) (auto simp: run_tx_def)
qed

lemma stmt_faults [simp]:
  "faults d = [] \<Longrightarrow> faults (snd (run_stmt f d)) = []"
  "faults d = [] \<Longrightarrow> faults (snd (run_query g d)) = []"
  by (auto split: prod.splits sum.splits)

lemma bindE_snd_faults:
  "faults d = [] \<Longrightarrow> faults (snd (m d)) = [] \<Longrightarrow> (\<And>x d1. faults d1 = [] \<Longrightarrow> faults (snd (f x d1)) = []) \<Longrightarrow>
   faults (snd (bindE m f d)) = []"
  by (auto simp: bindE_def split: prod.splits sum.splits)

lemma device_ops_faults:
  assumes "faults d = []"
  shows "faults (snd (device_LoadConfig u d)) = []"
    and "faults (snd (device_GetDeviceByToken tok d)) = []"
    and "faults (snd (device_SaveMetadata u m d)) = []"
    and "faults (snd (device_UpdateToken u tok d)) = []"
    and "faults (snd (device_InitDeviceInTenant tn u m now d)) = []"
    and "faults (snd (device_DestroyDevice u d)) = []"
proof -
  show "faults (snd (device_DestroyDevice u d)) = []"
    unfolding device_DestroyDevice_def
    by (rule run_tx_faults [OF assms surjective_pairing])
       (auto intro!: bindE_snd_faults simp: failE_def simp del: run_stmt_no_fault)
qed (use assms in \<open>auto simp: device_LoadConfig_def device_GetDeviceByToken_def device_SaveMetadata_def
      device_UpdateToken_def device_InitDeviceInTenant_def returnE_def failE_def
      intro!: bindE_snd_faults simp del: run_stmt_no_fault run_query_no_fault split: option.splits\<close>)

interpretation sql_reliable: reliable_store device_repository db_devs db_devices_ok "\<lambda>d. faults d = []"
proof
  fix d d' :: db and u tn tok r rt ru m now t
  assume ok: "db_devices_ok d" and f: "faults d = []"
  show "faults d' = [] \<and> (\<forall>e. r = Inl e \<longrightarrow> e = ErrDeviceNotFound)"
    if "ds_LoadConfig device_repository u d = (r, d')"
    using that f device_ops_faults(1) [OF f, of u]
    by (auto simp: device_repository_def device_LoadConfig_def bindE_def split: option.splits)
  show "faults d' = []" if "ds_GetDeviceByToken device_repository tok d = (rt, d')"
    using that device_ops_faults(2) [OF f, of tok] by (simp add: device_repository_def)
  show "faults d' = []" if "ds_SaveMetadata device_repository u m d = (ru, d')"
    using that device_ops_faults(3) [OF f, of u m] by (simp add: device_repository_def)
  show "faults d' = []" if "ds_UpdateToken device_repository u tok d = (ru, d')"
    using that device_ops_faults(4) [OF f, of u tok] by (simp add: device_repository_def)
  show "faults d' = []" if "ds_DestroyDevice device_repository u d = (ru, d')"
    using that device_ops_faults(6) [OF f, of u] by (simp add: device_repository_def)
  show "faults d' = []" if "ds_InitDeviceInTenant device_repository tn u m now d = (ru, d')"
    using that device_ops_faults(5) [OF f, of tn u m now] by (simp add: device_repository_def)
  show "fst (ds_GetDeviceByToken device_repository tok d) = Inr (u, dm_AuthenticateStatus m)"
    if m: "db_devs d u = Some (t, m)" "dm_Token m = tok" "tok \<noteq> []"
  proof -
    note inv = ok [unfolded db_devices_ok_def]
    from m obtain row where row: "find_device u (tabs d) = Some row" "m = ToMetadata row"
      by (auto simp: db_devs_def)
    with m have tok: "d_Token row = Some tok" and u: "d_UUID row = u"
      and mem: "row \<in> set (t_devices (tabs d))"
      using find_device_iff [OF devices_okD(1) [OF inv]]
      by (auto simp: ToMetadata_def split: option.splits)
    obtain row' where row': "find (\<lambda>r. d_Token r = Some tok) (t_devices (tabs d)) = Some row'"
      using tok mem by (cases "find (\<lambda>r. d_Token r = Some tok) (t_devices (tabs d))")
        (auto simp: find_None_iff)
    then have "d_Token row' = Some tok" "row' \<in> set (t_devices (tabs d))"
      by (auto dest: find_SomeD)
    then have "d_UUID row' = u" using devices_okD(3) [OF inv _ mem _ tok] u by simp
    then have "row' = row"
      using find_device_iff [OF devices_okD(1) [OF inv], of u row'] row(1)
        \<open>row' \<in> set (t_devices (tabs d))\<close> by simp
    then show ?thesis
      using f row' row(2) u
      by (simp add: device_repository_def device_GetDeviceByToken_def bindE_def ToMetadata_def)
  qed
qed

section \<open>The service over the repository\<close>

text \<open>A registry over the SQL repository, with an empty cache, as \<^verbatim>\<open>core/services.go\<close> builds it.\<close>

definition sql_registry ::
    "crypto \<Rightarrow> (string \<Rightarrow> 'h \<Rightarrow> 'h) option \<Rightarrow> (db, 'h) registry_service" where
  "sql_registry C hooks = NewDeviceRegistryWithHooks C device_repository hooks"

definition fresh_registry :: "db \<Rightarrow> 'h \<Rightarrow> (db, 'h) registry" where
  "fresh_registry d h = \<lparr>rg_store = d, rg_cache = (\<lambda>_. None), rg_hook_state = h\<rparr>"

lemma sql_registry_store [simp]: "rs_dataStore (sql_registry C hooks) = device_repository"
  by (simp add: sql_registry_def NewDeviceRegistryWithHooks_def)

lemma fresh_registry_ok:
  "db_devices_ok d \<Longrightarrow> faults d = [] \<Longrightarrow> sql_reliable.reg_ok (fresh_registry d h)"
  by (simp add: sql_reliable.reg_ok_def fresh_registry_def coherent_def)

section \<open>Properties\<close>

text \<open>C5: After any sequence of registry operations on a consistent database (every statement
  succeeding), a token authenticates a device exactly when the database holds that device as
  authenticated with that token: the cache never keeps a token that was revoked, refreshed,
  rejected or deleted, and never changes an answer.\<close>

theorem token_cache_coherent:
  assumes "db_devices_ok d" and "faults d = []"
    and "s = fold (run_reg_op (sql_registry C hooks)) ops (fresh_registry d h)"
  shows "fst (Authenticate (sql_registry C hooks) tok s) = (u, None) \<longleftrightarrow>
    (\<exists>t m. db_devs (rg_store s) u = Some (t, m) \<and> dm_Token m = tok \<and> tok \<noteq> [] \<and>
           dm_AuthenticateStatus m = Authenticated)"
proof -
  have "sql_reliable.reg_ok s"
    unfolding assms(3)
    by (rule sql_reliable.run_reg_ops_ok [OF sql_registry_store fresh_registry_ok [OF assms(1,2)]])
  from sql_reliable.Authenticate_ok [OF sql_registry_store this] show ?thesis by blast
qed

text \<open>A device is provisioned; its token is looked up, cached, and accepted again.\<close>

definition example_ops :: "reg_op list" where
  "example_ops = [OpProvision \<lparr>sc_TenantID = [], sc_GroupIDs = []\<rparr> no_metadata (Some [0], []) 5,
     OpAuthenticate ''gt_00'']"

theorem token_cache_coherent_witness:
  "\<exists>u. fst (Authenticate (sql_registry toy_crypto None) ''gt_00''
     (fold (run_reg_op (sql_registry toy_crypto None)) example_ops (fresh_registry empty_db ()))) = (u, None)"
proof -
  have ok: "db_devices_ok empty_db" "faults empty_db = []" by (simp, simp add: empty_db_def)
  let ?S = "sql_registry toy_crypto None :: (db, unit) registry_service"
  have "map_option (\<lambda>(t, m). (dm_Token m, dm_AuthenticateStatus m))
      (db_devs (rg_store (fold (run_reg_op ?S) example_ops (fresh_registry empty_db ())))
         (GenerateUUID ?S no_metadata)) = Some (''gt_00'', Authenticated)"
    by code_simp
  with token_cache_coherent [OF ok refl, where C = toy_crypto and hooks = None and h = "()"
      and ops = example_ops and tok = "''gt_00''" and u = "GenerateUUID ?S no_metadata"]
  show ?thesis by auto
qed

text \<open>
  The two halves of Authenticate are not atomic. Between them a whole revocation may run; the
  second half then caches a token that is no longer valid.
\<close>

text \<open>C36: When a revocation completes between the lookup and the cache write of an Authenticate
  call for the same device, the revoked token ends up in the cache, and later calls accept it
  without asking the store, whose entry says the device is revoked and has no token.\<close>

theorem revocation_race:
  assumes "rs_dataStore S = device_repository" and "db_devices_ok (rg_store s)"
    and "Authenticate_lookup S tok s = (Found u Authenticated, s1)"
    and "RevokeToken S u rnd s1 = (Inr (), s2)"
    and "Authenticate_finish tok (Found u Authenticated) s2 = (r, s3)"
  shows "r = (u, None) \<and> Authenticate S tok s3 = ((u, None), s3) \<and>
    (\<exists>t m. db_devs (rg_store s3) u = Some (t, m) \<and> dm_Token m = [] \<and>
           dm_AuthenticateStatus m = AuthenticateRevoked)"
proof -
  have s3: "r = (u, None)" "s3 = cache_store tok u s2"
    using assms(5) by (auto simp: Authenticate_finish_def)
  then have "Authenticate S tok s3 = ((u, None), s3)"
    by (simp add: Authenticate_def Authenticate_lookup_def Authenticate_finish_def cache_store_def)
  moreover have inv: "db_devices_ok (rg_store s1)"
  proof -
    obtain x d where g: "device_GetDeviceByToken tok (rg_store s) = (x, d)"
      by (cases "device_GetDeviceByToken tok (rg_store s)")
    then have "rg_store s1 = d"
      using assms(1,3)
      by (auto simp: Authenticate_lookup_def on_store_def device_repository_def
          split: option.splits sum.splits prod.splits)
    then show ?thesis
      using device_GetDeviceByToken_spec [OF g] assms(2) by (simp add: db_devices_ok_def)
  qed
  have "\<exists>t m. db_devs (rg_store s2) u = Some (t, m) \<and> dm_Token m = [] \<and>
           dm_AuthenticateStatus m = AuthenticateRevoked"
  proof -
    obtain x d where l: "device_LoadConfig u (rg_store s1) = (x, d)"
      by (cases "device_LoadConfig u (rg_store s1)")
    then obtain m where m: "x = Inr m"
      using assms(1,4) by (cases x) (auto simp: RevokeToken_def update_status_def
          UpdateDeviceAuthenticateStatus_def on_store_def device_repository_def bindE_def)
    define m' where "m' = with_status S AuthenticateRevoked rnd m"
    have m': "dm_Token m' = []" "dm_AuthenticateStatus m' = AuthenticateRevoked"
      by (simp_all add: m'_def with_status_def)
    have d: "tabs d = tabs (rg_store s1)" and "\<exists>row. find_device u (tabs d) = Some row"
      using device_LoadConfig_spec [OF l] m by auto
    then obtain t old where old: "db_devs d u = Some (t, old)" by (auto simp: db_devs_def)
    have dok: "db_devices_ok d" using inv d by (simp add: db_devices_ok_def)
    obtain d2 where d2: "device_SaveMetadata u m' d = (Inr (), d2)" "rg_store s2 = d2"
      using assms(1,4) l m by (auto simp: RevokeToken_def update_status_def m'_def drop_cached_def
          UpdateDeviceAuthenticateStatus_def on_store_def device_repository_def bindE_def
          cache_delete_def returnE_def split: sum.splits prod.splits if_splits)
    show ?thesis
      using device_SaveMetadata_spec [OF dok d2(1)] old m' d2(2)
      by (simp add: stored_metadata_def)
  qed
  ultimately show ?thesis using s3 by (simp add: cache_store_def)
qed

text \<open>The interleaving on a database with one authenticated device.\<close>

definition race_state :: "(db, unit) registry" where
  "race_state = snd (RevokeToken (sql_registry toy_crypto None) ''d1'' (None, [])
     (snd (Authenticate_lookup (sql_registry toy_crypto None) ''gt_1''
       (fresh_registry (example_db []) ()))))"

theorem revocation_race_witness:
  "fst (Authenticate (sql_registry toy_crypto None) ''gt_1''
     (snd (Authenticate_finish ''gt_1'' (Found ''d1'' Authenticated) race_state))) = (''d1'', None)"
proof -
  let ?S = "sql_registry toy_crypto None :: (db, unit) registry_service"
  let ?s = "fresh_registry (example_db []) ()"
  have l: "fst (Authenticate_lookup ?S ''gt_1'' ?s) = Found ''d1'' Authenticated" by code_simp
  have v: "fst (RevokeToken ?S ''d1'' (None, []) (snd (Authenticate_lookup ?S ''gt_1'' ?s))) = Inr ()"
    by code_simp
  have ok: "db_devices_ok (rg_store ?s)" by (simp add: fresh_registry_def example_db_ok)
  have "Authenticate_lookup ?S ''gt_1'' ?s =
      (Found ''d1'' Authenticated, snd (Authenticate_lookup ?S ''gt_1'' ?s))"
    using l by (metis prod.collapse)
  moreover have "RevokeToken ?S ''d1'' (None, []) (snd (Authenticate_lookup ?S ''gt_1'' ?s)) =
      (Inr (), race_state)"
    using v unfolding race_state_def by (metis prod.collapse)
  ultimately show ?thesis
    using revocation_race [OF sql_registry_store ok _ _ surjective_pairing] by simp
qed

text \<open>When the lookup that RefreshToken begins with fails while its update succeeds, the old
  token stays in the cache: it is still accepted, although the database holds only the new one.\<close>

theorem refresh_stale_token:
  assumes "rs_dataStore S = device_repository" and "db_devices_ok (rg_store s)"
    and "rg_cache s old = Some u" and "faults (rg_store s) = True # fs"
    and "RefreshToken S u rnd s = ((new, None), s')"
  shows "Authenticate S old s' = ((u, None), s') \<and>
    (\<exists>t m. db_devs (rg_store s') u = Some (t, m) \<and> dm_Token m = TrimSpace new)"
proof -
  define d where "d = (rg_store s)\<lparr>faults := fs\<rparr>"
  have "device_LoadConfig u (rg_store s) = (Inl ErrDB, d)"
    using assms(4) by (simp add: device_LoadConfig_def run_query_def run_stmt_def bindE_def d_def)
  then have l: "on_store (ds_LoadConfig (rs_dataStore S) u) s = (Inl ErrDB, s\<lparr>rg_store := d\<rparr>)"
    by (simp add: assms(1) device_repository_def on_store_def)
  obtain r d2 where d2: "device_UpdateToken u (generateSecureToken S rnd) d = (r, d2)"
    by (cases "device_UpdateToken u (generateSecureToken S rnd) d")
  then have r: "r = Inr ()" "new = generateSecureToken S rnd" "s' = s\<lparr>rg_store := d2\<rparr>"
    using assms(1,5) l
    by (cases r; simp add: RefreshToken_def Let_def on_store_def device_repository_def)+
  have ok: "db_devices_ok d" using assms(2) by (simp add: d_def db_devices_ok_def)
  from device_UpdateToken_spec [OF ok d2] r
  have "\<exists>t m. db_devs d2 u = Some (t, m) \<and> dm_Token m = TrimSpace new" by auto
  with assms(3) r(3) show ?thesis
    by (simp add: Authenticate_def Authenticate_lookup_def Authenticate_finish_def)
qed

definition stale_state :: "(db, unit) registry" where
  "stale_state = \<lparr>rg_store = example_db [True], rg_cache = [''gt_1'' \<mapsto> ''d1''], rg_hook_state = ()\<rparr>"

theorem refresh_stale_token_witness:
  "fst (Authenticate (sql_registry toy_crypto None) ''gt_1''
     (snd (RefreshToken (sql_registry toy_crypto None) ''d1'' (Some [7], []) stale_state))) = (''d1'', None)"
proof -
  let ?S = "sql_registry toy_crypto None :: (db, unit) registry_service"
  have r: "fst (RefreshToken ?S ''d1'' (Some [7], []) stale_state) = (''gt_07'', None)" by code_simp
  have ok: "db_devices_ok (rg_store stale_state)" by (simp add: stale_state_def example_db_ok)
  have c: "rg_cache stale_state ''gt_1'' = Some ''d1''" "faults (rg_store stale_state) = [True]"
    by (simp_all add: stale_state_def example_db_def)
  have "RefreshToken ?S ''d1'' (Some [7], []) stale_state =
      ((''gt_07'', None), snd (RefreshToken ?S ''d1'' (Some [7], []) stale_state))"
    using r by (metis prod.collapse)
  from refresh_stale_token [OF sql_registry_store ok c this] show ?thesis by simp
qed

end
