(* ===== verification/CommandQueue.thy ===== *)
theory CommandQueue
  imports CoreTypes
begin

text \<open>
  \<^verbatim>\<open>device_manager/message_queue.go\<close>: the per-device buffer of downlink messages. The locale
  states the interface \<^verbatim>\<open>inter.DeviceCommandQueue\<close>, in terms of the messages pending for a
  device; the in-memory queue is its interpretation.
\<close>

section \<open>The interface\<close>

record 'q queue_ops =
  q_Enqueue :: "string \<Rightarrow> downlink_message \<Rightarrow> 'q \<Rightarrow> unit result \<times> 'q"
  q_Requeue :: "string \<Rightarrow> downlink_message \<Rightarrow> 'q \<Rightarrow> unit result \<times> 'q"
  q_Dequeue :: "string \<Rightarrow> 'q \<Rightarrow> (downlink_message \<times> bool) result \<times> 'q"
  q_IsEmpty :: "string \<Rightarrow> 'q \<Rightarrow> bool"

locale command_queue =
  fixes Q :: "'q queue_ops" and pending :: "'q \<Rightarrow> string \<Rightarrow> downlink_message list"
    and queue_inv :: "'q \<Rightarrow> bool"
  assumes enqueue_inv: "queue_inv q \<Longrightarrow> queue_inv (snd (q_Enqueue Q u m q))"
    and enqueue_ok: "queue_inv q \<Longrightarrow> fst (q_Enqueue Q u m q) = Inr () \<Longrightarrow>
      \<exists>k \<le> 1. pending (snd (q_Enqueue Q u m q)) u = drop k (pending q u) @ [m]"
    and enqueue_fail: "queue_inv q \<Longrightarrow> fst (q_Enqueue Q u m q) = Inl e \<Longrightarrow>
      pending (snd (q_Enqueue Q u m q)) = pending q"
    and enqueue_other: "queue_inv q \<Longrightarrow> v \<noteq> u \<Longrightarrow>
      pending (snd (q_Enqueue Q u m q)) v = pending q v"
    and requeue_inv: "queue_inv q \<Longrightarrow> queue_inv (snd (q_Requeue Q u m q))"
    and requeue_ok: "queue_inv q \<Longrightarrow> fst (q_Requeue Q u m q) = Inr () \<Longrightarrow>
      \<exists>k. length (pending q u) \<le> k + 1 \<and>
        pending (snd (q_Requeue Q u m q)) u = m # take k (pending q u)"
    and requeue_fail: "queue_inv q \<Longrightarrow> fst (q_Requeue Q u m q) = Inl e \<Longrightarrow>
      pending (snd (q_Requeue Q u m q)) = pending q"
    and requeue_other: "queue_inv q \<Longrightarrow> v \<noteq> u \<Longrightarrow>
      pending (snd (q_Requeue Q u m q)) v = pending q v"
    and dequeue_inv: "queue_inv q \<Longrightarrow> queue_inv (snd (q_Dequeue Q u q))"
    and dequeue_empty: "queue_inv q \<Longrightarrow> pending q u = [] \<Longrightarrow>
      q_Dequeue Q u q = (Inr (no_downlink, False), q)"
    and dequeue_ok: "queue_inv q \<Longrightarrow> pending q u = m # ms \<Longrightarrow>
      fst (q_Dequeue Q u q) = Inr (m, True) \<and> pending (snd (q_Dequeue Q u q)) u = ms"
    and dequeue_other: "queue_inv q \<Longrightarrow> v \<noteq> u \<Longrightarrow>
      pending (snd (q_Dequeue Q u q)) v = pending q v"
    and is_empty: "queue_inv q \<Longrightarrow> q_IsEmpty Q u q \<longleftrightarrow> pending q u = []"
begin

text \<open>Taking up to \<open>n\<close> messages of a device, the way a client drains the queue.\<close>

primrec drain :: "nat \<Rightarrow> string \<Rightarrow> 'q \<Rightarrow> downlink_message list \<times> 'q" where
  "drain 0 u q = ([], q)"
| "drain (Suc n) u q =
     (case q_Dequeue Q u q of
        (Inr (m, True), q') \<Rightarrow> (case drain n u q' of (ms, q'') \<Rightarrow> (m # ms, q''))
      | (_, q') \<Rightarrow> ([], q'))"

lemma drain_order:
  "queue_inv q \<Longrightarrow>
   fst (drain n u q) = take n (pending q u) \<and>
   pending (snd (drain n u q)) u = drop n (pending q u) \<and> queue_inv (snd (drain n u q))"
proof (induction n arbitrary: q)
  case (Suc n)
  show ?case
  proof (cases "pending q u")
    case Nil
    with Suc.prems show ?thesis by (simp add: dequeue_empty)
  next
    case (Cons m ms)
    obtain q' where q': "q_Dequeue Q u q = (Inr (m, True), q')" "pending q' u = ms" "queue_inv q'"
      using dequeue_ok [OF Suc.prems Cons] dequeue_inv [OF Suc.prems, of u]
      by (cases "q_Dequeue Q u q") auto
    with Suc.IH [OF q'(3)] Cons show ?thesis
      by (cases "drain n u q'") auto
  qed
qed simp

text \<open>A message put back is the next one delivered.\<close>

lemma requeue_dequeue:
  assumes "queue_inv q" and "q_Requeue Q u m q = (Inr (), q')"
  shows "fst (q_Dequeue Q u q') = Inr (m, True)"
  using assms requeue_ok [of q u m] requeue_inv [of q u m] dequeue_ok [of q' u m] by auto

end

section \<open>The in-memory queue\<close>

record memory_queue =
  mq_queues :: "string \<Rightarrow> downlink_message list option"
  mq_capacity :: int

definition NewDeviceCommandQueue :: "int \<Rightarrow> memory_queue" where
  "NewDeviceCommandQueue capacity = \<lparr>mq_queues = (\<lambda>u. None), mq_capacity = capacity\<rparr>"

definition mq_full :: "memory_queue \<Rightarrow> downlink_message list \<Rightarrow> bool" where
  "mq_full m queue \<longleftrightarrow> mq_capacity m > 0 \<and> int (length queue) \<ge> mq_capacity m"

definition mq_Enqueue ::
    "string \<Rightarrow> downlink_message \<Rightarrow> memory_queue \<Rightarrow> unit result \<times> memory_queue" where
  "mq_Enqueue uuid message m =
     (let queue = map_get (mq_queues m) uuid []
      in if mq_full m queue
         then (Inr (), m\<lparr>mq_queues := (mq_queues m)(uuid \<mapsto> drop 1 queue @ [message])\<rparr>)
         else (Inr (), m\<lparr>mq_queues := (mq_queues m)(uuid \<mapsto> queue @ [message])\<rparr>))"

definition mq_Requeue ::
    "string \<Rightarrow> downlink_message \<Rightarrow> memory_queue \<Rightarrow> unit result \<times> memory_queue" where
  "mq_Requeue uuid message m =
     (let queue = map_get (mq_queues m) uuid [];
          queue' = (if mq_full m queue then take (length queue - 1) queue else queue)
      in if mq_full m queue' then (Inl ErrDownlinkQueueFull, m)
         else (Inr (), m\<lparr>mq_queues := (mq_queues m)(uuid \<mapsto> message # queue')\<rparr>))"

definition mq_Dequeue ::
    "string \<Rightarrow> memory_queue \<Rightarrow> (downlink_message \<times> bool) result \<times> memory_queue" where
  "mq_Dequeue uuid m =
     (case map_get (mq_queues m) uuid [] of
        [] \<Rightarrow> (Inr (no_downlink, False), m)
      | msg # queue \<Rightarrow>
          (Inr (msg, True),
           m\<lparr>mq_queues := (if queue = [] then map_delete (mq_queues m) uuid
                          else (mq_queues m)(uuid \<mapsto> queue))\<rparr>))"

definition mq_IsEmpty :: "string \<Rightarrow> memory_queue \<Rightarrow> bool" where
  "mq_IsEmpty uuid m \<longleftrightarrow> length (map_get (mq_queues m) uuid []) = 0"

definition memory_queue_ops :: "memory_queue queue_ops" where
  "memory_queue_ops =
     \<lparr>q_Enqueue = mq_Enqueue, q_Requeue = mq_Requeue, q_Dequeue = mq_Dequeue,
      q_IsEmpty = mq_IsEmpty\<rparr>"

definition mq_pending :: "memory_queue \<Rightarrow> string \<Rightarrow> downlink_message list" where
  "mq_pending m u = map_get (mq_queues m) u []"

text \<open>No queue is longer than a positive capacity.\<close>

definition mq_bounded :: "memory_queue \<Rightarrow> bool" where
  "mq_bounded m \<longleftrightarrow>
     mq_capacity m > 0 \<longrightarrow> (\<forall>u. int (length (mq_pending m u)) \<le> mq_capacity m)"

lemmas mq_defs = mq_Enqueue_def mq_Requeue_def mq_Dequeue_def mq_IsEmpty_def mq_pending_def
  mq_full_def Let_def

lemma mq_new_bounded [simp]: "mq_bounded (NewDeviceCommandQueue c)"
  by (simp add: mq_bounded_def NewDeviceCommandQueue_def mq_pending_def map_get_def)

lemma mq_pending_upd [simp]:
  "mq_pending (m\<lparr>mq_queues := (mq_queues m)(u \<mapsto> q)\<rparr>) v = (if v = u then q else mq_pending m v)"
  "mq_pending (m\<lparr>mq_queues := (mq_queues m)(u := None)\<rparr>) v = (if v = u then [] else mq_pending m v)"
  by (simp_all add: mq_pending_def map_get_def)

lemma mq_bounded_upd:
  "mq_bounded m \<Longrightarrow> (mq_capacity m > 0 \<Longrightarrow> int (length q) \<le> mq_capacity m) \<Longrightarrow>
   mq_bounded (m\<lparr>mq_queues := (mq_queues m)(u \<mapsto> q)\<rparr>)"
  by (simp add: mq_bounded_def)

lemma mq_bounded_del:
  "mq_bounded m \<Longrightarrow> mq_bounded (m\<lparr>mq_queues := (mq_queues m)(u := None)\<rparr>)"
  by (simp add: mq_bounded_def)

lemma mq_Enqueue_pending:
  "mq_Enqueue u x m =
   (Inr (), m\<lparr>mq_queues := (mq_queues m)(u \<mapsto>
      drop (if mq_full m (mq_pending m u) then 1 else 0) (mq_pending m u) @ [x])\<rparr>)"
  by (simp add: mq_Enqueue_def mq_pending_def Let_def)

text \<open>Under the invariant, Requeue never reports a full queue.\<close>

lemma mq_Requeue_pending:
  assumes "mq_bounded m"
  shows "mq_Requeue u x m =
   (Inr (), m\<lparr>mq_queues := (mq_queues m)(u \<mapsto>
      x # take (if mq_full m (mq_pending m u) then length (mq_pending m u) - 1
                else length (mq_pending m u)) (mq_pending m u))\<rparr>)"
proof -
  have "int (length (mq_pending m u)) \<le> mq_capacity m" if "mq_capacity m > 0"
    using assms that by (simp add: mq_bounded_def)
  then show ?thesis by (auto simp: mq_Requeue_def mq_pending_def mq_full_def Let_def)
qed

lemma mq_Dequeue_pending:
  "mq_Dequeue u m =
   (case mq_pending m u of [] \<Rightarrow> (Inr (no_downlink, False), m)
    | x # xs \<Rightarrow> (Inr (x, True), m\<lparr>mq_queues := (mq_queues m)(u := if xs = [] then None else Some xs)\<rparr>))"
  by (simp add: mq_Dequeue_def mq_pending_def split: list.splits)

lemma mq_Enqueue_bounded: "mq_bounded m \<Longrightarrow> mq_bounded (snd (mq_Enqueue u x m))"
  by (auto simp: mq_Enqueue_pending mq_full_def mq_bounded_def)

lemma mq_Requeue_bounded: "mq_bounded m \<Longrightarrow> mq_bounded (snd (mq_Requeue u x m))"
  by (auto simp: mq_Requeue_pending mq_full_def mq_bounded_def)

lemma mq_Dequeue_bounded:
  assumes "mq_bounded m"
  shows "mq_bounded (snd (mq_Dequeue u m))"
proof (cases "mq_pending m u")
  case (Cons x xs)
  moreover have "mq_capacity m > 0 \<Longrightarrow> int (length (mq_pending m u)) \<le> mq_capacity m"
    using assms by (simp add: mq_bounded_def)
  ultimately show ?thesis
    using assms by (auto simp: mq_Dequeue_pending mq_bounded_del intro!: mq_bounded_upd)
qed (use assms in \<open>simp add: mq_Dequeue_pending\<close>)

interpretation mem_queue: command_queue memory_queue_ops mq_pending mq_bounded
proof
  fix q :: memory_queue and u v x e ms
  assume inv: "mq_bounded q"
  show "mq_bounded (snd (q_Enqueue memory_queue_ops u x q))"
    using inv by (simp add: memory_queue_ops_def mq_Enqueue_bounded)
  show "\<exists>k\<le>1. mq_pending (snd (q_Enqueue memory_queue_ops u x q)) u = drop k (mq_pending q u) @ [x]"
    by (cases "mq_full q (mq_pending q u)")
       (auto simp: memory_queue_ops_def mq_Enqueue_pending intro: exI [of _ "0::nat"] exI [of _ "1::nat"])
  show "mq_pending (snd (q_Enqueue memory_queue_ops u x q)) = mq_pending q"
    if "fst (q_Enqueue memory_queue_ops u x q) = Inl e"
    using that by (simp add: memory_queue_ops_def mq_Enqueue_pending)
  show "mq_pending (snd (q_Enqueue memory_queue_ops u x q)) v = mq_pending q v" if "v \<noteq> u"
    using that by (simp add: memory_queue_ops_def mq_Enqueue_pending)
  show "mq_bounded (snd (q_Requeue memory_queue_ops u x q))"
    using inv by (simp add: memory_queue_ops_def mq_Requeue_bounded)
  show "\<exists>k. length (mq_pending q u) \<le> k + 1 \<and>
      mq_pending (snd (q_Requeue memory_queue_ops u x q)) u = x # take k (mq_pending q u)"
    by (rule exI [of _ "if mq_full q (mq_pending q u) then length (mq_pending q u) - 1
                        else length (mq_pending q u)"])
       (simp add: memory_queue_ops_def mq_Requeue_pending [OF inv], arith)
  show "mq_pending (snd (q_Requeue memory_queue_ops u x q)) = mq_pending q"
    if "fst (q_Requeue memory_queue_ops u x q) = Inl e"
    using that by (simp add: memory_queue_ops_def mq_Requeue_pending [OF inv])
  show "mq_pending (snd (q_Requeue memory_queue_ops u x q)) v = mq_pending q v" if "v \<noteq> u"
    using that by (simp add: memory_queue_ops_def mq_Requeue_pending [OF inv])
  show "mq_bounded (snd (q_Dequeue memory_queue_ops u q))"
    using inv by (simp add: memory_queue_ops_def mq_Dequeue_bounded)
  show "q_Dequeue memory_queue_ops u q = (Inr (no_downlink, False), q)" if "mq_pending q u = []"
    using that by (simp add: memory_queue_ops_def mq_Dequeue_pending)
  show "fst (q_Dequeue memory_queue_ops u q) = Inr (x, True) \<and>
      mq_pending (snd (q_Dequeue memory_queue_ops u q)) u = ms" if "mq_pending q u = x # ms"
    using that by (auto simp: memory_queue_ops_def mq_Dequeue_pending)
  show "mq_pending (snd (q_Dequeue memory_queue_ops u q)) v = mq_pending q v" if "v \<noteq> u"
    using that by (auto simp: memory_queue_ops_def mq_Dequeue_pending split: list.splits)
  show "q_IsEmpty memory_queue_ops u q \<longleftrightarrow> mq_pending q u = []"
    by (simp add: memory_queue_ops_def mq_IsEmpty_def mq_pending_def)
qed

section \<open>Any sequence of operations\<close>

datatype queue_op =
  OpEnqueue string downlink_message | OpRequeue string downlink_message | OpDequeue string

fun run_queue_op :: "queue_op \<Rightarrow> memory_queue \<Rightarrow> memory_queue" where
  "run_queue_op (OpEnqueue u m) q = snd (mq_Enqueue u m q)"
| "run_queue_op (OpRequeue u m) q = snd (mq_Requeue u m q)"
| "run_queue_op (OpDequeue u) q = snd (mq_Dequeue u q)"

text \<open>What one operation does to the list of the device it names, for a capacity \<open>c\<close>.\<close>

fun queue_spec :: "int \<Rightarrow> queue_op \<Rightarrow> downlink_message list \<Rightarrow> downlink_message list" where
  "queue_spec c (OpEnqueue u m) xs = (if c > 0 \<and> int (length xs) = c then tl xs @ [m] else xs @ [m])"
| "queue_spec c (OpRequeue u m) xs = (if c > 0 \<and> int (length xs) = c then m # butlast xs else m # xs)"
| "queue_spec c (OpDequeue u) xs = tl xs"

fun op_device :: "queue_op \<Rightarrow> string" where
  "op_device (OpEnqueue u m) = u"
| "op_device (OpRequeue u m) = u"
| "op_device (OpDequeue u) = u"

lemma run_queue_op_capacity [simp]: "mq_capacity (run_queue_op x q) = mq_capacity q"
  by (cases x) (auto simp: mq_defs split: list.splits)

lemma run_queue_op_bounded: "mq_bounded q \<Longrightarrow> mq_bounded (run_queue_op x q)"
  by (cases x) (simp_all add: mq_Enqueue_bounded mq_Requeue_bounded mq_Dequeue_bounded)

lemma run_queue_op_spec:
  assumes "mq_bounded q"
  shows "mq_pending (run_queue_op x q) u =
    (if u = op_device x then queue_spec (mq_capacity q) x (mq_pending q u) else mq_pending q u)"
proof -
  have "mq_full q (mq_pending q v) \<longleftrightarrow>
      mq_capacity q > 0 \<and> int (length (mq_pending q v)) = mq_capacity q" for v
    using assms by (auto simp: mq_bounded_def mq_full_def order_antisym)
  then show ?thesis
    by (cases x)
       (auto simp: mq_Enqueue_pending mq_Requeue_pending [OF assms] mq_Dequeue_pending drop_Suc
          butlast_conv_take split: list.splits)
qed

lemma run_queue_ops_inv:
  "mq_bounded (fold run_queue_op xs (NewDeviceCommandQueue c)) \<and>
   mq_capacity (fold run_queue_op xs (NewDeviceCommandQueue c)) = c"
proof -
  have "mq_bounded q \<Longrightarrow> mq_bounded (fold run_queue_op xs q) \<and>
      mq_capacity (fold run_queue_op xs q) = mq_capacity q" for q
    by (induction xs arbitrary: q) (simp_all add: run_queue_op_bounded)
  then show ?thesis using mq_new_bounded [of c] by (simp add: NewDeviceCommandQueue_def)
qed

section \<open>Properties\<close>

text \<open>After any sequence of operations on a new queue, every device has at most as many
  pending messages as the capacity allows; the next operation changes only the device it names:
  Enqueue appends (dropping exactly the oldest message of a full queue), Requeue puts its message
  in front (dropping exactly the newest of a full queue) and always succeeds, and Dequeue returns
  and removes the front message, or reports an empty queue.\<close>

theorem queue_bounded_fifo:
  "\<forall>q. q = fold run_queue_op xs (NewDeviceCommandQueue c) \<longrightarrow>
     (c > 0 \<longrightarrow> (\<forall>u. int (length (mq_pending q u)) \<le> c)) \<and>
     (\<forall>x u. mq_pending (run_queue_op x q) u =
        (if u = op_device x then queue_spec c x (mq_pending q u) else mq_pending q u)) \<and>
     (\<forall>u m. fst (mq_Enqueue u m q) = Inr () \<and> fst (mq_Requeue u m q) = Inr ()) \<and>
     (\<forall>u. fst (mq_Dequeue u q) =
        (case mq_pending q u of [] \<Rightarrow> Inr (no_downlink, False) | m # ms \<Rightarrow> Inr (m, True)))"
proof (intro allI impI)
  fix q assume q: "q = fold run_queue_op xs (NewDeviceCommandQueue c)"
  then have inv: "mq_bounded q" and c: "mq_capacity q = c" using run_queue_ops_inv by auto
  have "c > 0 \<longrightarrow> (\<forall>u. int (length (mq_pending q u)) \<le> c)"
    using inv c by (simp add: mq_bounded_def)
  moreover have "\<forall>u m. fst (mq_Enqueue u m q) = Inr () \<and> fst (mq_Requeue u m q) = Inr ()"
    by (simp add: mq_Enqueue_pending mq_Requeue_pending [OF inv])
  moreover have "\<forall>u. fst (mq_Dequeue u q) =
        (case mq_pending q u of [] \<Rightarrow> Inr (no_downlink, False) | m # ms \<Rightarrow> Inr (m, True))"
    by (simp add: mq_Dequeue_pending split: list.splits)
  ultimately show "(c > 0 \<longrightarrow> (\<forall>u. int (length (mq_pending q u)) \<le> c)) \<and>
     (\<forall>x u. mq_pending (run_queue_op x q) u =
        (if u = op_device x then queue_spec c x (mq_pending q u) else mq_pending q u)) \<and>
     (\<forall>u m. fst (mq_Enqueue u m q) = Inr () \<and> fst (mq_Requeue u m q) = Inr ()) \<and>
     (\<forall>u. fst (mq_Dequeue u q) =
        (case mq_pending q u of [] \<Rightarrow> Inr (no_downlink, False) | m # ms \<Rightarrow> Inr (m, True)))"
    using run_queue_op_spec [OF inv] c by blast
qed

theorem queue_bounded_fifo_witness:
  "length (mq_pending (fold run_queue_op
     [OpEnqueue ''a'' no_downlink, OpEnqueue ''a'' no_downlink] (NewDeviceCommandQueue 1)) ''a'') \<le> 1"
  using queue_bounded_fifo [of "[OpEnqueue ''a'' no_downlink, OpEnqueue ''a'' no_downlink]" 1]
  by (metis of_nat_1 of_nat_le_iff zero_less_one)

end
