(* ===== verification/CommandStore.thy ===== *)
theory CommandStore
  imports DeviceStore
begin

text \<open>
  \<^verbatim>\<open>storage/command/repository.go\<close>: the log of downlink commands and their status, and the
  interface \<^verbatim>\<open>inter.DeviceCommandRepository\<close>. The tenant resolver the repository is built
  with is its first argument; a status is one of the four constants or another string.
\<close>

type_synonym tenant_resolver = "string \<Rightarrow> (string, db) action"

definition createDeviceCommandRecord ::
    "tenant_resolver \<Rightarrow> string \<Rightarrow> string \<Rightarrow> core_cmd \<Rightarrow> string \<Rightarrow> bytes \<Rightarrow> bool \<Rightarrow> (int, db) action" where
  "createDeviceCommandRecord R tenantID uuid cmdID command payloadJSON validateTenant =
     (let tenantID = NormalizeTenantID tenantID;
          uuid = TrimSpace uuid;
          command = TrimSpace (ToLower command);
          insert = run_stmt (\<lambda>t.
            let row = \<lparr>c_ID = t_next_command t, c_TenantID = tenantID, c_UUID = uuid,
                       c_CmdID = cmdID, c_Command = command,
                       c_PayloadJSON = PayloadStringPtr payloadJSON, c_Status = CmdQueued,
                       c_ErrorText = None, c_ExecutedAt = None\<rparr>
            in (Inr (c_ID row), t\<lparr>t_commands := t_commands t @ [row],
                                  t_next_command := t_next_command t + 1\<rparr>))
      in if uuid = [] then failE (ErrText ''uuid is required'')
         else if command = [] then failE (ErrText ''command is required'')
         else if validateTenant then
           bindE (R uuid) (\<lambda>deviceTenant.
             if NormalizeTenantID deviceTenant \<noteq> tenantID then failE ErrDeviceTenantMismatch
             else insert)
         else insert)"

definition CreateDeviceCommand ::
    "tenant_resolver \<Rightarrow> string \<Rightarrow> core_cmd \<Rightarrow> string \<Rightarrow> bytes \<Rightarrow> (int, db) action" where
  "CreateDeviceCommand R uuid cmdID command payloadJSON d =
     (case R uuid d of
        (Inl _, d') \<Rightarrow> createDeviceCommandRecord R DefaultTenantID uuid cmdID command payloadJSON False d'
      | (Inr tenantID, d') \<Rightarrow>
          createDeviceCommandRecord R tenantID uuid cmdID command payloadJSON False d')"

definition CreateDeviceCommandByTenant ::
    "tenant_resolver \<Rightarrow> string \<Rightarrow> string \<Rightarrow> core_cmd \<Rightarrow> string \<Rightarrow> bytes \<Rightarrow> (int, db) action" where
  "CreateDeviceCommandByTenant R tenantID uuid cmdID command payloadJSON =
     createDeviceCommandRecord R tenantID uuid cmdID command payloadJSON True"

definition isValidDeviceCommandStatus :: "command_status \<Rightarrow> bool" where
  "isValidDeviceCommandStatus status \<longleftrightarrow> status \<in> {CmdQueued, CmdSent, CmdAcked, CmdFailed}"

definition UpdateDeviceCommandStatus ::
    "int \<Rightarrow> command_status \<Rightarrow> string \<Rightarrow> time \<Rightarrow> (unit, db) action" where
  "UpdateDeviceCommandStatus commandID status errorText now =
     (if commandID \<le> 0 then failE (ErrText ''invalid command id'')
      else if \<not> isValidDeviceCommandStatus status then failE (ErrText ''invalid command status'')
      else
        let executedAt = (if status = CmdAcked \<or> status = CmdFailed then Some now else None);
            errText = TrimSpace errorText
        in bindE
             (run_stmt (\<lambda>t.
               (Inr (length (filter (\<lambda>r. c_ID r = commandID) (t_commands t))),
                t\<lparr>t_commands := map (\<lambda>r. if c_ID r = commandID
                    then r\<lparr>c_Status := status, c_ErrorText := NullableOptionalString errText,
                           c_ExecutedAt := (if executedAt = None then c_ExecutedAt r else executedAt)\<rparr>
                    else r) (t_commands t)\<rparr>)))
             (\<lambda>rows. if rows = 0 then failE ErrDeviceCommandNotFound else returnE ()))"

section \<open>The interface\<close>

record 'd command_repo_ops =
  cr_CreateDeviceCommandByTenant ::
    "string \<Rightarrow> string \<Rightarrow> core_cmd \<Rightarrow> string \<Rightarrow> bytes \<Rightarrow> (int, 'd) action"
  cr_UpdateDeviceCommandStatus :: "int \<Rightarrow> command_status \<Rightarrow> string \<Rightarrow> time \<Rightarrow> (unit, 'd) action"

text \<open>\<open>status d i\<close> is the device and the status of command \<open>i\<close>.\<close>

locale command_repo =
  fixes R :: "'d command_repo_ops" and status :: "'d \<Rightarrow> int \<Rightarrow> (string \<times> command_status) option"
    and repo_inv :: "'d \<Rightarrow> bool"
  assumes create_inv: "repo_inv d \<Longrightarrow>
      cr_CreateDeviceCommandByTenant R tn u cmd name pl d = (r, d') \<Longrightarrow> repo_inv d'"
    and create_fail: "repo_inv d \<Longrightarrow>
      cr_CreateDeviceCommandByTenant R tn u cmd name pl d = (Inl e, d') \<Longrightarrow> status d' = status d"
    and create_ok: "repo_inv d \<Longrightarrow>
      cr_CreateDeviceCommandByTenant R tn u cmd name pl d = (Inr i, d') \<Longrightarrow>
      0 < i \<and> status d i = None \<and> status d' = (status d)(i \<mapsto> (TrimSpace u, CmdQueued))"
    and status_inv: "repo_inv d \<Longrightarrow> cr_UpdateDeviceCommandStatus R i st msg now d = (ru, d') \<Longrightarrow> repo_inv d'"
    and status_fail: "repo_inv d \<Longrightarrow>
      cr_UpdateDeviceCommandStatus R i st msg now d = (Inl e, d') \<Longrightarrow> status d' = status d"
    and status_ok: "repo_inv d \<Longrightarrow>
      cr_UpdateDeviceCommandStatus R i st msg now d = (Inr x, d') \<Longrightarrow>
      \<exists>u old. status d i = Some (u, old) \<and> status d' = (status d)(i \<mapsto> (u, st))"

section \<open>The repository provides it\<close>

definition command_repository :: "tenant_resolver \<Rightarrow> db command_repo_ops" where
  "command_repository R =
     \<lparr>cr_CreateDeviceCommandByTenant = CreateDeviceCommandByTenant R,
      cr_UpdateDeviceCommandStatus = UpdateDeviceCommandStatus\<rparr>"

definition db_command :: "db \<Rightarrow> int \<Rightarrow> (string \<times> command_status) option" where
  "db_command d i = map_option (\<lambda>r. (c_UUID r, c_Status r)) (find (\<lambda>r. c_ID r = i) (t_commands (tabs d)))"

text \<open>The autoincrement key: every row has a positive number below the next one.\<close>

definition commands_ok :: "tables \<Rightarrow> bool" where
  "commands_ok t \<longleftrightarrow> 0 < t_next_command t \<and>
     (\<forall>r \<in> set (t_commands t). 0 < c_ID r \<and> c_ID r < t_next_command t)"

definition db_commands_ok :: "db \<Rightarrow> bool" where
  "db_commands_ok d \<longleftrightarrow> commands_ok (tabs d)"

lemma empty_db_commands_ok [simp]: "db_commands_ok empty_db"
  by (simp add: db_commands_ok_def commands_ok_def empty_db_def empty_tables_def)

text \<open>A resolver only reads.\<close>

definition reads_only :: "tenant_resolver \<Rightarrow> bool" where
  "reads_only R \<longleftrightarrow> (\<forall>u d. tabs (snd (R u d)) = tabs d)"

lemma device_resolver_reads: "reads_only device_ResolveDeviceTenant"
  unfolding reads_only_def
proof (intro allI)
  fix u d
  show "tabs (snd (device_ResolveDeviceTenant u d)) = tabs d"
    by (cases "find_device u" d rule: run_query_cases)
       (auto simp: device_ResolveDeviceTenant_def split: option.splits)
qed

lemma find_append: "find P (xs @ [x]) = (case find P xs of None \<Rightarrow> if P x then Some x else None | Some y \<Rightarrow> Some y)"
  by (induction xs) auto

lemma find_map_if:
  assumes "\<And>r. P (f r) = P r"
  shows "find P (map (\<lambda>r. if Q r then f r else r) xs) = map_option (\<lambda>r. if Q r then f r else r) (find P xs)"
  by (induction xs) (auto simp: assms)

lemma commands_ok_fresh: "commands_ok t \<Longrightarrow> find (\<lambda>r. c_ID r = t_next_command t) (t_commands t) = None"
  by (auto simp: commands_ok_def find_None_iff)

lemma insert_command_spec:
  assumes ok: "db_commands_ok d"
    and run: "run_stmt (\<lambda>t. (Inr (c_ID (row (t_next_command t))),
        t\<lparr>t_commands := t_commands t @ [row (t_next_command t)], t_next_command := t_next_command t + 1\<rparr>)) d = (r, d')"
    and row: "\<And>i. c_ID (row i) = i \<and> c_UUID (row i) = u \<and> c_Status (row i) = CmdQueued"
  shows "db_commands_ok d' \<and> (\<forall>e. r = Inl e \<longrightarrow> tabs d' = tabs d) \<and>
    (\<forall>i. r = Inr i \<longrightarrow> 0 < i \<and> db_command d i = None \<and>
       db_command d' = (db_command d)(i \<mapsto> (u, CmdQueued)))"
proof (cases r)
  case (Inl e)
  then have "tabs d' = tabs d" using run by (blast dest: run_stmt_Inl)
  with Inl ok show ?thesis by (simp add: db_commands_ok_def)
next
  case (Inr i)
  let ?n = "t_next_command (tabs d)"
  from run_stmt_Inr [OF run [unfolded Inr]] have i: "i = ?n"
    and t: "tabs d' = (tabs d)\<lparr>t_commands := t_commands (tabs d) @ [row ?n], t_next_command := ?n + 1\<rparr>"
    unfolding prod.inject sum.inject by (metis row, metis)
  have n: "find (\<lambda>r. c_ID r = ?n) (t_commands (tabs d)) = None" "0 < ?n"
    using commands_ok_fresh ok by (auto simp: db_commands_ok_def commands_ok_def)
  have "db_commands_ok d'"
    using ok by (auto simp: db_commands_ok_def commands_ok_def t row)
  moreover have "db_command d' j = ((db_command d)(i \<mapsto> (u, CmdQueued))) j" for j
    using n by (auto simp: db_command_def t find_append row i split: option.splits)
  ultimately show ?thesis
    using n by (simp add: Inr i db_command_def fun_eq_iff)
qed

lemma CreateDeviceCommandByTenant_spec:
  assumes R: "reads_only R" and ok: "db_commands_ok d"
    and run: "CreateDeviceCommandByTenant R tn u cmd name pl d = (r, d')"
  shows "db_commands_ok d' \<and> (\<forall>e. r = Inl e \<longrightarrow> tabs d' = tabs d) \<and>
    (\<forall>i. r = Inr i \<longrightarrow> 0 < i \<and> db_command d i = None \<and>
       db_command d' = (db_command d)(i \<mapsto> (TrimSpace u, CmdQueued)) \<and>
       (\<exists>dt. fst (R (TrimSpace u) d) = Inr dt \<and> NormalizeTenantID dt = NormalizeTenantID tn))"
proof (cases "TrimSpace u = [] \<or> TrimSpace (ToLower name) = []")
  case True
  with run ok show ?thesis
    by (cases "TrimSpace u = []")
       (auto simp: CreateDeviceCommandByTenant_def createDeviceCommandRecord_def Let_def)
next
  case False
  obtain x d1 where x: "R (TrimSpace u) d = (x, d1)" by (cases "R (TrimSpace u) d")
  have d1: "tabs d1 = tabs d" using R x unfolding reads_only_def by (metis snd_conv)
  then have ok1: "db_commands_ok d1" and same: "db_command d1 = db_command d"
    using ok by (simp_all add: db_commands_ok_def db_command_def fun_eq_iff)
  define row where "row i = \<lparr>c_ID = i, c_TenantID = NormalizeTenantID tn, c_UUID = TrimSpace u,
     c_CmdID = cmd, c_Command = TrimSpace (ToLower name), c_PayloadJSON = PayloadStringPtr pl,
     c_Status = CmdQueued, c_ErrorText = None, c_ExecutedAt = None\<rparr>" for i
  let ?ins = "run_stmt (\<lambda>t. (Inr (c_ID (row (t_next_command t))),
      t\<lparr>t_commands := t_commands t @ [row (t_next_command t)], t_next_command := t_next_command t + 1\<rparr>))"
  have run': "CreateDeviceCommandByTenant R tn u cmd name pl d =
      (case x of Inl e \<Rightarrow> (Inl e, d1)
       | Inr dt \<Rightarrow> if NormalizeTenantID dt \<noteq> NormalizeTenantID tn then (Inl ErrDeviceTenantMismatch, d1)
                  else ?ins d1)"
    using False x
    by (cases x) (simp_all add: CreateDeviceCommandByTenant_def createDeviceCommandRecord_def
        Let_def row_def bindE_def failE_def)
  show ?thesis
  proof (cases "\<exists>dt. x = Inr dt \<and> NormalizeTenantID dt = NormalizeTenantID tn")
    case True
    then obtain dt where dt: "x = Inr dt" "NormalizeTenantID dt = NormalizeTenantID tn" by blast
    then have "?ins d1 = (r, d')" using run run' by simp
    from insert_command_spec [OF ok1 this] dt x d1 show ?thesis
      by (simp add: row_def same)
  next
    case False
    then have "\<exists>e. (r, d') = (Inl e, d1)" using run run' by (auto split: sum.splits)
    with d1 ok1 show ?thesis by auto
  qed
qed

lemma UpdateDeviceCommandStatus_spec:
  assumes ok: "db_commands_ok d" and run: "UpdateDeviceCommandStatus i st msg now d = (r, d')"
  shows "db_commands_ok d' \<and> (\<forall>e. r = Inl e \<longrightarrow> db_command d' = db_command d) \<and>
    (\<forall>x. r = Inr x \<longrightarrow> isValidDeviceCommandStatus st \<and> 0 < i \<and>
      (\<exists>u old. db_command d i = Some (u, old) \<and> db_command d' = (db_command d)(i \<mapsto> (u, st))))"
proof (cases "i \<le> 0 \<or> \<not> isValidDeviceCommandStatus st")
  case True
  with run ok show ?thesis by (auto simp: UpdateDeviceCommandStatus_def split: if_splits)
next
  case False
  define f where "f = (\<lambda>r :: command_row. r\<lparr>c_Status := st,
      c_ErrorText := NullableOptionalString (TrimSpace msg),
      c_ExecutedAt := (if (if st = CmdAcked \<or> st = CmdFailed then Some now else None) = None
        then c_ExecutedAt r else (if st = CmdAcked \<or> st = CmdFailed then Some now else None))\<rparr>)"
  define stm where "stm = (\<lambda>t :: tables. (Inr (length (filter (\<lambda>r. c_ID r = i) (t_commands t))) :: nat result,
      t\<lparr>t_commands := map (\<lambda>r. if c_ID r = i then f r else r) (t_commands t)\<rparr>))"
  have f: "c_ID (f r) = c_ID r" "c_UUID (f r) = c_UUID r" "c_Status (f r) = st" for r
    by (simp_all add: f_def)
  obtain x d1 where x: "run_stmt stm d = (x, d1)" by (cases "run_stmt stm d")
  have rd: "(case x of Inl e \<Rightarrow> (Inl e, d1)
      | Inr n \<Rightarrow> if n = 0 then (Inl ErrDeviceCommandNotFound, d1) else (Inr (), d1)) = (r, d')"
    using run False x unfolding stm_def f_def UpdateDeviceCommandStatus_def bindE_def Let_def
    by (cases x) (simp_all add: if_distrib [of "\<lambda>m. m d1"] del: not_None_eq split: if_splits)
  show ?thesis
  proof (cases x)
    case (Inl e)
    then have "tabs d1 = tabs d" using x by (simp add: run_stmt_Inl)
    with rd Inl ok show ?thesis by (auto simp: db_commands_ok_def db_command_def fun_eq_iff)
  next
    case (Inr n)
    from run_stmt_Inr [OF x [unfolded Inr]]
    have n: "n = length (filter (\<lambda>r. c_ID r = i) (t_commands (tabs d)))"
      and t: "tabs d1 = (tabs d)\<lparr>t_commands := map (\<lambda>r. if c_ID r = i then f r else r) (t_commands (tabs d))\<rparr>"
      by (simp_all add: stm_def)
    have "db_commands_ok d1" using ok by (auto simp: db_commands_ok_def commands_ok_def t f)
    moreover have fd: "db_command d1 j = (if j = i then map_option (\<lambda>(u, _). (u, st)) (db_command d j)
        else db_command d j)" for j
    proof -
      have "find (\<lambda>r. c_ID r = j) (map (\<lambda>r. if c_ID r = i then f r else r) (t_commands (tabs d))) =
          map_option (\<lambda>r. if c_ID r = i then f r else r) (find (\<lambda>r. c_ID r = j) (t_commands (tabs d)))"
        by (rule find_map_if) (simp add: f)
      note eq = this
      show ?thesis
      proof (cases "find (\<lambda>r. c_ID r = j) (t_commands (tabs d))")
        case None
        with eq show ?thesis by (cases "j = i") (simp_all add: db_command_def t)
      next
        case (Some r)
        from find_SomeD [OF this] have "c_ID r = j" by simp
        with Some eq show ?thesis by (cases "j = i") (simp_all add: db_command_def t f)
      qed
    qed
    moreover have "n = 0 \<longleftrightarrow> db_command d i = None"
      by (auto simp: n db_command_def find_None_iff filter_empty_conv)
    ultimately show ?thesis
      using rd Inr False by (auto simp: fun_eq_iff split: if_splits)
  qed
qed

text \<open>Over the resolver of the device repository.\<close>

interpretation sql_commands: command_repo "command_repository device_ResolveDeviceTenant" db_command db_commands_ok
proof
  fix d d' :: db and tn u cmd name pl r e i st msg now ru x
  assume ok: "db_commands_ok d"
  note create = CreateDeviceCommandByTenant_spec [OF device_resolver_reads ok, of tn u cmd name pl _ d']
  note update = UpdateDeviceCommandStatus_spec [OF ok, of i st msg now _ d']
  have same: "tabs d' = tabs d \<Longrightarrow> db_command d' = db_command d"
    by (simp add: db_command_def fun_eq_iff)
  show "db_commands_ok d'"
    if "cr_CreateDeviceCommandByTenant (command_repository device_ResolveDeviceTenant) tn u cmd name pl d = (r, d')"
    using create that by (simp add: command_repository_def)
  show "db_command d' = db_command d"
    if "cr_CreateDeviceCommandByTenant (command_repository device_ResolveDeviceTenant) tn u cmd name pl d = (Inl e, d')"
    using create that same by (simp add: command_repository_def)
  show "0 < i \<and> db_command d i = None \<and> db_command d' = (db_command d)(i \<mapsto> (TrimSpace u, CmdQueued))"
    if "cr_CreateDeviceCommandByTenant (command_repository device_ResolveDeviceTenant) tn u cmd name pl d = (Inr i, d')"
    using create that by (simp add: command_repository_def)
  show "db_commands_ok d'"
    if "cr_UpdateDeviceCommandStatus (command_repository device_ResolveDeviceTenant) i st msg now d = (ru, d')"
    using update that by (simp add: command_repository_def)
  show "db_command d' = db_command d"
    if "cr_UpdateDeviceCommandStatus (command_repository device_ResolveDeviceTenant) i st msg now d = (Inl e, d')"
    using update that by (simp add: command_repository_def)
  show "\<exists>u old. db_command d i = Some (u, old) \<and> db_command d' = (db_command d)(i \<mapsto> (u, st))"
    if "cr_UpdateDeviceCommandStatus (command_repository device_ResolveDeviceTenant) i st msg now d = (Inr x, d')"
    using update that by (simp add: command_repository_def)
qed

end
