(* ===== verification/Downlink.thy ===== *)
theory Downlink
  imports CommandQueue CommandStore
begin

text \<open>
  \<^verbatim>\<open>device_manager/downlink_command_service.go\<close>: a downlink command is a row of the command
  log and a message of the device's queue. The service runs over both interfaces; its lemmas are
  proved once, over their laws.
\<close>

record ('d, 'q) downlink =
  dk_store :: 'd
  dk_queue :: 'q

record ('d, 'q) downlink_service =
  dsv_dataStore :: "'d command_repo_ops"
  dsv_queue :: "'q queue_ops"

definition on_repo :: "('a, 'd) action \<Rightarrow> ('a, ('d, 'q) downlink) action" where
  "on_repo f s = (case f (dk_store s) of (r, d) \<Rightarrow> (r, s\<lparr>dk_store := d\<rparr>))"

definition on_queue :: "('a, 'q) action \<Rightarrow> ('a, ('d, 'q) downlink) action" where
  "on_queue f s = (case f (dk_queue s) of (r, q) \<Rightarrow> (r, s\<lparr>dk_queue := q\<rparr>))"

text \<open>The text of an error; only its key is modelled.\<close>

definition error_text :: "go_error \<Rightarrow> string" where
  "error_text e = (case e of ErrText s \<Rightarrow> s | ErrDownlinkQueueFull \<Rightarrow> ''downlink queue full'' | _ \<Rightarrow> ''error'')"

definition mark_status ::
    "('d, 'q) downlink_service \<Rightarrow> command_status \<Rightarrow> int \<Rightarrow> string \<Rightarrow> time \<Rightarrow> (unit, ('d, 'q) downlink) action" where
  "mark_status S st commandID text now =
     on_repo (cr_UpdateDeviceCommandStatus (dsv_dataStore S) commandID st text now)"

definition MarkSent :: "('d, 'q) downlink_service \<Rightarrow> int \<Rightarrow> time \<Rightarrow> (unit, ('d, 'q) downlink) action" where
  "MarkSent S commandID now =
     (if commandID \<le> 0 then returnE () else mark_status S CmdSent commandID [] now)"

definition MarkAcked :: "('d, 'q) downlink_service \<Rightarrow> int \<Rightarrow> time \<Rightarrow> (unit, ('d, 'q) downlink) action" where
  "MarkAcked S commandID now =
     (if commandID \<le> 0 then returnE () else mark_status S CmdAcked commandID [] now)"

definition MarkFailed ::
    "('d, 'q) downlink_service \<Rightarrow> int \<Rightarrow> string \<Rightarrow> time \<Rightarrow> (unit, ('d, 'q) downlink) action" where
  "MarkFailed S commandID errorText now =
     (if commandID \<le> 0 then returnE () else mark_status S CmdFailed commandID (TrimSpace errorText) now)"

definition Downlink_Enqueue ::
    "('d, 'q) downlink_service \<Rightarrow> scope \<Rightarrow> string \<Rightarrow> core_cmd \<Rightarrow> string \<Rightarrow> bytes \<Rightarrow> time \<Rightarrow>
     (downlink_message, ('d, 'q) downlink) action" where
  "Downlink_Enqueue S sc uuid cmdID command payloadJSON now =
     bindE (on_repo (cr_CreateDeviceCommandByTenant (dsv_dataStore S) (sc_TenantID sc) uuid cmdID
              command payloadJSON)) (\<lambda>commandID.
       let msg = \<lparr>dl_CommandID = commandID, dl_CmdID = cmdID, dl_Payload = payloadJSON\<rparr>
       in catchE (bindE (on_queue (q_Enqueue (dsv_queue S) uuid msg)) (\<lambda>_. returnE msg))
            (\<lambda>e s. (Inl e, snd (MarkFailed S commandID (error_text e) now s))))"

definition PopDownlink ::
    "('d, 'q) downlink_service \<Rightarrow> string \<Rightarrow> (downlink_message \<times> bool, ('d, 'q) downlink) action" where
  "PopDownlink S uuid = on_queue (q_Dequeue (dsv_queue S) uuid)"

definition Downlink_Requeue ::
    "('d, 'q) downlink_service \<Rightarrow> string \<Rightarrow> downlink_message \<Rightarrow> time \<Rightarrow> (unit, ('d, 'q) downlink) action" where
  "Downlink_Requeue S uuid message now =
     (if dl_CommandID message \<le> 0 then returnE ()
      else bindE
        (catchE (on_queue (q_Requeue (dsv_queue S) uuid message))
           (\<lambda>e s. (Inl e, snd (MarkFailed S (dl_CommandID message) (error_text e) now s))))
        (\<lambda>_. mark_status S CmdQueued (dl_CommandID message) [] now))"

section \<open>The service over its two interfaces\<close>

lemma on_repo_cases:
  obtains r d where "f (dk_store s) = (r, d)" "on_repo f s = (r, s\<lparr>dk_store := d\<rparr>)"
  by (cases "f (dk_store s)") (auto simp: on_repo_def)

lemma on_queue_cases:
  obtains r q where "f (dk_queue s) = (r, q)" "on_queue f s = (r, s\<lparr>dk_queue := q\<rparr>)"
  by (cases "f (dk_queue s)") (auto simp: on_queue_def)

lemma in_set_tlD: "x \<in> set (tl xs) \<Longrightarrow> x \<in> set xs"
  by (cases xs) auto

locale downlink_client =
  command_repo R status repo_inv + command_queue Q pending queue_inv
  for R :: "'d command_repo_ops" and status repo_inv
    and Q :: "'q queue_ops" and pending queue_inv
begin

definition service :: "('d, 'q) downlink_service" where
  "service = \<lparr>dsv_dataStore = R, dsv_queue = Q\<rparr>"

text \<open>Every queued message is a command the log knows.\<close>

definition dk_ok :: "('d, 'q) downlink \<Rightarrow> bool" where
  "dk_ok s \<longleftrightarrow> repo_inv (dk_store s) \<and> queue_inv (dk_queue s) \<and>
     (\<forall>u. \<forall>m \<in> set (pending (dk_queue s) u). status (dk_store s) (dl_CommandID m) \<noteq> None)"

lemma dk_okD:
  assumes "dk_ok s"
  shows "repo_inv (dk_store s)" and "queue_inv (dk_queue s)"
    and "m \<in> set (pending (dk_queue s) u) \<Longrightarrow> status (dk_store s) (dl_CommandID m) \<noteq> None"
  using assms unfolding dk_ok_def by blast+

text \<open>Creating a command or updating a status keeps the known commands.\<close>

lemma repo_step:
  assumes "dk_ok s" and "repo_inv d" and "\<And>i. status (dk_store s) i \<noteq> None \<Longrightarrow> status d i \<noteq> None"
  shows "dk_ok (s\<lparr>dk_store := d\<rparr>)"
  using assms unfolding dk_ok_def by simp

lemma queue_step:
  assumes "dk_ok s" and "queue_inv q"
    and "\<And>u m. m \<in> set (pending q u) \<Longrightarrow> m \<in> set (pending (dk_queue s) u) \<or> status (dk_store s) (dl_CommandID m) \<noteq> None"
  shows "dk_ok (s\<lparr>dk_queue := q\<rparr>)"
  using assms unfolding dk_ok_def by fastforce

lemma mark_status_spec:
  assumes s: "dk_ok s" and run: "mark_status service st i msg now s = (r, s')"
  shows "dk_ok s' \<and> dk_queue s' = dk_queue s \<and>
    (\<forall>e. r = Inl e \<longrightarrow> status (dk_store s') = status (dk_store s)) \<and>
    (\<forall>x. r = Inr x \<longrightarrow> (\<exists>u old. status (dk_store s) i = Some (u, old) \<and>
        status (dk_store s') = (status (dk_store s))(i \<mapsto> (u, st))))"
proof -
  obtain r2 d where f: "cr_UpdateDeviceCommandStatus R i st msg now (dk_store s) = (r2, d)"
    and "on_repo (cr_UpdateDeviceCommandStatus R i st msg now) s = (r2, s\<lparr>dk_store := d\<rparr>)"
    by (rule on_repo_cases)
  with run have r: "r2 = r" "s' = s\<lparr>dk_store := d\<rparr>" by (auto simp: mark_status_def service_def)
  note inv = dk_okD(1) [OF s]
  have new: "(\<forall>e. r = Inl e \<longrightarrow> status d = status (dk_store s)) \<and>
    (\<forall>x. r = Inr x \<longrightarrow> (\<exists>u old. status (dk_store s) i = Some (u, old) \<and>
        status d = (status (dk_store s))(i \<mapsto> (u, st))))"
    using status_fail [OF inv, of i st msg now _ d] status_ok [OF inv, of i st msg now _ d] f r by blast
  then have "status (dk_store s) j \<noteq> None \<Longrightarrow> status d j \<noteq> None" for j
    by (cases r) (auto split: if_splits)
  then have "dk_ok (s\<lparr>dk_store := d\<rparr>)" by (intro repo_step [OF s status_inv [OF inv f]])
  with new r show ?thesis by simp
qed

lemma Enqueue_ok:
  assumes s: "dk_ok s" and run: "Downlink_Enqueue service sc u cmd name pl now s = (Inr m, s')"
  shows "dk_ok s' \<and> 0 < dl_CommandID m \<and> dl_CmdID m = cmd \<and> dl_Payload m = pl \<and>
    status (dk_store s) (dl_CommandID m) = None \<and>
    status (dk_store s') = (status (dk_store s))(dl_CommandID m \<mapsto> (TrimSpace u, CmdQueued)) \<and>
    (\<exists>k \<le> 1. pending (dk_queue s') u = drop k (pending (dk_queue s) u) @ [m])"
proof -
  note inv = dk_okD(1,2) [OF s]
  obtain r d where f: "cr_CreateDeviceCommandByTenant R (sc_TenantID sc) u cmd name pl (dk_store s) = (r, d)"
    and o: "on_repo (cr_CreateDeviceCommandByTenant R (sc_TenantID sc) u cmd name pl) s = (r, s\<lparr>dk_store := d\<rparr>)"
    by (rule on_repo_cases)
  from run o obtain i where i: "r = Inr i"
    by (cases r) (auto simp: Downlink_Enqueue_def service_def)
  define msg where "msg = \<lparr>dl_CommandID = i, dl_CmdID = cmd, dl_Payload = pl\<rparr>"
  obtain rq q where q: "q_Enqueue Q u msg (dk_queue s) = (rq, q)" by (cases "q_Enqueue Q u msg (dk_queue s)")
  have rq: "rq = Inr ()" and m: "m = msg" and s': "s' = s\<lparr>dk_store := d, dk_queue := q\<rparr>"
    using run o i q
    by (cases rq; simp add: Downlink_Enqueue_def service_def msg_def Let_def on_queue_def bindE_def catchE_def)+
  have st: "0 < i" "status (dk_store s) i = None" "status d = (status (dk_store s))(i \<mapsto> (TrimSpace u, CmdQueued))"
    using create_ok [OF inv(1)] f i by auto
  have pq: "\<exists>k \<le> 1. pending q u = drop k (pending (dk_queue s) u) @ [msg]"
    using enqueue_ok [OF inv(2), of u msg] q rq by simp
  have sd: "dk_ok (s\<lparr>dk_store := d\<rparr>)"
    by (rule repo_step [OF s create_inv [OF inv(1) f]]) (simp add: st)
  have "dk_ok (s\<lparr>dk_store := d\<rparr>\<lparr>dk_queue := q\<rparr>)"
  proof (rule queue_step [OF sd])
    show "queue_inv q" using enqueue_inv [OF inv(2), of u msg] q by simp
    fix v x assume x: "x \<in> set (pending q v)"
    show "x \<in> set (pending (dk_queue (s\<lparr>dk_store := d\<rparr>)) v) \<or>
        status (dk_store (s\<lparr>dk_store := d\<rparr>)) (dl_CommandID x) \<noteq> None"
    proof (cases "v = u")
      case True
      with x pq show ?thesis by (auto simp: st msg_def dest: in_set_dropD)
    next
      case False
      with x enqueue_other [OF inv(2) False, of msg] q show ?thesis by simp
    qed
  qed
  with st pq m s' show ?thesis by (simp add: msg_def)
qed

lemma Enqueue_fail:
  assumes s: "dk_ok s" and run: "Downlink_Enqueue service sc u cmd name pl now s = (Inl e, s')"
  shows "dk_ok s' \<and> pending (dk_queue s') = pending (dk_queue s)"
proof -
  note inv = dk_okD(1,2) [OF s]
  obtain r d where f: "cr_CreateDeviceCommandByTenant R (sc_TenantID sc) u cmd name pl (dk_store s) = (r, d)"
    and o: "on_repo (cr_CreateDeviceCommandByTenant R (sc_TenantID sc) u cmd name pl) s = (r, s\<lparr>dk_store := d\<rparr>)"
    by (rule on_repo_cases)
  have keep: "status (dk_store s) j \<noteq> None \<Longrightarrow> status d j \<noteq> None" for j
    using create_fail [OF inv(1), of _ u cmd name pl _ d] create_ok [OF inv(1), of _ u cmd name pl _ d] f
    by (cases r) fastforce+
  have sd: "dk_ok (s\<lparr>dk_store := d\<rparr>)"
    by (rule repo_step [OF s create_inv [OF inv(1) f] keep])
  show ?thesis
  proof (cases r)
    case (Inl e')
    with run o have "s' = s\<lparr>dk_store := d\<rparr>" by (simp add: Downlink_Enqueue_def service_def)
    with sd show ?thesis by simp
  next
    case (Inr i)
    define msg where "msg = \<lparr>dl_CommandID = i, dl_CmdID = cmd, dl_Payload = pl\<rparr>"
    obtain rq q where q: "q_Enqueue Q u msg (dk_queue s) = (rq, q)" by (cases "q_Enqueue Q u msg (dk_queue s)")
    obtain eq where rq: "rq = Inl eq"
      using run o Inr q
      by (cases rq; simp add: Downlink_Enqueue_def service_def msg_def Let_def on_queue_def bindE_def catchE_def)
    then have s': "s' = snd (MarkFailed service i (error_text eq) now (s\<lparr>dk_store := d, dk_queue := q\<rparr>))"
      using run o Inr q
      by (auto simp: Downlink_Enqueue_def service_def msg_def Let_def on_queue_def bindE_def catchE_def)
    have pq: "pending q = pending (dk_queue s)"
      using enqueue_fail [OF inv(2), of u msg eq] q rq by simp
    have "dk_ok (s\<lparr>dk_store := d\<rparr>\<lparr>dk_queue := q\<rparr>)"
      by (rule queue_step [OF sd]) (use enqueue_inv [OF inv(2), of u msg] q pq in auto)
    then have "dk_ok (s\<lparr>dk_store := d, dk_queue := q\<rparr>)" by simp
    from mark_status_spec [OF this, of CmdFailed i "TrimSpace (error_text eq)" now] s' pq
    show ?thesis
      using \<open>dk_ok (s\<lparr>dk_store := d, dk_queue := q\<rparr>)\<close>
      by (cases "mark_status service CmdFailed i (TrimSpace (error_text eq)) now (s\<lparr>dk_store := d, dk_queue := q\<rparr>)")
         (simp add: MarkFailed_def returnE_def)
  qed
qed

lemma Pop_ok:
  assumes s: "dk_ok s"
  shows "dk_ok (snd (PopDownlink service u s)) \<and>
    dk_store (snd (PopDownlink service u s)) = dk_store s \<and>
    fst (PopDownlink service u s) =
      (case pending (dk_queue s) u of [] \<Rightarrow> Inr (no_downlink, False) | m # ms \<Rightarrow> Inr (m, True)) \<and>
    (\<forall>v. pending (dk_queue (snd (PopDownlink service u s))) v =
      (if v = u then tl (pending (dk_queue s) u) else pending (dk_queue s) v))"
proof -
  note inv = dk_okD(2) [OF s]
  obtain r q where f: "q_Dequeue Q u (dk_queue s) = (r, q)"
    and o: "on_queue (q_Dequeue Q u) s = (r, s\<lparr>dk_queue := q\<rparr>)" by (rule on_queue_cases)
  have p: "pending q v = (if v = u then tl (pending (dk_queue s) u) else pending (dk_queue s) v)" for v
    using dequeue_other [OF inv, of v u] dequeue_empty [OF inv, of u] dequeue_ok [OF inv, of u] f
    by (cases "pending (dk_queue s) u") auto
  have r: "r = (case pending (dk_queue s) u of [] \<Rightarrow> Inr (no_downlink, False) | m # ms \<Rightarrow> Inr (m, True))"
    using dequeue_empty [OF inv, of u] dequeue_ok [OF inv, of u] f
    by (cases "pending (dk_queue s) u") auto
  have "dk_ok (s\<lparr>dk_queue := q\<rparr>)"
    by (rule queue_step [OF s])
       (use dequeue_inv [OF inv, of u] f p in \<open>auto split: if_splits dest: in_set_tlD\<close>)
  then show ?thesis using o r p by (simp add: PopDownlink_def service_def)
qed

lemma Requeue_ok:
  assumes s: "dk_ok s" and known: "status (dk_store s) (dl_CommandID m) \<noteq> None"
    and id: "0 < dl_CommandID m" and run: "Downlink_Requeue service u m now s = (r, s')"
  shows "dk_ok s' \<and> (r = Inr () \<longrightarrow>
    fst (PopDownlink service u s') = Inr (m, True) \<and>
    (\<exists>v. status (dk_store s') (dl_CommandID m) = Some (v, CmdQueued)))"
proof -
  note inv = dk_okD(1,2) [OF s]
  let ?i = "dl_CommandID m"
  obtain rq q where q: "q_Requeue Q u m (dk_queue s) = (rq, q)"
    and o: "on_queue (q_Requeue Q u m) s = (rq, s\<lparr>dk_queue := q\<rparr>)" by (rule on_queue_cases)
  have qi: "queue_inv q" using requeue_inv [OF inv(2), of u m] q by simp
  have mem: "x \<in> set (pending (dk_queue s) v) \<or> x = m" if "x \<in> set (pending q v)" for x v
  proof (cases "v = u \<and> rq = Inr ()")
    case True
    with requeue_ok [OF inv(2), of u m] q that show ?thesis by (auto dest: in_set_takeD)
  next
    case False
    have "pending q v = pending (dk_queue s) v"
    proof (cases rq)
      case (Inl e)
      with requeue_fail [OF inv(2), of u m e] q show ?thesis by simp
    next
      case (Inr x)
      with False requeue_other [OF inv(2), of v u m] q show ?thesis by simp
    qed
    with that show ?thesis by simp
  qed
  have sq: "dk_ok (s\<lparr>dk_queue := q\<rparr>)"
    by (rule queue_step [OF s qi]) (use mem known in blast)
  show ?thesis
  proof (cases rq)
    case (Inl e)
    then have r: "r = Inl e" "s' = snd (MarkFailed service ?i (error_text e) now (s\<lparr>dk_queue := q\<rparr>))"
      using run o id by (auto simp: Downlink_Requeue_def service_def catchE_def bindE_def)
    then show ?thesis
      using sq mark_status_spec [OF sq, of CmdFailed ?i "TrimSpace (error_text e)" now] id
      by (cases "mark_status service CmdFailed ?i (TrimSpace (error_text e)) now (s\<lparr>dk_queue := q\<rparr>)")
         (simp add: MarkFailed_def)
  next
    case (Inr x)
    then have m: "mark_status service CmdQueued ?i [] now (s\<lparr>dk_queue := q\<rparr>) = (r, s')"
      using run o id by (simp add: Downlink_Requeue_def service_def catchE_def bindE_def)
    note ms = mark_status_spec [OF sq m]
    have "\<exists>ms. pending q u = m # ms" using requeue_ok [OF inv(2), of u m] q Inr by auto
    moreover have "dk_queue s' = q" using ms by simp
    ultimately have "fst (PopDownlink service u s') = Inr (m, True)"
      using ms Pop_ok [of s' u] by auto
    moreover have "r = Inr () \<longrightarrow> (\<exists>v. status (dk_store s') ?i = Some (v, CmdQueued))"
      using ms by (metis fun_upd_same)
    ultimately show ?thesis using ms by blast
  qed
qed

end

section \<open>The service over the repository and the in-memory queue\<close>

definition sql_downlink :: "(db, memory_queue) downlink_service" where
  "sql_downlink =
     \<lparr>dsv_dataStore = command_repository device_ResolveDeviceTenant, dsv_queue = memory_queue_ops\<rparr>"

interpretation core_downlink: downlink_client
  "command_repository device_ResolveDeviceTenant" db_command db_commands_ok
  memory_queue_ops mq_pending mq_bounded ..

lemma core_downlink_service: "core_downlink.service = sql_downlink"
  by (simp add: core_downlink.service_def sql_downlink_def)

datatype downlink_op =
  DkEnqueue scope string core_cmd string bytes time
| DkPop string
| DkSent int time | DkAcked int time | DkFailed int string time

fun run_downlink_op :: "downlink_op \<Rightarrow> (db, memory_queue) downlink \<Rightarrow> (db, memory_queue) downlink" where
  "run_downlink_op (DkEnqueue sc u cmd name pl now) s = snd (Downlink_Enqueue sql_downlink sc u cmd name pl now s)"
| "run_downlink_op (DkPop u) s = snd (PopDownlink sql_downlink u s)"
| "run_downlink_op (DkSent i now) s = snd (MarkSent sql_downlink i now s)"
| "run_downlink_op (DkAcked i now) s = snd (MarkAcked sql_downlink i now s)"
| "run_downlink_op (DkFailed i msg now) s = snd (MarkFailed sql_downlink i msg now s)"

lemma mark_ok:
  "core_downlink.dk_ok s \<Longrightarrow> core_downlink.dk_ok (snd (mark_status sql_downlink st i msg now s))"
  using core_downlink.mark_status_spec [of s st i msg now]
  by (cases "mark_status sql_downlink st i msg now s") (simp add: core_downlink_service)

lemma run_downlink_op_ok:
  assumes "core_downlink.dk_ok s"
  shows "core_downlink.dk_ok (run_downlink_op x s)"
proof (cases x)
  case (DkEnqueue sc u cmd name pl now)
  then show ?thesis
    using core_downlink.Enqueue_ok [OF assms, of sc u cmd name pl now]
      core_downlink.Enqueue_fail [OF assms, of sc u cmd name pl now]
    by (cases "Downlink_Enqueue sql_downlink sc u cmd name pl now s";
        cases "fst (Downlink_Enqueue sql_downlink sc u cmd name pl now s)")
       (auto simp: core_downlink_service)
next
  case (DkPop u)
  then show ?thesis using core_downlink.Pop_ok [OF assms, of u] by (simp add: core_downlink_service)
qed (use assms in \<open>auto simp: MarkSent_def MarkAcked_def MarkFailed_def mark_ok\<close>)

definition new_downlink :: "db \<Rightarrow> int \<Rightarrow> (db, memory_queue) downlink" where
  "new_downlink d c = \<lparr>dk_store = d, dk_queue = NewDeviceCommandQueue c\<rparr>"

lemma new_downlink_ok: "db_commands_ok d \<Longrightarrow> core_downlink.dk_ok (new_downlink d c)"
  by (simp add: core_downlink.dk_ok_def new_downlink_def)
     (simp add: mq_pending_def NewDeviceCommandQueue_def map_get_def)

lemma run_downlink_ops_ok:
  "core_downlink.dk_ok s \<Longrightarrow> core_downlink.dk_ok (fold run_downlink_op xs s)"
  by (induction xs arbitrary: s) (simp_all add: run_downlink_op_ok)

text \<open>One command for the device of the example database.\<close>

definition example_downlink_ops :: "downlink_op list" where
  "example_downlink_ops =
     [DkEnqueue \<lparr>sc_TenantID = [], sc_GroupIDs = []\<rparr> ''d1'' CoreCmdActionExec ''action_exec'' [1] 5]"

definition example_message :: downlink_message where
  "example_message = \<lparr>dl_CommandID = 1, dl_CmdID = CoreCmdActionExec, dl_Payload = [1]\<rparr>"

lemma example_db_commands_ok [simp]: "db_commands_ok (example_db fs)"
  by (simp add: db_commands_ok_def commands_ok_def example_db_def empty_tables_def)

lemma example_pending:
  "mq_pending (dk_queue (fold run_downlink_op example_downlink_ops (new_downlink (example_db []) 10))) ''d1'' =
   [example_message]"
  by code_simp

section \<open>Properties\<close>



text \<open>A command is enqueued only for a device of the caller's tenant: on success the message
  carries a new command number whose record is queued for that device, the message is the last of
  the device's queue, and at most the oldest message was dropped; on failure no queue changes.\<close>

theorem enqueue_effect:
  assumes "db_commands_ok d"
    and "s = fold run_downlink_op ops (new_downlink d c)"
    and "Downlink_Enqueue sql_downlink sc u cmd name pl now s = (r, s')"
  shows "case r of
      Inl e \<Rightarrow> mq_pending (dk_queue s') = mq_pending (dk_queue s)
    | Inr m \<Rightarrow>
        db_command (dk_store s) (dl_CommandID m) = None \<and>
        db_command (dk_store s') (dl_CommandID m) = Some (TrimSpace u, CmdQueued) \<and>
        dl_CmdID m = cmd \<and> dl_Payload m = pl \<and>
        (\<exists>k \<le> 1. mq_pending (dk_queue s') u = drop k (mq_pending (dk_queue s) u) @ [m]) \<and>
        (\<exists>t. fst (device_ResolveDeviceTenant (TrimSpace u) (dk_store s)) = Inr t \<and>
             NormalizeTenantID t = NormalizeTenantID (sc_TenantID sc))"
proof -
  have ok: "core_downlink.dk_ok s" unfolding assms(2) by (rule run_downlink_ops_ok [OF new_downlink_ok [OF assms(1)]])
  show ?thesis
  proof (cases r)
    case (Inl e)
    with core_downlink.Enqueue_fail [OF ok, of sc u cmd name pl now e s'] assms(3) show ?thesis
      by (simp add: core_downlink_service)
  next
    case (Inr m)
    obtain r1 d1 where f: "CreateDeviceCommandByTenant device_ResolveDeviceTenant (sc_TenantID sc) u cmd name pl
        (dk_store s) = (r1, d1)"
      by (cases "CreateDeviceCommandByTenant device_ResolveDeviceTenant (sc_TenantID sc) u cmd name pl (dk_store s)")
    have "\<exists>i. r1 = Inr i"
      using assms(3) f Inr
      by (cases r1) (simp_all add: Downlink_Enqueue_def sql_downlink_def on_repo_def command_repository_def bindE_def)
    with CreateDeviceCommandByTenant_spec [OF device_resolver_reads core_downlink.dk_okD(1) [OF ok] f]
    have "\<exists>t. fst (device_ResolveDeviceTenant (TrimSpace u) (dk_store s)) = Inr t \<and>
             NormalizeTenantID t = NormalizeTenantID (sc_TenantID sc)" by blast
    with core_downlink.Enqueue_ok [OF ok, of sc u cmd name pl now m s'] assms(3) Inr show ?thesis
      by (simp add: core_downlink_service)
  qed
qed

theorem enqueue_effect_witness:
  "\<exists>s'. Downlink_Enqueue sql_downlink \<lparr>sc_TenantID = [], sc_GroupIDs = []\<rparr> ''d1'' CoreCmdOtaData ''ota'' [2] 6
      (fold run_downlink_op example_downlink_ops (new_downlink (example_db []) 10)) =
        (Inr \<lparr>dl_CommandID = 2, dl_CmdID = CoreCmdOtaData, dl_Payload = [2]\<rparr>, s') \<and>
     db_command (dk_store s') 2 = Some (''d1'', CmdQueued)"
proof -
  let ?s = "fold run_downlink_op example_downlink_ops (new_downlink (example_db []) 10)"
  let ?r = "Downlink_Enqueue sql_downlink \<lparr>sc_TenantID = [], sc_GroupIDs = []\<rparr> ''d1'' CoreCmdOtaData ''ota'' [2] 6 ?s"
  have f: "fst ?r = Inr \<lparr>dl_CommandID = 2, dl_CmdID = CoreCmdOtaData, dl_Payload = [2]\<rparr>"
    by code_simp
  have "TrimSpace ''d1'' = ''d1''" by code_simp
  then show ?thesis
    using enqueue_effect [OF example_db_commands_ok refl surjective_pairing [of ?r]] f
    by (intro exI [of _ "snd ?r"]) (simp add: prod_eq_iff)
qed

text \<open>A message put back after a failed send is the next one delivered to its device, and its
  record is queued again.\<close>

theorem requeue_delivers_next:
  assumes "db_commands_ok d"
    and "s = fold run_downlink_op ops (new_downlink d c)"
    and "PopDownlink sql_downlink u s = (Inr (m, True), s1)"
    and "0 < dl_CommandID m"
    and "Downlink_Requeue sql_downlink u m now s1 = (Inr (), s2)"
  shows "fst (PopDownlink sql_downlink u s2) = Inr (m, True) \<and>
    (\<exists>v. db_command (dk_store s2) (dl_CommandID m) = Some (v, CmdQueued))"
proof -
  have ok: "core_downlink.dk_ok s" unfolding assms(2) by (rule run_downlink_ops_ok [OF new_downlink_ok [OF assms(1)]])
  from core_downlink.Pop_ok [OF ok, of u] assms(3)
  have p: "core_downlink.dk_ok s1" "dk_store s1 = dk_store s" "m \<in> set (mq_pending (dk_queue s) u)"
    by (auto simp: core_downlink_service split: list.splits)
  with core_downlink.dk_okD(3) [OF ok p(3)] have "db_command (dk_store s1) (dl_CommandID m) \<noteq> None" by simp
  from core_downlink.Requeue_ok [OF p(1) this assms(4), of u now] assms(5) show ?thesis
    by (simp add: core_downlink_service)
qed

theorem requeue_delivers_next_witness:
  "fst (PopDownlink sql_downlink ''d1'' (snd (Downlink_Requeue sql_downlink ''d1'' example_message 9
     (snd (PopDownlink sql_downlink ''d1''
        (fold run_downlink_op example_downlink_ops (new_downlink (example_db []) 10))))))) =
   Inr (example_message, True)"
proof -
  let ?s = "fold run_downlink_op example_downlink_ops (new_downlink (example_db []) 10)"
  let ?p = "PopDownlink sql_downlink ''d1'' ?s"
  let ?q = "Downlink_Requeue sql_downlink ''d1'' example_message 9 (snd ?p)"
  have "fst ?p = Inr (example_message, True)" "fst ?q = Inr ()" by code_simp+
  then have "?p = (Inr (example_message, True), snd ?p)" "?q = (Inr (), snd ?q)"
    by (metis prod.collapse)+
  with requeue_delivers_next [OF example_db_commands_ok refl, where m = example_message and ops = example_downlink_ops
      and c = 10]
  show ?thesis by (simp add: example_message_def)
qed

end
