(* ===== verification/Telemetry.thy ===== *)
theory Telemetry
  imports CommandStore "HOL-Library.Multiset"
begin

text \<open>
  \<^verbatim>\<open>storage/telemetry/repository.go\<close> and \<^verbatim>\<open>device_manager/telemetry_ingest_service.go\<close>:
  metric points and log lines of the devices, each stored with the tenant of its device. The text
  form of a time in the server's time zone is a parameter.
\<close>

definition metric_row_of :: "string \<Rightarrow> string \<Rightarrow> metric \<Rightarrow> metric_row" where
  "metric_row_of uuid tenantID point =
     \<lparr>mr_UUID = uuid, mr_TenantID = tenantID, mr_TS = m_Timestamp point,
      mr_Value = m_Value point, mr_Type = m_Type point\<rparr>"

definition ToMetricPoints :: "metric_row list \<Rightarrow> metric list" where
  "ToMetricPoints rows =
     map (\<lambda>r. \<lparr>m_Timestamp = mr_TS r, m_Value = mr_Value r, m_Type = mr_Type r\<rparr>) rows"

text \<open>The tenant of the device, or the default tenant when it cannot be resolved.\<close>

definition tenant_or_default :: "tenant_resolver \<Rightarrow> string \<Rightarrow> db \<Rightarrow> string \<times> db" where
  "tenant_or_default R uuid d =
     (case R uuid d of (Inl _, d') \<Rightarrow> (DefaultTenantID, d') | (Inr t, d') \<Rightarrow> (t, d'))"

definition AppendMetric :: "tenant_resolver \<Rightarrow> string \<Rightarrow> metric \<Rightarrow> (unit, db) action" where
  "AppendMetric R uuid point d =
     (case tenant_or_default R uuid d of (tenantID, d1) \<Rightarrow>
        run_stmt (\<lambda>t. (Inr (), t\<lparr>t_metrics := t_metrics t @ [metric_row_of uuid tenantID point]\<rparr>)) d1)"

definition BatchAppendMetrics :: "tenant_resolver \<Rightarrow> string \<Rightarrow> metric list \<Rightarrow> (unit, db) action" where
  "BatchAppendMetrics R uuid points d =
     (if length points = 0 then (Inr (), d)
      else case tenant_or_default R uuid d of (tenantID, d1) \<Rightarrow>
        let rows = map (metric_row_of uuid tenantID) points
        in run_tx (run_stmt (\<lambda>t. (Inr (), t\<lparr>t_metrics := t_metrics t @ rows\<rparr>))) d1)"

definition QueryMetrics :: "string \<Rightarrow> int \<Rightarrow> int \<Rightarrow> (metric list, db) action" where
  "QueryMetrics uuid start end =
     run_query (\<lambda>t. ToMetricPoints (sort_key mr_TS
       (filter (\<lambda>r. mr_UUID r = uuid \<and> start \<le> mr_TS r \<and> mr_TS r \<le> end) (t_metrics t))))"

definition QueryMetricsByTenant :: "string \<Rightarrow> string \<Rightarrow> int \<Rightarrow> int \<Rightarrow> (metric list, db) action" where
  "QueryMetricsByTenant tenantID uuid start end =
     run_query (\<lambda>t. ToMetricPoints (sort_key mr_TS
       (filter (\<lambda>r. mr_TenantID r = NormalizeTenantID tenantID \<and> mr_UUID r = uuid \<and>
                    start \<le> mr_TS r \<and> mr_TS r \<le> end) (t_metrics t))))"

definition WriteLog :: "tenant_resolver \<Rightarrow> string \<Rightarrow> string \<Rightarrow> string \<Rightarrow> (unit, db) action" where
  "WriteLog R uuid level message d =
     (case tenant_or_default R uuid d of (tenantID, d1) \<Rightarrow>
        run_stmt (\<lambda>t. (Inr (), t\<lparr>t_logs := t_logs t @
            [\<lparr>lg_ID = t_next_log t, lg_UUID = uuid, lg_TenantID = tenantID, lg_Level = level,
              lg_Message = message\<rparr>], t_next_log := t_next_log t + 1\<rparr>)) d1)"

section \<open>The service\<close>

record 'd telemetry_store_ops =
  ts_BatchAppendMetrics :: "string \<Rightarrow> metric list \<Rightarrow> (unit, 'd) action"
  ts_WriteLog :: "string \<Rightarrow> string \<Rightarrow> string \<Rightarrow> (unit, 'd) action"

definition IngestMetrics :: "'d telemetry_store_ops \<Rightarrow> string \<Rightarrow> metric list \<Rightarrow> (unit, 'd) action" where
  "IngestMetrics S uuid points = ts_BatchAppendMetrics S uuid points"

definition mapTelemetryLogLevel :: "log_level \<Rightarrow> string" where
  "mapTelemetryLogLevel level =
     (case level of LogLevelDebug \<Rightarrow> ''DEBUG'' | LogLevelInfo \<Rightarrow> ''INFO''
      | LogLevelWarn \<Rightarrow> ''WARN'' | LogLevelError \<Rightarrow> ''ERROR'')"

definition IngestLog ::
    "(int \<Rightarrow> string) \<Rightarrow> 'd telemetry_store_ops \<Rightarrow> string \<Rightarrow> log_upload \<Rightarrow> (unit, 'd) action" where
  "IngestLog format_time S uuid data =
     (let finalMsg = ''['' @ format_time (lu_Timestamp data) @ ''] '' @ lu_Message data
      in ts_WriteLog S uuid (mapTelemetryLogLevel (lu_Level data)) finalMsg)"

definition IngestEvent :: "'d telemetry_store_ops \<Rightarrow> string \<Rightarrow> bytes \<Rightarrow> (unit, 'd) action" where
  "IngestEvent S uuid payload = ts_WriteLog S uuid ''EVENT'' (string_of_bytes payload)"

definition IngestDeviceError :: "'d telemetry_store_ops \<Rightarrow> string \<Rightarrow> bytes \<Rightarrow> (unit, 'd) action" where
  "IngestDeviceError S uuid payload = ts_WriteLog S uuid ''ERROR'' (string_of_bytes payload)"

definition telemetry_repository :: "db telemetry_store_ops" where
  "telemetry_repository =
     \<lparr>ts_BatchAppendMetrics = BatchAppendMetrics device_ResolveDeviceTenant,
      ts_WriteLog = WriteLog device_ResolveDeviceTenant\<rparr>"

section \<open>What is stored\<close>

lemma tenant_or_default_frame:
  "reads_only R \<Longrightarrow> tenant_or_default R u d = (t, d') \<Longrightarrow> tabs d' = tabs d"
  unfolding tenant_or_default_def reads_only_def
  by (cases "R u d"; cases "fst (R u d)") (auto, metis snd_conv, metis snd_conv)

lemma BatchAppendMetrics_spec:
  assumes R: "reads_only R" and run: "BatchAppendMetrics R u ps d = (r, d')"
  shows "(\<forall>e. r = Inl e \<longrightarrow> tabs d' = tabs d) \<and>
    (\<forall>x. r = Inr x \<longrightarrow> tabs d' = (tabs d)\<lparr>t_metrics := t_metrics (tabs d) @
        map (metric_row_of u (fst (tenant_or_default R u d))) ps\<rparr>)"
proof (cases "ps = []")
  case True
  with run show ?thesis by (simp add: BatchAppendMetrics_def)
next
  case False
  obtain tn d1 where t: "tenant_or_default R u d = (tn, d1)" by (cases "tenant_or_default R u d")
  note d1 = tenant_or_default_frame [OF R t]
  have tx: "run_tx (run_stmt (\<lambda>t. (Inr (), t\<lparr>t_metrics := t_metrics t @ map (metric_row_of u tn) ps\<rparr>))) d1 = (r, d')"
    using run False t by (simp add: BatchAppendMetrics_def Let_def)
  show ?thesis
  proof (cases r)
    case (Inl e)
    with tx d1 show ?thesis by (simp add: run_tx_Inl)
  next
    case (Inr x)
    from tx Inr have "run_tx (run_stmt (\<lambda>t. (Inr (), t\<lparr>t_metrics := t_metrics t @ map (metric_row_of u tn) ps\<rparr>))) d1 = (Inr x, d')"
      by simp
    then have "tabs d' = (tabs d)\<lparr>t_metrics := t_metrics (tabs d) @ map (metric_row_of u tn) ps\<rparr>"
    proof (rule run_tx_Inr)
      fix e1 e2
      assume "tabs e1 = tabs d1" "tabs d' = tabs e2"
        "run_stmt (\<lambda>t. (Inr (), t\<lparr>t_metrics := t_metrics t @ map (metric_row_of u tn) ps\<rparr>)) e1 = (Inr x, e2)"
      then show ?thesis using run_stmt_Inr d1 by fastforce
    qed
    with Inr t show ?thesis by simp
  qed
qed

section \<open>Properties\<close>

text \<open>A batch of metrics is stored completely or not at all; once stored, a query of the
  device's tenant for a time range returns exactly the points of the batch in that range, together
  with the earlier ones, in order of time.\<close>

theorem metrics_stored_atomically:
  assumes "BatchAppendMetrics device_ResolveDeviceTenant u ps d = (r, d')"
    and "fst (device_ResolveDeviceTenant u d) = Inr tn" and "NormalizeTenantID tn = tn"
  shows "case r of
      Inl e \<Rightarrow> tabs d' = tabs d
    | Inr _ \<Rightarrow> \<forall>out d'' a b. QueryMetricsByTenant tn u a b d' = (Inr out, d'') \<longrightarrow>
        sorted (map m_Timestamp out) \<and>
        mset out = mset (filter (\<lambda>p. a \<le> m_Timestamp p \<and> m_Timestamp p \<le> b)
          (ToMetricPoints (filter (\<lambda>x. mr_TenantID x = tn \<and> mr_UUID x = u) (t_metrics (tabs d))) @ ps))"
proof (cases r)
  case (Inl e)
  with BatchAppendMetrics_spec [OF device_resolver_reads assms(1)] show ?thesis by simp
next
  case (Inr x)
  let ?pt = "\<lambda>r. \<lparr>m_Timestamp = mr_TS r, m_Value = mr_Value r, m_Type = mr_Type r\<rparr>"
  have "fst (tenant_or_default device_ResolveDeviceTenant u d) = tn"
    using assms(2) by (auto simp: tenant_or_default_def split: prod.splits)
  with BatchAppendMetrics_spec [OF device_resolver_reads assms(1)] Inr
  have t: "t_metrics (tabs d') = t_metrics (tabs d) @ map (metric_row_of u tn) ps" by simp
  have pts: "map ?pt (map (metric_row_of u tn) qs) = qs" for qs
    by (induction qs) (simp_all add: metric_row_of_def)
  have sel: "filter (\<lambda>r. mr_TenantID r = tn \<and> mr_UUID r = u \<and> a \<le> mr_TS r \<and> mr_TS r \<le> b)
      (map (metric_row_of u tn) qs) =
      map (metric_row_of u tn) (filter (\<lambda>p. a \<le> m_Timestamp p \<and> m_Timestamp p \<le> b) qs)" for qs a b
    by (induction qs) (simp_all add: metric_row_of_def)
  have old: "map ?pt (filter (\<lambda>r. mr_TenantID r = tn \<and> mr_UUID r = u \<and> a \<le> mr_TS r \<and> mr_TS r \<le> b) rows) =
      filter (\<lambda>p. a \<le> m_Timestamp p \<and> m_Timestamp p \<le> b)
        (map ?pt (filter (\<lambda>x. mr_TenantID x = tn \<and> mr_UUID x = u) rows))" for rows a b
    by (induction rows) auto
  have "sorted (map m_Timestamp out) \<and>
      mset out = mset (filter (\<lambda>p. a \<le> m_Timestamp p \<and> m_Timestamp p \<le> b)
          (ToMetricPoints (filter (\<lambda>x. mr_TenantID x = tn \<and> mr_UUID x = u) (t_metrics (tabs d))) @ ps))"
    if q: "QueryMetricsByTenant tn u a b d' = (Inr out, d'')" for out d'' a b
  proof -
    define rows where "rows = filter (\<lambda>r. mr_TenantID r = tn \<and> mr_UUID r = u \<and> a \<le> mr_TS r \<and> mr_TS r \<le> b)
        (t_metrics (tabs d'))"
    have out: "out = map ?pt (sort_key mr_TS rows)"
      using run_query_Inr [OF q [unfolded QueryMetricsByTenant_def]]
      by (simp add: ToMetricPoints_def rows_def assms(3))
    have "map m_Timestamp out = map mr_TS (sort_key mr_TS rows)" by (simp add: out comp_def)
    then have "sorted (map m_Timestamp out)" by simp
    moreover have "mset out = mset (map ?pt rows)" by (simp add: out)
    moreover have "map ?pt rows = filter (\<lambda>p. a \<le> m_Timestamp p \<and> m_Timestamp p \<le> b)
          (ToMetricPoints (filter (\<lambda>x. mr_TenantID x = tn \<and> mr_UUID x = u) (t_metrics (tabs d))) @ ps)"
      unfolding rows_def t filter_append map_append sel pts
      by (simp only: old ToMetricPoints_def)
    ultimately show ?thesis by metis
  qed
  with Inr show ?thesis by simp
qed

theorem metrics_stored_atomically_witness:
  "fst (QueryMetricsByTenant ''tenant_legacy'' ''d1'' 0 9
      (snd (BatchAppendMetrics device_ResolveDeviceTenant ''d1''
        [\<lparr>m_Timestamp = 7, m_Value = f32_one, m_Type = 1\<rparr>] (example_db [])))) =
    Inr [\<lparr>m_Timestamp = 7, m_Value = f32_one, m_Type = 1\<rparr>]"
proof -
  let ?b = "BatchAppendMetrics device_ResolveDeviceTenant ''d1''
        [\<lparr>m_Timestamp = 7, m_Value = f32_one, m_Type = 1\<rparr>] (example_db [])"
  let ?q = "QueryMetricsByTenant ''tenant_legacy'' ''d1'' 0 9 (snd ?b)"
  have f: "fst (device_ResolveDeviceTenant ''d1'' (example_db [])) = Inr ''tenant_legacy''"
    "NormalizeTenantID ''tenant_legacy'' = ''tenant_legacy''" "fst ?b = Inr ()" by code_simp+
  have "\<not> isl (fst ?q)" by code_simp
  then obtain out where out: "fst ?q = Inr out" by (auto simp: isl_def split: sum.splits)
      (metis old.sum.exhaust)
  then have q: "?q = (Inr out, snd ?q)" by (metis prod.collapse)
  have e: "t_metrics (tabs (example_db [])) = []" by (simp add: example_db_def empty_tables_def)
  note metrics_stored_atomically [OF surjective_pairing [of ?b] f(1,2),
      unfolded f(3), simplified sum.case e, rule_format, OF q]
  then have "mset out = {#\<lparr>m_Timestamp = 7, m_Value = f32_one, m_Type = 1\<rparr>#}"
    by (simp add: ToMetricPoints_def)
  then show ?thesis using out by simp
qed

end
