(* ===== verification/IngressCore.thy ===== *)
theory IngressCore
  imports IngressProto Registry Downlink Telemetry
begin

text \<open>
  \<^verbatim>\<open>web/ingress/service.go\<close>: the core side of the ingress protocol. The services it is built
  from are a record of operations on one state; the time a call begins is an argument, and
  \<open>json.Marshal\<close> of a decoded object is a parameter.
\<close>

record 's core_ops =
  k_Authenticate :: "string \<Rightarrow> 's \<Rightarrow> (string \<times> go_error option) \<times> 's"
  k_GenerateUUID :: "device_metadata \<Rightarrow> string"
  k_GetDeviceMetadata :: "string \<Rightarrow> (device_metadata, 's) action"
  k_RegisterDevice :: "device_metadata \<Rightarrow> time \<Rightarrow> (unit, 's) action"
  k_HandleHeartbeat :: "string \<Rightarrow> time \<Rightarrow> 's \<Rightarrow> 's"
  k_IngestMetrics :: "string \<Rightarrow> metric list \<Rightarrow> (unit, 's) action"
  k_IngestLog :: "string \<Rightarrow> log_upload \<Rightarrow> (unit, 's) action"
  k_IngestEvent :: "string \<Rightarrow> bytes \<Rightarrow> (unit, 's) action"
  k_IngestDeviceError :: "string \<Rightarrow> bytes \<Rightarrow> (unit, 's) action"
  k_PopDownlink :: "string \<Rightarrow> (downlink_message \<times> bool, 's) action"
  k_Requeue :: "string \<Rightarrow> downlink_message \<Rightarrow> time \<Rightarrow> (unit, 's) action"
  k_MarkSent :: "int \<Rightarrow> time \<Rightarrow> (unit, 's) action"
  k_MarkAcked :: "int \<Rightarrow> time \<Rightarrow> (unit, 's) action"
  k_MarkFailed :: "int \<Rightarrow> string \<Rightarrow> time \<Rightarrow> (unit, 's) action"
  k_tenantResolver :: "(string \<Rightarrow> (string, 's) action) option"
  k_marshal_json :: "any_map \<Rightarrow> bytes option"

section \<open>Helpers\<close>

fun credentialValue :: "credential list \<Rightarrow> string \<Rightarrow> string" where
  "credentialValue [] typ = []"
| "credentialValue (item # items) typ =
     (if EqualFold (cd_Type item) typ then TrimSpace (cd_Value item) else credentialValue items typ)"

fun identityValue :: "identity list \<Rightarrow> string \<Rightarrow> string" where
  "identityValue [] typ = []"
| "identityValue (item # items) typ =
     (if EqualFold (id_Type item) typ then TrimSpace (id_Value item) else identityValue items typ)"

fun core_firstNonEmpty :: "string list \<Rightarrow> string" where
  "core_firstNonEmpty [] = []"
| "core_firstNonEmpty (v # vs) = (if TrimSpace v \<noteq> [] then TrimSpace v else core_firstNonEmpty vs)"

definition authStatusFromError :: "go_error \<Rightarrow> p_auth_status" where
  "authStatusFromError e =
     (case e of ErrDevicePending \<Rightarrow> AuthPending | ErrDeviceRefused \<Rightarrow> AuthRejected
      | ErrDeviceUnknown \<Rightarrow> AuthUnknown | ErrInvalidToken \<Rightarrow> AuthUnknown | _ \<Rightarrow> AuthRejected)"

definition metadataFromDescriptor :: "device_descriptor option \<Rightarrow> device_metadata" where
  "metadataFromDescriptor d =
     (case d of None \<Rightarrow> no_metadata
      | Some d \<Rightarrow> no_metadata\<lparr>dm_Name := dd_Name d, dm_SerialNumber := dd_SerialNumber d,
          dm_MACAddress := dd_MACAddress d, dm_HWVersion := dd_HardwareVersion d,
          dm_SWVersion := core_firstNonEmpty [dd_SoftwareVersion d, dd_FirmwareVersion d],
          dm_ConfigVersion := dd_ConfigVersion d\<rparr>)"

definition deviceDescriptor :: "string \<Rightarrow> device_metadata \<Rightarrow> string \<Rightarrow> device_descriptor" where
  "deviceDescriptor uuid meta tenantID = no_descriptor
     \<lparr>dd_UUID := uuid, dd_Name := dm_Name meta, dd_SerialNumber := dm_SerialNumber meta,
      dd_MACAddress := dm_MACAddress meta, dd_HardwareVersion := dm_HWVersion meta,
      dd_SoftwareVersion := dm_SWVersion meta, dd_ConfigVersion := dm_ConfigVersion meta,
      dd_Labels := [(''tenant_id'', tenantID)]\<rparr>"

definition timestampMillis :: "time \<Rightarrow> time \<Rightarrow> int" where
  "timestampMillis t now = (if t = zero_time then UnixMilli now else UnixMilli t)"

definition metricPoints :: "p_metric option list \<Rightarrow> time \<Rightarrow> metric list" where
  "metricPoints items now =
     concat (map (\<lambda>item. case item of None \<Rightarrow> []
       | Some m \<Rightarrow> [\<lparr>m_Timestamp = timestampMillis (as_time (pm_ObservedAt m)) now,
                     m_Value = f32_of_f64 (number_value (pm_Value m)),
                     m_Type = ucast (pm_LegacyMetricType m)\<rparr>]) items)"

definition core_logLevel :: "p_log_level \<Rightarrow> log_level" where
  "core_logLevel level =
     (case level of PLogDebug \<Rightarrow> LogLevelDebug | PLogWarn \<Rightarrow> LogLevelWarn
      | PLogError \<Rightarrow> LogLevelError | _ \<Rightarrow> LogLevelInfo)"

definition logUploadData :: "p_log option \<Rightarrow> time \<Rightarrow> log_upload" where
  "logUploadData log now =
     (case log of
        None \<Rightarrow> \<lparr>lu_Timestamp = timestampMillis (as_time None) now,
                 lu_Level = core_logLevel PLogUnspecified, lu_Message = []\<rparr>
      | Some l \<Rightarrow> \<lparr>lu_Timestamp = timestampMillis (as_time (pl_ObservedAt l)) now,
                   lu_Level = core_logLevel (pl_Level l), lu_Message = pl_Message l\<rparr>)"

definition rawPayloadBytes :: "(any_map \<Rightarrow> bytes option) \<Rightarrow> raw_payload option \<Rightarrow> bytes" where
  "rawPayloadBytes marshal r =
     (case r of None \<Rightarrow> []
      | Some r \<Rightarrow>
          if length (raw_Body r) > 0 then raw_Body r
          else if raw_Text r \<noteq> [] then bytes_of_string (raw_Text r)
          else (case raw_Json r of None \<Rightarrow> []
                | Some j \<Rightarrow> (case marshal j of Some data \<Rightarrow> data | None \<Rightarrow> [])))"

definition operationName :: "core_cmd \<Rightarrow> string" where
  "operationName cmd =
     (if cmd = CoreCmdConfigPush then ''config_push''
      else if cmd = CoreCmdOtaData then ''ota_data''
      else if cmd = CoreCmdActionExec then ''action_exec''
      else if cmd = CoreCmdScreenWy then ''screen_wy''
      else ''unknown'')"

text \<open>\<open>float64(cmd)\<close> of a 16-bit number: exact.\<close>

definition f64_of_nat :: "nat \<Rightarrow> float64" where
  "f64_of_nat n = (if n = 0 then 0 else let k = high_bit n in f64_make 0 (1023 + k) ((n - 2 ^ k) * 2 ^ (52 - k)))"

definition structWithCommandCode :: "core_cmd \<Rightarrow> any_map" where
  "structWithCommandCode cmd = [(''command_code'', JNumber (f64_of_nat (unat cmd)))]"

definition canonicalCommand :: "string \<Rightarrow> string \<Rightarrow> downlink_message \<Rightarrow> canonical_command" where
  "canonicalCommand uuid tenantID msg =
     \<lparr>cc_CommandId = dl_CommandID msg, cc_CommandUuid = [], cc_TenantId = tenantID, cc_Uuid = uuid,
      cc_TargetIdentity = Some \<lparr>id_Type = ''uuid'', id_Value = uuid, id_Issuer = []\<rparr>,
      cc_Operation = operationName (dl_CmdID msg),
      cc_ProtocolCommandCode = ucast (dl_CmdID msg),
      cc_Payload = Some \<lparr>raw_ContentType = ''application/octet-stream'', raw_Body = dl_Payload msg,
                         raw_Json = None, raw_Text = []\<rparr>,
      cc_Timeout = None, cc_MaxAttempts = 0,
      cc_AdapterOptions = Some (structWithCommandCode (dl_CmdID msg)),
      cc_Properties = [], cc_Labels = []\<rparr>"

definition resolveTenant :: "'s core_ops \<Rightarrow> string \<Rightarrow> 's \<Rightarrow> string \<times> 's" where
  "resolveTenant K uuid s =
     (case k_tenantResolver K of
        None \<Rightarrow> (DefaultTenantID, s)
      | Some R \<Rightarrow>
          if TrimSpace uuid = [] then (DefaultTenantID, s)
          else (case R uuid s of
                  (Inl _, s') \<Rightarrow> (DefaultTenantID, s')
                | (Inr tenantID, s') \<Rightarrow>
                    (if TrimSpace tenantID \<noteq> [] then TrimSpace tenantID else DefaultTenantID, s')))"

section \<open>Authentication and registration\<close>

definition auth_response :: "p_auth_status \<Rightarrow> authenticate_response" where
  "auth_response st = \<lparr>ar_Status = st, ar_Uuid = [], ar_TenantId = [], ar_Reason = [], ar_Device = None\<rparr>"

definition AuthenticateDevice ::
    "'s core_ops \<Rightarrow> authenticate_request option \<Rightarrow> 's \<Rightarrow> authenticate_response rpc \<times> 's" where
  "AuthenticateDevice K req s =
     (case req of
        None \<Rightarrow> (Inl (InvalidArgument (ErrInvalidIngressRequest ''request is required'')), s)
      | Some m \<Rightarrow>
          let token = credentialValue (aq_Credentials m) ''token'';
              token = (if token = [] then identityValue (aq_Identities m) ''token'' else token)
          in if token = [] then
               (Inr (auth_response AuthRejected\<lparr>ar_Reason := ''token is required''\<rparr>), s)
             else (case k_Authenticate K token s of
                 ((_, Some e), s1) \<Rightarrow> (Inr (auth_response (authStatusFromError e)\<lparr>ar_Reason := error_text e\<rparr>), s1)
               | ((uuid, None), s1) \<Rightarrow>
                   (case resolveTenant K uuid s1 of (tenantID, s2) \<Rightarrow>
                      (case k_GetDeviceMetadata K uuid s2 of
                         (Inl e, s3) \<Rightarrow> (Inl (Internal e), s3)
                       | (Inr meta, s3) \<Rightarrow>
                           (Inr \<lparr>ar_Status = AuthAccepted, ar_Uuid = uuid, ar_TenantId = tenantID,
                                 ar_Reason = [], ar_Device = Some (deviceDescriptor uuid meta tenantID)\<rparr>, s3)))))"

definition register_response_of ::
    "registration_status \<Rightarrow> string \<Rightarrow> string \<Rightarrow> credential option \<Rightarrow> string \<Rightarrow> device_descriptor option \<Rightarrow>
     register_response" where
  "register_response_of st uuid tenantID cred reason dev =
     \<lparr>rr_Status = st, rr_Uuid = uuid, rr_TenantId = tenantID, rr_Credential = cred,
      rr_Reason = reason, rr_Device = dev\<rparr>"

definition Core_RegisterDevice ::
    "'s core_ops \<Rightarrow> register_request option \<Rightarrow> time \<Rightarrow> 's \<Rightarrow> register_response rpc \<times> 's" where
  "Core_RegisterDevice K req now s =
     (case req of
        None \<Rightarrow> (Inl (InvalidArgument (ErrInvalidIngressRequest ''request is required'')), s)
      | Some m \<Rightarrow>
          let meta = metadataFromDescriptor (rq_Device m)
          in if TrimSpace (dm_SerialNumber meta) = [] \<and> TrimSpace (dm_MACAddress meta) = [] then
               (Inr (register_response_of RegistrationRejected [] [] None
                  ''serial_number or mac_address is required'' None), s)
             else
               let uuid = k_GenerateUUID K meta
               in (case k_GetDeviceMetadata K uuid s of
                 (Inl e, s1) \<Rightarrow>
                   if e \<noteq> ErrDeviceNotFound then (Inl (Internal e), s1)
                   else (case k_RegisterDevice K meta now s1 of
                       (Inl e', s2) \<Rightarrow> (Inl (Internal e'), s2)
                     | (Inr _, s2) \<Rightarrow>
                         (case resolveTenant K uuid s2 of (tenantID, s3) \<Rightarrow>
                            (case resolveTenant K uuid s3 of (tenantID', s4) \<Rightarrow>
                               (Inr (register_response_of RegistrationPending uuid tenantID None []
                                  (Some (deviceDescriptor uuid meta tenantID'))), s4))))
               | (Inr existing, s1) \<Rightarrow>
                   (case resolveTenant K uuid s1 of (tenantID, s2) \<Rightarrow>
                      let dev = Some (deviceDescriptor uuid existing tenantID)
                      in (Inr (case dm_AuthenticateStatus existing of
                            AuthenticatePending \<Rightarrow> register_response_of RegistrationPending uuid tenantID None [] dev
                          | AuthenticateRefuse \<Rightarrow>
                              register_response_of RegistrationRejected uuid tenantID None ''device registration refused'' dev
                          | AuthenticateRevoked \<Rightarrow>
                              register_response_of RegistrationRejected uuid tenantID None ''device registration refused'' dev
                          | Authenticated \<Rightarrow>
                              register_response_of RegistrationAccepted uuid tenantID
                                (Some \<lparr>cd_Type = ''token'', cd_Value = dm_Token existing\<rparr>) [] dev
                          | AuthenticateUnknown \<Rightarrow>
                              register_response_of RegistrationRejected uuid tenantID None ''unknown auth status'' dev), s2))))"

section \<open>Heartbeats\<close>

text \<open>The device an heartbeat, a pull or an event is about.\<close>

definition first_uuid :: "string \<Rightarrow> identity option \<Rightarrow> identity list \<Rightarrow> string" where
  "first_uuid uuid primary ids =
     (let uuid = (if uuid = [] then get_value primary else uuid)
      in if uuid = [] then identityValue ids ''uuid'' else uuid)"

definition ReportHeartbeat ::
    "'s core_ops \<Rightarrow> heartbeat_request option \<Rightarrow> time \<Rightarrow> 's \<Rightarrow> heartbeat_response rpc \<times> 's" where
  "ReportHeartbeat K req now s =
     (case req of
        None \<Rightarrow> (Inl (InvalidArgument (ErrInvalidIngressRequest ''request is required'')), s)
      | Some m \<Rightarrow>
          let uuid = first_uuid (TrimSpace (hq_Uuid m)) (hq_PrimaryIdentity m) (hq_Identities m)
          in if uuid = [] then (Inl (InvalidArgument (ErrText ''uuid is required'')), s)
             else
               let s1 = k_HandleHeartbeat K uuid now s
               in (case resolveTenant K uuid s1 of (tenantID, s2) \<Rightarrow>
                     (Inr \<lparr>hr_Uuid = uuid, hr_TenantId = tenantID, hr_Availability = AvailOnline\<rparr>, s2)))"

section \<open>Events\<close>

definition updateCommandReceipt ::
    "'s core_ops \<Rightarrow> string \<Rightarrow> p_receipt \<Rightarrow> time \<Rightarrow> (unit, 's) action" where
  "updateCommandReceipt K uuid r now =
     (if prc_CommandId r \<le> 0 then returnE ()
      else (case prc_Status r of
          PCommandSent \<Rightarrow> k_MarkSent K (prc_CommandId r) now
        | PCommandAcked \<Rightarrow> k_MarkAcked K (prc_CommandId r) now
        | PCommandFailed \<Rightarrow> k_MarkFailed K (prc_CommandId r) (prc_ErrorText r) now
        | PCommandExpired \<Rightarrow> k_MarkFailed K (prc_CommandId r) (prc_ErrorText r) now
        | PCommandRequeued \<Rightarrow>
            let cmdCode = prc_ProtocolCommandCode r;
                payload = rawPayloadBytes (k_marshal_json K) (prc_Raw r)
            in if TrimSpace uuid = [] \<or> cmdCode = 0 \<or> length payload = 0
               then failE (ErrInvalidIngressRequest ''command receipt requeue requires uuid, protocol_command_code and raw payload'')
               else k_Requeue K uuid \<lparr>dl_CommandID = prc_CommandId r, dl_CmdID = ucast cmdCode, dl_Payload = payload\<rparr> now
        | PCommandUnspecified \<Rightarrow> returnE ()
        | PCommandQueued \<Rightarrow> returnE ()
        | PCommandOther _ \<Rightarrow> failE (ErrInvalidIngressRequest ''unsupported command receipt status'')))"

primrec ingest_logs :: "'s core_ops \<Rightarrow> string \<Rightarrow> p_log option list \<Rightarrow> time \<Rightarrow> (unit, 's) action" where
  "ingest_logs K uuid [] now = returnE ()"
| "ingest_logs K uuid (log # logs) now =
     bindE (k_IngestLog K uuid (logUploadData log now)) (\<lambda>_. ingest_logs K uuid logs now)"

definition ingestOne :: "'s core_ops \<Rightarrow> string \<Rightarrow> device_event \<Rightarrow> time \<Rightarrow> (unit, 's) action" where
  "ingestOne K uuid event now =
     bindE (if length (de_Metrics event) > 0
            then k_IngestMetrics K uuid (metricPoints (de_Metrics event) now) else returnE ())
       (\<lambda>_. bindE (ingest_logs K uuid (de_Logs event) now)
       (\<lambda>_. bindE (case de_CommandReceipt event of None \<Rightarrow> returnE ()
                   | Some r \<Rightarrow> updateCommandReceipt K uuid r now)
       (\<lambda>_. let payload = rawPayloadBytes (k_marshal_json K) (de_Raw event)
            in if de_EventType event = EventDeviceError \<or> de_EventType event = EventCommandFailed
               then (if length payload > 0 then k_IngestDeviceError K uuid payload else returnE ())
               else if de_EventType event = EventDeviceEvent \<or> de_EventType event = EventRaw
               then (if length payload > 0 then k_IngestEvent K uuid payload else returnE ())
               else returnE ())))"

definition no_result :: ingest_result where
  "no_result = \<lparr>ir_EventId = [], ir_Success = False, ir_Uuid = [], ir_TenantId = [],
     ir_ErrorCode = [], ir_ErrorMessage = ErrText []\<rparr>"

definition event_uuid :: "device_event \<Rightarrow> string" where
  "event_uuid event =
     first_uuid (case de_Device event of None \<Rightarrow> [] | Some d \<Rightarrow> dd_UUID d)
       (de_PrimaryIdentity event) (de_Identities event)"

text \<open>One turn of the loop over the events: the result appended for it.\<close>

definition ingest_event ::
    "'s core_ops \<Rightarrow> device_event option \<Rightarrow> time \<Rightarrow> 's \<Rightarrow> ingest_result \<times> 's" where
  "ingest_event K event now s =
     (case event of
        None \<Rightarrow> (no_result\<lparr>ir_ErrorCode := ''event_required'', ir_ErrorMessage := ErrText ''event is required''\<rparr>, s)
      | Some ev \<Rightarrow>
          let uuid = event_uuid ev
          in if uuid = [] then
               (no_result\<lparr>ir_EventId := de_EventId ev, ir_ErrorCode := ''uuid_required'',
                          ir_ErrorMessage := ErrText ''uuid is required''\<rparr>, s)
             else (case ingestOne K uuid ev now s of
                 (Inl e, s1) \<Rightarrow>
                   (case resolveTenant K uuid s1 of (tenantID, s2) \<Rightarrow>
                      (no_result\<lparr>ir_EventId := de_EventId ev, ir_Uuid := uuid, ir_TenantId := tenantID,
                                 ir_ErrorCode := ''ingest_failed'', ir_ErrorMessage := e\<rparr>, s2))
               | (Inr _, s1) \<Rightarrow>
                   (case resolveTenant K uuid s1 of (tenantID, s2) \<Rightarrow>
                      (no_result\<lparr>ir_EventId := de_EventId ev, ir_Success := True, ir_Uuid := uuid,
                                 ir_TenantId := tenantID\<rparr>, s2))))"

fun ingest_loop ::
    "'s core_ops \<Rightarrow> bool \<Rightarrow> device_event option list \<Rightarrow> time \<Rightarrow> 's \<Rightarrow> ingest_result list \<times> 's" where
  "ingest_loop K partial [] now s = ([], s)"
| "ingest_loop K partial (event # events) now s =
     (case ingest_event K event now s of (r, s1) \<Rightarrow>
        if \<not> ir_Success r \<and> \<not> partial then ([r], s1)
        else (case ingest_loop K partial events now s1 of (rs, s2) \<Rightarrow> (r # rs, s2)))"

definition IngestEvents ::
    "'s core_ops \<Rightarrow> ingest_request option \<Rightarrow> time \<Rightarrow> 's \<Rightarrow> ingest_result list rpc \<times> 's" where
  "IngestEvents K req now s =
     (case req of
        None \<Rightarrow> (Inl (InvalidArgument (ErrInvalidIngressRequest ''request is required'')), s)
      | Some m \<Rightarrow>
          (case ingest_loop K (iq_AllowPartialSuccess m) (iq_Events m) now s of (rs, s') \<Rightarrow> (Inr rs, s')))"

section \<open>Commands\<close>

fun pull_loop ::
    "'s core_ops \<Rightarrow> string \<Rightarrow> nat \<Rightarrow> 's \<Rightarrow> canonical_command list result \<times> 's" where
  "pull_loop K uuid 0 s = (Inr [], s)"
| "pull_loop K uuid (Suc n) s =
     (case k_PopDownlink K uuid s of
        (Inl e, s1) \<Rightarrow> (Inl e, s1)
      | (Inr (msg, ok), s1) \<Rightarrow>
          if \<not> ok then (Inr [], s1)
          else (case resolveTenant K uuid s1 of (tenantID, s2) \<Rightarrow>
                  (case pull_loop K uuid n s2 of
                     (Inl e, s3) \<Rightarrow> (Inl e, s3)
                   | (Inr cs, s3) \<Rightarrow> (Inr (canonicalCommand uuid tenantID msg # cs), s3))))"

definition PullCommands ::
    "'s core_ops \<Rightarrow> pull_request option \<Rightarrow> 's \<Rightarrow> canonical_command list rpc \<times> 's" where
  "PullCommands K req s =
     (case req of
        None \<Rightarrow> (Inl (InvalidArgument (ErrInvalidIngressRequest ''request is required'')), s)
      | Some m \<Rightarrow>
          let uuid = first_uuid (TrimSpace (pq_Uuid m)) (pq_PrimaryIdentity m) (pq_Identities m)
          in if uuid = [] then (Inl (InvalidArgument (ErrText ''uuid is required'')), s)
             else
               let maxCount = (if pq_MaxCount m \<le> 0 then 1 else pq_MaxCount m)
               in (case pull_loop K uuid (nat maxCount) s of
                     (Inl e, s') \<Rightarrow> (Inl (Internal e), s')
                   | (Inr cs, s') \<Rightarrow> (Inr cs, s')))"

definition core_requeue :: "'s core_ops \<Rightarrow> update_request \<Rightarrow> time \<Rightarrow> (unit, 's) action" where
  "core_requeue K req now =
     (if uq_CommandId req \<le> 0
      then failE (ErrInvalidIngressRequest ''command_id is required for requeue'')
      else
        let uuid = TrimSpace (uq_Uuid req);
            uuid = (if uuid = [] then TrimSpace (case uq_Command req of None \<Rightarrow> [] | Some c \<Rightarrow> cc_Uuid c) else uuid);
            uuid = (if uuid = [] then TrimSpace (get_value (uq_TargetIdentity req)) else uuid)
        in if uuid = [] then failE (ErrInvalidIngressRequest ''uuid is required for requeue'')
           else
             let cmdCode = uq_ProtocolCommandCode req;
                 cmdCode = (if cmdCode = 0
                   then (case uq_Command req of None \<Rightarrow> 0 | Some c \<Rightarrow> cc_ProtocolCommandCode c) else cmdCode)
             in if cmdCode = 0
                then failE (ErrInvalidIngressRequest ''protocol_command_code is required for requeue'')
                else
                  let payload = rawPayloadBytes (k_marshal_json K) (uq_Raw req);
                      payload = (if length payload = 0
                        then rawPayloadBytes (k_marshal_json K)
                               (case uq_Command req of None \<Rightarrow> None | Some c \<Rightarrow> cc_Payload c)
                        else payload)
                  in if length payload = 0
                     then failE (ErrInvalidIngressRequest ''raw payload is required for requeue'')
                     else k_Requeue K uuid
                       \<lparr>dl_CommandID = uq_CommandId req, dl_CmdID = ucast cmdCode, dl_Payload = payload\<rparr> now)"

definition UpdateCommandStatus ::
    "'s core_ops \<Rightarrow> update_request option \<Rightarrow> time \<Rightarrow> 's \<Rightarrow> p_command_status rpc \<times> 's" where
  "UpdateCommandStatus K req now s =
     (case req of
        None \<Rightarrow> (Inl (InvalidArgument (ErrInvalidIngressRequest ''request is required'')), s)
      | Some m \<Rightarrow>
          if uq_CommandId m \<le> 0
          then (Inl (InvalidArgument (ErrInvalidIngressRequest ''command_id is required'')), s)
          else
            (case (case uq_Status m of
                 PCommandSent \<Rightarrow> k_MarkSent K (uq_CommandId m) now s
               | PCommandAcked \<Rightarrow> k_MarkAcked K (uq_CommandId m) now s
               | PCommandFailed \<Rightarrow> k_MarkFailed K (uq_CommandId m) (uq_ErrorText m) now s
               | PCommandExpired \<Rightarrow> k_MarkFailed K (uq_CommandId m) (uq_ErrorText m) now s
               | PCommandRequeued \<Rightarrow> core_requeue K m now s
               | _ \<Rightarrow> (Inl (ErrInvalidIngressRequest ''unsupported command status''), s)) of
               (Inl e, s') \<Rightarrow>
                 (Inl (case e of ErrInvalidIngressRequest t \<Rightarrow> InvalidArgument e | _ \<Rightarrow> Internal e), s')
             | (Inr _, s') \<Rightarrow> (Inr (uq_Status m), s')))"

section \<open>The core service of the application\<close>

text \<open>
  The state \<^verbatim>\<open>core/services.go\<close> and \<^verbatim>\<open>web\<close> wire together: one database, the registry's token
  cache, the presence map and the downlink queue. Deleting a device removes its presence.
\<close>

record core_state =
  co_db :: db
  co_cache :: "string \<Rightarrow> string option"
  co_presence :: presence_map
  co_queue :: memory_queue

definition with_registry :: "(('a, (db, presence_map) registry) action) \<Rightarrow> ('a, core_state) action" where
  "with_registry f s =
     (case f \<lparr>rg_store = co_db s, rg_cache = co_cache s, rg_hook_state = co_presence s\<rparr> of (r, g) \<Rightarrow>
        (r, s\<lparr>co_db := rg_store g, co_cache := rg_cache g, co_presence := rg_hook_state g\<rparr>))"

definition with_downlink :: "('a, (db, memory_queue) downlink) action \<Rightarrow> ('a, core_state) action" where
  "with_downlink f s =
     (case f \<lparr>dk_store = co_db s, dk_queue = co_queue s\<rparr> of (r, g) \<Rightarrow>
        (r, s\<lparr>co_db := dk_store g, co_queue := dk_queue g\<rparr>))"

definition with_db :: "('a, db) action \<Rightarrow> ('a, core_state) action" where
  "with_db f s = (case f (co_db s) of (r, d) \<Rightarrow> (r, s\<lparr>co_db := d\<rparr>))"

definition core_presence :: "duration \<Rightarrow> presence_map presence_service" where
  "core_presence deadline = NewDevicePresenceWithStore deadline memory_presence"

definition core_registry :: "crypto \<Rightarrow> duration \<Rightarrow> (db, presence_map) registry_service" where
  "core_registry C deadline = sql_registry C (Some (RemoveDevice (core_presence deadline)))"

record core_config =
  kc_crypto :: crypto
  kc_deadline :: duration
  kc_format_time :: "int \<Rightarrow> string"
  kc_marshal_json :: "any_map \<Rightarrow> bytes option"

definition core_services :: "core_config \<Rightarrow> core_state core_ops" where
  "core_services c =
     (let G = core_registry (kc_crypto c) (kc_deadline c)
      in \<lparr>k_Authenticate = (\<lambda>token s.
            (case Authenticate G token \<lparr>rg_store = co_db s, rg_cache = co_cache s, rg_hook_state = co_presence s\<rparr> of
               (r, g) \<Rightarrow> (r, s\<lparr>co_db := rg_store g, co_cache := rg_cache g\<rparr>))),
          k_GenerateUUID = GenerateUUID G,
          k_GetDeviceMetadata = (\<lambda>uuid. with_registry (GetDeviceMetadata G uuid)),
          k_RegisterDevice = (\<lambda>meta now. with_registry (RegisterDevice G meta now)),
          k_HandleHeartbeat = (\<lambda>uuid now s.
            s\<lparr>co_presence := HandleHeartbeat (core_presence (kc_deadline c)) uuid now (co_presence s)\<rparr>),
          k_IngestMetrics = (\<lambda>uuid ps. with_db (IngestMetrics telemetry_repository uuid ps)),
          k_IngestLog = (\<lambda>uuid l. with_db (IngestLog (kc_format_time c) telemetry_repository uuid l)),
          k_IngestEvent = (\<lambda>uuid b. with_db (IngestEvent telemetry_repository uuid b)),
          k_IngestDeviceError = (\<lambda>uuid b. with_db (IngestDeviceError telemetry_repository uuid b)),
          k_PopDownlink = (\<lambda>uuid. with_downlink (PopDownlink sql_downlink uuid)),
          k_Requeue = (\<lambda>uuid m now. with_downlink (Downlink_Requeue sql_downlink uuid m now)),
          k_MarkSent = (\<lambda>i now. with_downlink (MarkSent sql_downlink i now)),
          k_MarkAcked = (\<lambda>i now. with_downlink (MarkAcked sql_downlink i now)),
          k_MarkFailed = (\<lambda>i t now. with_downlink (MarkFailed sql_downlink i t now)),
          k_tenantResolver = Some (\<lambda>uuid. with_db (device_ResolveDeviceTenant uuid)),
          k_marshal_json = kc_marshal_json c\<rparr>)"

section \<open>Lemmas\<close>

lemma core_pop:
  "k_PopDownlink (core_services c) u s =
   (case mq_pending (co_queue s) u of
      [] \<Rightarrow> (Inr (no_downlink, False), s)
    | m # ms \<Rightarrow> (Inr (m, True), s\<lparr>co_queue := snd (mq_Dequeue u (co_queue s))\<rparr>))"
  by (simp add: core_services_def Let_def with_downlink_def PopDownlink_def sql_downlink_def
      on_queue_def memory_queue_ops_def mq_Dequeue_pending split: list.splits)

lemma core_resolve:
  assumes "resolveTenant (core_services c) u s = (t, s')"
  shows "co_queue s' = co_queue s \<and> co_cache s' = co_cache s \<and> co_presence s' = co_presence s \<and>
    tabs (co_db s') = tabs (co_db s)"
proof -
  obtain r d where r: "device_ResolveDeviceTenant u (co_db s) = (r, d)"
    by (cases "device_ResolveDeviceTenant u (co_db s)")
  have d: "tabs d = tabs (co_db s)"
    using device_resolver_reads r unfolding reads_only_def by (metis snd_conv)
  have "s' = s \<or> s' = s\<lparr>co_db := d\<rparr>"
    using assms r by (cases r)
      (auto simp: resolveTenant_def core_services_def Let_def with_db_def split: if_splits)
  with d show ?thesis by auto
qed

lemma pull_loop_spec:
  "\<exists>cs s'. pull_loop (core_services c) u n s = (Inr cs, s') \<and>
     list_all2 (\<lambda>x m. \<exists>t. x = canonicalCommand u t m) cs (take n (mq_pending (co_queue s) u)) \<and>
     (\<forall>v. mq_pending (co_queue s') v =
        (if v = u then drop n (mq_pending (co_queue s) u) else mq_pending (co_queue s) v)) \<and>
     tabs (co_db s') = tabs (co_db s) \<and> co_cache s' = co_cache s \<and> co_presence s' = co_presence s"
proof (induction n arbitrary: s)
  case (Suc n)
  show ?case
  proof (cases "mq_pending (co_queue s) u")
    case Nil
    then show ?thesis by (simp add: core_pop)
  next
    case (Cons m ms)
    define s1 where "s1 = s\<lparr>co_queue := snd (mq_Dequeue u (co_queue s))\<rparr>"
    have q1: "mq_pending (co_queue s1) v = (if v = u then ms else mq_pending (co_queue s) v)" for v
      using Cons by (simp add: s1_def mq_Dequeue_pending)
    obtain t s2 where t: "resolveTenant (core_services c) u s1 = (t, s2)"
      by (cases "resolveTenant (core_services c) u s1")
    from core_resolve [OF t] have s2: "co_queue s2 = co_queue s1" "tabs (co_db s2) = tabs (co_db s)"
      "co_cache s2 = co_cache s" "co_presence s2 = co_presence s" by (auto simp: s1_def)
    from Suc.IH [of s2] obtain cs s' where
      IH: "pull_loop (core_services c) u n s2 = (Inr cs, s')"
        "list_all2 (\<lambda>x m. \<exists>t. x = canonicalCommand u t m) cs (take n ms)"
        "\<forall>v. mq_pending (co_queue s') v = (if v = u then drop n ms else mq_pending (co_queue s) v)"
        "tabs (co_db s') = tabs (co_db s)" "co_cache s' = co_cache s" "co_presence s' = co_presence s"
      by (auto simp: s2 q1)
    have "pull_loop (core_services c) u (Suc n) s = (Inr (canonicalCommand u t m # cs), s')"
      using Cons t IH(1) by (simp add: core_pop s1_def)
    then show ?thesis using IH(2-) Cons by auto
  qed
qed simp

lemma ingest_loop_spec:
  "case ingest_loop K partial evs now s of (rs, s') \<Rightarrow>
     length rs \<le> length evs \<and>
     (partial \<longrightarrow> length rs = length evs) \<and>
     (\<not> partial \<longrightarrow> (\<forall>i. Suc i < length rs \<longrightarrow> ir_Success (rs ! i)) \<and>
        (length rs < length evs \<longrightarrow> rs \<noteq> [] \<and> \<not> ir_Success (last rs))) \<and>
     (\<forall>i < length rs. ir_EventId (rs ! i) = (case evs ! i of None \<Rightarrow> [] | Some ev \<Rightarrow> de_EventId ev))"
proof (induction K partial evs now s rule: ingest_loop.induct)
  case (2 K partial event events now s)
  obtain r s1 where r: "ingest_event K event now s = (r, s1)" by (cases "ingest_event K event now s")
  have id: "ir_EventId r = (case event of None \<Rightarrow> [] | Some ev \<Rightarrow> de_EventId ev)"
    using r by (auto simp: ingest_event_def no_result_def Let_def
        split: option.splits if_splits prod.splits sum.splits)
  show ?case
  proof (cases "\<not> ir_Success r \<and> \<not> partial")
    case True
    then show ?thesis using r id by simp
  next
    case False
    obtain rs s2 where rs: "ingest_loop K partial events now s1 = (rs, s2)"
      by (cases "ingest_loop K partial events now s1")
    have IH: "length rs \<le> length events \<and>
     (partial \<longrightarrow> length rs = length events) \<and>
     (\<not> partial \<longrightarrow> (\<forall>i. Suc i < length rs \<longrightarrow> ir_Success (rs ! i)) \<and>
        (length rs < length events \<longrightarrow> rs \<noteq> [] \<and> \<not> ir_Success (last rs))) \<and>
     (\<forall>i < length rs. ir_EventId (rs ! i) = (case events ! i of None \<Rightarrow> [] | Some ev \<Rightarrow> de_EventId ev))"
      using "2.IH" [OF r [symmetric] False] by (simp add: rs)
    have out: "ingest_loop K partial (event # events) now s = (r # rs, s2)"
      using r rs False by auto
    have "ir_Success ((r # rs) ! i)" if "\<not> partial" "Suc i < length (r # rs)" for i
      using that IH False by (cases i) auto
    moreover have "ir_EventId ((r # rs) ! i) =
        (case (event # events) ! i of None \<Rightarrow> [] | Some ev \<Rightarrow> de_EventId ev)" if "i < length (r # rs)" for i
      using that IH id by (cases i) auto
    ultimately show ?thesis unfolding out using IH by auto
  qed
qed simp

section \<open>Properties\<close>

text \<open>C21: PullCommands hands out exactly the oldest messages pending for the device, at most the
  requested number (one when the request names none), in order, each with its number, code and
  payload; it removes exactly these from the queue and touches no other device and no table.\<close>

theorem pull_commands_exact:
  assumes "uuid = first_uuid (TrimSpace (pq_Uuid m)) (pq_PrimaryIdentity m) (pq_Identities m)"
    and "uuid \<noteq> []" and "n = (if pq_MaxCount m \<le> 0 then 1 else nat (pq_MaxCount m))"
  shows "\<exists>cs s'. PullCommands (core_services c) (Some m) s = (Inr cs, s') \<and>
     map (\<lambda>x. (cc_CommandId x, cc_Uuid x, cc_ProtocolCommandCode x, map_option raw_Body (cc_Payload x))) cs =
     map (\<lambda>x. (dl_CommandID x, uuid, ucast (dl_CmdID x), Some (dl_Payload x)))
       (take n (mq_pending (co_queue s) uuid)) \<and>
     (\<forall>v. mq_pending (co_queue s') v =
        (if v = uuid then drop n (mq_pending (co_queue s) uuid) else mq_pending (co_queue s) v)) \<and>
     tabs (co_db s') = tabs (co_db s)"
proof -
  obtain cs s' where p: "pull_loop (core_services c) uuid n s = (Inr cs, s')"
    "list_all2 (\<lambda>x m. \<exists>t. x = canonicalCommand uuid t m) cs (take n (mq_pending (co_queue s) uuid))"
    "\<forall>v. mq_pending (co_queue s') v =
        (if v = uuid then drop n (mq_pending (co_queue s) uuid) else mq_pending (co_queue s) v)"
    "tabs (co_db s') = tabs (co_db s)"
    using pull_loop_spec [of c uuid n s] by blast
  have "PullCommands (core_services c) (Some m) s = (Inr cs, s')"
    using assms p(1) by (auto simp: PullCommands_def Let_def)
  moreover have "map (\<lambda>x. (cc_CommandId x, cc_Uuid x, cc_ProtocolCommandCode x, map_option raw_Body (cc_Payload x))) cs =
     map (\<lambda>x. (dl_CommandID x, uuid, ucast (dl_CmdID x), Some (dl_Payload x)))
       (take n (mq_pending (co_queue s) uuid))"
    using p(2) by (induction rule: list_all2_induct) (auto simp: canonicalCommand_def)
  ultimately show ?thesis using p(3,4) by blast
qed

definition example_core_config :: core_config where
  "example_core_config =
     \<lparr>kc_crypto = toy_crypto, kc_deadline = 60, kc_format_time = Itoa, kc_marshal_json = (\<lambda>_. None)\<rparr>"

definition example_core :: core_state where
  "example_core =
     \<lparr>co_db = example_db [], co_cache = (\<lambda>_. None), co_presence = (\<lambda>_. None),
      co_queue = \<lparr>mq_queues = [''d1'' \<mapsto> [example_message, example_message]], mq_capacity = 10\<rparr>\<rparr>"

definition example_pull :: pull_request where
  "example_pull = \<lparr>pq_Uuid = ''d1'', pq_PrimaryIdentity = None, pq_Identities = [], pq_MaxCount = 0,
     pq_SupportedOperations = [], pq_SupportedProtocolNames = []\<rparr>"

theorem pull_commands_exact_witness:
  "\<exists>cs s'. PullCommands (core_services example_core_config) (Some example_pull) example_core = (Inr cs, s') \<and>
     map cc_CommandId cs = [1] \<and> mq_pending (co_queue s') ''d1'' = [example_message]"
proof -
  have u: "''d1'' = first_uuid (TrimSpace (pq_Uuid example_pull)) (pq_PrimaryIdentity example_pull)
      (pq_Identities example_pull)" by code_simp
  have n: "(1::nat) = (if pq_MaxCount example_pull \<le> 0 then 1 else nat (pq_MaxCount example_pull))"
    by (simp add: example_pull_def)
  have q: "mq_pending (co_queue example_core) ''d1'' = [example_message, example_message]"
    by (simp add: example_core_def mq_pending_def map_get_def)
  from pull_commands_exact [OF u _ n, of example_core_config example_core] obtain cs s' where
    "PullCommands (core_services example_core_config) (Some example_pull) example_core = (Inr cs, s')"
    "map (\<lambda>x. (cc_CommandId x, cc_Uuid x, cc_ProtocolCommandCode x, map_option raw_Body (cc_Payload x))) cs =
     [(dl_CommandID example_message, ''d1'', ucast (dl_CmdID example_message), Some (dl_Payload example_message))]"
    "mq_pending (co_queue s') ''d1'' = [example_message]"
    by (auto simp: q)
  then show ?thesis by (auto simp: example_message_def map_eq_Cons_conv)
qed

text \<open>IngestEvents answers events in order, each result naming its event. With partial success
  allowed there is one result per event; otherwise every result but the last is a success, and the
  events after the first failure are not processed.\<close>

theorem ingest_results:
  "\<exists>rs s'. IngestEvents K (Some m) now s = (Inr rs, s') \<and>
     length rs \<le> length (iq_Events m) \<and>
     (iq_AllowPartialSuccess m \<longrightarrow> length rs = length (iq_Events m)) \<and>
     (\<not> iq_AllowPartialSuccess m \<longrightarrow> (\<forall>i. Suc i < length rs \<longrightarrow> ir_Success (rs ! i)) \<and>
        (length rs < length (iq_Events m) \<longrightarrow> rs \<noteq> [] \<and> \<not> ir_Success (last rs))) \<and>
     (\<forall>i < length rs. ir_EventId (rs ! i) =
        (case iq_Events m ! i of None \<Rightarrow> [] | Some ev \<Rightarrow> de_EventId ev))"
  using ingest_loop_spec [where K = K and partial = "iq_AllowPartialSuccess m" and evs = "iq_Events m"
      and now = now and s = s]
  by (cases "ingest_loop K (iq_AllowPartialSuccess m) (iq_Events m) now s") (auto simp: IngestEvents_def)

theorem ingest_results_witness:
  "\<exists>rs s'. IngestEvents (core_services example_core_config)
      (Some \<lparr>iq_Events = [None, None], iq_AllowPartialSuccess = True\<rparr>) 5 example_core = (Inr rs, s') \<and>
     length rs = 2"
  using ingest_results [where K = "core_services example_core_config" and s = example_core and now = 5
      and m = "\<lparr>iq_Events = [None, None], iq_AllowPartialSuccess = True\<rparr>"] by force

text \<open>The registry part of a core state: consistent keys, no scheduled failure, a coherent cache.\<close>

definition core_registry_state :: "core_state \<Rightarrow> (db, presence_map) registry" where
  "core_registry_state s = \<lparr>rg_store = co_db s, rg_cache = co_cache s, rg_hook_state = co_presence s\<rparr>"

definition core_ok :: "core_state \<Rightarrow> bool" where
  "core_ok s \<longleftrightarrow> sql_reliable.reg_ok (core_registry_state s)"

lemma core_ok_store:
  assumes "core_ok s"
  shows "db_devices_ok (co_db s)" and "faults (co_db s) = []"
  using assms by (auto simp: core_ok_def sql_reliable.reg_ok_def core_registry_state_def)

lemma core_authenticate:
  assumes "core_ok s" and "k_Authenticate (core_services c) tok s = (r, s')"
  shows "core_ok s' \<and> db_devs (co_db s') = db_devs (co_db s) \<and>
    (\<forall>u. r = (u, None) \<longleftrightarrow> (\<exists>t m. db_devs (co_db s) u = Some (t, m) \<and> dm_Token m = tok \<and> tok \<noteq> [] \<and>
             dm_AuthenticateStatus m = Authenticated))"
proof -
  let ?G = "core_registry (kc_crypto c) (kc_deadline c)"
  have ds: "rs_dataStore ?G = device_repository" by (simp add: core_registry_def)
  obtain g where g: "Authenticate ?G tok (core_registry_state s) = (r, g)"
    "s' = s\<lparr>co_db := rg_store g, co_cache := rg_cache g\<rparr>"
    using assms(2) by (auto simp: core_services_def Let_def core_registry_state_def split: prod.splits)
  note A = sql_reliable.Authenticate_ok [OF ds assms(1) [unfolded core_ok_def], of tok]
  have "sql_reliable.reg_ok g" "db_devs (rg_store g) = db_devs (co_db s)"
    using A g by (auto simp: core_registry_state_def)
  moreover have "core_registry_state s' = g\<lparr>rg_hook_state := co_presence s\<rparr>"
    by (simp add: core_registry_state_def g(2))
  ultimately have "core_ok s'" "db_devs (co_db s') = db_devs (co_db s)"
    by (auto simp: core_ok_def sql_reliable.reg_ok_def g(2))
  moreover have "r = (u, None) \<longleftrightarrow> (\<exists>t m. db_devs (co_db s) u = Some (t, m) \<and> dm_Token m = tok \<and> tok \<noteq> [] \<and>
             dm_AuthenticateStatus m = Authenticated)" for u
    using A [of u] g by (simp add: core_registry_state_def)
  ultimately show ?thesis by blast
qed

lemma core_resolve_ok:
  assumes "core_ok s" and "resolveTenant (core_services c) u s = (t, s')"
  shows "core_ok s' \<and> db_devs (co_db s') = db_devs (co_db s)"
proof -
  note fr = core_resolve [OF assms(2)]
  have "faults (co_db s') = []"
    using assms(2) core_ok_store(2) [OF assms(1)]
    by (auto simp: resolveTenant_def core_services_def Let_def with_db_def device_ResolveDeviceTenant_def
        bindE_def split: if_splits option.splits)
  with assms(1) fr db_devs_cong [of "co_db s'" "co_db s"] show ?thesis
    by (simp add: core_ok_def sql_reliable.reg_ok_def core_registry_state_def db_devices_ok_def)
qed

lemma core_metadata:
  assumes "core_ok s"
  shows "k_GetDeviceMetadata (core_services c) u s =
    (case db_devs (co_db s) u of None \<Rightarrow> Inl ErrDeviceNotFound | Some (t, m) \<Rightarrow> Inr m, s)"
  using core_ok_store [OF assms]
  by (auto simp: core_services_def Let_def with_registry_def GetDeviceMetadata_def on_store_def
      core_registry_def device_repository_def device_LoadConfig_def bindE_def db_devs_def
      split: option.splits)

text \<open>The token a request presents: a token credential, or else a token identity.\<close>

definition presented_token :: "authenticate_request \<Rightarrow> string" where
  "presented_token m =
     (let t = credentialValue (aq_Credentials m) ''token''
      in if t = [] then identityValue (aq_Identities m) ''token'' else t)"

lemma AuthenticateDevice_spec:
  assumes "core_ok s" and "AuthenticateDevice (core_services c) (Some m) s = (r, s')"
  shows "db_devs (co_db s') = db_devs (co_db s) \<and>
    (\<exists>a. r = Inr a \<and>
      (ar_Status a = AuthAccepted \<longleftrightarrow>
        (\<exists>u t md. db_devs (co_db s) u = Some (t, md) \<and> dm_Token md = presented_token m \<and>
           presented_token m \<noteq> [] \<and> dm_AuthenticateStatus md = Authenticated)) \<and>
      (ar_Status a = AuthAccepted \<longrightarrow>
        (\<exists>t md. db_devs (co_db s) (ar_Uuid a) = Some (t, md) \<and> dm_Token md = presented_token m \<and>
           dm_AuthenticateStatus md = Authenticated \<and>
           ar_Device a = Some (deviceDescriptor (ar_Uuid a) md (ar_TenantId a)))) \<and>
      (ar_Status a \<noteq> AuthAccepted \<longrightarrow> ar_Uuid a = [] \<and> ar_TenantId a = [] \<and> ar_Device a = None))"
proof (cases "presented_token m = []")
  case True
  then have "r = Inr (auth_response AuthRejected\<lparr>ar_Reason := ''token is required''\<rparr>)" "s' = s"
    using assms(2) by (auto simp: AuthenticateDevice_def presented_token_def Let_def split: if_splits)
  with True show ?thesis by (auto simp: auth_response_def)
next
  case False
  obtain x e s1 where a: "k_Authenticate (core_services c) (presented_token m) s = ((x, e), s1)"
    by (cases "k_Authenticate (core_services c) (presented_token m) s"; cases "fst (k_Authenticate (core_services c) (presented_token m) s)") auto
  note A = core_authenticate [OF assms(1) a]
  have run: "(case e of Some e \<Rightarrow> (Inr (auth_response (authStatusFromError e)\<lparr>ar_Reason := error_text e\<rparr>), s1)
      | None \<Rightarrow> (case resolveTenant (core_services c) x s1 of (tn, s2) \<Rightarrow>
          (case k_GetDeviceMetadata (core_services c) x s2 of
             (Inl e, s3) \<Rightarrow> (Inl (Internal e), s3)
           | (Inr meta, s3) \<Rightarrow> (Inr \<lparr>ar_Status = AuthAccepted, ar_Uuid = x, ar_TenantId = tn,
                 ar_Reason = [], ar_Device = Some (deviceDescriptor x meta tn)\<rparr>, s3)))) = (r, s')"
    using assms(2) a False
    by (cases e) (simp_all add: AuthenticateDevice_def presented_token_def Let_def)
  show ?thesis
  proof (cases e)
    case (Some e')
    then have "r = Inr (auth_response (authStatusFromError e')\<lparr>ar_Reason := error_text e'\<rparr>)" "s' = s1"
      using run by auto
    moreover have "authStatusFromError e' \<noteq> AuthAccepted"
      by (cases e') (simp_all add: authStatusFromError_def)
    moreover have "\<not> (\<exists>u t md. db_devs (co_db s) u = Some (t, md) \<and> dm_Token md = presented_token m \<and>
           presented_token m \<noteq> [] \<and> dm_AuthenticateStatus md = Authenticated)"
      using A Some by (metis option.distinct(1) prod.inject)
    ultimately show ?thesis using A by (auto simp: auth_response_def)
  next
    case None
    obtain t md where dev: "db_devs (co_db s) x = Some (t, md)" "dm_Token md = presented_token m"
      "dm_AuthenticateStatus md = Authenticated"
      using A None by (metis (no_types))
    obtain tn s2 where t: "resolveTenant (core_services c) x s1 = (tn, s2)"
      by (cases "resolveTenant (core_services c) x s1")
    from A have s1: "core_ok s1" by blast
    note s2 = core_resolve_ok [OF s1 t]
    have "k_GetDeviceMetadata (core_services c) x s2 = (Inr md, s2)"
      using core_metadata [of s2 c x] s2 A dev by simp
    with run None t have "r = Inr \<lparr>ar_Status = AuthAccepted, ar_Uuid = x, ar_TenantId = tn,
        ar_Reason = [], ar_Device = Some (deviceDescriptor x md tn)\<rparr>" "s' = s2" by simp_all
    with dev False s2 A show ?thesis by auto
  qed
qed

lemma Core_RegisterDevice_accepted:
  assumes "core_ok s" and "Core_RegisterDevice (core_services c) (Some m) now s = (Inr a, s')"
    and "rr_Status a = RegistrationAccepted"
  shows "rr_Uuid a = GenerateUUID (core_registry (kc_crypto c) (kc_deadline c)) (metadataFromDescriptor (rq_Device m)) \<and>
    (\<exists>t old. db_devs (co_db s) (rr_Uuid a) = Some (t, old) \<and> dm_AuthenticateStatus old = Authenticated)"
proof -
  define md where "md = metadataFromDescriptor (rq_Device m)"
  define u where "u = GenerateUUID (core_registry (kc_crypto c) (kc_deadline c)) md"
  have gid: "k_GenerateUUID (core_services c) md = u" by (simp add: core_services_def Let_def u_def)
  show ?thesis
  proof (cases "db_devs (co_db s) u")
    case None
    with assms show ?thesis
      by (auto simp: Core_RegisterDevice_def core_metadata [OF assms(1)] Let_def md_def [symmetric] gid
          register_response_of_def split: if_splits prod.splits sum.splits)
  next
    case (Some td)
    then obtain t old where td: "db_devs (co_db s) u = Some (t, old)" by (cases td) auto
    with assms show ?thesis
      by (auto simp: Core_RegisterDevice_def core_metadata [OF assms(1)] Let_def md_def [symmetric] gid
          register_response_of_def u_def [symmetric] split: if_splits prod.splits auth_status.splits)
  qed
qed

text \<open>C18: AuthenticateDevice accepts a request exactly when the presented token is the current
  token of a device whose status is authenticated, and then names that device with its metadata;
  every other answer names no device and no tenant. No request changes any device.\<close>

theorem ingress_authentication_sound:
  assumes "core_ok s" and "AuthenticateDevice (core_services c) (Some m) s = (r, s')"
  shows "db_devs (co_db s') = db_devs (co_db s) \<and>
    (\<exists>a. r = Inr a \<and>
      (ar_Status a = AuthAccepted \<longleftrightarrow>
        (\<exists>u t md. db_devs (co_db s) u = Some (t, md) \<and> dm_Token md = presented_token m \<and>
           presented_token m \<noteq> [] \<and> dm_AuthenticateStatus md = Authenticated)) \<and>
      (ar_Status a = AuthAccepted \<longrightarrow>
        (\<exists>t md. db_devs (co_db s) (ar_Uuid a) = Some (t, md) \<and> dm_Token md = presented_token m \<and>
           dm_AuthenticateStatus md = Authenticated \<and>
           ar_Device a = Some (deviceDescriptor (ar_Uuid a) md (ar_TenantId a)))) \<and>
      (ar_Status a \<noteq> AuthAccepted \<longrightarrow> ar_Uuid a = [] \<and> ar_TenantId a = [] \<and> ar_Device a = None))"
  using assms by (rule AuthenticateDevice_spec)

lemma example_core_ok: "core_ok example_core"
  by (simp add: core_ok_def sql_reliable.reg_ok_def core_registry_state_def example_core_def
      example_db_ok coherent_def) (simp add: example_db_def)

definition example_auth :: authenticate_request where
  "example_auth = \<lparr>aq_Credentials = [\<lparr>cd_Type = ''Token'', cd_Value = '' gt_1 ''\<rparr>],
     aq_Identities = [], aq_DeviceHint = None\<rparr>"

theorem ingress_authentication_sound_witness:
  "\<exists>a. fst (AuthenticateDevice (core_services example_core_config) (Some example_auth) example_core) = Inr a \<and>
     ar_Status a = AuthAccepted"
proof -
  have t: "presented_token example_auth = ''gt_1''" by code_simp
  have d: "\<exists>t md. db_devs (co_db example_core) ''d1'' = Some (t, md) \<and> dm_Token md = ''gt_1'' \<and>
      dm_AuthenticateStatus md = Authenticated"
  proof -
    have "map_option (\<lambda>(t, md). (dm_Token md, dm_AuthenticateStatus md)) (db_devs (co_db example_core) ''d1'') =
        Some (''gt_1'', Authenticated)" by code_simp
    then show ?thesis by auto
  qed
  show ?thesis
    using ingress_authentication_sound [OF example_core_ok surjective_pairing, of example_core_config example_auth]
      t d by fastforce
qed

lemma core_mark_frame:
  assumes "with_downlink (mark_status sql_downlink st i msg now) s = (r, s')"
  shows "co_queue s' = co_queue s \<and> co_cache s' = co_cache s \<and> co_presence s' = co_presence s"
  using assms
  by (auto simp: with_downlink_def mark_status_def on_repo_def split: prod.splits)

text \<open>A command with an empty payload cannot be put back: when the adapter reports it as
  requeued after a failed delivery, with the command it pulled and no payload of its own, the
  request is refused as invalid and no state changes, so the pulled command is in no queue.\<close>

theorem empty_command_requeue_refused:
  assumes "uq_Status m = PCommandRequeued" and "0 < uq_CommandId m"
    and "TrimSpace (uq_Uuid m) \<noteq> []" and "uq_ProtocolCommandCode m \<noteq> 0"
    and "uq_Raw m = None" and "uq_Command m = Some (canonicalCommand u t msg)" and "dl_Payload msg = []"
  shows "UpdateCommandStatus K (Some m) now s =
    (Inl (InvalidArgument (ErrInvalidIngressRequest ''raw payload is required for requeue'')), s)"
  using assms
  by (simp add: UpdateCommandStatus_def core_requeue_def Let_def rawPayloadBytes_def canonicalCommand_def)

definition example_requeue :: update_request where
  "example_requeue =
     \<lparr>uq_CommandId = 1, uq_CommandUuid = [], uq_Status = PCommandRequeued, uq_ErrorText = [],
      uq_ProtocolCommandCode = 0x203, uq_Raw = None, uq_ObservedAt = None, uq_Uuid = ''d1'',
      uq_TargetIdentity = None,
      uq_Command = Some (canonicalCommand ''d1'' [] \<lparr>dl_CommandID = 1, dl_CmdID = CoreCmdActionExec, dl_Payload = []\<rparr>),
      uq_Operation = []\<rparr>"

theorem empty_command_requeue_refused_witness:
  "UpdateCommandStatus (core_services example_core_config) (Some example_requeue) 5 example_core =
    (Inl (InvalidArgument (ErrInvalidIngressRequest ''raw payload is required for requeue'')), example_core)"
proof -
  have "TrimSpace ''d1'' = ''d1''" by code_simp
  then show ?thesis
    using empty_command_requeue_refused [of example_requeue "''d1''" "[]"
        "\<lparr>dl_CommandID = 1, dl_CmdID = CoreCmdActionExec, dl_Payload = []\<rparr>"
        "core_services example_core_config" 5 example_core]
    by (simp add: example_requeue_def)
qed

text \<open>A metric whose timestamp is missing is stored with the time of the Unix epoch, not with
  the time of the request: the test for a zero time never succeeds on a missing protobuf
  timestamp.\<close>

theorem missing_timestamp_is_epoch:
  "metricPoints [Some (p\<lparr>pm_ObservedAt := None\<rparr>)] now =
     [\<lparr>m_Timestamp = 0, m_Value = f32_of_f64 (number_value (pm_Value p)),
       m_Type = ucast (pm_LegacyMetricType p)\<rparr>] \<and>
   lu_Timestamp (logUploadData None now) = 0"
  by (simp add: metricPoints_def logUploadData_def timestampMillis_def as_time_def zero_time_def UnixMilli_def)

text \<open>Registration never authenticates a device: a first registration creates the device of the
  descriptor's identity as pending, without a token, and answers pending without a credential; a
  later one changes no device, and hands out a credential only when the device is already
  authenticated.\<close>

theorem registration_stays_pending:
  assumes "core_ok s" and "Core_RegisterDevice (core_services c) (Some m) now s = (r, s')"
    and "md = metadataFromDescriptor (rq_Device m)"
    and "TrimSpace (dm_SerialNumber md) \<noteq> [] \<or> TrimSpace (dm_MACAddress md) \<noteq> []"
    and "u = GenerateUUID (core_registry (kc_crypto c) (kc_deadline c)) md"
  shows "case db_devs (co_db s) u of
      None \<Rightarrow> (\<exists>a. r = Inr a \<and> rr_Status a = RegistrationPending \<and> rr_Uuid a = u \<and> rr_Credential a = None \<and>
         db_devs (co_db s') = (db_devs (co_db s))(u \<mapsto> (DefaultTenantID,
           md\<lparr>dm_AuthenticateStatus := AuthenticatePending, dm_CreatedAt := now, dm_Token := []\<rparr>)))
    | Some (t, old) \<Rightarrow> db_devs (co_db s') = db_devs (co_db s) \<and>
        (\<exists>a. r = Inr a \<and> (rr_Credential a \<noteq> None \<longrightarrow> dm_AuthenticateStatus old = Authenticated \<and>
           rr_Credential a = Some \<lparr>cd_Type = ''token'', cd_Value = dm_Token old\<rparr>))"
proof -
  let ?K = "core_services c"
  let ?G = "core_registry (kc_crypto c) (kc_deadline c)"
  note ok = core_ok_store [OF assms(1)]
  have gid: "k_GenerateUUID ?K = GenerateUUID ?G" by (simp add: core_services_def Let_def)
  show ?thesis
  proof (cases "db_devs (co_db s) u")
    case None
    define md' where "md' = md\<lparr>dm_AuthenticateStatus := AuthenticatePending, dm_Token := []\<rparr>"
    obtain x d where i: "device_InitDeviceInTenant DefaultTenantID u md' now (co_db s) = (x, d)"
      by (cases "device_InitDeviceInTenant DefaultTenantID u md' now (co_db s)")
    have "find_device u (tabs (co_db s)) = None" using None by (simp add: db_devs_def)
    then have x: "x = Inr ()" "faults d = []"
      using i ok(2) by (auto simp: device_InitDeviceInTenant_def Let_def token_taken_def
          NewDeviceModelInTenant_def md'_def NullableToken_def)
    from device_InitDeviceInTenant_spec [OF ok(1) i] x
    have dd: "db_devs d = (db_devs (co_db s))(u \<mapsto> (NormalizeTenantID DefaultTenantID, stored_metadata md' now))"
      by simp
    have reg: "k_RegisterDevice ?K md now s = (Inr (), s\<lparr>co_db := d\<rparr>)"
      using i x assms(5)
      by (simp add: core_services_def Let_def with_registry_def RegisterDevice_def on_store_def
          core_registry_def device_repository_def device_InitDevice_def md'_def)
    obtain t1 s1 where t1: "resolveTenant ?K u (s\<lparr>co_db := d\<rparr>) = (t1, s1)"
      by (cases "resolveTenant ?K u (s\<lparr>co_db := d\<rparr>)")
    obtain t2 s2 where t2: "resolveTenant ?K u s1 = (t2, s2)" by (cases "resolveTenant ?K u s1")
    have "r = Inr (register_response_of RegistrationPending u t1 None [] (Some (deviceDescriptor u md t2)))"
      "s' = s2"
      using assms(2-5) None core_metadata [OF assms(1), of c u] reg t1 t2
      by (auto simp: Core_RegisterDevice_def gid Let_def split: if_splits)
    moreover have "db_devs (co_db s2) = db_devs d"
      using core_resolve [OF t1] core_resolve [OF t2] db_devs_cong [of "co_db s2" d] by simp
    moreover have "NormalizeTenantID DefaultTenantID = DefaultTenantID" by (simp add: NormalizeTenantID_def)
    ultimately show ?thesis
      using None dd by (simp add: register_response_of_def stored_metadata_def md'_def)
  next
    case (Some td)
    obtain t old where td: "td = (t, old)" by (cases td)
    obtain t1 s1 where t1: "resolveTenant ?K u s = (t1, s1)" by (cases "resolveTenant ?K u s")
    have "s' = s1" and r: "\<exists>a. r = Inr a \<and> (rr_Credential a \<noteq> None \<longrightarrow> dm_AuthenticateStatus old = Authenticated \<and>
           rr_Credential a = Some \<lparr>cd_Type = ''token'', cd_Value = dm_Token old\<rparr>)"
      using assms(2-5) Some td core_metadata [OF assms(1), of c u] t1
      by (auto simp: Core_RegisterDevice_def gid Let_def register_response_of_def
          split: if_splits auth_status.splits)
    moreover have "db_devs (co_db s1) = db_devs (co_db s)"
      using core_resolve [OF t1] db_devs_cong [of "co_db s1" "co_db s"] by simp
    ultimately show ?thesis using Some td by simp
  qed
qed

definition example_register :: register_request where
  "example_register = \<lparr>rq_Device = Some (no_descriptor\<lparr>dd_SerialNumber := ''sn''\<rparr>), rq_Raw = None\<rparr>"

theorem registration_stays_pending_witness:
  "\<exists>a. fst (Core_RegisterDevice (core_services example_core_config) (Some example_register) 5 example_core) = Inr a \<and>
     rr_Status a = RegistrationPending \<and> rr_Credential a = None"
proof -
  let ?u = "GenerateUUID (core_registry (kc_crypto example_core_config) (kc_deadline example_core_config))
      (metadataFromDescriptor (rq_Device example_register))"
  have sn: "TrimSpace (dm_SerialNumber (metadataFromDescriptor (rq_Device example_register))) \<noteq> []"
    by code_simp
  have u: "map_option fst (db_devs (co_db example_core) ?u) = None" by code_simp
  then have n: "db_devs (co_db example_core) ?u = None" by simp
  note reg = registration_stays_pending [OF example_core_ok surjective_pairing refl disjI1 [OF sn] refl,
      of example_core_config 5]
  show ?thesis using reg unfolding n option.case by blast
qed

end
