(* ===== verification/CoreClient.thy ===== *)
theory CoreClient
  imports IngressCore
begin

text \<open>
  \<^verbatim>\<open>protocol-ingress/internal/coreclient/client.go\<close>: the interface the protocol adapters call the
  core through, and the remote client that implements it. A call may be lost before it reaches the
  core or its answer may be lost on the way back; the faults still to come are part of the state
  of the link. The clock reading of a call is an argument.
\<close>

record 'w core_client =
  rpc_AuthenticateDevice :: "authenticate_request \<Rightarrow> time \<Rightarrow> (authenticate_response, 'w) action"
  rpc_RegisterDevice :: "register_request \<Rightarrow> time \<Rightarrow> (register_response, 'w) action"
  rpc_ReportHeartbeat :: "heartbeat_request \<Rightarrow> time \<Rightarrow> (heartbeat_response, 'w) action"
  rpc_IngestEvents :: "ingest_request \<Rightarrow> time \<Rightarrow> (ingest_result list, 'w) action"
  rpc_PullCommands :: "pull_request \<Rightarrow> time \<Rightarrow> (canonical_command list, 'w) action"
  rpc_UpdateCommandStatus :: "update_request \<Rightarrow> time \<Rightarrow> (p_command_status, 'w) action"

datatype link_fault = Delivered | RequestLost | ResponseLost

record 's link =
  lk_core :: 's
  lk_faults :: "link_fault list"

text \<open>One call over the link to the handler \<open>f\<close> of the core.\<close>

definition call :: "('s \<Rightarrow> 'a rpc \<times> 's) \<Rightarrow> ('a, 's link) action" where
  "call f l =
     (let l1 = l\<lparr>lk_faults := tl (lk_faults l)\<rparr>
      in if lk_faults l \<noteq> [] \<and> hd (lk_faults l) = RequestLost then (Inl ErrRPC, l1)
         else (case f (lk_core l) of (r, s) \<Rightarrow>
           (if lk_faults l \<noteq> [] \<and> hd (lk_faults l) = ResponseLost then Inl ErrRPC
            else (case r of Inl _ \<Rightarrow> Inl ErrRPC | Inr x \<Rightarrow> Inr x),
            l1\<lparr>lk_core := s\<rparr>)))"

definition Remote_AuthenticateDevice ::
    "'s core_ops \<Rightarrow> authenticate_request \<Rightarrow> time \<Rightarrow> (authenticate_response, 's link) action" where
  "Remote_AuthenticateDevice K req now = call (AuthenticateDevice K (Some req))"

definition Remote_RegisterDevice ::
    "'s core_ops \<Rightarrow> register_request \<Rightarrow> time \<Rightarrow> (register_response, 's link) action" where
  "Remote_RegisterDevice K req now = call (Core_RegisterDevice K (Some req) now)"

definition Remote_ReportHeartbeat ::
    "'s core_ops \<Rightarrow> heartbeat_request \<Rightarrow> time \<Rightarrow> (heartbeat_response, 's link) action" where
  "Remote_ReportHeartbeat K req now =
     (let req = (if hq_ObservedAt req = None then req\<lparr>hq_ObservedAt := Some now\<rparr> else req)
      in call (ReportHeartbeat K (Some req) now))"

definition Remote_IngestEvents ::
    "'s core_ops \<Rightarrow> ingest_request \<Rightarrow> time \<Rightarrow> (ingest_result list, 's link) action" where
  "Remote_IngestEvents K req now = call (IngestEvents K (Some req) now)"

definition Remote_PullCommands ::
    "'s core_ops \<Rightarrow> pull_request \<Rightarrow> time \<Rightarrow> (canonical_command list, 's link) action" where
  "Remote_PullCommands K req now = call (PullCommands K (Some req))"

definition Remote_UpdateCommandStatus ::
    "'s core_ops \<Rightarrow> update_request \<Rightarrow> time \<Rightarrow> (p_command_status, 's link) action" where
  "Remote_UpdateCommandStatus K req now =
     (let req = (if uq_ObservedAt req = None then req\<lparr>uq_ObservedAt := Some now\<rparr> else req)
      in call (UpdateCommandStatus K (Some req) now))"

definition NewRemote :: "'s core_ops \<Rightarrow> 's link core_client" where
  "NewRemote K =
     \<lparr>rpc_AuthenticateDevice = Remote_AuthenticateDevice K,
      rpc_RegisterDevice = Remote_RegisterDevice K,
      rpc_ReportHeartbeat = Remote_ReportHeartbeat K,
      rpc_IngestEvents = Remote_IngestEvents K,
      rpc_PullCommands = Remote_PullCommands K,
      rpc_UpdateCommandStatus = Remote_UpdateCommandStatus K\<rparr>"

section \<open>Lemmas\<close>

text \<open>An answer means that the core handled the call; an error leaves both possibilities.\<close>

lemma call_Inr:
  "call f l = (Inr x, l') \<Longrightarrow> f (lk_core l) = (Inr x, lk_core l')"
  by (auto simp: call_def Let_def split: if_splits prod.splits sum.splits)

lemma call_Inl:
  "call f l = (Inl e, l') \<Longrightarrow> e = ErrRPC \<and> (lk_core l' = lk_core l \<or> lk_core l' = snd (f (lk_core l)))"
  by (auto simp: call_def Let_def split: if_splits prod.splits sum.splits)

lemma call_core: "lk_core (snd (call f l)) = lk_core l \<or> lk_core (snd (call f l)) = snd (f (lk_core l))"
  by (auto simp: call_def Let_def split: prod.splits)

lemma call_reliable:
  "lk_faults l = [] \<Longrightarrow> f (lk_core l) = (Inr x, s) \<Longrightarrow> call f l = (Inr x, l\<lparr>lk_core := s\<rparr>)"
  by (simp add: call_def Let_def)

end
