(* ===== verification/GoTime.thy ===== *)
theory GoTime
  imports Prelude
begin

text \<open>
  \<open>t.UTC().Format(time.RFC3339Nano)\<close>: the civil date of a day number in the proleptic Gregorian
  calendar and the text of an instant, with the trailing zeros of the fraction dropped.
\<close>

definition civil_date :: "int \<Rightarrow> int \<times> int \<times> int" where
  "civil_date day =
     (let z = day + 719468;
          era = z div 146097;
          doe = z mod 146097;
          yoe = (doe - doe div 1460 + doe div 36524 - doe div 146096) div 365;
          doy = doe - (365 * yoe + yoe div 4 - yoe div 100);
          mp = (5 * doy + 2) div 153;
          m = (if mp < 10 then mp + 3 else mp - 9)
      in (yoe + era * 400 + (if m \<le> 2 then 1 else 0), m, doy - (153 * mp + 2) div 5 + 1))"

text \<open>The \<open>w\<close> low decimal digits of a number, and its text padded with zeros to \<open>w\<close> digits.\<close>

primrec low_digits :: "nat \<Rightarrow> int \<Rightarrow> string" where
  "low_digits 0 n = []"
| "low_digits (Suc w) n = low_digits w (n div 10) @ [char_of (48 + nat (n mod 10))]"

definition pad_int :: "nat \<Rightarrow> int \<Rightarrow> string" where
  "pad_int w i =
     (let n = \<bar>i\<bar>; ds = (if n < 10 ^ w then low_digits w n else nat_digits (nat n))
      in if i < 0 then CHR ''-'' # ds else ds)"

definition nano_fraction :: "int \<Rightarrow> string" where
  "nano_fraction n =
     (if n = 0 then []
      else CHR ''.'' # rev (dropWhile (\<lambda>c. c = CHR ''0'') (rev (low_digits 9 n))))"

definition FormatRFC3339Nano :: "time \<Rightarrow> string" where
  "FormatRFC3339Nano t =
     (case civil_date (t div 86400000000000) of (y, m, d) \<Rightarrow>
        let ns = t mod 86400000000000; sec = ns div 1000000000
        in pad_int 4 y @ ''-'' @ pad_int 2 m @ ''-'' @ pad_int 2 d @ ''T'' @
           pad_int 2 (sec div 3600) @ '':'' @ pad_int 2 (sec div 60 mod 60) @ '':'' @
           pad_int 2 (sec mod 60) @ nano_fraction (ns mod 1000000000) @ ''Z'')"

text \<open>The zero time, the epoch, a leap day and an instant with a fraction.\<close>

lemma FormatRFC3339Nano_examples:
  "FormatRFC3339Nano zero_time = ''0001-01-01T00:00:00Z''"
  "FormatRFC3339Nano 0 = ''1970-01-01T00:00:00Z''"
  "FormatRFC3339Nano (time_UnixMilli 1709210096250) = ''2024-02-29T12:34:56.25Z''"
  by code_simp+

end
