(* ===== verification/Normalizer.thy ===== *)
theory Normalizer
  imports IngressProto Crypto GoTime "HOL-Library.List_Lexorder" "HOL-Library.Char_ord"
begin

text \<open>
  \<^verbatim>\<open>protocol-ingress/internal/normalizer/normalizer.go\<close>: adapter events become canonical events,
  canonical commands become adapter commands. The conversions of third-party packages are the
  fields of \<open>norm_env\<close>: \<open>structpb.NewStruct\<close> (which may refuse an object),
  \<open>json.Unmarshal\<close> into an object and \<open>json.Marshal\<close> of one, and SHA-256. The clock readings of
  one call are one argument.
\<close>

record norm_env =
  ne_NewStruct :: "any_map \<Rightarrow> any_map option"
  ne_Unmarshal :: "bytes \<Rightarrow> any_map option"
  ne_Marshal :: "any_map \<Rightarrow> bytes option"
  ne_crypto :: crypto

definition newStruct :: "norm_env \<Rightarrow> any_map option \<Rightarrow> any_map option" where
  "newStruct E m = ne_NewStruct E (case m of None \<Rightarrow> [] | Some m \<Rightarrow> m)"

section \<open>Names\<close>

definition tag :: "string \<Rightarrow> string" where
  "tag value = ToLower (TrimSpace value)"

definition mapTransport :: "string \<Rightarrow> transport" where
  "mapTransport value =
     (let v = tag value
      in if v \<in> set [''stream'', ''tcp'', ''serial'', ''websocket''] then TransportStream
         else if v \<in> set [''message_bus'', ''bus'', ''mqtt'', ''nats'', ''amqp''] then TransportMessageBus
         else if v \<in> set [''request_reply'', ''http'', ''grpc'', ''connectrpc''] then TransportRequestReply
         else if v \<in> set [''datagram'', ''udp''] then TransportDatagram
         else if v = ''local'' then TransportLocal
         else TransportUnspecified)"

definition mapEventType :: "string \<Rightarrow> event_type" where
  "mapEventType kind =
     (let v = tag kind
      in if v \<in> set [''device_discovered'', ''discovered''] then EventDeviceDiscovered
         else if v \<in> set [''device_register'', ''register'', ''registration''] then EventDeviceRegister
         else if v = ''heartbeat'' then EventHeartbeat
         else if v \<in> set [''telemetry'', ''metrics'', ''metric''] then EventTelemetry
         else if v = ''state'' then EventState
         else if v = ''log'' then EventLog
         else if v \<in> set [''event'', ''device_event''] then EventDeviceEvent
         else if v \<in> set [''error'', ''device_error''] then EventDeviceError
         else if v = ''availability'' then EventAvailability
         else if v = ''topology'' then EventTopology
         else if v = ''command_ack'' then EventCommandAck
         else if v = ''command_failed'' then EventCommandFailed
         else if v = ''raw'' then EventRaw
         else EventUnspecified)"

definition mapAvailability :: "string \<Rightarrow> availability" where
  "mapAvailability value =
     (let v = tag value
      in if v = ''online'' then AvailOnline else if v = ''delayed'' then AvailDelayed
         else if v = ''offline'' then AvailOffline else AvailUnspecified)"

definition mapCommandStatus :: "string \<Rightarrow> p_command_status" where
  "mapCommandStatus value =
     (let v = tag value
      in if v = ''queued'' then PCommandQueued else if v = ''sent'' then PCommandSent
         else if v \<in> set [''acked'', ''ack''] then PCommandAcked
         else if v \<in> set [''failed'', ''fail''] then PCommandFailed
         else if v \<in> set [''requeued'', ''requeue''] then PCommandRequeued
         else if v = ''expired'' then PCommandExpired
         else PCommandUnspecified)"

definition mapLogLevel :: "string \<Rightarrow> p_log_level" where
  "mapLogLevel level =
     (let v = tag level
      in if v = ''debug'' then PLogDebug else if v = ''info'' then PLogInfo
         else if v \<in> set [''warn'', ''warning''] then PLogWarn
         else if v = ''error'' then PLogError else PLogUnspecified)"

section \<open>Parts of an event\<close>

text \<open>\<open>cloneStringMap\<close> copies a map.\<close>

definition cloneStringMap :: "string_map \<Rightarrow> string_map" where
  "cloneStringMap m = m"

definition frameContext :: "frame_info \<Rightarrow> frame_context option" where
  "frameContext f =
     (if fi_MagicNumber f = 0 \<and> fi_CommandCode f = 0 \<and> fi_KeyID f = 0 \<and> fi_Sequence f = 0 \<and>
         \<not> fi_IsAck f \<and> \<not> fi_IsEncrypted f \<and> \<not> fi_IsCompressed f \<and> fi_PayloadLen f = 0 \<and>
         fi_Headers f = [] then None
      else Some \<lparr>fc_MagicNumber = fi_MagicNumber f, fc_CommandCode = fi_CommandCode f,
                 fc_KeyId = fi_KeyID f, fc_Sequence = fi_Sequence f, fc_IsAck = fi_IsAck f,
                 fc_IsEncrypted = fi_IsEncrypted f, fc_IsCompressed = fi_IsCompressed f,
                 fc_PayloadLen = fi_PayloadLen f, fc_Headers = cloneStringMap (fi_Headers f)\<rparr>)"

definition p_identity :: "identity \<Rightarrow> identity option" where
  "p_identity i = (if TrimSpace (id_Type i) = [] \<and> TrimSpace (id_Value i) = [] then None else Some i)"

definition p_identities :: "identity list \<Rightarrow> identity list" where
  "p_identities items = concat (map (\<lambda>i. case p_identity i of None \<Rightarrow> [] | Some v \<Rightarrow> [v]) items)"

definition p_device :: "norm_env \<Rightarrow> device_descriptor option \<Rightarrow> device_descriptor option" where
  "p_device E d =
     (case d of None \<Rightarrow> None
      | Some d \<Rightarrow> Some (d\<lparr>dd_Identities := p_identities (dd_Identities d),
                          dd_Labels := cloneStringMap (dd_Labels d),
                          dd_Attributes := newStruct E (dd_Attributes d)\<rparr>))"

definition p_value_of :: "norm_env \<Rightarrow> go_value \<Rightarrow> p_value option" where
  "p_value_of E v =
     (case v_Number v of Some x \<Rightarrow> Some (NumberValue x)
      | None \<Rightarrow> (case v_String v of Some x \<Rightarrow> Some (StringValue x)
      | None \<Rightarrow> (case v_Bool v of Some x \<Rightarrow> Some (BoolValue x)
      | None \<Rightarrow> (case v_Bytes v of Some x \<Rightarrow> Some (BytesValue x)
      | None \<Rightarrow> (case v_JSON v of Some m \<Rightarrow> Some (JsonValue (newStruct E (Some m)))
      | None \<Rightarrow> None)))))"

definition or_now :: "time \<Rightarrow> time \<Rightarrow> time" where
  "or_now now t = (if t = zero_time then now else t)"

definition p_metrics :: "norm_env \<Rightarrow> time \<Rightarrow> metric_point list \<Rightarrow> p_metric option list" where
  "p_metrics E now items = map (\<lambda>item.
     Some \<lparr>pm_Name = mp_Name item, pm_Value = p_value_of E (mp_Value item), pm_Unit = mp_Unit item,
           pm_ObservedAt = Some (or_now now (mp_ObservedAt item)),
           pm_LegacyMetricType = mp_LegacyMetricType item,
           pm_Tags = cloneStringMap (mp_Tags item)\<rparr>) items"

definition p_states :: "norm_env \<Rightarrow> time \<Rightarrow> state_point list \<Rightarrow> p_state list" where
  "p_states E now items = map (\<lambda>item.
     \<lparr>pst_Name = sp_Name item, pst_Value = p_value_of E (sp_Value item), pst_Unit = sp_Unit item,
      pst_ObservedAt = Some (or_now now (sp_ObservedAt item)), pst_EntityId = sp_EntityID item,
      pst_Tags = cloneStringMap (sp_Tags item)\<rparr>) items"

definition p_logs :: "norm_env \<Rightarrow> time \<Rightarrow> log_record option \<Rightarrow> p_log option list" where
  "p_logs E now item =
     (case item of None \<Rightarrow> []
      | Some l \<Rightarrow> [Some \<lparr>pl_Level = mapLogLevel (lr_Level l), pl_Message = lr_Message l,
                         pl_Namespace = lr_Namespace l,
                         pl_ObservedAt = Some (or_now now (lr_ObservedAt l)),
                         pl_Fields = newStruct E (lr_Fields l)\<rparr>])"

definition octet_stream :: string where "octet_stream = ''application/octet-stream''"

definition p_raw :: "norm_env \<Rightarrow> string \<Rightarrow> bytes \<Rightarrow> raw_payload option" where
  "p_raw E contentType body =
     (if length body = 0 then None
      else
        let ct = (if contentType = [] then octet_stream else contentType);
            json = Contains ct ''json''
        in Some \<lparr>raw_ContentType = ct, raw_Body = body,
                 raw_Json = (if json then (case ne_Unmarshal E body of None \<Rightarrow> None
                                           | Some m \<Rightarrow> newStruct E (Some m)) else None),
                 raw_Text = (if HasPrefix ct ''text/'' \<or> json then string_of_bytes body else [])\<rparr>)"

definition p_receipt_of :: "norm_env \<Rightarrow> time \<Rightarrow> command_receipt option \<Rightarrow> p_receipt option" where
  "p_receipt_of E now r =
     (case r of None \<Rightarrow> None
      | Some r \<Rightarrow> Some
          \<lparr>prc_CommandId = rc_CommandID r, prc_CommandUuid = rc_CommandUUID r,
           prc_Status = mapCommandStatus (rc_Status r),
           prc_ProtocolCommandCode = rc_ProtocolCommandCode r, prc_Operation = rc_Operation r,
           prc_ErrorText = rc_ErrorText r, prc_ObservedAt = Some (or_now now (rc_ObservedAt r)),
           prc_Raw = p_raw E octet_stream (rc_Raw r)\<rparr>)"

section \<open>The two directions\<close>

definition deterministicEventID :: "norm_env \<Rightarrow> adapter_event \<Rightarrow> time \<Rightarrow> string" where
  "deterministicEventID E event occurredAt =
     (let parts =
        [ev_AdapterName event, ev_ProtocolName event, ev_Kind event, id_Type (ev_Identity event),
         id_Value (ev_Identity event), ev_UUID event, FormatRFC3339Nano occurredAt,
         Itoa (int (unat (fi_Sequence (ev_Frame event)))),
         Itoa (int (unat (fi_CommandCode (ev_Frame event))))] @
        map (\<lambda>k. k @ ''='' @ lookup (ev_Labels event) k) (sort (map fst (ev_Labels event)))
      in ''evt_'' @ hex_encode (take 16 (sha256 (ne_crypto E)
           (bytes_of_string (Join parts ''|'') @ ev_Raw event))))"

definition event_context ::
    "string \<Rightarrow> adapter_event \<Rightarrow> time \<Rightarrow> any_map option \<Rightarrow> ingress_context" where
  "event_context sourceInstance event receivedAt ext =
     \<lparr>ic_RequestId = ev_RequestID event, ic_TraceId = ev_TraceID event,
      ic_CorrelationId = ev_CorrelationID event, ic_SourceInstance = sourceInstance,
      ic_AdapterId = ev_AdapterName event, ic_ProtocolName = ev_ProtocolName event,
      ic_ProtocolVersion = ev_ProtocolVersion event,
      ic_Transport = mapTransport (ev_Transport event),
      ic_TenantHint = ev_TenantHint event, ic_TenantId = ev_TenantID event,
      ic_ReceivedAt = Some receivedAt, ic_RemoteAddr = ev_RemoteAddr event,
      ic_LocalAddr = ev_LocalAddr event, ic_Frame = frameContext (ev_Frame event),
      ic_Labels = cloneStringMap (ev_Labels event), ic_Extensions = ext\<rparr>"

text \<open>The identity and the device of an event with a UUID.\<close>

definition event_primary :: "adapter_event \<Rightarrow> identity option" where
  "event_primary event =
     (case p_identity (ev_Identity event) of
        Some i \<Rightarrow> Some i
      | None \<Rightarrow> if ev_UUID event = [] then None
          else Some \<lparr>id_Type = ''uuid'', id_Value = ev_UUID event, id_Issuer = []\<rparr>)"

definition event_device :: "norm_env \<Rightarrow> adapter_event \<Rightarrow> device_descriptor option" where
  "event_device E event =
     (if ev_UUID event = [] then p_device E (ev_Device event)
      else Some ((case p_device E (ev_Device event) of None \<Rightarrow> no_descriptor | Some d \<Rightarrow> d)
                   \<lparr>dd_UUID := ev_UUID event\<rparr>))"

definition canonical_event ::
    "norm_env \<Rightarrow> string \<Rightarrow> adapter_event \<Rightarrow> time \<Rightarrow> time \<Rightarrow> time \<Rightarrow> any_map option \<Rightarrow> device_event" where
  "canonical_event E sourceInstance event now receivedAt occurredAt ext =
     \<lparr>de_EventId = ev_EventID event, de_EventSource = ev_AdapterName event,
      de_SpecVersion = ''goster.ingress.v1'', de_EventType = mapEventType (ev_Kind event),
      de_EventTypeName = ev_Kind event,
      de_Context = Some (event_context sourceInstance event receivedAt ext),
      de_PrimaryIdentity = event_primary event,
      de_Identities = p_identities (ev_Identities event), de_Device = event_device E event,
      de_OccurredAt = Some occurredAt, de_ReceivedAt = Some receivedAt,
      de_IdempotencyKey = ev_EventID event, de_CorrelationId = ev_CorrelationID event,
      de_Metrics = p_metrics E now (ev_Metrics event),
      de_States = p_states E now (ev_States event), de_Logs = p_logs E now (ev_Log event),
      de_Availability = mapAvailability (ev_Availability event),
      de_CommandReceipt = p_receipt_of E now (ev_Receipt event),
      de_Raw = p_raw E (ev_RawContentType event) (ev_Raw event), de_Extensions = ext\<rparr>"

definition with_defaults :: "norm_env \<Rightarrow> adapter_event \<Rightarrow> time \<Rightarrow> adapter_event" where
  "with_defaults E event occurredAt =
     event\<lparr>ev_EventID := (if ev_EventID event = [] then deterministicEventID E event occurredAt
                          else ev_EventID event),
           ev_AdapterName := (if ev_AdapterName event = [] then ''unknown'' else ev_AdapterName event)\<rparr>"

definition NormalizeEvent ::
    "norm_env \<Rightarrow> string \<Rightarrow> adapter_event \<Rightarrow> time \<Rightarrow> device_event result" where
  "NormalizeEvent E sourceInstance event now =
     (let receivedAt = or_now now (ev_ReceivedAt event);
          occurredAt = or_now receivedAt (ev_OccurredAt event);
          event = with_defaults E event occurredAt
      in case ev_Attributes event of
           None \<Rightarrow> Inr (canonical_event E sourceInstance event now receivedAt occurredAt None)
         | Some a \<Rightarrow> (case newStruct E (Some a) of
               None \<Rightarrow> Inl (ErrText ''event attributes'')
             | Some st \<Rightarrow> Inr (canonical_event E sourceInstance event now receivedAt occurredAt (Some st))))"

text \<open>The payload of a command: the body, else the text, else the JSON object.\<close>

definition rawPayload :: "norm_env \<Rightarrow> raw_payload option \<Rightarrow> (bytes \<times> string) result" where
  "rawPayload E r =
     (case r of None \<Rightarrow> Inr ([], [])
      | Some r \<Rightarrow>
          if length (raw_Body r) > 0 then Inr (raw_Body r, raw_ContentType r)
          else if raw_Text r \<noteq> [] then
            Inr (bytes_of_string (raw_Text r),
                 if raw_ContentType r = [] then ''text/plain'' else raw_ContentType r)
          else (case raw_Json r of None \<Rightarrow> Inr ([], raw_ContentType r)
            | Some j \<Rightarrow> (case ne_Marshal E j of None \<Rightarrow> Inl (ErrText ''json'')
               | Some b \<Rightarrow> Inr (b, if raw_ContentType r = [] then ''application/json''
                                   else raw_ContentType r))))"

definition structToMap :: "any_map option \<Rightarrow> any_map option" where
  "structToMap m = m"

text \<open>\<open>AsDuration\<close> saturates at the bounds of \<open>time.Duration\<close>.\<close>

definition as_duration :: "duration \<Rightarrow> duration" where
  "as_duration d = max (- (2 ^ 63)) (min (2 ^ 63 - 1) d)"

definition NormalizeCommand :: "norm_env \<Rightarrow> canonical_command option \<Rightarrow> adapter_command result" where
  "NormalizeCommand E command =
     (case command of None \<Rightarrow> Inl (ErrText ''command is required'')
      | Some c \<Rightarrow>
         (case rawPayload E (cc_Payload c) of
            Inl e \<Rightarrow> Inl e
          | Inr (payload, contentType) \<Rightarrow>
              Inr \<lparr>ac_CommandID = cc_CommandId c, ac_CommandUUID = cc_CommandUuid c,
                   ac_TenantID = cc_TenantId c, ac_UUID = cc_Uuid c, ac_Operation = cc_Operation c,
                   ac_ProtocolCommandCode = cc_ProtocolCommandCode c,
                   ac_Target = (case cc_TargetIdentity c of None \<Rightarrow> no_identity | Some i \<Rightarrow> i),
                   ac_Payload = payload, ac_PayloadContentType = contentType,
                   ac_Properties = cloneStringMap (cc_Properties c),
                   ac_Options = structToMap (cc_AdapterOptions c),
                   ac_Timeout = (case cc_Timeout c of None \<Rightarrow> 0 | Some d \<Rightarrow> as_duration d),
                   ac_MaxAttempts = cc_MaxAttempts c,
                   ac_Labels = cloneStringMap (cc_Labels c)\<rparr>))"

text \<open>\<open>New\<close> keeps the trimmed name of the instance.\<close>

definition NewCanonical :: "string \<Rightarrow> string" where
  "NewCanonical sourceInstance = TrimSpace sourceInstance"

section \<open>Lemmas\<close>

lemma newStruct_Some [simp]: "newStruct E (Some m) = ne_NewStruct E m"
  by (simp add: newStruct_def)

lemma or_now_id [simp]: "t \<noteq> zero_time \<Longrightarrow> or_now now t = t"
  by (simp add: or_now_def)

lemma with_defaults_sel [simp]:
  "ev_EventID (with_defaults E e t) = (if ev_EventID e = [] then deterministicEventID E e t else ev_EventID e)"
  "ev_Attributes (with_defaults E e t) = ev_Attributes e" "ev_UUID (with_defaults E e t) = ev_UUID e"
  "ev_Kind (with_defaults E e t) = ev_Kind e" "ev_Identity (with_defaults E e t) = ev_Identity e"
  "ev_Metrics (with_defaults E e t) = ev_Metrics e" "ev_Log (with_defaults E e t) = ev_Log e"
  "ev_Receipt (with_defaults E e t) = ev_Receipt e" "ev_Raw (with_defaults E e t) = ev_Raw e"
  "ev_RawContentType (with_defaults E e t) = ev_RawContentType e"
  by (simp_all add: with_defaults_def)

lemma with_defaults_primary [simp]: "event_primary (with_defaults E e t) = event_primary e"
  by (simp add: event_primary_def cong: option.case_cong)

lemma NormalizeEvent_canonical:
  "NormalizeEvent E src e now = Inr d \<Longrightarrow>
   \<exists>ext. d = canonical_event E src (with_defaults E e (or_now (or_now now (ev_ReceivedAt e)) (ev_OccurredAt e)))
      now (or_now now (ev_ReceivedAt e)) (or_now (or_now now (ev_ReceivedAt e)) (ev_OccurredAt e)) ext"
  unfolding NormalizeEvent_def Let_def by (cases "ev_Attributes e") (auto split: option.splits)

lemma NormalizeEvent_parts:
  assumes "NormalizeEvent E src e now = Inr d"
  shows "de_EventId d = (if ev_EventID e = []
           then deterministicEventID E e (or_now (or_now now (ev_ReceivedAt e)) (ev_OccurredAt e))
           else ev_EventID e)"
    and "de_IdempotencyKey d = de_EventId d"
    and "de_EventType d = mapEventType (ev_Kind e)"
    and "de_PrimaryIdentity d = event_primary e"
    and "ev_UUID e \<noteq> [] \<Longrightarrow> \<exists>x. de_Device d = Some x \<and> dd_UUID x = ev_UUID e"
    and "de_Metrics d = p_metrics E now (ev_Metrics e)"
    and "de_Logs d = p_logs E now (ev_Log e)"
    and "de_CommandReceipt d = p_receipt_of E now (ev_Receipt e)"
    and "de_Raw d = p_raw E (ev_RawContentType e) (ev_Raw e)"
  using NormalizeEvent_canonical [OF assms]
  by (auto simp: canonical_event_def event_device_def)

lemma NormalizeEvent_Inr:
  "(\<exists>d. NormalizeEvent E src e now = Inr d) \<longleftrightarrow>
   (case ev_Attributes e of None \<Rightarrow> True | Some a \<Rightarrow> ne_NewStruct E a \<noteq> None)"
  by (auto simp: NormalizeEvent_def Let_def split: option.splits)

lemma sorted_keys_of_map:
  assumes "distinct (map fst L)" and "distinct (map fst L')" and "map_of L = map_of L'"
  shows "sort (map fst L) = sort (map fst (L' :: string_map))"
proof (rule sorted_distinct_set_unique)
  have "set (map fst L) = set (map fst L')"
    by (metis assms(3) dom_map_of_conv_image_fst list.set_map)
  then show "set (sort (map fst L)) = set (sort (map fst L'))" by simp
qed (simp_all add: assms)

text \<open>The identifier depends on the labels as a map only, not on the order of their keys.\<close>

lemma deterministicEventID_labels:
  assumes "distinct (map fst (ev_Labels e))" and "distinct (map fst L)" and "map_of (ev_Labels e) = map_of L"
  shows "deterministicEventID E (e\<lparr>ev_Labels := L\<rparr>) t = deterministicEventID E e t"
  using sorted_keys_of_map [OF assms] assms(3)
  by (simp add: deterministicEventID_def lookup_def)

lemma length_deterministicEventID:
  "crypto_ok (ne_crypto E) \<Longrightarrow> length (deterministicEventID E e t) = 36"
  by (simp add: deterministicEventID_def crypto_okD)

section \<open>Properties\<close>

text \<open>The identity of an event is stable: when a device's event is normalized again by a retry,
  with other request, trace and correlation ids, another receive time, another clock and its labels
  enumerated in another order, it gets the same event id, and the idempotency key is that id. An id
  the adapter chose is kept; a computed one is the prefix evt_ and 32 hexadecimal digits.\<close>

theorem event_id_stable:
  assumes "NormalizeEvent E src e now = Inr d"
    and "NormalizeEvent E src' (e\<lparr>ev_Labels := L, ev_ReceivedAt := rcv, ev_RequestID := rid,
           ev_TraceID := tid, ev_CorrelationID := cid\<rparr>) now' = Inr d'"
    and "distinct (map fst (ev_Labels e))" and "distinct (map fst L)"
    and "map_of (ev_Labels e) = map_of L" and "ev_OccurredAt e \<noteq> zero_time"
    and "crypto_ok (ne_crypto E)"
  shows "de_EventId d' = de_EventId d \<and> de_IdempotencyKey d' = de_EventId d \<and>
    de_IdempotencyKey d = de_EventId d \<and>
    (if ev_EventID e = [] then is_prefix ''evt_'' (de_EventId d) \<and> length (de_EventId d) = 36
     else de_EventId d = ev_EventID e)"
proof -
  let ?e' = "e\<lparr>ev_Labels := L, ev_ReceivedAt := rcv, ev_RequestID := rid, ev_TraceID := tid,
    ev_CorrelationID := cid\<rparr>"
  have "deterministicEventID E ?e' t = deterministicEventID E (e\<lparr>ev_Labels := L\<rparr>) t" for t
    by (simp add: deterministicEventID_def)
  then have id: "deterministicEventID E ?e' t = deterministicEventID E e t" for t
    using deterministicEventID_labels [OF assms(3,4,5)] by simp
  have "is_prefix ''evt_'' (deterministicEventID E e t)" for t
    by (simp add: deterministicEventID_def)
  then show ?thesis
    using NormalizeEvent_parts(1,2) [OF assms(1)] NormalizeEvent_parts(1,2) [OF assms(2)] id
    by (simp add: assms(6) length_deterministicEventID [OF assms(7)])
qed

definition example_env :: norm_env where
  "example_env = \<lparr>ne_NewStruct = Some, ne_Unmarshal = (\<lambda>_. None), ne_Marshal = (\<lambda>_. None),
     ne_crypto = toy_crypto\<rparr>"

definition example_event :: adapter_event where
  "example_event = no_event\<lparr>ev_AdapterName := ''mqtt'', ev_Kind := ''telemetry'', ev_UUID := ''d1'',
     ev_OccurredAt := 5, ev_Labels := [(''b'', ''2''), (''a'', ''1'')]\<rparr>"

text \<open>A retry of an event with two labels in the other order.\<close>

theorem event_id_stable_witness:
  "\<exists>d d'. NormalizeEvent example_env ''n1'' example_event 7 = Inr d \<and>
     NormalizeEvent example_env ''n2'' (example_event\<lparr>ev_Labels := [(''a'', ''1''), (''b'', ''2'')],
       ev_ReceivedAt := 9, ev_RequestID := ''r'', ev_TraceID := ''t'', ev_CorrelationID := ''c''\<rparr>) 8 = Inr d' \<and>
     de_EventId d' = de_EventId d \<and> length (de_EventId d) = 36"
proof -
  let ?e' = "example_event\<lparr>ev_Labels := [(''a'', ''1''), (''b'', ''2'')],
       ev_ReceivedAt := 9, ev_RequestID := ''r'', ev_TraceID := ''t'', ev_CorrelationID := ''c''\<rparr>"
  have "ev_Attributes example_event = None" "ev_Attributes ?e' = None"
    by (simp_all add: example_event_def no_event_def)
  then obtain d d' where d: "NormalizeEvent example_env ''n1'' example_event 7 = Inr d"
      "NormalizeEvent example_env ''n2'' ?e' 8 = Inr d'"
    using NormalizeEvent_Inr [of example_env "''n1''" example_event 7]
      NormalizeEvent_Inr [of example_env "''n2''" ?e' 8] by auto
  have h: "distinct (map fst (ev_Labels example_event))" "ev_EventID example_event = []"
    "map_of (ev_Labels example_event) = map_of [(''a'', ''1''), (''b'', ''2'')]"
    "ev_OccurredAt example_event \<noteq> zero_time" "crypto_ok (ne_crypto example_env)"
    by (auto simp: example_event_def no_event_def zero_time_def example_env_def toy_crypto_ok)
  from event_id_stable [OF d h(1) _ h(3,4,5)] d h(2) show ?thesis by auto
qed

end
