(* ===== verification/GosterTypes.thy ===== *)
theory GosterTypes
  imports Prelude
begin

text \<open>
  The constants and types of \<^verbatim>\<open>protocol-ingress/internal/protocol/gosterwy/types.go\<close>: command
  numbers as 16-bit words, the unpacked frame as a record, and the tables between command
  numbers and operation names.
\<close>

type_synonym cmd_id = "16 word"

definition MagicNumber :: "16 word" where "MagicNumber = 0x5759"
definition ProtocolVersion :: byte where "ProtocolVersion = 0x01"
definition HeaderSize :: nat where "HeaderSize = 32"
definition FooterSize :: nat where "FooterSize = 16"
definition MaxPayloadSize :: nat where "MaxPayloadSize = 64 * 1024"

definition CmdHandshakeInit :: cmd_id where "CmdHandshakeInit = 0x0001"
definition CmdHandshakeResp :: cmd_id where "CmdHandshakeResp = 0x0002"
definition CmdAuthVerify :: cmd_id where "CmdAuthVerify = 0x0003"
definition CmdAuthAck :: cmd_id where "CmdAuthAck = 0x0004"
definition CmdDeviceRegister :: cmd_id where "CmdDeviceRegister = 0x0005"
definition CmdErrorReport :: cmd_id where "CmdErrorReport = 0x00FF"

definition CmdMetricsReport :: cmd_id where "CmdMetricsReport = 0x0101"
definition CmdLogReport :: cmd_id where "CmdLogReport = 0x0102"
definition CmdEventReport :: cmd_id where "CmdEventReport = 0x0103"
definition CmdHeartbeat :: cmd_id where "CmdHeartbeat = 0x0104"
definition CmdKeyExchangeUplink :: cmd_id where "CmdKeyExchangeUplink = 0x0105"

definition CmdConfigPush :: cmd_id where "CmdConfigPush = 0x0201"
definition CmdOtaData :: cmd_id where "CmdOtaData = 0x0202"
definition CmdActionExec :: cmd_id where "CmdActionExec = 0x0203"
definition CmdScreenWy :: cmd_id where "CmdScreenWy = 0x0204"
definition CmdKeyExchangeDownlink :: cmd_id where "CmdKeyExchangeDownlink = 0x0205"

lemmas cmd_defs =
  CmdHandshakeInit_def CmdHandshakeResp_def CmdAuthVerify_def CmdAuthAck_def
  CmdDeviceRegister_def CmdErrorReport_def CmdMetricsReport_def CmdLogReport_def
  CmdEventReport_def CmdHeartbeat_def CmdKeyExchangeUplink_def CmdConfigPush_def
  CmdOtaData_def CmdActionExec_def CmdScreenWy_def CmdKeyExchangeDownlink_def

record packet =
  CmdID :: cmd_id
  KeyID :: "32 word"
  Sequence :: "64 word"
  IsAck :: bool
  IsEncrypted :: bool
  IsCompressed :: bool
  Payload :: bytes

definition IsDownlinkCommand :: "cmd_id \<Rightarrow> bool" where
  "IsDownlinkCommand cmd \<longleftrightarrow>
     cmd = CmdConfigPush \<or> cmd = CmdOtaData \<or> cmd = CmdActionExec \<or> cmd = CmdScreenWy"

definition CommandName :: "cmd_id \<Rightarrow> string" where
  "CommandName cmd =
     (if cmd = CmdConfigPush then ''config_push''
      else if cmd = CmdOtaData then ''ota_data''
      else if cmd = CmdActionExec then ''action_exec''
      else if cmd = CmdScreenWy then ''screen_wy''
      else if cmd = CmdHeartbeat then ''heartbeat''
      else if cmd = CmdMetricsReport then ''metrics''
      else if cmd = CmdLogReport then ''log''
      else if cmd = CmdEventReport then ''event''
      else if cmd = CmdErrorReport then ''error''
      else ''unknown'')"

definition CommandByOperation :: "string \<Rightarrow> cmd_id \<times> bool" where
  "CommandByOperation operation =
     (if operation \<in> set [''config_push'', ''config'', ''set_config''] then (CmdConfigPush, True)
      else if operation \<in> set [''ota_data'', ''ota''] then (CmdOtaData, True)
      else if operation \<in> set [''action_exec'', ''action'', ''exec''] then (CmdActionExec, True)
      else if operation \<in> set [''screen_wy'', ''screen''] then (CmdScreenWy, True)
      else (0, False))"

text \<open>A command chosen by operation name is a downlink command, and its own name selects it again.\<close>

lemma CommandByOperation_downlink:
  "CommandByOperation op = (cmd, True) \<Longrightarrow> IsDownlinkCommand cmd"
  by (auto simp: CommandByOperation_def IsDownlinkCommand_def split: if_splits)

lemma CommandByOperation_name:
  "IsDownlinkCommand cmd \<Longrightarrow> CommandByOperation (CommandName cmd) = (cmd, True)"
  by (auto simp: CommandByOperation_def IsDownlinkCommand_def CommandName_def cmd_defs)

lemma IsDownlinkCommand_nonzero: "IsDownlinkCommand cmd \<Longrightarrow> cmd \<noteq> 0"
  by (auto simp: IsDownlinkCommand_def cmd_defs)

end
