(* ===== verification/Crc.thy ===== *)
theory Crc
  imports Prelude
begin

text \<open>
  The two checksums of a frame: \<open>crc16Modbus\<close> of \<^verbatim>\<open>codec.go\<close>, and the IEEE CRC-32 of the
  standard library's \<^verbatim>\<open>hash/crc32\<close> in its bitwise form. Both steps are injective in the
  register, so a change of a single byte always changes the checksum.
\<close>

definition crc16_bit :: "16 word \<Rightarrow> 16 word" where
  "crc16_bit crc = (if crc AND 0x0001 \<noteq> 0 then drop_bit 1 crc XOR 0xA001 else drop_bit 1 crc)"

definition crc16_byte :: "16 word \<Rightarrow> byte \<Rightarrow> 16 word" where
  "crc16_byte crc b = (crc16_bit ^^ 8) (crc XOR ucast b)"

definition crc16Modbus :: "bytes \<Rightarrow> 16 word" where
  "crc16Modbus data = foldl crc16_byte 0xFFFF data"

definition crc32_bit :: "32 word \<Rightarrow> 32 word" where
  "crc32_bit crc = (if crc AND 1 \<noteq> 0 then drop_bit 1 crc XOR 0xEDB88320 else drop_bit 1 crc)"

definition crc32_byte :: "32 word \<Rightarrow> byte \<Rightarrow> 32 word" where
  "crc32_byte crc b = (crc32_bit ^^ 8) (crc XOR ucast b)"

definition crc32_ieee :: "bytes \<Rightarrow> 32 word" where
  "crc32_ieee data = NOT (foldl crc32_byte 0xFFFFFFFF data)"

section \<open>Single-byte changes are detected\<close>

text \<open>
  One bit step of a reflected CRC with polynomial \<open>p\<close>, any register width: injective as soon
  as the top bit of the polynomial is set, since the top bit of the result then tells whether
  the polynomial was added.
\<close>

definition crc_bit :: "'a::len word \<Rightarrow> 'a word \<Rightarrow> 'a word" where
  "crc_bit p x = (if x AND 1 \<noteq> 0 then drop_bit 1 x XOR p else drop_bit 1 x)"

lemma drop_bit_one_top: "\<not> bit (drop_bit 1 (x :: 'a::len word)) (LENGTH('a) - 1)"
  by (simp add: bit_drop_bit_eq bit_imp_le_length)

lemma and_one_nonzero: "(x :: 'a::len word) AND 1 \<noteq> 0 \<longleftrightarrow> odd x"
  by (simp add: and_one_eq even_iff_mod_2_eq_zero)

lemma xor_right_inj: "(x :: 'a::len word) XOR p = y XOR p \<Longrightarrow> x = y"
  by (metis xor.assoc xor.right_neutral xor_self_eq)

lemma crc_bit_top:
  fixes x p :: "'a::len word"
  assumes "bit p (LENGTH('a) - 1)"
  shows "bit (crc_bit p x) (LENGTH('a) - 1) \<longleftrightarrow> odd x"
  using assms drop_bit_one_top [of x]
  by (simp add: crc_bit_def and_one_nonzero bit_xor_iff)

lemma word_eq_odd_drop:
  fixes x y :: "'a::len word"
  assumes "odd x = odd y" and "drop_bit 1 x = drop_bit 1 y"
  shows "x = y"
proof (rule bit_word_eqI)
  fix n
  show "bit x n = bit y n"
  proof (cases n)
    case 0
    with assms(1) show ?thesis by (simp add: bit_0)
  next
    case (Suc m)
    from assms(2) have "bit (drop_bit 1 x) m = bit (drop_bit 1 y) m" by simp
    with Suc show ?thesis by (simp add: bit_drop_bit_eq)
  qed
qed

lemma crc_bit_inj:
  fixes p :: "'a::len word"
  assumes "bit p (LENGTH('a) - 1)"
  shows "inj (crc_bit p)"
proof (rule injI)
  fix x y :: "'a word"
  assume eq: "crc_bit p x = crc_bit p y"
  then have o: "odd x = odd y" using crc_bit_top [OF assms] by metis
  with eq have "drop_bit 1 x = drop_bit 1 y"
    by (auto simp: crc_bit_def and_one_nonzero dest: xor_right_inj split: if_splits)
  with o show "x = y" by (rule word_eq_odd_drop)
qed

lemma crc16_bit_inj: "inj crc16_bit"
proof -
  have "crc16_bit = crc_bit 0xA001" by (rule ext) (simp add: crc16_bit_def crc_bit_def)
  then show ?thesis using crc_bit_inj [of "0xA001 :: 16 word"] by simp
qed

lemma crc32_bit_inj: "inj crc32_bit"
proof -
  have "crc32_bit = crc_bit 0xEDB88320" by (rule ext) (simp add: crc32_bit_def crc_bit_def)
  then show ?thesis using crc_bit_inj [of "0xEDB88320 :: 32 word"] by simp
qed

lemma ucast_byte_inj16:
  assumes "(ucast (a :: byte) :: 16 word) = ucast b"
  shows "a = b"
proof (rule bit_word_eqI)
  fix n assume n: "n < LENGTH(8)"
  from assms have "bit (ucast a :: 16 word) n = bit (ucast b :: 16 word) n" by simp
  with n show "bit a n = bit b n" by (simp add: bit_ucast_iff)
qed

lemma ucast_byte_inj32:
  assumes "(ucast (a :: byte) :: 32 word) = ucast b"
  shows "a = b"
proof (rule bit_word_eqI)
  fix n assume n: "n < LENGTH(8)"
  from assms have "bit (ucast a :: 32 word) n = bit (ucast b :: 32 word) n" by simp
  with n show "bit a n = bit b n" by (simp add: bit_ucast_iff)
qed

lemma crc16_byte_inj_reg: "crc16_byte c b = crc16_byte d b \<Longrightarrow> c = d"
  unfolding crc16_byte_def
  by (drule injD [OF inj_fn [OF crc16_bit_inj]]) (rule xor_right_inj)

lemma crc16_byte_inj_byte: "crc16_byte c a = crc16_byte c b \<Longrightarrow> a = b"
  unfolding crc16_byte_def
  by (drule injD [OF inj_fn [OF crc16_bit_inj]])
     (metis ucast_byte_inj16 xor.commute xor_right_inj)

lemma crc32_byte_inj_reg: "crc32_byte c b = crc32_byte d b \<Longrightarrow> c = d"
  unfolding crc32_byte_def
  by (drule injD [OF inj_fn [OF crc32_bit_inj]]) (rule xor_right_inj)

lemma crc32_byte_inj_byte: "crc32_byte c a = crc32_byte c b \<Longrightarrow> a = b"
  unfolding crc32_byte_def
  by (drule injD [OF inj_fn [OF crc32_bit_inj]])
     (metis ucast_byte_inj32 xor.commute xor_right_inj)

lemma crc16_foldl_inj: "foldl crc16_byte c bs = foldl crc16_byte d bs \<Longrightarrow> c = d"
  by (induction bs arbitrary: c d) (auto dest: crc16_byte_inj_reg)

lemma crc32_foldl_inj: "foldl crc32_byte c bs = foldl crc32_byte d bs \<Longrightarrow> c = d"
  by (induction bs arbitrary: c d) (auto dest: crc32_byte_inj_reg)

lemma crc16_single_byte:
  "crc16Modbus (xs @ a # ys) = crc16Modbus (xs @ b # ys) \<longleftrightarrow> a = b"
  by (auto simp: crc16Modbus_def dest!: crc16_foldl_inj crc16_byte_inj_byte)

lemma crc32_single_byte:
  "crc32_ieee (xs @ a # ys) = crc32_ieee (xs @ b # ys) \<longleftrightarrow> a = b"
  by (auto simp: crc32_ieee_def dest!: crc32_foldl_inj crc32_byte_inj_byte)

text \<open>The published check values of the two checksums, on the digits 1 to 9.\<close>

lemma funpow_8: "(f ^^ 8) x = f (f (f (f (f (f (f (f x)))))))"
  by (simp add: numeral_eq_Suc)

lemma crc16_check: "crc16Modbus [0x31, 0x32, 0x33, 0x34, 0x35, 0x36, 0x37, 0x38, 0x39] = 0x4B37"
  by (simp add: crc16Modbus_def crc16_byte_def funpow_8 crc16_bit_def)

lemma crc32_check: "crc32_ieee [0x31, 0x32, 0x33, 0x34, 0x35, 0x36, 0x37, 0x38, 0x39] = 0xCBF43926"
  by (simp add: crc32_ieee_def crc32_byte_def funpow_8 crc32_bit_def)

end
