(* ===== verification/Codec.thy ===== *)
theory Codec
  imports GosterTypes Crc Crypto
begin

text \<open>
  \<^verbatim>\<open>gosterwy/codec.go\<close>: packing a payload into a frame of header (32 bytes), payload and footer
  (16 bytes), and unpacking a frame from a reader. A reader is the list of bytes not yet
  read. A nil session key is \<open>None\<close>.
\<close>

section \<open>Pack\<close>

definition nonceDirection :: "cmd_id \<Rightarrow> bool \<Rightarrow> byte" where
  "nonceDirection cmd isAck =
     (if cmd \<in> set [CmdHandshakeInit, CmdAuthVerify, CmdDeviceRegister, CmdKeyExchangeUplink]
      then 0x01
      else if cmd \<in> set [CmdHandshakeResp, CmdAuthAck, CmdKeyExchangeDownlink] then 0x02
      else if cmd \<in> set [CmdMetricsReport, CmdLogReport, CmdEventReport, CmdHeartbeat,
                         CmdErrorReport]
      then (if isAck then 0x02 else 0x01)
      else if cmd \<in> set [CmdConfigPush, CmdOtaData, CmdActionExec, CmdScreenWy]
      then (if isAck then 0x01 else 0x02)
      else if isAck then 0x02 else 0x01)"

definition frame_flags :: "bool \<Rightarrow> bool \<Rightarrow> byte" where
  "frame_flags isAck isEncrypted =
     (if isAck then 0x01 else 0) OR (if isEncrypted then 0x02 else 0)"

text \<open>Bytes 16 to 27: the direction byte, three zero bytes, the sequence number.\<close>

definition frame_nonce :: "cmd_id \<Rightarrow> bool \<Rightarrow> 64 word \<Rightarrow> bytes" where
  "frame_nonce cmd isAck seqNonce = nonceDirection cmd isAck # [0, 0, 0] @ put_u64 seqNonce"

text \<open>Bytes 0 to 27: the part of the header that the checksum and the GCM tag cover.\<close>

definition header_prefix ::
    "nat \<Rightarrow> cmd_id \<Rightarrow> 32 word \<Rightarrow> bool \<Rightarrow> 64 word \<Rightarrow> bool \<Rightarrow> bytes" where
  "header_prefix payloadLen cmd keyID isEncrypted seqNonce isAck =
     put_u16 MagicNumber @ [ProtocolVersion, frame_flags isAck isEncrypted] @ put_u16 0 @
     put_u16 cmd @ put_u32 keyID @ put_u32 (word_of_nat payloadLen) @
     frame_nonce cmd isAck seqNonce"

definition header_bytes ::
    "nat \<Rightarrow> cmd_id \<Rightarrow> 32 word \<Rightarrow> bool \<Rightarrow> 64 word \<Rightarrow> bool \<Rightarrow> bytes" where
  "header_bytes payloadLen cmd keyID isEncrypted seqNonce isAck =
     (let p = header_prefix payloadLen cmd keyID isEncrypted seqNonce isAck
      in p @ put_u16 (crc16Modbus p) @ [0, 0])"

definition Pack ::
    "crypto \<Rightarrow> bytes \<Rightarrow> cmd_id \<Rightarrow> 32 word \<Rightarrow> bytes option \<Rightarrow> 64 word \<Rightarrow> bool \<Rightarrow> bytes result" where
  "Pack C payload cmd keyID sessionKey seqNonce isAck =
     (if length payload > MaxPayloadSize then Inl (ErrText ''payload too large'')
      else
        let totalSize = HeaderSize + length payload + FooterSize;
            isEncrypted = (sessionKey \<noteq> None \<and> keyID \<noteq> 0);
            buf = header_bytes (length payload) cmd keyID isEncrypted seqNonce isAck
        in if isEncrypted then
             (if \<not> aes_key_ok (the sessionKey) then Inl (ErrText ''aes init'')
              else
                let out = buf @ gcm_seal C (the sessionKey) (frame_nonce cmd isAck seqNonce)
                                  payload (take 28 buf)
                in if length out \<noteq> totalSize then Inl (ErrText ''sealed size'') else Inr out)
           else
             let body = buf @ payload
             in Inr (body @ put_u32 (crc32_ieee body) @ replicate 12 0))"

section \<open>Unpack\<close>

text \<open>\<open>io.ReadFull\<close>: EOF when nothing was read, an unexpected EOF when the data ends early.\<close>

definition ReadFull :: "nat \<Rightarrow> bytes \<Rightarrow> bytes result \<times> bytes" where
  "ReadFull n r =
     (if n \<le> length r then (Inr (take n r), drop n r)
      else if r = [] then (Inl ErrEOF, []) else (Inl ErrUnexpectedEOF, []))"

definition Unpack :: "crypto \<Rightarrow> bytes \<Rightarrow> bytes option \<Rightarrow> packet result \<times> bytes" where
  "Unpack C r key =
     (case ReadFull HeaderSize r of
        (Inl e, r1) \<Rightarrow> (Inl e, r1)
      | (Inr h, r1) \<Rightarrow>
          if get_u16 h 0 \<noteq> MagicNumber then (Inl (ErrText ''bad magic''), r1)
          else if get_u16 h 28 \<noteq> crc16Modbus (take 28 h) then (Inl (ErrText ''header crc''), r1)
          else
            let flags = h ! 3;
                len = get_u32 h 12
            in if unat len > MaxPayloadSize then (Inl (ErrText ''payload too large''), r1)
               else (case ReadFull (unat len + FooterSize) r1 of
                  (Inl e, r2) \<Rightarrow> (Inl e, r2)
                | (Inr body, r2) \<Rightarrow>
                    let pkt = (\<lambda>p. \<lparr>CmdID = get_u16 h 6, KeyID = get_u32 h 8,
                                   Sequence = get_u64 h 20,
                                   IsAck = (flags AND 0x01 \<noteq> 0),
                                   IsEncrypted = (flags AND 0x02 \<noteq> 0),
                                   IsCompressed = (flags AND 0x04 \<noteq> 0), Payload = p\<rparr>)
                    in if flags AND 0x02 \<noteq> 0 then
                         (case key of
                            None \<Rightarrow> (Inl (ErrText ''no session key''), r2)
                          | Some k \<Rightarrow>
                              if \<not> aes_key_ok k then (Inl (ErrText ''aes init''), r2)
                              else (case gcm_open C k (take 12 (drop 16 h)) body (take 28 h) of
                                      None \<Rightarrow> (Inl (ErrText ''decrypt''), r2)
                                    | Some p \<Rightarrow> (Inr (pkt p), r2)))
                       else if crc32_ieee (h @ take (unat len) body) \<noteq> get_u32 (drop (unat len) body) 0
                       then (Inl (ErrText ''payload crc''), r2)
                       else (Inr (pkt (take (unat len) body)), r2)))"

section \<open>Layout lemmas\<close>

lemma length_frame_nonce [simp]: "length (frame_nonce cmd a s) = 12"
  by (simp add: frame_nonce_def)

lemma length_header_prefix [simp]: "length (header_prefix n cmd k e s a) = 28"
  by (simp add: header_prefix_def)

lemma length_header_bytes [simp]: "length (header_bytes n cmd k e s a) = 32"
  by (simp add: header_bytes_def Let_def)

lemma take_28_header [simp]:
  "take 28 (header_bytes n cmd k e s a) = header_prefix n cmd k e s a"
  by (simp add: header_bytes_def Let_def)

lemma header_crc [simp]:
  "get_u16 (header_bytes n cmd k e s a) 28 = crc16Modbus (header_prefix n cmd k e s a)"
  by (rule get_put_u16) (simp add: header_bytes_def Let_def)

lemma header_fields:
  "get_u16 (header_bytes n cmd k e s a) 0 = MagicNumber"
  "header_bytes n cmd k e s a ! 3 = frame_flags a e"
  "get_u16 (header_bytes n cmd k e s a) 6 = cmd"
  "get_u32 (header_bytes n cmd k e s a) 8 = k"
  "get_u32 (header_bytes n cmd k e s a) 12 = word_of_nat n"
  "get_u64 (header_bytes n cmd k e s a) 20 = s"
  "take 12 (drop 16 (header_bytes n cmd k e s a)) = frame_nonce cmd a s"
proof -
  have h: "header_bytes n cmd k e s a =
      put_u16 MagicNumber @ [ProtocolVersion, frame_flags a e] @ put_u16 0 @ put_u16 cmd @
      put_u32 k @ put_u32 (word_of_nat n) @ (nonceDirection cmd a # [0, 0, 0]) @ put_u64 s @
      put_u16 (crc16Modbus (header_prefix n cmd k e s a)) @ [0, 0]"
    by (simp add: header_bytes_def header_prefix_def frame_nonce_def Let_def)
  show "get_u16 (header_bytes n cmd k e s a) 0 = MagicNumber"
    by (rule get_put_u16) (simp add: h)
  show "header_bytes n cmd k e s a ! 3 = frame_flags a e"
    by (simp add: h nth_append)
  show "get_u16 (header_bytes n cmd k e s a) 6 = cmd"
    by (rule get_put_u16) (simp add: h)
  show "get_u32 (header_bytes n cmd k e s a) 8 = k"
    by (rule get_put_u32) (simp add: h)
  show "get_u32 (header_bytes n cmd k e s a) 12 = word_of_nat n"
    by (rule get_put_u32) (simp add: h)
  show "get_u64 (header_bytes n cmd k e s a) 20 = s"
    by (rule get_put_u64) (simp add: h)
  show "take 12 (drop 16 (header_bytes n cmd k e s a)) = frame_nonce cmd a s"
    by (simp add: h frame_nonce_def)
qed

lemma frame_flags_bits [simp]:
  "frame_flags a e AND 0x01 = 0 \<longleftrightarrow> \<not> a"
  "frame_flags a e AND 0x02 = 0 \<longleftrightarrow> \<not> e"
  "frame_flags a e AND 0x04 = 0"
  by (simp_all add: frame_flags_def)

section \<open>Round trip\<close>

lemma ReadFull_exact [simp]: "length x = n \<Longrightarrow> ReadFull n (x @ r) = (Inr x, r)"
  by (simp add: ReadFull_def)

lemma word32_small: "n \<le> MaxPayloadSize \<Longrightarrow> unat (word_of_nat n :: 32 word) = n"
  by (simp add: MaxPayloadSize_def unsigned_of_nat take_bit_eq_mod)

lemma take_4_put_u32 [simp]: "get_u32 (put_u32 w @ x) 0 = w"
  by (rule get_put_u32) simp

lemma Pack_plain:
  assumes "length p \<le> MaxPayloadSize" and "\<not> (key \<noteq> None \<and> k \<noteq> 0)"
  shows "Pack C p cmd k key seq ack =
    (let h = header_bytes (length p) cmd k False seq ack
     in Inr (h @ p @ put_u32 (crc32_ieee (h @ p)) @ replicate 12 0))"
  using assms by (auto simp: Pack_def Let_def not_less)

lemma Pack_sealed:
  assumes "crypto_ok C" and "length p \<le> MaxPayloadSize" and "k \<noteq> 0" and "aes_key_ok key"
  shows "Pack C p cmd k (Some key) seq ack =
    (let h = header_bytes (length p) cmd k True seq ack
     in Inr (h @ gcm_seal C key (frame_nonce cmd ack seq) p (take 28 h)))"
  using assms by (simp add: Pack_def Let_def not_less crypto_okD HeaderSize_def FooterSize_def)

lemma Pack_cases:
  assumes "crypto_ok C" and "Pack C p cmd k key seq ack = Inr f"
  obtains (plain) "length p \<le> MaxPayloadSize" "\<not> (key \<noteq> None \<and> k \<noteq> 0)"
      "f = header_bytes (length p) cmd k False seq ack @ p @
           put_u32 (crc32_ieee (header_bytes (length p) cmd k False seq ack @ p)) @ replicate 12 0"
  | (sealed) sk where "length p \<le> MaxPayloadSize" "key = Some sk" "k \<noteq> 0" "aes_key_ok sk"
      "f = header_bytes (length p) cmd k True seq ack @
           gcm_seal C sk (frame_nonce cmd ack seq) p (header_prefix (length p) cmd k True seq ack)"
proof -
  have len: "length p \<le> MaxPayloadSize"
    using assms(2) by (auto simp: Pack_def split: if_splits)
  show thesis
  proof (cases "key \<noteq> None \<and> k \<noteq> 0")
    case False
    with assms(2) len show ?thesis
      by (intro plain) (simp_all add: Pack_plain [OF len False] Let_def)
  next
    case True
    then obtain sk where sk: "key = Some sk" "k \<noteq> 0" by auto
    have ok: "aes_key_ok sk"
      using assms(2) sk len by (auto simp: Pack_def Let_def split: if_splits)
    show ?thesis
      using assms(2) sk(1)
      by (intro sealed [OF len sk ok]) (simp add: Pack_sealed [OF assms(1) len sk(2) ok] Let_def)
  qed
qed

lemma Unpack_Pack:
  assumes C: "crypto_ok C" and pk: "Pack C p cmd k key seq ack = Inr f"
    and key': "key \<noteq> None \<Longrightarrow> k \<noteq> 0 \<Longrightarrow> key' = key"
  shows "Unpack C (f @ rest) key' =
    (Inr \<lparr>CmdID = cmd, KeyID = k, Sequence = seq, IsAck = ack,
          IsEncrypted = (key \<noteq> None \<and> k \<noteq> 0), IsCompressed = False, Payload = p\<rparr>, rest)"
  using C pk
proof (cases rule: Pack_cases)
  case plain
  let ?h = "header_bytes (length p) cmd k False seq ack"
  let ?ft = "put_u32 (crc32_ieee (?h @ p)) @ replicate 12 0"
  have f: "f @ rest = ?h @ ((p @ ?ft) @ rest)" by (simp add: plain(3))
  have b: "ReadFull (length p + 16) ((p @ ?ft) @ rest) = (Inr (p @ ?ft), rest)"
    by (rule ReadFull_exact) simp
  show ?thesis unfolding f using plain(1,2) b
    by (simp add: Unpack_def HeaderSize_def FooterSize_def header_fields Let_def word32_small)
next
  case (sealed sk)
  let ?h = "header_bytes (length p) cmd k True seq ack"
  let ?c = "gcm_seal C sk (frame_nonce cmd ack seq) p (header_prefix (length p) cmd k True seq ack)"
  have f: "f @ rest = ?h @ (?c @ rest)" by (simp add: sealed(5))
  have b: "ReadFull (length p + 16) (?c @ rest) = (Inr ?c, rest)"
    by (rule ReadFull_exact) (simp add: crypto_okD(3) [OF C])
  show ?thesis unfolding f using sealed(1-4) b key'
    by (simp add: Unpack_def HeaderSize_def FooterSize_def header_fields Let_def word32_small
        crypto_okD(4) [OF C])
qed

section \<open>Corruption\<close>

lemma Unpack_bad_header:
  assumes "length h = 32" and "get_u16 h 28 \<noteq> crc16Modbus (take 28 h)"
  shows "\<exists>e. Unpack C (h @ r) key = (Inl e, r)"
  using assms by (simp add: Unpack_def HeaderSize_def)

lemma Unpack_bad_crc32:
  assumes "length h = 32" and "h ! 3 AND 0x02 = 0" and "unat (get_u32 h 12) = n"
    and "length body = n + 16" and "crc32_ieee (h @ take n body) \<noteq> get_u32 (drop n body) 0"
  shows "\<exists>e s. Unpack C (h @ body @ r) key = (Inl e, s)"
  using assms by (simp add: Unpack_def HeaderSize_def FooterSize_def Let_def)

lemma list_update_split:
  "i < length xs \<Longrightarrow> xs[i := b] = take i xs @ b # drop (Suc i) xs"
  by (simp add: upd_conv_take_nth_drop)

lemma crc16_update:
  "i < length xs \<Longrightarrow> b \<noteq> xs ! i \<Longrightarrow> crc16Modbus (xs[i := b]) \<noteq> crc16Modbus xs"
  using crc16_single_byte [of "take i xs" b "drop (Suc i) xs" "xs ! i"]
  by (simp add: list_update_split id_take_nth_drop [symmetric])

lemma crc32_update:
  "i < length xs \<Longrightarrow> b \<noteq> xs ! i \<Longrightarrow> crc32_ieee (xs[i := b]) \<noteq> crc32_ieee xs"
  using crc32_single_byte [of "take i xs" b "drop (Suc i) xs" "xs ! i"]
  by (simp add: list_update_split id_take_nth_drop [symmetric])

lemma get_u32_update:
  assumes "i < 4" and "b \<noteq> put_u32 w ! i"
  shows "get_u32 ((put_u32 w)[i := b] @ x) 0 \<noteq> w"
proof
  let ?z = "(put_u32 w)[i := b]"
  assume w: "get_u32 (?z @ x) 0 = w"
  have "get_le ?z < 2 ^ 32" using get_le_bound [of ?z] by simp
  then have "unat (word_of_nat (get_le ?z) :: 32 word) = get_le ?z"
    by (simp add: unsigned_of_nat take_bit_eq_mod)
  with w have "unat w = get_le ?z" by (simp add: get_u32_def)
  then have "put_u32 w = ?z"
    using put_get_le [of ?z] by (simp add: put_u32_def)
  then have "put_u32 w ! i = b"
    using assms(1) by (metis length_put_u(2) nth_list_update_eq)
  with assms(2) show False by simp
qed

lemma get_u16_update:
  assumes "i < 2" and "b \<noteq> put_u16 w ! i"
  shows "get_u16 ((put_u16 w)[i := b] @ x) 0 \<noteq> w"
proof
  let ?z = "(put_u16 w)[i := b]"
  assume w: "get_u16 (?z @ x) 0 = w"
  have "get_le ?z < 2 ^ 16" using get_le_bound [of ?z] by simp
  then have "unat (word_of_nat (get_le ?z) :: 16 word) = get_le ?z"
    by (simp add: unsigned_of_nat take_bit_eq_mod)
  with w have "unat w = get_le ?z" by (simp add: get_u16_def)
  then have "put_u16 w = ?z"
    using put_get_le [of ?z] by (simp add: put_u16_def)
  then have "put_u16 w ! i = b"
    using assms(1) by (metis length_put_u(1) nth_list_update_eq)
  with assms(2) show False by simp
qed

lemma header_update_low:
  assumes "i < 30" and "b \<noteq> header_bytes n cmd k e s a ! i"
  shows "get_u16 ((header_bytes n cmd k e s a)[i := b]) 28 \<noteq>
         crc16Modbus (take 28 ((header_bytes n cmd k e s a)[i := b]))"
proof -
  define p where "p = header_prefix n cmd k e s a"
  have p: "length p = 28" by (simp add: p_def)
  have h: "header_bytes n cmd k e s a = p @ put_u16 (crc16Modbus p) @ [0, 0]"
    by (simp add: header_bytes_def p_def Let_def)
  show ?thesis
  proof (cases "i < 28")
    case True
    then have upd: "(header_bytes n cmd k e s a)[i := b] =
        p[i := b] @ put_u16 (crc16Modbus p) @ [0, 0]"
      by (simp add: h p list_update_append)
    have "get_u16 (p[i := b] @ put_u16 (crc16Modbus p) @ [0, 0]) 28 = crc16Modbus p"
      by (rule get_put_u16) (simp add: p)
    moreover have "b \<noteq> p ! i" using assms(2) True by (simp add: h p nth_append)
    ultimately show ?thesis
      using crc16_update [of i p b] True by (simp add: upd p)
  next
    case False
    define j where "j = i - 28"
    have j: "i = 28 + j" "j < 2" using False assms(1) by (auto simp: j_def)
    then have upd: "(header_bytes n cmd k e s a)[i := b] =
        p @ (put_u16 (crc16Modbus p))[j := b] @ [0, 0]"
      by (simp add: h p list_update_append)
    have "b \<noteq> put_u16 (crc16Modbus p) ! j"
      using assms(2) j by (simp add: h p nth_append)
    then show ?thesis
      using get_u16_update [OF j(2), of b "crc16Modbus p" "[0, 0]"]
      by (simp add: upd p get_u16_def)
  qed
qed

lemma Unpack_plain_corrupted:
  assumes C: "crypto_ok C" and pk: "Pack C p cmd k key seq ack = Inr f"
    and plain: "\<not> (key \<noteq> None \<and> k \<noteq> 0)"
    and i: "i < HeaderSize + length p + 4" and b: "b \<noteq> f ! i"
  shows "\<exists>e s. Unpack C (f[i := b] @ rest) key' = (Inl e, s)"
proof -
  define h where "h = header_bytes (length p) cmd k False seq ack"
  define c where "c = crc32_ieee (h @ p)"
  have len: "length p \<le> MaxPayloadSize"
    using pk by (auto simp: Pack_def split: if_splits)
  have f: "f = h @ (p @ put_u32 c @ replicate 12 0)"
    using pk by (simp add: Pack_plain [OF len plain] Let_def h_def c_def)
  have h: "length h = 32" by (simp add: h_def)
  consider "i < 30" | "30 \<le> i" "i < 32" | "32 \<le> i" "i < 32 + length p"
    | "32 + length p \<le> i" using i by linarith
  then show ?thesis
  proof cases
    case 1
    then have "f[i := b] @ rest = h[i := b] @ (p @ put_u32 c @ replicate 12 0 @ rest)"
      by (simp add: f h list_update_append)
    moreover have "b \<noteq> h ! i" using b 1 by (simp add: f h nth_append)
    ultimately show ?thesis
      using Unpack_bad_header [OF _ header_update_low [OF 1, of b], of "length p" cmd k False seq ack]
      by (metis h h_def length_list_update)
  next
    case 2
    have fl: "h[i := b] ! 3 = h ! 3" and ln: "get_u32 (h[i := b]) 12 = get_u32 h 12"
      using 2 by (simp_all add: get_u32_def drop_update_swap)
    have "b \<noteq> h ! i" using b 2 by (simp add: f h nth_append)
    then have "crc32_ieee ((h @ p)[i := b]) \<noteq> c"
      using crc32_update [of i "h @ p" b] 2 h by (simp add: c_def nth_append)
    then have "crc32_ieee (h[i := b] @ p) \<noteq> c"
      using 2 h by (simp add: list_update_append)
    then show ?thesis
      using Unpack_bad_crc32 [of "h[i := b]" "length p" "p @ put_u32 c @ replicate 12 0" C rest key']
        h fl ln len 2
      by (simp add: f list_update_append h_def header_fields word32_small)
  next
    case 3
    define j where "j = i - 32"
    have j: "i = 32 + j" "j < length p" using 3 by (auto simp: j_def)
    have "b \<noteq> p ! j" using b j by (simp add: f h nth_append)
    then have "crc32_ieee ((h @ p)[i := b]) \<noteq> c"
      using crc32_update [of i "h @ p" b] j h by (simp add: c_def nth_append)
    then have "crc32_ieee (h @ p[j := b]) \<noteq> c"
      using j h by (simp add: list_update_append)
    then show ?thesis
      using Unpack_bad_crc32 [of h "length p" "p[j := b] @ put_u32 c @ replicate 12 0" C rest key']
        h len j
      by (simp add: f list_update_append h_def header_fields word32_small)
  next
    case 4
    define j where "j = i - 32 - length p"
    have j: "i = 32 + (length p + j)" "j < 4"
      using 4 i by (auto simp: j_def HeaderSize_def)
    have "b \<noteq> put_u32 c ! j" using b j by (simp add: f h nth_append)
    then have "get_u32 ((put_u32 c)[j := b] @ replicate 12 0) 0 \<noteq> c"
      using get_u32_update [OF j(2)] by blast
    then show ?thesis
      using Unpack_bad_crc32 [of h "length p" "p @ (put_u32 c)[j := b] @ replicate 12 0" C rest key']
        h len j
      by (simp add: f list_update_append h_def header_fields word32_small c_def)
  qed
qed

section \<open>Bounds\<close>

lemma Pack_length:
  assumes "crypto_ok C" and "Pack C p cmd k key seq ack = Inr f"
  shows "length p \<le> MaxPayloadSize \<and> length f = HeaderSize + length p + FooterSize"
  using assms
  by (cases rule: Pack_cases) (simp_all add: HeaderSize_def FooterSize_def crypto_okD(3) [OF assms(1)])

lemma Pack_result:
  "crypto_ok C \<Longrightarrow>
   (\<exists>f. Pack C p cmd k key seq ack = Inr f) \<longleftrightarrow>
   length p \<le> MaxPayloadSize \<and> (key = None \<or> k = 0 \<or> aes_key_ok (the key))"
  by (cases "key \<noteq> None \<and> k \<noteq> 0")
     (auto simp: Pack_def Let_def crypto_okD HeaderSize_def FooterSize_def)

lemma ReadFull_rest: "ReadFull n r = (x, r') \<Longrightarrow> length r \<le> length r' + n \<and> (\<exists>p. r = p @ r')"
  by (auto simp: ReadFull_def split: if_splits intro: exI [of _ "take n r"] exI [of _ r])

lemma Unpack_rest:
  assumes "Unpack C r key = (x, r')"
  shows "(\<exists>p. r = p @ r') \<and> length r \<le> length r' + (HeaderSize + MaxPayloadSize + FooterSize)"
proof -
  obtain x1 r1 where r1: "ReadFull HeaderSize r = (x1, r1)" by (cases "ReadFull HeaderSize r") auto
  from ReadFull_rest [OF r1] obtain p1 where p1: "r = p1 @ r1" "length r \<le> length r1 + HeaderSize"
    by blast
  show ?thesis
  proof (cases "r1 = r'")
    case True
    with p1 show ?thesis by auto
  next
    case False
    then obtain h where h: "x1 = Inr h" using assms r1 by (cases x1) (auto simp: Unpack_def)
    let ?n = "unat (get_u32 h 12)"
    obtain x2 r2 where r2: "ReadFull (?n + FooterSize) r1 = (x2, r2)"
      by (cases "ReadFull (?n + FooterSize) r1") auto
    from assms False have "?n \<le> MaxPayloadSize" and "r2 = r'"
      by (auto simp: Unpack_def r1 h r2 Let_def split: if_splits sum.splits option.splits)
    with ReadFull_rest [OF r2] p1 show ?thesis by auto
  qed
qed

lemma ReadFull_short: "length r < n \<Longrightarrow> \<exists>e \<in> {ErrEOF, ErrUnexpectedEOF}. ReadFull n r = (Inl e, [])"
  by (simp add: ReadFull_def)

lemma Unpack_truncated:
  assumes C: "crypto_ok C" and pk: "Pack C p cmd k key seq ack = Inr f" and n: "n < length f"
  shows "\<exists>e \<in> {ErrEOF, ErrUnexpectedEOF}. Unpack C (take n f) key' = (Inl e, [])"
proof (cases "n < HeaderSize")
  case True
  then obtain e where "ReadFull HeaderSize (take n f) = (Inl e, [])" "e \<in> {ErrEOF, ErrUnexpectedEOF}"
    using ReadFull_short [of "take n f" HeaderSize] n by auto
  then show ?thesis by (auto simp: Unpack_def)
next
  case False
  note len = Pack_length [OF C pk]
  obtain e' where "take 32 f = header_bytes (length p) cmd k e' seq ack"
    using C pk by (cases rule: Pack_cases) auto
  moreover define h where "h = header_bytes (length p) cmd k e' seq ack"
  ultimately have "take n f = h @ take (n - 32) (drop 32 f)"
    using False by (metis HeaderSize_def add_diff_inverse_nat take_add)
  moreover have "length h = HeaderSize" by (simp add: h_def HeaderSize_def)
  ultimately have r1: "ReadFull HeaderSize (take n f) = (Inr h, take (n - 32) (drop 32 f))"
    by simp
  have "length (take (n - 32) (drop 32 f)) < length p + FooterSize"
    using n len False by (auto simp: HeaderSize_def)
  then obtain e where "ReadFull (length p + FooterSize) (take (n - 32) (drop 32 f)) = (Inl e, [])"
      "e \<in> {ErrEOF, ErrUnexpectedEOF}"
    using ReadFull_short by blast
  then show ?thesis
    using len by (auto simp: Unpack_def r1 h_def header_fields Let_def word32_small)
qed

section \<open>Properties\<close>

text \<open>C19: A frame that Pack builds is read back by Unpack with the same command, key number,
  sequence number, acknowledgement flag and payload, encrypted exactly when a session key and a
  nonzero key number were given, and the reader is left at the first byte after the frame.\<close>

theorem frame_roundtrip:
  assumes "crypto_ok C" and "Pack C payload cmd k key seq ack = Inr f"
    and "key \<noteq> None \<Longrightarrow> k \<noteq> 0 \<Longrightarrow> key' = key"
  shows "Unpack C (f @ rest) key' =
    (Inr \<lparr>CmdID = cmd, KeyID = k, Sequence = seq, IsAck = ack,
          IsEncrypted = (key \<noteq> None \<and> k \<noteq> 0), IsCompressed = False, Payload = payload\<rparr>, rest)"
  using assms by (rule Unpack_Pack)

theorem frame_roundtrip_witness:
  "\<exists>f. Pack toy_crypto [1, 2] CmdHeartbeat 5 (Some (replicate 16 3)) 7 False = Inr f \<and>
       Unpack toy_crypto (f @ [9]) (Some (replicate 16 3)) =
         (Inr \<lparr>CmdID = CmdHeartbeat, KeyID = 5, Sequence = 7, IsAck = False, IsEncrypted = True,
               IsCompressed = False, Payload = [1, 2]\<rparr>, [9])"
proof -
  have "\<exists>f. Pack toy_crypto [1, 2] CmdHeartbeat 5 (Some (replicate 16 3)) 7 False = Inr f"
    by (subst Pack_result) (simp_all add: toy_crypto_ok aes_key_ok_def MaxPayloadSize_def)
  then show ?thesis
    using frame_roundtrip [OF toy_crypto_ok, of "[1, 2]" CmdHeartbeat 5 "Some (replicate 16 3)" 7
        False _ "Some (replicate 16 3)" "[9]"] by fastforce
qed

text \<open>C20: Changing any single byte of the header fields, of the payload or of the checksum of a
  plaintext frame makes Unpack return an error instead of a packet, whatever session key the
  reader holds.\<close>

theorem frame_corruption_detected:
  assumes "crypto_ok C" and "Pack C payload cmd k key seq ack = Inr f"
    and "\<not> (key \<noteq> None \<and> k \<noteq> 0)"
    and "i < HeaderSize + length payload + 4" and "b \<noteq> f ! i"
  shows "\<exists>e s. Unpack C (f[i := b] @ rest) key' = (Inl e, s)"
  using assms by (rule Unpack_plain_corrupted)

theorem frame_corruption_detected_witness:
  "\<exists>f. Pack toy_crypto [1] CmdHeartbeat 0 None 7 False = Inr f \<and>
       (\<exists>e s. Unpack toy_crypto (f[32 := f ! 32 + 1]) None = (Inl e, s))"
proof -
  obtain f where f: "Pack toy_crypto [1] CmdHeartbeat 0 None 7 False = Inr f"
    using Pack_result [OF toy_crypto_ok, of "[1]" CmdHeartbeat 0 None 7 False]
    by (auto simp: MaxPayloadSize_def)
  show ?thesis
    using frame_corruption_detected [OF toy_crypto_ok f, of 32 "f ! 32 + 1" "[]" None] f
    by (simp add: HeaderSize_def)
qed

text \<open>A frame cut off at any point is never taken for a packet: Unpack reports the end of
  the stream, EOF or an unexpected EOF.\<close>

theorem frame_truncation_detected:
  assumes "crypto_ok C" and "Pack C payload cmd k key seq ack = Inr f" and "n < length f"
  shows "\<exists>e. e \<in> {ErrEOF, ErrUnexpectedEOF} \<and> Unpack C (take n f) key' = (Inl e, [])"
  using Unpack_truncated [OF assms] by auto

theorem frame_truncation_detected_witness:
  "\<exists>f. Pack toy_crypto [1] CmdHeartbeat 0 None 7 False = Inr f \<and>
       (\<exists>e. e \<in> {ErrEOF, ErrUnexpectedEOF} \<and> Unpack toy_crypto (take 40 f) None = (Inl e, []))"
proof -
  obtain f where f: "Pack toy_crypto [1] CmdHeartbeat 0 None 7 False = Inr f"
    using Pack_result [OF toy_crypto_ok, of "[1]" CmdHeartbeat 0 None 7 False]
    by (auto simp: MaxPayloadSize_def)
  have "40 < length f" using Pack_length [OF toy_crypto_ok f]
    by (simp add: HeaderSize_def FooterSize_def)
  from frame_truncation_detected [OF toy_crypto_ok f this, of None] f show ?thesis by blast
qed

text \<open>Pack succeeds exactly on payloads of at most 64 KiB whose session key, when one is used,
  is a valid AES key, and the frame then has 48 bytes more than the payload; Unpack consumes a
  prefix of its input no longer than the largest frame, whatever the input is.\<close>

theorem frame_bounds:
  assumes "crypto_ok C"
  shows "((\<exists>f. Pack C payload cmd k key seq ack = Inr f) \<longleftrightarrow>
           length payload \<le> MaxPayloadSize \<and> (key = None \<or> k = 0 \<or> aes_key_ok (the key))) \<and>
         (\<forall>f. Pack C payload cmd k key seq ack = Inr f \<longrightarrow> length f = length payload + 48) \<and>
         (\<exists>p x s. Unpack C r key' = (x, s) \<and> r = p @ s \<and> length p \<le> MaxPayloadSize + 48)"
proof -
  obtain x s where xs: "Unpack C r key' = (x, s)" by (cases "Unpack C r key'") auto
  from Unpack_rest [OF this] obtain p where "r = p @ s" "length p \<le> MaxPayloadSize + 48"
    by (auto simp: HeaderSize_def FooterSize_def)
  with xs have "\<exists>p x s. Unpack C r key' = (x, s) \<and> r = p @ s \<and> length p \<le> MaxPayloadSize + 48"
    by blast
  then show ?thesis
    using Pack_result [OF assms] Pack_length [OF assms] by (auto simp: HeaderSize_def FooterSize_def)
qed

theorem frame_bounds_witness:
  "\<exists>f. Pack toy_crypto [1, 2, 3] CmdHeartbeat 0 None 7 True = Inr f \<and> length f = 51"
  using frame_bounds [OF toy_crypto_ok, of "[1, 2, 3]" CmdHeartbeat 0 None 7 True "[]" None]
  by (auto simp: MaxPayloadSize_def)

end
