(* ===== verification/Payload.thy ===== *)
theory Payload
  imports AdapterTypes GosterTypes
begin

text \<open>
  \<^verbatim>\<open>gosterwy/payload.go\<close>: the payloads of registration, metrics and log frames. An
  \<open>int64\<close> is a 64-bit word read with \<open>sint\<close>; its arithmetic wraps.
\<close>

definition record_separator :: char where "record_separator = CHR 0x1E"

definition ParseRegistrationPayload :: "string \<Rightarrow> device_descriptor result" where
  "ParseRegistrationPayload payload =
     (let parts = Split record_separator payload
      in if length parts < 6 then Inl (ErrText ''registration payload invalid'')
         else Inr (no_descriptor
           \<lparr>dd_Name := parts ! 0, dd_SerialNumber := parts ! 1, dd_MACAddress := parts ! 2,
            dd_HardwareVersion := parts ! 3, dd_SoftwareVersion := parts ! 4,
            dd_ConfigVersion := parts ! 5,
            dd_Identities :=
              [\<lparr>id_Type = ''serial_number'', id_Value = parts ! 1, id_Issuer = []\<rparr>,
               \<lparr>id_Type = ''mac'', id_Value = parts ! 2, id_Issuer = []\<rparr>],
            dd_Labels := [(''adapter_protocol'', ''goster-wy'')]\<rparr>))"

definition degree_celsius :: string where
  "degree_celsius = [CHR 0xC2, CHR 0xB0, CHR ''C'']"

definition legacyMetricName :: "byte \<Rightarrow> string \<times> string \<times> bool" where
  "legacyMetricName dataType =
     (if dataType = 1 then (''temperature'', degree_celsius, True)
      else if dataType = 2 then (''humidity'', ''%'', True)
      else if dataType = 4 then (''illuminance'', ''lx'', True)
      else if dataType = 8 then (''access_signal_a'', [], True)
      else if dataType = 16 then (''access_signal_b'', [], True)
      else ([], [], False))"

definition logLevel :: "byte \<Rightarrow> string" where
  "logLevel level =
     (if level = 0 then ''debug'' else if level = 1 then ''info'' else if level = 2 then ''warn''
      else if level = 3 then ''error'' else ''info'')"

text \<open>Point \<open>i\<close> of a metrics payload: \<open>startTimestamp + int64(i)*int64(sampleInterval)\<close>.\<close>

definition metric_time :: "64 word \<Rightarrow> 32 word \<Rightarrow> nat \<Rightarrow> time" where
  "metric_time startTimestamp sampleInterval i =
     time_UnixMilli (sint (startTimestamp + word_of_nat i * ucast sampleInterval))"

definition metric_at ::
    "string \<Rightarrow> string \<Rightarrow> byte \<Rightarrow> 64 word \<Rightarrow> 32 word \<Rightarrow> bytes \<Rightarrow> nat \<Rightarrow> metric_point" where
  "metric_at name unit dataType startTimestamp sampleInterval dataBlob i =
     \<lparr>mp_Name = name,
      mp_Value = no_value\<lparr>v_Number := Some (f64_of_f32 (get_u32 dataBlob (i * 4)))\<rparr>,
      mp_Unit = unit, mp_ObservedAt = metric_time startTimestamp sampleInterval i,
      mp_LegacyMetricType = ucast dataType, mp_Tags = []\<rparr>"

definition ParseMetricsPayload :: "bytes \<Rightarrow> metric_point list result" where
  "ParseMetricsPayload payload =
     (if length payload < 17 then Inl (ErrText ''payload too short'')
      else
        let startTimestamp = get_u64 payload 0;
            sampleInterval = get_u32 payload 8;
            dataType = payload ! 12;
            count = get_u32 payload 13;
            dataBlob = drop 17 payload
        in case legacyMetricName dataType of (name, unit, ok) \<Rightarrow>
             if \<not> ok then Inl (ErrText ''unsupported metrics data type'')
             else if length dataBlob \<noteq> unat count * 4
             then Inl (ErrText ''metrics blob length mismatch'')
             else Inr (map (metric_at name unit dataType startTimestamp sampleInterval dataBlob)
                         [0..<unat count]))"

definition ParseLogPayload :: "bytes \<Rightarrow> log_record result" where
  "ParseLogPayload payload =
     (if length payload < 11 then Inl (ErrText ''log payload too short'')
      else
        let ts = get_u64 payload 0;
            level = logLevel (payload ! 8);
            msgLen = unat (get_u16 payload 9)
        in if length payload < 11 + msgLen then Inl (ErrText ''log message truncated'')
           else Inr \<lparr>lr_Level = level,
                     lr_Message = string_of_bytes (take msgLen (drop 11 payload)),
                     lr_Namespace = ''device'',
                     lr_ObservedAt = time_UnixMilli (sint ts), lr_Fields = None\<rparr>)"

section \<open>The payloads a device sends\<close>

text \<open>The encoders of the device side, as the frame layouts describe them.\<close>

definition metrics_payload :: "64 word \<Rightarrow> 32 word \<Rightarrow> byte \<Rightarrow> float32 list \<Rightarrow> bytes" where
  "metrics_payload ts interval dataType values =
     put_u64 ts @ put_u32 interval @ [dataType] @ put_u32 (word_of_nat (length values)) @
     concat (map put_u32 values)"

definition log_payload :: "64 word \<Rightarrow> byte \<Rightarrow> string \<Rightarrow> bytes" where
  "log_payload ts level msg =
     put_u64 ts @ [level] @ put_u16 (word_of_nat (length msg)) @ bytes_of_string msg"

definition registration_payload :: "string list \<Rightarrow> string" where
  "registration_payload fs = Join fs [record_separator]"

lemma length_concat_u32 [simp]: "length (concat (map put_u32 vs)) = 4 * length vs"
  by (induction vs) auto

lemma get_u32_concat: "i < length vs \<Longrightarrow> get_u32 (concat (map put_u32 vs)) (i * 4) = vs ! i"
proof (induction vs arbitrary: i)
  case (Cons v vs)
  show ?case
  proof (cases i)
    case 0
    then show ?thesis by (simp add: get_put_u32)
  next
    case (Suc j)
    have "get_u32 (put_u32 v @ concat (map put_u32 vs)) (i * 4) =
          get_u32 (concat (map put_u32 vs)) (j * 4)"
      by (simp add: get_u32_def Suc)
    with Cons Suc show ?thesis by simp
  qed
qed simp

lemma metrics_payload_fields:
  "get_u64 (metrics_payload ts iv ty vs) 0 = ts"
  "get_u32 (metrics_payload ts iv ty vs) 8 = iv"
  "metrics_payload ts iv ty vs ! 12 = ty"
  "get_u32 (metrics_payload ts iv ty vs) 13 = word_of_nat (length vs)"
  "drop 17 (metrics_payload ts iv ty vs) = concat (map put_u32 vs)"
  "length (metrics_payload ts iv ty vs) = 17 + 4 * length vs"
proof -
  show "get_u64 (metrics_payload ts iv ty vs) 0 = ts"
    by (rule get_put_u64) (simp add: metrics_payload_def)
  show "get_u32 (metrics_payload ts iv ty vs) 8 = iv"
    by (rule get_put_u32) (simp add: metrics_payload_def)
  show "get_u32 (metrics_payload ts iv ty vs) 13 = word_of_nat (length vs)"
    by (rule get_put_u32) (simp add: metrics_payload_def)
qed (simp_all add: metrics_payload_def nth_append)

lemma ParseMetricsPayload_encode:
  assumes "length vs < 2 ^ 32" and "legacyMetricName ty = (name, unit, True)"
  shows "ParseMetricsPayload (metrics_payload ts iv ty vs) =
    Inr (map (\<lambda>i. \<lparr>mp_Name = name, mp_Value = no_value\<lparr>v_Number := Some (f64_of_f32 (vs ! i))\<rparr>,
                   mp_Unit = unit, mp_ObservedAt = metric_time ts iv i,
                   mp_LegacyMetricType = ucast ty, mp_Tags = []\<rparr>) [0..<length vs])"
  using assms
  by (simp add: ParseMetricsPayload_def metrics_payload_fields metric_at_def get_u32_concat
      Let_def unsigned_of_nat take_bit_eq_mod)

text \<open>Without wrap-around the timestamps are the arithmetic progression.\<close>

lemma metric_time_exact:
  assumes "0 \<le> sint ts" and "sint ts + int i * uint iv < 2 ^ 63"
  shows "metric_time ts iv i = time_UnixMilli (sint ts + int i * uint iv)"
proof -
  have "ts + word_of_nat i * ucast iv = word_of_int (sint ts + int i * uint iv)"
    by simp
  moreover have "sint (word_of_int (sint ts + int i * uint iv) :: 64 word) =
      sint ts + int i * uint iv"
  proof -
    have "0 \<le> sint ts + int i * uint iv" using assms(1) by simp
    then show ?thesis using assms(2)
      by (simp only: signed_of_int) (simp add: signed_take_bit_int_eq_self)
  qed
  ultimately show ?thesis by (simp add: metric_time_def)
qed

text \<open>A log payload of at most 65535 message bytes is read back.\<close>

lemma log_payload_fields:
  "get_u64 (log_payload ts lv msg) 0 = ts"
  "log_payload ts lv msg ! 8 = lv"
  "get_u16 (log_payload ts lv msg) 9 = word_of_nat (length msg)"
  "drop 11 (log_payload ts lv msg) = bytes_of_string msg"
  "length (log_payload ts lv msg) = 11 + length msg"
proof -
  show "get_u64 (log_payload ts lv msg) 0 = ts"
    by (rule get_put_u64) (simp add: log_payload_def)
  show "get_u16 (log_payload ts lv msg) 9 = word_of_nat (length msg)"
    by (rule get_put_u16) (simp add: log_payload_def)
qed (simp_all add: log_payload_def nth_append)

lemma ParseLogPayload_encode:
  assumes "length msg < 2 ^ 16"
  shows "ParseLogPayload (log_payload ts lv msg @ extra) =
    Inr \<lparr>lr_Level = logLevel lv, lr_Message = msg, lr_Namespace = ''device'',
         lr_ObservedAt = time_UnixMilli (sint ts), lr_Fields = None\<rparr>"
proof -
  have n: "unat (word_of_nat (length msg) :: 16 word) = length msg"
    using assms by (simp add: unsigned_of_nat take_bit_eq_mod)
  have "get_u64 (log_payload ts lv msg @ extra) 0 = ts"
    "get_u16 (log_payload ts lv msg @ extra) 9 = word_of_nat (length msg)"
    using log_payload_fields by (simp_all add: get_u64_def get_u16_def)
  moreover have "(log_payload ts lv msg @ extra) ! 8 = lv"
    by (simp add: log_payload_fields nth_append)
  moreover have "take (length msg) (drop 11 (log_payload ts lv msg @ extra)) = bytes_of_string msg"
    by (simp add: log_payload_fields)
  ultimately show ?thesis
    using n by (simp add: ParseLogPayload_def log_payload_fields(5) Let_def)
qed

lemma ParseRegistrationPayload_Join:
  assumes "6 \<le> length fs" and "\<And>x. x \<in> set fs \<Longrightarrow> record_separator \<notin> set x"
  shows "\<exists>d. ParseRegistrationPayload (registration_payload fs) = Inr d \<and>
     dd_Name d = fs ! 0 \<and> dd_SerialNumber d = fs ! 1 \<and> dd_MACAddress d = fs ! 2 \<and>
     dd_HardwareVersion d = fs ! 3 \<and> dd_SoftwareVersion d = fs ! 4 \<and>
     dd_ConfigVersion d = fs ! 5 \<and> dd_UUID d = []"
proof -
  have "Split record_separator (registration_payload fs) = fs"
    using assms unfolding registration_payload_def by (intro Split_Join) auto
  then show ?thesis
    using assms(1) by (simp add: ParseRegistrationPayload_def Let_def no_descriptor_def)
qed

lemma ParseRegistrationPayload_error:
  "(\<exists>e. ParseRegistrationPayload s = Inl e) \<longleftrightarrow> count_list s record_separator < 5"
  by (auto simp: ParseRegistrationPayload_def length_Split Let_def)

section \<open>Properties\<close>

lemma metrics_payload_facts:
  assumes "length vs < 2 ^ 32" and "legacyMetricName ty = (name, unit, True)"
    and "0 \<le> sint ts" and "sint ts + int (length vs) * uint iv < 2 ^ 63"
  shows "\<exists>ps. ParseMetricsPayload (metrics_payload ts iv ty vs) = Inr ps \<and> length ps = length vs \<and>
     (\<forall>i < length vs.
        mp_Name (ps ! i) = name \<and> mp_Unit (ps ! i) = unit \<and>
        mp_Value (ps ! i) = no_value\<lparr>v_Number := Some (f64_of_f32 (vs ! i))\<rparr> \<and>
        mp_ObservedAt (ps ! i) = time_UnixMilli (sint ts + int i * uint iv))"
    and "ParseMetricsPayload (metrics_payload ts iv ty vs @ x # extra) =
         Inl (ErrText ''metrics blob length mismatch'')"
    and "n < 17 \<Longrightarrow> ParseMetricsPayload (take n (metrics_payload ts iv ty vs)) =
         Inl (ErrText ''payload too short'')"
proof -
  have time: "metric_time ts iv i = time_UnixMilli (sint ts + int i * uint iv)"
    if "i < length vs" for i
  proof (rule metric_time_exact [OF assms(3)])
    have "int i * uint iv \<le> int (length vs) * uint iv"
      using that by (intro mult_right_mono) auto
    with assms(4) show "sint ts + int i * uint iv < 2 ^ 63" by linarith
  qed
  show "\<exists>ps. ParseMetricsPayload (metrics_payload ts iv ty vs) = Inr ps \<and> length ps = length vs \<and>
     (\<forall>i < length vs.
        mp_Name (ps ! i) = name \<and> mp_Unit (ps ! i) = unit \<and>
        mp_Value (ps ! i) = no_value\<lparr>v_Number := Some (f64_of_f32 (vs ! i))\<rparr> \<and>
        mp_ObservedAt (ps ! i) = time_UnixMilli (sint ts + int i * uint iv))"
    unfolding ParseMetricsPayload_encode [OF assms(1,2)] using time by simp
  have pre: "get_u64 (metrics_payload ts iv ty vs @ x # extra) 0 = ts"
    "get_u32 (metrics_payload ts iv ty vs @ x # extra) 13 = word_of_nat (length vs)"
    "(metrics_payload ts iv ty vs @ x # extra) ! 12 = ty"
    using metrics_payload_fields by (simp_all add: get_u64_def get_u32_def nth_append)
  have "unat (word_of_nat (length vs) :: 32 word) = length vs"
    using assms(1) by (simp add: unsigned_of_nat take_bit_eq_mod)
  then show "ParseMetricsPayload (metrics_payload ts iv ty vs @ x # extra) =
         Inl (ErrText ''metrics blob length mismatch'')"
    using pre assms(2) by (simp add: ParseMetricsPayload_def metrics_payload_fields(6) Let_def)
  show "n < 17 \<Longrightarrow> ParseMetricsPayload (take n (metrics_payload ts iv ty vs)) =
         Inl (ErrText ''payload too short'')"
    by (simp add: ParseMetricsPayload_def metrics_payload_fields(6))
qed

text \<open>A metrics payload of any number of samples of a known type is parsed into one point per
  sample, in order, with the name and unit of the type, the exact value of each sample and
  timestamps that advance by the sample interval; a payload whose count field does not match
  the bytes that follow, or whose type is unknown, or with fewer than 17 bytes, is refused.\<close>

theorem metrics_payload_parsed:
  assumes "length vs < 2 ^ 32" and "legacyMetricName ty = (name, unit, True)"
    and "0 \<le> sint ts" and "sint ts + int (length vs) * uint iv < 2 ^ 63"
  shows "(\<exists>ps. ParseMetricsPayload (metrics_payload ts iv ty vs) = Inr ps \<and>
       length ps = length vs \<and>
       (\<forall>i < length vs.
          mp_Name (ps ! i) = name \<and> mp_Unit (ps ! i) = unit \<and>
          mp_Value (ps ! i) = no_value\<lparr>v_Number := Some (f64_of_f32 (vs ! i))\<rparr> \<and>
          mp_ObservedAt (ps ! i) = time_UnixMilli (sint ts + int i * uint iv))) \<and>
     (\<forall>x extra. ParseMetricsPayload (metrics_payload ts iv ty vs @ x # extra) =
        Inl (ErrText ''metrics blob length mismatch'')) \<and>
     (\<forall>n < 17. ParseMetricsPayload (take n (metrics_payload ts iv ty vs)) =
        Inl (ErrText ''payload too short'')) \<and>
     (\<forall>payload. 17 \<le> length payload \<and> payload ! 12 \<notin> {1, 2, 4, 8, 16} \<longrightarrow>
        ParseMetricsPayload payload = Inl (ErrText ''unsupported metrics data type''))"
  using metrics_payload_facts [OF assms]
  by (auto simp: ParseMetricsPayload_def legacyMetricName_def Let_def)

theorem metrics_payload_parsed_witness:
  "\<exists>ps. ParseMetricsPayload (metrics_payload 1000 10 2 [f32_one, f32_zero]) = Inr ps \<and>
        length ps = 2 \<and> mp_ObservedAt (ps ! 1) = time_UnixMilli 1010"
  using metrics_payload_parsed [of "[f32_one, f32_zero]" 2 "''humidity''" "''%''" 1000 10]
  by (fastforce simp: legacyMetricName_def)

lemma log_payload_facts:
  assumes "length msg < 2 ^ 16"
  shows "ParseLogPayload (log_payload ts lv msg @ extra) =
      Inr \<lparr>lr_Level = logLevel lv, lr_Message = msg, lr_Namespace = ''device'',
           lr_ObservedAt = time_UnixMilli (sint ts), lr_Fields = None\<rparr>"
    and "n < length (log_payload ts lv msg) \<Longrightarrow>
      \<exists>e. ParseLogPayload (take n (log_payload ts lv msg)) = Inl e"
proof -
  show "ParseLogPayload (log_payload ts lv msg @ extra) =
      Inr \<lparr>lr_Level = logLevel lv, lr_Message = msg, lr_Namespace = ''device'',
           lr_ObservedAt = time_UnixMilli (sint ts), lr_Fields = None\<rparr>"
    by (rule ParseLogPayload_encode [OF assms])
  have u: "unat (word_of_nat (length msg) :: 16 word) = length msg"
    using assms by (simp add: unsigned_of_nat take_bit_eq_mod)
  assume n: "n < length (log_payload ts lv msg)"
  show "\<exists>e. ParseLogPayload (take n (log_payload ts lv msg)) = Inl e"
  proof (cases "n < 11")
    case True
    then have "length (take n (log_payload ts lv msg)) < 11" by auto
    then show ?thesis unfolding ParseLogPayload_def by auto
  next
    case False
    have "take 2 (drop 9 (take n (log_payload ts lv msg))) =
        take 2 (drop 9 (log_payload ts lv msg))"
      using False by (simp add: drop_take min_def)
    then have "get_u16 (take n (log_payload ts lv msg)) 9 = word_of_nat (length msg)"
      using log_payload_fields(3) by (simp add: get_u16_def)
    with n u show ?thesis
      by (simp add: ParseLogPayload_def log_payload_fields(5) Let_def)
  qed
qed

text \<open>A log payload is read back as its message, level name and timestamp, also when bytes
  follow the message; a payload cut off anywhere is refused.\<close>

theorem log_payload_parsed:
  assumes "length msg < 2 ^ 16"
  shows "ParseLogPayload (log_payload ts lv msg @ extra) =
      Inr \<lparr>lr_Level = logLevel lv, lr_Message = msg, lr_Namespace = ''device'',
           lr_ObservedAt = time_UnixMilli (sint ts), lr_Fields = None\<rparr> \<and>
    (\<forall>n < length (log_payload ts lv msg).
      \<exists>e. ParseLogPayload (take n (log_payload ts lv msg)) = Inl e)"
  using log_payload_facts [OF assms] by blast

theorem log_payload_parsed_witness:
  "ParseLogPayload (log_payload 5 3 ''hot'' @ [0]) =
     Inr \<lparr>lr_Level = ''error'', lr_Message = ''hot'', lr_Namespace = ''device'',
          lr_ObservedAt = time_UnixMilli 5, lr_Fields = None\<rparr> \<and>
   (\<exists>e. ParseLogPayload (take 12 (log_payload 5 3 ''hot'')) = Inl e)"
  using log_payload_parsed [of "''hot''" 5 3 "[0]"]
  by (simp add: logLevel_def log_payload_fields(5))

lemma take_6: "6 \<le> length fs \<Longrightarrow> take 6 fs = [fs ! 0, fs ! 1, fs ! 2, fs ! 3, fs ! 4, fs ! 5]"
  by (intro nth_equalityI) (auto simp: less_Suc_eq numeral_eq_Suc)

text \<open>A registration payload of at least six fields none of which contains the separator is
  parsed into those fields, in order; the parser refuses exactly the payloads with fewer than
  five separators.\<close>

theorem registration_payload_parsed:
  "((\<exists>e. ParseRegistrationPayload s = Inl e) \<longleftrightarrow> count_list s record_separator < 5) \<and>
   (6 \<le> length fs \<and> record_separator \<notin> set (concat fs) \<longrightarrow>
     (\<exists>d. ParseRegistrationPayload (registration_payload fs) = Inr d \<and>
        [dd_Name d, dd_SerialNumber d, dd_MACAddress d, dd_HardwareVersion d,
         dd_SoftwareVersion d, dd_ConfigVersion d] = take 6 fs \<and> dd_UUID d = []))"
  using ParseRegistrationPayload_error [of s] ParseRegistrationPayload_Join [of fs]
  by (auto simp: take_6)

theorem registration_payload_parsed_witness:
  "\<exists>d. ParseRegistrationPayload
         (registration_payload [''n'', ''sn'', ''mac'', ''1'', ''2'', ''3'', ''x'']) = Inr d \<and>
       dd_MACAddress d = ''mac''"
  using registration_payload_parsed [of "[]" "[''n'', ''sn'', ''mac'', ''1'', ''2'', ''3'', ''x'']"]
  by (fastforce simp: record_separator_def)

end
