(* ===== verification/TcpSession.thy ===== *)
theory TcpSession
  imports CoreClient Normalizer Codec Payload
begin

text \<open>
  \<^verbatim>\<open>adapter/customtcp/session.go\<close>: what a TCP connection knows about its device (identity,
  handshake transcript, the one command that waits for its acknowledgement) and the operations on
  it. \<open>tcp_env\<close> holds what the adapter is configured with; the state of everything behind the core
  client is the type \<open>'w\<close>. The clock readings of one operation are one argument.
\<close>

record session =
  ss_uuid :: string
  ss_tenantID :: string
  ss_identity :: identity
  ss_authenticated :: bool
  ss_inflight :: "adapter_command option"
  ss_inflightSeq :: "64 word"
  ss_clientPubKey :: bytes
  ss_serverPubKey :: bytes
  ss_handshakeTS :: int

definition newSession :: session where
  "newSession =
     \<lparr>ss_uuid = [], ss_tenantID = [], ss_identity = no_identity, ss_authenticated = False,
      ss_inflight = None, ss_inflightSeq = 0, ss_clientPubKey = [], ss_serverPubKey = [],
      ss_handshakeTS = 0\<rparr>"

record 'w tcp_env =
  te_core :: "'w core_client option"
  te_normalizer :: "norm_env option"
  te_sourceInstance :: string
  te_crypto :: crypto
  te_DownlinkMaxBatch :: nat
  te_RemoteAddr :: string
  te_LocalAddr :: string

section \<open>Helpers\<close>

fun tcp_firstNonEmpty :: "string list \<Rightarrow> string" where
  "tcp_firstNonEmpty [] = []"
| "tcp_firstNonEmpty (v # vs) = (if TrimSpace v \<noteq> [] then v else tcp_firstNonEmpty vs)"

definition registrationStatusByte :: "registration_status \<Rightarrow> byte" where
  "registrationStatusByte status =
     (case status of RegistrationAccepted \<Rightarrow> 0x00 | RegistrationPending \<Rightarrow> 0x02
      | RegistrationRejected \<Rightarrow> 0x01 | _ \<Rightarrow> 0x01)"

definition tcp_deviceDescriptor :: "device_descriptor \<Rightarrow> device_descriptor" where
  "tcp_deviceDescriptor dev = dev\<lparr>dd_Attributes := None\<rparr>"

definition commandTargetIdentity :: "adapter_command \<Rightarrow> identity option" where
  "commandTargetIdentity msg =
     (if id_Type (ac_Target msg) = [] \<and> id_Value (ac_Target msg) = [] then
        (if ac_UUID msg = [] then None
         else Some \<lparr>id_Type = ''uuid'', id_Value = ac_UUID msg, id_Issuer = []\<rparr>)
      else Some (ac_Target msg))"

definition canonicalCommandFromAdapter :: "adapter_command \<Rightarrow> cmd_id \<Rightarrow> canonical_command" where
  "canonicalCommandFromAdapter msg cmd =
     \<lparr>cc_CommandId = ac_CommandID msg, cc_CommandUuid = ac_CommandUUID msg,
      cc_TenantId = ac_TenantID msg, cc_Uuid = ac_UUID msg,
      cc_TargetIdentity = commandTargetIdentity msg, cc_Operation = ac_Operation msg,
      cc_ProtocolCommandCode =
        (if ac_ProtocolCommandCode msg = 0 \<and> cmd \<noteq> 0 then ucast cmd else ac_ProtocolCommandCode msg),
      cc_Payload = Some \<lparr>raw_ContentType = tcp_firstNonEmpty [ac_PayloadContentType msg, octet_stream],
                         raw_Body = ac_Payload msg, raw_Json = None, raw_Text = []\<rparr>,
      cc_Timeout = None, cc_MaxAttempts = ac_MaxAttempts msg, cc_AdapterOptions = None,
      cc_Properties = ac_Properties msg, cc_Labels = ac_Labels msg\<rparr>"

text \<open>\<open>uint16(v)\<close> of a float: truncation to a 64-bit integer, then its low 16 bits; a number out
  of the range of that integer converts to its smallest value.\<close>

definition u16_of_f64 :: "float64 \<Rightarrow> 16 word" where
  "u16_of_f64 b =
     (case f64_parts b of (s, e, m) \<Rightarrow>
        if e < 1023 \<or> e \<ge> 1086 then 0
        else let v = (if e < 1075 then (2 ^ 52 + m) div 2 ^ (1075 - e) else (2 ^ 52 + m) * 2 ^ (e - 1075))
             in if s = 1 then - word_of_nat v else word_of_nat v)"

definition digit_value :: "char \<Rightarrow> nat" where
  "digit_value c =
     (let n = of_char (ascii_lower c) :: nat
      in if 48 \<le> n \<and> n \<le> 57 then n - 48 else if 97 \<le> n \<and> n \<le> 122 then n - 87 else 255)"

text \<open>\<open>strconv.ParseUint(s, 0, 16)\<close>: a base prefix, then digits with single underscores between.\<close>

definition base_prefix :: "string \<Rightarrow> nat \<times> nat" where
  "base_prefix s =
     (if s = [] \<or> hd s \<noteq> CHR ''0'' then (10, 0)
      else if length s \<ge> 3 \<and> ascii_lower (s ! 1) = CHR ''b'' then (2, 2)
      else if length s \<ge> 3 \<and> ascii_lower (s ! 1) = CHR ''o'' then (8, 2)
      else if length s \<ge> 3 \<and> ascii_lower (s ! 1) = CHR ''x'' then (16, 2)
      else (8, 1))"

fun parse_digits :: "nat \<Rightarrow> nat \<Rightarrow> string \<Rightarrow> nat option" where
  "parse_digits base n [] = Some n"
| "parse_digits base n (c # cs) =
     (if c = CHR ''_'' then parse_digits base n cs
      else if digit_value c \<ge> base \<or> n * base + digit_value c \<ge> 2 ^ 16 then None
      else parse_digits base (n * base + digit_value c) cs)"

text \<open>The kind of the byte before: \<open>True\<close> for a digit or a base prefix, \<open>False\<close> for an underscore.\<close>

fun underscores_ok :: "bool option \<Rightarrow> string \<Rightarrow> bool" where
  "underscores_ok k [] = (k \<noteq> Some False)"
| "underscores_ok k (c # cs) =
     (if digit_value c < 16 then underscores_ok (Some True) cs
      else if c = CHR ''_'' then (k = Some True \<and> underscores_ok (Some False) cs)
      else (k \<noteq> Some False \<and> underscores_ok None cs))"

definition ParseUint16 :: "string \<Rightarrow> nat option" where
  "ParseUint16 s =
     (if s = [] then None
      else case base_prefix s of (base, skip) \<Rightarrow>
        (case parse_digits base 0 (drop skip s) of
           None \<Rightarrow> None
         | Some n \<Rightarrow>
             if CHR ''_'' \<notin> set s \<or>
                (if skip = 2 then underscores_ok (Some True) (drop 2 s) else underscores_ok None s)
             then Some n else None))"

definition option_cmd :: "json \<Rightarrow> cmd_id option" where
  "option_cmd raw =
     (case raw of
        JNumber v \<Rightarrow> if IsDownlinkCommand (u16_of_f64 v) then Some (u16_of_f64 v) else None
      | JString v \<Rightarrow>
          (case ParseUint16 v of None \<Rightarrow> None
           | Some n \<Rightarrow> if IsDownlinkCommand (word_of_nat n) then Some (word_of_nat n) else None)
      | _ \<Rightarrow> None)"

definition resolveDownlinkCmd :: "adapter_command \<Rightarrow> cmd_id \<times> bool" where
  "resolveDownlinkCmd command =
     (if ac_ProtocolCommandCode command \<noteq> 0 \<and> IsDownlinkCommand (ucast (ac_ProtocolCommandCode command))
      then (ucast (ac_ProtocolCommandCode command), True)
      else
        (case (case ac_Options command of None \<Rightarrow> None | Some m \<Rightarrow>
                 (case map_of m ''command_code'' of None \<Rightarrow> None | Some raw \<Rightarrow> option_cmd raw)) of
           Some cmd \<Rightarrow> (cmd, True)
         | None \<Rightarrow> CommandByOperation (ac_Operation command)))"

definition frameInfo :: "packet option \<Rightarrow> frame_info" where
  "frameInfo p =
     (case p of None \<Rightarrow> no_frame
      | Some p \<Rightarrow> \<lparr>fi_MagicNumber = ucast MagicNumber, fi_CommandCode = ucast (CmdID p),
                   fi_KeyID = KeyID p, fi_Sequence = Sequence p, fi_IsAck = IsAck p,
                   fi_IsEncrypted = IsEncrypted p, fi_IsCompressed = IsCompressed p,
                   fi_PayloadLen = word_of_nat (length (Payload p)), fi_Headers = []\<rparr>)"

section \<open>Handshake and authentication\<close>

definition handshakeResponsePayload :: "bytes \<Rightarrow> int \<Rightarrow> bytes" where
  "handshakeResponsePayload serverPubKey timestamp =
     take 32 (serverPubKey @ replicate 32 0) @ put_u64 (word_of_int timestamp)"

definition authVerifyMAC :: "crypto \<Rightarrow> bytes \<Rightarrow> bytes \<Rightarrow> bytes \<Rightarrow> int \<Rightarrow> bytes \<Rightarrow> bytes" where
  "authVerifyMAC C sessionKey clientPubKey serverPubKey timestamp token =
     hmac_sha256 C sessionKey (clientPubKey @ serverPubKey @ put_u64 (word_of_int timestamp) @ token)"

definition authVerifyPayload :: "crypto \<Rightarrow> bytes \<Rightarrow> bytes \<Rightarrow> bytes \<Rightarrow> int \<Rightarrow> bytes \<Rightarrow> bytes" where
  "authVerifyPayload C sessionKey clientPubKey serverPubKey timestamp token =
     token @ authVerifyMAC C sessionKey clientPubKey serverPubKey timestamp token"

definition RecordHandshake :: "bytes \<Rightarrow> bytes \<Rightarrow> int \<Rightarrow> session \<Rightarrow> session" where
  "RecordHandshake clientPubKey serverPubKey timestamp S =
     S\<lparr>ss_clientPubKey := clientPubKey, ss_serverPubKey := serverPubKey, ss_handshakeTS := timestamp\<rparr>"

definition authTokenFromPayload :: "crypto \<Rightarrow> session \<Rightarrow> bytes \<Rightarrow> bytes option \<Rightarrow> string result" where
  "authTokenFromPayload C S payload sessionKey =
     (case sessionKey of
        None \<Rightarrow> Inl (ErrText ''no session key'')
      | Some key \<Rightarrow>
          if length key = 0 then Inl (ErrText ''no session key'')
          else if length (ss_serverPubKey S) = 0 \<or> ss_handshakeTS S = 0 then Inl (ErrText ''no handshake'')
          else if length payload \<le> 32 then Inl (ErrText ''no hmac'')
          else
            let token = take (length payload - 32) payload;
                gotMAC = drop (length payload - 32) payload;
                wantMAC = authVerifyMAC C key (ss_clientPubKey S) (ss_serverPubKey S) (ss_handshakeTS S) token
            in if gotMAC \<noteq> wantMAC then Inl (ErrText ''hmac'') else Inr (string_of_bytes token))"

definition bindDevice :: "string \<Rightarrow> string \<Rightarrow> identity \<Rightarrow> session \<Rightarrow> session" where
  "bindDevice uuid tenantID identity S =
     (let identity = (if id_Value identity = [] \<and> uuid \<noteq> []
                      then \<lparr>id_Type = ''uuid'', id_Value = uuid, id_Issuer = []\<rparr> else identity)
      in S\<lparr>ss_uuid := uuid, ss_tenantID := tenantID, ss_identity := identity, ss_authenticated := True\<rparr>)"

definition uuid_identity :: "string \<Rightarrow> identity" where
  "uuid_identity uuid = \<lparr>id_Type = ''uuid'', id_Value = uuid, id_Issuer = []\<rparr>"

text \<open>The status byte, the rest of the answer and the error that is logged; then the session.\<close>

definition Session_Authenticate ::
    "'w tcp_env \<Rightarrow> bytes \<Rightarrow> bytes option \<Rightarrow> time \<Rightarrow> session \<Rightarrow> 'w \<Rightarrow>
     (byte \<times> bytes \<times> go_error option) \<times> session \<times> 'w" where
  "Session_Authenticate E payload sessionKey now S w =
     (case te_core E of
        None \<Rightarrow> ((0x01, [], Some (ErrText ''coreclient'')), S, w)
      | Some K \<Rightarrow>
          (case authTokenFromPayload (te_crypto E) S payload sessionKey of
             Inl e \<Rightarrow> ((0x01, [], Some e), S, w)
           | Inr tok \<Rightarrow>
               let token = TrimSpace tok
               in if token = [] then ((0x01, [], Some (ErrText ''token'')), S, w)
                  else (case rpc_AuthenticateDevice K
                      \<lparr>aq_Credentials = [\<lparr>cd_Type = ''token'', cd_Value = token\<rparr>],
                       aq_Identities = [\<lparr>id_Type = ''token'', id_Value = token, id_Issuer = []\<rparr>],
                       aq_DeviceHint = None\<rparr> now w of
                     (Inl e, w') \<Rightarrow> ((0x01, [], Some e), S, w')
                   | (Inr resp, w') \<Rightarrow>
                       if ar_Status resp \<noteq> AuthAccepted then ((0x01, [], Some (ErrText ''refused'')), S, w')
                       else ((0x00, [], None),
                             bindDevice (ar_Uuid resp) (ar_TenantId resp) (uuid_identity (ar_Uuid resp)) S, w'))))"

definition Session_Register ::
    "'w tcp_env \<Rightarrow> string \<Rightarrow> time \<Rightarrow> session \<Rightarrow> 'w \<Rightarrow>
     (byte \<times> bytes \<times> go_error option) \<times> session \<times> 'w" where
  "Session_Register E payload now S w =
     (case te_core E of
        None \<Rightarrow> ((registrationStatusByte RegistrationRejected, [], Some (ErrText ''coreclient'')), S, w)
      | Some K \<Rightarrow>
          (case ParseRegistrationPayload payload of
             Inl e \<Rightarrow> ((registrationStatusByte RegistrationRejected, [], Some e), S, w)
           | Inr dev \<Rightarrow>
               (case rpc_RegisterDevice K
                   \<lparr>rq_Device = Some (tcp_deviceDescriptor dev),
                    rq_Raw = Some \<lparr>raw_ContentType = ''text/plain'', raw_Body = bytes_of_string payload,
                                   raw_Json = None, raw_Text = payload\<rparr>\<rparr> now w of
                  (Inl e, w') \<Rightarrow> ((registrationStatusByte RegistrationRejected, [], Some e), S, w')
                | (Inr resp, w') \<Rightarrow>
                    let status = (if rr_Status resp = RegistrationUnspecified then RegistrationRejected
                                  else rr_Status resp)
                    in if status = RegistrationAccepted
                       then ((0x00, (case rr_Credential resp of None \<Rightarrow> [] | Some c \<Rightarrow> bytes_of_string (cd_Value c)), None),
                             bindDevice (rr_Uuid resp) (rr_TenantId resp) (uuid_identity (rr_Uuid resp)) S, w')
                       else ((registrationStatusByte status, [], None), S, w'))))"

section \<open>Reports\<close>

definition Session_HandleHeartbeat ::
    "'w tcp_env \<Rightarrow> time \<Rightarrow> session \<Rightarrow> (unit, 'w) action" where
  "Session_HandleHeartbeat E now S =
     (if \<not> ss_authenticated S then failE (ErrText ''unauthorized'')
      else (case te_core E of
          None \<Rightarrow> failE (ErrText ''coreclient'')
        | Some K \<Rightarrow>
            bindE (rpc_ReportHeartbeat K
                \<lparr>hq_PrimaryIdentity = Some (ss_identity S), hq_Identities = [], hq_Uuid = ss_uuid S,
                 hq_Availability = AvailOnline, hq_ObservedAt = Some now\<rparr> now) (\<lambda>_. returnE ())))"

text \<open>The event with the fields every report of the connection has.\<close>

definition report_event ::
    "'w tcp_env \<Rightarrow> packet option \<Rightarrow> adapter_event \<Rightarrow> time \<Rightarrow> session \<Rightarrow> adapter_event" where
  "report_event E packet event now S =
     event\<lparr>ev_AdapterName := ''custom_tcp'', ev_ProtocolName := ''goster-wy'', ev_ProtocolVersion := ''1'',
           ev_Transport := ''stream'', ev_RemoteAddr := te_RemoteAddr E, ev_LocalAddr := te_LocalAddr E,
           ev_TenantID := ss_tenantID S, ev_ReceivedAt := now,
           ev_OccurredAt := or_now now (ev_OccurredAt event), ev_Frame := frameInfo packet,
           ev_Labels := AList.update ''adapter_protocol'' ''goster-wy'' (ev_Labels event)\<rparr>"

definition ingestEvent ::
    "'w tcp_env \<Rightarrow> packet option \<Rightarrow> adapter_event \<Rightarrow> time \<Rightarrow> session \<Rightarrow> (unit, 'w) action" where
  "ingestEvent E packet event now S =
     (case (te_core E, te_normalizer E) of
        (Some K, Some N) \<Rightarrow>
          (case NormalizeEvent N (te_sourceInstance E) (report_event E packet event now S) now of
             Inl e \<Rightarrow> failE e
           | Inr canonical \<Rightarrow>
               bindE (rpc_IngestEvents K
                   \<lparr>iq_Events = [Some canonical], iq_AllowPartialSuccess = True\<rparr> now) (\<lambda>_. returnE ()))
      | _ \<Rightarrow> failE (ErrText ''coreclient or normalizer''))"

definition report_of :: "string \<Rightarrow> packet \<Rightarrow> session \<Rightarrow> adapter_event" where
  "report_of kind packet S = no_event
     \<lparr>ev_Kind := kind, ev_UUID := ss_uuid S, ev_Identity := ss_identity S,
      ev_Raw := Payload packet, ev_RawContentType := octet_stream\<rparr>"

definition Session_HandleMetrics ::
    "'w tcp_env \<Rightarrow> packet \<Rightarrow> time \<Rightarrow> session \<Rightarrow> (unit, 'w) action" where
  "Session_HandleMetrics E packet now S =
     (if \<not> ss_authenticated S then failE (ErrText ''unauthorized'')
      else (case ParseMetricsPayload (Payload packet) of
          Inl e \<Rightarrow> failE e
        | Inr points \<Rightarrow>
            ingestEvent E (Some packet) (report_of ''telemetry'' packet S\<lparr>ev_Metrics := points\<rparr>) now S))"

definition Session_HandleLog ::
    "'w tcp_env \<Rightarrow> packet \<Rightarrow> time \<Rightarrow> session \<Rightarrow> (unit, 'w) action" where
  "Session_HandleLog E packet now S =
     (if \<not> ss_authenticated S then failE (ErrText ''unauthorized'')
      else (case ParseLogPayload (Payload packet) of
          Inl e \<Rightarrow> failE e
        | Inr record \<Rightarrow>
            ingestEvent E (Some packet) (report_of ''log'' packet S\<lparr>ev_Log := Some record\<rparr>) now S))"

definition Session_HandleEvent ::
    "'w tcp_env \<Rightarrow> packet \<Rightarrow> time \<Rightarrow> session \<Rightarrow> (unit, 'w) action" where
  "Session_HandleEvent E packet now S =
     (if \<not> ss_authenticated S then failE (ErrText ''unauthorized'')
      else ingestEvent E (Some packet) (report_of ''event'' packet S) now S)"

definition Session_HandleError :: "'w tcp_env \<Rightarrow> packet \<Rightarrow> time \<Rightarrow> session \<Rightarrow> 'w \<Rightarrow> 'w" where
  "Session_HandleError E packet now S w =
     (if \<not> ss_authenticated S then w
      else snd (ingestEvent E (Some packet)
        (report_of ''error'' packet S
           \<lparr>ev_Log := Some \<lparr>lr_Level = ''error'', lr_Message = string_of_bytes (Payload packet),
                           lr_Namespace = ''device'', lr_ObservedAt = now, lr_Fields = None\<rparr>\<rparr>) now S w))"

section \<open>Downlink commands\<close>

definition update_status_request :: "int \<Rightarrow> string \<Rightarrow> p_command_status \<Rightarrow> string \<Rightarrow> update_request" where
  "update_status_request commandID commandUUID status uuid =
     \<lparr>uq_CommandId = commandID, uq_CommandUuid = commandUUID, uq_Status = status, uq_ErrorText = [],
      uq_ProtocolCommandCode = 0, uq_Raw = None, uq_ObservedAt = None, uq_Uuid = uuid,
      uq_TargetIdentity = None, uq_Command = None, uq_Operation = []\<rparr>"

text \<open>The update about a whole command.\<close>

definition command_update ::
    "p_command_status \<Rightarrow> adapter_command \<Rightarrow> cmd_id \<Rightarrow> string \<Rightarrow> time \<Rightarrow> session \<Rightarrow> update_request" where
  "command_update status msg cmd errorText now S =
     update_status_request (ac_CommandID msg) (ac_CommandUUID msg) status
        (tcp_firstNonEmpty [ac_UUID msg, ss_uuid S])
      \<lparr>uq_ErrorText := errorText, uq_ObservedAt := Some now,
       uq_TargetIdentity := commandTargetIdentity msg,
       uq_Command := Some (canonicalCommandFromAdapter msg cmd), uq_Operation := ac_Operation msg\<rparr>"

text \<open>The core client is set whenever a session is authenticated; a nil client would panic.\<close>

definition update_core :: "'w tcp_env \<Rightarrow> update_request \<Rightarrow> time \<Rightarrow> 'w \<Rightarrow> 'w" where
  "update_core E req now w =
     (case te_core E of None \<Rightarrow> w | Some K \<Rightarrow> snd (rpc_UpdateCommandStatus K req now w))"

definition hasInflight :: "session \<Rightarrow> bool" where
  "hasInflight S \<longleftrightarrow> ss_inflight S \<noteq> None"

definition clearInflightByCommandID :: "int \<Rightarrow> session \<Rightarrow> session" where
  "clearInflightByCommandID commandID S =
     (case ss_inflight S of
        Some m \<Rightarrow> if ac_CommandID m = commandID then S\<lparr>ss_inflight := None, ss_inflightSeq := 0\<rparr> else S
      | None \<Rightarrow> S)"

definition takeInflight :: "session \<Rightarrow> adapter_command option \<times> session" where
  "takeInflight S =
     (case ss_inflight S of None \<Rightarrow> (None, S)
      | Some m \<Rightarrow> (Some m, S\<lparr>ss_inflight := None, ss_inflightSeq := 0\<rparr>))"

definition HandleDownlinkAck ::
    "'w tcp_env \<Rightarrow> cmd_id \<Rightarrow> packet \<Rightarrow> time \<Rightarrow> session \<Rightarrow> 'w \<Rightarrow> session \<times> 'w" where
  "HandleDownlinkAck E cmd packet now S w =
     (if \<not> ss_authenticated S then (S, w)
      else (case ss_inflight S of
          None \<Rightarrow> (S, w)
        | Some inflight \<Rightarrow>
            if fst (resolveDownlinkCmd inflight) \<noteq> cmd then (S, w)
            else if ss_inflightSeq S \<noteq> Sequence packet then (S, w)
            else
              (S\<lparr>ss_inflight := None, ss_inflightSeq := 0\<rparr>,
               update_core E (update_status_request (ac_CommandID inflight) (ac_CommandUUID inflight)
                   PCommandAcked (ss_uuid S)
                 \<lparr>uq_ProtocolCommandCode := ucast cmd, uq_ObservedAt := Some now,
                  uq_Operation := CommandName cmd\<rparr>) now w)))"

definition PopCommand ::
    "'w tcp_env \<Rightarrow> time \<Rightarrow> session \<Rightarrow> 'w \<Rightarrow> adapter_command option \<times> 'w" where
  "PopCommand E now S w =
     (case (te_core E, te_normalizer E) of
        (Some K, Some N) \<Rightarrow>
          if \<not> ss_authenticated S \<or> hasInflight S then (None, w)
          else (case rpc_PullCommands K
              \<lparr>pq_Uuid = ss_uuid S, pq_PrimaryIdentity = Some (ss_identity S), pq_Identities = [],
               pq_MaxCount = 1, pq_SupportedOperations = [], pq_SupportedProtocolNames = []\<rparr> now w of
            (Inl _, w') \<Rightarrow> (None, w')
          | (Inr cs, w') \<Rightarrow>
              if length cs = 0 then (None, w')
              else (case NormalizeCommand N (Some (cs ! 0)) of
                  Inl _ \<Rightarrow> (None, w')
                | Inr cmd \<Rightarrow> (Some cmd, w')))
      | _ \<Rightarrow> (None, w))"

definition MarkDownlinkSent ::
    "'w tcp_env \<Rightarrow> adapter_command \<Rightarrow> cmd_id \<Rightarrow> 64 word \<Rightarrow> time \<Rightarrow> session \<Rightarrow> 'w \<Rightarrow> session \<times> 'w" where
  "MarkDownlinkSent E msg cmd seq now S w =
     (if \<not> ss_authenticated S \<or> ac_CommandID msg \<le> 0 then (S, w)
      else (S\<lparr>ss_inflight := Some msg, ss_inflightSeq := seq\<rparr>,
            update_core E (command_update PCommandSent msg cmd [] now S
              \<lparr>uq_ProtocolCommandCode := ucast cmd\<rparr>) now w))"

definition FailDownlink ::
    "'w tcp_env \<Rightarrow> adapter_command \<Rightarrow> string \<Rightarrow> time \<Rightarrow> session \<Rightarrow> 'w \<Rightarrow> session \<times> 'w" where
  "FailDownlink E msg errorText now S w =
     (if \<not> ss_authenticated S \<or> ac_CommandID msg \<le> 0 then (S, w)
      else (clearInflightByCommandID (ac_CommandID msg) S,
            update_core E (command_update PCommandFailed msg 0 errorText now S) now w))"

definition RequeueDownlink ::
    "'w tcp_env \<Rightarrow> adapter_command \<Rightarrow> string \<Rightarrow> time \<Rightarrow> session \<Rightarrow> 'w \<Rightarrow> session \<times> 'w" where
  "RequeueDownlink E msg errorText now S w =
     (if \<not> ss_authenticated S \<or> ac_CommandID msg \<le> 0 then (S, w)
      else (clearInflightByCommandID (ac_CommandID msg) S,
            update_core E (command_update PCommandRequeued msg (fst (resolveDownlinkCmd msg)) errorText now S) now w))"

definition RequeueInflight :: "'w tcp_env \<Rightarrow> time \<Rightarrow> session \<Rightarrow> 'w \<Rightarrow> session \<times> 'w" where
  "RequeueInflight E now S w =
     (case takeInflight S of
        (None, S') \<Rightarrow> (S', w)
      | (Some msg, S') \<Rightarrow> RequeueDownlink E msg [] now S' w)"

end
