(* ===== verification/TcpConn.thy ===== *)
theory TcpConn
  imports TcpSession
begin

text \<open>
  \<^verbatim>\<open>adapter/customtcp/adapter.go\<close>: the loop that serves one TCP connection. The bytes the peer
  sends until the connection ends (closed, timed out or shut down) are the reader; which of the
  writes to the peer succeed is part of the state, and the frames written are recorded. Before each
  packet the loop is given the clock reading and the ephemeral X25519 key it may need.
\<close>

record 'w conn =
  cn_session :: session
  cn_sessionKey :: "bytes option"
  cn_writeSeq :: "64 word"
  cn_sent :: "bytes list"
  cn_writes :: "bool list"
  cn_core :: 'w

definition new_conn :: "bool list \<Rightarrow> 'w \<Rightarrow> 'w conn" where
  "new_conn writes w =
     \<lparr>cn_session = newSession, cn_sessionKey = None, cn_writeSeq = 0, cn_sent = [],
      cn_writes = writes, cn_core = w\<rparr>"

record turn =
  tu_now :: time
  tu_private :: bytes

definition writeAll :: "bytes \<Rightarrow> 'w conn \<Rightarrow> bool \<times> 'w conn" where
  "writeAll data c =
     (let c1 = c\<lparr>cn_writes := tl (cn_writes c)\<rparr>
      in if cn_writes c \<noteq> [] \<and> \<not> hd (cn_writes c) then (False, c1)
         else (True, c1\<lparr>cn_sent := cn_sent c @ [data]\<rparr>))"

text \<open>\<open>writeSeq++\<close>, then \<open>Pack\<close> and \<open>writeAll\<close>; the answer is false when the connection is given up.\<close>

definition send_frame ::
    "'w tcp_env \<Rightarrow> bytes \<Rightarrow> cmd_id \<Rightarrow> 32 word \<Rightarrow> bytes option \<Rightarrow> 'w conn \<Rightarrow> bool \<times> 'w conn" where
  "send_frame E payload cmd keyID key c =
     (let c1 = c\<lparr>cn_writeSeq := cn_writeSeq c + 1\<rparr>
      in case Pack (te_crypto E) payload cmd keyID key (cn_writeSeq c1) True of
           Inl _ \<Rightarrow> (False, c1)
         | Inr buf \<Rightarrow> writeAll buf c1)"

definition negotiateEphemeralSecret :: "crypto \<Rightarrow> bytes \<Rightarrow> bytes \<Rightarrow> (bytes \<times> bytes) result" where
  "negotiateEphemeralSecret C priv peerPubKey =
     (if length peerPubKey \<noteq> 32 then Inl (ErrText ''peer public key'')
      else (case ecdh_secret C priv peerPubKey of
          None \<Rightarrow> Inl (ErrText ''ecdh'')
        | Some secret \<Rightarrow> Inr (secret, ecdh_public C priv)))"

definition writeAck :: "'w tcp_env \<Rightarrow> cmd_id \<Rightarrow> 'w conn \<Rightarrow> bool \<times> 'w conn" where
  "writeAck E cmd c = send_frame E [] cmd 1 (cn_sessionKey c) c"

section \<open>The cases of the loop\<close>

definition unix_seconds :: "time \<Rightarrow> int" where
  "unix_seconds t = t div 1000000000"

definition on_handshake :: "'w tcp_env \<Rightarrow> turn \<Rightarrow> packet \<Rightarrow> 'w conn \<Rightarrow> bool \<times> 'w conn" where
  "on_handshake E t p c =
     (if length (Payload p) \<noteq> 32 then (False, c)
      else (case negotiateEphemeralSecret (te_crypto E) (tu_private t) (Payload p) of
          Inl _ \<Rightarrow> (False, c)
        | Inr (secret, serverPubKey) \<Rightarrow>
            let ts = unix_seconds (tu_now t)
            in send_frame E (handshakeResponsePayload serverPubKey ts) CmdHandshakeResp 0 None
                 (c\<lparr>cn_sessionKey := Some secret,
                    cn_session := RecordHandshake (Payload p) serverPubKey ts (cn_session c)\<rparr>)))"

text \<open>The answer to a verification or a registration: the connection goes on when the status is 0.\<close>

definition answer_auth ::
    "'w tcp_env \<Rightarrow> (byte \<times> bytes \<times> go_error option) \<times> session \<times> 'w \<Rightarrow> 'w conn \<Rightarrow> bool \<times> 'w conn" where
  "answer_auth E r c =
     (case r of ((status, resp, _), S, w) \<Rightarrow>
        (case send_frame E (status # resp) CmdAuthAck 1 (cn_sessionKey c)
               (c\<lparr>cn_session := S, cn_core := w\<rparr>) of
           (ok, c1) \<Rightarrow> (ok \<and> status = 0x00, c1)))"

definition on_auth :: "'w tcp_env \<Rightarrow> turn \<Rightarrow> packet \<Rightarrow> 'w conn \<Rightarrow> bool \<times> 'w conn" where
  "on_auth E t p c =
     answer_auth E (Session_Authenticate E (Payload p) (cn_sessionKey c) (tu_now t) (cn_session c) (cn_core c)) c"

definition on_register :: "'w tcp_env \<Rightarrow> turn \<Rightarrow> packet \<Rightarrow> 'w conn \<Rightarrow> bool \<times> 'w conn" where
  "on_register E t p c =
     answer_auth E (Session_Register E (string_of_bytes (Payload p)) (tu_now t) (cn_session c) (cn_core c)) c"

text \<open>A report: its error is only logged, the acknowledgement is sent in any case.\<close>

definition on_report ::
    "'w tcp_env \<Rightarrow> (session \<Rightarrow> (unit, 'w) action) \<Rightarrow> cmd_id \<Rightarrow> 'w conn \<Rightarrow> bool \<times> 'w conn" where
  "on_report E handler cmd c =
     writeAck E cmd (c\<lparr>cn_core := snd (handler (cn_session c) (cn_core c))\<rparr>)"

definition on_rekey :: "'w tcp_env \<Rightarrow> turn \<Rightarrow> packet \<Rightarrow> 'w conn \<Rightarrow> bool \<times> 'w conn" where
  "on_rekey E t p c =
     (case negotiateEphemeralSecret (te_crypto E) (tu_private t) (Payload p) of
        Inl _ \<Rightarrow> (False, c)
      | Inr (secret, serverPubKey) \<Rightarrow>
          (case send_frame E serverPubKey CmdKeyExchangeDownlink 1 (cn_sessionKey c) c of
             (False, c1) \<Rightarrow> (False, c1)
           | (True, c1) \<Rightarrow> (True, c1\<lparr>cn_sessionKey := Some secret\<rparr>)))"

definition on_downlink_ack :: "'w tcp_env \<Rightarrow> turn \<Rightarrow> packet \<Rightarrow> 'w conn \<Rightarrow> bool \<times> 'w conn" where
  "on_downlink_ack E t p c =
     (True,
      if IsAck p
      then (case HandleDownlinkAck E (CmdID p) p (tu_now t) (cn_session c) (cn_core c) of
              (S, w) \<Rightarrow> c\<lparr>cn_session := S, cn_core := w\<rparr>)
      else c)"

definition allowed_unauthenticated :: "packet \<Rightarrow> bool" where
  "allowed_unauthenticated p \<longleftrightarrow>
     CmdID p = CmdHandshakeInit \<or> CmdID p = CmdAuthVerify \<or> CmdID p = CmdDeviceRegister"

definition dispatch :: "'w tcp_env \<Rightarrow> turn \<Rightarrow> packet \<Rightarrow> 'w conn \<Rightarrow> bool \<times> 'w conn" where
  "dispatch E t p c =
     (if CmdID p = CmdHandshakeInit then on_handshake E t p c
      else if CmdID p = CmdAuthVerify then on_auth E t p c
      else if CmdID p = CmdDeviceRegister then on_register E t p c
      else if CmdID p = CmdMetricsReport
      then on_report E (Session_HandleMetrics E p (tu_now t)) CmdMetricsReport c
      else if CmdID p = CmdLogReport then on_report E (Session_HandleLog E p (tu_now t)) CmdLogReport c
      else if CmdID p = CmdEventReport
      then on_report E (Session_HandleEvent E p (tu_now t)) CmdEventReport c
      else if CmdID p = CmdHeartbeat
      then on_report E (Session_HandleHeartbeat E (tu_now t)) CmdHeartbeat c
      else if CmdID p = CmdKeyExchangeUplink then on_rekey E t p c
      else if IsDownlinkCommand (CmdID p) then on_downlink_ack E t p c
      else if CmdID p = CmdErrorReport
      then (False, c\<lparr>cn_core := Session_HandleError E p (tu_now t) (cn_session c) (cn_core c)\<rparr>)
      else (True, c))"

text \<open>Up to \<open>DownlinkMaxBatch\<close> commands are pulled and written after each packet.\<close>

primrec downlink_loop :: "'w tcp_env \<Rightarrow> turn \<Rightarrow> nat \<Rightarrow> 'w conn \<Rightarrow> bool \<times> 'w conn" where
  "downlink_loop E t 0 c = (True, c)"
| "downlink_loop E t (Suc n) c =
     (case PopCommand E (tu_now t) (cn_session c) (cn_core c) of
        (None, w) \<Rightarrow> (True, c\<lparr>cn_core := w\<rparr>)
      | (Some msg, w) \<Rightarrow>
          let c1 = c\<lparr>cn_core := w\<rparr>;
              fail = (\<lambda>c :: 'w conn. \<lambda>e. case FailDownlink E msg e (tu_now t) (cn_session c) (cn_core c) of
                        (S, w) \<Rightarrow> downlink_loop E t n (c\<lparr>cn_session := S, cn_core := w\<rparr>))
          in case resolveDownlinkCmd msg of
               (_, False) \<Rightarrow> fail c1 ''unmapped operation''
             | (cmdID, True) \<Rightarrow>
                 let c2 = c1\<lparr>cn_writeSeq := cn_writeSeq c1 + 1\<rparr>
                 in case Pack (te_crypto E) (ac_Payload msg) cmdID 1 (cn_sessionKey c2) (cn_writeSeq c2) False of
                      Inl _ \<Rightarrow> fail c2 ''pack''
                    | Inr buf \<Rightarrow>
                        (case writeAll buf c2 of
                           (False, c3) \<Rightarrow>
                             (case RequeueDownlink E msg ''write'' (tu_now t) (cn_session c3) (cn_core c3) of
                                (S, w) \<Rightarrow> (False, c3\<lparr>cn_session := S, cn_core := w\<rparr>))
                         | (True, c3) \<Rightarrow>
                             (case MarkDownlinkSent E msg cmdID (cn_writeSeq c3) (tu_now t) (cn_session c3) (cn_core c3) of
                                (S, w) \<Rightarrow> downlink_loop E t n (c3\<lparr>cn_session := S, cn_core := w\<rparr>))))"

definition handle_packet :: "'w tcp_env \<Rightarrow> turn \<Rightarrow> packet \<Rightarrow> 'w conn \<Rightarrow> bool \<times> 'w conn" where
  "handle_packet E t p c =
     (if \<not> ss_authenticated (cn_session c) \<and> \<not> allowed_unauthenticated p then (False, c)
      else (case dispatch E t p c of
          (False, c1) \<Rightarrow> (False, c1)
        | (True, c1) \<Rightarrow>
            if ss_authenticated (cn_session c1) then downlink_loop E t (te_DownlinkMaxBatch E) c1
            else (True, c1)))"

section \<open>The loop\<close>

lemma Unpack_consumes:
  assumes "Unpack C r key = (Inr p, r')"
  shows "length r' < length r"
proof -
  obtain x r1 where x: "ReadFull HeaderSize r = (x, r1)" by (cases "ReadFull HeaderSize r") auto
  show ?thesis
  proof (cases x)
    case (Inl e)
    with x assms show ?thesis by (simp add: Unpack_def)
  next
    case (Inr h)
    then have r1: "length r1 < length r"
      using x by (auto simp: ReadFull_def HeaderSize_def split: if_splits)
    obtain y r2 where y: "ReadFull (unat (get_u32 h 12) + FooterSize) r1 = (y, r2)"
      by (cases "ReadFull (unat (get_u32 h 12) + FooterSize) r1") auto
    then have "length r2 \<le> length r1" by (auto simp: ReadFull_def split: if_splits)
    moreover have "r' = r2"
      using assms unfolding Unpack_def x Inr sum.case prod.case
      by (auto simp: y Let_def split: if_splits sum.splits option.splits)
    ultimately show ?thesis using r1 by simp
  qed
qed

function serve :: "'w tcp_env \<Rightarrow> (nat \<Rightarrow> turn) \<Rightarrow> nat \<Rightarrow> bytes \<Rightarrow> 'w conn \<Rightarrow> 'w conn" where
  "serve E turns i r c =
     (case Unpack (te_crypto E) r (cn_sessionKey c) of
        (Inl _, _) \<Rightarrow> c
      | (Inr p, r') \<Rightarrow>
          (case handle_packet E (turns i) p c of
             (False, c') \<Rightarrow> c'
           | (True, c') \<Rightarrow> serve E turns (Suc i) r' c'))"
  by pat_completeness auto
termination
  by (relation "measure (\<lambda>(E, turns, i, r, c). length r)")
     (auto dest: Unpack_consumes [OF sym])

declare serve.simps [simp del]

text \<open>When the connection ends, a command still waiting for its acknowledgement is put back.\<close>

definition handleConnection ::
    "'w tcp_env \<Rightarrow> (nat \<Rightarrow> turn) \<Rightarrow> time \<Rightarrow> bytes \<Rightarrow> bool list \<Rightarrow> 'w \<Rightarrow> 'w conn" where
  "handleConnection E turns closed r writes w =
     (let c = serve E turns 0 r (new_conn writes w)
      in case RequeueInflight E closed (cn_session c) (cn_core c) of
           (S, w') \<Rightarrow> c\<lparr>cn_session := S, cn_core := w'\<rparr>)"

end
