(* ===== verification/TcpInvariants.thy ===== *)
theory TcpInvariants
  imports TcpConn
begin

text \<open>
  What every TCP connection keeps true: a rule, stated as a locale, that lifts an invariant of the
  primitive changes of a connection (a counter step, a frame written, a command now in flight) to
  the whole loop, and two invariants proved with it: the nonces of the frames the server writes
  never repeat, and the command in flight is one that was written under the recorded number.
\<close>

section \<open>Sessions\<close>

lemma bindDevice_inflight [simp]:
  "ss_inflight (bindDevice u t i S) = ss_inflight S"
  "ss_inflightSeq (bindDevice u t i S) = ss_inflightSeq S"
  "ss_authenticated (bindDevice u t i S)" "ss_uuid (bindDevice u t i S) = u"
  by (simp_all add: bindDevice_def Let_def)

lemma RecordHandshake_sel [simp]:
  "ss_inflight (RecordHandshake a b ts S) = ss_inflight S"
  "ss_inflightSeq (RecordHandshake a b ts S) = ss_inflightSeq S"
  "ss_authenticated (RecordHandshake a b ts S) = ss_authenticated S"
  "ss_uuid (RecordHandshake a b ts S) = ss_uuid S"
  "ss_tenantID (RecordHandshake a b ts S) = ss_tenantID S"
  "ss_identity (RecordHandshake a b ts S) = ss_identity S"
  by (simp_all add: RecordHandshake_def)

lemma Session_Authenticate_inflight:
  "Session_Authenticate E p key now S w = (x, S', w') \<Longrightarrow>
   ss_inflight S' = ss_inflight S \<and> ss_inflightSeq S' = ss_inflightSeq S"
  by (auto simp: Session_Authenticate_def Let_def split: option.splits sum.splits if_splits prod.splits)

lemma Session_Register_inflight:
  "Session_Register E p now S w = (x, S', w') \<Longrightarrow>
   ss_inflight S' = ss_inflight S \<and> ss_inflightSeq S' = ss_inflightSeq S"
  by (auto simp: Session_Register_def Let_def split: option.splits sum.splits if_splits prod.splits)

lemma clearInflight_cases:
  "clearInflightByCommandID i S = S \<or> clearInflightByCommandID i S = S\<lparr>ss_inflight := None, ss_inflightSeq := 0\<rparr>"
  by (simp add: clearInflightByCommandID_def split: option.splits)

lemma FailDownlink_session:
  "FailDownlink E m e now S w = (S', w') \<Longrightarrow> S' = S \<or> S' = S\<lparr>ss_inflight := None, ss_inflightSeq := 0\<rparr>"
  using clearInflight_cases by (auto simp: FailDownlink_def split: if_splits)

lemma RequeueDownlink_session:
  "RequeueDownlink E m e now S w = (S', w') \<Longrightarrow> S' = S \<or> S' = S\<lparr>ss_inflight := None, ss_inflightSeq := 0\<rparr>"
  using clearInflight_cases by (auto simp: RequeueDownlink_def split: if_splits)

lemma HandleDownlinkAck_session:
  "HandleDownlinkAck E cmd p now S w = (S', w') \<Longrightarrow> S' = S \<or> S' = S\<lparr>ss_inflight := None, ss_inflightSeq := 0\<rparr>"
  by (auto simp: HandleDownlinkAck_def split: if_splits option.splits)

lemma MarkDownlinkSent_session:
  "MarkDownlinkSent E m cmd seq now S w = (S', w') \<Longrightarrow>
   S' = S \<or> (ss_authenticated S \<and> ac_CommandID m > 0 \<and> S' = S\<lparr>ss_inflight := Some m, ss_inflightSeq := seq\<rparr>)"
  by (auto simp: MarkDownlinkSent_def split: if_splits)

lemma RequeueInflight_session:
  "RequeueInflight E now S w = (S', w') \<Longrightarrow> S' = S \<or> S' = S\<lparr>ss_inflight := None, ss_inflightSeq := 0\<rparr>"
  by (auto simp: RequeueInflight_def takeInflight_def split: option.splits dest: RequeueDownlink_session)

section \<open>Lifting an invariant to the loop\<close>

text \<open>\<open>I n c\<close>: the invariant of a connection whose counter has been stepped at most \<open>n\<close> times.\<close>

locale conn_invariant =
  fixes E :: "'w tcp_env" and I :: "nat \<Rightarrow> 'w conn \<Rightarrow> bool"
  assumes mono: "I n c \<Longrightarrow> n \<le> n' \<Longrightarrow> I n' c"
    and core: "I n c \<Longrightarrow> I n (c\<lparr>cn_core := w\<rparr>)"
    and key: "I n c \<Longrightarrow> I n (c\<lparr>cn_sessionKey := k\<rparr>)"
    and sess: "I n c \<Longrightarrow> ss_inflight S = ss_inflight (cn_session c) \<Longrightarrow>
      ss_inflightSeq S = ss_inflightSeq (cn_session c) \<Longrightarrow> I n (c\<lparr>cn_session := S\<rparr>)"
    and clear: "I n c \<Longrightarrow> ss_inflight S = None \<Longrightarrow> I n (c\<lparr>cn_session := S\<rparr>)"
    and count: "I n c \<Longrightarrow> Suc n < 2 ^ 64 \<Longrightarrow> I (Suc n) (c\<lparr>cn_writeSeq := cn_writeSeq c + 1\<rparr>)"
    and frame: "I n c \<Longrightarrow> Suc n < 2 ^ 64 \<Longrightarrow> nonceDirection cmd ack = 2 \<Longrightarrow>
      Pack (te_crypto E) p cmd kid kk (cn_writeSeq c + 1) ack = Inr buf \<Longrightarrow>
      I (Suc n) (c\<lparr>cn_writeSeq := cn_writeSeq c + 1, cn_writes := ws, cn_sent := cn_sent c @ [buf]\<rparr>)"
    and writes: "I n c \<Longrightarrow> I n (c\<lparr>cn_writes := ws\<rparr>)"
    and track: "I n c \<Longrightarrow> cn_sent c = fs @ [buf] \<Longrightarrow> resolveDownlinkCmd m = (cmd, True) \<Longrightarrow>
      ac_CommandID m > 0 \<Longrightarrow>
      Pack (te_crypto E) (ac_Payload m) cmd 1 kk (cn_writeSeq c) False = Inr buf \<Longrightarrow>
      I n (c\<lparr>cn_session := S\<lparr>ss_inflight := Some m, ss_inflightSeq := cn_writeSeq c\<rparr>\<rparr>)"
begin

lemma cleared: "I n c \<Longrightarrow> S = cn_session c \<or> S = cn_session c\<lparr>ss_inflight := None, ss_inflightSeq := 0\<rparr> \<Longrightarrow>
    I n (c\<lparr>cn_session := S, cn_core := w\<rparr>)"
  using core sess clear by fastforce

lemma writeAll_inv:
  assumes "I n c" and "Suc n < 2 ^ 64" and "nonceDirection cmd ack = 2"
    and "Pack (te_crypto E) p cmd k kk (cn_writeSeq c + 1) ack = Inr buf"
  shows "I (Suc n) (snd (writeAll buf (c\<lparr>cn_writeSeq := cn_writeSeq c + 1\<rparr>)))"
  using frame [OF assms] writes [OF count [OF assms(1,2)]] by (simp add: writeAll_def Let_def)

lemma send_frame_inv:
  assumes "I n c" and "Suc n < 2 ^ 64" and "nonceDirection cmd True = 2"
  shows "I (Suc n) (snd (send_frame E p cmd k kk c))"
proof (cases "Pack (te_crypto E) p cmd k kk (cn_writeSeq c + 1) True")
  case (Inl e)
  with count [OF assms(1,2)] show ?thesis by (simp add: send_frame_def Let_def)
next
  case (Inr buf)
  with writeAll_inv [OF assms this] show ?thesis by (simp add: send_frame_def Let_def)
qed

lemma on_handshake_inv:
  assumes "I n c" and "Suc n < 2 ^ 64"
  shows "I (Suc n) (snd (on_handshake E t p c))"
proof -
  have "I n (c\<lparr>cn_sessionKey := s, cn_session := RecordHandshake a b ts (cn_session c)\<rparr>)" for s a b ts
    by (rule sess [OF key [OF assms(1)], of "RecordHandshake a b ts (cn_session c)" s, simplified])
  then have "I (Suc n) (snd (send_frame E q CmdHandshakeResp 0 None
      (c\<lparr>cn_sessionKey := s, cn_session := RecordHandshake a b ts (cn_session c)\<rparr>)))" for q s a b ts
    by (rule send_frame_inv [OF _ assms(2)]) (simp add: nonceDirection_def cmd_defs)
  moreover have "I (Suc n) c" using assms(1) by (rule mono) simp
  ultimately show ?thesis
    by (auto simp: on_handshake_def Let_def split: sum.splits)
qed

lemma answer_auth_inv:
  assumes "I n c" and "Suc n < 2 ^ 64"
    and "ss_inflight S = ss_inflight (cn_session c)" and "ss_inflightSeq S = ss_inflightSeq (cn_session c)"
  shows "I (Suc n) (snd (answer_auth E ((st, resp, e), S, w) c))"
proof -
  have "I n (c\<lparr>cn_session := S, cn_core := w\<rparr>)" by (rule core [OF sess [OF assms(1,3,4)]])
  then have "I (Suc n) (snd (send_frame E (st # resp) CmdAuthAck 1 (cn_sessionKey c)
      (c\<lparr>cn_session := S, cn_core := w\<rparr>)))"
    by (rule send_frame_inv [OF _ assms(2)]) (simp add: nonceDirection_def cmd_defs)
  then show ?thesis by (auto simp: answer_auth_def split: prod.splits)
qed

lemma writeAck_inv:
  assumes "I n c" and "Suc n < 2 ^ 64" and "nonceDirection cmd True = 2"
  shows "I (Suc n) (snd (on_report E h cmd c))"
  unfolding on_report_def writeAck_def by (rule send_frame_inv [OF core [OF assms(1)] assms(2,3)])

lemma on_rekey_inv:
  assumes "I n c" and "Suc n < 2 ^ 64"
  shows "I (Suc n) (snd (on_rekey E t p c))"
proof -
  have s: "I (Suc n) (snd (send_frame E q CmdKeyExchangeDownlink 1 (cn_sessionKey c) c))" for q
    by (rule send_frame_inv [OF assms]) (simp add: nonceDirection_def cmd_defs)
  then have "I (Suc n) (snd (send_frame E q CmdKeyExchangeDownlink 1 (cn_sessionKey c) c)
      \<lparr>cn_sessionKey := k\<rparr>)" for q k by (rule key)
  with s have "send_frame E q CmdKeyExchangeDownlink 1 (cn_sessionKey c) c = (b, c1) \<Longrightarrow>
      I (Suc n) c1 \<and> I (Suc n) (c1\<lparr>cn_sessionKey := k\<rparr>)" for q k b c1
    by (metis snd_conv)
  moreover have "I (Suc n) c" using assms(1) by (rule mono) simp
  ultimately show ?thesis
    by (auto simp: on_rekey_def split: sum.splits prod.splits bool.splits)
qed

lemma on_downlink_ack_inv: "I n c \<Longrightarrow> I n (snd (on_downlink_ack E t p c))"
  by (auto simp: on_downlink_ack_def split: prod.splits intro!: cleared dest: HandleDownlinkAck_session)

lemma dispatch_inv:
  assumes "I n c" and "Suc n < 2 ^ 64"
  shows "I (Suc n) (snd (dispatch E t p c))"
proof -
  have auth: "I (Suc n) (snd (on_auth E t p c))"
    unfolding on_auth_def
    by (cases "Session_Authenticate E (Payload p) (cn_sessionKey c) (tu_now t) (cn_session c) (cn_core c)")
       (auto intro!: answer_auth_inv [OF assms] dest: Session_Authenticate_inflight)
  have reg: "I (Suc n) (snd (on_register E t p c))"
    unfolding on_register_def
    by (cases "Session_Register E (string_of_bytes (Payload p)) (tu_now t) (cn_session c) (cn_core c)")
       (auto intro!: answer_auth_inv [OF assms] dest: Session_Register_inflight)
  have keep: "I (Suc n) c" using assms(1) by (rule mono) simp
  have rep: "nonceDirection cmd True = 2 \<Longrightarrow> I (Suc n) (snd (on_report E h cmd c))" for h cmd
    by (rule writeAck_inv [OF assms])
  show ?thesis
    unfolding dispatch_def
    using on_handshake_inv [OF assms] auth reg on_rekey_inv [OF assms]
      mono [OF on_downlink_ack_inv [OF assms(1)], of "Suc n"] core [OF keep] keep
    by (auto intro!: rep simp: nonceDirection_def cmd_defs)
qed

lemma mark_inv:
  assumes "I n c" and "Suc n < 2 ^ 64" and res: "resolveDownlinkCmd m = (cmd, True)"
    and pk: "Pack (te_crypto E) (ac_Payload m) cmd 1 kk (cn_writeSeq c + 1) False = Inr buf"
    and wr: "writeAll buf (c\<lparr>cn_writeSeq := cn_writeSeq c + 1\<rparr>) = (True, c3)"
    and mk: "MarkDownlinkSent E m cmd (cn_writeSeq c3) now (cn_session c3) (cn_core c3) = (S, w)"
  shows "I (Suc n) (c3\<lparr>cn_session := S, cn_core := w\<rparr>)"
proof -
  have "IsDownlinkCommand cmd"
    using res by (auto simp: resolveDownlinkCmd_def option_cmd_def split: if_splits option.splits json.splits
        dest: CommandByOperation_downlink)
  then have dir: "nonceDirection cmd False = 2"
    by (auto simp: nonceDirection_def IsDownlinkCommand_def cmd_defs)
  from writeAll_inv [OF assms(1,2) dir pk] wr have i: "I (Suc n) c3" by simp
  have c3: "cn_sent c3 = cn_sent c @ [buf]" "cn_writeSeq c3 = cn_writeSeq c + 1"
    using wr by (auto simp: writeAll_def Let_def split: if_splits)
  from MarkDownlinkSent_session [OF mk] show ?thesis
  proof
    assume "S = cn_session c3"
    then show ?thesis using core [OF i] by simp
  next
    assume *: "ss_authenticated (cn_session c3) \<and> 0 < ac_CommandID m \<and>
      S = cn_session c3\<lparr>ss_inflight := Some m, ss_inflightSeq := cn_writeSeq c3\<rparr>"
    have "I (Suc n) (c3\<lparr>cn_session := S\<rparr>)"
      using track [OF i c3(1) res, of kk "cn_session c3"] * pk by (simp add: c3(2))
    then show ?thesis by (rule core)
  qed
qed

lemma downlink_loop_inv:
  "I n c \<Longrightarrow> n + k < 2 ^ 64 \<Longrightarrow> I (n + k) (snd (downlink_loop E t k c))"
proof (induction k arbitrary: n c)
  case (Suc k)
  obtain x w where pop: "PopCommand E (tu_now t) (cn_session c) (cn_core c) = (x, w)"
    by (cases "PopCommand E (tu_now t) (cn_session c) (cn_core c)") auto
  have n: "Suc n < 2 ^ 64" using Suc.prems(2) by simp
  show ?case
  proof (cases x)
    case None
    with pop mono [OF core [OF Suc.prems(1)]] show ?thesis by simp
  next
    case (Some m)
    define c1 where "c1 = c\<lparr>cn_core := w\<rparr>"
    have i1: "I n c1" unfolding c1_def by (rule core [OF Suc.prems(1)])
    define fail where "fail = (\<lambda>c :: 'w conn. \<lambda>e. case FailDownlink E m e (tu_now t) (cn_session c) (cn_core c) of
        (S, w) \<Rightarrow> downlink_loop E t k (c\<lparr>cn_session := S, cn_core := w\<rparr>))"
    have fail: "I (n + Suc k) (snd (fail c' e))" if "I n' c'" "n \<le> n'" "n' \<le> Suc n" for c' e n'
    proof -
      obtain S w' where f: "FailDownlink E m e (tu_now t) (cn_session c') (cn_core c') = (S, w')"
        by (cases "FailDownlink E m e (tu_now t) (cn_session c') (cn_core c')") auto
      have "I n' (c'\<lparr>cn_session := S, cn_core := w'\<rparr>)"
        using cleared [OF that(1) FailDownlink_session [OF f]] .
      then have "I (Suc n) (c'\<lparr>cn_session := S, cn_core := w'\<rparr>)" using that(3) by (rule mono)
      from Suc.IH [OF this] Suc.prems(2) show ?thesis by (simp add: fail_def f)
    qed
    obtain cmd ok where res: "resolveDownlinkCmd m = (cmd, ok)" by (cases "resolveDownlinkCmd m") auto
    show ?thesis
    proof (cases ok)
      case False
      with fail [OF i1] show ?thesis by (simp add: pop Some c1_def fail_def res)
    next
      case True
      define c2 where "c2 = c1\<lparr>cn_writeSeq := cn_writeSeq c1 + 1\<rparr>"
      have i2: "I (Suc n) c2" unfolding c2_def by (rule count [OF i1 n])
      have unf: "downlink_loop E t (Suc k) c =
        (case Pack (te_crypto E) (ac_Payload m) cmd 1 (cn_sessionKey c2) (cn_writeSeq c2) False of
           Inl _ \<Rightarrow> fail c2 ''pack''
         | Inr buf \<Rightarrow>
             (case writeAll buf c2 of
                (False, c3) \<Rightarrow>
                  (case RequeueDownlink E m ''write'' (tu_now t) (cn_session c3) (cn_core c3) of
                     (S, w) \<Rightarrow> (False, c3\<lparr>cn_session := S, cn_core := w\<rparr>))
              | (True, c3) \<Rightarrow>
                  (case MarkDownlinkSent E m cmd (cn_writeSeq c3) (tu_now t) (cn_session c3) (cn_core c3) of
                     (S, w) \<Rightarrow> downlink_loop E t k (c3\<lparr>cn_session := S, cn_core := w\<rparr>))))"
        unfolding c1_def c2_def fail_def
        by (simp only: downlink_loop.simps pop Some res eqTrueI [OF True] Let_def prod.case option.case bool.case)
      show ?thesis
      proof (cases "Pack (te_crypto E) (ac_Payload m) cmd 1 (cn_sessionKey c2) (cn_writeSeq c2) False")
        case (Inl e)
        with fail [OF i2] show ?thesis unfolding unf by simp
      next
        case (Inr buf)
        obtain b c3 where wr: "writeAll buf c2 = (b, c3)" by (cases "writeAll buf c2") auto
        show ?thesis
        proof (cases b)
          case False
          have i3: "I (Suc n) c3"
            using wr False writes [OF i2] by (auto simp: writeAll_def Let_def split: if_splits)
          obtain S w' where rq: "RequeueDownlink E m ''write'' (tu_now t) (cn_session c3) (cn_core c3) = (S, w')"
            by (cases "RequeueDownlink E m ''write'' (tu_now t) (cn_session c3) (cn_core c3)") auto
          have "I (n + Suc k) (c3\<lparr>cn_session := S, cn_core := w'\<rparr>)"
            by (rule mono [OF cleared [OF i3 RequeueDownlink_session [OF rq]]]) simp
          then show ?thesis unfolding unf using Inr wr False by (simp add: rq)
        next
          case b: True
          obtain S w' where mk: "MarkDownlinkSent E m cmd (cn_writeSeq c3) (tu_now t) (cn_session c3) (cn_core c3) = (S, w')"
            by (cases "MarkDownlinkSent E m cmd (cn_writeSeq c3) (tu_now t) (cn_session c3) (cn_core c3)") auto
          have "I (Suc n) (c3\<lparr>cn_session := S, cn_core := w'\<rparr>)"
            using mark_inv [OF i1 n res [unfolded eqTrueI [OF True]], of "cn_sessionKey c2" buf c3]
              Inr wr b mk by (simp add: c2_def)
          from Suc.IH [OF this] Suc.prems(2) show ?thesis unfolding unf using Inr wr b
            by (simp add: mk)
        qed
      qed
    qed
  qed
qed (simp add: mono)

lemma handle_packet_inv:
  assumes "I n c" and "n + Suc (te_DownlinkMaxBatch E) < 2 ^ 64"
  shows "I (n + Suc (te_DownlinkMaxBatch E)) (snd (handle_packet E t p c))"
proof -
  obtain b c1 where d: "dispatch E t p c = (b, c1)" by (cases "dispatch E t p c") auto
  have i: "I (Suc n) c1" using dispatch_inv [OF assms(1), of t p] assms(2) d by simp
  have "I (n + Suc (te_DownlinkMaxBatch E)) (snd (downlink_loop E t (te_DownlinkMaxBatch E) c1))"
    using downlink_loop_inv [OF i, of "te_DownlinkMaxBatch E"] assms(2) by simp
  moreover have "I (n + Suc (te_DownlinkMaxBatch E)) c1" by (rule mono [OF i]) simp
  moreover have "I (n + Suc (te_DownlinkMaxBatch E)) c" by (rule mono [OF assms(1)]) simp
  ultimately show ?thesis by (cases b) (simp_all add: handle_packet_def d)
qed

text \<open>A packet is at least one byte of input, so the counter stays below the product.\<close>

lemma serve_inv:
  "I n c \<Longrightarrow> n + length r * Suc (te_DownlinkMaxBatch E) < 2 ^ 64 \<Longrightarrow>
   I (n + length r * Suc (te_DownlinkMaxBatch E)) (serve E turns i r c)"
proof (induction r arbitrary: n c i rule: length_induct)
  case (1 r)
  let ?b = "Suc (te_DownlinkMaxBatch E)"
  obtain x r' where u: "Unpack (te_crypto E) r (cn_sessionKey c) = (x, r')"
    by (cases "Unpack (te_crypto E) r (cn_sessionKey c)") auto
  show ?case
  proof (cases x)
    case (Inl e)
    with u mono [OF "1.prems"(1)] show ?thesis by (simp add: serve.simps [of E turns i r c])
  next
    case (Inr p)
    have l: "length r' < length r" using u Inr Unpack_consumes by blast
    then have le: "?b + length r' * ?b \<le> length r * ?b"
      by (metis Suc_leI mult_Suc mult_le_mono1)
    obtain b c1 where h: "handle_packet E (turns i) p c = (b, c1)"
      by (cases "handle_packet E (turns i) p c") auto
    have i1: "I (n + ?b) c1"
      using handle_packet_inv [OF "1.prems"(1), of "turns i" p] "1.prems"(2) le h by simp
    show ?thesis
    proof (cases b)
      case False
      have "I (n + length r * ?b) c1" using i1 by (rule mono) (use le in simp)
      with False show ?thesis using u Inr h by (simp add: serve.simps [of E turns i r c])
    next
      case True
      have "I (n + ?b + length r' * ?b) (serve E turns (Suc i) r' c1)"
        using "1.IH" [rule_format, OF l i1, of "Suc i"] "1.prems"(2) le by linarith
      then have "I (n + length r * ?b) (serve E turns (Suc i) r' c1)"
        by (rule mono) (use le in simp)
      with True show ?thesis using u Inr h by (simp add: serve.simps [of E turns i r c])
    qed
  qed
qed

lemma handleConnection_inv:
  assumes "I 0 (new_conn writes w)" and "length r * Suc (te_DownlinkMaxBatch E) < 2 ^ 64"
  shows "\<exists>n. I n (handleConnection E turns closed r writes w)"
proof -
  have i: "I (length r * Suc (te_DownlinkMaxBatch E)) (serve E turns 0 r (new_conn writes w))"
    using serve_inv [OF assms(1)] assms(2) by simp
  show ?thesis
    by (auto simp: handleConnection_def Let_def split: prod.splits
        intro!: exI cleared [OF i] dest: RequeueInflight_session)
qed

end

section \<open>Nonces\<close>

definition frame_nonce_of :: "bytes \<Rightarrow> bytes" where
  "frame_nonce_of f = take 12 (drop 16 f)"

definition frame_seq :: "bytes \<Rightarrow> nat" where
  "frame_seq f = get_le (drop 4 (frame_nonce_of f))"

definition nonces_inv :: "'w tcp_env \<Rightarrow> nat \<Rightarrow> 'w conn \<Rightarrow> bool" where
  "nonces_inv E n c \<longleftrightarrow> (crypto_ok (te_crypto E) \<longrightarrow>
     unat (cn_writeSeq c) \<le> n \<and> sorted_wrt (<) (map frame_seq (cn_sent c)) \<and>
     (\<forall>f \<in> set (cn_sent c). frame_seq f \<le> unat (cn_writeSeq c) \<and> hd (frame_nonce_of f) = 0x02))"

lemma Pack_nonce:
  assumes "crypto_ok C" and "Pack C p cmd k key seq ack = Inr f"
  shows "frame_nonce_of f = frame_nonce cmd ack seq"
proof -
  have "take 12 (drop 16 (header_bytes n cmd k e seq ack @ x)) = frame_nonce cmd ack seq" for n e x
    using header_fields(7) [of n cmd k e seq ack] by simp
  with assms show ?thesis
    by (cases rule: Pack_cases) (simp_all add: frame_nonce_of_def)
qed

lemma frame_seq_nonce: "frame_nonce_of f = frame_nonce cmd ack seq \<Longrightarrow> frame_seq f = unat seq"
  using unsigned_less [of seq, where 'a = nat] by (simp add: frame_seq_def frame_nonce_def put_u64_def)

lemma unat_Suc_64: "unat w \<le> n \<Longrightarrow> Suc n < 2 ^ 64 \<Longrightarrow> unat (w + 1 :: 64 word) = Suc (unat w)"
  by (simp add: unat_word_ariths)

lemma nonces_inv_frame:
  assumes i: "nonces_inv E n c" and n: "Suc n < 2 ^ 64" and d: "nonceDirection cmd ack = 2"
    and pk: "Pack (te_crypto E) p cmd k kk (cn_writeSeq c + 1) ack = Inr buf"
  shows "nonces_inv E (Suc n)
    (c\<lparr>cn_writeSeq := cn_writeSeq c + 1, cn_writes := ws, cn_sent := cn_sent c @ [buf]\<rparr>)"
  unfolding nonces_inv_def
proof (rule impI)
  assume C: "crypto_ok (te_crypto E)"
  note old = i [unfolded nonces_inv_def, rule_format, OF C]
  have u: "unat (cn_writeSeq c + 1) = Suc (unat (cn_writeSeq c))"
    using old n by (intro unat_Suc_64) auto
  note f = Pack_nonce [OF C pk]
  have "hd (frame_nonce_of buf) = 2" by (simp add: f frame_nonce_def d)
  then show "unat (cn_writeSeq (c\<lparr>cn_writeSeq := cn_writeSeq c + 1, cn_writes := ws, cn_sent := cn_sent c @ [buf]\<rparr>)) \<le> Suc n \<and>
    sorted_wrt (<) (map frame_seq (cn_sent (c\<lparr>cn_writeSeq := cn_writeSeq c + 1, cn_writes := ws, cn_sent := cn_sent c @ [buf]\<rparr>))) \<and>
    (\<forall>f \<in> set (cn_sent (c\<lparr>cn_writeSeq := cn_writeSeq c + 1, cn_writes := ws, cn_sent := cn_sent c @ [buf]\<rparr>)).
       frame_seq f \<le> unat (cn_writeSeq (c\<lparr>cn_writeSeq := cn_writeSeq c + 1, cn_writes := ws, cn_sent := cn_sent c @ [buf]\<rparr>)) \<and>
       hd (frame_nonce_of f) = 0x02)"
    using old frame_seq_nonce [OF f] by (auto simp: u sorted_wrt_append less_Suc_eq_le le_Suc_eq)
qed

lemma nonces_inv_count:
  "nonces_inv E n c \<Longrightarrow> Suc n < 2 ^ 64 \<Longrightarrow> nonces_inv E (Suc n) (c\<lparr>cn_writeSeq := cn_writeSeq c + 1\<rparr>)"
  by (auto simp: nonces_inv_def unat_Suc_64 le_SucI)

interpretation nonces: conn_invariant E "nonces_inv E" for E :: "'w tcp_env"
proof
  show "nonces_inv E n c \<Longrightarrow> n \<le> n' \<Longrightarrow> nonces_inv E n' c" for n n' c
    by (auto simp: nonces_inv_def)
qed (simp_all add: nonces_inv_def [of E, where n = n and c = "c\<lparr>cn_session := S\<rparr>" for n c S]
      nonces_inv_frame nonces_inv_count, simp_all add: nonces_inv_def)

section \<open>The command in flight\<close>

definition inflight_inv :: "'w tcp_env \<Rightarrow> nat \<Rightarrow> 'w conn \<Rightarrow> bool" where
  "inflight_inv E n c \<longleftrightarrow>
     (\<forall>m. ss_inflight (cn_session c) = Some m \<longrightarrow> ac_CommandID m > 0 \<and>
        (\<exists>cmd kk. resolveDownlinkCmd m = (cmd, True) \<and>
           (\<exists>f \<in> set (cn_sent c). Pack (te_crypto E) (ac_Payload m) cmd 1 kk (ss_inflightSeq (cn_session c)) False = Inr f)))"

interpretation inflight: conn_invariant E "inflight_inv E" for E :: "'w tcp_env"
proof
  show "inflight_inv E n (c\<lparr>cn_session := S\<lparr>ss_inflight := Some m, ss_inflightSeq := cn_writeSeq c\<rparr>\<rparr>)"
    if "cn_sent c = fs @ [buf]" "resolveDownlinkCmd m = (cmd, True)" "0 < ac_CommandID m"
      "Pack (te_crypto E) (ac_Payload m) cmd 1 kk (cn_writeSeq c) False = Inr buf"
    for n c fs buf m cmd kk S
    using that by (auto simp: inflight_inv_def)
  show "inflight_inv E (Suc n) (c\<lparr>cn_writeSeq := cn_writeSeq c + 1, cn_writes := ws, cn_sent := cn_sent c @ [buf]\<rparr>)"
    if "inflight_inv E n c" for n c buf ws
    using that by (fastforce simp: inflight_inv_def)
qed (simp_all add: inflight_inv_def)

text \<open>A connection on which the peer sends one frame and closes.\<close>

lemma Unpack_Nil [simp]: "Unpack C [] key = (Inl ErrEOF, [])"
  by (simp add: Unpack_def ReadFull_def HeaderSize_def)

lemma serve_one:
  assumes "crypto_ok (te_crypto E)" and "Pack (te_crypto E) p cmd k key seq ack = Inr f"
    and "key \<noteq> None \<Longrightarrow> k \<noteq> 0 \<Longrightarrow> cn_sessionKey c = key"
    and "handle_packet E (turns i) \<lparr>CmdID = cmd, KeyID = k, Sequence = seq, IsAck = ack,
          IsEncrypted = (key \<noteq> None \<and> k \<noteq> 0), IsCompressed = False, Payload = p\<rparr> c = (b, c')"
  shows "serve E turns i f c = c'"
proof -
  have u: "Unpack (te_crypto E) f (cn_sessionKey c) = (Inr \<lparr>CmdID = cmd, KeyID = k, Sequence = seq, IsAck = ack,
          IsEncrypted = (key \<noteq> None \<and> k \<noteq> 0), IsCompressed = False, Payload = p\<rparr>, [])"
    using Unpack_Pack [OF assms(1,2), of "cn_sessionKey c" "[]"] assms(3) by simp
  show ?thesis
    unfolding serve.simps [of E turns i f c] u prod.case sum.case assms(4)
    by (cases b) (simp_all add: serve.simps [of E turns "Suc i" "[]" c'])
qed

section \<open>Properties\<close>

text \<open>C4: On one connection no AES-GCM nonce of the server repeats, across handshakes, key renewals,
  reports, failed writes and downlink commands: the nonces of the frames written are pairwise
  distinct, their sequence numbers increase, and all carry the direction byte 2, which no frame of a
  device carries, so a key shared by both sides never meets one nonce twice. The bound says that the
  64-bit counter does not wrap.\<close>

theorem server_nonces_unique:
  assumes "crypto_ok (te_crypto E)" and "length r * Suc (te_DownlinkMaxBatch E) < 2 ^ 64"
    and "c = handleConnection E turns closed r writes w"
  shows "distinct (map frame_nonce_of (cn_sent c)) \<and> sorted_wrt (<) (map frame_seq (cn_sent c)) \<and>
    (\<forall>f \<in> set (cn_sent c). hd (frame_nonce_of f) = 0x02) \<and>
    (\<forall>p cmd k key seq ack f. Pack (te_crypto E) p cmd k key seq ack = Inr f \<longrightarrow>
       (if IsDownlinkCommand cmd then ack
        else cmd \<in> {CmdHandshakeInit, CmdAuthVerify, CmdDeviceRegister, CmdKeyExchangeUplink} \<or>
             (\<not> ack \<and> cmd \<in> {CmdMetricsReport, CmdLogReport, CmdEventReport, CmdHeartbeat, CmdErrorReport})) \<longrightarrow>
       frame_nonce_of f \<notin> set (map frame_nonce_of (cn_sent c)))"
proof -
  have "nonces_inv E 0 (new_conn writes w)" by (simp add: nonces_inv_def new_conn_def)
  from nonces.handleConnection_inv [OF this assms(2)]
  have i: "sorted_wrt (<) (map frame_seq (cn_sent c))" "\<forall>f \<in> set (cn_sent c). hd (frame_nonce_of f) = 0x02"
    unfolding assms(3) nonces_inv_def using assms(1) by blast+
  have "distinct (map frame_seq (cn_sent c))" using i(1) by (simp add: strict_sorted_iff)
  then have d: "distinct (map frame_nonce_of (cn_sent c))"
    by (auto simp: frame_seq_def distinct_map inj_on_def)
  have "hd (frame_nonce_of f) \<noteq> 0x02" if "Pack (te_crypto E) p cmd k key seq ack = Inr f"
    "if IsDownlinkCommand cmd then ack
     else cmd \<in> {CmdHandshakeInit, CmdAuthVerify, CmdDeviceRegister, CmdKeyExchangeUplink} \<or>
          (\<not> ack \<and> cmd \<in> {CmdMetricsReport, CmdLogReport, CmdEventReport, CmdHeartbeat, CmdErrorReport})"
    for p cmd k key seq ack f
    using Pack_nonce [OF assms(1) that(1)] that(2)
    by (auto simp: frame_nonce_def nonceDirection_def IsDownlinkCommand_def cmd_defs split: if_splits)
  then show ?thesis using d i by fastforce
qed

text \<open>A core that accepts every device as d1 and always has one command for it.\<close>

definition example_command :: canonical_command where
  "example_command =
     \<lparr>cc_CommandId = 7, cc_CommandUuid = [], cc_TenantId = [], cc_Uuid = ''d1'', cc_TargetIdentity = None,
      cc_Operation = ''config_push'', cc_ProtocolCommandCode = 0x0201,
      cc_Payload = Some \<lparr>raw_ContentType = octet_stream, raw_Body = [1], raw_Json = None, raw_Text = []\<rparr>,
      cc_Timeout = None, cc_MaxAttempts = 0, cc_AdapterOptions = None, cc_Properties = [], cc_Labels = []\<rparr>"

definition example_client :: "unit core_client" where
  "example_client =
     \<lparr>rpc_AuthenticateDevice = (\<lambda>_ _ w. (Inr \<lparr>ar_Status = AuthAccepted, ar_Uuid = ''d1'', ar_TenantId = [],
        ar_Reason = [], ar_Device = None\<rparr>, w)),
      rpc_RegisterDevice = (\<lambda>_ _ w. (Inr \<lparr>rr_Status = RegistrationAccepted, rr_Uuid = ''d1'', rr_TenantId = [],
        rr_Credential = Some \<lparr>cd_Type = ''token'', cd_Value = ''gt_1''\<rparr>, rr_Reason = [], rr_Device = None\<rparr>, w)),
      rpc_ReportHeartbeat = (\<lambda>_ _ w. (Inl ErrRPC, w)),
      rpc_IngestEvents = (\<lambda>_ _ w. (Inr [], w)),
      rpc_PullCommands = (\<lambda>_ _ w. (Inr [example_command], w)),
      rpc_UpdateCommandStatus = (\<lambda>_ _ w. (Inr PCommandSent, w))\<rparr>"

definition example_tcp :: "unit tcp_env" where
  "example_tcp =
     \<lparr>te_core = Some example_client, te_normalizer = Some example_env, te_sourceInstance = ''n1'',
      te_crypto = toy_crypto, te_DownlinkMaxBatch = 1, te_RemoteAddr = [], te_LocalAddr = []\<rparr>"

definition example_turns :: "nat \<Rightarrow> turn" where
  "example_turns i = \<lparr>tu_now = 5000000000, tu_private = [3]\<rparr>"

definition example_registration :: bytes where
  "example_registration = bytes_of_string (registration_payload [''n'', ''sn'', ''mac'', [], [], []])"

text \<open>The device registers in plaintext, is accepted, and is sent the command.\<close>

lemma example_run:
  obtains f f1 f2 m c where "Pack toy_crypto example_registration CmdDeviceRegister 0 None 1 False = Inr f"
    and "length f = 59" and "serve example_tcp example_turns 0 f (new_conn [] ()) = c"
    and "cn_sent c = [f1, f2]" and "ss_inflight (cn_session c) = Some m" and "ac_Payload m = [1]"
    and "cn_session (handleConnection example_tcp example_turns 9 f [] ()) = (cn_session c)\<lparr>ss_inflight := None, ss_inflightSeq := 0\<rparr>"
    and "cn_sent (handleConnection example_tcp example_turns 9 f [] ()) = [f1, f2]"
proof -
  let ?C = toy_crypto
  have C: "te_crypto example_tcp = toy_crypto" "te_DownlinkMaxBatch example_tcp = 1"
    by (simp_all add: example_tcp_def)
  define S where "S = bindDevice ''d1'' [] (uuid_identity ''d1'') newSession"
  define m where "m = the (fst (PopCommand example_tcp 5000000000 S ()))"
  have pk: "length p \<le> 64 \<Longrightarrow> \<exists>f. Pack toy_crypto p cmd k None seq ack = Inr f" for p cmd k seq ack
    by (subst Pack_result) (simp_all add: toy_crypto_ok MaxPayloadSize_def)
  have lp: "length example_registration = 11" by code_simp
  then obtain f where f: "Pack toy_crypto example_registration CmdDeviceRegister 0 None 1 False = Inr f"
    using pk [of example_registration CmdDeviceRegister 0 1 False] by auto
  obtain f1 where f1: "Pack toy_crypto (0 # bytes_of_string ''gt_1'') CmdAuthAck 1 None 1 True = Inr f1"
    using pk [of "0 # bytes_of_string ''gt_1''" CmdAuthAck 1 1 True] by auto
  have m: "PopCommand example_tcp 5000000000 S () = (Some m, ())" "ac_Payload m = [1]"
      "resolveDownlinkCmd m = (CmdConfigPush, True)" "ac_CommandID m = 7"
    unfolding m_def S_def by code_simp+
  obtain f2 where f2: "Pack toy_crypto [1] CmdConfigPush 1 None 2 False = Inr f2"
    using pk [of "[1]" CmdConfigPush 1 2 False] by auto
  let ?p = "\<lparr>CmdID = CmdDeviceRegister, KeyID = 0, Sequence = 1, IsAck = False, IsEncrypted = False,
    IsCompressed = False, Payload = example_registration\<rparr>"
  have reg: "Session_Register example_tcp (string_of_bytes example_registration) 5000000000 newSession () =
      ((0, bytes_of_string ''gt_1'', None), S, ())"
    unfolding S_def by code_simp
  have auth: "ss_authenticated S" by (simp add: S_def)
  let ?c = "\<lparr>cn_session = S\<lparr>ss_inflight := Some m, ss_inflightSeq := 2\<rparr>, cn_sessionKey = None,
      cn_writeSeq = 2, cn_sent = [f1, f2], cn_writes = [], cn_core = ()\<rparr>"
  have d: "dispatch example_tcp (example_turns 0) ?p (new_conn [] ()) =
      (True, \<lparr>cn_session = S, cn_sessionKey = None, cn_writeSeq = 1, cn_sent = [f1], cn_writes = [], cn_core = ()\<rparr>)"
    by (simp add: dispatch_def cmd_defs on_register_def answer_auth_def new_conn_def reg example_turns_def
        send_frame_def Let_def C f1 [unfolded cmd_defs] writeAll_def)
  have hp: "handle_packet example_tcp (example_turns 0) ?p (new_conn [] ()) = (True, ?c)"
    using auth by (simp add: handle_packet_def allowed_unauthenticated_def d [unfolded example_turns_def] C m f2 example_turns_def Let_def
        writeAll_def MarkDownlinkSent_def)
  have s: "serve example_tcp example_turns 0 f (new_conn [] ()) = ?c"
    by (rule serve_one [of example_tcp, unfolded C, OF toy_crypto_ok f]) (simp_all add: hp)
  have l: "length f = 59"
    using Pack_length [OF toy_crypto_ok f] by (simp add: lp HeaderSize_def FooterSize_def)
  have h: "cn_session (handleConnection example_tcp example_turns 9 f [] ()) = S\<lparr>ss_inflight := None, ss_inflightSeq := 0\<rparr>"
    "cn_sent (handleConnection example_tcp example_turns 9 f [] ()) = [f1, f2]"
    using auth by (simp_all add: handleConnection_def Let_def s RequeueInflight_def takeInflight_def RequeueDownlink_def m
        clearInflightByCommandID_def)
  show thesis by (rule that [OF f l s, of f1 f2 m]) (simp_all add: h m)
qed

theorem server_nonces_unique_witness:
  "\<exists>f f1 f2. cn_sent (handleConnection example_tcp example_turns 9 f [] ()) = [f1, f2] \<and>
     frame_nonce_of f1 \<noteq> frame_nonce_of f2"
proof -
  obtain f f1 f2 m c where f: "length f = 59"
    "cn_sent (handleConnection example_tcp example_turns 9 f [] ()) = [f1, f2]"
    by (rule example_run) blast
  have l: "length f * Suc (te_DownlinkMaxBatch example_tcp) < 2 ^ 64" by (simp add: f example_tcp_def)
  have "crypto_ok (te_crypto example_tcp)" by (simp add: example_tcp_def toy_crypto_ok)
  from server_nonces_unique [OF this l refl, of example_turns 9 "[]" "()"]
  have "frame_nonce_of f1 \<noteq> frame_nonce_of f2" by (simp add: f(2))
  then show ?thesis using f(2) by blast
qed

text \<open>The command a connection waits for is one it wrote: its operation maps to a downlink
  command, the core knows it by a positive id, and among the frames written there is one that a
  device holding the key reads back as exactly that command with its payload, under the recorded
  sequence number. So an acknowledgement is only ever matched against a frame that was sent.\<close>

theorem inflight_was_written:
  assumes "crypto_ok (te_crypto E)" and "length r * Suc (te_DownlinkMaxBatch E) < 2 ^ 64"
    and "c = serve E turns 0 r (new_conn writes w)" and "ss_inflight (cn_session c) = Some m"
  shows "0 < ac_CommandID m \<and> (\<exists>f \<in> set (cn_sent c). \<exists>key cmd. resolveDownlinkCmd m = (cmd, True) \<and>
    Unpack (te_crypto E) f key = (Inr \<lparr>CmdID = cmd, KeyID = 1, Sequence = ss_inflightSeq (cn_session c),
      IsAck = False, IsEncrypted = (key \<noteq> None), IsCompressed = False, Payload = ac_Payload m\<rparr>, []))"
proof -
  have "inflight_inv E 0 (new_conn writes w)" by (simp add: inflight_inv_def new_conn_def newSession_def)
  from inflight.serve_inv [OF this, of r turns 0] assms(2)
  have "inflight_inv E (length r * Suc (te_DownlinkMaxBatch E)) c" by (simp add: assms(3))
  then obtain cmd kk f where m: "0 < ac_CommandID m" "resolveDownlinkCmd m = (cmd, True)" "f \<in> set (cn_sent c)"
      and pk: "Pack (te_crypto E) (ac_Payload m) cmd 1 kk (ss_inflightSeq (cn_session c)) False = Inr f"
    using assms(4) by (auto simp: inflight_inv_def)
  from Unpack_Pack [OF assms(1) pk, of kk "[]"] m show ?thesis by auto
qed

theorem inflight_was_written_witness:
  "\<exists>r f key p. f \<in> set (cn_sent (serve example_tcp example_turns 0 r (new_conn [] ()))) \<and>
     Unpack toy_crypto f key = (Inr p, []) \<and> Payload p = [1]"
proof -
  obtain f f1 f2 m c where f: "length f = 59" "serve example_tcp example_turns 0 f (new_conn [] ()) = c"
    "ss_inflight (cn_session c) = Some m" "ac_Payload m = [1]"
    by (rule example_run) blast
  have l: "length f * Suc (te_DownlinkMaxBatch example_tcp) < 2 ^ 64" by (simp add: f example_tcp_def)
  have C: "crypto_ok (te_crypto example_tcp)" "te_crypto example_tcp = toy_crypto"
    by (simp_all add: example_tcp_def toy_crypto_ok)
  from inflight_was_written [OF C(1) l f(2) [symmetric] f(3)] show ?thesis
    unfolding C(2) f(4) f(2) [symmetric] by (metis (no_types, lifting) packet.select_convs(7))
qed

end
