(* ===== verification/EndToEnd.thy ===== *)
theory EndToEnd
  imports TcpInvariants
begin

text \<open>
  Properties that run from a frame on a TCP connection through the normalizer and the remote client
  to the services of the core and its database, and back.
\<close>

text \<open>An adapter wired to a core service over a link.\<close>

definition wired :: "core_state link tcp_env \<Rightarrow> core_config \<Rightarrow> bool" where
  "wired E cfg \<longleftrightarrow> te_core E = Some (NewRemote (core_services cfg)) \<and> crypto_ok (te_crypto E)"

abbreviation devices_of :: "core_state link conn \<Rightarrow> string \<Rightarrow> (string \<times> device_metadata) option" where
  "devices_of c \<equiv> db_devs (co_db (lk_core (cn_core c)))"

section \<open>The binding of a session\<close>

definition binding :: "session \<Rightarrow> bool \<times> string" where
  "binding S = (ss_authenticated S, ss_uuid S)"

lemma binding_cleared [simp]:
  "binding (S\<lparr>ss_inflight := x, ss_inflightSeq := y\<rparr>) = binding S"
  "binding (RecordHandshake a b ts S) = binding S"
  by (simp_all add: binding_def)

lemma writeAll_session [simp]: "cn_session (snd (writeAll d c)) = cn_session c"
  by (simp add: writeAll_def Let_def)

lemma send_frame_session [simp]: "cn_session (snd (send_frame E p cmd k kk c)) = cn_session c"
  by (simp add: send_frame_def Let_def split: sum.splits)

lemma writeAll_sessionD: "writeAll d c = (b, c') \<Longrightarrow> cn_session c' = cn_session c"
  by (metis snd_conv writeAll_session)

lemma send_frame_sessionD: "send_frame E p cmd k kk c = (b, c') \<Longrightarrow> cn_session c' = cn_session c"
  by (metis snd_conv send_frame_session)

lemma downlink_loop_binding:
  "binding (cn_session (snd (downlink_loop E t n c))) = binding (cn_session c)"
proof (induction n arbitrary: c)
  case (Suc n)
  have F: "binding S = binding (cn_session c')"
    if "FailDownlink E m e now (cn_session c') w = (S, w')" for c' m e now w S w'
    using FailDownlink_session [OF that] by auto
  have R: "binding S = binding (cn_session c')"
    if "RequeueDownlink E m e now (cn_session c') w = (S, w')" for c' m e now w S w'
    using RequeueDownlink_session [OF that] by auto
  have M: "binding S = binding (cn_session c')"
    if "MarkDownlinkSent E m cmd q now (cn_session c') w = (S, w')" for c' m cmd q now w S w'
    using MarkDownlinkSent_session [OF that] by auto
  show ?case
    by (auto simp: Suc.IH Let_def split: prod.splits option.splits sum.splits bool.splits
        dest!: F R M writeAll_sessionD)
qed simp

text \<open>What a successful verification or registration shows.\<close>

lemma Session_Authenticate_bound:
  assumes W: "wired E cfg" and ok: "core_ok (lk_core w)"
    and run: "Session_Authenticate E payload key now S w = (x, S', w')" and new: "binding S' \<noteq> binding S"
  shows "\<exists>k token t md. key = Some k \<and>
    payload = authVerifyPayload (te_crypto E) k (ss_clientPubKey S) (ss_serverPubKey S) (ss_handshakeTS S) token \<and>
    db_devs (co_db (lk_core w)) (ss_uuid S') = Some (t, md) \<and>
    dm_Token md = TrimSpace (string_of_bytes token) \<and> dm_AuthenticateStatus md = Authenticated"
proof -
  let ?C = "te_crypto E"
  obtain tok where tok: "authTokenFromPayload ?C S payload key = Inr tok"
    using run new by (auto simp: Session_Authenticate_def split: option.splits sum.splits)
  then obtain k where k: "key = Some k" "32 < length payload" "tok = string_of_bytes (take (length payload - 32) payload)"
    "drop (length payload - 32) payload =
      authVerifyMAC ?C k (ss_clientPubKey S) (ss_serverPubKey S) (ss_handshakeTS S) (take (length payload - 32) payload)"
    by (auto simp: authTokenFromPayload_def Let_def split: option.splits if_splits)
  then have pl: "payload = authVerifyPayload ?C k (ss_clientPubKey S) (ss_serverPubKey S) (ss_handshakeTS S)
      (take (length payload - 32) payload)"
    by (metis append_take_drop_id authVerifyPayload_def)
  define req where "req = \<lparr>aq_Credentials = [\<lparr>cd_Type = ''token'', cd_Value = TrimSpace tok\<rparr>],
     aq_Identities = [\<lparr>id_Type = ''token'', id_Value = TrimSpace tok, id_Issuer = []\<rparr>], aq_DeviceHint = None\<rparr>"
  have pt: "presented_token req = TrimSpace tok" by (simp add: presented_token_def req_def Let_def)
  obtain resp where call: "call (AuthenticateDevice (core_services cfg) (Some req)) w = (Inr resp, w')"
      and acc: "ar_Status resp = AuthAccepted" and S': "ss_uuid S' = ar_Uuid resp"
    using run new W tok
    by (auto simp: Session_Authenticate_def wired_def NewRemote_def Remote_AuthenticateDevice_def Let_def req_def
        split: if_splits prod.splits sum.splits)
  from AuthenticateDevice_spec [OF ok call_Inr [OF call]] acc pt S'
  obtain t md where "db_devs (co_db (lk_core w)) (ss_uuid S') = Some (t, md)"
    "dm_Token md = TrimSpace tok" "dm_AuthenticateStatus md = Authenticated" by auto
  with k pl show ?thesis by blast
qed

lemma Session_Register_bound:
  assumes W: "wired E cfg" and ok: "core_ok (lk_core w)"
    and run: "Session_Register E payload now S w = (x, S', w')" and new: "binding S' \<noteq> binding S"
  shows "\<exists>dev t md. ParseRegistrationPayload payload = Inr dev \<and>
    ss_uuid S' = GenerateUUID (core_registry (kc_crypto cfg) (kc_deadline cfg)) (metadataFromDescriptor (Some dev)) \<and>
    db_devs (co_db (lk_core w)) (ss_uuid S') = Some (t, md) \<and> dm_AuthenticateStatus md = Authenticated"
proof -
  obtain dev where dev: "ParseRegistrationPayload payload = Inr dev"
    using run new by (auto simp: Session_Register_def split: option.splits sum.splits)
  define req where "req = \<lparr>rq_Device = Some (tcp_deviceDescriptor dev),
      rq_Raw = Some \<lparr>raw_ContentType = ''text/plain'', raw_Body = bytes_of_string payload, raw_Json = None, raw_Text = payload\<rparr>\<rparr>"
  have md: "metadataFromDescriptor (rq_Device req) = metadataFromDescriptor (Some dev)"
    by (simp add: metadataFromDescriptor_def req_def tcp_deviceDescriptor_def)
  obtain resp where call: "call (Core_RegisterDevice (core_services cfg) (Some req) now) w = (Inr resp, w')"
      and acc: "rr_Status resp = RegistrationAccepted" and S': "ss_uuid S' = rr_Uuid resp"
    using run new W dev
    by (auto simp: Session_Register_def wired_def NewRemote_def Remote_RegisterDevice_def Let_def req_def
        split: if_splits prod.splits sum.splits)
  from Core_RegisterDevice_accepted [OF ok call_Inr [OF call] acc] md S' dev show ?thesis by auto
qed

lemma dispatch_binding:
  assumes "dispatch E t p c = (b, c')" and "binding (cn_session c') \<noteq> binding (cn_session c)"
  shows "(CmdID p = CmdAuthVerify \<and> (\<exists>x w. Session_Authenticate E (Payload p) (cn_sessionKey c) (tu_now t)
             (cn_session c) (cn_core c) = (x, cn_session c', w))) \<or>
         (CmdID p = CmdDeviceRegister \<and> (\<exists>x w. Session_Register E (string_of_bytes (Payload p)) (tu_now t)
             (cn_session c) (cn_core c) = (x, cn_session c', w)))"
proof -
  have h: "on_handshake E t p c = (b, c') \<Longrightarrow> binding (cn_session c') = binding (cn_session c)"
    by (auto simp: on_handshake_def Let_def split: if_splits sum.splits dest: send_frame_sessionD)
  have r: "on_report E f cmd c = (b, c') \<Longrightarrow> binding (cn_session c') = binding (cn_session c)" for f cmd
    by (auto simp: on_report_def writeAck_def dest: send_frame_sessionD)
  have k: "on_rekey E t p c = (b, c') \<Longrightarrow> binding (cn_session c') = binding (cn_session c)"
    by (auto simp: on_rekey_def split: sum.splits prod.splits bool.splits dest: send_frame_sessionD)
  have d: "on_downlink_ack E t p c = (b, c') \<Longrightarrow> binding (cn_session c') = binding (cn_session c)"
    by (auto simp: on_downlink_ack_def split: prod.splits if_splits dest: HandleDownlinkAck_session)
  have v: "on_auth E t p c = (b, c') \<Longrightarrow> \<exists>x w. Session_Authenticate E (Payload p) (cn_sessionKey c) (tu_now t)
             (cn_session c) (cn_core c) = (x, cn_session c', w)"
    by (auto simp: on_auth_def answer_auth_def split: prod.splits dest: send_frame_sessionD)
  have g: "on_register E t p c = (b, c') \<Longrightarrow> \<exists>x w. Session_Register E (string_of_bytes (Payload p)) (tu_now t)
             (cn_session c) (cn_core c) = (x, cn_session c', w)"
    by (auto simp: on_register_def answer_auth_def split: prod.splits dest: send_frame_sessionD)
  show ?thesis
    using assms h r k d v g unfolding dispatch_def
    by (auto split: if_splits)
qed

section \<open>Authentication\<close>

text \<open>C3: A TCP connection is bound to a device only by the core's consent. Whatever packet is
  handled, if afterwards the session is authenticated as a device it was not bound to before, then
  the packet was either a verification whose payload carries the device's current token under the
  HMAC of this connection's own handshake, or a registration of the device of that identity, and in
  both cases the database holds the device as authenticated. While a session is not authenticated
  every packet other than handshake, verification and registration ends the connection unhandled.\<close>

theorem tcp_authentication_sound:
  assumes "wired E cfg" and "core_ok (lk_core (cn_core c))" and "handle_packet E t p c = (b, c')"
  shows "(binding (cn_session c') \<noteq> binding (cn_session c) \<longrightarrow>
      (CmdID p = CmdAuthVerify \<and> (\<exists>k token tn md. cn_sessionKey c = Some k \<and>
         Payload p = authVerifyPayload (te_crypto E) k (ss_clientPubKey (cn_session c))
           (ss_serverPubKey (cn_session c)) (ss_handshakeTS (cn_session c)) token \<and>
         devices_of c (ss_uuid (cn_session c')) = Some (tn, md) \<and>
         dm_Token md = TrimSpace (string_of_bytes token) \<and> dm_AuthenticateStatus md = Authenticated)) \<or>
      (CmdID p = CmdDeviceRegister \<and> (\<exists>dev tn md. ParseRegistrationPayload (string_of_bytes (Payload p)) = Inr dev \<and>
         ss_uuid (cn_session c') = GenerateUUID (core_registry (kc_crypto cfg) (kc_deadline cfg)) (metadataFromDescriptor (Some dev)) \<and>
         devices_of c (ss_uuid (cn_session c')) = Some (tn, md) \<and> dm_AuthenticateStatus md = Authenticated))) \<and>
    (\<not> ss_authenticated (cn_session c) \<and> CmdID p \<notin> {CmdHandshakeInit, CmdAuthVerify, CmdDeviceRegister} \<longrightarrow>
      \<not> b \<and> c' = c)"
proof -
  obtain b1 c1 where d: "dispatch E t p c = (b1, c1)" by (cases "dispatch E t p c") auto
  have guard: "\<not> ss_authenticated (cn_session c) \<and> \<not> allowed_unauthenticated p \<longrightarrow> \<not> b \<and> c' = c"
    using assms(3) by (auto simp: handle_packet_def)
  have bind: "binding (cn_session c') = binding (cn_session c1) \<or> c' = c"
    using assms(3) d downlink_loop_binding [of E t "te_DownlinkMaxBatch E" c1]
    by (auto simp: handle_packet_def split: if_splits bool.splits)
  have uuid: "ss_uuid (cn_session c') = ss_uuid (cn_session c1)"
    if "binding (cn_session c') \<noteq> binding (cn_session c)"
    using bind that by (auto simp: binding_def)
  show ?thesis
  proof (intro conjI impI)
    assume new: "binding (cn_session c') \<noteq> binding (cn_session c)"
    then have "binding (cn_session c1) \<noteq> binding (cn_session c)" using bind by auto
    with dispatch_binding [OF d this] Session_Authenticate_bound [OF assms(1,2)]
      Session_Register_bound [OF assms(1,2)]
    show "(CmdID p = CmdAuthVerify \<and> (\<exists>k token tn md. cn_sessionKey c = Some k \<and>
         Payload p = authVerifyPayload (te_crypto E) k (ss_clientPubKey (cn_session c))
           (ss_serverPubKey (cn_session c)) (ss_handshakeTS (cn_session c)) token \<and>
         devices_of c (ss_uuid (cn_session c')) = Some (tn, md) \<and>
         dm_Token md = TrimSpace (string_of_bytes token) \<and> dm_AuthenticateStatus md = Authenticated)) \<or>
      (CmdID p = CmdDeviceRegister \<and> (\<exists>dev tn md. ParseRegistrationPayload (string_of_bytes (Payload p)) = Inr dev \<and>
         ss_uuid (cn_session c') = GenerateUUID (core_registry (kc_crypto cfg) (kc_deadline cfg)) (metadataFromDescriptor (Some dev)) \<and>
         devices_of c (ss_uuid (cn_session c')) = Some (tn, md) \<and> dm_AuthenticateStatus md = Authenticated))"
      unfolding uuid [OF new] by metis
  qed (use guard in \<open>auto simp: allowed_unauthenticated_def\<close>)
qed

definition example_wired :: "core_state link tcp_env" where
  "example_wired =
     \<lparr>te_core = Some (NewRemote (core_services example_core_config)), te_normalizer = Some example_env,
      te_sourceInstance = ''n1'', te_crypto = toy_crypto, te_DownlinkMaxBatch = 1,
      te_RemoteAddr = [], te_LocalAddr = []\<rparr>"

definition example_key :: bytes where "example_key = replicate 32 7"

text \<open>A connection after its handshake, and the verification packet of device d1.\<close>

definition example_conn :: "core_state link conn" where
  "example_conn = new_conn [] \<lparr>lk_core = example_core, lk_faults = []\<rparr>
     \<lparr>cn_session := RecordHandshake [1] [2] 3 newSession, cn_sessionKey := Some example_key\<rparr>"

definition example_verify :: packet where
  "example_verify = \<lparr>CmdID = CmdAuthVerify, KeyID = 1, Sequence = 2, IsAck = False, IsEncrypted = True,
     IsCompressed = False, Payload = authVerifyPayload toy_crypto example_key [1] [2] 3 (bytes_of_string ''gt_1'')\<rparr>"

lemma example_wired_ok: "wired example_wired example_core_config"
  by (simp add: wired_def example_wired_def toy_crypto_ok)

lemma example_verified:
  obtains S w where "Session_Authenticate example_wired (Payload example_verify) (Some example_key) now
      (cn_session example_conn) (cn_core example_conn) = ((0, [], None), S, w)"
    and "ss_authenticated S"
proof -
  let ?S = "cn_session example_conn"
  have tok: "authTokenFromPayload toy_crypto ?S (Payload example_verify) (Some example_key) = Inr ''gt_1''"
    by code_simp
  have tr: "TrimSpace ''gt_1'' = ''gt_1''" by code_simp
  define req where "req = \<lparr>aq_Credentials = [\<lparr>cd_Type = ''token'', cd_Value = ''gt_1''\<rparr>],
     aq_Identities = [\<lparr>id_Type = ''token'', id_Value = ''gt_1'', id_Issuer = []\<rparr>], aq_DeviceHint = None\<rparr>"
  have pt: "presented_token req = ''gt_1''" by (simp add: presented_token_def req_def Let_def tr)
  obtain r s' where run: "AuthenticateDevice (core_services example_core_config) (Some req) example_core = (r, s')"
    by (cases "AuthenticateDevice (core_services example_core_config) (Some req) example_core") auto
  have "map_option (\<lambda>(t, md). (dm_Token md, dm_AuthenticateStatus md)) (db_devs (co_db example_core) ''d1'') =
      Some (''gt_1'', Authenticated)" by code_simp
  then obtain a where a: "r = Inr a" "ar_Status a = AuthAccepted"
    using AuthenticateDevice_spec [OF example_core_ok run] pt by auto
  have call: "call (AuthenticateDevice (core_services example_core_config) (Some req)) (cn_core example_conn) =
      (Inr a, \<lparr>lk_core = s', lk_faults = []\<rparr>)"
    using run a by (simp add: call_def Let_def example_conn_def new_conn_def)
  have "Session_Authenticate example_wired (Payload example_verify) (Some example_key) now
      (cn_session example_conn) (cn_core example_conn) =
      ((0, [], None), bindDevice (ar_Uuid a) (ar_TenantId a) (uuid_identity (ar_Uuid a)) ?S, \<lparr>lk_core = s', lk_faults = []\<rparr>)"
    using call a tok
    by (simp add: Session_Authenticate_def example_wired_def NewRemote_def Remote_AuthenticateDevice_def tr Let_def req_def)
  then show thesis by (rule that) simp
qed

text \<open>The verification of device d1 binds the session to an authenticated device.\<close>

theorem tcp_authentication_sound_witness:
  "\<exists>tn md. devices_of example_conn (ss_uuid (cn_session (snd (handle_packet example_wired (example_turns 0)
      example_verify example_conn)))) = Some (tn, md) \<and> dm_AuthenticateStatus md = Authenticated"
proof -
  let ?h = "handle_packet example_wired (example_turns 0) example_verify example_conn"
  have ok: "core_ok (lk_core (cn_core example_conn))"
    by (simp add: example_conn_def new_conn_def example_core_ok)
  obtain S w where S: "Session_Authenticate example_wired (Payload example_verify) (Some example_key)
      (tu_now (example_turns 0)) (cn_session example_conn) (cn_core example_conn) = ((0, [], None), S, w)"
    "ss_authenticated S" by (rule example_verified)
  have k: "cn_sessionKey example_conn = Some example_key" by (simp add: example_conn_def)
  obtain b c1 where c1: "send_frame example_wired [0] CmdAuthAck 1 (Some example_key)
      (example_conn\<lparr>cn_session := S, cn_core := w\<rparr>) = (b, c1)"
    by (cases "send_frame example_wired [0] CmdAuthAck 1 (Some example_key)
      (example_conn\<lparr>cn_session := S, cn_core := w\<rparr>)") auto
  then have s1: "cn_session c1 = S" using send_frame_sessionD by fastforce
  have d: "dispatch example_wired (example_turns 0) example_verify example_conn = (b, c1)"
    using S c1 by (simp add: dispatch_def on_auth_def answer_auth_def example_verify_def cmd_defs k)
  have al: "allowed_unauthenticated example_verify"
    by (simp add: allowed_unauthenticated_def example_verify_def)
  have "binding (cn_session (snd ?h)) = binding S"
    using downlink_loop_binding [of example_wired "example_turns 0" "te_DownlinkMaxBatch example_wired" c1] s1
    by (cases b) (simp_all add: handle_packet_def d al S(2))
  moreover have "binding S \<noteq> binding (cn_session example_conn)"
    using S(2) by (simp add: binding_def example_conn_def newSession_def RecordHandshake_def)
  ultimately have "binding (cn_session (snd ?h)) \<noteq> binding (cn_session example_conn)" by simp
  with tcp_authentication_sound [OF example_wired_ok ok surjective_pairing [of ?h]] show ?thesis by blast
qed

section \<open>Downlink commands\<close>

text \<open>The command an adapter executes for a queued message.\<close>

definition delivered :: "string \<Rightarrow> string \<Rightarrow> downlink_message \<Rightarrow> adapter_command" where
  "delivered u t m =
     \<lparr>ac_CommandID = dl_CommandID m, ac_CommandUUID = [], ac_TenantID = t, ac_UUID = u,
      ac_Operation = operationName (dl_CmdID m), ac_ProtocolCommandCode = ucast (dl_CmdID m),
      ac_Target = \<lparr>id_Type = ''uuid'', id_Value = u, id_Issuer = []\<rparr>, ac_Payload = dl_Payload m,
      ac_PayloadContentType = octet_stream,
      ac_Properties = [], ac_Options = Some (structWithCommandCode (dl_CmdID m)), ac_Timeout = 0,
      ac_MaxAttempts = 0, ac_Labels = []\<rparr>"

lemma NormalizeCommand_canonical:
  "NormalizeCommand N (Some (canonicalCommand u t m)) = Inr (delivered u t m)"
  by (simp add: NormalizeCommand_def rawPayload_def canonicalCommand_def delivered_def octet_stream_def
      cloneStringMap_def structToMap_def)

lemma ucast_code [simp]: "ucast (ucast (c :: 16 word) :: 32 word) = (c :: 16 word)"
  by (rule bit_word_eqI) (simp add: bit_simps)

lemma ucast_code_eq_0 [simp]: "(ucast (c :: 16 word) :: 32 word) = 0 \<longleftrightarrow> c = 0"
  by (metis ucast_code ucast_0)

lemma delivered_sel [simp]:
  "ac_CommandID (delivered u t m) = dl_CommandID m" "ac_UUID (delivered u t m) = u"
  "ac_Payload (delivered u t m) = dl_Payload m"
  by (simp_all add: delivered_def)

lemma resolve_delivered:
  "IsDownlinkCommand (dl_CmdID m) \<Longrightarrow> resolveDownlinkCmd (delivered u t m) = (dl_CmdID m, True)"
  by (simp add: resolveDownlinkCmd_def delivered_def IsDownlinkCommand_nonzero)

text \<open>C15: A command queued in the core reaches the device unchanged: its canonical form is normalized
  without error to the adapter command with the same id, code and payload, the code maps to itself,
  and when the payload fits in a frame the frame packed for it, encrypted or not, is read back by the
  device as that code and exactly the queued payload.\<close>

theorem command_reaches_device:
  assumes "crypto_ok C" and "IsDownlinkCommand (dl_CmdID m)" and "length (dl_Payload m) \<le> MaxPayloadSize"
    and "key = None \<or> aes_key_ok (the key)"
  shows "\<exists>cmd f. NormalizeCommand N (Some (canonicalCommand u t m)) = Inr cmd \<and>
    ac_CommandID cmd = dl_CommandID m \<and> ac_UUID cmd = u \<and> resolveDownlinkCmd cmd = (dl_CmdID m, True) \<and>
    Pack C (ac_Payload cmd) (dl_CmdID m) 1 key seq False = Inr f \<and>
    Unpack C (f @ rest) key = (Inr \<lparr>CmdID = dl_CmdID m, KeyID = 1, Sequence = seq, IsAck = False,
      IsEncrypted = (key \<noteq> None), IsCompressed = False, Payload = dl_Payload m\<rparr>, rest)"
proof -
  obtain f where f: "Pack C (dl_Payload m) (dl_CmdID m) 1 key seq False = Inr f"
    using Pack_result [OF assms(1), of "dl_Payload m" "dl_CmdID m" 1 key seq False] assms(3,4) by auto
  show ?thesis
    by (intro exI [of _ "delivered u t m"] exI [of _ f])
       (simp add: NormalizeCommand_canonical resolve_delivered [OF assms(2)] f Unpack_Pack [OF assms(1) f])
qed

theorem command_reaches_device_witness:
  "\<exists>cmd. NormalizeCommand example_env (Some (canonicalCommand ''d1'' [] \<lparr>dl_CommandID = 7, dl_CmdID = 0x0203, dl_Payload = [1, 2]\<rparr>)) = Inr cmd \<and>
     resolveDownlinkCmd cmd = (0x0203, True)"
  using command_reaches_device [OF toy_crypto_ok, of "\<lparr>dl_CommandID = 7, dl_CmdID = 0x0203, dl_Payload = [1, 2]\<rparr>"
      None example_env "''d1''" "[]" 5 "[]"]
  by (auto simp: IsDownlinkCommand_def cmd_defs MaxPayloadSize_def)

lemma UpdateDeviceCommandStatus_known:
  assumes "faults d = []" and "db_command d i \<noteq> None" and "0 < i" and "isValidDeviceCommandStatus st"
  shows "fst (UpdateDeviceCommandStatus i st msg now d) = Inr ()"
proof -
  obtain r where "find (\<lambda>r. c_ID r = i) (t_commands (tabs d)) = Some r"
    using assms(2) by (auto simp: db_command_def)
  from find_SomeD [OF this] have "filter (\<lambda>r. c_ID r = i) (t_commands (tabs d)) \<noteq> []"
    by (auto simp: filter_empty_conv)
  with assms show ?thesis
    by (auto simp: UpdateDeviceCommandStatus_def Let_def bindE_def run_stmt_def returnE_def)
qed

lemma core_requeue_delivered:
  assumes "IsDownlinkCommand (dl_CmdID m)" and "dl_Payload m \<noteq> []" and "0 < dl_CommandID m"
    and "TrimSpace u = u" and "u \<noteq> []"
  shows "core_requeue K (command_update PCommandRequeued (delivered u t m) (dl_CmdID m) e now S) now' =
    k_Requeue K u m now'"
proof -
  have [simp]: "cc_ProtocolCommandCode (canonicalCommandFromAdapter (delivered u t m) (dl_CmdID m)) = ucast (dl_CmdID m)"
    "cc_Uuid (canonicalCommandFromAdapter (delivered u t m) (dl_CmdID m)) = u"
    "rawPayloadBytes M (cc_Payload (canonicalCommandFromAdapter (delivered u t m) (dl_CmdID m))) = dl_Payload m" for M
    using assms(2) by (simp_all add: canonicalCommandFromAdapter_def delivered_def rawPayloadBytes_def)
  have msg: "\<lparr>dl_CommandID = dl_CommandID m, dl_CmdID = dl_CmdID m, dl_Payload = dl_Payload m\<rparr> = m" by (cases m) simp
  show ?thesis
    using assms IsDownlinkCommand_nonzero [OF assms(1)]
    by (simp add: core_requeue_def command_update_def update_status_request_def rawPayloadBytes_def [of _ None] Let_def)
       (simp only: msg)
qed

text \<open>Requeueing in the core: the queue first, then the record.\<close>

lemma core_Requeue_spec:
  assumes "mq_bounded (co_queue s)" and "0 < dl_CommandID m"
    and "k_Requeue (core_services cfg) u m now s = (r, s')"
  shows "\<exists>k. length (mq_pending (co_queue s) u) \<le> k + 1 \<and>
      mq_pending (co_queue s') u = m # take k (mq_pending (co_queue s) u)"
    and "v \<noteq> u \<Longrightarrow> mq_pending (co_queue s') v = mq_pending (co_queue s) v"
    and "UpdateDeviceCommandStatus (dl_CommandID m) CmdQueued [] now (co_db s) = (r, co_db s')"
proof -
  define n where "n = (if mq_full (co_queue s) (mq_pending (co_queue s) u)
      then length (mq_pending (co_queue s) u) - 1 else length (mq_pending (co_queue s) u))"
  obtain d where d: "UpdateDeviceCommandStatus (dl_CommandID m) CmdQueued [] now (co_db s) = (r, d)"
      "s' = s\<lparr>co_db := d, co_queue := (co_queue s)\<lparr>mq_queues := (mq_queues (co_queue s))
          (u \<mapsto> m # take n (mq_pending (co_queue s) u))\<rparr>\<rparr>"
    using assms(2,3)
    by (cases "UpdateDeviceCommandStatus (dl_CommandID m) CmdQueued [] now (co_db s)")
       (auto simp: core_services_def Let_def with_downlink_def Downlink_Requeue_def sql_downlink_def
          on_queue_def memory_queue_ops_def mq_Requeue_pending [OF assms(1)] catchE_def bindE_def
          mark_status_def on_repo_def command_repository_def n_def)
  show "\<exists>k. length (mq_pending (co_queue s) u) \<le> k + 1 \<and>
      mq_pending (co_queue s') u = m # take k (mq_pending (co_queue s) u)"
    by (rule exI [of _ n]) (auto simp: d(2) n_def)
  show "v \<noteq> u \<Longrightarrow> mq_pending (co_queue s') v = mq_pending (co_queue s) v" by (simp add: d(2))
  show "UpdateDeviceCommandStatus (dl_CommandID m) CmdQueued [] now (co_db s) = (r, co_db s')"
    by (simp add: d)
qed



section \<open>Telemetry\<close>

text \<open>The rows a metrics frame stands for.\<close>

definition sample_time :: "64 word \<Rightarrow> 32 word \<Rightarrow> nat \<Rightarrow> int" where
  "sample_time ts iv i = sint (ts + word_of_nat i * ucast iv)"

definition sample_rows ::
    "string \<Rightarrow> string \<Rightarrow> 64 word \<Rightarrow> 32 word \<Rightarrow> byte \<Rightarrow> float32 list \<Rightarrow> metric_row list" where
  "sample_rows u tenant ts iv ty vs =
     map (\<lambda>i. \<lparr>mr_UUID = u, mr_TenantID = tenant, mr_TS = sample_time ts iv i, mr_Value = vs ! i,
                mr_Type = ty\<rparr>) [0..<length vs]"

lemma metricPoints_simps:
  "metricPoints [] now = []"
  "metricPoints (Some m # ms) now = \<lparr>m_Timestamp = timestampMillis (as_time (pm_ObservedAt m)) now,
     m_Value = f32_of_f64 (number_value (pm_Value m)), m_Type = ucast (pm_LegacyMetricType m)\<rparr> # metricPoints ms now"
  by (simp_all add: metricPoints_def)

lemma p_metrics_simps:
  "p_metrics N now [] = []"
  "p_metrics N now (x # xs) = Some \<lparr>pm_Name = mp_Name x, pm_Value = p_value_of N (mp_Value x),
     pm_Unit = mp_Unit x, pm_ObservedAt = Some (or_now now (mp_ObservedAt x)),
     pm_LegacyMetricType = mp_LegacyMetricType x, pm_Tags = cloneStringMap (mp_Tags x)\<rparr> # p_metrics N now xs"
  by (simp_all add: p_metrics_def)

lemma metricPoints_samples:
  assumes "\<And>i. i \<in> set xs \<Longrightarrow> \<not> f32_is_nan (vs ! i) \<and> metric_time ts iv i \<noteq> zero_time"
  shows "metricPoints (p_metrics N now (map (\<lambda>i. \<lparr>mp_Name = name, mp_Value = no_value\<lparr>v_Number := Some (f64_of_f32 (vs ! i))\<rparr>,
      mp_Unit = unit, mp_ObservedAt = metric_time ts iv i, mp_LegacyMetricType = ucast (ty :: byte), mp_Tags = []\<rparr>) xs)) now' =
    map (\<lambda>i. \<lparr>m_Timestamp = sample_time ts iv i, m_Value = vs ! i, m_Type = ty\<rparr>) xs"
proof -
  have "ucast (ucast ty :: 32 word) = ty" by (rule bit_word_eqI) (simp add: bit_simps)
  moreover have "UnixMilli (metric_time ts iv i) = sample_time ts iv i" for i
    by (simp add: metric_time_def sample_time_def)
  moreover have "metric_time ts iv i \<noteq> zero_time \<Longrightarrow>
      timestampMillis (as_time (Some (or_now now (metric_time ts iv i)))) now' = UnixMilli (metric_time ts iv i)" for i
    by (simp add: as_time_def timestampMillis_def)
  moreover have "number_value (p_value_of N (no_value\<lparr>v_Number := Some x\<rparr>)) = x" for x
    by (simp add: number_value_def p_value_of_def)
  ultimately show ?thesis
    using assms by (induction xs) (simp_all add: metricPoints_simps p_metrics_simps f32_of_f64_of_f32)
qed

text \<open>One event with metrics only, handled by the core.\<close>

lemma ingest_metrics_event:
  assumes "de_EventType d = EventTelemetry" and "de_Metrics d \<noteq> []" and "de_Logs d = []"
    and "de_CommandReceipt d = None" and "event_uuid d = u" and "u \<noteq> []"
    and run: "IngestEvents (core_services cfg) (Some \<lparr>iq_Events = [Some d], iq_AllowPartialSuccess = True\<rparr>) now s = (r, s')"
    and bm: "BatchAppendMetrics device_ResolveDeviceTenant u (metricPoints (de_Metrics d) now) (co_db s) = (x, db')"
  shows "(\<exists>rs. r = Inr rs) \<and> tabs (co_db s') = tabs db'"
proof -
  let ?K = "core_services cfg"
  have one: "ingestOne ?K u d now s = (x, s\<lparr>co_db := db'\<rparr>)"
    using assms(1-4) bm
    by (cases x) (auto simp: ingestOne_def core_services_def Let_def with_db_def bindE_def IngestMetrics_def
        telemetry_repository_def returnE_def)
  obtain t s2 where t: "resolveTenant ?K u (s\<lparr>co_db := db'\<rparr>) = (t, s2)"
    by (cases "resolveTenant ?K u (s\<lparr>co_db := db'\<rparr>)") auto
  have "tabs (co_db s2) = tabs db'" using core_resolve [OF t] by simp
  moreover have "\<exists>res. ingest_event ?K (Some d) now s = (res, s2)"
    using one t assms(5,6) by (cases x) (auto simp: ingest_event_def Let_def)
  then have "s' = s2 \<and> (\<exists>rs. r = Inr rs)"
    using run by (auto simp: IngestEvents_def split: prod.splits)
  ultimately show ?thesis by simp
qed

lemma BatchAppendMetrics_reliable:
  assumes "faults d = []"
  shows "fst (BatchAppendMetrics device_ResolveDeviceTenant u ps d) = Inr ()"
proof -
  obtain t d1 where t: "tenant_or_default device_ResolveDeviceTenant u d = (t, d1)"
    by (cases "tenant_or_default device_ResolveDeviceTenant u d") auto
  then have "faults d1 = []"
    using assms by (auto simp: tenant_or_default_def device_ResolveDeviceTenant_def bindE_def run_query_def run_stmt_def
        returnE_def failE_def split: option.splits if_splits sum.splits prod.splits)
  with t show ?thesis
    by (simp add: BatchAppendMetrics_def Let_def run_tx_def run_query_def run_stmt_def)
qed

text \<open>C7: The samples of a metrics frame arrive in the database exactly. When an authenticated session
  handles a frame whose payload encodes start time, interval, type and float32 values, the metrics
  table of the core is afterwards either as before or extended by one row per sample, in order, with
  the device of the session, the device's tenant, the wrapped arithmetic time of the sample, its type
  and the same 32 bits of its value; with a working link and database it is extended. (Values that
  are not numbers and the one instant that means no time are excluded.)\<close>

theorem telemetry_end_to_end:
  assumes W: "te_core E = Some (NewRemote (core_services cfg))" and N: "te_normalizer E = Some N"
    and S: "ss_authenticated S" "ss_uuid S \<noteq> []"
    and P: "Payload p = metrics_payload ts iv ty vs" "length vs < 2 ^ 32" "legacyMetricName ty = (name, unit, True)"
    and V: "\<forall>i < length vs. \<not> f32_is_nan (vs ! i) \<and> metric_time ts iv i \<noteq> zero_time" "vs \<noteq> []"
    and run: "Session_HandleMetrics E p now S w = (r, w')"
  shows "let old = t_metrics (tabs (co_db (lk_core w)));
             new = old @ sample_rows (ss_uuid S)
               (fst (tenant_or_default device_ResolveDeviceTenant (ss_uuid S) (co_db (lk_core w)))) ts iv ty vs
         in t_metrics (tabs (co_db (lk_core w'))) \<in> {old, new} \<and>
            (lk_faults w = [] \<and> faults (co_db (lk_core w)) = [] \<longrightarrow>
               r = Inr () \<and> t_metrics (tabs (co_db (lk_core w'))) = new)"
proof -
  let ?u = "ss_uuid S" and ?K = "core_services cfg"
  define pts where "pts = map (\<lambda>i. \<lparr>mp_Name = name, mp_Value = no_value\<lparr>v_Number := Some (f64_of_f32 (vs ! i))\<rparr>,
      mp_Unit = unit, mp_ObservedAt = metric_time ts iv i, mp_LegacyMetricType = ucast ty, mp_Tags = []\<rparr>) [0..<length vs]"
  have parse: "ParseMetricsPayload (Payload p) = Inr pts"
    unfolding P(1) pts_def by (rule ParseMetricsPayload_encode [OF P(2,3)])
  define ev where "ev = report_event E (Some p) (report_of ''telemetry'' p S\<lparr>ev_Metrics := pts\<rparr>) now S"
  have ev: "ev_Attributes ev = None" "ev_Kind ev = ''telemetry''" "ev_UUID ev = ?u" "ev_Metrics ev = pts"
    "ev_Log ev = None" "ev_Receipt ev = None"
    by (simp_all add: ev_def report_event_def report_of_def no_event_def)
  obtain d where d: "NormalizeEvent N (te_sourceInstance E) ev now = Inr d"
    using NormalizeEvent_Inr [of N "te_sourceInstance E" ev now] ev(1) by auto
  note parts = NormalizeEvent_parts [OF d, unfolded ev]
  have "mapEventType ''telemetry'' = EventTelemetry" by code_simp
  then have dd: "de_EventType d = EventTelemetry" "de_Metrics d \<noteq> []" "de_Logs d = []" "de_CommandReceipt d = None"
    "event_uuid d = ?u"
    using parts(3,5,6,7,8) V(2) S(2)
    by (auto simp: pts_def p_metrics_def p_logs_def p_receipt_of_def event_uuid_def first_uuid_def)
  define ps where "ps = metricPoints (de_Metrics d) now"
  have ps: "ps = map (\<lambda>i. \<lparr>m_Timestamp = sample_time ts iv i, m_Value = vs ! i, m_Type = ty\<rparr>) [0..<length vs]"
    unfolding ps_def parts(6) pts_def using V(1) by (intro metricPoints_samples) auto
  have rows: "map (metric_row_of ?u t) ps = sample_rows ?u t ts iv ty vs" for t
    by (simp add: ps sample_rows_def metric_row_of_def)
  define f where "f = IngestEvents ?K (Some \<lparr>iq_Events = [Some d], iq_AllowPartialSuccess = True\<rparr>) now"
  obtain x db' where bm: "BatchAppendMetrics device_ResolveDeviceTenant ?u ps (co_db (lk_core w)) = (x, db')"
    by (cases "BatchAppendMetrics device_ResolveDeviceTenant ?u ps (co_db (lk_core w))") auto
  obtain y s' where fs: "f (lk_core w) = (y, s')" by (cases "f (lk_core w)") auto
  from ingest_metrics_event [OF dd S(2) fs [unfolded f_def] bm [unfolded ps_def]]
  have s': "\<exists>rs. y = Inr rs" "tabs (co_db s') = tabs db'" by auto
  obtain z w1 where c: "call f w = (z, w1)" by (cases "call f w") auto
  have rw: "w' = w1" "r = (case z of Inl e \<Rightarrow> Inl e | Inr _ \<Rightarrow> Inr ())"
    using run S(1) parse c
    by (cases z; simp add: Session_HandleMetrics_def ingestEvent_def W N ev_def [symmetric] d NewRemote_def
        Remote_IngestEvents_def f_def bindE_def returnE_def)+
  have core: "lk_core w1 = lk_core w \<or> lk_core w1 = s'" using call_core [of f w] by (simp add: c fs)
  from BatchAppendMetrics_spec [OF device_resolver_reads bm]
  have cases: "(\<exists>e. x = Inl e) \<and> t_metrics (tabs db') = t_metrics (tabs (co_db (lk_core w))) \<or>
      x = Inr () \<and> t_metrics (tabs db') = t_metrics (tabs (co_db (lk_core w))) @
        sample_rows ?u (fst (tenant_or_default device_ResolveDeviceTenant ?u (co_db (lk_core w)))) ts iv ty vs"
    by (cases x) (auto simp: rows)
  have rel: "lk_faults w = [] \<Longrightarrow> lk_core w1 = s' \<and> (\<exists>rs. z = Inr rs)"
    using s'(1) c fs by (auto simp: call_def Let_def)
  have "faults (co_db (lk_core w)) = [] \<Longrightarrow> x = Inr ()"
    using BatchAppendMetrics_reliable [of "co_db (lk_core w)" ?u ps] bm by simp
  then show ?thesis
    unfolding Let_def using core cases rel rw s'(2) by auto
qed

definition example_metrics_packet :: packet where
  "example_metrics_packet = \<lparr>CmdID = CmdMetricsReport, KeyID = 1, Sequence = 3, IsAck = False, IsEncrypted = True,
     IsCompressed = False, Payload = metrics_payload 1000 10 1 [f32_one, 0]\<rparr>"

text \<open>Two samples of a session of device d1.\<close>

theorem telemetry_end_to_end_witness:
  "t_metrics (tabs (co_db (lk_core (snd (Session_HandleMetrics example_wired example_metrics_packet 5
      (newSession\<lparr>ss_authenticated := True, ss_uuid := ''d1''\<rparr>) \<lparr>lk_core = example_core, lk_faults = []\<rparr>))))) =
   sample_rows ''d1'' ''tenant_legacy'' 1000 10 1 [f32_one, 0]"
proof -
  let ?S = "newSession\<lparr>ss_authenticated := True, ss_uuid := ''d1''\<rparr>"
  let ?w = "\<lparr>lk_core = example_core, lk_faults = []\<rparr>"
  have W: "te_core example_wired = Some (NewRemote (core_services example_core_config))"
    "te_normalizer example_wired = Some example_env" by (simp_all add: example_wired_def)
  have n: "legacyMetricName 1 = (''temperature'', degree_celsius, True)" by code_simp
  have v: "\<not> f32_is_nan f32_one" "\<not> f32_is_nan 0"
    by (simp_all add: f32_is_nan_def f32_parts_def f32_one_def)
  have t: "metric_time 1000 10 i \<noteq> zero_time" if "i < 2" for i
    using that less_2_cases [of i] by (auto simp: metric_time_def time_UnixMilli_def zero_time_def)
  have V: "\<forall>i < length [f32_one, 0]. \<not> f32_is_nan ([f32_one, 0] ! i) \<and> metric_time 1000 10 i \<noteq> zero_time"
    using v t by (auto simp: less_Suc_eq)
  have e: "t_metrics (tabs (co_db example_core)) = []" "faults (co_db example_core) = []"
    by (simp_all add: example_core_def example_db_def empty_tables_def)
  have tn: "fst (tenant_or_default device_ResolveDeviceTenant ''d1'' (co_db example_core)) = ''tenant_legacy''"
    by code_simp
  from telemetry_end_to_end [OF W, where S = ?S and p = example_metrics_packet and ts = 1000 and iv = 10
      and ty = 1 and vs = "[f32_one, 0]" and w = ?w and now = 5, OF _ _ _ _ n V _ surjective_pairing]
  show ?thesis by (simp add: example_metrics_packet_def e tn Let_def)
qed

section \<open>Registration without a handshake\<close>

text \<open>C37: A device that registers before any handshake is answered in plaintext: when the core accepts
  it, the device token goes over the wire unencrypted, in a frame that anyone can read without a
  key. (The protocol description says that the answer is encrypted.)\<close>

theorem register_without_handshake_exposes_token:
  assumes "crypto_ok (te_crypto E)" and "te_core E = Some K" and "cn_sessionKey c = None" and "cn_writes c = []"
    and "CmdID p = CmdDeviceRegister" and "ParseRegistrationPayload (string_of_bytes (Payload p)) = Inr dev"
    and "rpc_RegisterDevice K \<lparr>rq_Device = Some (tcp_deviceDescriptor dev),
           rq_Raw = Some \<lparr>raw_ContentType = ''text/plain'', raw_Body = Payload p, raw_Json = None,
             raw_Text = string_of_bytes (Payload p)\<rparr>\<rparr> (tu_now t) (cn_core c) = (Inr resp, w)"
    and "rr_Status resp = RegistrationAccepted" and "rr_Credential resp = Some cred"
    and "length (cd_Value cred) < MaxPayloadSize"
  shows "\<exists>f pkt. cn_sent (snd (dispatch E t p c)) = cn_sent c @ [f] \<and>
    Unpack (te_crypto E) f None = (Inr pkt, []) \<and> \<not> IsEncrypted pkt \<and>
    Payload pkt = 0x00 # bytes_of_string (cd_Value cred)"
proof -
  have r: "Session_Register E (string_of_bytes (Payload p)) (tu_now t) (cn_session c) (cn_core c) =
      ((0x00, bytes_of_string (cd_Value cred), None),
       bindDevice (rr_Uuid resp) (rr_TenantId resp) (uuid_identity (rr_Uuid resp)) (cn_session c), w)"
    using assms by (simp add: Session_Register_def)
  obtain f where f: "Pack (te_crypto E) (0x00 # bytes_of_string (cd_Value cred)) CmdAuthAck 1 None (cn_writeSeq c + 1) True = Inr f"
    using Pack_result [OF assms(1), of "0x00 # bytes_of_string (cd_Value cred)" CmdAuthAck 1 None "cn_writeSeq c + 1" True]
      assms(10) by auto
  have "cn_sent (snd (dispatch E t p c)) = cn_sent c @ [f]"
    using assms(3-5) f [unfolded cmd_defs]
    by (simp add: dispatch_def cmd_defs on_register_def r answer_auth_def send_frame_def Let_def writeAll_def split: prod.splits)
  with Unpack_Pack [OF assms(1) f, of None "[]"] show ?thesis by auto
qed

definition example_register_packet :: packet where
  "example_register_packet = \<lparr>CmdID = CmdDeviceRegister, KeyID = 0, Sequence = 1, IsAck = False,
     IsEncrypted = False, IsCompressed = False, Payload = example_registration\<rparr>"

theorem register_without_handshake_exposes_token_witness:
  "\<exists>f pkt. cn_sent (snd (dispatch example_tcp (example_turns 0) example_register_packet (new_conn [] ()))) = [f] \<and>
    Unpack toy_crypto f None = (Inr pkt, []) \<and> \<not> IsEncrypted pkt \<and> Payload pkt = 0x00 # bytes_of_string ''gt_1''"
proof -
  obtain dev where dev: "ParseRegistrationPayload (string_of_bytes (Payload example_register_packet)) = Inr dev"
  proof -
    have "\<not> isl (ParseRegistrationPayload (string_of_bytes (Payload example_register_packet)))" by code_simp
    with that show thesis by (cases "ParseRegistrationPayload (string_of_bytes (Payload example_register_packet))") auto
  qed
  have E: "te_core example_tcp = Some example_client" "te_crypto example_tcp = toy_crypto" "crypto_ok (te_crypto example_tcp)"
    by (simp_all add: example_tcp_def toy_crypto_ok)
  have c: "cn_sessionKey (new_conn [] ()) = None" "cn_writes (new_conn [] ()) = []" "cn_sent (new_conn [] ()) = []"
    by (simp_all add: new_conn_def)
  have p: "CmdID example_register_packet = CmdDeviceRegister" by (simp add: example_register_packet_def)
  define resp where "resp = \<lparr>rr_Status = RegistrationAccepted, rr_Uuid = ''d1'', rr_TenantId = [],
        rr_Credential = Some \<lparr>cd_Type = ''token'', cd_Value = ''gt_1''\<rparr>, rr_Reason = [], rr_Device = None\<rparr>"
  have r: "rpc_RegisterDevice example_client q now w = (Inr resp, w)" for q now w
    by (simp add: example_client_def resp_def)
  from register_without_handshake_exposes_token [OF E(3,1) c(1,2) p dev r, of "\<lparr>cd_Type = ''token'', cd_Value = ''gt_1''\<rparr>" "example_turns 0"]
  show ?thesis by (simp add: resp_def MaxPayloadSize_def E(2) c(3))
qed

end
