(* ===== verification/TcpTermination.thy ===== *)
theory TcpTermination
  imports TcpInvariants
begin

text \<open>
  The work one TCP connection can cause: the loop of \<^verbatim>\<open>handleConnection\<close> ends on every input, after a
  number of packets and frames that the input and the batch size bound.
\<close>

definition sent_count :: "'w conn \<Rightarrow> nat" where
  "sent_count c = length (cn_sent c)"

lemma sent_count_update [simp]:
  "sent_count (c\<lparr>cn_session := S\<rparr>) = sent_count c" "sent_count (c\<lparr>cn_core := w\<rparr>) = sent_count c"
  "sent_count (c\<lparr>cn_sessionKey := k\<rparr>) = sent_count c" "sent_count (c\<lparr>cn_writeSeq := q\<rparr>) = sent_count c"
  "sent_count (new_conn ws w) = 0"
  by (simp_all add: sent_count_def new_conn_def)

lemma writeAll_sent: "writeAll d c = (b, c') \<Longrightarrow> sent_count c' \<le> Suc (sent_count c)"
  by (auto simp: writeAll_def Let_def sent_count_def split: if_splits)

lemma send_frame_sent: "send_frame E p cmd k key c = (b, c') \<Longrightarrow> sent_count c' \<le> Suc (sent_count c)"
  by (auto simp: send_frame_def Let_def split: sum.splits dest: writeAll_sent)

text \<open>Each packet is answered by one frame at most.\<close>

lemma dispatch_sent:
  assumes "dispatch E t p c = (b, c')"
  shows "sent_count c' \<le> Suc (sent_count c)"
proof -
  note sf = send_frame_sent
  have "on_handshake E t p c = (b, c') \<Longrightarrow> sent_count c' \<le> Suc (sent_count c)"
    by (auto simp: on_handshake_def Let_def split: if_splits sum.splits dest: sf)
  moreover have "answer_auth E r c = (b, c') \<Longrightarrow> sent_count c' \<le> Suc (sent_count c)" for r
    by (auto simp: answer_auth_def split: prod.splits dest: sf)
  moreover have "on_report E h cmd c = (b, c') \<Longrightarrow> sent_count c' \<le> Suc (sent_count c)" for h cmd
    by (auto simp: on_report_def writeAck_def dest: sf)
  moreover have "on_rekey E t p c = (b, c') \<Longrightarrow> sent_count c' \<le> Suc (sent_count c)"
    by (auto simp: on_rekey_def split: sum.splits prod.splits bool.splits dest: sf)
  moreover have "on_downlink_ack E t p c = (b, c') \<Longrightarrow> sent_count c' \<le> Suc (sent_count c)"
    by (auto simp: on_downlink_ack_def split: prod.splits if_splits)
  ultimately show ?thesis
    using assms unfolding dispatch_def on_auth_def on_register_def by (auto split: if_splits)
qed

lemma downlink_loop_sent: "downlink_loop E t n c = (b, c') \<Longrightarrow> sent_count c' \<le> sent_count c + n"
proof (induction n arbitrary: c b c')
  case (Suc n)
  have R: "sent_count c2 \<le> sent_count c1 + n" if "downlink_loop E t n c1 = (b2, c2)" for c1 b2 c2
    using Suc.IH [OF that] .
  have W: "sent_count c2 \<le> Suc (sent_count c1)" if "writeAll d c1 = (b2, c2)" for d c1 b2 c2
    using writeAll_sent [OF that] .
  show ?case
    using Suc.prems
    by (auto simp: Let_def split: prod.splits option.splits sum.splits bool.splits
        dest!: R W)
qed simp

lemma handle_packet_sent:
  assumes "handle_packet E t p c = (b, c')"
  shows "sent_count c' \<le> sent_count c + Suc (te_DownlinkMaxBatch E)"
proof (cases "\<not> ss_authenticated (cn_session c) \<and> \<not> allowed_unauthenticated p")
  case False
  obtain b1 c1 where d: "dispatch E t p c = (b1, c1)" by (cases "dispatch E t p c")
  have c1: "sent_count c1 \<le> Suc (sent_count c)" by (rule dispatch_sent [OF d])
  show ?thesis
  proof (cases "b1 \<and> ss_authenticated (cn_session c1)")
    case True
    with assms False d have "downlink_loop E t (te_DownlinkMaxBatch E) c1 = (b, c')"
      by (auto simp: handle_packet_def split: bool.splits)
    from downlink_loop_sent [OF this] c1 show ?thesis by simp
  next
    case False
    with assms \<open>\<not> (\<not> ss_authenticated (cn_session c) \<and> \<not> allowed_unauthenticated p)\<close> d have "c' = c1"
      by (auto simp: handle_packet_def split: bool.splits if_splits)
    with c1 show ?thesis by simp
  qed
qed (use assms in \<open>simp add: handle_packet_def\<close>)

text \<open>A packet takes at least the header and the footer of a frame from the input.\<close>

lemma Unpack_takes:
  assumes "Unpack C r key = (Inr p, r')"
  shows "length r' + 48 \<le> length r"
proof -
  obtain x r1 where x: "ReadFull HeaderSize r = (x, r1)" by (cases "ReadFull HeaderSize r") auto
  show ?thesis
  proof (cases x)
    case (Inl e)
    with x assms show ?thesis by (simp add: Unpack_def)
  next
    case (Inr h)
    then have r1: "length r1 + HeaderSize \<le> length r"
      using x by (auto simp: ReadFull_def HeaderSize_def split: if_splits)
    let ?n = "unat (get_u32 h 12) + FooterSize"
    obtain y r2 where y: "ReadFull ?n r1 = (y, r2)" by (cases "ReadFull ?n r1") auto
    have "(\<exists>b. y = Inr b) \<and> r' = r2"
      using assms unfolding Unpack_def x Inr sum.case prod.case
      by (auto simp: y Let_def split: if_splits sum.splits option.splits)
    then have "length r' + FooterSize \<le> length r1"
      using y by (auto simp: ReadFull_def split: if_splits)
    with r1 show ?thesis by (simp add: HeaderSize_def FooterSize_def)
  qed
qed

lemma serve_bound:
  "sent_count (serve E turns i r c) \<le> sent_count c + (length r div 48) * Suc (te_DownlinkMaxBatch E)"
proof (induction E turns i r c rule: serve.induct)
  case (1 E turns i r c)
  show ?case
  proof (cases "Unpack (te_crypto E) r (cn_sessionKey c)")
    case (Pair x r')
    show ?thesis
    proof (cases x)
      case (Inl e)
      with Pair show ?thesis by (simp add: serve.simps)
    next
      case (Inr p)
      obtain b c' where h: "handle_packet E (turns i) p c = (b, c')" by (cases "handle_packet E (turns i) p c")
      have c': "sent_count c' \<le> sent_count c + Suc (te_DownlinkMaxBatch E)" by (rule handle_packet_sent [OF h])
      have "length r' + 48 \<le> length r" using Pair Inr Unpack_takes by blast
      then have d: "Suc (length r' div 48) \<le> length r div 48" by simp
      show ?thesis
      proof (cases b)
        case True
        with 1 [OF Pair [symmetric] Inr h [symmetric]] have
          "sent_count (serve E turns (Suc i) r' c') \<le> sent_count c' + (length r' div 48) * Suc (te_DownlinkMaxBatch E)"
          by simp
        also have "\<dots> \<le> sent_count c + Suc (length r' div 48) * Suc (te_DownlinkMaxBatch E)" using c' by simp
        also have "\<dots> \<le> sent_count c + (length r div 48) * Suc (te_DownlinkMaxBatch E)"
          by (intro add_left_mono mult_le_mono1 d)
        finally show ?thesis using Pair Inr h True by (simp add: serve.simps [of E turns i r c])
      next
        case False
        have "Suc (te_DownlinkMaxBatch E) \<le> (length r div 48) * Suc (te_DownlinkMaxBatch E)"
          using mult_le_mono1 [of 1 "length r div 48" "Suc (te_DownlinkMaxBatch E)"] d by simp
        with Pair Inr h False c' show ?thesis by (simp add: serve.simps [of E turns i r c])
      qed
    qed
  qed
qed

lemma serve_turns:
  "(\<And>j. j < length r div 48 \<Longrightarrow> turns (i + j) = turns' (i + j)) \<Longrightarrow> serve E turns i r c = serve E turns' i r c"
proof (induction E turns i r c rule: serve.induct)
  case (1 E turns i r c)
  show ?case
  proof (cases "Unpack (te_crypto E) r (cn_sessionKey c)")
    case (Pair x r')
    show ?thesis
    proof (cases x)
      case (Inl e)
      with Pair show ?thesis by (simp add: serve.simps)
    next
      case (Inr p)
      have "length r' + 48 \<le> length r" using Pair Inr Unpack_takes by blast
      then have d: "Suc (length r' div 48) \<le> length r div 48" by simp
      have t: "turns i = turns' i" using "1.prems" [of 0] d by simp
      obtain b c' where h: "handle_packet E (turns i) p c = (b, c')" by (cases "handle_packet E (turns i) p c")
      show ?thesis
      proof (cases b)
        case True
        have "turns (Suc i + j) = turns' (Suc i + j)" if "j < length r' div 48" for j
          using "1.prems" [of "Suc j"] d that by simp
        with "1.IH" [OF Pair [symmetric] Inr h [symmetric]] True have
          "serve E turns (Suc i) r' c' = serve E turns' (Suc i) r' c'" by blast
        then show ?thesis
          using Pair Inr h True t by (simp add: serve.simps [of E turns i r c] serve.simps [of E turns' i r c])
      qed (use Pair Inr h t in \<open>simp add: serve.simps [of E turns i r c] serve.simps [of E turns' i r c]\<close>)
    qed
  qed
qed

lemma handleConnection_sent: "cn_sent (handleConnection E turns closed r writes w) = cn_sent (serve E turns 0 r (new_conn writes w))"
  by (simp add: handleConnection_def Let_def split: prod.splits)

text \<open>C33: Serving a connection ends on every input, and what it costs is bounded by the input: at most one
  packet is handled for every 48 bytes received, so that only so many clock readings and keys are
  ever used, and at most one answer and one batch of commands is written for each packet.\<close>

theorem connection_terminates:
  assumes "\<And>i. i < length r div 48 \<Longrightarrow> turns i = turns' i"
  shows "handleConnection E turns closed r writes w = handleConnection E turns' closed r writes w \<and>
    length (cn_sent (handleConnection E turns closed r writes w)) \<le> (length r div 48) * (1 + te_DownlinkMaxBatch E)"
  using serve_turns [of r turns 0 turns' E] assms serve_bound [of E turns 0 r "new_conn writes w"]
  unfolding handleConnection_sent by (simp add: handleConnection_def sent_count_def new_conn_def)

text \<open>The bound is reached: one packet, its answer and one command.\<close>

theorem connection_terminates_witness:
  "\<exists>f. length f div 48 = 1 \<and>
     length (cn_sent (handleConnection example_tcp (\<lambda>_. example_turns 0) 9 f [] ())) = 1 + te_DownlinkMaxBatch example_tcp"
proof -
  obtain f f1 f2 m c where f: "length f = 59"
    "cn_sent (handleConnection example_tcp example_turns 9 f [] ()) = [f1, f2]"
    by (rule example_run) blast
  have "handleConnection example_tcp example_turns 9 f [] () = handleConnection example_tcp (\<lambda>_. example_turns 0) 9 f [] ()"
    using connection_terminates [of f example_turns "\<lambda>_. example_turns 0" example_tcp 9 "[]" "()"] f(1) by simp
  with f show ?thesis by (intro exI [of _ f]) (simp add: example_tcp_def)
qed

end
