(* ===== verification/TcpServer.thy ===== *)
theory TcpServer
  imports TcpConn
begin

text \<open>
  The accept loop of \<^verbatim>\<open>internal/adapter/customtcp/adapter.go\<close> (\<open>Start\<close>, \<open>Serve\<close>,
  \<open>trackConnection\<close>, \<open>untrackConnection\<close>, \<open>closeActiveConnections\<close>, \<open>watchIdle\<close>) as a step relation:
  the loop, the goroutine that shuts it down and one handler per connection run concurrently, so every
  step is one action of one of them. What a handler says on its connection is in TcpConn.
  Connections are numbered in the order in which they are accepted.
\<close>

section \<open>The goroutines of one run of Serve\<close>

text \<open>Where the loop is: the connection accepted last is being checked, tracked or handed over.\<close>

datatype loop_at =
    Accepting | Checking nat | Tracking nat | Spawning nat | Draining | Returned "go_error option"

text \<open>Where the goroutine waiting for the context is; it ends either way.\<close>

datatype stopper_at = Waiting | Flagging | ClosingListener | ClosingConns | Finished | Dismissed

record tcp_server =
  sv_Cancelled :: bool
  sv_shutdown :: bool
  sv_Listening :: bool
  sv_Loop :: loop_at
  sv_Stopper :: stopper_at
  sv_Open :: "nat set"
  sv_conns :: "nat set"
  sv_Serving :: "nat set"
  sv_Leaving :: "nat set"
  sv_Next :: nat

definition Serve_entry :: "bool \<Rightarrow> tcp_server" where
  "Serve_entry cancelled =
     \<lparr>sv_Cancelled = cancelled, sv_shutdown = False, sv_Listening = True, sv_Loop = Accepting,
      sv_Stopper = Waiting, sv_Open = {}, sv_conns = {}, sv_Serving = {}, sv_Leaving = {}, sv_Next = 0\<rparr>"

text \<open>\<open>Start\<close> runs nothing when the adapter is disabled or its address cannot be listened on.\<close>

definition adapter_Start :: "bool \<Rightarrow> unit result \<Rightarrow> bool \<Rightarrow> tcp_server option result" where
  "adapter_Start enabled listen cancelled =
     (if \<not> enabled then Inr None
      else case listen of Inl e \<Rightarrow> Inl e | Inr _ \<Rightarrow> Inr (Some (Serve_entry cancelled)))"

definition trackConnection :: "nat \<Rightarrow> tcp_server \<Rightarrow> tcp_server" where
  "trackConnection c s = s\<lparr>sv_conns := insert c (sv_conns s)\<rparr>"

definition untrackConnection :: "nat \<Rightarrow> tcp_server \<Rightarrow> tcp_server" where
  "untrackConnection c s = s\<lparr>sv_conns := sv_conns s - {c}\<rparr>"

definition closeActiveConnections :: "tcp_server \<Rightarrow> tcp_server" where
  "closeActiveConnections s = s\<lparr>sv_Open := sv_Open s - sv_conns s\<rparr>"

definition conn_Close :: "nat \<Rightarrow> tcp_server \<Rightarrow> tcp_server" where
  "conn_Close c s = s\<lparr>sv_Open := sv_Open s - {c}\<rparr>"

text \<open>\<open>return err\<close>, with the deferred \<open>listener.Close()\<close>\<close>

definition Serve_return :: "go_error option \<Rightarrow> tcp_server \<Rightarrow> tcp_server" where
  "Serve_return e s = s\<lparr>sv_Loop := Returned e, sv_Listening := False\<rparr>"

datatype actor = Loop | Stopper | Handler nat | Outside

inductive server_step :: "tcp_server \<Rightarrow> actor \<Rightarrow> tcp_server \<Rightarrow> bool" where
  cancel: "server_step s Outside (s\<lparr>sv_Cancelled := True\<rparr>)"
| stop_seen: "sv_Stopper s = Waiting \<Longrightarrow> sv_Cancelled s \<Longrightarrow>
    server_step s Stopper (s\<lparr>sv_Stopper := Flagging\<rparr>)"
| stop_flag: "sv_Stopper s = Flagging \<Longrightarrow>
    server_step s Stopper (s\<lparr>sv_shutdown := True, sv_Stopper := ClosingListener\<rparr>)"
| stop_listener: "sv_Stopper s = ClosingListener \<Longrightarrow>
    server_step s Stopper (s\<lparr>sv_Listening := False, sv_Stopper := ClosingConns\<rparr>)"
| stop_conns: "sv_Stopper s = ClosingConns \<Longrightarrow>
    server_step s Stopper ((closeActiveConnections s)\<lparr>sv_Stopper := Finished\<rparr>)"
| stop_dismissed: "sv_Stopper s = Waiting \<Longrightarrow> sv_Loop s = Returned e \<Longrightarrow>
    server_step s Stopper (s\<lparr>sv_Stopper := Dismissed\<rparr>)"
| accept: "sv_Loop s = Accepting \<Longrightarrow> sv_Listening s \<Longrightarrow>
    server_step s Loop (s\<lparr>sv_Loop := Checking (sv_Next s), sv_Open := insert (sv_Next s) (sv_Open s),
                          sv_Next := Suc (sv_Next s)\<rparr>)"
| accept_stopped: "sv_Loop s = Accepting \<Longrightarrow> sv_Cancelled s \<or> \<not> sv_Listening s \<Longrightarrow>
    server_step s Loop (s\<lparr>sv_Loop := Draining\<rparr>)"
| accept_timeout: "sv_Loop s = Accepting \<Longrightarrow> sv_Listening s \<Longrightarrow> \<not> sv_Cancelled s \<Longrightarrow> server_step s Loop s"
| accept_error: "sv_Loop s = Accepting \<Longrightarrow> sv_Listening s \<Longrightarrow> \<not> sv_Cancelled s \<Longrightarrow>
    server_step s Loop (Serve_return (Some e) s)"
| check_stopped: "sv_Loop s = Checking c \<Longrightarrow> sv_shutdown s \<Longrightarrow>
    server_step s Loop ((conn_Close c s)\<lparr>sv_Loop := Draining\<rparr>)"
| check_passed: "sv_Loop s = Checking c \<Longrightarrow> \<not> sv_shutdown s \<Longrightarrow>
    server_step s Loop (s\<lparr>sv_Loop := Tracking c\<rparr>)"
| track: "sv_Loop s = Tracking c \<Longrightarrow>
    server_step s Loop ((trackConnection c s)\<lparr>sv_Loop := Spawning c\<rparr>)"
| spawn: "sv_Loop s = Spawning c \<Longrightarrow>
    server_step s Loop (s\<lparr>sv_Loop := Accepting, sv_Serving := insert c (sv_Serving s)\<rparr>)"
| drained: "sv_Loop s = Draining \<Longrightarrow> sv_Stopper s \<in> {Finished, Dismissed} \<Longrightarrow>
    server_step s Loop (Serve_return None s)"
| idle: "c \<in> sv_Serving s \<Longrightarrow> server_step s (Handler c) (conn_Close c s)"
| hang_up: "c \<in> sv_Serving s \<Longrightarrow>
    server_step s (Handler c) ((conn_Close c s)\<lparr>sv_Serving := sv_Serving s - {c},
                                              sv_Leaving := insert c (sv_Leaving s)\<rparr>)"
| untrack: "c \<in> sv_Leaving s \<Longrightarrow>
    server_step s (Handler c) ((untrackConnection c s)\<lparr>sv_Leaving := sv_Leaving s - {c}\<rparr>)"

text \<open>
  \<open>idle\<close> is \<open>watchIdle\<close> closing the connection under its handler; \<open>hang_up\<close> is the end of
  \<open>handleConnection\<close>, whose deferred \<open>conn.Close()\<close> runs last.
\<close>

inductive server_run :: "tcp_server \<Rightarrow> bool" where
  start: "server_run (Serve_entry cancelled)"
| move: "server_run s \<Longrightarrow> server_step s a s' \<Longrightarrow> server_run s'"

section \<open>The invariant\<close>

definition waiting_conns :: "tcp_server \<Rightarrow> nat set" where
  "waiting_conns s = (case sv_Loop s of Checking c \<Rightarrow> {c} | Tracking c \<Rightarrow> {c} | _ \<Rightarrow> {})"

definition loop_conns :: "tcp_server \<Rightarrow> nat set" where
  "loop_conns s = (case sv_Loop s of Checking c \<Rightarrow> {c} | Tracking c \<Rightarrow> {c} | Spawning c \<Rightarrow> {c} | _ \<Rightarrow> {})"

definition conns_inv :: "tcp_server \<Rightarrow> bool" where
  "conns_inv s \<longleftrightarrow>
     sv_Open s \<subseteq> sv_conns s \<union> waiting_conns s \<and>
     sv_Open s \<union> sv_conns s \<union> sv_Serving s \<union> sv_Leaving s \<union> loop_conns s \<subseteq> {..<sv_Next s} \<and>
     loop_conns s \<inter> (sv_Serving s \<union> sv_Leaving s) = {} \<and>
     sv_Leaving s \<inter> sv_Open s = {}"

definition stop_inv :: "tcp_server \<Rightarrow> bool" where
  "stop_inv s \<longleftrightarrow>
     (sv_shutdown s = (sv_Stopper s \<in> {ClosingListener, ClosingConns, Finished})) \<and>
     (sv_Stopper s \<in> {Flagging, ClosingListener, ClosingConns, Finished} \<longrightarrow> sv_Cancelled s) \<and>
     (sv_Stopper s \<in> {ClosingConns, Finished} \<longrightarrow> \<not> sv_Listening s) \<and>
     (sv_Stopper s = Dismissed \<longrightarrow> (\<exists>e. sv_Loop s = Returned (Some e))) \<and>
     (\<not> sv_Listening s \<longrightarrow> sv_Stopper s \<in> {ClosingConns, Finished} \<or> (\<exists>e. sv_Loop s = Returned e)) \<and>
     (sv_Loop s = Draining \<longrightarrow> sv_Cancelled s) \<and>
     (sv_Loop s = Returned None \<longrightarrow> sv_Stopper s = Finished) \<and>
     (sv_Stopper s = Finished \<longrightarrow> (\<exists>c. sv_Open s \<subseteq> {c}))"

lemmas server_step_defs =
  conn_Close_def trackConnection_def untrackConnection_def closeActiveConnections_def Serve_return_def

lemma conns_inv_step: "server_step s a s' \<Longrightarrow> conns_inv s \<Longrightarrow> conns_inv s'"
proof (induction rule: server_step.induct)
qed (simp add: conns_inv_def waiting_conns_def loop_conns_def server_step_defs lessThan_Suc, blast?)+

lemma waiting_one: "\<exists>c. waiting_conns s \<subseteq> {c}"
  by (auto simp: waiting_conns_def split: loop_at.splits)

lemma stop_inv_step: "server_step s a s' \<Longrightarrow> conns_inv s \<Longrightarrow> stop_inv s \<Longrightarrow> stop_inv s'"
proof (induction rule: server_step.induct)
  case (stop_conns s)
  then have "sv_Open s - sv_conns s \<subseteq> waiting_conns s" by (auto simp: conns_inv_def)
  with waiting_one [of s] have "\<exists>c. sv_Open s - sv_conns s \<subseteq> {c}" by blast
  with stop_conns show ?case by (simp add: stop_inv_def server_step_defs)
qed (simp add: stop_inv_def server_step_defs, blast?)+

lemma server_run_inv: "server_run s \<Longrightarrow> conns_inv s \<and> stop_inv s"
proof (induction rule: server_run.induct)
  case (start cancelled)
  show ?case by (simp add: conns_inv_def stop_inv_def waiting_conns_def loop_conns_def Serve_entry_def)
next
  case (move s a s')
  then show ?case using conns_inv_step stop_inv_step by blast
qed

section \<open>Shutting down\<close>

inductive server_steps :: "tcp_server \<Rightarrow> tcp_server \<Rightarrow> bool" where
  none: "server_steps s s"
| more_steps: "server_step s a s' \<Longrightarrow> server_steps s' s'' \<Longrightarrow> server_steps s s''"

lemma server_steps_run: "server_steps s s' \<Longrightarrow> server_run s \<Longrightarrow> server_run s'"
  by (induction rule: server_steps.induct) (auto intro: server_run.move)

text \<open>
  The race: the connection is accepted and found not to come too late, then the other goroutine
  shuts everything down, and only then is the connection tracked and handed to its handler.
\<close>

definition raced :: tcp_server where
  "raced =
     \<lparr>sv_Cancelled = True, sv_shutdown = True, sv_Listening = False, sv_Loop = Returned None,
      sv_Stopper = Finished, sv_Open = {0}, sv_conns = {0}, sv_Serving = {0}, sv_Leaving = {}, sv_Next = 1\<rparr>"

lemma step_to: "server_steps s s' \<Longrightarrow> server_step s0 a s1 \<Longrightarrow> s1 = s \<Longrightarrow> server_steps s0 s'"
  by (auto intro: server_steps.intros)

lemma raced_run: "server_run raced"
proof -
  let ?e = "Serve_entry False"
  define s1 where "s1 = ?e\<lparr>sv_Loop := Checking 0, sv_Open := {0}, sv_Next := 1\<rparr>"
  define s2 where "s2 = s1\<lparr>sv_Loop := Tracking 0\<rparr>"
  define s3 where "s3 = s2\<lparr>sv_Cancelled := True\<rparr>"
  define s4 where "s4 = s3\<lparr>sv_Stopper := Flagging\<rparr>"
  define s5 where "s5 = s4\<lparr>sv_shutdown := True, sv_Stopper := ClosingListener\<rparr>"
  define s6 where "s6 = s5\<lparr>sv_Listening := False, sv_Stopper := ClosingConns\<rparr>"
  define s7 where "s7 = (closeActiveConnections s6)\<lparr>sv_Stopper := Finished\<rparr>"
  define s8 where "s8 = (trackConnection 0 s7)\<lparr>sv_Loop := Spawning 0\<rparr>"
  define s9 where "s9 = s8\<lparr>sv_Loop := Accepting, sv_Serving := insert 0 (sv_Serving s8)\<rparr>"
  define s10 where "s10 = s9\<lparr>sv_Loop := Draining\<rparr>"
  note st = s1_def s2_def s3_def s4_def s5_def s6_def s7_def s8_def s9_def s10_def Serve_entry_def server_step_defs
  have "server_step ?e Loop s1" using server_step.accept [of ?e] by (simp add: st)
  moreover have "server_step s1 Loop s2" using server_step.check_passed [of s1 0] by (simp add: st)
  moreover have "server_step s2 Outside s3" using server_step.cancel [of s2] by (simp add: st)
  moreover have "server_step s3 Stopper s4" using server_step.stop_seen [of s3] by (simp add: st)
  moreover have "server_step s4 Stopper s5" using server_step.stop_flag [of s4] by (simp add: st)
  moreover have "server_step s5 Stopper s6" using server_step.stop_listener [of s5] by (simp add: st)
  moreover have "server_step s6 Stopper s7" using server_step.stop_conns [of s6] by (simp add: st)
  moreover have "server_step s7 Loop s8" using server_step.track [of s7 0] by (simp add: st)
  moreover have "server_step s8 Loop s9" using server_step.spawn [of s8 0] by (simp add: st)
  moreover have "server_step s9 Loop s10" using server_step.accept_stopped [of s9] by (simp add: st)
  moreover have "server_step s10 Loop raced"
    using server_step.drained [of s10] by (simp add: st raced_def)
  ultimately show ?thesis by (meson server_run.intros)
qed

text \<open>C26: Stopping the TCP adapter leaves at most one connection open. Whatever the order in which the accept
  loop, the goroutine that shuts it down and the handlers of the connections act, once Serve has returned
  without an error the shutdown flag is set, no connection can be accepted, and of all the connections ever
  accepted at most one is open. That one can be: it was accepted before the flag was set and tracked after the
  active connections were closed, so nobody closes it and its handler reads on.\<close>
theorem shutdown_leaves_one_connection:
  assumes "server_run s" "sv_Loop s = Returned None"
  shows "sv_shutdown s \<and> \<not> sv_Listening s \<and> finite (sv_Open s) \<and> card (sv_Open s) \<le> 1 \<and>
     (\<exists>t. server_run t \<and> sv_Loop t = Returned None \<and> card (sv_Open t) = 1 \<and> sv_Open t \<subseteq> sv_Serving t)"
proof -
  from server_run_inv [OF assms(1)] assms(2) have "stop_inv s" "sv_Stopper s = Finished"
    by (auto simp: stop_inv_def)
  then obtain c where c: "sv_shutdown s" "\<not> sv_Listening s" "sv_Open s \<subseteq> {c}"
    by (auto simp: stop_inv_def)
  have "finite (sv_Open s)" using c(3) by (rule finite_subset) simp
  moreover have "card (sv_Open s) \<le> 1" using card_mono [OF _ c(3)] by simp
  moreover have "server_run raced \<and> sv_Loop raced = Returned None \<and> card (sv_Open raced) = 1
    \<and> sv_Open raced \<subseteq> sv_Serving raced"
    using raced_run by (simp add: raced_def)
  ultimately show ?thesis using c by blast
qed

lemma shutdown_leaves_one_connection_witness:
  "server_run raced \<and> sv_Loop raced = Returned None \<and> card (sv_Open raced) \<le> 1"
  using shutdown_leaves_one_connection [OF raced_run] raced_run by (simp add: raced_def)

text \<open>What is left to do for the loop and for the goroutine that stops it, once the flag is set.\<close>

definition loop_rank :: "loop_at \<Rightarrow> nat" where
  "loop_rank l = (case l of Tracking _ \<Rightarrow> 5 | Spawning _ \<Rightarrow> 4 | Accepting \<Rightarrow> 3 | Checking _ \<Rightarrow> 2
     | Draining \<Rightarrow> 1 | Returned _ \<Rightarrow> 0)"

definition stopper_rank :: "stopper_at \<Rightarrow> nat" where
  "stopper_rank p = (case p of Waiting \<Rightarrow> 4 | Flagging \<Rightarrow> 3 | ClosingListener \<Rightarrow> 2 | ClosingConns \<Rightarrow> 1
     | Finished \<Rightarrow> 0 | Dismissed \<Rightarrow> 0)"

definition server_rank :: "tcp_server \<Rightarrow> nat" where
  "server_rank s = loop_rank (sv_Loop s) + stopper_rank (sv_Stopper s)"

lemma rank_step:
  assumes "server_step s a s'" "sv_shutdown s" "sv_Cancelled s"
  shows "sv_shutdown s' \<and>
    (if a \<in> {Loop, Stopper} then server_rank s' < server_rank s else server_rank s' = server_rank s)"
  using assms
proof (cases rule: server_step.cases)
qed (simp_all add: server_rank_def loop_rank_def stopper_rank_def server_step_defs)

lemma stopper_moves:
  "sv_Stopper s \<in> {ClosingListener, ClosingConns} \<Longrightarrow> \<exists>s'. server_step s Stopper s'"
  using server_step.stop_listener [of s] server_step.stop_conns [of s] by auto

lemma loop_moves:
  assumes "sv_shutdown s" "sv_Cancelled s" "\<And>e. sv_Loop s \<noteq> Returned e" "sv_Loop s = Draining \<Longrightarrow> sv_Stopper s = Finished"
  shows "\<exists>s'. server_step s Loop s'"
proof (cases "sv_Loop s")
  case Accepting
  with assms(2) show ?thesis using server_step.accept_stopped by blast
next
  case (Checking c)
  with assms(1) show ?thesis using server_step.check_stopped by blast
next
  case (Tracking c)
  then show ?thesis using server_step.track by blast
next
  case (Spawning c)
  then show ?thesis using server_step.spawn by blast
next
  case Draining
  with assms(4) show ?thesis using server_step.drained [of s] by auto
qed (use assms(3) in blast)

text \<open>C31: Serve returns after a shutdown. From the moment the shutdown flag is set, every action of the
  accept loop or of the goroutine that stops it brings the return nearer, by a rank that no handler and
  no outside event raises and that is at most 7, and until the loop has returned one of the two can always act:
  they never wait for each other.\<close>
theorem shutdown_returns:
  assumes "server_run s" "sv_shutdown s"
  shows "server_rank s \<le> 7 \<and>
    ((\<exists>e. sv_Loop s = Returned e) \<or> (\<exists>a s'. a \<in> {Loop, Stopper} \<and> server_step s a s')) \<and>
    \<not> (\<exists>a s'. server_step s a s' \<and>
        \<not> (sv_shutdown s' \<and> (if a \<in> {Loop, Stopper} then server_rank s' < server_rank s
                              else server_rank s' = server_rank s)))"
proof -
  from server_run_inv [OF assms(1)] assms(2) have inv: "stop_inv s" and c: "sv_Cancelled s"
    and p: "sv_Stopper s \<in> {ClosingListener, ClosingConns, Finished}"
    by (auto simp: stop_inv_def)
  have "server_rank s \<le> 7"
    using p by (auto simp: server_rank_def loop_rank_def stopper_rank_def split: loop_at.splits)
  moreover have "(\<exists>e. sv_Loop s = Returned e) \<or> (\<exists>a s'. a \<in> {Loop, Stopper} \<and> server_step s a s')"
    using p stopper_moves [of s] loop_moves [OF assms(2) c] by blast
  ultimately show ?thesis using rank_step [OF _ assms(2) c] by blast
qed

lemma shutdown_returns_witness: "sv_shutdown raced \<and> server_rank raced \<le> 7"
  using shutdown_returns [OF raced_run] by (simp add: raced_def)

section \<open>The command in flight\<close>

text \<open>
  \<open>handleConnection\<close> defers \<open>RequeueInflight(ctx)\<close> with the context of the adapter. After a shutdown that
  context is cancelled, and the client of the core refuses every call.
\<close>

definition cancelled_client :: "'w core_client \<Rightarrow> 'w core_client" where
  "cancelled_client K = K\<lparr>rpc_UpdateCommandStatus := \<lambda>_ _ w. (Inl ErrRPC, w)\<rparr>"

definition cancelled_env :: "'w tcp_env \<Rightarrow> 'w tcp_env" where
  "cancelled_env E = E\<lparr>te_core := map_option cancelled_client (te_core E)\<rparr>"

lemma shutdown_forgets_inflight:
  "snd (RequeueInflight (cancelled_env E) now S w) = w \<and> ss_inflight (fst (RequeueInflight (cancelled_env E) now S w)) = None"
  by (auto simp: RequeueInflight_def takeInflight_def RequeueDownlink_def clearInflightByCommandID_def update_core_def
      cancelled_env_def cancelled_client_def split: option.splits prod.splits)

end
