(* ===== verification/GoStrconv.thy ===== *)
theory GoStrconv
  imports Float
begin

text \<open>
  The parsers of the standard library the code calls: \<^verbatim>\<open>strconv.ParseBool\<close>, \<^verbatim>\<open>ParseInt\<close> and
  \<^verbatim>\<open>ParseFloat\<close>, \<^verbatim>\<open>time.ParseDuration\<close>, and the conversions of a \<open>float64\<close> to integers. The value
  of a \<open>float64\<close> is an exact quotient of integers, and rounding is to nearest, ties to even.
\<close>

section \<open>Booleans and integers\<close>

text \<open>\<open>strconv.ParseBool\<close>\<close>

definition ParseBool :: "string \<Rightarrow> bool option" where
  "ParseBool s =
     (if s \<in> {''1'', ''t'', ''T'', ''TRUE'', ''true'', ''True''} then Some True
      else if s \<in> {''0'', ''f'', ''F'', ''FALSE'', ''false'', ''False''} then Some False
      else None)"

definition is_digit :: "char \<Rightarrow> bool" where
  "is_digit c \<longleftrightarrow> (48::nat) \<le> of_char c \<and> (of_char c :: nat) \<le> 57"

definition digits_value :: "string \<Rightarrow> int" where
  "digits_value ds = foldl (\<lambda>n c. 10 * n + (of_char c - 48)) 0 ds"

text \<open>\<open>strconv.ParseInt(s, 10, 64)\<close>, which \<open>Atoi\<close> is on the platforms of the program.\<close>

definition ParseInt :: "string \<Rightarrow> int option" where
  "ParseInt s =
     (let neg = (case s of c # _ \<Rightarrow> c = CHR ''-'' | [] \<Rightarrow> False);
          ds = (case s of c # r \<Rightarrow> if c = CHR ''-'' \<or> c = CHR ''+'' then r else s | [] \<Rightarrow> [])
      in if ds = [] \<or> \<not> list_all is_digit ds then None
         else let n = (if neg then - digits_value ds else digits_value ds)
              in if - (2 ^ 63) \<le> n \<and> n < 2 ^ 63 then Some n else None)"

section \<open>Durations\<close>

text \<open>
  \<open>time.ParseDuration\<close>: a sign and a sequence of decimal numbers with units. A fraction is
  evaluated exactly and truncated, where the library multiplies in floating point; the two agree on
  fractions of few digits.
\<close>

definition unit_value :: "string \<Rightarrow> int option" where
  "unit_value u =
     (if u = ''ns'' then Some 1
      else if u = ''us'' \<or> u = [CHR 0xC2, CHR 0xB5] @ ''s'' \<or> u = [CHR 0xCE, CHR 0xBC] @ ''s''
        then Some 1000
      else if u = ''ms'' then Some 1000000
      else if u = ''s'' then Some 1000000000
      else if u = ''m'' then Some 60000000000
      else if u = ''h'' then Some 3600000000000
      else None)"

text \<open>The first number with its unit: its value and the rest of the text.\<close>

definition duration_item :: "string \<Rightarrow> (int \<times> string) option" where
  "duration_item s =
     (let whole = takeWhile is_digit s; r = dropWhile is_digit s;
          frac = (case r of c # r' \<Rightarrow> if c = CHR ''.'' then takeWhile is_digit r' else [] | [] \<Rightarrow> []);
          r = (case r of c # r' \<Rightarrow> if c = CHR ''.'' then dropWhile is_digit r' else r | [] \<Rightarrow> []);
          u = takeWhile (\<lambda>c. c \<noteq> CHR ''.'' \<and> \<not> is_digit c) r;
          r = dropWhile (\<lambda>c. c \<noteq> CHR ''.'' \<and> \<not> is_digit c) r
      in if whole = [] \<and> frac = [] then None
         else case unit_value u of
             None \<Rightarrow> None
           | Some n \<Rightarrow> Some (digits_value whole * n + digits_value frac * n div 10 ^ length frac, r))"

fun duration_items :: "nat \<Rightarrow> string \<Rightarrow> int option" where
  "duration_items fuel [] = Some 0"
| "duration_items 0 s = None"
| "duration_items (Suc fuel) s =
     (case duration_item s of None \<Rightarrow> None
      | Some (v, r) \<Rightarrow> map_option (\<lambda>w. v + w) (duration_items fuel r))"

definition ParseDuration :: "string \<Rightarrow> duration option" where
  "ParseDuration s =
     (let neg = (case s of c # _ \<Rightarrow> c = CHR ''-'' | [] \<Rightarrow> False);
          r = (case s of c # r \<Rightarrow> if c = CHR ''-'' \<or> c = CHR ''+'' then r else s | [] \<Rightarrow> [])
      in if r = ''0'' then Some 0
         else if r = [] then None
         else case duration_items (length r) r of
             None \<Rightarrow> None
           | Some n \<Rightarrow>
               if neg then (if n \<le> 2 ^ 63 then Some (- n) else None)
               else if n < 2 ^ 63 then Some n else None)"

lemma ParseDuration_examples:
  "ParseDuration ''10m0s'' = Some (10 * minute)"
  "ParseDuration ''1.5h'' = Some (90 * minute)"
  "ParseDuration ''60s'' = Some (60 * second)"
  "ParseDuration ''-2ms'' = Some (- 2 * millisecond)"
  "ParseDuration ''5'' = None"
  by code_simp+

section \<open>Numbers in floating point\<close>

text \<open>The integer part of the binary logarithm of a positive integer.\<close>

function int_log2 :: "int \<Rightarrow> nat" where
  "int_log2 n = (if n \<le> 1 then 0 else Suc (int_log2 (n div 2)))"
  by pat_completeness auto
termination by (relation "measure nat") auto

declare int_log2.simps [simp del]

definition round_div :: "int \<Rightarrow> int \<Rightarrow> int" where
  "round_div a b =
     (let q = a div b; r = a mod b in if 2 * r > b \<or> (2 * r = b \<and> odd q) then q + 1 else q)"

text \<open>
  The \<open>float64\<close> nearest to \<open>num / den\<close>, or \<open>None\<close> when that is beyond the largest one. With
  \<open>2^e \<le> num/den < 2^(e+1)\<close> the significand is the quotient scaled by \<open>2^(52-e)\<close>; below the
  normal range the exponent stays at its least value.
\<close>

definition f64_of_ratio :: "bool \<Rightarrow> int \<Rightarrow> int \<Rightarrow> float64 option" where
  "f64_of_ratio neg num den =
     (let s = (if neg then 2 ^ 63 else 0)
      in if num = 0 then Some (word_of_int s)
         else
           let l = int (int_log2 num) - int (int_log2 den);
               below = (if l \<ge> 0 then num < den * 2 ^ nat l else num * 2 ^ nat (- l) < den);
               e = max (if below then l - 1 else l) (- 1022);
               q = (if e \<le> 52 then round_div (num * 2 ^ nat (52 - e)) den
                    else round_div num (den * 2 ^ nat (e - 52)));
               bits = (e + 1022) * 2 ^ 52 + q
           in if bits \<ge> 2047 * 2 ^ 52 then None else Some (word_of_int (s + bits)))"

text \<open>Sign, numerator and denominator of a finite \<open>float64\<close>.\<close>

definition f64_ratio :: "float64 \<Rightarrow> (bool \<times> int \<times> int) option" where
  "f64_ratio x =
     (let b = uint x; e = b div 2 ^ 52 mod 2 ^ 11; m = b mod 2 ^ 52;
          mant = (if e = 0 then m else 2 ^ 52 + m); k = max e 1 - 1075
      in if e = 2047 then None
         else Some (b \<ge> 2 ^ 63, if k \<ge> 0 then mant * 2 ^ nat k else mant, if k \<ge> 0 then 1 else 2 ^ nat (- k)))"

definition f64_is_nan :: "float64 \<Rightarrow> bool" where
  "f64_is_nan x \<longleftrightarrow> (let b = uint x in b div 2 ^ 52 mod 2 ^ 11 = 2047 \<and> b mod 2 ^ 52 \<noteq> 0)"

text \<open>The comparisons \<open>x <= n\<close>, \<open>x < n\<close> and \<open>x >= n\<close> with an integer; a NaN compares as false.\<close>

definition f64_below :: "(int \<Rightarrow> int \<Rightarrow> bool) \<Rightarrow> float64 \<Rightarrow> int \<Rightarrow> bool" where
  "f64_below cmp x n =
     (case f64_ratio x of
        Some (neg, num, den) \<Rightarrow> cmp (if neg then - num else num) (n * den)
      | None \<Rightarrow> \<not> f64_is_nan x \<and> cmp (if uint x \<ge> 2 ^ 63 then n - 1 else n + 1) n)"

text \<open>\<open>int64(x)\<close>: truncation; out of range, and for a NaN, the smallest integer.\<close>

definition int64_of_f64 :: "float64 \<Rightarrow> int" where
  "int64_of_f64 x =
     (case f64_ratio x of
        None \<Rightarrow> - (2 ^ 63)
      | Some (neg, num, den) \<Rightarrow>
          let v = (if neg then - (num div den) else num div den)
          in if - (2 ^ 63) \<le> v \<and> v < 2 ^ 63 then v else - (2 ^ 63))"

section \<open>strconv.ParseFloat\<close>

text \<open>The decimal or hexadecimal value of a digit.\<close>

definition digit_of :: "int \<Rightarrow> char \<Rightarrow> int option" where
  "digit_of base c =
     (let n = of_char (ascii_lower c)
      in if 48 \<le> n \<and> n \<le> 57 then Some (n - 48)
         else if base = 16 \<and> 97 \<le> n \<and> n \<le> 102 then Some (n - 87) else None)"

text \<open>
  The mantissa: digits, underscores and at most one point. Its digits as one number, how many of
  them follow the point, whether there was a digit, and the rest.
\<close>

fun float_mantissa :: "int \<Rightarrow> int \<Rightarrow> nat \<Rightarrow> bool \<Rightarrow> bool \<Rightarrow> string \<Rightarrow> int \<times> nat \<times> bool \<times> string" where
  "float_mantissa base n k dot some [] = (n, k, some, [])"
| "float_mantissa base n k dot some (c # s) =
     (if c = CHR ''_'' then float_mantissa base n k dot some s
      else if c = CHR ''.'' then
        (if dot then (n, k, some, c # s) else float_mantissa base n k True some s)
      else (case digit_of base c of
          None \<Rightarrow> (n, k, some, c # s)
        | Some d \<Rightarrow> float_mantissa base (n * base + d) (if dot then Suc k else k) dot True s))"

text \<open>The exponent: its value, which stops growing at five digits, and the rest.\<close>

fun float_exponent :: "int \<Rightarrow> string \<Rightarrow> int \<times> string" where
  "float_exponent e [] = (e, [])"
| "float_exponent e (c # s) =
     (if c = CHR ''_'' then float_exponent e s
      else if is_digit c then float_exponent (if e < 10000 then 10 * e + (of_char c - 48) else e) s
      else (e, c # s))"

text \<open>Underscores stand between digits only, a base prefix counting as a digit.\<close>

fun float_underscores :: "bool \<Rightarrow> bool option \<Rightarrow> string \<Rightarrow> bool" where
  "float_underscores hex k [] = (k \<noteq> Some False)"
| "float_underscores hex k (c # s) =
     (if digit_of (if hex then 16 else 10) c \<noteq> None then float_underscores hex (Some True) s
      else if c = CHR ''_'' then k = Some True \<and> float_underscores hex (Some False) s
      else k \<noteq> Some False \<and> float_underscores hex None s)"

text \<open>\<open>base^x\<close> as a factor of a numerator and of a denominator.\<close>

definition scale_ratio :: "bool \<Rightarrow> int \<Rightarrow> int \<Rightarrow> int \<Rightarrow> float64 option" where
  "scale_ratio neg n base x =
     (if x \<ge> 0 then f64_of_ratio neg (n * base ^ nat x) 1 else f64_of_ratio neg n (base ^ nat (- x)))"

definition float_number :: "bool \<Rightarrow> string \<Rightarrow> float64 option" where
  "float_number neg s =
     (let hex = length s > 2 \<and> hd s = CHR ''0'' \<and> ascii_lower (s ! 1) = CHR ''x'';
          base = (if hex then 16 else 10)
      in case float_mantissa base 0 0 False False (if hex then drop 2 s else s) of
           (n, k, some, rest) \<Rightarrow>
         if \<not> some then None
         else if CHR ''_'' \<in> set s \<and> \<not> float_underscores hex (if hex then Some True else None)
             (if hex then drop 2 s else s) then None
         else (case rest of
             [] \<Rightarrow> if hex then None else scale_ratio neg n 10 (- int k)
           | c # r \<Rightarrow>
               if ascii_lower c \<noteq> (if hex then CHR ''p'' else CHR ''e'') then None
               else
                 let minus = (r \<noteq> [] \<and> hd r = CHR ''-'');
                     ds = (if r \<noteq> [] \<and> (hd r = CHR ''-'' \<or> hd r = CHR ''+'') then tl r else r)
                 in if ds = [] \<or> \<not> is_digit (hd ds) then None
                    else (case float_exponent 0 ds of (e, left) \<Rightarrow>
                        let e = (if minus then - e else e)
                        in if left \<noteq> [] then None
                           else if hex then scale_ratio neg n 2 (e - 4 * int k)
                           else scale_ratio neg n 10 (e - int k))))"

definition f64_inf :: float64 where "f64_inf = 0x7FF0000000000000"
definition f64_nan :: float64 where "f64_nan = 0x7FF8000000000001"

definition ParseFloat :: "string \<Rightarrow> float64 option" where
  "ParseFloat s =
     (let neg = (s \<noteq> [] \<and> hd s = CHR ''-'');
          r = (if s \<noteq> [] \<and> (hd s = CHR ''-'' \<or> hd s = CHR ''+'') then tl s else s);
          low = map ascii_lower r
      in if low \<in> {''inf'', ''infinity''} then Some (if neg then f64_inf + 2 ^ 63 else f64_inf)
         else if map ascii_lower s = ''nan'' then Some f64_nan
         else float_number neg r)"

lemma ParseFloat_examples:
  "ParseFloat ''21.5'' = Some 0x4035800000000000"
  "ParseFloat ''-1e3'' = Some 0xC08F400000000000"
  "ParseFloat ''0.1'' = Some 0x3FB999999999999A"
  "ParseFloat ''1_0'' = Some 0x4024000000000000"
  "ParseFloat ''0x1p-2'' = Some 0x3FD0000000000000"
  "ParseFloat ''9007199254740993'' = ParseFloat ''9007199254740992''"
  "ParseFloat ''1e400'' = None"
  "ParseFloat ''12a'' = None"
  "map_option int64_of_f64 (ParseFloat ''-2.75'') = Some (- 2)"
  by code_simp+

end
