(* ===== verification/GoJson.thy ===== *)
theory GoJson
  imports AdapterTypes GoStrconv "HOL-Library.List_Lexorder" "HOL-Library.Char_ord"
begin

text \<open>
  \<^verbatim>\<open>encoding/json\<close> as the MQTT adapter uses it, a decoder told to keep numbers as they are written
  that reads one value, and the verb \<open>%v\<close> of \<^verbatim>\<open>fmt\<close> on what it returns. The text is a string of bytes.
  A string of the document may hold any bytes; those that are not UTF-8 are replaced.
\<close>

section \<open>UTF-8\<close>

definition byte_in :: "nat \<Rightarrow> nat \<Rightarrow> char \<Rightarrow> bool" where
  "byte_in lo hi c \<longleftrightarrow> lo \<le> of_char c \<and> of_char c \<le> hi"

definition continuation :: "char \<Rightarrow> bool" where
  "continuation = byte_in 0x80 0xBF"

text \<open>The length of the rune a string begins with, or 0 when its bytes are not the encoding of one.\<close>

definition rune_length :: "string \<Rightarrow> nat" where
  "rune_length s =
     (case s of
        [] \<Rightarrow> 0
      | a # r \<Rightarrow>
          if byte_in 0 0x7F a then 1
          else if byte_in 0xC2 0xDF a then (case r of b # _ \<Rightarrow> if continuation b then 2 else 0 | _ \<Rightarrow> 0)
          else if byte_in 0xE0 0xEF a then
            (case r of b # c # _ \<Rightarrow>
                if (if a = CHR 0xE0 then byte_in 0xA0 0xBF b
                    else if a = CHR 0xED then byte_in 0x80 0x9F b else continuation b) \<and> continuation c
                then 3 else 0
             | _ \<Rightarrow> 0)
          else if byte_in 0xF0 0xF4 a then
            (case r of b # c # d # _ \<Rightarrow>
                if (if a = CHR 0xF0 then byte_in 0x90 0xBF b
                    else if a = CHR 0xF4 then byte_in 0x80 0x8F b else continuation b) \<and>
                   continuation c \<and> continuation d
                then 4 else 0
             | _ \<Rightarrow> 0)
          else 0)"

definition replacement_rune :: string where
  "replacement_rune = [CHR 0xEF, CHR 0xBF, CHR 0xBD]"

definition encode_rune :: "int \<Rightarrow> string" where
  "encode_rune n =
     (let b = (\<lambda>x. char_of (nat x) :: char)
      in if n < 0x80 then [b n]
         else if n < 0x800 then [b (0xC0 + n div 64), b (0x80 + n mod 64)]
         else if n < 0x10000 then [b (0xE0 + n div 4096), b (0x80 + n div 64 mod 64), b (0x80 + n mod 64)]
         else [b (0xF0 + n div 262144), b (0x80 + n div 4096 mod 64), b (0x80 + n div 64 mod 64),
               b (0x80 + n mod 64)])"

section \<open>Strings\<close>

definition four_hex :: "string \<Rightarrow> int option" where
  "four_hex s =
     (if length s < 4 then None
      else case map (digit_of 16) (take 4 s) of
          [Some a, Some b, Some c, Some d] \<Rightarrow> Some (((a * 16 + b) * 16 + c) * 16 + d)
        | _ \<Rightarrow> None)"

text \<open>
  The escape after a backslash: its text and what follows. Two escapes that are a surrogate pair make
  one rune; a lone surrogate is replaced.
\<close>

definition json_escape :: "string \<Rightarrow> (string \<times> string) option" where
  "json_escape s =
     (case s of
        [] \<Rightarrow> None
      | c # r \<Rightarrow>
          if c \<in> {CHR ''\"'', CHR 0x5C, CHR ''/''} then Some ([c], r)
          else if c = CHR ''b'' then Some ([CHR 8], r)
          else if c = CHR ''f'' then Some ([CHR 12], r)
          else if c = CHR ''n'' then Some ([CHR 10], r)
          else if c = CHR ''r'' then Some ([CHR 13], r)
          else if c = CHR ''t'' then Some ([CHR 9], r)
          else if c = CHR ''u'' then
            (case four_hex r of
               None \<Rightarrow> None
             | Some n \<Rightarrow>
                 let rest = drop 4 r
                 in if n < 0xD800 \<or> 0xDFFF < n then Some (encode_rune n, rest)
                    else (case (if is_prefix [CHR 0x5C, CHR ''u''] rest then four_hex (drop 2 rest) else None) of
                        Some m \<Rightarrow>
                          if n < 0xDC00 \<and> 0xDC00 \<le> m \<and> m \<le> 0xDFFF
                          then Some (encode_rune ((n - 0xD800) * 1024 + (m - 0xDC00) + 0x10000), drop 6 rest)
                          else Some (replacement_rune, rest)
                      | None \<Rightarrow> Some (replacement_rune, rest)))
          else None)"

text \<open>The rest of a string after its opening quote. Every step consumes at least one byte.\<close>

fun json_string :: "nat \<Rightarrow> string \<Rightarrow> (string \<times> string) option" where
  "json_string 0 s = None"
| "json_string (Suc n) s =
     (case s of
        [] \<Rightarrow> None
      | c # r \<Rightarrow>
          if c = CHR ''\"'' then Some ([], r)
          else if byte_in 0 0x1F c then None
          else if c = CHR 0x5C then
            (case json_escape r of
               None \<Rightarrow> None
             | Some (t, r) \<Rightarrow> map_option (\<lambda>(u, r). (t @ u, r)) (json_string n r))
          else
            let k = rune_length s
            in if k = 0 then map_option (\<lambda>(u, r). (replacement_rune @ u, r)) (json_string n r)
               else map_option (\<lambda>(u, r). (take k s @ u, r)) (json_string n (drop k s)))"

section \<open>Numbers\<close>

definition some_digits :: "string \<Rightarrow> (string \<times> string) option" where
  "some_digits s = (if takeWhile is_digit s = [] then None else Some (takeWhile is_digit s, dropWhile is_digit s))"

definition json_number :: "string \<Rightarrow> (string \<times> string) option" where
  "json_number s =
     (let minus = (if s \<noteq> [] \<and> hd s = CHR ''-'' then ''-'' else []); s = drop (length minus) s
      in case (if s \<noteq> [] \<and> hd s = CHR ''0'' then Some (''0'', tl s) else some_digits s) of
           None \<Rightarrow> None
         | Some (whole, s) \<Rightarrow>
             (case (if s \<noteq> [] \<and> hd s = CHR ''.''
                    then map_option (\<lambda>(ds, r). (CHR ''.'' # ds, r)) (some_digits (tl s)) else Some ([], s)) of
                None \<Rightarrow> None
              | Some (frac, s) \<Rightarrow>
                  (case (if s \<noteq> [] \<and> hd s \<in> {CHR ''e'', CHR ''E''}
                         then let e = take 1 s; r = tl s;
                                  sign = (if r \<noteq> [] \<and> hd r \<in> {CHR ''+'', CHR ''-''} then take 1 r else [])
                              in map_option (\<lambda>(ds, r). (e @ sign @ ds, r)) (some_digits (drop (length sign) r))
                         else Some ([], s)) of
                     None \<Rightarrow> None
                   | Some (ex, s) \<Rightarrow> Some (minus @ whole @ frac @ ex, s))))"

section \<open>Values\<close>

definition skip_space :: "string \<Rightarrow> string" where
  "skip_space s = dropWhile (\<lambda>c. c \<in> {CHR 0x20, CHR 0x09, CHR 0x0A, CHR 0x0D}) s"

text \<open>
  A value, the elements of an array after a first one may come, and the members of an object. The
  first argument bounds the number of steps, each of which consumes a byte; the second is how many
  arrays and objects may still be opened inside each other.
\<close>

fun json_value :: "nat \<Rightarrow> nat \<Rightarrow> string \<Rightarrow> (json \<times> string) option"
and json_elements :: "nat \<Rightarrow> nat \<Rightarrow> string \<Rightarrow> (json list \<times> string) option"
and json_members :: "nat \<Rightarrow> nat \<Rightarrow> any_map \<Rightarrow> string \<Rightarrow> (any_map \<times> string) option" where
  "json_value 0 depth s = None"
| "json_value (Suc n) depth s =
     (case skip_space s of
        [] \<Rightarrow> None
      | c # r \<Rightarrow>
          if is_prefix ''null'' (c # r) then Some (JNull, drop 3 r)
          else if is_prefix ''true'' (c # r) then Some (JBool True, drop 3 r)
          else if is_prefix ''false'' (c # r) then Some (JBool False, drop 4 r)
          else if c = CHR ''\"'' then map_option (\<lambda>(t, r). (JString t, r)) (json_string (length (c # r)) r)
          else if c = CHR ''['' then
            (if depth = 0 then None
             else if is_prefix '']'' (skip_space r) then Some (JArray [], tl (skip_space r))
             else map_option (\<lambda>(xs, r). (JArray xs, r)) (json_elements n (depth - 1) r))
          else if c = CHR ''{'' then
            (if depth = 0 then None
             else if is_prefix ''}'' (skip_space r) then Some (JObject [], tl (skip_space r))
             else map_option (\<lambda>(kvs, r). (JObject kvs, r)) (json_members n (depth - 1) [] r))
          else map_option (\<lambda>(t, r). (JDecimal t, r)) (json_number (c # r)))"
| "json_elements 0 depth s = None"
| "json_elements (Suc n) depth s =
     (case json_value n depth s of
        None \<Rightarrow> None
      | Some (x, r) \<Rightarrow>
          (case skip_space r of
             [] \<Rightarrow> None
           | c # r \<Rightarrow>
               if c = CHR '']'' then Some ([x], r)
               else if c = CHR '','' then map_option (\<lambda>(xs, r). (x # xs, r)) (json_elements n depth r)
               else None))"
| "json_members 0 depth kvs s = None"
| "json_members (Suc n) depth kvs s =
     (case skip_space s of
        [] \<Rightarrow> None
      | c # r \<Rightarrow>
          if c \<noteq> CHR ''\"'' then None
          else (case json_string (length (c # r)) r of
              None \<Rightarrow> None
            | Some (k, r) \<Rightarrow>
                (case skip_space r of
                   [] \<Rightarrow> None
                 | c # r \<Rightarrow>
                     if c \<noteq> CHR '':'' then None
                     else (case json_value n depth r of
                         None \<Rightarrow> None
                       | Some (v, r) \<Rightarrow>
                           let kvs = AList.update k v kvs
                           in (case skip_space r of
                                 [] \<Rightarrow> None
                               | c # r \<Rightarrow>
                                   if c = CHR ''}'' then Some (kvs, r)
                                   else if c = CHR '','' then json_members n depth kvs r
                                   else None)))))"

text \<open>\<open>dec.Decode(&obj)\<close> of an object: \<open>null\<close> leaves the nil map, which is no error.\<close>

definition DecodeObject :: "string \<Rightarrow> any_map option" where
  "DecodeObject s =
     (case json_value (2 * length s + 1) 10000 s of
        Some (JObject kvs, _) \<Rightarrow> Some kvs
      | _ \<Rightarrow> None)"

section \<open>The verb %v\<close>

text \<open>The text of a \<open>float64\<close> is an argument; what a decoder of the code returns contains none.\<close>

fun Sprint :: "(float64 \<Rightarrow> string) \<Rightarrow> json \<Rightarrow> string" where
  "Sprint fmt JNull = ''<nil>''"
| "Sprint fmt (JBool b) = (if b then ''true'' else ''false'')"
| "Sprint fmt (JNumber x) = fmt x"
| "Sprint fmt (JDecimal t) = t"
| "Sprint fmt (JString t) = t"
| "Sprint fmt (JArray xs) = ''['' @ Join (map (Sprint fmt) xs) '' '' @ '']''"
| "Sprint fmt (JObject kvs) =
     ''map['' @ Join (map (\<lambda>(k, t). k @ '':'' @ t) (sort_key fst (map (\<lambda>(k, v). (k, Sprint fmt v)) kvs))) '' '' @ '']''"

lemma DecodeObject_examples:
  "DecodeObject '' {\"a\": 1.50, \"b\":[true,null], \"a\":\"x\"} trailing'' =
     Some [(''a'', JString ''x''), (''b'', JArray [JBool True, JNull])]"
  "DecodeObject ''{\"t\":-2e+3,\"o\":{}}'' = Some [(''t'', JDecimal ''-2e+3''), (''o'', JObject [])]"
  "DecodeObject ''{\"t\":01}'' = None" "DecodeObject ''[1]'' = None" "DecodeObject ''{\"t\":1,}'' = None"
  by code_simp+

lemma Sprint_examples:
  "Sprint (\<lambda>_. []) (JObject [(''b'', JArray [JDecimal ''1'', JNull]), (''a'', JBool True)]) =
     ''map[a:true b:[1 <nil>]]''"
  by code_simp

end
