(* ===== verification/GoTimeParse.thy ===== *)
theory GoTimeParse
  imports GoTime GoStrconv
begin

text \<open>
  \<^verbatim>\<open>time.Parse(time.RFC3339Nano, s)\<close>: the strict form and what the library's parser tolerates (an hour
  of one digit, a comma before the fraction, more than nine digits of it, an offset of 24 hours or
  60 minutes), and \<^verbatim>\<open>time.Unix\<close>.
\<close>

definition days_of_civil :: "int \<Rightarrow> int \<Rightarrow> int \<Rightarrow> int" where
  "days_of_civil y m d =
     (let y = (if m \<le> 2 then y - 1 else y); yoe = y mod 400;
          doy = (153 * (if m > 2 then m - 3 else m + 9) + 2) div 5 + d - 1
      in y div 400 * 146097 + yoe * 365 + yoe div 4 - yoe div 100 + doy - 719468)"

definition days_in_month :: "int \<Rightarrow> int \<Rightarrow> int" where
  "days_in_month y m =
     (if m = 2 then (if y mod 4 = 0 \<and> (y mod 100 \<noteq> 0 \<or> y mod 400 = 0) then 29 else 28)
      else if m \<in> {4, 6, 9, 11} then 30 else 31)"

text \<open>A number of exactly \<open>w\<close> digits, and the rest; a literal byte.\<close>

definition take_num :: "nat \<Rightarrow> string \<Rightarrow> (int \<times> string) option" where
  "take_num w s =
     (if length s < w \<or> \<not> list_all is_digit (take w s) then None
      else Some (digits_value (take w s), drop w s))"

definition take_char :: "char \<Rightarrow> string \<Rightarrow> string option" where
  "take_char c s = (case s of d # r \<Rightarrow> if d = c then Some r else None | [] \<Rightarrow> None)"

definition take_hour :: "string \<Rightarrow> (int \<times> string) option" where
  "take_hour s = (case take_num 2 s of Some x \<Rightarrow> Some x | None \<Rightarrow> take_num 1 s)"

definition take_fraction :: "string \<Rightarrow> int \<times> string" where
  "take_fraction s =
     (case s of
        c # r \<Rightarrow>
          (if (c = CHR ''.'' \<or> c = CHR '','') \<and> r \<noteq> [] \<and> is_digit (hd r)
           then let ds = takeWhile is_digit r; kept = take 9 ds
                in (digits_value kept * 10 ^ (9 - length kept), dropWhile is_digit r)
           else (0, s))
      | [] \<Rightarrow> (0, s))"

text \<open>The offset from UTC in seconds.\<close>

definition take_zone :: "string \<Rightarrow> (int \<times> string) option" where
  "take_zone s =
     (case s of
        [] \<Rightarrow> None
      | c # r \<Rightarrow>
          if c = CHR ''Z'' then Some (0, r)
          else if c \<noteq> CHR ''+'' \<and> c \<noteq> CHR ''-'' then None
          else Option.bind (take_num 2 r) (\<lambda>(h, r).
               Option.bind (take_char CHR '':'' r) (\<lambda>r.
               Option.bind (take_num 2 r) (\<lambda>(m, r).
                 if h > 24 \<or> m > 60 then None
                 else Some ((if c = CHR ''-'' then - 1 else 1) * (h * 60 + m) * 60, r)))))"

definition ParseRFC3339 :: "string \<Rightarrow> time option" where
  "ParseRFC3339 s =
     Option.bind (take_num 4 s) (\<lambda>(y, s). Option.bind (take_char CHR ''-'' s) (\<lambda>s.
     Option.bind (take_num 2 s) (\<lambda>(m, s). Option.bind (take_char CHR ''-'' s) (\<lambda>s.
     Option.bind (take_num 2 s) (\<lambda>(d, s). Option.bind (take_char CHR ''T'' s) (\<lambda>s.
     Option.bind (take_hour s) (\<lambda>(h, s). Option.bind (take_char CHR '':'' s) (\<lambda>s.
     Option.bind (take_num 2 s) (\<lambda>(mi, s). Option.bind (take_char CHR '':'' s) (\<lambda>s.
     Option.bind (take_num 2 s) (\<lambda>(sec, s).
       (case take_fraction s of (ns, s) \<Rightarrow>
          Option.bind (take_zone s) (\<lambda>(off, s).
            if s \<noteq> [] \<or> m < 1 \<or> 12 < m \<or> d < 1 \<or> days_in_month y m < d \<or> 24 \<le> h \<or> 60 \<le> mi \<or> 60 \<le> sec
            then None
            else Some ((((days_of_civil y m d * 24 + h) * 60 + mi) * 60 + sec - off) * 1000000000 + ns))))))))))))))"

definition time_Unix :: "int \<Rightarrow> int \<Rightarrow> time" where
  "time_Unix sec nsec = sec * 1000000000 + nsec"

lemma ParseRFC3339_examples:
  "ParseRFC3339 ''1970-01-01T00:00:00Z'' = Some 0"
  "ParseRFC3339 ''2024-02-29T12:34:56.25Z'' = Some (time_UnixMilli 1709210096250)"
  "ParseRFC3339 ''2024-02-29T14:34:56,25+02:00'' = Some (time_UnixMilli 1709210096250)"
  "ParseRFC3339 ''2023-02-29T00:00:00Z'' = None"
  "ParseRFC3339 ''0001-01-01T0:00:00Z'' = Some zero_time"
  "ParseRFC3339 ''2024-02-29T12:34:56.25'' = None"
  by code_simp+

end
