(* ===== verification/IngressConfig.thy ===== *)
theory IngressConfig
  imports GoStrconv
begin

text \<open>
  \<^verbatim>\<open>protocol-ingress/internal/config/config.go\<close>: the configuration of the ingress process, read from
  the environment, brought to its normal form and validated. The environment is a function from
  names to values; an error names the variable it is about.
\<close>

section \<open>Records\<close>

record service_config =
  sv_Name :: string
  sv_Env :: string
  sv_InstanceID :: string

record server_config =
  sr_HTTPAddr :: string
  sr_ShutdownTimeout :: duration

record core_config =
  cr_Endpoint :: string
  cr_Timeout :: duration
  cr_Token :: string

record custom_tcp_config =
  ct_Enabled :: bool
  ct_ListenAddr :: string
  ct_ReadTimeout :: duration
  ct_IdleTimeout :: duration
  ct_RPCTimeout :: duration
  ct_RegisterAckGraceDelay :: duration
  ct_DownlinkMaxBatch :: int

record mqtt_config =
  mt_Enabled :: bool
  mt_Mode :: string
  mt_ListenAddr :: string
  mt_AuthMode :: string
  mt_BrokerURL :: string
  mt_ClientID :: string
  mt_Username :: string
  mt_Password :: string
  mt_SubscribeTopics :: "string list"
  mt_QoS :: byte
  mt_ConnectTimeout :: duration
  mt_KeepAlive :: duration
  mt_MessageBuffer :: int
  mt_RPCTimeout :: duration
  mt_BaseTopic :: string
  mt_Zigbee2MQTTBaseTopic :: string
  mt_Source :: string
  mt_DownlinkEnabled :: bool
  mt_DownlinkTopic :: string
  mt_DownlinkPollInterval :: duration
  mt_DownlinkDeviceTTL :: duration
  mt_DownlinkMaxBatch :: int
  mt_DownlinkRetained :: bool

record ingress_config =
  cf_Service :: service_config
  cf_Server :: server_config
  cf_Core :: core_config
  cf_CustomTCP :: custom_tcp_config
  cf_MQTT :: mqtt_config

section \<open>Defaults\<close>

definition default_topics :: "string list" where
  "default_topics =
     [''goster/v1/+/telemetry'', ''goster/v1/+/heartbeat'', ''goster/v1/+/event'', ''goster/v1/+/ack'']"

definition Default_CustomTCP :: custom_tcp_config where
  "Default_CustomTCP =
     \<lparr>ct_Enabled = False, ct_ListenAddr = ''127.0.0.1:8081'', ct_ReadTimeout = 60 * second,
      ct_IdleTimeout = 5 * minute, ct_RPCTimeout = 5 * second,
      ct_RegisterAckGraceDelay = 300 * millisecond, ct_DownlinkMaxBatch = 1\<rparr>"

definition Default_MQTT :: mqtt_config where
  "Default_MQTT =
     \<lparr>mt_Enabled = False, mt_Mode = ''external'', mt_ListenAddr = ''127.0.0.1:1883'',
      mt_AuthMode = ''client_password_token'', mt_BrokerURL = ''tcp://127.0.0.1:1883'',
      mt_ClientID = ''protocol-ingress-mqtt'', mt_Username = [], mt_Password = [],
      mt_SubscribeTopics = default_topics, mt_QoS = 1, mt_ConnectTimeout = 5 * second,
      mt_KeepAlive = 30 * second, mt_MessageBuffer = 128, mt_RPCTimeout = 5 * second,
      mt_BaseTopic = ''goster/v1'', mt_Zigbee2MQTTBaseTopic = ''zigbee2mqtt'', mt_Source = ''mqtt'',
      mt_DownlinkEnabled = True, mt_DownlinkTopic = ''goster/v1/{uuid}/downlink'',
      mt_DownlinkPollInterval = 2 * second, mt_DownlinkDeviceTTL = 10 * minute,
      mt_DownlinkMaxBatch = 1, mt_DownlinkRetained = False\<rparr>"

definition Default :: ingress_config where
  "Default =
     \<lparr>cf_Service = \<lparr>sv_Name = ''protocol-ingress'', sv_Env = ''dev'', sv_InstanceID = ''ingress-local-01''\<rparr>,
      cf_Server = \<lparr>sr_HTTPAddr = ''127.0.0.1:8090'', sr_ShutdownTimeout = 10 * second\<rparr>,
      cf_Core = \<lparr>cr_Endpoint = ''http://127.0.0.1:8080'', cr_Timeout = 5 * second, cr_Token = []\<rparr>,
      cf_CustomTCP = Default_CustomTCP, cf_MQTT = Default_MQTT\<rparr>"

section \<open>Values of variables\<close>

type_synonym environment = "string \<Rightarrow> string option"

definition lookupString :: "environment \<Rightarrow> string \<Rightarrow> string option" where
  "lookupString env key = map_option TrimSpace (env key)"

definition cfg_parseDuration :: "string \<Rightarrow> string \<Rightarrow> duration result" where
  "cfg_parseDuration key value =
     (case ParseDuration (TrimSpace value) of
        None \<Rightarrow> Inl (ErrText key)
      | Some d \<Rightarrow> if d \<le> 0 then Inl (ErrText key) else Inr d)"

definition cfg_parseBool :: "string \<Rightarrow> string \<Rightarrow> bool result" where
  "cfg_parseBool key value =
     (case ParseBool (TrimSpace value) of None \<Rightarrow> Inl (ErrText key) | Some b \<Rightarrow> Inr b)"

definition parsePositiveInt :: "string \<Rightarrow> string \<Rightarrow> int result" where
  "parsePositiveInt key value =
     (case ParseInt (TrimSpace value) of
        None \<Rightarrow> Inl (ErrText key)
      | Some n \<Rightarrow> if n \<le> 0 then Inl (ErrText key) else Inr n)"

definition parseNonNegativeInt :: "string \<Rightarrow> string \<Rightarrow> int result" where
  "parseNonNegativeInt key value =
     (case ParseInt (TrimSpace value) of
        None \<Rightarrow> Inl (ErrText key)
      | Some n \<Rightarrow> if n < 0 then Inl (ErrText key) else Inr n)"

definition parseCSV :: "string \<Rightarrow> string list" where
  "parseCSV value = filter (\<lambda>part. part \<noteq> []) (map TrimSpace (Split CHR '','' value))"

section \<open>Reading the environment\<close>

text \<open>
  One step of the reader: the names tried in turn, each with what its value does to the
  configuration. The first that is set decides.
\<close>

type_synonym 'c setter = "string \<Rightarrow> 'c \<Rightarrow> 'c result"

primrec apply_setting :: "environment \<Rightarrow> (string \<times> 'c setter) list \<Rightarrow> 'c \<Rightarrow> 'c result" where
  "apply_setting env [] c = Inr c"
| "apply_setting env (ks # rest) c =
     (case lookupString env (fst ks) of
        Some v \<Rightarrow> snd ks v c
      | None \<Rightarrow> apply_setting env rest c)"

primrec apply_settings :: "environment \<Rightarrow> (string \<times> 'c setter) list list \<Rightarrow> 'c \<Rightarrow> 'c result" where
  "apply_settings env [] c = Inr c"
| "apply_settings env (s # ss) c =
     (case apply_setting env s c of Inl e \<Rightarrow> Inl e | Inr c' \<Rightarrow> apply_settings env ss c')"

definition text_setting :: "string \<Rightarrow> (string \<Rightarrow> 'c \<Rightarrow> 'c) \<Rightarrow> string \<times> 'c setter" where
  "text_setting key f = (key, \<lambda>v c. Inr (f v c))"

definition parsed_setting ::
    "(string \<Rightarrow> string \<Rightarrow> 'a result) \<Rightarrow> string \<Rightarrow> ('a \<Rightarrow> 'c \<Rightarrow> 'c) \<Rightarrow> string \<times> 'c setter" where
  "parsed_setting parse key f =
     (key, \<lambda>v c. case parse key v of Inl e \<Rightarrow> Inl e | Inr x \<Rightarrow> Inr (f x c))"

definition service_settings :: "(string \<times> service_config setter) list list" where
  "service_settings =
     [[text_setting ''PROTOCOL_INGRESS_SERVICE_NAME'' (\<lambda>v c. c\<lparr>sv_Name := v\<rparr>)],
      [text_setting ''PROTOCOL_INGRESS_ENV'' (\<lambda>v c. c\<lparr>sv_Env := v\<rparr>)],
      [text_setting ''PROTOCOL_INGRESS_INSTANCE_ID'' (\<lambda>v c. c\<lparr>sv_InstanceID := v\<rparr>),
       text_setting ''HOSTNAME'' (\<lambda>v c. c\<lparr>sv_InstanceID := v\<rparr>)]]"

definition server_settings :: "(string \<times> server_config setter) list list" where
  "server_settings =
     [[text_setting ''PROTOCOL_INGRESS_HTTP_ADDR'' (\<lambda>v c. c\<lparr>sr_HTTPAddr := v\<rparr>),
       text_setting ''PORT'' (\<lambda>v c. c\<lparr>sr_HTTPAddr := '':'' @ TrimPrefix v '':''\<rparr>)],
      [parsed_setting cfg_parseDuration ''PROTOCOL_INGRESS_SHUTDOWN_TIMEOUT''
         (\<lambda>d c. c\<lparr>sr_ShutdownTimeout := d\<rparr>)]]"

definition core_settings :: "(string \<times> core_config setter) list list" where
  "core_settings =
     [[text_setting ''PROTOCOL_INGRESS_CORE_ENDPOINT'' (\<lambda>v c. c\<lparr>cr_Endpoint := v\<rparr>)],
      [parsed_setting cfg_parseDuration ''PROTOCOL_INGRESS_CORE_TIMEOUT'' (\<lambda>d c. c\<lparr>cr_Timeout := d\<rparr>)],
      [text_setting ''PROTOCOL_INGRESS_CORE_TOKEN'' (\<lambda>v c. c\<lparr>cr_Token := v\<rparr>),
       text_setting ''PROTOCOL_INGRESS_TOKEN'' (\<lambda>v c. c\<lparr>cr_Token := v\<rparr>)]]"

definition tcp_settings :: "(string \<times> custom_tcp_config setter) list list" where
  "tcp_settings =
     [[parsed_setting cfg_parseBool ''PROTOCOL_INGRESS_CUSTOM_TCP_ENABLED'' (\<lambda>b c. c\<lparr>ct_Enabled := b\<rparr>)],
      [text_setting ''PROTOCOL_INGRESS_CUSTOM_TCP_ADDR'' (\<lambda>v c. c\<lparr>ct_ListenAddr := v\<rparr>)],
      [parsed_setting cfg_parseDuration ''PROTOCOL_INGRESS_CUSTOM_TCP_READ_TIMEOUT''
         (\<lambda>d c. c\<lparr>ct_ReadTimeout := d\<rparr>)],
      [parsed_setting cfg_parseDuration ''PROTOCOL_INGRESS_CUSTOM_TCP_IDLE_TIMEOUT''
         (\<lambda>d c. c\<lparr>ct_IdleTimeout := d\<rparr>)],
      [parsed_setting cfg_parseDuration ''PROTOCOL_INGRESS_CUSTOM_TCP_RPC_TIMEOUT''
         (\<lambda>d c. c\<lparr>ct_RPCTimeout := d\<rparr>)],
      [parsed_setting cfg_parseDuration ''PROTOCOL_INGRESS_CUSTOM_TCP_REGISTER_ACK_GRACE_DELAY''
         (\<lambda>d c. c\<lparr>ct_RegisterAckGraceDelay := d\<rparr>)],
      [parsed_setting parsePositiveInt ''PROTOCOL_INGRESS_CUSTOM_TCP_DOWNLINK_MAX_BATCH''
         (\<lambda>n c. c\<lparr>ct_DownlinkMaxBatch := n\<rparr>)]]"

text \<open>\<open>byte(n)\<close> keeps the low eight bits.\<close>

definition mqtt_settings :: "(string \<times> mqtt_config setter) list list" where
  "mqtt_settings =
     [[parsed_setting cfg_parseBool ''PROTOCOL_INGRESS_MQTT_ENABLED'' (\<lambda>b c. c\<lparr>mt_Enabled := b\<rparr>)],
      [text_setting ''PROTOCOL_INGRESS_MQTT_MODE'' (\<lambda>v c. c\<lparr>mt_Mode := v\<rparr>)],
      [text_setting ''PROTOCOL_INGRESS_MQTT_LISTEN_ADDR'' (\<lambda>v c. c\<lparr>mt_ListenAddr := v\<rparr>)],
      [text_setting ''PROTOCOL_INGRESS_MQTT_AUTH_MODE'' (\<lambda>v c. c\<lparr>mt_AuthMode := v\<rparr>)],
      [text_setting ''PROTOCOL_INGRESS_MQTT_BROKER_URL'' (\<lambda>v c. c\<lparr>mt_BrokerURL := v\<rparr>)],
      [text_setting ''PROTOCOL_INGRESS_MQTT_CLIENT_ID'' (\<lambda>v c. c\<lparr>mt_ClientID := v\<rparr>)],
      [text_setting ''PROTOCOL_INGRESS_MQTT_USERNAME'' (\<lambda>v c. c\<lparr>mt_Username := v\<rparr>)],
      [text_setting ''PROTOCOL_INGRESS_MQTT_PASSWORD'' (\<lambda>v c. c\<lparr>mt_Password := v\<rparr>)],
      [text_setting ''PROTOCOL_INGRESS_MQTT_SUBSCRIBE_TOPICS'' (\<lambda>v c. c\<lparr>mt_SubscribeTopics := parseCSV v\<rparr>)],
      [parsed_setting parseNonNegativeInt ''PROTOCOL_INGRESS_MQTT_QOS'' (\<lambda>n c. c\<lparr>mt_QoS := word_of_int n\<rparr>)],
      [parsed_setting cfg_parseDuration ''PROTOCOL_INGRESS_MQTT_CONNECT_TIMEOUT''
         (\<lambda>d c. c\<lparr>mt_ConnectTimeout := d\<rparr>)],
      [parsed_setting cfg_parseDuration ''PROTOCOL_INGRESS_MQTT_KEEP_ALIVE'' (\<lambda>d c. c\<lparr>mt_KeepAlive := d\<rparr>)],
      [parsed_setting parsePositiveInt ''PROTOCOL_INGRESS_MQTT_MESSAGE_BUFFER''
         (\<lambda>n c. c\<lparr>mt_MessageBuffer := n\<rparr>)],
      [parsed_setting cfg_parseDuration ''PROTOCOL_INGRESS_MQTT_RPC_TIMEOUT'' (\<lambda>d c. c\<lparr>mt_RPCTimeout := d\<rparr>)],
      [text_setting ''PROTOCOL_INGRESS_MQTT_BASE_TOPIC'' (\<lambda>v c. c\<lparr>mt_BaseTopic := v\<rparr>)],
      [text_setting ''PROTOCOL_INGRESS_MQTT_ZIGBEE2MQTT_BASE_TOPIC'' (\<lambda>v c. c\<lparr>mt_Zigbee2MQTTBaseTopic := v\<rparr>)],
      [text_setting ''PROTOCOL_INGRESS_MQTT_SOURCE'' (\<lambda>v c. c\<lparr>mt_Source := v\<rparr>)]]"

definition mqtt_downlink_settings :: "(string \<times> mqtt_config setter) list list" where
  "mqtt_downlink_settings =
     [[parsed_setting cfg_parseBool ''PROTOCOL_INGRESS_MQTT_DOWNLINK_ENABLED''
         (\<lambda>b c. c\<lparr>mt_DownlinkEnabled := b\<rparr>)],
      [text_setting ''PROTOCOL_INGRESS_MQTT_DOWNLINK_TOPIC'' (\<lambda>v c. c\<lparr>mt_DownlinkTopic := v\<rparr>)],
      [parsed_setting cfg_parseDuration ''PROTOCOL_INGRESS_MQTT_DOWNLINK_POLL_INTERVAL''
         (\<lambda>d c. c\<lparr>mt_DownlinkPollInterval := d\<rparr>)],
      [parsed_setting cfg_parseDuration ''PROTOCOL_INGRESS_MQTT_DOWNLINK_DEVICE_TTL''
         (\<lambda>d c. c\<lparr>mt_DownlinkDeviceTTL := d\<rparr>)],
      [parsed_setting parsePositiveInt ''PROTOCOL_INGRESS_MQTT_DOWNLINK_MAX_BATCH''
         (\<lambda>n c. c\<lparr>mt_DownlinkMaxBatch := n\<rparr>)],
      [parsed_setting cfg_parseBool ''PROTOCOL_INGRESS_MQTT_DOWNLINK_RETAINED''
         (\<lambda>b c. c\<lparr>mt_DownlinkRetained := b\<rparr>)]]"

text \<open>The settings of one part of the configuration.\<close>

definition within ::
    "(ingress_config \<Rightarrow> 'c) \<Rightarrow> ('c \<Rightarrow> ingress_config \<Rightarrow> ingress_config) \<Rightarrow> environment \<Rightarrow>
     (string \<times> 'c setter) list list \<Rightarrow> ingress_config \<Rightarrow> ingress_config result" where
  "within get_part put_part env settings c =
     (case apply_settings env settings (get_part c) of Inl e \<Rightarrow> Inl e | Inr p \<Rightarrow> Inr (put_part p c))"

definition bindR :: "'a result \<Rightarrow> ('a \<Rightarrow> 'b result) \<Rightarrow> 'b result" where
  "bindR r f = (case r of Inl e \<Rightarrow> Inl e | Inr x \<Rightarrow> f x)"

definition read_environment :: "environment \<Rightarrow> ingress_config result" where
  "read_environment env =
     bindR (within cf_Service (\<lambda>p c. c\<lparr>cf_Service := p\<rparr>) env service_settings Default) (\<lambda>c.
     bindR (within cf_Server (\<lambda>p c. c\<lparr>cf_Server := p\<rparr>) env server_settings c) (\<lambda>c.
     bindR (within cf_Core (\<lambda>p c. c\<lparr>cf_Core := p\<rparr>) env core_settings c) (\<lambda>c.
     bindR (within cf_CustomTCP (\<lambda>p c. c\<lparr>cf_CustomTCP := p\<rparr>) env tcp_settings c) (\<lambda>c.
     bindR (within cf_MQTT (\<lambda>p c. c\<lparr>cf_MQTT := p\<rparr>) env mqtt_settings c)
       (within cf_MQTT (\<lambda>p c. c\<lparr>cf_MQTT := p\<rparr>) env mqtt_downlink_settings)))))"

section \<open>Normal form and validation\<close>

definition or_text :: "string \<Rightarrow> string \<Rightarrow> string" where
  "or_text d v = (if v = [] then d else v)"

definition or_positive :: "int \<Rightarrow> int \<Rightarrow> int" where
  "or_positive d v = (if v \<le> 0 then d else v)"

definition Normalize_service :: "service_config \<Rightarrow> service_config" where
  "Normalize_service c =
     \<lparr>sv_Name = or_text ''protocol-ingress'' (sv_Name c), sv_Env = or_text ''dev'' (sv_Env c),
      sv_InstanceID = or_text ''ingress-local-01'' (sv_InstanceID c)\<rparr>"

definition Normalize_server :: "server_config \<Rightarrow> server_config" where
  "Normalize_server c =
     \<lparr>sr_HTTPAddr = or_text ''127.0.0.1:8090'' (sr_HTTPAddr c),
      sr_ShutdownTimeout = or_positive (10 * second) (sr_ShutdownTimeout c)\<rparr>"

definition Normalize_core :: "core_config \<Rightarrow> core_config" where
  "Normalize_core c =
     c\<lparr>cr_Endpoint := or_text ''http://127.0.0.1:8080'' (cr_Endpoint c),
       cr_Timeout := or_positive (5 * second) (cr_Timeout c)\<rparr>"

definition Normalize_tcp :: "custom_tcp_config \<Rightarrow> custom_tcp_config" where
  "Normalize_tcp c =
     c\<lparr>ct_ListenAddr := or_text ''127.0.0.1:8081'' (ct_ListenAddr c),
       ct_ReadTimeout := or_positive (60 * second) (ct_ReadTimeout c),
       ct_IdleTimeout := or_positive (5 * minute) (ct_IdleTimeout c),
       ct_RPCTimeout := or_positive (5 * second) (ct_RPCTimeout c),
       ct_RegisterAckGraceDelay := or_positive (300 * millisecond) (ct_RegisterAckGraceDelay c),
       ct_DownlinkMaxBatch := or_positive 1 (ct_DownlinkMaxBatch c)\<rparr>"

definition NormalizeMQTT :: "mqtt_config \<Rightarrow> mqtt_config" where
  "NormalizeMQTT c =
     c\<lparr>mt_BrokerURL := or_text ''tcp://127.0.0.1:1883'' (mt_BrokerURL c),
       mt_Mode := or_text ''external'' (ToLower (TrimSpace (mt_Mode c))),
       mt_ListenAddr := or_text ''127.0.0.1:1883'' (mt_ListenAddr c),
       mt_AuthMode := or_text ''client_password_token'' (ToLower (TrimSpace (mt_AuthMode c))),
       mt_ClientID := or_text ''protocol-ingress-mqtt'' (mt_ClientID c),
       mt_SubscribeTopics := (if length (mt_SubscribeTopics c) = 0 then default_topics else mt_SubscribeTopics c),
       mt_ConnectTimeout := or_positive (5 * second) (mt_ConnectTimeout c),
       mt_KeepAlive := or_positive (30 * second) (mt_KeepAlive c),
       mt_MessageBuffer := or_positive 128 (mt_MessageBuffer c),
       mt_RPCTimeout := or_positive (5 * second) (mt_RPCTimeout c),
       mt_BaseTopic := or_text ''goster/v1'' (mt_BaseTopic c),
       mt_Zigbee2MQTTBaseTopic := or_text ''zigbee2mqtt'' (mt_Zigbee2MQTTBaseTopic c),
       mt_Source := or_text ''mqtt'' (mt_Source c),
       mt_DownlinkTopic := or_text ''goster/v1/{uuid}/downlink'' (mt_DownlinkTopic c),
       mt_DownlinkPollInterval := or_positive (2 * second) (mt_DownlinkPollInterval c),
       mt_DownlinkDeviceTTL := or_positive (10 * minute) (mt_DownlinkDeviceTTL c),
       mt_DownlinkMaxBatch := or_positive 1 (mt_DownlinkMaxBatch c)\<rparr>"

definition Normalize :: "ingress_config \<Rightarrow> ingress_config" where
  "Normalize c =
     \<lparr>cf_Service = Normalize_service (cf_Service c), cf_Server = Normalize_server (cf_Server c),
      cf_Core = Normalize_core (cf_Core c), cf_CustomTCP = Normalize_tcp (cf_CustomTCP c),
      cf_MQTT = NormalizeMQTT (cf_MQTT c)\<rparr>"

definition blank :: "string \<Rightarrow> bool" where
  "blank s \<longleftrightarrow> TrimSpace s = []"

text \<open>The checks of \<open>Validate\<close> in order: what refuses a configuration, and the variable it names.\<close>

definition service_checks :: "ingress_config \<Rightarrow> (bool \<times> string) list" where
  "service_checks c =
     [(blank (sv_Name (cf_Service c)), ''PROTOCOL_INGRESS_SERVICE_NAME''),
      (blank (sv_InstanceID (cf_Service c)), ''PROTOCOL_INGRESS_INSTANCE_ID''),
      (blank (sr_HTTPAddr (cf_Server c)), ''PROTOCOL_INGRESS_HTTP_ADDR''),
      (blank (cr_Endpoint (cf_Core c)), ''PROTOCOL_INGRESS_CORE_ENDPOINT''),
      (cr_Timeout (cf_Core c) \<le> 0, ''PROTOCOL_INGRESS_CORE_TIMEOUT''),
      (sr_ShutdownTimeout (cf_Server c) \<le> 0, ''PROTOCOL_INGRESS_SHUTDOWN_TIMEOUT'')]"

definition tcp_checks :: "custom_tcp_config \<Rightarrow> (bool \<times> string) list" where
  "tcp_checks c =
     [(ct_Enabled c \<and> blank (ct_ListenAddr c), ''PROTOCOL_INGRESS_CUSTOM_TCP_ADDR''),
      (ct_ReadTimeout c \<le> 0, ''PROTOCOL_INGRESS_CUSTOM_TCP_READ_TIMEOUT''),
      (ct_IdleTimeout c \<le> 0, ''PROTOCOL_INGRESS_CUSTOM_TCP_IDLE_TIMEOUT''),
      (ct_RPCTimeout c \<le> 0, ''PROTOCOL_INGRESS_CUSTOM_TCP_RPC_TIMEOUT''),
      (ct_RegisterAckGraceDelay c \<le> 0, ''PROTOCOL_INGRESS_CUSTOM_TCP_REGISTER_ACK_GRACE_DELAY''),
      (ct_DownlinkMaxBatch c \<le> 0, ''PROTOCOL_INGRESS_CUSTOM_TCP_DOWNLINK_MAX_BATCH'')]"

definition mqtt_checks :: "mqtt_config \<Rightarrow> (bool \<times> string) list" where
  "mqtt_checks c =
     [(mt_Mode c \<noteq> ''external'' \<and> mt_Mode c \<noteq> ''embedded'', ''PROTOCOL_INGRESS_MQTT_MODE''),
      (mt_AuthMode c \<noteq> ''client_password_token'', ''PROTOCOL_INGRESS_MQTT_AUTH_MODE''),
      (mt_Enabled c \<and> mt_Mode c = ''external'' \<and> blank (mt_BrokerURL c), ''PROTOCOL_INGRESS_MQTT_BROKER_URL''),
      (mt_Enabled c \<and> mt_Mode c = ''external'' \<and> blank (mt_ClientID c), ''PROTOCOL_INGRESS_MQTT_CLIENT_ID''),
      (mt_Enabled c \<and> mt_Mode c = ''external'' \<and> length (mt_SubscribeTopics c) = 0,
         ''PROTOCOL_INGRESS_MQTT_SUBSCRIBE_TOPICS''),
      (mt_Enabled c \<and> mt_Mode c = ''embedded'' \<and> blank (mt_ListenAddr c), ''PROTOCOL_INGRESS_MQTT_LISTEN_ADDR''),
      (mt_QoS c > 2, ''PROTOCOL_INGRESS_MQTT_QOS''),
      (mt_ConnectTimeout c \<le> 0, ''PROTOCOL_INGRESS_MQTT_CONNECT_TIMEOUT''),
      (mt_KeepAlive c \<le> 0, ''PROTOCOL_INGRESS_MQTT_KEEP_ALIVE''),
      (mt_MessageBuffer c \<le> 0, ''PROTOCOL_INGRESS_MQTT_MESSAGE_BUFFER''),
      (mt_RPCTimeout c \<le> 0, ''PROTOCOL_INGRESS_MQTT_RPC_TIMEOUT''),
      (blank (mt_BaseTopic c), ''PROTOCOL_INGRESS_MQTT_BASE_TOPIC''),
      (blank (mt_Zigbee2MQTTBaseTopic c), ''PROTOCOL_INGRESS_MQTT_ZIGBEE2MQTT_BASE_TOPIC''),
      (mt_DownlinkEnabled c \<and> blank (mt_DownlinkTopic c), ''PROTOCOL_INGRESS_MQTT_DOWNLINK_TOPIC''),
      (mt_DownlinkPollInterval c \<le> 0, ''PROTOCOL_INGRESS_MQTT_DOWNLINK_POLL_INTERVAL''),
      (mt_DownlinkDeviceTTL c \<le> 0, ''PROTOCOL_INGRESS_MQTT_DOWNLINK_DEVICE_TTL''),
      (mt_DownlinkMaxBatch c \<le> 0, ''PROTOCOL_INGRESS_MQTT_DOWNLINK_MAX_BATCH'')]"

definition Validate :: "ingress_config \<Rightarrow> go_error option" where
  "Validate c =
     (case find fst (service_checks c @ tcp_checks (cf_CustomTCP c) @ mqtt_checks (cf_MQTT c)) of
        None \<Rightarrow> None | Some (_, key) \<Rightarrow> Some (ErrText key))"

text \<open>The configuration that is returned beside an error is not used by its caller and left out.\<close>

definition LoadFromEnv :: "environment \<Rightarrow> ingress_config result" where
  "LoadFromEnv env =
     (case read_environment env of
        Inl e \<Rightarrow> Inl e
      | Inr c \<Rightarrow> (case Validate (Normalize c) of None \<Rightarrow> Inr (Normalize c) | Some e \<Rightarrow> Inl e))"

section \<open>What is read\<close>

text \<open>Every setting keeps what holds of the defaults, given that values arrive trimmed.\<close>

definition setting_keeps :: "('c \<Rightarrow> bool) \<Rightarrow> string \<times> 'c setter \<Rightarrow> bool" where
  "setting_keeps P ks \<longleftrightarrow> (\<forall>v c c'. TrimSpace v = v \<longrightarrow> P c \<longrightarrow> snd ks v c = Inr c' \<longrightarrow> P c')"

definition keeps :: "('c \<Rightarrow> bool) \<Rightarrow> (string \<times> 'c setter) list list \<Rightarrow> bool" where
  "keeps P settings \<longleftrightarrow> list_all (list_all (setting_keeps P)) settings"

lemma text_setting_keeps:
  "(\<And>v c. TrimSpace v = v \<Longrightarrow> P c \<Longrightarrow> P (f v c)) \<Longrightarrow> setting_keeps P (text_setting k f)"
  by (auto simp: setting_keeps_def text_setting_def)

lemma parsed_setting_keeps:
  "(\<And>x c. P c \<Longrightarrow> P (f x c)) \<Longrightarrow> setting_keeps P (parsed_setting parse k f)"
  by (auto simp: setting_keeps_def parsed_setting_def split: sum.splits)

lemmas keeps_simps = keeps_def list.pred_inject simp_thms
lemmas keeps_intros = conjI text_setting_keeps parsed_setting_keeps

lemma apply_setting_keeps:
  "list_all (setting_keeps P) s \<Longrightarrow> P c \<Longrightarrow> apply_setting env s c = Inr c' \<Longrightarrow> P c'"
proof (induction s)
  case (Cons ks s)
  show ?case
  proof (cases "env (fst ks)")
    case None
    with Cons show ?thesis by (simp add: lookupString_def)
  next
    case (Some v)
    with Cons.prems have "setting_keeps P ks" "snd ks (TrimSpace v) c = Inr c'"
      by (simp_all add: lookupString_def)
    with Cons.prems(2) show ?thesis unfolding setting_keeps_def by (metis TrimSpace_idem)
  qed
qed simp

lemma apply_settings_keeps:
  "keeps P ss \<Longrightarrow> P c \<Longrightarrow> apply_settings env ss c = Inr c' \<Longrightarrow> P c'"
proof (induction ss arbitrary: c)
  case (Cons s ss)
  then obtain d where d: "apply_setting env s c = Inr d" "apply_settings env ss d = Inr c'"
    by (auto split: sum.splits)
  have "list_all (setting_keeps P) s" "keeps P ss" using Cons.prems(1) by (simp_all add: keeps_def)
  with Cons.IH Cons.prems(2) d show ?case by (metis apply_setting_keeps)
qed simp

lemma within_keeps:
  assumes "within get_part put_part env ss c = Inr c'" "keeps P ss" "P (get_part c)"
  shows "\<exists>p. c' = put_part p c \<and> P p"
  using assms by (auto simp: within_def split: sum.splits dest: apply_settings_keeps)

definition trimmed :: "string \<Rightarrow> bool" where
  "trimmed s \<longleftrightarrow> TrimSpace s = s"

lemma blank_or_text [simp]: "trimmed v \<Longrightarrow> blank (or_text d v) \<longleftrightarrow> v = [] \<and> blank d"
  by (auto simp: blank_def or_text_def trimmed_def)

lemma or_positive_pos [simp]: "0 < d \<Longrightarrow> 0 < or_positive d v"
  by (simp add: or_positive_def)

lemma parseCSV_topics: "t \<in> set (parseCSV v) \<Longrightarrow> trimmed t \<and> t \<noteq> []"
  by (auto simp: parseCSV_def trimmed_def)

lemma colon_not_blank: "\<not> blank ('':'' @ v)"
proof -
  have "trim_left ('':'' @ v) = '':'' @ v"
    unfolding trim_left_def by (rule strip_id) (auto simp: space_runes_def)
  moreover have "hd (trim_right (CHR '':'' # v)) = CHR '':'' \<or> trim_right (CHR '':'' # v) = []"
    using trim_right_prefix [of "CHR '':'' # v"] by (cases "trim_right (CHR '':'' # v)") auto
  moreover have "trim_right (CHR '':'' # v) \<noteq> []"
  proof
    assume "trim_right (CHR '':'' # v) = []"
    then have e: "strip (map rev space_runes) (rev v @ '':'') = []" by (simp add: trim_right_def)
    have "strip (map rev space_runes) (u @ '':'') \<noteq> []" for u
    proof (induction "length u" arbitrary: u rule: less_induct)
      case less
      let ?ws = "map rev space_runes"
      show ?case
      proof (cases "find (\<lambda>w. w \<noteq> [] \<and> is_prefix w (u @ '':'')) ?ws")
        case None
        then show ?thesis by (simp add: strip_None)
      next
        case (Some w)
        then have w: "w \<in> set ?ws" "w \<noteq> []" "is_prefix w (u @ '':'')"
          by (auto simp: find_Some_iff)
        then have "CHR '':'' \<notin> set w" by (auto simp: space_runes_def)
        with w(2,3) obtain u' where u': "u = w @ u'"
          by (auto simp: is_prefix_iff append_eq_append_conv2 Cons_eq_append_conv)
        with w(2) have "length u' < length u" by simp
        from less [OF this] show ?thesis unfolding strip_Some [OF Some] by (simp add: u')
      qed
    qed
    with e show False by blast
  qed
  ultimately show ?thesis by (simp add: blank_def TrimSpace_def)
qed

definition service_ok :: "service_config \<Rightarrow> bool" where
  "service_ok c \<longleftrightarrow> trimmed (sv_Name c) \<and> trimmed (sv_InstanceID c)"

definition server_ok :: "server_config \<Rightarrow> bool" where
  "server_ok c \<longleftrightarrow> sr_HTTPAddr c = [] \<or> \<not> blank (sr_HTTPAddr c)"

definition core_cfg_ok :: "core_config \<Rightarrow> bool" where
  "core_cfg_ok c \<longleftrightarrow> trimmed (cr_Endpoint c)"

definition tcp_ok :: "custom_tcp_config \<Rightarrow> bool" where
  "tcp_ok c \<longleftrightarrow> trimmed (ct_ListenAddr c)"

definition mqtt_ok :: "mqtt_config \<Rightarrow> bool" where
  "mqtt_ok c \<longleftrightarrow> trimmed (mt_BrokerURL c) \<and> trimmed (mt_ClientID c) \<and> trimmed (mt_ListenAddr c) \<and>
     trimmed (mt_BaseTopic c) \<and> trimmed (mt_Zigbee2MQTTBaseTopic c) \<and> trimmed (mt_DownlinkTopic c) \<and>
     (\<forall>t \<in> set (mt_SubscribeTopics c). trimmed t \<and> t \<noteq> [])"

lemma trimmed_Nil: "trimmed []"
  by (simp add: trimmed_def)

lemma service_settings_keep: "keeps service_ok service_settings"
  unfolding service_settings_def keeps_simps
  by (intro keeps_intros) (simp_all add: service_ok_def trimmed_def)

lemma server_settings_keep: "keeps server_ok server_settings"
  unfolding server_settings_def keeps_simps
  by (intro keeps_intros) (use colon_not_blank in \<open>auto simp: server_ok_def blank_def\<close>)

lemma core_settings_keep: "keeps core_cfg_ok core_settings"
  unfolding core_settings_def keeps_simps
  by (intro keeps_intros) (simp_all add: core_cfg_ok_def trimmed_def)

lemma tcp_settings_keep: "keeps tcp_ok tcp_settings"
  unfolding tcp_settings_def keeps_simps
  by (intro keeps_intros) (simp_all add: tcp_ok_def trimmed_def)

lemma mqtt_settings_keep: "keeps mqtt_ok mqtt_settings" "keeps mqtt_ok mqtt_downlink_settings"
  unfolding mqtt_settings_def mqtt_downlink_settings_def keeps_simps
  by (intro keeps_intros; simp add: mqtt_ok_def trimmed_def parseCSV_topics [unfolded trimmed_def])+

lemma read_environment_ok:
  assumes "read_environment env = Inr c"
  shows "service_ok (cf_Service c) \<and> server_ok (cf_Server c) \<and> core_cfg_ok (cf_Core c) \<and>
    tcp_ok (cf_CustomTCP c) \<and> mqtt_ok (cf_MQTT c)"
proof -
  have d: "service_ok (cf_Service Default)" "server_ok (cf_Server Default)" "core_cfg_ok (cf_Core Default)"
    "tcp_ok (cf_CustomTCP Default)" "mqtt_ok (cf_MQTT Default)"
    by code_simp+
  from assms obtain c1 c2 c3 c4 c5
    where 1: "within cf_Service (\<lambda>p c. c\<lparr>cf_Service := p\<rparr>) env service_settings Default = Inr c1"
      and 2: "within cf_Server (\<lambda>p c. c\<lparr>cf_Server := p\<rparr>) env server_settings c1 = Inr c2"
      and 3: "within cf_Core (\<lambda>p c. c\<lparr>cf_Core := p\<rparr>) env core_settings c2 = Inr c3"
      and 4: "within cf_CustomTCP (\<lambda>p c. c\<lparr>cf_CustomTCP := p\<rparr>) env tcp_settings c3 = Inr c4"
      and 5: "within cf_MQTT (\<lambda>p c. c\<lparr>cf_MQTT := p\<rparr>) env mqtt_settings c4 = Inr c5"
      and 6: "within cf_MQTT (\<lambda>p c. c\<lparr>cf_MQTT := p\<rparr>) env mqtt_downlink_settings c5 = Inr c"
    by (auto simp: read_environment_def bindR_def split: sum.splits)
  obtain p1 where p1: "c1 = Default\<lparr>cf_Service := p1\<rparr>" "service_ok p1"
    using within_keeps [OF 1 service_settings_keep d(1)] by blast
  obtain p2 where p2: "c2 = c1\<lparr>cf_Server := p2\<rparr>" "server_ok p2"
    using within_keeps [OF 2 server_settings_keep] d(2) p1(1) by auto
  obtain p3 where p3: "c3 = c2\<lparr>cf_Core := p3\<rparr>" "core_cfg_ok p3"
    using within_keeps [OF 3 core_settings_keep] d(3) p1(1) p2(1) by auto
  obtain p4 where p4: "c4 = c3\<lparr>cf_CustomTCP := p4\<rparr>" "tcp_ok p4"
    using within_keeps [OF 4 tcp_settings_keep] d(4) p1(1) p2(1) p3(1) by auto
  obtain p5 where p5: "c5 = c4\<lparr>cf_MQTT := p5\<rparr>" "mqtt_ok p5"
    using within_keeps [OF 5 mqtt_settings_keep(1)] d(5) p1(1) p2(1) p3(1) p4(1) by auto
  obtain p6 where p6: "c = c5\<lparr>cf_MQTT := p6\<rparr>" "mqtt_ok p6"
    using within_keeps [OF 6 mqtt_settings_keep(2)] p5 by auto
  show ?thesis using p1 p2 p3 p4 p5 p6 by simp
qed

section \<open>What is loaded\<close>

lemma blank_literals:
  "\<not> blank ''protocol-ingress''" "\<not> blank ''ingress-local-01''" "\<not> blank ''127.0.0.1:8090''"
  "\<not> blank ''http://127.0.0.1:8080''" "\<not> blank ''127.0.0.1:8081''" "\<not> blank ''tcp://127.0.0.1:1883''"
  "\<not> blank ''127.0.0.1:1883''" "\<not> blank ''protocol-ingress-mqtt''" "\<not> blank ''goster/v1''"
  "\<not> blank ''zigbee2mqtt''" "\<not> blank ''goster/v1/{uuid}/downlink''"
  by code_simp+

lemma durations_pos: "0 < second" "0 < minute" "0 < millisecond"
  by (simp_all add: second_def minute_def millisecond_def)

lemma positive_checks [simp]: "or_positive d v \<le> 0 \<longleftrightarrow> d \<le> 0 \<and> v \<le> 0"
  by (auto simp: or_positive_def)

lemma blank_Nil [simp]: "blank []"
  by (simp add: blank_def)

lemma server_addr [simp]: "server_ok c \<Longrightarrow> \<not> blank d \<Longrightarrow> \<not> blank (or_text d (sr_HTTPAddr c))"
  by (auto simp: server_ok_def or_text_def)

lemma find_append_None: "find P xs = None \<Longrightarrow> find P (xs @ ys) = find P ys"
  by (induction xs) (auto split: if_splits)

lemma Validate_normalized:
  assumes "service_ok (cf_Service c)" "server_ok (cf_Server c)" "core_cfg_ok (cf_Core c)"
    "tcp_ok (cf_CustomTCP c)" "mqtt_ok (cf_MQTT c)"
  shows "Validate (Normalize c) =
    (let m = NormalizeMQTT (cf_MQTT c)
     in if mt_Mode m \<notin> {''external'', ''embedded''} then Some (ErrText ''PROTOCOL_INGRESS_MQTT_MODE'')
        else if mt_AuthMode m \<noteq> ''client_password_token'' then Some (ErrText ''PROTOCOL_INGRESS_MQTT_AUTH_MODE'')
        else if mt_QoS m > 2 then Some (ErrText ''PROTOCOL_INGRESS_MQTT_QOS'') else None)"
proof -
  let ?m = "NormalizeMQTT (cf_MQTT c)"
  have 1: "find fst (service_checks (Normalize c)) = None"
    using assms(1-3) durations_pos
    by (simp add: service_checks_def Normalize_def Normalize_service_def Normalize_server_def
        Normalize_core_def service_ok_def core_cfg_ok_def blank_literals)
  have 2: "find fst (tcp_checks (Normalize_tcp (cf_CustomTCP c))) = None"
    using assms(4) durations_pos by (simp add: tcp_checks_def Normalize_tcp_def tcp_ok_def blank_literals)
  have n: "\<not> blank (mt_BrokerURL ?m)" "\<not> blank (mt_ClientID ?m)" "\<not> blank (mt_ListenAddr ?m)"
    "\<not> blank (mt_BaseTopic ?m)" "\<not> blank (mt_Zigbee2MQTTBaseTopic ?m)" "\<not> blank (mt_DownlinkTopic ?m)"
    "mt_SubscribeTopics ?m \<noteq> []" "0 < mt_ConnectTimeout ?m" "0 < mt_KeepAlive ?m" "0 < mt_MessageBuffer ?m"
    "0 < mt_RPCTimeout ?m" "0 < mt_DownlinkPollInterval ?m" "0 < mt_DownlinkDeviceTTL ?m"
    "0 < mt_DownlinkMaxBatch ?m"
    using assms(5) durations_pos
    by (simp_all add: NormalizeMQTT_def mqtt_ok_def blank_literals default_topics_def)
  have 3: "find fst (mqtt_checks ?m) =
      (if mt_Mode ?m \<notin> {''external'', ''embedded''} then Some (True, ''PROTOCOL_INGRESS_MQTT_MODE'')
       else if mt_AuthMode ?m \<noteq> ''client_password_token'' then Some (True, ''PROTOCOL_INGRESS_MQTT_AUTH_MODE'')
       else if mt_QoS ?m > 2 then Some (True, ''PROTOCOL_INGRESS_MQTT_QOS'') else None)"
    using n by (simp add: mqtt_checks_def not_le)
  have "Validate (Normalize c) =
      (case find fst (mqtt_checks ?m) of None \<Rightarrow> None | Some (_, key) \<Rightarrow> Some (ErrText key))"
    unfolding Validate_def find_append_None [OF 1]
    using find_append_None [OF 2] by (simp add: Normalize_def)
  then show ?thesis unfolding 3 by (simp add: Let_def)
qed

definition ingress_config_ok :: "ingress_config \<Rightarrow> bool" where
  "ingress_config_ok c \<longleftrightarrow>
     \<not> blank (sv_Name (cf_Service c)) \<and> \<not> blank (sv_InstanceID (cf_Service c)) \<and>
     \<not> blank (sr_HTTPAddr (cf_Server c)) \<and> 0 < sr_ShutdownTimeout (cf_Server c) \<and>
     \<not> blank (cr_Endpoint (cf_Core c)) \<and> 0 < cr_Timeout (cf_Core c) \<and>
     \<not> blank (ct_ListenAddr (cf_CustomTCP c)) \<and> 0 < ct_ReadTimeout (cf_CustomTCP c) \<and>
     0 < ct_IdleTimeout (cf_CustomTCP c) \<and> 0 < ct_RPCTimeout (cf_CustomTCP c) \<and>
     0 < ct_RegisterAckGraceDelay (cf_CustomTCP c) \<and> 0 < ct_DownlinkMaxBatch (cf_CustomTCP c) \<and>
     mt_Mode (cf_MQTT c) \<in> {''external'', ''embedded''} \<and> mt_AuthMode (cf_MQTT c) = ''client_password_token'' \<and>
     \<not> blank (mt_BrokerURL (cf_MQTT c)) \<and> \<not> blank (mt_ListenAddr (cf_MQTT c)) \<and>
     mt_SubscribeTopics (cf_MQTT c) \<noteq> [] \<and> (\<forall>t \<in> set (mt_SubscribeTopics (cf_MQTT c)). \<not> blank t) \<and>
     uint (mt_QoS (cf_MQTT c)) \<le> 2 \<and> 0 < mt_MessageBuffer (cf_MQTT c) \<and> 0 < mt_RPCTimeout (cf_MQTT c) \<and>
     \<not> blank (mt_BaseTopic (cf_MQTT c)) \<and> \<not> blank (mt_Zigbee2MQTTBaseTopic (cf_MQTT c)) \<and>
     \<not> blank (mt_DownlinkTopic (cf_MQTT c)) \<and> 0 < mt_DownlinkPollInterval (cf_MQTT c) \<and>
     0 < mt_DownlinkDeviceTTL (cf_MQTT c) \<and> 0 < mt_DownlinkMaxBatch (cf_MQTT c)"

lemma default_topics_not_blank: "t \<in> set default_topics \<Longrightarrow> \<not> blank t"
proof -
  have "list_all (\<lambda>t. \<not> blank t) default_topics" by code_simp
  then show "t \<in> set default_topics \<Longrightarrow> \<not> blank t" by (simp add: list_all_iff)
qed

lemma normalized_ok:
  assumes "read_environment env = Inr c" "mt_Mode (NormalizeMQTT (cf_MQTT c)) \<in> {''external'', ''embedded''}"
    "mt_AuthMode (NormalizeMQTT (cf_MQTT c)) = ''client_password_token''"
    "\<not> mt_QoS (NormalizeMQTT (cf_MQTT c)) > 2"
  shows "ingress_config_ok (Normalize c)"
proof -
  note ok = read_environment_ok [OF assms(1)]
  have topics: "\<not> blank t" if "t \<in> set (mt_SubscribeTopics (cf_MQTT c))" for t
    using ok that by (auto simp: mqtt_ok_def blank_def trimmed_def)
  have q: "uint (mt_QoS (NormalizeMQTT (cf_MQTT c))) \<le> 2"
    using assms(4) by (simp add: not_less word_le_def)
  have t: "mt_SubscribeTopics (NormalizeMQTT (cf_MQTT c)) \<noteq> [] \<and>
      (\<forall>t \<in> set (mt_SubscribeTopics (NormalizeMQTT (cf_MQTT c))). \<not> blank t)"
    using topics default_topics_not_blank by (simp add: NormalizeMQTT_def default_topics_def)
  show ?thesis
    using ok durations_pos assms(2,3) q t
    by (simp add: ingress_config_ok_def Normalize_def Normalize_service_def Normalize_server_def
        Normalize_core_def Normalize_tcp_def NormalizeMQTT_def service_ok_def core_cfg_ok_def tcp_ok_def
        mqtt_ok_def blank_literals)
qed

lemma or_text_idem [simp]: "or_text d (or_text d v) = or_text d v"
  by (simp add: or_text_def)

lemma or_positive_idem [simp]: "or_positive d (or_positive d v) = or_positive d v"
  by (simp add: or_positive_def)

lemma Normalize_idem:
  assumes "mt_Mode (NormalizeMQTT (cf_MQTT c)) \<in> {''external'', ''embedded''}"
    and "mt_AuthMode (NormalizeMQTT (cf_MQTT c)) = ''client_password_token''"
  shows "Normalize (Normalize c) = Normalize c"
proof -
  have l: "or_text ''external'' (ToLower (TrimSpace ''external'')) = ''external''"
    "or_text ''external'' (ToLower (TrimSpace ''embedded'')) = ''embedded''"
    "or_text ''client_password_token'' (ToLower (TrimSpace ''client_password_token'')) = ''client_password_token''"
    by code_simp+
  have m: "or_text ''external'' (ToLower (TrimSpace (mt_Mode (NormalizeMQTT (cf_MQTT c))))) =
      mt_Mode (NormalizeMQTT (cf_MQTT c))"
    using assms(1) l(1,2) by auto
  have "NormalizeMQTT (NormalizeMQTT (cf_MQTT c)) = NormalizeMQTT (cf_MQTT c)"
    using m l(3) assms(2) by (simp add: NormalizeMQTT_def default_topics_def)
  then show ?thesis
    by (simp add: Normalize_def Normalize_service_def Normalize_server_def Normalize_core_def Normalize_tcp_def)
qed


text \<open>A quality of service of 257 is accepted, and is 1.\<close>

definition qos_env :: environment where
  "qos_env = (\<lambda>k. if k = ''PROTOCOL_INGRESS_MQTT_QOS'' then Some ''257'' else None)"

lemma mqtt_qos_wraps:
  "\<exists>c. LoadFromEnv qos_env = Inr c \<and> mt_QoS (cf_MQTT c) = 1"
proof -
  have "LoadFromEnv qos_env = Inr Default" by code_simp
  moreover have "mt_QoS (cf_MQTT Default) = 1" by code_simp
  ultimately show ?thesis by blast
qed

text \<open>An embedded broker; and a mode that is unknown.\<close>

definition example_env_vars :: "string \<Rightarrow> environment" where
  "example_env_vars mode = (\<lambda>k. if k = ''PROTOCOL_INGRESS_MQTT_MODE'' then Some mode else None)"


end
