(* ===== verification/MqttMapper.thy ===== *)
theory MqttMapper
  imports GoJson GoTimeParse IngressConfig Crypto
begin

text \<open>
  \<^verbatim>\<open>protocol-ingress/internal/adapter/mqtt/mapper.go\<close>: an MQTT message becomes an adapter event. The
  topic says which device and which kind of report it is, for messages in the product's own layout
  and for those of zigbee2mqtt; the payload, when it is a JSON object, says the rest. The clock
  readings of one call are one argument. The text of a \<open>float64\<close> is a field of the mapper: no value
  decoded from a payload is one, since the decoder keeps numbers as they are written.
\<close>

record inbound_message =
  im_Topic :: string
  im_Payload :: bytes
  im_QoS :: byte
  im_Retained :: bool
  im_Duplicate :: bool
  im_ReceivedAt :: time
  im_ClientID :: string
  im_Username :: string
  im_AuthUUID :: string
  im_AuthTenant :: string
  im_RemoteAddr :: string
  im_LocalAddr :: string

record mapped_message =
  mm_Event :: adapter_event
  mm_Token :: string

record mapper =
  mr_cfg :: mqtt_config
  mr_crypto :: crypto
  mr_FormatFloat :: "float64 \<Rightarrow> string"

definition NewMapper :: "mqtt_config \<Rightarrow> crypto \<Rightarrow> (float64 \<Rightarrow> string) \<Rightarrow> mapper" where
  "NewMapper cfg C fmt = \<lparr>mr_cfg = NormalizeMQTT cfg, mr_crypto = C, mr_FormatFloat = fmt\<rparr>"

section \<open>Topics\<close>

definition cleanTopic :: "string \<Rightarrow> string" where
  "cleanTopic topic = Trim (TrimSpace topic) ''/''"

definition splitTopic :: "string \<Rightarrow> string list" where
  "splitTopic topic =
     (let topic = cleanTopic topic in if topic = [] then [] else Split CHR ''/'' topic)"

definition topicRest :: "string \<Rightarrow> string \<Rightarrow> string list option" where
  "topicRest topic base =
     (let topicParts = splitTopic topic; baseParts = splitTopic base
      in if length baseParts = 0 \<or> length topicParts < length baseParts then None
         else if take (length baseParts) topicParts \<noteq> baseParts then None
         else Some (drop (length baseParts) topicParts))"

definition normalizeKind :: "string \<Rightarrow> string" where
  "normalizeKind kind =
     (let k = ToLower (TrimSpace kind)
      in if k \<in> {''telemetry'', ''metrics'', ''metric''} then ''telemetry''
         else if k \<in> {''heartbeat'', ''availability'', ''presence''} then ''heartbeat''
         else if k \<in> {''event'', ''events''} then ''event''
         else if k \<in> {''state'', ''status''} then ''state''
         else if k \<in> {''log'', ''logs''} then ''log''
         else if k \<in> {''ack'', ''acks'', ''command_ack'', ''receipt'', ''command_receipt''} then ''ack''
         else k)"

section \<open>Values of a payload\<close>

text \<open>A payload that is not an object is the nil map.\<close>

definition parseObject :: "bytes \<Rightarrow> any_map option" where
  "parseObject payload = DecodeObject (string_of_bytes payload)"

definition detectContentType :: "bytes \<Rightarrow> string" where
  "detectContentType payload =
     (let trimmed = TrimSpace (string_of_bytes payload)
      in if HasPrefix trimmed ''{'' \<or> HasPrefix trimmed ''['' then ''application/json'' else ''text/plain'')"

definition field :: "any_map option \<Rightarrow> string \<Rightarrow> json option" where
  "field payload key = (case payload of None \<Rightarrow> None | Some m \<Rightarrow> map_of m key)"

fun mq_firstNonEmpty :: "string list \<Rightarrow> string" where
  "mq_firstNonEmpty [] = []"
| "mq_firstNonEmpty (v # vs) = (if TrimSpace v \<noteq> [] then TrimSpace v else mq_firstNonEmpty vs)"

fun stringValue :: "mapper \<Rightarrow> any_map option \<Rightarrow> string list \<Rightarrow> string" where
  "stringValue M payload [] = []"
| "stringValue M payload (key # keys) =
     (case field payload key of
        None \<Rightarrow> stringValue M payload keys
      | Some v \<Rightarrow>
          (case v of
             JNull \<Rightarrow> stringValue M payload keys
           | JString x \<Rightarrow> TrimSpace x
           | JDecimal x \<Rightarrow> x
           | JNumber x \<Rightarrow> mr_FormatFloat M x
           | JBool b \<Rightarrow> if b then ''true'' else ''false''
           | x \<Rightarrow> TrimSpace (Sprint (mr_FormatFloat M) x)))"

text \<open>A value of another kind is passed over; text that is no number ends the search.\<close>

fun numberValue :: "any_map option \<Rightarrow> string list \<Rightarrow> float64 option" where
  "numberValue payload [] = None"
| "numberValue payload (key # keys) =
     (case field payload key of
        Some (JDecimal x) \<Rightarrow> ParseFloat x
      | Some (JNumber x) \<Rightarrow> Some x
      | Some (JString x) \<Rightarrow> ParseFloat (TrimSpace x)
      | _ \<Rightarrow> numberValue payload keys)"

definition uint32_of :: "float64 option \<Rightarrow> 32 word" where
  "uint32_of x =
     (case x of None \<Rightarrow> 0
      | Some n \<Rightarrow> if f64_below (\<ge>) n 0 \<and> f64_below (\<le>) n (2 ^ 32 - 1) then word_of_int (int64_of_f64 n) else 0)"

text \<open>\<open>int64((v-math.Trunc(v))*1e9)\<close> of a positive number: the difference is exact.\<close>

definition fraction_nanos :: "float64 \<Rightarrow> int" where
  "fraction_nanos v =
     (case f64_ratio v of
        None \<Rightarrow> 0
      | Some (neg, num, den) \<Rightarrow>
          (case f64_of_ratio neg (num mod den * 1000000000) den of
             None \<Rightarrow> 0 | Some p \<Rightarrow> int64_of_f64 p))"

definition unixFlexible :: "time \<Rightarrow> float64 \<Rightarrow> time" where
  "unixFlexible now v =
     (if f64_below (\<le>) v 0 then now
      else if f64_below (<) v (10 ^ 11) then time_Unix (int64_of_f64 v) (fraction_nanos v)
      else time_UnixMilli (int64_of_f64 v))"

text \<open>The time a field states, if it is text or a number that states one.\<close>

definition time_value :: "time \<Rightarrow> json \<Rightarrow> time option" where
  "time_value now v =
     (case v of
        JString x \<Rightarrow>
          (case ParseRFC3339 (TrimSpace x) of
             Some t \<Rightarrow> Some t
           | None \<Rightarrow> map_option (unixFlexible now) (ParseFloat (TrimSpace x)))
      | JDecimal x \<Rightarrow> map_option (unixFlexible now) (ParseFloat x)
      | JNumber x \<Rightarrow> Some (unixFlexible now x)
      | _ \<Rightarrow> None)"

fun first_time :: "time \<Rightarrow> any_map option \<Rightarrow> string list \<Rightarrow> time option" where
  "first_time now payload [] = None"
| "first_time now payload (key # keys) =
     (case Option.bind (field payload key) (time_value now) of
        Some t \<Rightarrow> Some t | None \<Rightarrow> first_time now payload keys)"

definition observedTime :: "time \<Rightarrow> any_map option \<Rightarrow> time \<Rightarrow> time" where
  "observedTime now payload fallback =
     (let fallback = (if fallback = zero_time then now else fallback)
      in case first_time now payload [''observed_at'', ''timestamp'', ''ts'', ''time''] of
           Some t \<Rightarrow> t | None \<Rightarrow> fallback)"

definition stringMapValue :: "mapper \<Rightarrow> any_map option \<Rightarrow> string \<Rightarrow> string_map" where
  "stringMapValue M payload key =
     (case field payload key of
        Some (JObject m) \<Rightarrow> map (\<lambda>(k, v). (k, Sprint (mr_FormatFloat M) v)) m
      | _ \<Rightarrow> [])"

definition isEmptyValue :: "json \<Rightarrow> bool" where
  "isEmptyValue v = (case v of JNull \<Rightarrow> True | JString s \<Rightarrow> TrimSpace s = [] | _ \<Rightarrow> False)"

definition number_of :: "float64 \<Rightarrow> go_value" where
  "number_of n = no_value\<lparr>v_Number := Some n\<rparr>"

definition adapterValue :: "mapper \<Rightarrow> json \<Rightarrow> go_value" where
  "adapterValue M v =
     (case v of
        JBool x \<Rightarrow> no_value\<lparr>v_Bool := Some x\<rparr>
      | JString x \<Rightarrow> no_value\<lparr>v_String := Some x\<rparr>
      | JNumber x \<Rightarrow> number_of x
      | JDecimal x \<Rightarrow> (case ParseFloat x of Some n \<Rightarrow> number_of n | None \<Rightarrow> no_value\<lparr>v_String := Some x\<rparr>)
      | JObject m \<Rightarrow> no_value\<lparr>v_JSON := Some m\<rparr>
      | _ \<Rightarrow> no_value\<lparr>v_String := Some (Sprint (mr_FormatFloat M) v)\<rparr>)"

section \<open>Metrics, states and receipts\<close>

definition celsius :: string where "celsius = [CHR 0xC2, CHR 0xB0, CHR ''C'']"

definition metric_specs :: "(string list \<times> string \<times> string \<times> 32 word) list" where
  "metric_specs =
     [([''temperature''], ''temperature'', celsius, 1),
      ([''humidity''], ''humidity'', ''%'', 2),
      ([''illuminance'', ''illuminance_lux'', ''lux''], ''illuminance'', ''lx'', 4),
      ([''access_signal_a'', ''door_signal_a'', ''signal_a''], ''access_signal_a'', [], 8),
      ([''access_signal_b'', ''door_signal_b'', ''signal_b''], ''access_signal_b'', [], 16),
      ([''battery''], ''battery'', ''%'', 0),
      ([''linkquality'', ''link_quality'', ''lqi''], ''linkquality'', ''lqi'', 0),
      ([''voltage''], ''voltage'', ''V'', 0),
      ([''current''], ''current'', ''A'', 0),
      ([''power''], ''power'', ''W'', 0),
      ([''energy''], ''energy'', ''kWh'', 0),
      ([''pressure''], ''pressure'', ''hPa'', 0),
      ([''device_temperature''], ''device_temperature'', celsius, 0)]"

definition flatMetrics :: "any_map option \<Rightarrow> time \<Rightarrow> metric_point list" where
  "flatMetrics payload observedAt =
     concat (map (\<lambda>(keys, name, unit, legacy).
       case numberValue payload keys of
         None \<Rightarrow> []
       | Some n \<Rightarrow> [\<lparr>mp_Name = name, mp_Value = number_of n, mp_Unit = unit, mp_ObservedAt = observedAt,
                     mp_LegacyMetricType = legacy, mp_Tags = [(''source_field'', hd keys)]\<rparr>]) metric_specs)"

definition array_metric :: "mapper \<Rightarrow> time \<Rightarrow> time \<Rightarrow> json \<Rightarrow> metric_point list" where
  "array_metric M now observedAt item =
     (case item of
        JObject kvs \<Rightarrow>
          let m = Some kvs; name = stringValue M m [''name'', ''metric'', ''field'']
          in if name = [] then []
             else (case numberValue m [''value'', ''number''] of
                 None \<Rightarrow> []
               | Some n \<Rightarrow>
                   [\<lparr>mp_Name = name, mp_Value = number_of n, mp_Unit = stringValue M m [''unit''],
                     mp_ObservedAt = observedTime now m observedAt,
                     mp_LegacyMetricType = uint32_of (numberValue m [''legacy_type'', ''legacy_metric_type'', ''type'']),
                     mp_Tags = stringMapValue M m ''tags''\<rparr>])
      | _ \<Rightarrow> [])"

definition metricArray :: "mapper \<Rightarrow> time \<Rightarrow> any_map option \<Rightarrow> time \<Rightarrow> metric_point list" where
  "metricArray M now payload observedAt =
     (case field payload ''metrics'' of
        Some (JArray items) \<Rightarrow> concat (map (array_metric M now observedAt) items)
      | _ \<Rightarrow> [])"

definition state_keys :: "string list" where
  "state_keys =
     [''state'', ''occupancy'', ''contact'', ''action'', ''tamper'', ''water_leak'', ''smoke'', ''presence'',
      ''switch'', ''brightness'', ''color_temp'', ''battery_low'', ''child_lock'']"

definition flatStates :: "mapper \<Rightarrow> any_map option \<Rightarrow> time \<Rightarrow> state_point list" where
  "flatStates M payload observedAt =
     concat (map (\<lambda>key.
       case field payload key of
         None \<Rightarrow> []
       | Some v \<Rightarrow>
           if isEmptyValue v then []
           else [\<lparr>sp_Name = key, sp_Value = adapterValue M v, sp_Unit = [], sp_ObservedAt = observedAt,
                  sp_EntityID = key, sp_Tags = [(''source_field'', key)]\<rparr>]) state_keys)"

definition commandReceipt :: "mapper \<Rightarrow> any_map option \<Rightarrow> bytes \<Rightarrow> time \<Rightarrow> command_receipt" where
  "commandReceipt M payload raw observedAt =
     (let status = mq_firstNonEmpty [stringValue M payload [''status'', ''result''], ''acked'']
      in \<lparr>rc_CommandID = (case numberValue payload [''command_id'', ''id''] of None \<Rightarrow> 0 | Some n \<Rightarrow> int64_of_f64 n),
          rc_CommandUUID = stringValue M payload [''command_uuid'', ''uuid''],
          rc_Status = (if EqualFold status ''ok'' \<or> EqualFold status ''success'' then ''acked'' else status),
          rc_ProtocolCommandCode =
            uint32_of (numberValue payload [''protocol_command_code'', ''cmd_id'', ''command_code'']),
          rc_Operation = stringValue M payload [''operation''],
          rc_ErrorText = stringValue M payload [''error'', ''error_text'', ''message''],
          rc_ObservedAt = observedAt, rc_Raw = raw\<rparr>)"

section \<open>Events\<close>

definition bool_text :: "bool \<Rightarrow> string" where
  "bool_text b = (if b then ''true'' else ''false'')"

text \<open>\<open>float64(b)\<close> of a byte: exact.\<close>

definition float_of_byte :: "byte \<Rightarrow> float64" where
  "float_of_byte b = (case f64_of_ratio False (uint b) 1 of Some x \<Rightarrow> x | None \<Rightarrow> 0)"

definition put_if :: "string \<Rightarrow> string \<Rightarrow> adapter_event \<Rightarrow> adapter_event" where
  "put_if key v e =
     (if v = [] then e
      else e\<lparr>ev_Labels := AList.update key v (ev_Labels e),
             ev_Attributes := map_option (AList.update key (JString v)) (ev_Attributes e)\<rparr>)"

definition put_header :: "string \<Rightarrow> string \<Rightarrow> adapter_event \<Rightarrow> adapter_event" where
  "put_header key v e =
     (if v = [] then e
      else e\<lparr>ev_Frame := (ev_Frame e)\<lparr>fi_Headers := AList.update key v (fi_Headers (ev_Frame e))\<rparr>\<rparr>)"

definition baseEvent ::
    "string \<Rightarrow> string \<Rightarrow> bytes \<Rightarrow> string \<Rightarrow> inbound_message \<Rightarrow> time \<Rightarrow> adapter_event" where
  "baseEvent source topic raw contentType msg receivedAt =
     (let source = (if source = [] then ''mqtt'' else source);
          qos = Itoa (uint (im_QoS msg));
          e = no_event
            \<lparr>ev_AdapterName := ''mqtt'', ev_ProtocolName := ''mqtt'', ev_ProtocolVersion := ''3.1.1'',
             ev_Transport := ''mqtt'', ev_ReceivedAt := receivedAt, ev_OccurredAt := receivedAt,
             ev_RemoteAddr := im_RemoteAddr msg, ev_LocalAddr := im_LocalAddr msg, ev_Raw := raw,
             ev_RawContentType := contentType,
             ev_Labels := [(''adapter_protocol'', ''mqtt''), (''mqtt_topic'', topic), (''mqtt_qos'', qos),
                (''mqtt_retained'', bool_text (im_Retained msg)),
                (''mqtt_duplicate'', bool_text (im_Duplicate msg)), (''source'', source)],
             ev_Attributes := Some [(''mqtt_topic'', JString topic),
                (''mqtt_qos'', JNumber (float_of_byte (im_QoS msg))),
                (''mqtt_retained'', JBool (im_Retained msg)), (''mqtt_duplicate'', JBool (im_Duplicate msg))],
             ev_Frame := no_frame\<lparr>fi_PayloadLen := word_of_nat (length raw),
                fi_Headers := [(''topic'', topic), (''qos'', qos), (''retained'', bool_text (im_Retained msg))]\<rparr>\<rparr>
      in put_if ''mqtt_auth_tenant'' (im_AuthTenant msg)
           (put_if ''mqtt_auth_uuid'' (im_AuthUUID msg)
             (put_if ''mqtt_username'' (im_Username msg)
               (put_header ''client_id'' (im_ClientID msg)
                 (put_if ''mqtt_client_id'' (im_ClientID msg) e)))))"

definition mq_identity :: "string \<Rightarrow> string \<Rightarrow> identity" where
  "mq_identity typ val = \<lparr>id_Type = typ, id_Value = val, id_Issuer = []\<rparr>"

text \<open>The fields every message of the product's own layout sets.\<close>

definition goster_event ::
    "mapper \<Rightarrow> string \<Rightarrow> string \<Rightarrow> bytes \<Rightarrow> string \<Rightarrow> any_map option \<Rightarrow> inbound_message \<Rightarrow> time \<Rightarrow> adapter_event" where
  "goster_event M uuid topic raw contentType payload msg receivedAt =
     (baseEvent (mt_Source (mr_cfg M)) topic raw contentType msg receivedAt)
       \<lparr>ev_ProtocolName := ''mqtt'', ev_ProtocolVersion := ''3.1.1'', ev_Transport := ''mqtt'', ev_UUID := uuid,
        ev_Identity := mq_identity ''uuid'' uuid, ev_Identities := [mq_identity ''uuid'' uuid],
        ev_Device := Some (no_descriptor
          \<lparr>dd_UUID := uuid,
           dd_Name := mq_firstNonEmpty [stringValue M payload [''name'', ''device_name''], uuid],
           dd_DeviceType := mq_firstNonEmpty [stringValue M payload [''device_type'', ''type''], ''mqtt_device''],
           dd_Labels := [(''adapter_protocol'', ''mqtt''), (''mqtt_topic'', topic)]\<rparr>)\<rparr>"

text \<open>What the kind of the topic makes of it.\<close>

definition goster_kind ::
    "mapper \<Rightarrow> time \<Rightarrow> string \<Rightarrow> bytes \<Rightarrow> any_map option \<Rightarrow> time \<Rightarrow> adapter_event \<Rightarrow> adapter_event" where
  "goster_kind M now kind raw payload observedAt event =
     (let k = normalizeKind kind;
          metrics = metricArray M now payload observedAt @ flatMetrics payload observedAt;
          states = flatStates M payload observedAt
      in if k = ''heartbeat'' then
           event\<lparr>ev_Kind := ''heartbeat'',
             ev_Availability := mq_firstNonEmpty [stringValue M payload [''availability'', ''state'', ''status''], ''online'']\<rparr>
         else if k = ''ack'' then
           event\<lparr>ev_Kind := ''command_ack'', ev_Receipt := Some (commandReceipt M payload raw observedAt)\<rparr>
         else if k = ''log'' then
           event\<lparr>ev_Kind := ''log'',
             ev_Log := Some
               \<lparr>lr_Level = mq_firstNonEmpty [stringValue M payload [''level''], ''info''],
                lr_Message = mq_firstNonEmpty [stringValue M payload [''message'', ''msg''], string_of_bytes raw],
                lr_Namespace = mq_firstNonEmpty [stringValue M payload [''namespace''], ''mqtt''],
                lr_ObservedAt = observedAt, lr_Fields = payload\<rparr>\<rparr>
         else if k = ''event'' then event\<lparr>ev_Kind := ''event''\<rparr>
         else if k = ''state'' then event\<lparr>ev_Kind := ''state'', ev_States := states\<rparr>
         else if k = ''telemetry'' then
           (if metrics \<noteq> [] then event\<lparr>ev_Kind := ''telemetry'', ev_Metrics := metrics\<rparr>
            else event\<lparr>ev_Kind := (if states \<noteq> [] then ''state'' else ''telemetry''), ev_Metrics := metrics,
                       ev_States := states\<rparr>)
         else event\<lparr>ev_Kind := kind, ev_Metrics := metrics, ev_States := states\<rparr>)"

definition mapGoster ::
    "mapper \<Rightarrow> time \<Rightarrow> string list \<Rightarrow> string \<Rightarrow> bytes \<Rightarrow> string \<Rightarrow> any_map option \<Rightarrow> inbound_message \<Rightarrow> time \<Rightarrow>
     mapped_message result" where
  "mapGoster M now rest topic raw contentType payload msg receivedAt =
     (case rest of
        uuid # kind # _ \<Rightarrow>
          let uuid = TrimSpace uuid; kind = TrimSpace kind
          in if uuid = [] \<or> kind = [] then Inl (ErrText ''topic lacks uuid or kind'')
             else
               let v = stringValue M payload [''uuid'', ''device_uuid'', ''deviceId'', ''device_id''];
                   uuid = (if v \<noteq> [] then v else uuid);
                   observedAt = observedTime now payload receivedAt
               in Inr \<lparr>mm_Event = goster_kind M now kind raw payload observedAt
                          (goster_event M uuid topic raw contentType payload msg receivedAt),
                       mm_Token = stringValue M payload [''token'', ''device_token'', ''password'']\<rparr>
      | _ \<Rightarrow> Inl (ErrText ''topic too short''))"

definition externalUUID :: "crypto \<Rightarrow> string \<Rightarrow> string \<Rightarrow> string" where
  "externalUUID C source entityID =
     ''ext_'' @ hex_encode (take 12 (sha256 C (bytes_of_string (ToLower (TrimSpace source) @ '':'' @ TrimSpace entityID))))"

definition zigbee_event ::
    "mapper \<Rightarrow> string \<Rightarrow> string \<Rightarrow> bytes \<Rightarrow> string \<Rightarrow> inbound_message \<Rightarrow> time \<Rightarrow> adapter_event" where
  "zigbee_event M friendly topic raw contentType msg receivedAt =
     (let uuid = externalUUID (mr_crypto M) ''zigbee2mqtt'' friendly;
          i = mq_identity ''zigbee2mqtt_friendly_name'' friendly
      in (baseEvent ''zigbee2mqtt'' topic raw contentType msg receivedAt)
           \<lparr>ev_ProtocolName := ''zigbee2mqtt'', ev_ProtocolVersion := ''mqtt'', ev_Transport := ''mqtt'',
            ev_UUID := uuid, ev_Identity := i, ev_Identities := [i, mq_identity ''mqtt_topic'' topic],
            ev_Device := Some (no_descriptor
              \<lparr>dd_UUID := uuid, dd_Name := friendly, dd_DeviceType := ''zigbee_node'',
               dd_NetworkAddress := friendly, dd_Identities := [i],
               dd_Labels := [(''adapter_protocol'', ''zigbee2mqtt''), (''mqtt_topic'', topic)],
               dd_Attributes := Some [(''friendly_name'', JString friendly)]\<rparr>)\<rparr>)"

definition mapZigbee2MQTT ::
    "mapper \<Rightarrow> time \<Rightarrow> string list \<Rightarrow> string \<Rightarrow> bytes \<Rightarrow> string \<Rightarrow> any_map option \<Rightarrow> inbound_message \<Rightarrow> time \<Rightarrow>
     mapped_message result" where
  "mapZigbee2MQTT M now rest topic raw contentType payload msg receivedAt =
     (case rest of
        [] \<Rightarrow> Inl (ErrText ''topic lacks friendly_name'')
      | friendly # sub \<Rightarrow>
          if friendly = [] then Inl (ErrText ''topic lacks friendly_name'')
          else if friendly = ''bridge'' then Inl (ErrText ''bridge topic'')
          else
            let subtopic = Join sub ''/'';
                observedAt = observedTime now payload receivedAt;
                event = zigbee_event M friendly topic raw contentType msg receivedAt;
                metrics = flatMetrics payload observedAt; states = flatStates M payload observedAt
            in if subtopic = ''availability'' then
                 Inr \<lparr>mm_Event = event\<lparr>ev_Kind := ''availability'',
                        ev_Availability := mq_firstNonEmpty
                          [stringValue M payload [''state'', ''status''], TrimSpace (string_of_bytes raw)]\<rparr>,
                      mm_Token = []\<rparr>
               else
                 Inr \<lparr>mm_Event = event\<lparr>ev_Kind :=
                          (if metrics = [] \<and> states \<noteq> [] then ''state''
                           else if metrics = [] \<and> states = [] then ''event'' else ''telemetry''),
                        ev_Metrics := metrics, ev_States := states\<rparr>,
                      mm_Token = []\<rparr>)"

definition Map :: "mapper \<Rightarrow> time \<Rightarrow> inbound_message \<Rightarrow> mapped_message result" where
  "Map M now msg =
     (let receivedAt = (if im_ReceivedAt msg = zero_time then now else im_ReceivedAt msg);
          topic = cleanTopic (im_Topic msg)
      in if topic = [] then Inl (ErrText ''empty topic'')
         else
           let raw = im_Payload msg; contentType = detectContentType raw; payload = parseObject raw
           in case topicRest topic (mt_BaseTopic (mr_cfg M)) of
                Some rest \<Rightarrow> mapGoster M now rest topic raw contentType payload msg receivedAt
              | None \<Rightarrow>
                  (case topicRest topic (mt_Zigbee2MQTTBaseTopic (mr_cfg M)) of
                     Some rest \<Rightarrow> mapZigbee2MQTT M now rest topic raw contentType payload msg receivedAt
                   | None \<Rightarrow> Inl (ErrText ''topic does not match'')))"

end
