(* ===== verification/MqttAdapter.thy ===== *)
theory MqttAdapter
  imports MqttMapper CoreClient Normalizer
begin

text \<open>
  \<^verbatim>\<open>protocol-ingress/internal/adapter/mqtt/adapter.go\<close>: what the adapter does with a message it
  received, and how it hands commands of the core to the broker. \<open>mqtt_env\<close> holds what the adapter is
  configured with; its state is the devices it has heard of, everything behind the core client
  (\<open>'w\<close>), and the broker: what was published, and which of the publications still to come succeed.
  The clock readings of one operation are one argument. The ingress context the adapter sends with
  each request carries no field the core reads, and is left out of the requests.
\<close>

record device_session =
  dv_UUID :: string
  dv_TenantID :: string
  dv_Identity :: identity
  dv_LastSeen :: time

record publication =
  pb_Topic :: string
  pb_QoS :: byte
  pb_Retained :: bool
  pb_Payload :: bytes

record 'w mqtt_state =
  ms_devices :: "(string \<times> device_session) list"
  ms_world :: 'w
  ms_published :: "publication list"
  ms_publish_ok :: "bool list"

text \<open>\<open>me_order\<close> is the order in which a loop over a map of replacements meets them.\<close>

record 'w mqtt_env =
  me_cfg :: mqtt_config
  me_core :: "'w core_client"
  me_normalizer :: norm_env
  me_sourceInstance :: string
  me_mapper :: mapper
  me_order :: "(string \<times> string) list \<Rightarrow> (string \<times> string) list"

definition on_world :: "('a, 'w) action \<Rightarrow> ('a, 'w mqtt_state) action" where
  "on_world f s = (case f (ms_world s) of (r, w) \<Rightarrow> (r, s\<lparr>ms_world := w\<rparr>))"

section \<open>Start\<close>

datatype start_mode = NotEnabled | StartFailed go_error | EmbeddedBroker | ExternalClient

text \<open>\<open>New\<close> normalizes the configuration; \<open>Start\<close> chooses how messages come in.\<close>

definition Start :: "mqtt_config \<Rightarrow> 'c option \<Rightarrow> 'n option \<Rightarrow> start_mode" where
  "Start cfg core normalizer =
     (let cfg = NormalizeMQTT cfg
      in if \<not> mt_Enabled cfg then NotEnabled
         else if core = None then StartFailed (ErrText ''coreclient'')
         else if normalizer = None then StartFailed (ErrText ''normalizer'')
         else if EqualFold (mt_Mode cfg) ''embedded'' then EmbeddedBroker
         else ExternalClient)"

definition mq_WithSourceInstance :: "string \<Rightarrow> string \<Rightarrow> string" where
  "mq_WithSourceInstance instanceID old = (if TrimSpace instanceID \<noteq> [] then TrimSpace instanceID else old)"

text \<open>The message an external broker's subscription delivers: it knows nothing of its sender.\<close>

definition external_message :: "string \<Rightarrow> bytes \<Rightarrow> byte \<Rightarrow> bool \<Rightarrow> bool \<Rightarrow> time \<Rightarrow> inbound_message" where
  "external_message topic payload qos retained duplicate now =
     \<lparr>im_Topic = topic, im_Payload = payload, im_QoS = qos, im_Retained = retained,
      im_Duplicate = duplicate, im_ReceivedAt = now, im_ClientID = [], im_Username = [],
      im_AuthUUID = [], im_AuthTenant = [], im_RemoteAddr = [], im_LocalAddr = []\<rparr>"

section \<open>Identities\<close>

definition mq_p_identity :: "identity \<Rightarrow> identity option" where
  "mq_p_identity i = (if TrimSpace (id_Type i) = [] \<and> TrimSpace (id_Value i) = [] then None else Some i)"

definition mq_p_identities :: "identity list \<Rightarrow> identity list" where
  "mq_p_identities items = concat (map (\<lambda>i. case mq_p_identity i of None \<Rightarrow> [] | Some v \<Rightarrow> [v]) items)"

definition appendIdentityIfMissing :: "identity list \<Rightarrow> identity \<Rightarrow> identity list" where
  "appendIdentityIfMissing items item =
     (let item = item\<lparr>id_Type := TrimSpace (id_Type item), id_Value := TrimSpace (id_Value item)\<rparr>
      in if id_Type item = [] \<or> id_Value item = [] then items
         else if \<exists>x \<in> set items. EqualFold (TrimSpace (id_Type x)) (id_Type item) \<and>
                   TrimSpace (id_Value x) = id_Value item then items
         else items @ [item])"

section \<open>A message\<close>

definition with_device_uuid :: "string \<Rightarrow> adapter_event \<Rightarrow> adapter_event" where
  "with_device_uuid uuid e =
     e\<lparr>ev_Device := Some ((case ev_Device e of None \<Rightarrow> no_descriptor | Some d \<Rightarrow> d)\<lparr>dd_UUID := uuid\<rparr>)\<rparr>"

definition with_client_id :: "inbound_message \<Rightarrow> adapter_event \<Rightarrow> adapter_event" where
  "with_client_id msg e =
     (if im_ClientID msg = [] then e
      else e\<lparr>ev_Identities :=
        appendIdentityIfMissing (ev_Identities e) (mq_identity ''mqtt_client_id'' (im_ClientID msg))\<rparr>)"

definition applyConnectionPrincipal ::
    "mqtt_config \<Rightarrow> inbound_message \<Rightarrow> adapter_event \<Rightarrow> adapter_event result" where
  "applyConnectionPrincipal cfg msg event =
     (if TrimSpace (im_AuthUUID msg) = [] then Inr event
      else
        let authUUID = TrimSpace (im_AuthUUID msg); authTenant = TrimSpace (im_AuthTenant msg);
            topic = cleanTopic (im_Topic msg)
        in case topicRest topic (mt_BaseTopic cfg) of
             Some rest \<Rightarrow>
               (case rest of
                  uuid # _ # _ \<Rightarrow>
                    if TrimSpace uuid \<noteq> [] \<and> TrimSpace uuid \<noteq> authUUID
                    then Inl (ErrText ''topic uuid does not match connection'')
                    else
                      let e = event
                            \<lparr>ev_UUID := authUUID,
                             ev_TenantID := mq_firstNonEmpty [authTenant, ev_TenantID event],
                             ev_TenantHint := mq_firstNonEmpty [authTenant, ev_TenantHint event],
                             ev_Identity := mq_identity ''uuid'' authUUID,
                             ev_Identities := appendIdentityIfMissing (ev_Identities event)
                               (mq_identity ''uuid'' authUUID)\<rparr>;
                          e = with_device_uuid authUUID (with_client_id msg e)
                      in Inr (e\<lparr>ev_Device := map_option
                           (\<lambda>d. d\<lparr>dd_Labels := AList.update ''mqtt_client_id'' (im_ClientID msg) (dd_Labels d)\<rparr>)
                           (ev_Device e)\<rparr>)
                | _ \<Rightarrow> Inl (ErrText ''topic lacks uuid/kind''))
           | None \<Rightarrow>
               let e = (if authTenant = [] then event
                        else event\<lparr>ev_TenantID := mq_firstNonEmpty [ev_TenantID event, authTenant],
                                   ev_TenantHint := mq_firstNonEmpty [ev_TenantHint event, authTenant]\<rparr>)
               in Inr (with_client_id msg e))"

definition mq_authenticate ::
    "'w mqtt_env \<Rightarrow> string \<Rightarrow> time \<Rightarrow> (string \<times> string, 'w mqtt_state) action" where
  "mq_authenticate A token now =
     bindE (on_world (rpc_AuthenticateDevice (me_core A)
         \<lparr>aq_Credentials = [\<lparr>cd_Type = ''token'', cd_Value = token\<rparr>],
          aq_Identities = [mq_identity ''token'' token], aq_DeviceHint = None\<rparr> now))
       (\<lambda>resp. if ar_Status resp \<noteq> AuthAccepted then failE (ErrText ''token refused'')
               else returnE (ar_Uuid resp, ar_TenantId resp))"

text \<open>What the token of a payload makes of the event of a connection.\<close>

definition apply_token ::
    "inbound_message \<Rightarrow> string \<times> string \<Rightarrow> adapter_event \<Rightarrow> adapter_event result" where
  "apply_token msg owner event =
     (case owner of (uuid, tenantID) \<Rightarrow>
        if im_AuthUUID msg \<noteq> [] \<and> uuid \<noteq> [] \<and> uuid \<noteq> im_AuthUUID msg
        then Inl (ErrText ''token uuid does not match connection'')
        else if im_AuthTenant msg \<noteq> [] \<and> tenantID \<noteq> [] \<and> tenantID \<noteq> im_AuthTenant msg
        then Inl (ErrText ''token tenant does not match connection'')
        else
          let e = (if uuid = [] then event
                   else with_device_uuid uuid (event\<lparr>ev_UUID := uuid, ev_Identity := mq_identity ''uuid'' uuid\<rparr>))
          in Inr (if tenantID = [] then e else e\<lparr>ev_TenantID := tenantID, ev_TenantHint := tenantID\<rparr>))"

definition rememberDevice :: "adapter_event \<Rightarrow> time \<Rightarrow> 'w mqtt_state \<Rightarrow> 'w mqtt_state" where
  "rememberDevice event now s =
     (let uuid = TrimSpace (ev_UUID event)
      in if uuid = [] then s
         else s\<lparr>ms_devices := AList.update uuid
           \<lparr>dv_UUID = uuid, dv_TenantID = ev_TenantID event,
            dv_Identity = (if id_Value (ev_Identity event) = [] then mq_identity ''uuid'' uuid else ev_Identity event),
            dv_LastSeen = now\<rparr> (ms_devices s)\<rparr>)"

definition mq_reportHeartbeat ::
    "'w mqtt_env \<Rightarrow> adapter_event \<Rightarrow> time \<Rightarrow> (unit, 'w mqtt_state) action" where
  "mq_reportHeartbeat A event now =
     (if ev_UUID event = [] \<and> id_Value (ev_Identity event) = [] then failE (ErrText ''heartbeat lacks uuid'')
      else bindE (on_world (rpc_ReportHeartbeat (me_core A)
          \<lparr>hq_PrimaryIdentity = mq_p_identity (ev_Identity event),
           hq_Identities = mq_p_identities (ev_Identities event), hq_Uuid = ev_UUID event,
           hq_Availability = (if EqualFold (ev_Availability event) ''offline'' then AvailOffline else AvailOnline),
           hq_ObservedAt = Some now\<rparr> now)) (\<lambda>_. returnE ()))"

definition mq_ingestEvent ::
    "'w mqtt_env \<Rightarrow> adapter_event \<Rightarrow> time \<Rightarrow> (unit, 'w mqtt_state) action" where
  "mq_ingestEvent A event now =
     (case NormalizeEvent (me_normalizer A) (me_sourceInstance A) event now of
        Inl e \<Rightarrow> failE e
      | Inr canonical \<Rightarrow>
          bindE (on_world (rpc_IngestEvents (me_core A)
            \<lparr>iq_Events = [Some canonical], iq_AllowPartialSuccess = True\<rparr> now)) (\<lambda>_. returnE ()))"

definition mq_commandStatus :: "string \<Rightarrow> p_command_status" where
  "mq_commandStatus status =
     (let v = ToLower (TrimSpace status)
      in if v = ''queued'' then PCommandQueued
         else if v = ''sent'' then PCommandSent
         else if v \<in> {''acked'', ''ack'', ''ok'', ''success'', ''succeeded''} then PCommandAcked
         else if v \<in> {''failed'', ''fail'', ''error''} then PCommandFailed
         else if v = ''expired'' then PCommandExpired
         else PCommandUnspecified)"

definition mq_updateCommandReceipt ::
    "'w mqtt_env \<Rightarrow> adapter_event \<Rightarrow> time \<Rightarrow> (unit, 'w mqtt_state) action" where
  "mq_updateCommandReceipt A event now =
     (case ev_Receipt event of
        None \<Rightarrow> failE (ErrText ''ack lacks receipt'')
      | Some r \<Rightarrow>
          bindE (on_world (rpc_UpdateCommandStatus (me_core A)
            \<lparr>uq_CommandId = rc_CommandID r, uq_CommandUuid = rc_CommandUUID r,
             uq_Status = (if mq_commandStatus (rc_Status r) = PCommandUnspecified then PCommandAcked
                          else mq_commandStatus (rc_Status r)),
             uq_ErrorText = rc_ErrorText r, uq_ProtocolCommandCode = rc_ProtocolCommandCode r,
             uq_Raw = Some \<lparr>raw_ContentType = ev_RawContentType event, raw_Body = ev_Raw event,
                            raw_Json = None, raw_Text = []\<rparr>,
             uq_ObservedAt = Some now, uq_Uuid = ev_UUID event,
             uq_TargetIdentity = mq_p_identity (ev_Identity event), uq_Command = None,
             uq_Operation = rc_Operation r\<rparr> now)) (\<lambda>_. returnE ()))"

text \<open>What is sent to the core for an event, by its kind.\<close>

definition deliver :: "'w mqtt_env \<Rightarrow> adapter_event \<Rightarrow> time \<Rightarrow> (unit, 'w mqtt_state) action" where
  "deliver A event now =
     (let kind = ToLower (TrimSpace (ev_Kind event))
      in if kind = ''heartbeat'' then mq_reportHeartbeat A event now
         else if kind \<in> {''command_ack'', ''command_failed''} then mq_updateCommandReceipt A event now
         else mq_ingestEvent A event now)"

definition handleMessage :: "'w mqtt_env \<Rightarrow> inbound_message \<Rightarrow> time \<Rightarrow> (unit, 'w mqtt_state) action" where
  "handleMessage A msg now s =
     (case Map (me_mapper A) now msg of
        Inl e \<Rightarrow> (Inl e, s)
      | Inr mapped \<Rightarrow>
          (case applyConnectionPrincipal (me_cfg A) msg (mm_Event mapped) of
             Inl e \<Rightarrow> (Inl e, s)
           | Inr event \<Rightarrow>
               if mm_Token mapped = [] then deliver A event now (rememberDevice event now s)
               else (case mq_authenticate A (mm_Token mapped) now s of
                   (Inl e, s1) \<Rightarrow> (Inl e, s1)
                 | (Inr owner, s1) \<Rightarrow>
                     (case apply_token msg owner event of
                        Inl e \<Rightarrow> (Inl e, s1)
                      | Inr event \<Rightarrow> deliver A event now (rememberDevice event now s1)))))"

section \<open>Commands\<close>

text \<open>\<open>strings.ReplaceAll\<close> of a text that is not empty.\<close>

function ReplaceAll :: "string \<Rightarrow> string \<Rightarrow> string \<Rightarrow> string" where
  "ReplaceAll [] old new = []"
| "ReplaceAll (c # s) old new =
     (if old \<noteq> [] \<and> is_prefix old (c # s) then new @ ReplaceAll (drop (length old) (c # s)) old new
      else c # ReplaceAll s old new)"
  by pat_completeness auto
termination by (relation "measure (\<lambda>(s, old, new). length s)") auto

definition replacements :: "device_session \<Rightarrow> adapter_command \<Rightarrow> (string \<times> string) list" where
  "replacements dev cmd =
     (let uuid = mq_firstNonEmpty [ac_UUID cmd, dv_UUID dev];
          tenant = mq_firstNonEmpty [ac_TenantID cmd, dv_TenantID dev, ''tenant_legacy'']
      in [(''{uuid}'', uuid), (''{device_uuid}'', uuid), (''{tenant}'', tenant), (''{tenant_id}'', tenant)])"

definition renderDownlinkTopic ::
    "((string \<times> string) list \<Rightarrow> (string \<times> string) list) \<Rightarrow> string \<Rightarrow> device_session \<Rightarrow> adapter_command \<Rightarrow> string" where
  "renderDownlinkTopic ord tmpl dev cmd =
     (let tmpl = (if TrimSpace tmpl = [] then ''goster/v1/{uuid}/downlink'' else tmpl)
      in Trim (foldl (\<lambda>out (key, value). ReplaceAll out key value) tmpl (ord (replacements dev cmd))) ''/'')"

definition mq_commandTargetIdentity :: "adapter_command \<Rightarrow> device_session \<Rightarrow> identity option" where
  "mq_commandTargetIdentity cmd dev =
     (if id_Type (ac_Target cmd) \<noteq> [] \<or> id_Value (ac_Target cmd) \<noteq> [] then Some (ac_Target cmd)
      else if id_Type (dv_Identity dev) \<noteq> [] \<or> id_Value (dv_Identity dev) \<noteq> [] then mq_p_identity (dv_Identity dev)
      else Some (mq_identity ''uuid'' (mq_firstNonEmpty [ac_UUID cmd, dv_UUID dev])))"

definition Publish :: "publication \<Rightarrow> (unit, 'w mqtt_state) action" where
  "Publish p s =
     (let s1 = s\<lparr>ms_publish_ok := tl (ms_publish_ok s)\<rparr>
      in if ms_publish_ok s \<noteq> [] \<and> \<not> hd (ms_publish_ok s) then (Inl (ErrText ''publish''), s1)
         else (Inr (), s1\<lparr>ms_published := ms_published s @ [p]\<rparr>))"

definition publishDownlink ::
    "'w mqtt_env \<Rightarrow> device_session \<Rightarrow> adapter_command \<Rightarrow> (unit, 'w mqtt_state) action" where
  "publishDownlink A dev cmd =
     (let topic = renderDownlinkTopic (me_order A) (mt_DownlinkTopic (me_cfg A)) dev cmd
      in if topic = [] then failE (ErrText ''empty topic'')
         else Publish \<lparr>pb_Topic = topic, pb_QoS = mt_QoS (me_cfg A),
                       pb_Retained = mt_DownlinkRetained (me_cfg A), pb_Payload = ac_Payload cmd\<rparr>)"

definition status_update ::
    "device_session \<Rightarrow> adapter_command \<Rightarrow> p_command_status \<Rightarrow> string \<Rightarrow> time \<Rightarrow> update_request" where
  "status_update dev cmd status errorText now =
     \<lparr>uq_CommandId = ac_CommandID cmd, uq_CommandUuid = ac_CommandUUID cmd, uq_Status = status,
      uq_ErrorText = errorText, uq_ProtocolCommandCode = ac_ProtocolCommandCode cmd, uq_Raw = None,
      uq_ObservedAt = Some now, uq_Uuid = mq_firstNonEmpty [ac_UUID cmd, dv_UUID dev],
      uq_TargetIdentity = mq_commandTargetIdentity cmd dev, uq_Command = None, uq_Operation = ac_Operation cmd\<rparr>"

definition markCommandSent ::
    "'w mqtt_env \<Rightarrow> device_session \<Rightarrow> adapter_command \<Rightarrow> time \<Rightarrow> 'w mqtt_state \<Rightarrow> 'w mqtt_state" where
  "markCommandSent A dev cmd now s =
     (if ac_CommandID cmd \<le> 0 then s
      else snd (on_world (rpc_UpdateCommandStatus (me_core A)
        (status_update dev cmd PCommandSent [] now) now) s))"

definition markCommandFailed ::
    "'w mqtt_env \<Rightarrow> device_session \<Rightarrow> adapter_command \<Rightarrow> go_error \<Rightarrow> time \<Rightarrow> 'w mqtt_state \<Rightarrow> 'w mqtt_state" where
  "markCommandFailed A dev cmd cause now s =
     (if ac_CommandID cmd \<le> 0 then s
      else snd (on_world (rpc_UpdateCommandStatus (me_core A)
        (status_update dev cmd PCommandFailed (error_text cause) now) now) s))"

text \<open>One command of an answer: one that cannot be normalized is passed over.\<close>

definition publish_one ::
    "'w mqtt_env \<Rightarrow> device_session \<Rightarrow> time \<Rightarrow> canonical_command \<Rightarrow> 'w mqtt_state \<Rightarrow> 'w mqtt_state" where
  "publish_one A dev now rawCmd s =
     (case NormalizeCommand (me_normalizer A) (Some rawCmd) of
        Inl _ \<Rightarrow> s
      | Inr cmd \<Rightarrow>
          (case publishDownlink A dev cmd s of
             (Inl e, s1) \<Rightarrow> markCommandFailed A dev cmd e now s1
           | (Inr _, s1) \<Rightarrow> markCommandSent A dev cmd now s1))"

definition pullAndPublishDownlinks ::
    "'w mqtt_env \<Rightarrow> device_session \<Rightarrow> time \<Rightarrow> (unit, 'w mqtt_state) action" where
  "pullAndPublishDownlinks A dev now s =
     (if dv_UUID dev = [] then (Inr (), s)
      else (case on_world (rpc_PullCommands (me_core A)
          \<lparr>pq_Uuid = dv_UUID dev, pq_PrimaryIdentity = mq_p_identity (dv_Identity dev), pq_Identities = [],
           pq_MaxCount = sint (word_of_int (mt_DownlinkMaxBatch (me_cfg A)) :: 32 word),
           pq_SupportedOperations = [], pq_SupportedProtocolNames = []\<rparr> now) s of
          (Inl e, s1) \<Rightarrow> (Inl e, s1)
        | (Inr cmds, s1) \<Rightarrow> (Inr (), fold (publish_one A dev now) cmds s1)))"

text \<open>The devices heard of within the time to live; the others are forgotten.\<close>

definition deviceSnapshot :: "mqtt_config \<Rightarrow> time \<Rightarrow> 'w mqtt_state \<Rightarrow> device_session list \<times> 'w mqtt_state" where
  "deviceSnapshot cfg now s =
     (let ttl = (if mt_DownlinkDeviceTTL cfg \<le> 0 then 10 * minute else mt_DownlinkDeviceTTL cfg);
          kept = filter (\<lambda>(uuid, dev). now - dv_LastSeen dev \<le> ttl) (ms_devices s)
      in (map snd kept, s\<lparr>ms_devices := kept\<rparr>))"

text \<open>One tick of the downlink loop: an error of one device is logged and the next is served.\<close>

definition downlink_tick :: "'w mqtt_env \<Rightarrow> time \<Rightarrow> 'w mqtt_state \<Rightarrow> 'w mqtt_state" where
  "downlink_tick A now s =
     (case deviceSnapshot (me_cfg A) now s of (devs, s1) \<Rightarrow>
        fold (\<lambda>dev s. snd (pullAndPublishDownlinks A dev now s)) devs s1)"

end
