(* ===== verification/MqttBroker.thy ===== *)
theory MqttBroker
  imports MqttAdapter
begin

text \<open>
  \<^verbatim>\<open>protocol-ingress/internal/adapter/mqtt/broker.go\<close>: the hook of the embedded broker. It admits a
  client by the token it gives as its password, keeps a session per client id, decides which topics
  the client may use, and passes its publications on to the adapter. The broker itself is the
  library's; what the code relies on is that it asks \<open>OnACLCheck\<close> before it subscribes a client to a
  filter and before it calls \<open>OnPublish\<close>, and calls \<open>OnDisconnect\<close> when a connection ends. A client
  that connects under an id in use takes the session over: the broker admits the new connection
  before it ends the old one.
\<close>

record embedded_session =
  es_ClientID :: string
  es_Username :: string
  es_UUID :: string
  es_TenantID :: string
  es_TokenHint :: string
  es_Remote :: string
  es_CreatedAt :: time
  es_LastSeen :: time

record mqtt_client =
  cl_ID :: string
  cl_Remote :: string
  cl_Inline :: bool

record connect_packet =
  cp_ClientIdentifier :: string
  cp_Username :: string
  cp_Password :: string

record publish_packet =
  pp_TopicName :: string
  pp_Payload :: bytes
  pp_Qos :: byte
  pp_Retain :: bool
  pp_Dup :: bool

text \<open>The sessions, the channel of messages for the adapter, and the adapter's own state.\<close>

record 'w broker =
  bk_sessions :: "string \<Rightarrow> embedded_session option"
  bk_messages :: "inbound_message list"
  bk_adapter :: "'w mqtt_state"

definition clientID :: "mqtt_client option \<Rightarrow> string" where
  "clientID cl = (case cl of None \<Rightarrow> [] | Some c \<Rightarrow> TrimSpace (cl_ID c))"

definition remoteAddr :: "mqtt_client option \<Rightarrow> string" where
  "remoteAddr cl = (case cl of None \<Rightarrow> [] | Some c \<Rightarrow> TrimSpace (cl_Remote c))"

definition tokenHint :: "string \<Rightarrow> string" where
  "tokenHint token =
     (let token = TrimSpace token
      in if length token \<le> 8 then ''***'' else take 4 token @ ''...'' @ drop (length token - 4) token)"

definition authenticateByClientPasswordToken ::
    "'w mqtt_env \<Rightarrow> string \<Rightarrow> string \<Rightarrow> string \<Rightarrow> string \<Rightarrow> time \<Rightarrow> 'w mqtt_state \<Rightarrow>
     embedded_session option \<times> 'w mqtt_state" where
  "authenticateByClientPasswordToken A cid username token remote now s =
     (case on_world (rpc_AuthenticateDevice (me_core A)
         \<lparr>aq_Credentials = [\<lparr>cd_Type = ''token'', cd_Value = token\<rparr>],
          aq_Identities = [mq_identity ''uuid'' cid, mq_identity ''mqtt_client_id'' cid],
          aq_DeviceHint = None\<rparr> now) s of
        (Inl _, s1) \<Rightarrow> (None, s1)
      | (Inr resp, s1) \<Rightarrow>
          let uuid = TrimSpace (ar_Uuid resp)
          in if ar_Status resp \<noteq> AuthAccepted \<or> uuid = [] \<or> uuid \<noteq> cid then (None, s1)
             else (Some \<lparr>es_ClientID = cid, es_Username = username, es_UUID = uuid,
                         es_TenantID = TrimSpace (ar_TenantId resp), es_TokenHint = tokenHint token,
                         es_Remote = remote, es_CreatedAt = now, es_LastSeen = now\<rparr>, s1))"

definition OnConnectAuthenticate ::
    "'w mqtt_env \<Rightarrow> mqtt_client option \<Rightarrow> connect_packet \<Rightarrow> time \<Rightarrow> 'w broker \<Rightarrow> bool \<times> 'w broker" where
  "OnConnectAuthenticate A cl pk now b =
     (let cid = TrimSpace (cp_ClientIdentifier pk);
          cid = (if cid = [] \<and> cl \<noteq> None then clientID cl else cid);
          token = TrimSpace (cp_Password pk); username = TrimSpace (cp_Username pk)
      in if cid = [] \<or> token = [] then (False, b)
         else (case authenticateByClientPasswordToken A cid username token (remoteAddr cl) now (bk_adapter b) of
             (None, s) \<Rightarrow> (False, b\<lparr>bk_adapter := s\<rparr>)
           | (Some session, s) \<Rightarrow>
               (True, b\<lparr>bk_adapter := s, bk_sessions := (bk_sessions b)(cid \<mapsto> session)\<rparr>)))"

definition sessionForClient :: "mqtt_client option \<Rightarrow> 'w broker \<Rightarrow> embedded_session option" where
  "sessionForClient cl b = (let cid = clientID cl in if cid = [] then None else bk_sessions b cid)"

definition allowedTopic :: "mqtt_config \<Rightarrow> embedded_session \<Rightarrow> string \<Rightarrow> bool \<Rightarrow> bool" where
  "allowedTopic cfg session topic write =
     (let topic = cleanTopic topic
      in case topicRest topic (mt_BaseTopic cfg) of
           Some rest \<Rightarrow>
             (case rest of
                u # k # deeper \<Rightarrow>
                  let uuid = TrimSpace u; kind = normalizeKind k
                  in if uuid = [] \<or> uuid \<noteq> es_UUID session then False
                     else if write
                     then kind \<in> {''telemetry'', ''heartbeat'', ''event'', ''ack'', ''state'', ''log''} \<and> deeper = []
                     else kind = ''downlink'' \<and> deeper = []
              | _ \<Rightarrow> False)
         | None \<Rightarrow>
             (case topicRest topic (mt_Zigbee2MQTTBaseTopic cfg) of Some _ \<Rightarrow> write | None \<Rightarrow> False))"

definition OnACLCheck ::
    "mqtt_config \<Rightarrow> mqtt_client option \<Rightarrow> string \<Rightarrow> bool \<Rightarrow> time \<Rightarrow> 'w broker \<Rightarrow> bool \<times> 'w broker" where
  "OnACLCheck cfg cl topic write now b =
     (if (case cl of Some c \<Rightarrow> cl_Inline c | None \<Rightarrow> False) then (True, b)
      else case sessionForClient cl b of
          None \<Rightarrow> (False, b)
        | Some session \<Rightarrow>
            if \<not> allowedTopic cfg session topic write then (False, b)
            else (True, b\<lparr>bk_sessions :=
              (bk_sessions b)(es_ClientID session \<mapsto> session\<lparr>es_LastSeen := now\<rparr>)\<rparr>))"

text \<open>A full channel drops the message.\<close>

definition OnPublish ::
    "mqtt_config \<Rightarrow> mqtt_client option \<Rightarrow> publish_packet \<Rightarrow> time \<Rightarrow> 'w broker \<Rightarrow> 'w broker" where
  "OnPublish cfg cl pk now b =
     (if (case cl of Some c \<Rightarrow> cl_Inline c | None \<Rightarrow> False) then b
      else case sessionForClient cl b of
          None \<Rightarrow> b
        | Some session \<Rightarrow>
            let msg = \<lparr>im_Topic = pp_TopicName pk, im_Payload = pp_Payload pk, im_QoS = pp_Qos pk,
                       im_Retained = pp_Retain pk, im_Duplicate = pp_Dup pk, im_ReceivedAt = now,
                       im_ClientID = es_ClientID session, im_Username = es_Username session,
                       im_AuthUUID = es_UUID session, im_AuthTenant = es_TenantID session,
                       im_RemoteAddr = es_Remote session, im_LocalAddr = []\<rparr>
            in if int (length (bk_messages b)) < mt_MessageBuffer cfg
               then b\<lparr>bk_messages := bk_messages b @ [msg]\<rparr> else b)"

definition OnDisconnect :: "mqtt_client option \<Rightarrow> 'w broker \<Rightarrow> 'w broker" where
  "OnDisconnect cl b =
     (let cid = clientID cl in if cid = [] then b else b\<lparr>bk_sessions := (bk_sessions b)(cid := None)\<rparr>)"

section \<open>The broker\<close>

text \<open>
  The steps of a running broker: what the library calls for each packet, the loop of
  \<open>startEmbeddedBroker\<close> taking a message from the channel, and a tick of the downlink loop.
\<close>

datatype broker_step =
    ClientConnects "mqtt_client option" connect_packet time
  | ClientSubscribes "mqtt_client option" string time
  | ClientPublishes "mqtt_client option" publish_packet time
  | ClientDisconnects "mqtt_client option"
  | MessageTaken time
  | DownlinkTick time

fun broker_run :: "'w mqtt_env \<Rightarrow> broker_step \<Rightarrow> 'w broker \<Rightarrow> 'w broker" where
  "broker_run A (ClientConnects cl pk now) b = snd (OnConnectAuthenticate A cl pk now b)"
| "broker_run A (ClientSubscribes cl f now) b = snd (OnACLCheck (me_cfg A) cl f False now b)"
| "broker_run A (ClientPublishes cl pk now) b =
     (case OnACLCheck (me_cfg A) cl (pp_TopicName pk) True now b of
        (True, b1) \<Rightarrow> OnPublish (me_cfg A) cl pk now b1
      | (False, b1) \<Rightarrow> b1)"
| "broker_run A (ClientDisconnects cl) b = OnDisconnect cl b"
| "broker_run A (MessageTaken now) b =
     (case bk_messages b of
        [] \<Rightarrow> b
      | msg # later \<Rightarrow>
          b\<lparr>bk_messages := later, bk_adapter := snd (handleMessage A msg now (bk_adapter b))\<rparr>)"
| "broker_run A (DownlinkTick now) b =
     (if mt_DownlinkEnabled (me_cfg A) then b\<lparr>bk_adapter := downlink_tick A now (bk_adapter b)\<rparr> else b)"

definition new_broker :: "'w mqtt_state \<Rightarrow> 'w broker" where
  "new_broker s = \<lparr>bk_sessions = (\<lambda>_. None), bk_messages = [], bk_adapter = s\<rparr>"

end
