(* ===== verification/CoreFrames.thy ===== *)
theory CoreFrames
  imports CoreClient
begin

text \<open>
  What the calls of the ingress leave alone in the core: everything but a registration keeps the
  devices, their tokens and the token cache, and a database that works goes on working. The rules
  are applied to an operation along its structure.
\<close>

named_theorems core_stable

section \<open>Actions of the database\<close>

definition db_stable :: "('a, db) action \<Rightarrow> bool" where
  "db_stable f \<longleftrightarrow> (\<forall>d. faults d = [] \<longrightarrow>
     faults (snd (f d)) = [] \<and> t_devices (tabs (snd (f d))) = t_devices (tabs d))"

lemma db_stable_return [core_stable]: "db_stable (returnE x)" "db_stable (failE e)"
  by (simp_all add: db_stable_def returnE_def failE_def)

lemma db_stable_bind [core_stable]:
  "db_stable f \<Longrightarrow> (\<And>x. db_stable (g x)) \<Longrightarrow> db_stable (bindE f g)"
  unfolding db_stable_def bindE_def by (auto split: prod.splits sum.splits)

lemma db_stable_if [core_stable]: "db_stable f \<Longrightarrow> db_stable g \<Longrightarrow> db_stable (if b then f else g)"
  by simp

lemma db_stable_stmt:
  "(\<And>t x t'. f t = (Inr x, t') \<Longrightarrow> t_devices t' = t_devices t) \<Longrightarrow> db_stable (run_stmt f)"
  unfolding db_stable_def run_stmt_def by (auto split: list.splits prod.splits sum.splits)

lemma db_stable_query [core_stable]: "db_stable (run_query f)"
  unfolding run_query_def by (rule db_stable_stmt) simp

lemma db_stable_tx [core_stable]: "db_stable f \<Longrightarrow> db_stable (run_tx f)"
  using db_stable_query [of "\<lambda>t. ()"]
  unfolding db_stable_def run_tx_def by (auto split: prod.splits sum.splits)

lemma db_stable_resolve [core_stable]: "db_stable (device_ResolveDeviceTenant u)"
  unfolding device_ResolveDeviceTenant_def by (intro core_stable) (auto intro: core_stable split: option.splits)

lemma db_stable_with_tenant:
  assumes "\<And>t. db_stable (f t)"
  shows "db_stable (\<lambda>d. case tenant_or_default device_ResolveDeviceTenant u d of (t, d1) \<Rightarrow> f t d1)"
  using db_stable_resolve [of u] assms
  unfolding db_stable_def tenant_or_default_def by (auto split: prod.splits sum.splits)

lemma telemetry_stable [core_stable]:
  "db_stable (BatchAppendMetrics device_ResolveDeviceTenant u ps)"
  "db_stable (WriteLog device_ResolveDeviceTenant u lv m)"
proof -
  show "db_stable (WriteLog device_ResolveDeviceTenant u lv m)"
    unfolding WriteLog_def by (intro db_stable_with_tenant db_stable_stmt) auto
  have "db_stable (\<lambda>d. case tenant_or_default device_ResolveDeviceTenant u d of (t, d1) \<Rightarrow>
      run_tx (run_stmt (\<lambda>tb. (Inr (), tb\<lparr>t_metrics := t_metrics tb @ map (metric_row_of u t) ps\<rparr>))) d1)"
    by (intro db_stable_with_tenant db_stable_tx db_stable_stmt) auto
  then show "db_stable (BatchAppendMetrics device_ResolveDeviceTenant u ps)"
    by (auto simp: db_stable_def BatchAppendMetrics_def Let_def)
qed

lemma status_stable [core_stable]: "db_stable (UpdateDeviceCommandStatus i st t now)"
  unfolding UpdateDeviceCommandStatus_def Let_def
  by (intro core_stable) (auto intro: core_stable db_stable_stmt)

section \<open>Actions of the core\<close>

definition keeps_core :: "(core_state \<Rightarrow> 'r \<times> core_state) \<Rightarrow> bool" where
  "keeps_core f \<longleftrightarrow> (\<forall>s. core_ok s \<longrightarrow> core_ok (snd (f s)) \<and> db_devs (co_db (snd (f s))) = db_devs (co_db s))"

lemma core_ok_change:
  assumes "core_ok s" "faults (co_db s') = []" "t_devices (tabs (co_db s')) = t_devices (tabs (co_db s))"
    "co_cache s' = co_cache s"
  shows "core_ok s' \<and> db_devs (co_db s') = db_devs (co_db s)"
proof -
  have d: "db_devs (co_db s') = db_devs (co_db s)"
    by (simp add: db_devs_def fun_eq_iff find_device_def assms(3))
  have ok: "db_devices_ok (co_db s')"
    using core_ok_store(1) [OF assms(1)] unfolding db_devices_ok_def assms(3) .
  have "coherent (db_devs (co_db s)) (co_cache s)"
    using assms(1) unfolding core_ok_def sql_reliable.reg_ok_def core_registry_state_def by simp
  then have "core_ok s'"
    unfolding core_ok_def sql_reliable.reg_ok_def core_registry_state_def registry.select_convs d assms(4)
    using ok assms(2) by blast
  with d show ?thesis by blast
qed

lemma keeps_coreI:
  assumes f: "\<And>s. faults (co_db s) = [] \<Longrightarrow> faults (co_db (snd (f s))) = [] \<and>
      t_devices (tabs (co_db (snd (f s)))) = t_devices (tabs (co_db s)) \<and> co_cache (snd (f s)) = co_cache s"
  shows "keeps_core f"
  unfolding keeps_core_def
proof (intro allI impI)
  fix s assume s: "core_ok s"
  note r = f [OF core_ok_store(2) [OF s]]
  show "core_ok (snd (f s)) \<and> db_devs (co_db (snd (f s))) = db_devs (co_db s)"
    using core_ok_change [OF s conjunct1 [OF r] conjunct1 [OF conjunct2 [OF r]] conjunct2 [OF conjunct2 [OF r]]] .
qed

lemma keeps_db [core_stable]: "db_stable f \<Longrightarrow> keeps_core (with_db f)"
  by (rule keeps_coreI) (auto simp: with_db_def db_stable_def split: prod.splits)

definition dk_stable :: "('a, (db, memory_queue) downlink) action \<Rightarrow> bool" where
  "dk_stable f \<longleftrightarrow> (\<forall>s. faults (dk_store s) = [] \<longrightarrow>
     faults (dk_store (snd (f s))) = [] \<and> t_devices (tabs (dk_store (snd (f s)))) = t_devices (tabs (dk_store s)))"

lemma keeps_downlink [core_stable]:
  assumes "dk_stable f"
  shows "keeps_core (with_downlink f)"
proof (rule keeps_coreI)
  fix s :: core_state assume "faults (co_db s) = []"
  moreover obtain r g where g: "f \<lparr>dk_store = co_db s, dk_queue = co_queue s\<rparr> = (r, g)"
    by (cases "f \<lparr>dk_store = co_db s, dk_queue = co_queue s\<rparr>")
  ultimately have "faults (dk_store g) = [] \<and> t_devices (tabs (dk_store g)) = t_devices (tabs (co_db s))"
    using assms unfolding dk_stable_def by (metis downlink.select_convs(1) snd_conv)
  then show "faults (co_db (snd (with_downlink f s))) = [] \<and>
      t_devices (tabs (co_db (snd (with_downlink f s)))) = t_devices (tabs (co_db s)) \<and>
      co_cache (snd (with_downlink f s)) = co_cache s"
    by (simp add: with_downlink_def g)
qed

lemma dk_stable_repo: "db_stable f \<Longrightarrow> dk_stable (on_repo f)"
  unfolding dk_stable_def db_stable_def on_repo_def by (auto split: prod.splits)

lemma dk_stable_queue [core_stable]: "dk_stable (on_queue f)"
  unfolding dk_stable_def on_queue_def by (auto split: prod.splits)

lemma dk_stable_return [core_stable]: "dk_stable (returnE x)"
  by (simp add: dk_stable_def returnE_def)

lemma dk_stable_bind:
  "dk_stable f \<Longrightarrow> (\<And>x. dk_stable (g x)) \<Longrightarrow> dk_stable (bindE f g)"
  unfolding dk_stable_def bindE_def by (auto split: prod.splits sum.splits)

lemma dk_stable_catch:
  "dk_stable f \<Longrightarrow> (\<And>e. dk_stable (g e)) \<Longrightarrow> dk_stable (catchE f g)"
  unfolding dk_stable_def catchE_def by (auto split: prod.splits sum.splits)

lemma dk_stable_mark: "dk_stable (mark_status sql_downlink st i msg now)"
  by (simp add: mark_status_def sql_downlink_def dk_stable_repo status_stable command_repository_def)

lemma dk_stable_marks [core_stable]:
  "dk_stable (MarkSent sql_downlink i now)" "dk_stable (MarkAcked sql_downlink i now)"
  "dk_stable (MarkFailed sql_downlink i t now)"
  by (simp_all add: MarkSent_def MarkAcked_def MarkFailed_def dk_stable_mark dk_stable_return)

lemma dk_stable_fail_after: "dk_stable f \<Longrightarrow> dk_stable (\<lambda>s. (Inl e, snd (f s)))"
  by (simp add: dk_stable_def)

lemma dk_stable_ops [core_stable]:
  "dk_stable (PopDownlink sql_downlink u)" "dk_stable (Downlink_Requeue sql_downlink u m now)"
proof -
  show "dk_stable (PopDownlink sql_downlink u)" by (simp add: PopDownlink_def dk_stable_queue)
  show "dk_stable (Downlink_Requeue sql_downlink u m now)"
    unfolding Downlink_Requeue_def
    by (auto intro!: dk_stable_bind dk_stable_catch dk_stable_queue dk_stable_return dk_stable_mark
        dk_stable_fail_after dk_stable_marks)
qed

section \<open>The handlers of the core\<close>

lemma keeps_core_return [core_stable]: "keeps_core (returnE x)" "keeps_core (failE e)"
  by (simp_all only: keeps_core_def returnE_def failE_def) simp_all

lemma keeps_core_bind:
  assumes "keeps_core f" "\<And>x. keeps_core (g x)"
  shows "keeps_core (bindE f g)"
  unfolding keeps_core_def
proof (intro allI impI)
  fix s assume s: "core_ok s"
  obtain r t where f: "f s = (r, t)" by (cases "f s")
  have t: "core_ok t \<and> db_devs (co_db t) = db_devs (co_db s)"
    using assms(1) s f unfolding keeps_core_def by (metis snd_conv)
  show "core_ok (snd (bindE f g s)) \<and> db_devs (co_db (snd (bindE f g s))) = db_devs (co_db s)"
  proof (cases r)
    case (Inl e)
    with t f show ?thesis by (simp add: bindE_def)
  next
    case (Inr x)
    with t f assms(2) [of x] show ?thesis by (simp add: bindE_def keeps_core_def)
  qed
qed

lemma services_keep:
  "keeps_core (k_IngestMetrics (core_services c) u ps)"
  "keeps_core (k_IngestLog (core_services c) u l)"
  "keeps_core (k_IngestEvent (core_services c) u b)"
  "keeps_core (k_IngestDeviceError (core_services c) u b)"
  "keeps_core (k_PopDownlink (core_services c) u)"
  "keeps_core (k_Requeue (core_services c) u m now)"
  "keeps_core (k_MarkSent (core_services c) i now)"
  "keeps_core (k_MarkAcked (core_services c) i now)"
  "keeps_core (k_MarkFailed (core_services c) i t now)"
  by (simp_all add: core_services_def Let_def IngestMetrics_def IngestLog_def IngestEvent_def
      IngestDeviceError_def telemetry_repository_def keeps_db telemetry_stable keeps_downlink
      dk_stable_ops dk_stable_marks)

lemma keeps_heartbeat: "keeps_core (\<lambda>s. ((), k_HandleHeartbeat (core_services c) u now s))"
  by (rule keeps_coreI) (simp add: core_services_def Let_def)

lemma keeps_resolve: "keeps_core (resolveTenant (core_services c) u)"
  unfolding keeps_core_def using core_resolve_ok surjective_pairing by metis

lemma keeps_authenticate: "keeps_core (k_Authenticate (core_services c) tok)"
  unfolding keeps_core_def using core_authenticate surjective_pairing by metis

lemma keeps_metadata: "keeps_core (k_GetDeviceMetadata (core_services c) u)"
  by (simp add: keeps_core_def core_metadata)

lemma keeps_pair [core_stable]: "keeps_core (\<lambda>s. (x, s))" "keeps_core (Pair x)"
  by (simp_all add: keeps_core_def)

lemma keeps_if:
  "keeps_core f \<Longrightarrow> keeps_core g \<Longrightarrow> keeps_core (\<lambda>s. if b then f s else g s)"
  by (cases b) simp_all

lemma keeps_then:
  assumes "keeps_core f" "\<And>x. keeps_core (g x)"
  shows "keeps_core (\<lambda>s. case f s of (x, t) \<Rightarrow> g x t)"
  unfolding keeps_core_def
proof (intro allI impI)
  fix s assume s: "core_ok s"
  obtain x t where f: "f s = (x, t)" by (cases "f s")
  have t: "core_ok t \<and> db_devs (co_db t) = db_devs (co_db s)"
    using assms(1) s f unfolding keeps_core_def by (metis snd_conv)
  with f assms(2) [of x]
  show "core_ok (snd (case f s of (x, t) \<Rightarrow> g x t)) \<and>
      db_devs (co_db (snd (case f s of (x, t) \<Rightarrow> g x t))) = db_devs (co_db s)"
    by (simp add: keeps_core_def)
qed

lemma keeps_receipt: "keeps_core (updateCommandReceipt (core_services c) u r now)"
  unfolding updateCommandReceipt_def Let_def
  by (auto intro: keeps_core_return services_keep split: p_command_status.splits)

lemma keeps_logs: "keeps_core (ingest_logs (core_services c) u ls now)"
  by (induction ls) (auto intro: keeps_pair keeps_core_return keeps_core_bind services_keep)

lemma keeps_ingestOne: "keeps_core (ingestOne (core_services c) u e now)"
  unfolding ingestOne_def Let_def
  by (intro keeps_core_bind)
    (auto intro: keeps_core_return services_keep keeps_logs keeps_receipt split: option.splits)

definition event_result :: "device_event \<Rightarrow> string \<Rightarrow> string \<Rightarrow> unit result \<Rightarrow> ingest_result" where
  "event_result ev u t r =
     (case r of
        Inl e \<Rightarrow> no_result\<lparr>ir_EventId := de_EventId ev, ir_Uuid := u, ir_TenantId := t,
                   ir_ErrorCode := ''ingest_failed'', ir_ErrorMessage := e\<rparr>
      | Inr _ \<Rightarrow> no_result\<lparr>ir_EventId := de_EventId ev, ir_Success := True, ir_Uuid := u, ir_TenantId := t\<rparr>)"

lemma ingest_event_alt:
  "event_uuid ev \<noteq> [] \<Longrightarrow> ingest_event K (Some ev) now =
     (\<lambda>s. case ingestOne K (event_uuid ev) ev now s of (r, s1) \<Rightarrow>
        (case resolveTenant K (event_uuid ev) s1 of (t, s2) \<Rightarrow> (event_result ev (event_uuid ev) t r, s2)))"
  by (auto simp: fun_eq_iff ingest_event_def event_result_def Let_def split: prod.splits sum.splits)

lemma keeps_ingest_event: "keeps_core (ingest_event (core_services c) e now)"
proof (cases e)
  case None
  then show ?thesis by (simp add: ingest_event_def keeps_core_def)
next
  case (Some ev)
  show ?thesis
  proof (cases "event_uuid ev = []")
    case True
    with Some show ?thesis by (simp add: ingest_event_def Let_def keeps_core_def)
  next
    case False
    show ?thesis
      unfolding Some ingest_event_alt [OF False]
      by (intro keeps_then [OF keeps_ingestOne] keeps_then [OF keeps_resolve] keeps_pair)
  qed
qed

lemma keeps_ingest_loop: "keeps_core (ingest_loop (core_services c) p es now)"
proof (induction es)
  case Nil
  show ?case by (simp add: keeps_core_def)
next
  case (Cons e es)
  have "ingest_loop (core_services c) p (e # es) now =
      (\<lambda>s. case ingest_event (core_services c) e now s of (r, s1) \<Rightarrow>
      (if \<not> ir_Success r \<and> \<not> p then ([r], s1)
       else (case ingest_loop (core_services c) p es now s1 of (rs, s2) \<Rightarrow> (r # rs, s2))))"
    by (simp add: fun_eq_iff)
  then show ?case
    by (simp only:) (intro keeps_then [OF keeps_ingest_event] keeps_if keeps_pair keeps_then [OF Cons.IH])
qed

lemma keeps_IngestEvents: "keeps_core (IngestEvents (core_services c) (Some m) now)"
  unfolding IngestEvents_def [abs_def] option.case
  by (intro keeps_then [OF keeps_ingest_loop] keeps_pair)

lemma keeps_ReportHeartbeat: "keeps_core (ReportHeartbeat (core_services c) (Some m) now)"
  unfolding keeps_core_def
proof (intro allI impI)
  fix s assume s: "core_ok s"
  let ?u = "first_uuid (TrimSpace (hq_Uuid m)) (hq_PrimaryIdentity m) (hq_Identities m)"
  let ?t = "k_HandleHeartbeat (core_services c) ?u now s"
  have t: "core_ok ?t \<and> db_devs (co_db ?t) = db_devs (co_db s)"
    using keeps_heartbeat [of c ?u now] s by (simp add: keeps_core_def)
  obtain x s2 where x: "resolveTenant (core_services c) ?u ?t = (x, s2)"
    by (cases "resolveTenant (core_services c) ?u ?t")
  show "core_ok (snd (ReportHeartbeat (core_services c) (Some m) now s)) \<and>
      db_devs (co_db (snd (ReportHeartbeat (core_services c) (Some m) now s))) = db_devs (co_db s)"
    using s t core_resolve_ok [OF _ x] by (simp add: ReportHeartbeat_def Let_def x)
qed

lemma keeps_PullCommands: "keeps_core (PullCommands (core_services c) (Some m))"
proof -
  have "core_ok s' \<and> db_devs (co_db s') = db_devs (co_db s)"
    if "core_ok s" "pull_loop (core_services c) u n s = (r, s')" for u n s r s'
    using that
  proof (induction n arbitrary: s r s')
    case (Suc n)
    obtain x s1 where x: "k_PopDownlink (core_services c) u s = (x, s1)"
      by (cases "k_PopDownlink (core_services c) u s")
    have s1: "core_ok s1 \<and> db_devs (co_db s1) = db_devs (co_db s)"
      using services_keep(5) [of c u] Suc.prems(1) x unfolding keeps_core_def by (metis snd_conv)
    obtain t s2 where t: "resolveTenant (core_services c) u s1 = (t, s2)"
      by (cases "resolveTenant (core_services c) u s1")
    obtain y s3 where y: "pull_loop (core_services c) u n s2 = (y, s3)"
      by (cases "pull_loop (core_services c) u n s2")
    have s3: "core_ok s3 \<and> db_devs (co_db s3) = db_devs (co_db s)"
      using Suc.IH [OF _ y] core_resolve_ok [OF _ t] s1 by simp
    have "s' = s1 \<or> s' = s3"
      using Suc.prems(2) x t y by (auto split: sum.splits if_splits)
    with s1 s3 show ?case by blast
  qed simp
  then have loop: "keeps_core (pull_loop (core_services c) u n)" for u n
    unfolding keeps_core_def using surjective_pairing by metis
  define u where "u = first_uuid (TrimSpace (pq_Uuid m)) (pq_PrimaryIdentity m) (pq_Identities m)"
  define n where "n = nat (if pq_MaxCount m \<le> 0 then 1 else pq_MaxCount m)"
  have "PullCommands (core_services c) (Some m) =
      (\<lambda>s. if u = [] then (Inl (InvalidArgument (ErrText ''uuid is required'')), s)
           else (case pull_loop (core_services c) u n s of (r, s') \<Rightarrow>
             (case r of Inl e \<Rightarrow> Inl (Internal e) | Inr cs \<Rightarrow> Inr cs, s')))"
    unfolding u_def n_def fun_eq_iff PullCommands_def Let_def option.case by (auto split: prod.split sum.split)
  then show ?thesis
    by (simp only:) (intro keeps_if keeps_pair keeps_then [OF loop])
qed

lemma keeps_core_requeue: "keeps_core (core_requeue (core_services c) m now)"
  unfolding core_requeue_def Let_def
  by (simp add: services_keep keeps_core_return)

lemma keeps_UpdateCommandStatus: "keeps_core (UpdateCommandStatus (core_services c) (Some m) now)"
proof -
  define f where "f = (\<lambda>s. case uq_Status m of
                 PCommandSent \<Rightarrow> k_MarkSent (core_services c) (uq_CommandId m) now s
               | PCommandAcked \<Rightarrow> k_MarkAcked (core_services c) (uq_CommandId m) now s
               | PCommandFailed \<Rightarrow> k_MarkFailed (core_services c) (uq_CommandId m) (uq_ErrorText m) now s
               | PCommandExpired \<Rightarrow> k_MarkFailed (core_services c) (uq_CommandId m) (uq_ErrorText m) now s
               | PCommandRequeued \<Rightarrow> core_requeue (core_services c) m now s
               | _ \<Rightarrow> (Inl (ErrInvalidIngressRequest ''unsupported command status''), s))"
  have "keeps_core f"
    unfolding f_def
    by (cases "uq_Status m") (simp_all add: services_keep keeps_core_requeue keeps_pair)
  then have "keeps_core (\<lambda>s. case f s of (r, s') \<Rightarrow>
      (case r of Inl e \<Rightarrow> Inl (case e of ErrInvalidIngressRequest t \<Rightarrow> InvalidArgument e | _ \<Rightarrow> Internal e)
       | Inr _ \<Rightarrow> Inr (uq_Status m), s'))"
    by (rule keeps_then) (rule keeps_pair)
  moreover have "0 < uq_CommandId m \<Longrightarrow> UpdateCommandStatus (core_services c) (Some m) now =
      (\<lambda>s. case f s of (r, s') \<Rightarrow>
      (case r of Inl e \<Rightarrow> Inl (case e of ErrInvalidIngressRequest t \<Rightarrow> InvalidArgument e | _ \<Rightarrow> Internal e)
       | Inr _ \<Rightarrow> Inr (uq_Status m), s'))"
    by (auto simp: fun_eq_iff UpdateCommandStatus_def f_def split: prod.splits sum.splits)
  ultimately show ?thesis
    by (cases "uq_CommandId m \<le> 0") (simp_all add: UpdateCommandStatus_def keeps_core_def)
qed

lemma keeps_AuthenticateDevice: "keeps_core (AuthenticateDevice (core_services c) (Some m))"
proof -
  let ?K = "core_services c"
  define g where "g = (\<lambda>(r :: string \<times> go_error option) s1. case r of
      (_, Some e) \<Rightarrow> (Inr (auth_response (authStatusFromError e)\<lparr>ar_Reason := error_text e\<rparr>), s1)
    | (u, None) \<Rightarrow> (case resolveTenant ?K u s1 of (t, s2) \<Rightarrow>
        (case k_GetDeviceMetadata ?K u s2 of (x, s3) \<Rightarrow>
          (case x of Inl e \<Rightarrow> Inl (Internal e)
           | Inr md \<Rightarrow> Inr \<lparr>ar_Status = AuthAccepted, ar_Uuid = u, ar_TenantId = t,
                ar_Reason = [], ar_Device = Some (deviceDescriptor u md t)\<rparr>, s3))))"
  have g: "keeps_core (g r)" for r
    unfolding g_def
    by (cases r; cases "snd r") (auto intro!: keeps_pair keeps_then [OF keeps_resolve] keeps_then [OF keeps_metadata])
  have "AuthenticateDevice ?K (Some m) =
      (\<lambda>s. if presented_token m = [] then (Inr (auth_response AuthRejected\<lparr>ar_Reason := ''token is required''\<rparr>), s)
           else (case k_Authenticate ?K (presented_token m) s of (r, t) \<Rightarrow> g r t))"
    by (auto simp: fun_eq_iff AuthenticateDevice_def presented_token_def g_def Let_def
        split: prod.splits sum.splits option.splits)
  then show ?thesis
    by (simp only:) (intro keeps_if keeps_pair keeps_then [OF keeps_authenticate] g)
qed

end
