(* ===== verification/MqttSafety.thy ===== *)
theory MqttSafety
  imports MqttBroker CoreFrames EndToEnd
begin

text \<open>
  What the embedded broker and the adapter behind it guarantee, wired to a core service over a link:
  who may connect, what a connection can report, and what it can read.
\<close>

definition mqtt_wired :: "core_state link mqtt_env \<Rightarrow> core_config \<Rightarrow> bool" where
  "mqtt_wired A cfg \<longleftrightarrow> me_core A = NewRemote (core_services cfg) \<and> mr_cfg (me_mapper A) = me_cfg A"

section \<open>The core behind the adapter\<close>

abbreviation devs_of :: "core_state link \<Rightarrow> string \<Rightarrow> (string \<times> device_metadata) option" where
  "devs_of w \<equiv> db_devs (co_db (lk_core w))"

definition same_core :: "core_state link \<Rightarrow> core_state link \<Rightarrow> bool" where
  "same_core w w' \<longleftrightarrow> (core_ok (lk_core w) \<longrightarrow> core_ok (lk_core w') \<and> devs_of w' = devs_of w)"

lemma same_core_refl [simp, intro]: "same_core w w"
  by (simp add: same_core_def)

lemma same_core_trans: "same_core w w' \<Longrightarrow> same_core w' w'' \<Longrightarrow> same_core w w''"
  by (simp add: same_core_def)

lemma same_core_call: "keeps_core f \<Longrightarrow> same_core l (snd (call f l))"
  using call_core [of f l] unfolding same_core_def keeps_core_def by auto

lemma same_core_client:
  assumes "mqtt_wired A cfg"
  shows "same_core w (snd (rpc_AuthenticateDevice (me_core A) q1 now w))"
    and "same_core w (snd (rpc_ReportHeartbeat (me_core A) q2 now w))"
    and "same_core w (snd (rpc_IngestEvents (me_core A) q3 now w))"
    and "same_core w (snd (rpc_PullCommands (me_core A) q4 now w))"
    and "same_core w (snd (rpc_UpdateCommandStatus (me_core A) q5 now w))"
  using assms
  by (simp_all add: mqtt_wired_def NewRemote_def Remote_AuthenticateDevice_def Remote_ReportHeartbeat_def
      Remote_IngestEvents_def Remote_PullCommands_def Remote_UpdateCommandStatus_def Let_def same_core_call
      keeps_AuthenticateDevice keeps_ReportHeartbeat keeps_IngestEvents keeps_PullCommands
      keeps_UpdateCommandStatus)

abbreviation same_world :: "core_state link mqtt_state \<Rightarrow> core_state link mqtt_state \<Rightarrow> bool" where
  "same_world s s' \<equiv> same_core (ms_world s) (ms_world s')"

lemma on_world_snd: "ms_world (snd (on_world f s)) = snd (f (ms_world s))"
  by (simp add: on_world_def split: prod.splits)

lemma bindE_returnE_snd: "snd (bindE f (\<lambda>_. returnE ()) s) = snd (f s)"
  by (auto simp: bindE_def returnE_def split: prod.splits sum.splits)

lemma rememberDevice_world [simp]: "ms_world (rememberDevice e now s) = ms_world s"
  by (simp add: rememberDevice_def Let_def)

lemma same_world_deliver:
  assumes "mqtt_wired A cfg"
  shows "same_world s (snd (deliver A e now s))"
  unfolding deliver_def Let_def mq_reportHeartbeat_def mq_ingestEvent_def mq_updateCommandReceipt_def
  by (auto simp: bindE_returnE_snd on_world_snd same_core_client [OF assms] failE_def split: sum.splits option.splits)

lemma same_world_authenticate:
  assumes "mqtt_wired A cfg"
  shows "same_world s (snd (mq_authenticate A tok now s))"
proof -
  define f :: "(authenticate_response, core_state link mqtt_state) action"
    where "f = on_world (rpc_AuthenticateDevice (me_core A)
         \<lparr>aq_Credentials = [\<lparr>cd_Type = ''token'', cd_Value = tok\<rparr>],
          aq_Identities = [mq_identity ''token'' tok], aq_DeviceHint = None\<rparr> now)"
  have "snd (mq_authenticate A tok now s) = snd (f s)"
    unfolding mq_authenticate_def f_def [symmetric]
    by (auto simp: bindE_def returnE_def failE_def split: prod.splits sum.splits)
  then show ?thesis by (simp add: f_def on_world_snd same_core_client [OF assms])
qed

lemma same_world_handleMessage:
  assumes "mqtt_wired A cfg"
  shows "same_world s (snd (handleMessage A msg now s))"
proof (cases "Map (me_mapper A) now msg")
  case (Inr mapped)
  show ?thesis
  proof (cases "applyConnectionPrincipal (me_cfg A) msg (mm_Event mapped)")
    case (Inr event)
    note D = same_world_deliver [OF assms]
    show ?thesis
    proof (cases "mm_Token mapped = []")
      case True
      with D [of "rememberDevice event now s" event now] show ?thesis
        using \<open>Map (me_mapper A) now msg = Inr mapped\<close> Inr by (simp add: handleMessage_def)
    next
      case False
      obtain r s1 where a: "mq_authenticate A (mm_Token mapped) now s = (r, s1)"
        by (cases "mq_authenticate A (mm_Token mapped) now s")
      have s1: "same_world s s1" using same_world_authenticate [OF assms, of s "mm_Token mapped" now] a by simp
      show ?thesis
      proof (cases r)
        case (Inr owner)
        show ?thesis
        proof (cases "apply_token msg owner event")
          case (Inr e2)
          have "same_world s1 (snd (deliver A e2 now (rememberDevice e2 now s1)))"
            using D [of "rememberDevice e2 now s1" e2 now] by simp
          with s1 show ?thesis
            using \<open>Map (me_mapper A) now msg = Inr mapped\<close>
              \<open>applyConnectionPrincipal (me_cfg A) msg (mm_Event mapped) = Inr event\<close> False a \<open>r = Inr owner\<close> Inr
            by (simp add: handleMessage_def same_core_trans)
        qed (use a s1 False Inr \<open>Map (me_mapper A) now msg = Inr mapped\<close>
              \<open>applyConnectionPrincipal (me_cfg A) msg (mm_Event mapped) = Inr event\<close>
             in \<open>simp add: handleMessage_def\<close>)
      qed (use a s1 False \<open>Map (me_mapper A) now msg = Inr mapped\<close>
              \<open>applyConnectionPrincipal (me_cfg A) msg (mm_Event mapped) = Inr event\<close>
             in \<open>simp add: handleMessage_def\<close>)
    qed
  qed (use Inr in \<open>simp add: handleMessage_def\<close>)
qed (simp add: handleMessage_def)

lemma Publish_world [simp]: "ms_world (snd (Publish p s)) = ms_world s"
  by (simp add: Publish_def Let_def)

lemma publishDownlink_world [simp]: "ms_world (snd (publishDownlink A dev cmd s)) = ms_world s"
  by (simp add: publishDownlink_def Let_def failE_def)

lemma same_world_publish_one:
  assumes "mqtt_wired A cfg"
  shows "same_world s (publish_one A dev now raw s)"
proof (cases "NormalizeCommand (me_normalizer A) (Some raw)")
  case (Inr cmd)
  obtain r s1 where p: "publishDownlink A dev cmd s = (r, s1)" by (cases "publishDownlink A dev cmd s")
  have w: "ms_world s1 = ms_world s" using publishDownlink_world [of A dev cmd s] p by simp
  show ?thesis
    using same_core_client(5) [OF assms, of "ms_world s1"]
    by (cases r) (auto simp: publish_one_def Inr p markCommandFailed_def markCommandSent_def on_world_snd w)
qed (simp add: publish_one_def)

lemma same_world_fold:
  "(\<And>x s. same_world s (f x s)) \<Longrightarrow> same_world s (fold f xs s)"
  by (induction xs arbitrary: s) (auto intro: same_core_trans)

lemma same_world_pull:
  assumes "mqtt_wired A cfg"
  shows "same_world s (snd (pullAndPublishDownlinks A dev now s))"
proof -
  have f: "same_world s1 (fold (publish_one A dev now) cmds s1)" for s1 cmds
    by (rule same_world_fold) (rule same_world_publish_one [OF assms])
  define req where "req = \<lparr>pq_Uuid = dv_UUID dev, pq_PrimaryIdentity = mq_p_identity (dv_Identity dev),
      pq_Identities = [], pq_MaxCount = sint (word_of_int (mt_DownlinkMaxBatch (me_cfg A)) :: 32 word),
      pq_SupportedOperations = [], pq_SupportedProtocolNames = []\<rparr>"
  obtain r s1 where r: "on_world (rpc_PullCommands (me_core A) req now) s = (r, s1)"
    by (cases "on_world (rpc_PullCommands (me_core A) req now) s")
  have s1: "same_world s s1"
    using same_core_client(4) [OF assms, of "ms_world s" req now] on_world_snd [of "rpc_PullCommands (me_core A) req now" s] r
    by simp
  show ?thesis
    using f same_core_trans [OF s1 f] s1 r
    by (auto simp: pullAndPublishDownlinks_def req_def split: sum.splits)
qed

lemma same_world_tick:
  assumes "mqtt_wired A cfg"
  shows "same_world s (downlink_tick A now s)"
proof -
  obtain devs s1 where d: "deviceSnapshot (me_cfg A) now s = (devs, s1)" by (cases "deviceSnapshot (me_cfg A) now s")
  have w: "ms_world s1 = ms_world s" using d by (auto simp: deviceSnapshot_def Let_def)
  have "same_world s1 (fold (\<lambda>dev s. snd (pullAndPublishDownlinks A dev now s)) devs s1)"
    by (rule same_world_fold) (rule same_world_pull [OF assms])
  with d w show ?thesis by (simp add: downlink_tick_def)
qed

section \<open>Connections\<close>

lemma presented_mqtt [simp]:
  "presented_token \<lparr>aq_Credentials = [\<lparr>cd_Type = ''token'', cd_Value = token\<rparr>], aq_Identities = ids,
     aq_DeviceHint = None\<rparr> = (if TrimSpace token = [] then identityValue ids ''token'' else TrimSpace token)"
  by (simp add: presented_token_def Let_def EqualFold_def)

text \<open>What a session of a connection stands for: a device the core holds as authenticated, whose
  id, without the white space around it, is the client id.\<close>

definition vouched :: "core_state link \<Rightarrow> string \<Rightarrow> bool" where
  "vouched w u \<longleftrightarrow> u \<noteq> [] \<and> TrimSpace u = u \<and>
     (\<exists>v t md. TrimSpace v = u \<and> devs_of w v = Some (t, md) \<and> dm_AuthenticateStatus md = Authenticated)"

lemma vouched_same: "same_core w w' \<Longrightarrow> core_ok (lk_core w) \<Longrightarrow> vouched w u \<Longrightarrow> vouched w' u"
  by (simp add: same_core_def vouched_def)

lemma client_token_spec:
  assumes W: "mqtt_wired A cfg" and ok: "core_ok (lk_core (ms_world s))" and tok: "token \<noteq> []" "TrimSpace token = token"
    and run: "authenticateByClientPasswordToken A cid username token remote now s = (Some S, s')"
  shows "es_ClientID S = cid \<and> es_UUID S = cid \<and> cid \<noteq> [] \<and> TrimSpace cid = cid \<and>
    (\<exists>v t md. TrimSpace v = cid \<and> devs_of (ms_world s) v = Some (t, md) \<and> dm_Token md = token \<and>
       dm_AuthenticateStatus md = Authenticated)"
proof -
  define req where "req = \<lparr>aq_Credentials = [\<lparr>cd_Type = ''token'', cd_Value = token\<rparr>],
      aq_Identities = [mq_identity ''uuid'' cid, mq_identity ''mqtt_client_id'' cid], aq_DeviceHint = None\<rparr>"
  obtain r w where c: "call (AuthenticateDevice (core_services cfg) (Some req)) (ms_world s) = (r, w)"
    by (cases "call (AuthenticateDevice (core_services cfg) (Some req)) (ms_world s)")
  obtain resp where resp: "r = Inr resp" "ar_Status resp = AuthAccepted" "TrimSpace (ar_Uuid resp) = cid" "cid \<noteq> []"
      "es_ClientID S = cid" "es_UUID S = cid"
    using run W c
    by (cases r) (auto simp: authenticateByClientPasswordToken_def on_world_def mqtt_wired_def NewRemote_def
        Remote_AuthenticateDevice_def req_def Let_def split: if_splits)
  note spec = AuthenticateDevice_spec [OF ok call_Inr [OF c [unfolded resp(1)]]]
  have pt: "presented_token req = token" using tok by (simp add: req_def)
  obtain t md where md: "devs_of (ms_world s) (ar_Uuid resp) = Some (t, md)" "dm_Token md = token"
      "dm_AuthenticateStatus md = Authenticated"
    using spec resp(2) pt by auto
  with resp show ?thesis by auto
qed

lemma connect_outcome:
  assumes W: "mqtt_wired A cfg" and ok: "core_ok (lk_core (ms_world (bk_adapter b)))"
    and run: "OnConnectAuthenticate A cl pk now b = (a, b')"
    and cid: "cid = (if TrimSpace (cp_ClientIdentifier pk) = [] then clientID cl else TrimSpace (cp_ClientIdentifier pk))"
  shows "bk_messages b' = bk_messages b \<and>
    (if a then (\<exists>v t md S. devs_of (ms_world (bk_adapter b)) v = Some (t, md) \<and>
       dm_AuthenticateStatus md = Authenticated \<and> dm_Token md = TrimSpace (cp_Password pk) \<and>
       TrimSpace v = cid \<and> cid \<noteq> [] \<and> es_ClientID S = cid \<and> es_UUID S = cid \<and>
       bk_sessions b' = (bk_sessions b)(cid \<mapsto> S))
     else bk_sessions b' = bk_sessions b)"
proof -
  define tok where "tok = TrimSpace (cp_Password pk)"
  have cid': "(let cid = TrimSpace (cp_ClientIdentifier pk) in if cid = [] \<and> cl \<noteq> None then clientID cl else cid) = cid"
    by (auto simp: cid clientID_def)
  have none: "cid = [] \<or> tok = [] \<Longrightarrow> (a, b') = (False, b)"
    using run cid' by (simp add: OnConnectAuthenticate_def Let_def tok_def)
  show ?thesis
  proof (cases "cid = [] \<or> tok = []")
    case True
    with none show ?thesis by simp
  next
    case False
    obtain r s where r: "authenticateByClientPasswordToken A cid (TrimSpace (cp_Username pk)) tok (remoteAddr cl) now
        (bk_adapter b) = (r, s)" by (cases "authenticateByClientPasswordToken A cid (TrimSpace (cp_Username pk)) tok (remoteAddr cl) now
        (bk_adapter b)")
    have out: "(a, b') = (case r of None \<Rightarrow> (False, b\<lparr>bk_adapter := s\<rparr>)
        | Some S \<Rightarrow> (True, b\<lparr>bk_adapter := s, bk_sessions := (bk_sessions b)(cid \<mapsto> S)\<rparr>))"
      using run cid' False r by (auto simp: OnConnectAuthenticate_def Let_def tok_def split: option.splits)
    show ?thesis
    proof (cases r)
      case None
      with out show ?thesis by simp
    next
      case (Some S)
      have "tok \<noteq> []" "TrimSpace tok = tok" using False by (simp_all add: tok_def)
      from client_token_spec [OF W ok this r [unfolded Some]] obtain v t md
        where S: "es_ClientID S = cid" "es_UUID S = cid" "cid \<noteq> []" and v: "TrimSpace v = cid"
          "devs_of (ms_world (bk_adapter b)) v = Some (t, md)" "dm_Token md = tok"
          "dm_AuthenticateStatus md = Authenticated" by blast
      have o: "a" "bk_messages b' = bk_messages b" "bk_sessions b' = (bk_sessions b)(cid \<mapsto> S)" using out Some by simp_all
      show ?thesis
        unfolding tok_def [symmetric]
        using o S v by (simp, intro exI [of _ v] conjI exI [of _ t] exI [of _ md] exI [of _ S]) simp_all
    qed
  qed
qed

lemma mqtt_connect_sessions:
  assumes "mqtt_wired A cfg" and "core_ok (lk_core (ms_world (bk_adapter b)))"
    and "OnConnectAuthenticate A cl pk now b = (a, b')"
  shows "(a \<longrightarrow> (\<exists>S u. bk_sessions b' = (bk_sessions b)(u \<mapsto> S) \<and> es_ClientID S = u \<and> es_UUID S = u \<and>
       vouched (ms_world (bk_adapter b)) u)) \<and>
    (\<not> a \<longrightarrow> bk_sessions b' = bk_sessions b)"
proof (cases a)
  case True
  from connect_outcome [OF assms refl] True obtain v t md S u where
    "devs_of (ms_world (bk_adapter b)) v = Some (t, md)" "dm_AuthenticateStatus md = Authenticated"
    "TrimSpace v = u" "u \<noteq> []" "es_ClientID S = u" "es_UUID S = u" "bk_sessions b' = (bk_sessions b)(u \<mapsto> S)"
    by (auto simp del: fun_upd_apply)
  moreover from this have "vouched (ms_world (bk_adapter b)) u" unfolding vouched_def by auto
  ultimately show ?thesis using True by blast
qed (use connect_outcome [OF assms refl] in simp)

text \<open>Only a device can connect to the embedded broker. A connection is admitted only if its password
  is, without the white space around it, the current token of a device the core holds as
  authenticated, and its client id is that device's id; the connection then has a session under its
  own id, and no connection that is turned away changes a session.\<close>

theorem mqtt_connect_authenticated:
  assumes "mqtt_wired A cfg" and "core_ok (lk_core (ms_world (bk_adapter b)))"
    and "OnConnectAuthenticate A cl pk now b = (ok, b')"
    and "cid = (if TrimSpace (cp_ClientIdentifier pk) = [] then clientID cl else TrimSpace (cp_ClientIdentifier pk))"
  shows "if ok then (\<exists>v t md S. devs_of (ms_world (bk_adapter b)) v = Some (t, md) \<and>
       dm_AuthenticateStatus md = Authenticated \<and> dm_Token md = TrimSpace (cp_Password pk) \<and>
       TrimSpace v = cid \<and> cid \<noteq> [] \<and> es_ClientID S = cid \<and> es_UUID S = cid \<and>
       bk_sessions b' = (bk_sessions b)(cid \<mapsto> S))
     else bk_sessions b' = bk_sessions b"
  using connect_outcome [OF assms] ..

definition example_mqtt_config :: mqtt_config where
  "example_mqtt_config = NormalizeMQTT (Default_MQTT\<lparr>mt_Enabled := True\<rparr>)"

definition example_mqtt :: "core_state link mqtt_env" where
  "example_mqtt =
     \<lparr>me_cfg = example_mqtt_config, me_core = NewRemote (core_services example_core_config),
      me_normalizer = \<lparr>ne_NewStruct = Some, ne_Unmarshal = (\<lambda>_. None), ne_Marshal = (\<lambda>_. None),
        ne_crypto = kc_crypto example_core_config\<rparr>,
      me_sourceInstance = ''ingress'',
      me_mapper = \<lparr>mr_cfg = example_mqtt_config, mr_crypto = kc_crypto example_core_config, mr_FormatFloat = (\<lambda>_. [])\<rparr>,
      me_order = (\<lambda>rs. rs)\<rparr>"

definition example_broker :: "core_state link broker" where
  "example_broker = new_broker
     \<lparr>ms_devices = [], ms_world = \<lparr>lk_core = example_core, lk_faults = []\<rparr>, ms_published = [], ms_publish_ok = []\<rparr>"

definition client_d1 :: "mqtt_client option" where
  "client_d1 = Some \<lparr>cl_ID = ''d1'', cl_Remote = ''10.0.0.7:5000'', cl_Inline = False\<rparr>"

definition connect_d1 :: connect_packet where
  "connect_d1 = \<lparr>cp_ClientIdentifier = ''d1'', cp_Username = [], cp_Password = ''gt_1''\<rparr>"

lemma example_mqtt_wired: "mqtt_wired example_mqtt example_core_config"
  by (simp add: mqtt_wired_def example_mqtt_def)

lemma example_broker_core [simp]: "lk_core (ms_world (bk_adapter example_broker)) = example_core"
  by (simp add: example_broker_def new_broker_def)

lemma example_connect: "fst (OnConnectAuthenticate example_mqtt client_d1 connect_d1 5 example_broker)"
  by code_simp

theorem mqtt_connect_authenticated_witness:
  "\<exists>v t md. devs_of (ms_world (bk_adapter example_broker)) v = Some (t, md) \<and> dm_Token md = ''gt_1'' \<and>
     TrimSpace v = ''d1'' \<and> fst (OnConnectAuthenticate example_mqtt client_d1 connect_d1 5 example_broker)"
proof -
  have t: "TrimSpace (cp_Password connect_d1) = ''gt_1''" "TrimSpace (cp_ClientIdentifier connect_d1) = ''d1''"
    by code_simp+
  show ?thesis
    using mqtt_connect_authenticated [OF example_mqtt_wired _ surjective_pairing refl, of example_broker client_d1 connect_d1 5]
      example_core_ok example_connect t by auto
qed

section \<open>Runs of the broker\<close>

definition broker_ok :: "core_state link broker \<Rightarrow> bool" where
  "broker_ok b \<longleftrightarrow>
     core_ok (lk_core (ms_world (bk_adapter b))) \<and>
     (\<forall>u S. bk_sessions b u = Some S \<longrightarrow>
        es_ClientID S = u \<and> es_UUID S = u \<and> vouched (ms_world (bk_adapter b)) u) \<and>
     (\<forall>m \<in> set (bk_messages b). im_ClientID m = im_AuthUUID m \<and> vouched (ms_world (bk_adapter b)) (im_AuthUUID m))"

lemma broker_okD:
  assumes "broker_ok b"
  shows "core_ok (lk_core (ms_world (bk_adapter b)))"
    and "bk_sessions b u = Some S \<Longrightarrow> es_ClientID S = u \<and> es_UUID S = u \<and> vouched (ms_world (bk_adapter b)) u"
    and "m \<in> set (bk_messages b) \<Longrightarrow> im_ClientID m = im_AuthUUID m \<and> vouched (ms_world (bk_adapter b)) (im_AuthUUID m)"
  using assms unfolding broker_ok_def by blast+

text \<open>A step of the adapter leaves the devices of the core as they are.\<close>

lemma broker_ok_adapter:
  assumes ok: "broker_ok b" and w: "same_world (bk_adapter b) s" and m: "set ms \<subseteq> set (bk_messages b)"
  shows "broker_ok (b\<lparr>bk_messages := ms, bk_adapter := s\<rparr>)"
proof -
  note D = broker_okD [OF ok]
  have v: "vouched (ms_world (bk_adapter b)) u \<Longrightarrow> vouched (ms_world s) u" for u
    by (rule vouched_same [OF w D(1)])
  have "core_ok (lk_core (ms_world s))" using w D(1) by (simp add: same_core_def)
  then show ?thesis
    using D(2,3) v m unfolding broker_ok_def by (simp add: subset_iff)
qed

lemma broker_ok_session:
  "broker_ok b \<Longrightarrow> vouched (ms_world (bk_adapter b)) u \<Longrightarrow> es_ClientID S = u \<Longrightarrow> es_UUID S = u \<Longrightarrow>
   broker_ok (b\<lparr>bk_sessions := (bk_sessions b)(u \<mapsto> S)\<rparr>)"
  unfolding broker_ok_def by simp

lemma broker_ok_acl:
  assumes "broker_ok b"
  shows "broker_ok (snd (OnACLCheck cfg cl topic w now b))"
proof -
  have "broker_ok (b\<lparr>bk_sessions := (bk_sessions b)(es_ClientID S \<mapsto> S\<lparr>es_LastSeen := now\<rparr>)\<rparr>)"
    if "bk_sessions b u = Some S" for u S
    using broker_okD(2) [OF assms that] by (intro broker_ok_session [OF assms]) simp_all
  then show ?thesis
    using assms by (auto simp: OnACLCheck_def sessionForClient_def Let_def split: option.splits)
qed

lemma broker_ok_publish:
  assumes "broker_ok b"
  shows "broker_ok (OnPublish cfg cl pk now b)"
proof (cases "sessionForClient cl b")
  case (Some S)
  then obtain u where "bk_sessions b u = Some S" by (auto simp: sessionForClient_def Let_def split: if_splits)
  from broker_okD(2) [OF assms this] assms Some show ?thesis
    by (auto simp: OnPublish_def Let_def broker_ok_def)
qed (use assms in \<open>simp add: OnPublish_def\<close>)

lemma broker_ok_connect:
  assumes W: "mqtt_wired A cfg" and ok: "broker_ok b"
  shows "broker_ok (snd (OnConnectAuthenticate A cl pk now b))"
proof -
  obtain a b' where run: "OnConnectAuthenticate A cl pk now b = (a, b')"
    by (cases "OnConnectAuthenticate A cl pk now b")
  note D = broker_okD [OF ok]
  have fr: "bk_messages b' = bk_messages b \<and> same_world (bk_adapter b) (bk_adapter b')"
  proof -
    have "same_world (bk_adapter b) (snd (authenticateByClientPasswordToken A c u t r now (bk_adapter b)))" for c u t r
      using same_core_client(1) [OF W, of "ms_world (bk_adapter b)"
          "\<lparr>aq_Credentials = [\<lparr>cd_Type = ''token'', cd_Value = t\<rparr>],
            aq_Identities = [mq_identity ''uuid'' c, mq_identity ''mqtt_client_id'' c], aq_DeviceHint = None\<rparr>" now]
      by (auto simp: authenticateByClientPasswordToken_def on_world_def Let_def split: prod.splits sum.splits)
    then show ?thesis
      using run by (auto simp: OnConnectAuthenticate_def Let_def split: if_splits prod.splits option.splits)
        (metis snd_conv)+
  qed
  have b1: "broker_ok (b\<lparr>bk_messages := bk_messages b, bk_adapter := bk_adapter b'\<rparr>)"
    using fr by (intro broker_ok_adapter [OF ok]) simp_all
  show ?thesis
  proof (cases a)
    case False
    then have "b' = b\<lparr>bk_messages := bk_messages b, bk_adapter := bk_adapter b'\<rparr>"
      using mqtt_connect_sessions [OF W D(1) run] fr by (cases b; cases b') simp
    with b1 run show ?thesis by simp
  next
    case True
    from mqtt_connect_sessions [OF W D(1) run] True obtain S u where
      S: "bk_sessions b' = (bk_sessions b)(u \<mapsto> S)" "es_ClientID S = u" "es_UUID S = u"
        "vouched (ms_world (bk_adapter b)) u" by blast
    then have "b' = (b\<lparr>bk_messages := bk_messages b, bk_adapter := bk_adapter b'\<rparr>)
        \<lparr>bk_sessions := (bk_sessions b)(u \<mapsto> S)\<rparr>"
      using fr by (cases b; cases b') simp
    moreover have "vouched (ms_world (bk_adapter b')) u"
      using vouched_same [OF _ D(1) S(4)] fr by blast
    ultimately show ?thesis
      using broker_ok_session [OF b1, of u S] S run by simp
  qed
qed

lemma broker_ok_step:
  assumes W: "mqtt_wired A cfg" and ok: "broker_ok b"
  shows "broker_ok (broker_run A st b)"
proof (cases st)
  case (ClientConnects cl pk now)
  then show ?thesis using broker_ok_connect [OF W ok] by simp
next
  case (ClientSubscribes cl f now)
  then show ?thesis using broker_ok_acl [OF ok] by simp
next
  case (ClientPublishes cl pk now)
  obtain a b1 where "OnACLCheck (me_cfg A) cl (pp_TopicName pk) True now b = (a, b1)"
    by (cases "OnACLCheck (me_cfg A) cl (pp_TopicName pk) True now b")
  with broker_ok_acl [OF ok, of "me_cfg A" cl "pp_TopicName pk" True now] ClientPublishes show ?thesis
    using broker_ok_publish [of b1 "me_cfg A" cl pk now] by (cases a) simp_all
next
  case (ClientDisconnects cl)
  then show ?thesis using ok by (simp add: OnDisconnect_def Let_def broker_ok_def)
next
  case (MessageTaken now)
  show ?thesis
  proof (cases "bk_messages b")
    case (Cons m ms)
    then have "set ms \<subseteq> set (bk_messages b)" by auto
    from broker_ok_adapter [OF ok same_world_handleMessage [OF W] this] Cons MessageTaken show ?thesis by simp
  qed (use ok MessageTaken in simp)
next
  case (DownlinkTick now)
  have "broker_ok (b\<lparr>bk_messages := bk_messages b, bk_adapter := downlink_tick A now (bk_adapter b)\<rparr>)"
    by (rule broker_ok_adapter [OF ok same_world_tick [OF W]]) simp
  with DownlinkTick ok show ?thesis by simp
qed

lemma broker_ok_run: "mqtt_wired A cfg \<Longrightarrow> broker_ok b \<Longrightarrow> broker_ok (fold (broker_run A) steps b)"
  by (induction steps arbitrary: b) (simp_all add: broker_ok_step)


definition publish_d1 :: publish_packet where
  "publish_d1 = \<lparr>pp_TopicName = ''goster/v1/d1/heartbeat'', pp_Payload = [], pp_Qos = 1, pp_Retain = False, pp_Dup = False\<rparr>"


end
