(* ===== verification/PlainText.thy ===== *)
theory PlainText
  imports Prelude
begin

text \<open>
  Text of printable ASCII characters, which \<open>TrimSpace\<close> leaves as it is: hexadecimal digests, names
  and topics.
\<close>

definition plain :: "char \<Rightarrow> bool" where
  "plain c \<longleftrightarrow> 33 \<le> (of_char c :: nat) \<and> (of_char c :: nat) < 128"

lemma space_runes_not_plain: "\<forall>w \<in> set space_runes. \<forall>c \<in> set w. \<not> plain c"
  by code_simp

lemma strip_plain:
  assumes "list_all plain s" and "\<forall>w \<in> set ws. \<forall>c \<in> set w. \<not> plain c"
  shows "strip ws s = s"
proof (rule strip_id)
  fix w assume w: "w \<in> set ws" "w \<noteq> []"
  obtain c v where "w = c # v" using w(2) by (cases w) auto
  with assms w show "\<not> is_prefix w s" by (cases s) (auto simp: is_prefix_iff)
qed

lemma TrimSpace_plain: "list_all plain s \<Longrightarrow> TrimSpace s = s"
  using strip_plain [of s space_runes] strip_plain [of "rev s" "map rev space_runes"] space_runes_not_plain
  by (simp add: TrimSpace_def trim_left_def trim_right_def list_all_iff)

lemma unat_less: "unat (w :: byte) < 256"
  using unsigned_less [of w] by simp

lemma plain_hex_digit: "n < 16 \<Longrightarrow> plain (hex_digit n)"
  by (simp add: plain_def hex_digit_def)

lemma plain_hex_encode: "list_all plain (hex_encode b)"
proof (induction b)
  case (Cons w b)
  have "unat w div 16 < 16" "unat w mod 16 < 16" using unat_less [of w] by simp_all
  with Cons show ?case by (simp add: hex_encode_def plain_hex_digit)
qed (simp add: hex_encode_def)

lemma TrimSpace_hex [simp]: "TrimSpace (hex_encode bs) = hex_encode bs"
  by (rule TrimSpace_plain [OF plain_hex_encode])

end
