(* ===== verification/MqttTopics.thy ===== *)
theory MqttTopics
  imports MqttBroker PlainText
begin

text \<open>
  The topic a downlink command is published on, and the filters a client of the embedded broker may
  subscribe to. \<open>topic_matches\<close> is the rule of the MQTT standard by which a broker matches the levels
  of a filter with those of a topic.
\<close>

section \<open>Trimmed text\<close>

lemma strip_chars: "\<exists>p. s = p @ strip ws s \<and> (\<forall>c \<in> set p. \<exists>w \<in> set ws. c \<in> set w)"
proof (induction ws s rule: strip.induct)
  case (1 ws s)
  show ?case
  proof (cases "find (\<lambda>w. w \<noteq> [] \<and> is_prefix w s) ws")
    case None
    then show ?thesis by (simp add: strip_None)
  next
    case (Some v)
    then have v: "v \<in> set ws" "is_prefix v s" by (auto simp: find_Some_iff)
    from "1" [OF Some] obtain p where p: "drop (length v) s = p @ strip ws (drop (length v) s)"
      "\<forall>c \<in> set p. \<exists>w \<in> set ws. c \<in> set w" by blast
    have "s = v @ drop (length v) s" using v(2) by (auto simp: is_prefix_iff)
    with p(1) have "s = (v @ p) @ strip ws s" unfolding strip_Some [OF Some] by (metis append.assoc)
    with v(1) p(2) show ?thesis by (intro exI [of _ "v @ p"]) auto
  qed
qed

lemma TrimSpace_keeps_plain: "c \<in> set s \<Longrightarrow> plain c \<Longrightarrow> c \<in> set (TrimSpace s)"
proof -
  assume c: "c \<in> set s" "plain c"
  obtain p where p: "s = p @ trim_left s" "\<forall>c \<in> set p. \<exists>w \<in> set space_runes. c \<in> set w"
    using strip_chars [of s space_runes] unfolding trim_left_def by blast
  have l: "c \<in> set (trim_left s)" using p c space_runes_not_plain by (metis UnE set_append)
  obtain q where q: "rev (trim_left s) = q @ strip (map rev space_runes) (rev (trim_left s))"
    "\<forall>c \<in> set q. \<exists>w \<in> set (map rev space_runes). c \<in> set w"
    using strip_chars [of "rev (trim_left s)" "map rev space_runes"] by blast
  have "c \<in> set (rev (trim_left s))" using l by simp
  then have "c \<in> set q \<or> c \<in> set (strip (map rev space_runes) (rev (trim_left s)))"
    using q(1) by (metis UnE set_append)
  moreover have "c \<notin> set q" using q(2) c(2) space_runes_not_plain by auto
  ultimately show ?thesis by (simp add: TrimSpace_def trim_right_def)
qed

fun topic_matches :: "string list \<Rightarrow> string list \<Rightarrow> bool" where
  "topic_matches [] ts = (ts = [])"
| "topic_matches (f # fs) ts =
     (f = ''#'' \<or> (case ts of [] \<Rightarrow> False | t # ts' \<Rightarrow> (f = ''+'' \<or> f = t) \<and> topic_matches fs ts'))"

section \<open>The topic of a command\<close>

lemma ReplaceAll_skip:
  assumes "old = c # cs" and "c \<notin> set s"
  shows "ReplaceAll (s @ r) old new = s @ ReplaceAll r old new"
  using assms(2) by (induction s) (auto simp: assms(1))

lemma ReplaceAll_none: "old = c # cs \<Longrightarrow> c \<notin> set s \<Longrightarrow> ReplaceAll s old new = s"
  using ReplaceAll_skip [of old c cs s "[]" new] by simp

definition braces :: "string list" where
  "braces = [''{uuid}'', ''{device_uuid}'', ''{tenant}'', ''{tenant_id}'']"

lemma braces_Cons: "k \<in> set braces \<Longrightarrow> \<exists>cs. k = CHR ''{'' # cs"
  by (auto simp: braces_def)

lemma fold_rendered:
  "set (map fst rs) \<subseteq> set braces \<Longrightarrow> CHR ''{'' \<notin> set s \<Longrightarrow>
   foldl (\<lambda>out (k, v). ReplaceAll out k v) s rs = s"
proof (induction rs)
  case (Cons kv rs)
  obtain k v where kv: "kv = (k, v)" by (cases kv)
  obtain cs where "k = CHR ''{'' # cs" using Cons.prems(1) braces_Cons [of k] kv by auto
  from ReplaceAll_none [OF this Cons.prems(2)] Cons kv show ?case by simp
qed simp

definition uuid_template :: "string \<Rightarrow> string" where
  "uuid_template base = base @ ''/{uuid}/downlink''"

lemma render_template:
  assumes "CHR ''{'' \<notin> set base" and "k \<in> set braces"
  shows "ReplaceAll (uuid_template base) k v =
    (if k = ''{uuid}'' then base @ ''/'' @ v @ ''/downlink'' else uuid_template base)"
proof -
  have "ReplaceAll (base @ ''/{uuid}/downlink'') k v = base @ ReplaceAll ''/{uuid}/downlink'' k v"
    using assms ReplaceAll_skip [of k "CHR ''{''" _ base] braces_Cons by blast
  then have r: "ReplaceAll (uuid_template base) k v = base @ ReplaceAll ''/{uuid}/downlink'' k v"
    by (simp only: uuid_template_def)
  have "k = ''{uuid}'' \<or> k = ''{device_uuid}'' \<or> k = ''{tenant}'' \<or> k = ''{tenant_id}''"
    using assms(2) by (simp only: braces_def list.set insert_iff empty_iff simp_thms)
  then show ?thesis
    unfolding r by (elim disjE) (simp_all add: uuid_template_def)
qed

lemma fold_template:
  assumes "CHR ''{'' \<notin> set base" "CHR ''{'' \<notin> set u"
  shows "set (map fst rs) \<subseteq> set braces \<Longrightarrow> (\<forall>(k, v) \<in> set rs. k = ''{uuid}'' \<longrightarrow> v = u) \<Longrightarrow>
    ''{uuid}'' \<in> set (map fst rs) \<Longrightarrow>
    foldl (\<lambda>out (k, v). ReplaceAll out k v) (uuid_template base) rs = base @ ''/'' @ u @ ''/downlink''"
proof (induction rs)
  case (Cons kv rs)
  obtain k v where kv: "kv = (k, v)" by (cases kv)
  have k: "k \<in> set braces" using Cons.prems(1) kv by simp
  show ?case
  proof (cases "k = ''{uuid}''")
    case True
    then have "v = u" using Cons.prems(2) kv by simp
    moreover have "foldl (\<lambda>out (k, v). ReplaceAll out k v) (base @ ''/'' @ u @ ''/downlink'') rs = base @ ''/'' @ u @ ''/downlink''"
      using Cons.prems(1) assms by (intro fold_rendered) auto
    ultimately show ?thesis using kv True render_template [OF assms(1) k, of v] by simp
  next
    case False
    with Cons kv render_template [OF assms(1) k, of v] show ?thesis by simp
  qed
qed simp

lemma uuid_brace: "''{uuid}'' \<in> set braces"
  by (simp add: braces_def)

lemma replacements_keys: "fst ` set (replacements dev cmd) = set braces"
  by (simp only: replacements_def Let_def braces_def image_insert image_empty fst_conv list.set)

lemma replacements_uuid:
  assumes "(''{uuid}'', v) \<in> set (replacements dev cmd)"
  shows "v = mq_firstNonEmpty [ac_UUID cmd, dv_UUID dev]"
  using assms by (simp add: replacements_def Let_def del: mq_firstNonEmpty.simps)

lemma renderDownlinkTopic_uuid:
  assumes base: "CHR ''{'' \<notin> set base" "base \<noteq> []" "hd base \<noteq> CHR ''/''" "TrimSpace base = base"
    and u: "u = mq_firstNonEmpty [ac_UUID cmd, dv_UUID dev]" "CHR ''{'' \<notin> set u"
    and ord: "\<And>rs. set (ord rs) = set rs"
  shows "renderDownlinkTopic ord (uuid_template base) dev cmd = base @ ''/'' @ u @ ''/downlink''"
proof -
  let ?rs = "ord (replacements dev cmd)"
  have rs: "set ?rs = set (replacements dev cmd)" by (rule ord)
  have f: "foldl (\<lambda>out (k, v). ReplaceAll out k v) (uuid_template base) ?rs = base @ ''/'' @ u @ ''/downlink''"
    by (rule fold_template [OF base(1) u(2)])
      (use replacements_keys [of dev cmd] replacements_uuid [of _ dev cmd] uuid_brace in \<open>auto simp only: set_map rs u(1)\<close>)
  have "CHR ''{'' \<in> set (TrimSpace (uuid_template base))"
    by (rule TrimSpace_keeps_plain) (simp_all add: uuid_template_def plain_def)
  then have "TrimSpace (uuid_template base) \<noteq> []" by auto
  moreover have "Trim (base @ ''/'' @ u @ ''/downlink'') ''/'' = base @ ''/'' @ u @ ''/downlink''"
    using base(2,3) by (cases base) (simp_all add: Trim_def)
  ultimately show ?thesis by (simp add: renderDownlinkTopic_def Let_def f)
qed

section \<open>Filters a client may subscribe to\<close>

text \<open>What cleaning a filter takes off its front is nothing, or starts with white space or a slash.\<close>

definition odd_start :: "string \<Rightarrow> bool" where
  "odd_start s \<longleftrightarrow> (\<exists>w \<in> set (''/'' # space_runes). w \<noteq> [] \<and> is_prefix w s)"

lemma odd_start_append: "odd_start s \<Longrightarrow> odd_start (s @ r)"
  unfolding odd_start_def is_prefix_iff by (metis append.assoc)

lemma TrimSpace_parts: "\<exists>p q. s = p @ TrimSpace s @ q \<and> (p = [] \<or> odd_start s)"
proof -
  obtain p where p: "s = p @ trim_left s" using strip_suffix [of s space_runes] by (auto simp: trim_left_def)
  obtain q where q: "trim_left s = TrimSpace s @ q"
    using trim_right_prefix [of "trim_left s"] by (auto simp: TrimSpace_def)
  show ?thesis
  proof (cases "find (\<lambda>w. w \<noteq> [] \<and> is_prefix w s) space_runes")
    case None
    then have "trim_left s = s" by (simp add: trim_left_def strip_None)
    with q have "s = [] @ TrimSpace s @ q" by simp
    then show ?thesis by blast
  next
    case (Some w)
    then have "odd_start s" by (auto simp: odd_start_def find_Some_iff)
    moreover have "s = p @ TrimSpace s @ q" using p q by simp
    ultimately show ?thesis by blast
  qed
qed

lemma Trim_parts: "\<exists>p q. s = p @ Trim s ''/'' @ q \<and> (p = [] \<or> odd_start s)"
proof -
  let ?P = "\<lambda>c. c \<in> set ''/''"
  define t where "t = dropWhile ?P s"
  have s: "s = takeWhile ?P s @ t" by (simp add: t_def)
  have t: "t = Trim s ''/'' @ rev (takeWhile ?P (rev t))"
  proof -
    have "rev t = takeWhile ?P (rev t) @ dropWhile ?P (rev t)" by simp
    then have "t = rev (dropWhile ?P (rev t)) @ rev (takeWhile ?P (rev t))" by (metis rev_append rev_rev_ident)
    then show ?thesis by (simp add: Trim_def t_def)
  qed
  have "takeWhile ?P s = [] \<or> odd_start s"
    by (cases s) (auto simp: odd_start_def is_prefix_iff)
  with s t show ?thesis by (metis append.assoc)
qed

lemma parts_trans:
  assumes "\<exists>p q. s = p @ t @ q \<and> (p = [] \<or> odd_start s)" and "\<exists>p q. t = p @ u @ q \<and> (p = [] \<or> odd_start t)"
  shows "\<exists>p q. s = p @ u @ q \<and> (p = [] \<or> odd_start s)"
proof -
  obtain p q where s: "s = p @ t @ q" "p = [] \<or> odd_start s" using assms(1) by blast
  obtain p' q' where t: "t = p' @ u @ q'" "p' = [] \<or> odd_start t" using assms(2) by blast
  have "s = (p @ p') @ u @ (q' @ q)" by (simp add: s(1) t(1))
  moreover have "p @ p' = [] \<or> odd_start s"
    using s t(2) odd_start_append [of t q] by auto
  ultimately show ?thesis by blast
qed

lemma cleanTopic_parts: "\<exists>p q. s = p @ cleanTopic s @ q \<and> (p = [] \<or> odd_start s)"
  unfolding cleanTopic_def by (rule parts_trans [OF TrimSpace_parts Trim_parts])

lemma space_runes_plain_free: "w \<in> set space_runes \<Longrightarrow> c \<in> set w \<Longrightarrow> \<not> plain c"
  using space_runes_not_plain by blast

lemma Split_hd_append: "c \<notin> set w \<Longrightarrow> hd (Split c (w @ s)) = w @ hd (Split c s)"
proof (induction w)
  case (Cons x w)
  obtain y ys where "Split c (w @ s) = y # ys" by (cases "Split c (w @ s)") auto
  with Cons show ?case by auto
qed simp

lemma Split_chars: "p \<in> set (Split c s) \<Longrightarrow> set p \<subseteq> set s"
proof (induction s arbitrary: p)
  case (Cons x s)
  obtain y ys where y: "Split c s = y # ys" by (cases "Split c s") auto
  show ?case
  proof (cases "x = c")
    case True
    with Cons show ?thesis by auto
  next
    case False
    with Cons.prems y have "p = x # y \<or> p \<in> set ys" by simp
    with Cons.IH [of y] Cons.IH [of p] y show ?thesis by auto
  qed
qed simp

lemma Split_append_sep: "Split c (a @ c # b) = Split c a @ Split c b"
proof (induction a)
  case (Cons x a)
  then show ?case by (cases "Split c a") (auto split: list.splits)
qed simp

text \<open>A filter that starts oddly matches no topic below a trimmed base.\<close>

lemma odd_start_no_match:
  assumes odd: "odd_start f" and base: "base \<noteq> []" "hd base \<noteq> CHR ''/''" "TrimSpace base = base"
  shows "\<not> topic_matches (Split CHR ''/'' f) (Split CHR ''/'' (base @ CHR ''/'' # r))"
proof
  assume m: "topic_matches (Split CHR ''/'' f) (Split CHR ''/'' (base @ CHR ''/'' # r))"
  obtain b0 bs where b: "Split CHR ''/'' base = b0 # bs" by (cases "Split CHR ''/'' base") auto
  obtain f0 fs where f: "Split CHR ''/'' f = f0 # fs" by (cases "Split CHR ''/'' f") auto
  have f0: "f0 = ''#'' \<or> f0 = ''+'' \<or> f0 = b0"
    using m by (auto simp: f b Split_append_sep)
  obtain w where w: "w \<in> set (''/'' # space_runes)" "w \<noteq> []" "is_prefix w f"
    using odd by (auto simp: odd_start_def)
  then obtain g where g: "f = w @ g" by (auto simp: is_prefix_iff)
  show False
  proof (cases "w = ''/''")
    case True
    then have "f0 = []" using f g by simp
    with f0 have "b0 = []" by auto
    with b base(1,2) show False by (cases base) (auto split: list.splits if_splits)
  next
    case False
    then have ws: "w \<in> set space_runes" using w(1) by simp
    have "CHR ''/'' \<notin> set w" using space_runes_plain_free [OF ws, of "CHR ''/''"] by (auto simp: plain_def)
    then have f0w: "f0 = w @ hd (Split CHR ''/'' g)" using Split_hd_append [of "CHR ''/''" w g] f g by simp
    obtain c v where cv: "w = c # v" using w(2) by (cases w) auto
    have "\<not> plain c" using space_runes_plain_free [OF ws] cv by simp
    then have "f0 \<noteq> ''#''" "f0 \<noteq> ''+''" using f0w cv by (auto simp: plain_def)
    with f0 have "b0 = w @ hd (Split CHR ''/'' g)" using f0w by simp
    moreover have "base = Join (Split CHR ''/'' base) ''/''" by (simp add: Join_Split)
    then have "is_prefix b0 base" using b by (cases bs) (auto simp: is_prefix_iff)
    ultimately have "is_prefix w base" by (auto simp: is_prefix_iff)
    then have "\<exists>w \<in> set space_runes. w \<noteq> [] \<and> is_prefix w base" using ws w(2) by blast
    moreover have "trim_left base = base" using trim_left_TrimSpace [of base] base(3) by simp
    ultimately show False using trim_left_no_space by metis
  qed
qed

lemma splitTopic_base:
  assumes "base \<noteq> []" "hd base \<noteq> CHR ''/''" "last base \<noteq> CHR ''/''" "TrimSpace base = base"
  shows "splitTopic base = Split CHR ''/'' base"
proof -
  have "dropWhile (\<lambda>c. c \<in> set ''/'') base = base" using assms(1,2) by (cases base) simp_all
  moreover have "dropWhile (\<lambda>c. c \<in> set ''/'') (rev base) = rev base"
    using assms(1,3) by (cases base rule: rev_cases) simp_all
  ultimately have "cleanTopic base = base" by (simp add: cleanTopic_def assms(4) Trim_def)
  with assms(1) show ?thesis by (simp add: splitTopic_def)
qed

lemma match_levels:
  "topic_matches (bs @ fs) (bs' @ ts) \<Longrightarrow> length bs = length bs' \<Longrightarrow> ''#'' \<notin> set bs \<Longrightarrow> topic_matches fs ts"
proof (induction bs arbitrary: bs')
  case (Cons b bs)
  then show ?case by (cases bs') auto
qed simp

lemma firstNonEmpty_trimmed: "TrimSpace (mq_firstNonEmpty vs) = mq_firstNonEmpty vs"
  by (induction vs) simp_all

text \<open>C16: The commands of a device can be read by that device only. With a downlink topic of the form
  base/{uuid}/downlink under the base topic, whatever the order in which the placeholders are
  filled in: if the broker lets a client subscribe to a filter, and the filter matches the topic a
  command is published on, then the command is for the device the client is authenticated as.\<close>

theorem mqtt_downlink_private:
  assumes base: "base \<noteq> []" "hd base \<noteq> CHR ''/''" "last base \<noteq> CHR ''/''" "TrimSpace base = base"
      "set base \<inter> set ''{+#'' = {}"
    and cfg: "mt_BaseTopic cfg = base" "mt_DownlinkTopic cfg = uuid_template base"
    and u: "u = mq_firstNonEmpty [ac_UUID cmd, dv_UUID dev]" "set u \<inter> set ''{/'' = {}"
    and ord: "\<And>rs. set (ord rs) = set rs"
    and session: "set (es_UUID S) \<inter> set ''+#'' = {}"
    and allowed: "allowedTopic cfg S flt False"
    and matches: "topic_matches (Split CHR ''/'' flt)
      (Split CHR ''/'' (renderDownlinkTopic ord (mt_DownlinkTopic cfg) dev cmd))"
  shows "u = es_UUID S"
proof -
  let ?s = "CHR ''/''"
  have topic: "renderDownlinkTopic ord (mt_DownlinkTopic cfg) dev cmd = base @ ?s # u @ ''/downlink''"
    using renderDownlinkTopic_uuid [OF _ base(1,2,4) u(1) _ ord] base(5) u(2) cfg(2) by auto
  obtain rest where rest: "topicRest (cleanTopic flt) base = Some rest"
    using allowed cfg(1) by (auto simp: allowedTopic_def Let_def split: option.splits)
  then obtain v k where vk: "rest = [v, k]" "TrimSpace v = es_UUID S" "es_UUID S \<noteq> []"
    using allowed cfg(1) by (auto simp: allowedTopic_def Let_def split: option.splits list.splits if_splits)
  define t where "t = cleanTopic (cleanTopic flt)"
  have B: "splitTopic base = Split ?s base" by (rule splitTopic_base [OF base(1-4)])
  have parts: "splitTopic (cleanTopic flt) = Split ?s base @ [v, k]"
  proof -
    have "take (length (Split ?s base)) (splitTopic (cleanTopic flt)) = Split ?s base"
      "drop (length (Split ?s base)) (splitTopic (cleanTopic flt)) = [v, k]"
      using rest vk(1) unfolding topicRest_def Let_def B by (auto split: if_splits)
    then show ?thesis by (metis append_take_drop_id)
  qed
  then have T: "Split ?s t = Split ?s base @ [v, k]"
    by (auto simp: splitTopic_def Let_def t_def split: if_splits)
  obtain p q where pq: "flt = p @ t @ q" "p = [] \<or> odd_start flt"
    using parts_trans [OF cleanTopic_parts cleanTopic_parts, of flt] unfolding t_def by blast
  have "p = []"
    using pq(2) odd_start_no_match [OF _ base(1,2,4)] matches unfolding topic by blast
  then have f: "flt = t @ q" using pq(1) by simp
  have v: "?s \<notin> set v" "?s \<notin> set k" using Split_no_sep [of _ ?s t] T by simp_all
  have "Split ?s t = Split ?s (base @ ?s # v @ ?s # k)"
    by (simp add: T Split_append_sep Split_id [OF v(1)] Split_id [OF v(2)])
  then have t: "t = base @ ?s # v @ ?s # k" by (metis Join_Split)
  have "Split ?s flt = Split ?s base @ v # Split ?s (k @ q)"
    unfolding f t by (simp add: Split_append_sep Split_id [OF v(1)])
  moreover have "Split ?s (base @ ?s # u @ ''/downlink'') = Split ?s base @ [u, ''downlink'']"
    using u(2) Split_append [of ?s u "''downlink''"] by (simp add: Split_append_sep)
  moreover have "''#'' \<notin> set (Split ?s base)" using Split_chars [of "''#''" ?s base] base(5) by auto
  ultimately have m: "topic_matches (v # Split ?s (k @ q)) [u, ''downlink'']"
    using matches match_levels [of "Split ?s base" "v # Split ?s (k @ q)" "Split ?s base" "[u, ''downlink'']"]
    unfolding topic by simp
  have "TrimSpace ''#'' = ''#''" "TrimSpace ''+'' = ''+''" by code_simp+
  then have "v \<noteq> ''#''" "v \<noteq> ''+''" using vk(2) session by auto
  with m have "v = u" by simp
  with vk(2) u(1) firstNonEmpty_trimmed show ?thesis by metis
qed

definition example_topic_config :: mqtt_config where
  "example_topic_config = Default_MQTT"

definition example_session :: embedded_session where
  "example_session = \<lparr>es_ClientID = ''d1'', es_Username = [], es_UUID = ''d1'', es_TenantID = [], es_TokenHint = [],
     es_Remote = [], es_CreatedAt = 5, es_LastSeen = 5\<rparr>"

definition example_device_session :: device_session where
  "example_device_session = \<lparr>dv_UUID = ''d1'', dv_TenantID = [], dv_Identity = mq_identity ''uuid'' ''d1'', dv_LastSeen = 5\<rparr>"

definition example_adapter_command :: adapter_command where
  "example_adapter_command =
     \<lparr>ac_CommandID = 7, ac_CommandUUID = [], ac_TenantID = [], ac_UUID = ''d1'', ac_Operation = ''ota_data'',
      ac_ProtocolCommandCode = 0x202, ac_Target = no_identity, ac_Payload = [1], ac_PayloadContentType = [],
      ac_Properties = [], ac_Options = None, ac_Timeout = 0, ac_MaxAttempts = 0, ac_Labels = []\<rparr>"

theorem mqtt_downlink_private_witness:
  "allowedTopic example_topic_config example_session ''goster/v1/d1/downlink'' False \<and>
   renderDownlinkTopic rev (mt_DownlinkTopic example_topic_config) example_device_session example_adapter_command =
     ''goster/v1/d1/downlink'' \<and> ''d1'' = es_UUID example_session"
proof -
  have c: "mt_BaseTopic example_topic_config = ''goster/v1''"
    "mt_DownlinkTopic example_topic_config = uuid_template ''goster/v1''"
    by (simp_all add: example_topic_config_def Default_MQTT_def uuid_template_def)
  have u: "''d1'' = mq_firstNonEmpty [ac_UUID example_adapter_command, dv_UUID example_device_session]" by code_simp
  have b: "TrimSpace ''goster/v1'' = ''goster/v1''" by code_simp
  have a: "allowedTopic example_topic_config example_session ''goster/v1/d1/downlink'' False" by code_simp
  have t: "renderDownlinkTopic rev (mt_DownlinkTopic example_topic_config) example_device_session example_adapter_command =
     ''goster/v1/d1/downlink''" by code_simp
  have m: "topic_matches (Split CHR ''/'' ''goster/v1/d1/downlink'')
    (Split CHR ''/'' (renderDownlinkTopic rev (mt_DownlinkTopic example_topic_config) example_device_session example_adapter_command))"
    unfolding t by code_simp
  have "''d1'' = es_UUID example_session"
    by (rule mqtt_downlink_private [OF _ _ _ b _ c u _ _ _ a m]) (simp_all add: example_session_def)
  with a t show ?thesis by blast
qed

end
