(* ===== verification/MqttReports.thy ===== *)
theory MqttReports
  imports MqttSafety MqttTopics
begin

text \<open>
  What a message of a connection can report: the calls the adapter makes for it are compared with
  those of a client of the core that refuses every report about any other device.
\<close>

section \<open>External entities\<close>

lemma externalUUID_trimmed: "TrimSpace (externalUUID C src e) = externalUUID C src e"
  by (rule TrimSpace_plain) (simp add: externalUUID_def plain_hex_encode, simp add: plain_def)

lemma externalUUID_Cons: "externalUUID C src e \<noteq> []"
  by (simp add: externalUUID_def)

section \<open>A client that refuses other reports\<close>

definition event_about :: "(string \<Rightarrow> bool) \<Rightarrow> device_event option \<Rightarrow> bool" where
  "event_about P e = (case e of None \<Rightarrow> True | Some ev \<Rightarrow> P (event_uuid ev))"

definition only_for :: "(string \<Rightarrow> bool) \<Rightarrow> 'w core_client \<Rightarrow> 'w core_client" where
  "only_for P K =
     \<lparr>rpc_AuthenticateDevice = rpc_AuthenticateDevice K,
      rpc_RegisterDevice = (\<lambda>q now. failE ErrRPC),
      rpc_ReportHeartbeat = (\<lambda>q now.
        if P (first_uuid (TrimSpace (hq_Uuid q)) (hq_PrimaryIdentity q) (hq_Identities q))
        then rpc_ReportHeartbeat K q now else failE ErrRPC),
      rpc_IngestEvents = (\<lambda>q now.
        if list_all (event_about P) (iq_Events q) then rpc_IngestEvents K q now else failE ErrRPC),
      rpc_PullCommands = (\<lambda>q now. failE ErrRPC),
      rpc_UpdateCommandStatus = (\<lambda>q now.
        if P (uq_Uuid q) then rpc_UpdateCommandStatus K q now else failE ErrRPC)\<rparr>"

text \<open>The device of a message: that of its connection, or, on a topic of zigbee2mqtt, the one its friendly
  name stands for.\<close>

definition reportable :: "'w mqtt_env \<Rightarrow> inbound_message \<Rightarrow> string \<Rightarrow> bool" where
  "reportable A msg u =
     (case topicRest (cleanTopic (im_Topic msg)) (mt_BaseTopic (me_cfg A)) of
        Some _ \<Rightarrow> u = im_AuthUUID msg
      | None \<Rightarrow>
          (case topicRest (cleanTopic (im_Topic msg)) (mt_Zigbee2MQTTBaseTopic (me_cfg A)) of
             Some (friendly # _) \<Rightarrow> u = externalUUID (mr_crypto (me_mapper A)) ''zigbee2mqtt'' friendly
           | _ \<Rightarrow> False))"

lemma first_uuid_own: "u \<noteq> [] \<Longrightarrow> first_uuid u p ids = u"
  by (simp add: first_uuid_def)

lemma deliver_only_for:
  assumes u: "ev_UUID e \<noteq> []" "TrimSpace (ev_UUID e) = ev_UUID e" and P: "P (ev_UUID e)"
  shows "deliver (A\<lparr>me_core := only_for P (me_core A)\<rparr>) e now s = deliver A e now s"
proof -
  have "mq_reportHeartbeat (A\<lparr>me_core := only_for P (me_core A)\<rparr>) e now s = mq_reportHeartbeat A e now s"
    using u P by (simp add: mq_reportHeartbeat_def only_for_def first_uuid_own)
  moreover have "mq_updateCommandReceipt (A\<lparr>me_core := only_for P (me_core A)\<rparr>) e now s =
      mq_updateCommandReceipt A e now s"
    using P by (simp add: mq_updateCommandReceipt_def only_for_def split: option.splits)
  moreover have "mq_ingestEvent (A\<lparr>me_core := only_for P (me_core A)\<rparr>) e now s = mq_ingestEvent A e now s"
  proof (cases "NormalizeEvent (me_normalizer A) (me_sourceInstance A) e now")
    case (Inr d)
    from NormalizeEvent_parts(5) [OF Inr u(1)] have "event_uuid d = ev_UUID e"
      using u by (auto simp: event_uuid_def first_uuid_own)
    with P Inr show ?thesis by (simp add: mq_ingestEvent_def only_for_def event_about_def)
  qed (simp add: mq_ingestEvent_def)
  ultimately show ?thesis by (simp add: deliver_def Let_def)
qed

lemma mapZigbee_event:
  assumes "mapZigbee2MQTT M now rest topic raw ct payload msg rcv = Inr mapped"
  obtains friendly sub where "rest = friendly # sub" "mm_Token mapped = []"
    "ev_UUID (mm_Event mapped) = externalUUID (mr_crypto M) ''zigbee2mqtt'' friendly"
  using assms
  by (auto simp: mapZigbee2MQTT_def zigbee_event_def Let_def split: list.splits if_splits)

lemma Map_other:
  assumes "Map M now msg = Inr mapped" and "topicRest (cleanTopic (im_Topic msg)) (mt_BaseTopic (mr_cfg M)) = None"
  shows "\<exists>rest. topicRest (cleanTopic (im_Topic msg)) (mt_Zigbee2MQTTBaseTopic (mr_cfg M)) = Some rest \<and>
     (\<exists>tp raw ct pl rcv. mapZigbee2MQTT M now rest tp raw ct pl msg rcv = Inr mapped)"
proof (cases "topicRest (cleanTopic (im_Topic msg)) (mt_Zigbee2MQTTBaseTopic (mr_cfg M))")
  case None
  with assms show ?thesis by (simp add: Map_def Let_def split: if_splits)
next
  case (Some rest)
  then have "mapZigbee2MQTT M now rest (cleanTopic (im_Topic msg)) (im_Payload msg)
      (detectContentType (im_Payload msg)) (parseObject (im_Payload msg)) msg
      (if im_ReceivedAt msg = zero_time then now else im_ReceivedAt msg) = Inr mapped"
    using assms by (simp add: Map_def Let_def split: if_splits)
  with Some show ?thesis by blast
qed

lemma principal_base:
  assumes "TrimSpace (im_AuthUUID msg) = im_AuthUUID msg" "im_AuthUUID msg \<noteq> []"
    and "topicRest (cleanTopic (im_Topic msg)) (mt_BaseTopic cfg) = Some rest"
    and "applyConnectionPrincipal cfg msg event = Inr e"
  shows "ev_UUID e = im_AuthUUID msg"
  using assms
  by (auto simp: applyConnectionPrincipal_def Let_def with_device_uuid_def with_client_id_def
      split: list.splits if_splits)

lemma principal_other:
  assumes "topicRest (cleanTopic (im_Topic msg)) (mt_BaseTopic cfg) = None"
    and "applyConnectionPrincipal cfg msg event = Inr e"
  shows "ev_UUID e = ev_UUID event"
  using assms by (auto simp: applyConnectionPrincipal_def Let_def with_client_id_def split: if_splits)

lemma apply_token_own:
  assumes "apply_token msg owner e = Inr e'" "im_AuthUUID msg \<noteq> []" "ev_UUID e = im_AuthUUID msg"
  shows "ev_UUID e' = im_AuthUUID msg"
  using assms by (auto simp: apply_token_def with_device_uuid_def Let_def split: prod.splits if_splits)

lemma handleMessage_only_for:
  assumes W: "mr_cfg (me_mapper A) = me_cfg A"
    and u: "TrimSpace (im_AuthUUID msg) = im_AuthUUID msg" "im_AuthUUID msg \<noteq> []"
  shows "handleMessage (A\<lparr>me_core := only_for (reportable A msg) (me_core A)\<rparr>) msg now s = handleMessage A msg now s"
proof (cases "Map (me_mapper A) now msg")
  case mapped: (Inr mapped)
  let ?B = "A\<lparr>me_core := only_for (reportable A msg) (me_core A)\<rparr>"
  show ?thesis
  proof (cases "applyConnectionPrincipal (me_cfg A) msg (mm_Event mapped)")
    case event: (Inr event)
    have auth: "mq_authenticate ?B tok now s = mq_authenticate A tok now s" for tok
      by (simp add: mq_authenticate_def only_for_def)
    show ?thesis
    proof (cases "topicRest (cleanTopic (im_Topic msg)) (mt_BaseTopic (me_cfg A))")
      case (Some rest)
      have P: "reportable A msg (im_AuthUUID msg)" by (simp add: reportable_def Some)
      have own: "ev_UUID event = im_AuthUUID msg" by (rule principal_base [OF u Some event])
      have D: "deliver ?B e now t = deliver A e now t" if "ev_UUID e = im_AuthUUID msg" for e t
        by (rule deliver_only_for) (use that u P in simp_all)
      show ?thesis
        using mapped event D [OF own] D [OF apply_token_own [OF _ u(2) own]]
        by (simp add: handleMessage_def auth split: prod.split sum.split)
    next
      case None
      then have "topicRest (cleanTopic (im_Topic msg)) (mt_BaseTopic (mr_cfg (me_mapper A))) = None" by (simp add: W)
      from Map_other [OF mapped this] obtain rest where
        rest: "topicRest (cleanTopic (im_Topic msg)) (mt_Zigbee2MQTTBaseTopic (me_cfg A)) = Some rest"
        and m: "\<exists>tp raw ct pl rcv. mapZigbee2MQTT (me_mapper A) now rest tp raw ct pl msg rcv = Inr mapped"
        unfolding W by blast
      from m obtain friendly sub where f: "rest = friendly # sub" "mm_Token mapped = []"
        "ev_UUID (mm_Event mapped) = externalUUID (mr_crypto (me_mapper A)) ''zigbee2mqtt'' friendly"
        by (blast elim: mapZigbee_event)
      have e: "ev_UUID event = externalUUID (mr_crypto (me_mapper A)) ''zigbee2mqtt'' friendly"
        using principal_other [OF None event] f(3) by simp
      then have "reportable A msg (ev_UUID event)" by (simp add: reportable_def None rest f(1))
      then have "deliver ?B event now t = deliver A event now t" for t
        by (intro deliver_only_for) (simp_all add: e externalUUID_Cons externalUUID_trimmed)
      with mapped event f(2) show ?thesis by (simp add: handleMessage_def)
    qed
  qed (simp add: handleMessage_def mapped)
qed (simp add: handleMessage_def)

text \<open>C6: A device can report only about itself. In any run of the embedded broker over a core that was in
  order, a message is handled exactly as it would be if the core refused every heartbeat, event and
  command receipt about any device but the one the connection is authenticated as, or, for a
  message on a topic of zigbee2mqtt, about any but the external entity the topic's friendly name
  stands for: whatever the topic, the identities and the payload of the message say.\<close>

theorem mqtt_reports_own_device:
  assumes "mqtt_wired A cfg" and "core_ok (lk_core (ms_world s))"
    and "b = fold (broker_run A) steps (new_broker s)" and "bk_messages b = msg # later"
  shows "broker_run A (MessageTaken now) b =
      b\<lparr>bk_messages := later, bk_adapter := snd (handleMessage
          (A\<lparr>me_core := only_for (reportable A msg) (me_core A)\<rparr>) msg now (bk_adapter b))\<rparr> \<and>
    vouched (ms_world (bk_adapter b)) (im_AuthUUID msg)"
proof -
  have "broker_ok (new_broker s)" using assms(2) by (simp add: broker_ok_def new_broker_def)
  from broker_ok_run [OF assms(1) this, of steps] have "broker_ok b" by (simp add: assms(3))
  from broker_okD(3) [OF this, of msg] assms(4)
  have v: "vouched (ms_world (bk_adapter b)) (im_AuthUUID msg)" by simp
  then have "TrimSpace (im_AuthUUID msg) = im_AuthUUID msg" "im_AuthUUID msg \<noteq> []" by (simp_all add: vouched_def)
  with handleMessage_only_for [of A msg now "bk_adapter b"] assms(1,4) v show ?thesis
    by (simp add: mqtt_wired_def)
qed

text \<open>A connected device sends a heartbeat whose payload claims to be another device's.\<close>

definition forged_heartbeat :: publish_packet where
  "forged_heartbeat = publish_d1\<lparr>pp_Payload := bytes_of_string (''{'' @ [CHR 34] @ ''uuid'' @ [CHR 34] @ '':'' @
     [CHR 34] @ ''d2'' @ [CHR 34] @ ''}'')\<rparr>"

definition example_run :: "broker_step list" where
  "example_run = [ClientConnects client_d1 connect_d1 5, ClientPublishes client_d1 forged_heartbeat 6]"

theorem mqtt_reports_own_device_witness:
  "case fold (broker_run example_mqtt) example_run example_broker of b \<Rightarrow>
     map (\<lambda>m. (im_AuthUUID m, pp_Payload forged_heartbeat = im_Payload m)) (bk_messages b) = [(''d1'', True)] \<and>
     vouched (ms_world (bk_adapter b)) ''d1''"
proof -
  define b where "b = fold (broker_run example_mqtt) example_run example_broker"
  have m: "map (\<lambda>m. (im_AuthUUID m, pp_Payload forged_heartbeat = im_Payload m)) (bk_messages b) = [(''d1'', True)]"
    unfolding b_def by code_simp
  then obtain msg where msg: "bk_messages b = msg # []" "im_AuthUUID msg = ''d1''" by auto
  have "b = fold (broker_run example_mqtt) example_run (new_broker (bk_adapter example_broker))"
    by (simp add: b_def example_broker_def new_broker_def)
  from mqtt_reports_own_device [OF example_mqtt_wired _ this msg(1), of 7] msg(2) example_core_ok
  have "vouched (ms_world (bk_adapter b)) ''d1''" by simp
  with m show ?thesis unfolding b_def [symmetric] by simp
qed

end
