(* ===== verification/MqttDownlink.thy ===== *)
theory MqttDownlink
  imports MqttReports
begin

text \<open>
  The way down and the command log: who can read a downlink topic, what becomes of the commands a
  tick takes from the core, what a receipt changes, and what a takeover of a session does.
\<close>

section \<open>Sessions taken over\<close>

text \<open>C34: A client that takes over a session is locked out. The broker admits the second connection of a
  client id before it ends the first, and the hook for the end of the first removes the session stored
  under the id, which is the second one's: from then on every subscription of the admitted client is
  refused and everything it publishes is dropped, although it is connected.\<close>

theorem mqtt_takeover_locks_out:
  assumes "OnConnectAuthenticate A new pk t b = (True, b1)" and "clientID old = clientID new"
    and "clientID new \<noteq> []" and "new = Some c" and "\<not> cl_Inline c"
  shows "case broker_run A (ClientDisconnects old) b1 of b2 \<Rightarrow>
    (\<forall>topic write now. OnACLCheck (me_cfg A) new topic write now b2 = (False, b2)) \<and>
    (\<forall>pp now. broker_run A (ClientPublishes new pp now) b2 = b2)"
  using assms by (simp add: OnDisconnect_def Let_def OnACLCheck_def sessionForClient_def)

theorem mqtt_takeover_locks_out_witness:
  "case fold (broker_run example_mqtt) [ClientConnects client_d1 connect_d1 5, ClientConnects client_d1 connect_d1 6,
      ClientDisconnects client_d1] example_broker of b \<Rightarrow>
     broker_run example_mqtt (ClientPublishes client_d1 publish_d1 7) b = b"
proof -
  let ?b1 = "snd (OnConnectAuthenticate example_mqtt client_d1 connect_d1 5 example_broker)"
  have c: "fst (OnConnectAuthenticate example_mqtt client_d1 connect_d1 6 ?b1)" by code_simp
  have i: "clientID client_d1 \<noteq> []" by code_simp
  obtain b2 where b2: "OnConnectAuthenticate example_mqtt client_d1 connect_d1 6 ?b1 = (True, b2)"
    using c by (metis prod.collapse)
  have "\<forall>pp now. broker_run example_mqtt (ClientPublishes client_d1 pp now) (OnDisconnect client_d1 b2) = OnDisconnect client_d1 b2"
    using mqtt_takeover_locks_out [OF b2 refl i client_d1_def] by simp
  then show ?thesis using b2 by (simp del: broker_run.simps(3))
qed

section \<open>Receipts\<close>

lemma UpdateDeviceCommandStatus_succeeds:
  assumes "faults d = []" and "0 < i" and "db_command d i \<noteq> None" and "isValidDeviceCommandStatus st"
  shows "\<exists>d'. UpdateDeviceCommandStatus i st msg now d = (Inr (), d') \<and> faults d' = []"
proof -
  have "filter (\<lambda>r. c_ID r = i) (t_commands (tabs d)) \<noteq> []"
    using assms(3) by (auto simp: db_command_def find_None_iff filter_empty_conv)
  then show ?thesis
    using assms(1,2,4) by (simp add: UpdateDeviceCommandStatus_def Let_def bindE_def run_stmt_def returnE_def)
qed

lemma core_mark_known:
  assumes ok: "db_commands_ok (co_db s)" "faults (co_db s) = []" and i: "0 < i" "db_command (co_db s) i = Some (v, old)"
    and st: "isValidDeviceCommandStatus st"
  shows "\<exists>d. with_downlink (mark_status sql_downlink st i msg now) s = (Inr (), s\<lparr>co_db := d\<rparr>) \<and>
     db_commands_ok d \<and> faults d = [] \<and> db_command d = (db_command (co_db s))(i \<mapsto> (v, st))"
proof -
  obtain d where d: "UpdateDeviceCommandStatus i st msg now (co_db s) = (Inr (), d)" "faults d = []"
    using UpdateDeviceCommandStatus_succeeds [OF ok(2) i(1) _ st] i(2) by auto
  from UpdateDeviceCommandStatus_spec [OF ok(1) d(1)] i(2)
  have "db_commands_ok d" "db_command d = (db_command (co_db s))(i \<mapsto> (v, st))" by auto
  with d show ?thesis
    by (intro exI [of _ d]) (simp add: with_downlink_def mark_status_def on_repo_def sql_downlink_def command_repository_def)
qed

lemma core_update_known:
  assumes "db_commands_ok (co_db s)" "faults (co_db s) = []" "0 < uq_CommandId m"
    "db_command (co_db s) (uq_CommandId m) = Some (v, old)"
    and st: "(uq_Status m, st) \<in> {(PCommandSent, CmdSent), (PCommandAcked, CmdAcked), (PCommandFailed, CmdFailed)}"
  shows "\<exists>d. UpdateCommandStatus (core_services c) (Some m) now s = (Inr (uq_Status m), s\<lparr>co_db := d\<rparr>) \<and>
     db_commands_ok d \<and> faults d = [] \<and> db_command d = (db_command (co_db s))(uq_CommandId m \<mapsto> (v, st))"
proof -
  have v: "isValidDeviceCommandStatus st" using st by (auto simp: isValidDeviceCommandStatus_def)
  obtain d1 where d1: "with_downlink (mark_status sql_downlink st (uq_CommandId m) [] now) s = (Inr (), s\<lparr>co_db := d1\<rparr>)"
     "db_commands_ok d1" "faults d1 = []" "db_command d1 = (db_command (co_db s))(uq_CommandId m \<mapsto> (v, st))"
    using core_mark_known [OF assms(1-4) v] by blast
  obtain d2 where d2: "with_downlink (mark_status sql_downlink st (uq_CommandId m) (TrimSpace (uq_ErrorText m)) now) s =
      (Inr (), s\<lparr>co_db := d2\<rparr>)"
     "db_commands_ok d2" "faults d2 = []" "db_command d2 = (db_command (co_db s))(uq_CommandId m \<mapsto> (v, st))"
    using core_mark_known [OF assms(1-4) v] by blast
  show ?thesis
    using st assms(3) d1 d2
    by (auto simp: UpdateCommandStatus_def core_services_def Let_def MarkSent_def MarkAcked_def MarkFailed_def)
qed

text \<open>C35: A receipt is not tied to the device that sends it. Whichever device an acknowledgement comes
  from, the command whose number its payload names is marked as acknowledged, whoever the command
  was for.\<close>

theorem mqtt_receipt_any_command:
  assumes "mqtt_wired A cfg" and "ev_Receipt e = Some r" and "mq_commandStatus (rc_Status r) = PCommandAcked"
    and "0 < rc_CommandID r" and "lk_faults (ms_world s) = []"
    and "db_commands_ok (co_db (lk_core (ms_world s)))" and "faults (co_db (lk_core (ms_world s))) = []"
    and "db_command (co_db (lk_core (ms_world s))) (rc_CommandID r) = Some (owner, old)"
    and "mq_updateCommandReceipt A e now s = (res, s')"
  shows "res = Inr () \<and>
    db_command (co_db (lk_core (ms_world s'))) =
      (db_command (co_db (lk_core (ms_world s))))(rc_CommandID r \<mapsto> (owner, CmdAcked))"
proof -
  define q where "q = \<lparr>uq_CommandId = rc_CommandID r, uq_CommandUuid = rc_CommandUUID r,
      uq_Status = PCommandAcked, uq_ErrorText = rc_ErrorText r,
      uq_ProtocolCommandCode = rc_ProtocolCommandCode r,
      uq_Raw = Some \<lparr>raw_ContentType = ev_RawContentType e, raw_Body = ev_Raw e, raw_Json = None, raw_Text = []\<rparr>,
      uq_ObservedAt = Some now, uq_Uuid = ev_UUID e, uq_TargetIdentity = mq_p_identity (ev_Identity e),
      uq_Command = None, uq_Operation = rc_Operation r\<rparr>"
  have "0 < uq_CommandId q" "db_command (co_db (lk_core (ms_world s))) (uq_CommandId q) = Some (owner, old)"
    using assms(4,8) by (simp_all add: q_def)
  from core_update_known [OF assms(6,7) this, of CmdAcked cfg now] obtain d where
    d: "UpdateCommandStatus (core_services cfg) (Some q) now (lk_core (ms_world s)) =
        (Inr PCommandAcked, (lk_core (ms_world s))\<lparr>co_db := d\<rparr>)"
      "db_command d = (db_command (co_db (lk_core (ms_world s))))(rc_CommandID r \<mapsto> (owner, CmdAcked))"
    by (auto simp: q_def)
  have "rpc_UpdateCommandStatus (me_core A) q now (ms_world s) =
      (Inr PCommandAcked, (ms_world s)\<lparr>lk_core := (lk_core (ms_world s))\<lparr>co_db := d\<rparr>\<rparr>)"
    using assms(1) call_reliable [of _ "UpdateCommandStatus (core_services cfg) (Some q) now", OF assms(5) d(1)]
    by (simp add: mqtt_wired_def NewRemote_def Remote_UpdateCommandStatus_def q_def)
  then have "mq_updateCommandReceipt A e now s =
      (Inr (), s\<lparr>ms_world := (ms_world s)\<lparr>lk_core := (lk_core (ms_world s))\<lparr>co_db := d\<rparr>\<rparr>\<rparr>)"
    using assms(2,3) by (simp add: mq_updateCommandReceipt_def on_world_def bindE_def returnE_def q_def)
  with assms(9) d(2) show ?thesis by auto
qed

definition queued_example :: "(db, memory_queue) downlink" where
  "queued_example = fold run_downlink_op example_downlink_ops (new_downlink (example_db []) 10)"

text \<open>The example core with one command queued for its device.\<close>

definition core_queued :: core_state where
  "core_queued = example_core\<lparr>co_db := dk_store queued_example, co_queue := dk_queue queued_example\<rparr>"

definition mqtt_queued :: "core_state link mqtt_state" where
  "mqtt_queued = \<lparr>ms_devices = [], ms_world = \<lparr>lk_core = core_queued, lk_faults = []\<rparr>, ms_published = [],
     ms_publish_ok = []\<rparr>"

lemma core_queued_command: "db_command (co_db core_queued) 1 = Some (''d1'', CmdQueued)"
  by code_simp

lemma core_queued_faults: "faults (co_db core_queued) = []"
  by code_simp

lemma core_queued_commands: "db_commands_ok (co_db core_queued)"
proof -
  have "core_downlink.dk_ok queued_example"
    unfolding queued_example_def by (rule run_downlink_ops_ok) (simp add: new_downlink_ok)
  from core_downlink.dk_okD(1) [OF this] show ?thesis by (simp add: core_queued_def)
qed

definition receipt_of_another :: adapter_event where
  "receipt_of_another = no_event\<lparr>ev_UUID := ''d9'', ev_Receipt := Some
     \<lparr>rc_CommandID = 1, rc_CommandUUID = [], rc_Status = ''ok'', rc_ProtocolCommandCode = 0, rc_Operation = [],
      rc_ErrorText = [], rc_ObservedAt = 5, rc_Raw = []\<rparr>\<rparr>"

theorem mqtt_receipt_any_command_witness:
  "db_command (co_db (lk_core (ms_world (snd (mq_updateCommandReceipt example_mqtt receipt_of_another 5 mqtt_queued))))) 1 =
     Some (''d1'', CmdAcked)"
proof -
  define r where "r = the (ev_Receipt receipt_of_another)"
  have e: "ev_Receipt receipt_of_another = Some r" "rc_CommandID r = 1" "rc_Status r = ''ok''"
    by (simp_all add: receipt_of_another_def r_def)
  have "mq_commandStatus ''ok'' = PCommandAcked" by code_simp
  then have st: "mq_commandStatus (rc_Status r) = PCommandAcked" by (simp add: e(3))
  have q: "lk_core (ms_world mqtt_queued) = core_queued" "lk_faults (ms_world mqtt_queued) = []"
    by (simp_all add: mqtt_queued_def)
  show ?thesis
    using mqtt_receipt_any_command [OF example_mqtt_wired e(1) st _ q(2) _ _ _ surjective_pairing, of "''d1''" CmdQueued 5]
    by (simp add: q(1) e(2) core_queued_command core_queued_faults core_queued_commands)
qed

section \<open>Commands taken from the core\<close>

definition publish_outcomes :: "nat \<Rightarrow> bool list \<Rightarrow> bool list" where
  "publish_outcomes n oks = take n (oks @ replicate n True)"

lemma publish_outcomes_0 [simp]: "publish_outcomes 0 oks = []"
  by (simp add: publish_outcomes_def)

lemma publish_outcomes_Suc:
  "publish_outcomes (Suc n) oks = (oks \<noteq> [] \<longrightarrow> hd oks) # publish_outcomes n (tl oks)"
  by (cases oks) (simp_all add: publish_outcomes_def take_replicate min_def Suc_diff_le flip: replicate_Suc)

definition downlink_publication :: "mqtt_config \<Rightarrow> string \<Rightarrow> string \<Rightarrow> downlink_message \<Rightarrow> publication" where
  "downlink_publication cfg base u m =
     \<lparr>pb_Topic = base @ ''/'' @ u @ ''/downlink'', pb_QoS = mt_QoS cfg, pb_Retained = mt_DownlinkRetained cfg,
      pb_Payload = dl_Payload m\<rparr>"

definition mark_outcome ::
    "downlink_message \<times> bool \<Rightarrow> (int \<Rightarrow> (string \<times> command_status) option) \<Rightarrow> int \<Rightarrow> (string \<times> command_status) option" where
  "mark_outcome = (\<lambda>(m, ok) log. log(dl_CommandID m :=
     map_option (\<lambda>(owner, _). (owner, if ok then CmdSent else CmdFailed)) (log (dl_CommandID m))))"

text \<open>A core whose database works and knows the commands of a list.\<close>

definition core_logs :: "core_state \<Rightarrow> downlink_message list \<Rightarrow> bool" where
  "core_logs k ms \<longleftrightarrow> db_commands_ok (co_db k) \<and> faults (co_db k) = [] \<and>
     (\<forall>m \<in> set ms. 0 < dl_CommandID m \<and> db_command (co_db k) (dl_CommandID m) \<noteq> None)"

text \<open>An adapter whose downlink topic is a template under its base topic, and a device id that fits it.\<close>

definition downlink_setup :: "core_state link mqtt_env \<Rightarrow> core_config \<Rightarrow> string \<Rightarrow> string \<Rightarrow> bool" where
  "downlink_setup A cfg base u \<longleftrightarrow>
     mqtt_wired A cfg \<and> mt_DownlinkTopic (me_cfg A) = uuid_template base \<and>
     CHR ''{'' \<notin> set base \<and> base \<noteq> [] \<and> hd base \<noteq> CHR ''/'' \<and> TrimSpace base = base \<and>
     u \<noteq> [] \<and> TrimSpace u = u \<and> CHR ''{'' \<notin> set u \<and> (\<forall>rs. set (me_order A rs) = set rs)"

lemma topic_of:
  assumes "downlink_setup A cfg base u"
  shows "renderDownlinkTopic (me_order A) (mt_DownlinkTopic (me_cfg A)) dev (delivered u t m) = base @ ''/'' @ u @ ''/downlink''"
proof -
  have "mt_DownlinkTopic (me_cfg A) = uuid_template base" using assms by (simp add: downlink_setup_def)
  then show ?thesis
    using assms renderDownlinkTopic_uuid [of base u "delivered u t m" dev "me_order A"]
    by (simp add: downlink_setup_def)
qed

lemma publish_one_known:
  assumes conf: "downlink_setup A cfg base u" and logs: "core_logs (lk_core (ms_world s)) [m]" and link: "lk_faults (ms_world s) = []"
  shows "\<exists>d. publish_one A dev now (canonicalCommand u t m) s =
      s\<lparr>ms_publish_ok := tl (ms_publish_ok s),
        ms_published := ms_published s @
          (if ms_publish_ok s \<noteq> [] \<longrightarrow> hd (ms_publish_ok s) then [downlink_publication (me_cfg A) base u m] else []),
        ms_world := (ms_world s)\<lparr>lk_core := (lk_core (ms_world s))\<lparr>co_db := d\<rparr>\<rparr>\<rparr> \<and>
    db_commands_ok d \<and> faults d = [] \<and>
    db_command d = mark_outcome (m, ms_publish_ok s \<noteq> [] \<longrightarrow> hd (ms_publish_ok s))
      (db_command (co_db (lk_core (ms_world s))))"
proof -
  let ?k = "lk_core (ms_world s)"
  let ?ok = "ms_publish_ok s \<noteq> [] \<longrightarrow> hd (ms_publish_ok s)"
  let ?st = "if ?ok then PCommandSent else PCommandFailed"
  define q where "q = status_update dev (delivered u t m) ?st (if ?ok then [] else error_text (ErrText ''publish'')) now"
  have id: "0 < dl_CommandID m" using logs by (simp add: core_logs_def)
  obtain owner old where k: "db_command (co_db ?k) (dl_CommandID m) = Some (owner, old)"
    using logs by (auto simp: core_logs_def)
  have q: "uq_CommandId q = dl_CommandID m" "uq_Status q = ?st" "uq_ObservedAt q = Some now"
    by (simp_all add: q_def status_update_def)
  obtain d where d: "UpdateCommandStatus (core_services cfg) (Some q) now ?k = (Inr ?st, ?k\<lparr>co_db := d\<rparr>)"
      "db_commands_ok d" "faults d = []"
      "db_command d = (db_command (co_db ?k))(dl_CommandID m \<mapsto> (owner, if ?ok then CmdSent else CmdFailed))"
    using core_update_known [of ?k q owner old "if ?ok then CmdSent else CmdFailed" cfg now] logs id k
    by (cases ?ok) (auto simp: core_logs_def q)
  have rpc: "on_world (rpc_UpdateCommandStatus (me_core A) q now) t' =
      (Inr ?st, t'\<lparr>ms_world := (ms_world s)\<lparr>lk_core := ?k\<lparr>co_db := d\<rparr>\<rparr>\<rparr>)" if "ms_world t' = ms_world s" for t'
    using conf call_reliable [of "ms_world s" "UpdateCommandStatus (core_services cfg) (Some q) now", OF link d(1)] that
    by (simp add: downlink_setup_def mqtt_wired_def NewRemote_def Remote_UpdateCommandStatus_def q(3) on_world_def)
  have "db_command d = mark_outcome (m, ?ok) (db_command (co_db ?k))"
    by (simp add: mark_outcome_def k d(4))
  moreover have "base \<noteq> []" using conf by (simp add: downlink_setup_def)
  then have "publish_one A dev now (canonicalCommand u t m) s =
      s\<lparr>ms_publish_ok := tl (ms_publish_ok s),
        ms_published := ms_published s @ (if ?ok then [downlink_publication (me_cfg A) base u m] else []),
        ms_world := (ms_world s)\<lparr>lk_core := ?k\<lparr>co_db := d\<rparr>\<rparr>\<rparr>"
    using rpc id
    by (auto simp: publish_one_def NormalizeCommand_canonical publishDownlink_def Let_def topic_of [OF conf] Publish_def
        downlink_publication_def markCommandSent_def markCommandFailed_def q_def split: if_splits)
  ultimately show ?thesis using d(2,3) by blast
qed

lemma mark_outcome_known: "log i \<noteq> None \<Longrightarrow> mark_outcome x log i \<noteq> None"
  by (cases x) (auto simp: mark_outcome_def)

lemma publish_all_known:
  assumes conf: "downlink_setup A cfg base u"
  shows "list_all2 (\<lambda>x m. \<exists>t. x = canonicalCommand u t m) cs ms \<Longrightarrow> core_logs (lk_core (ms_world s)) ms \<Longrightarrow>
    lk_faults (ms_world s) = [] \<Longrightarrow>
    (case fold (publish_one A dev now) cs s of s' \<Rightarrow>
      ms_published s' = ms_published s @
        map (downlink_publication (me_cfg A) base u \<circ> fst) (filter snd (zip ms (publish_outcomes (length ms) (ms_publish_ok s)))) \<and>
      (\<exists>d. lk_core (ms_world s') = (lk_core (ms_world s))\<lparr>co_db := d\<rparr> \<and>
        db_command d = fold mark_outcome (zip ms (publish_outcomes (length ms) (ms_publish_ok s)))
          (db_command (co_db (lk_core (ms_world s))))))"
proof (induction arbitrary: s rule: list_all2_induct)
  case Nil
  show ?case by (simp, intro exI [of _ "co_db (lk_core (ms_world s))"]) simp
next
  case (Cons x cs m ms)
  obtain t where x: "x = canonicalCommand u t m" using Cons.hyps(1) by blast
  let ?k = "lk_core (ms_world s)"
  let ?ok = "ms_publish_ok s \<noteq> [] \<longrightarrow> hd (ms_publish_ok s)"
  have m: "core_logs ?k [m]" using Cons.prems(1) by (simp add: core_logs_def)
  obtain d where d: "publish_one A dev now x s =
      s\<lparr>ms_publish_ok := tl (ms_publish_ok s),
        ms_published := ms_published s @ (if ?ok then [downlink_publication (me_cfg A) base u m] else []),
        ms_world := (ms_world s)\<lparr>lk_core := ?k\<lparr>co_db := d\<rparr>\<rparr>\<rparr>"
    "db_commands_ok d" "faults d = []" "db_command d = mark_outcome (m, ?ok) (db_command (co_db ?k))"
    using publish_one_known [OF conf m Cons.prems(2), of dev now t] unfolding x by blast
  define s1 where "s1 = publish_one A dev now x s"
  have s1: "ms_publish_ok s1 = tl (ms_publish_ok s)" "lk_core (ms_world s1) = ?k\<lparr>co_db := d\<rparr>"
      "lk_faults (ms_world s1) = []"
      "ms_published s1 = ms_published s @ (if ?ok then [downlink_publication (me_cfg A) base u m] else [])"
    using d(1) Cons.prems(2) by (simp_all add: s1_def)
  have "core_logs (lk_core (ms_world s1)) ms"
    using Cons.prems(1) d(2-4) mark_outcome_known by (auto simp: core_logs_def s1(2) simp del: not_None_eq)
  from Cons.IH [OF this s1(3)] show ?case
    by (auto simp: s1 d(4) publish_outcomes_Suc s1_def [symmetric])
qed

text \<open>C11: Every command taken from the core is accounted for. When the adapter pulls the commands of a
  device over a working link, the oldest ones, up to the configured batch (at least one), leave the
  device's queue and no other queue changes; each is published in order with its payload on the
  device's own topic if the broker accepts it, and its entry in the command log becomes sent if it was
  published and failed if it was not.\<close>

theorem mqtt_downlinks_accounted:
  assumes "downlink_setup A cfg base u" and "dv_UUID dev = u" and "lk_faults (ms_world s) = []"
    and "core_ok (lk_core (ms_world s))"
    and "n = nat (max 1 (sint (word_of_int (mt_DownlinkMaxBatch (me_cfg A)) :: 32 word)))"
    and "ms = take n (mq_pending (co_queue (lk_core (ms_world s))) u)"
    and "core_logs (lk_core (ms_world s)) ms"
    and "log = zip ms (publish_outcomes (length ms) (ms_publish_ok s))"
    and "pullAndPublishDownlinks A dev now s = (r, s')"
  shows "r = Inr () \<and>
    ms_published s' = ms_published s @ map (downlink_publication (me_cfg A) base u \<circ> fst) (filter snd log) \<and>
    mq_pending (co_queue (lk_core (ms_world s'))) = (mq_pending (co_queue (lk_core (ms_world s))))
      (u := drop n (mq_pending (co_queue (lk_core (ms_world s))) u)) \<and>
    db_command (co_db (lk_core (ms_world s'))) = fold mark_outcome log (db_command (co_db (lk_core (ms_world s))))"
proof -
  let ?k = "lk_core (ms_world s)"
  define q where "q = \<lparr>pq_Uuid = dv_UUID dev, pq_PrimaryIdentity = mq_p_identity (dv_Identity dev), pq_Identities = [],
      pq_MaxCount = sint (word_of_int (mt_DownlinkMaxBatch (me_cfg A)) :: 32 word),
      pq_SupportedOperations = [], pq_SupportedProtocolNames = []\<rparr>"
  have u: "u \<noteq> []" "TrimSpace u = u" using assms(1) by (simp_all add: downlink_setup_def)
  obtain cs k where cs: "pull_loop (core_services cfg) u n ?k = (Inr cs, k)"
    "list_all2 (\<lambda>x m. \<exists>t. x = canonicalCommand u t m) cs ms"
    "\<forall>v. mq_pending (co_queue k) v = (if v = u then drop n (mq_pending (co_queue ?k) u) else mq_pending (co_queue ?k) v)"
    "tabs (co_db k) = tabs (co_db ?k)"
    using pull_loop_spec [of cfg u n ?k] unfolding assms(6) by blast
  have n: "nat (if pq_MaxCount q \<le> 0 then 1 else pq_MaxCount q) = n" by (simp add: q_def assms(5))
  have fu: "first_uuid (TrimSpace (pq_Uuid q)) (pq_PrimaryIdentity q) (pq_Identities q) = u"
    using u by (simp add: q_def first_uuid_def assms(2))
  have P: "PullCommands (core_services cfg) (Some q) ?k = (Inr cs, k)"
    unfolding PullCommands_def option.case Let_def fu n using u(1) cs(1) by simp
  then have "core_ok k"
    using keeps_PullCommands [of cfg q] assms(4) unfolding keeps_core_def by (metis snd_conv)
  then have f: "faults (co_db k) = []" by (rule core_ok_store)
  let ?s1 = "s\<lparr>ms_world := (ms_world s)\<lparr>lk_core := k\<rparr>\<rparr>"
  have "on_world (rpc_PullCommands (me_core A) q now) s = (Inr cs, ?s1)"
    using assms(1) call_reliable [of "ms_world s" "PullCommands (core_services cfg) (Some q)", OF assms(3) P]
    by (simp add: downlink_setup_def mqtt_wired_def NewRemote_def Remote_PullCommands_def on_world_def)
  then have out: "r = Inr ()" "s' = fold (publish_one A dev now) cs ?s1"
    using assms(9) u(1) by (simp_all add: pullAndPublishDownlinks_def q_def assms(2))
  have c: "db_command (co_db k) = db_command (co_db ?k)" using cs(4) by (simp add: db_command_def fun_eq_iff)
  have "core_logs (lk_core (ms_world ?s1)) ms"
    using assms(7) f cs(4) c by (simp add: core_logs_def db_commands_ok_def)
  from publish_all_known [OF assms(1) cs(2) this, of dev now] assms(3)
  have "ms_published s' = ms_published s @ map (downlink_publication (me_cfg A) base u \<circ> fst) (filter snd log)"
    "\<exists>d. lk_core (ms_world s') = k\<lparr>co_db := d\<rparr> \<and> db_command d = fold mark_outcome log (db_command (co_db k))"
    by (simp_all add: out(2) assms(8))
  moreover have "mq_pending (co_queue k) = (mq_pending (co_queue ?k))(u := drop n (mq_pending (co_queue ?k) u))"
    using cs(3) by (simp add: fun_eq_iff)
  ultimately show ?thesis using out(1) unfolding c by auto
qed

definition example_mqtt_device :: device_session where
  "example_mqtt_device = \<lparr>dv_UUID = ''d1'', dv_TenantID = [], dv_Identity = mq_identity ''uuid'' ''d1'', dv_LastSeen = 5\<rparr>"

lemma example_downlink_setup: "downlink_setup example_mqtt example_core_config ''goster/v1'' ''d1''"
proof -
  have "TrimSpace ''goster/v1'' = ''goster/v1''" "TrimSpace ''d1'' = ''d1''"
    "mt_DownlinkTopic example_mqtt_config = ''goster/v1/{uuid}/downlink''" by code_simp+
  moreover have "me_cfg example_mqtt = example_mqtt_config" "me_order example_mqtt = (\<lambda>rs. rs)"
    by (simp_all add: example_mqtt_def)
  ultimately show ?thesis
    using example_mqtt_wired by (simp add: downlink_setup_def uuid_template_def)
qed

theorem mqtt_downlinks_accounted_witness:
  "case snd (pullAndPublishDownlinks example_mqtt example_mqtt_device 6 mqtt_queued) of s \<Rightarrow>
     map pb_Topic (ms_published s) = [''goster/v1/d1/downlink''] \<and>
     db_command (co_db (lk_core (ms_world s))) 1 = Some (''d1'', CmdSent)"
proof -
  have q: "lk_core (ms_world mqtt_queued) = core_queued" "lk_faults (ms_world mqtt_queued) = []"
      "ms_publish_ok mqtt_queued = []" "ms_published mqtt_queued = []"
    by (simp_all add: mqtt_queued_def)
  have p: "mq_pending (co_queue core_queued) ''d1'' = [example_message]"
    by (simp add: core_queued_def queued_example_def example_pending)
  have n: "nat (max 1 (sint (word_of_int (mt_DownlinkMaxBatch (me_cfg example_mqtt)) :: 32 word))) = 1" by code_simp
  have m: "take (Suc 0) (mq_pending (co_queue core_queued) ''d1'') = [example_message]" by (simp add: p)
  have l: "core_logs core_queued [example_message]"
    by (simp add: core_logs_def core_queued_commands core_queued_faults example_message_def core_queued_command)
  have ok: "core_ok core_queued"
  proof -
    have "t_devices (tabs (co_db core_queued)) = t_devices (tabs (co_db example_core))" by code_simp
    then show ?thesis
      using core_ok_change [OF example_core_ok core_queued_faults] by (simp add: core_queued_def)
  qed
  have z: "zip [example_message] (publish_outcomes 1 []) = [(example_message, True)]"
    by (simp add: publish_outcomes_def)
  show ?thesis
    using mqtt_downlinks_accounted [OF example_downlink_setup _ q(2) _ refl refl _ refl surjective_pairing,
        of example_mqtt_device 6]
    unfolding q n p
    by (simp add: ok l [unfolded example_message_def] m p z example_mqtt_device_def downlink_publication_def mark_outcome_def
        publish_outcomes_def core_queued_command example_message_def)
qed

end
