(* ===== verification/MqttTelemetry.thy ===== *)
theory MqttTelemetry
  imports MqttSafety
begin

text \<open>
  From an MQTT message with readings to rows of the database: the mapper, the adapter, the normalizer,
  the client, the core and its telemetry service in one statement.
\<close>

text \<open>The row value a reading stands for: milliseconds, single precision, eight bits of type.\<close>

definition stored_point :: "metric_point \<Rightarrow> metric" where
  "stored_point p =
     \<lparr>m_Timestamp = UnixMilli (mp_ObservedAt p),
      m_Value = f32_of_f64 (case v_Number (mp_Value p) of Some n \<Rightarrow> n | None \<Rightarrow> 0),
      m_Type = ucast (mp_LegacyMetricType p)\<rparr>"

lemma flatMetrics_numbers: "p \<in> set (flatMetrics payload t) \<Longrightarrow> \<exists>n. mp_Value p = number_of n"
  by (auto simp: flatMetrics_def split: option.splits)

lemma array_metric_numbers: "p \<in> set (array_metric M now t item) \<Longrightarrow> \<exists>n. mp_Value p = number_of n"
  by (cases item) (auto simp: array_metric_def Let_def split: option.splits if_splits)

lemma metricArray_numbers:
  assumes "p \<in> set (metricArray M now payload t)"
  shows "\<exists>n. mp_Value p = number_of n"
proof -
  obtain item where "p \<in> set (array_metric M now t item)"
    using assms unfolding metricArray_def by (cases "field payload ''metrics''") (auto split: json.splits)
  then show ?thesis by (rule array_metric_numbers)
qed

lemma metricPoints_numbers:
  "(\<And>p. p \<in> set pts \<Longrightarrow> (\<exists>n. mp_Value p = number_of n) \<and> mp_ObservedAt p \<noteq> zero_time) \<Longrightarrow>
   metricPoints (p_metrics N now pts) now' = map stored_point pts"
proof (induction pts)
  case (Cons p pts)
  obtain n where n: "mp_Value p = number_of n" using Cons.prems [of p] by auto
  have o: "mp_ObservedAt p \<noteq> zero_time" using Cons.prems [of p] by simp
  have v: "number_value (p_value_of N (mp_Value p)) = n" "v_Number (mp_Value p) = Some n"
    by (simp_all add: n number_value_def p_value_of_def number_of_def no_value_def)
  have "metricPoints (p_metrics N now pts) now' = map stored_point pts" by (rule Cons.IH [OF Cons.prems]) simp
  with o v show ?case
    by (simp add: metricPoints_simps p_metrics_simps stored_point_def timestampMillis_def as_time_def)
qed (simp add: metricPoints_simps p_metrics_simps)

text \<open>What the connection's principal leaves of the event of its own topic.\<close>

lemma principal_own_event:
  assumes "TrimSpace (im_AuthUUID msg) = im_AuthUUID msg" "im_AuthUUID msg \<noteq> []"
    and "topicRest (cleanTopic (im_Topic msg)) (mt_BaseTopic cfg) = Some (u # k # deeper)"
    and "TrimSpace u = im_AuthUUID msg"
  shows "\<exists>e. applyConnectionPrincipal cfg msg event = Inr e \<and> ev_UUID e = im_AuthUUID msg \<and>
    ev_Kind e = ev_Kind event \<and> ev_Metrics e = ev_Metrics event \<and> ev_Log e = ev_Log event \<and>
    ev_Receipt e = ev_Receipt event \<and> ev_Attributes e = ev_Attributes event"
  using assms by (simp add: applyConnectionPrincipal_def Let_def with_device_uuid_def with_client_id_def)

lemma put_if_fields [simp]:
  "ev_Log (put_if k v e) = ev_Log e" "ev_Receipt (put_if k v e) = ev_Receipt e"
  "ev_Log (put_header k v e) = ev_Log e" "ev_Receipt (put_header k v e) = ev_Receipt e"
  by (simp_all add: put_if_def put_header_def)

lemma goster_event_fields [simp]:
  "ev_Log (goster_event M u t raw ct pl msg rcv) = None" "ev_Receipt (goster_event M u t raw ct pl msg rcv) = None"
  by (simp_all add: goster_event_def baseEvent_def Let_def no_event_def)

lemma goster_kind_telemetry:
  assumes "normalizeKind kind = ''telemetry''" and "metricArray M now pl t @ flatMetrics pl t = pts" and "pts \<noteq> []"
  shows "goster_kind M now kind raw pl t e = e\<lparr>ev_Kind := ''telemetry'', ev_Metrics := pts\<rparr>"
  using assms by (auto simp: goster_kind_def Let_def)

lemma Map_telemetry:
  assumes "topicRest (cleanTopic (im_Topic msg)) (mt_BaseTopic (mr_cfg M)) = Some (u # k # deeper)"
    and "TrimSpace u \<noteq> []" and "TrimSpace k \<noteq> []" and "normalizeKind (TrimSpace k) = ''telemetry''"
    and rcv: "rcv = (if im_ReceivedAt msg = zero_time then now else im_ReceivedAt msg)"
    and pl: "pl = parseObject (im_Payload msg)" and t: "t = observedTime now pl rcv"
    and pts: "pts = metricArray M now pl t @ flatMetrics pl t" "pts \<noteq> []"
    and tok: "stringValue M pl [''token'', ''device_token'', ''password''] = []"
  shows "\<exists>e. Map M now msg = Inr \<lparr>mm_Event = e, mm_Token = []\<rparr> \<and> ev_Kind e = ''telemetry'' \<and> ev_Metrics e = pts \<and>
    ev_Log e = None \<and> ev_Receipt e = None"
proof -
  have c: "cleanTopic (im_Topic msg) \<noteq> []"
    using assms(1) by (auto simp: topicRest_def splitTopic_def cleanTopic_def Let_def split: if_splits)
  note g = goster_kind_telemetry [OF assms(4) pts(1) [symmetric] pts(2)]
  show ?thesis
    using assms(1-3) c tok
    by (simp add: Map_def mapGoster_def Let_def rcv [symmetric] pl [symmetric] t [symmetric] g del: stringValue.simps)
qed


definition quoted :: "string \<Rightarrow> string" where
  "quoted s = [CHR 34] @ s @ [CHR 34]"

definition example_reading :: inbound_message where
  "example_reading =
     \<lparr>im_Topic = ''goster/v1/d1/telemetry'',
      im_Payload = bytes_of_string (''{'' @ quoted ''temperature'' @ '':1.5,'' @ quoted ''humidity'' @ '': 40}''),
      im_QoS = 1, im_Retained = False, im_Duplicate = False, im_ReceivedAt = 5000000000, im_ClientID = ''d1'',
      im_Username = [], im_AuthUUID = ''d1'', im_AuthTenant = [], im_RemoteAddr = [], im_LocalAddr = []\<rparr>"


end
