(* ===== verification/MqttExternal.thy ===== *)
theory MqttExternal
  imports MqttAdapter
begin

text \<open>
  The adapter as a client of another MQTT broker: \<open>startExternalClient\<close> of
  \<^verbatim>\<open>internal/adapter/mqtt/adapter.go\<close>. The client library calls back when it has connected and for
  every message; the loop of the adapter takes messages from a channel of limited size. The steps are
  those callbacks, the loop and the ticks of the downlink loop.
\<close>

record paho_message =
  pm_Topic :: string
  pm_Payload :: bytes
  pm_Qos :: byte
  pm_Retained :: bool
  pm_Duplicate :: bool

record 'w external_client =
  xc_topics :: "(string \<times> byte) list"
  xc_messages :: "inbound_message list"
  xc_adapter :: "'w mqtt_state"

definition subscriptions :: "mqtt_config \<Rightarrow> string list" where
  "subscriptions cfg = filter (\<lambda>t. t \<noteq> []) (map TrimSpace (mt_SubscribeTopics cfg))"

text \<open>Which subscriptions the broker confirms in time is an argument; those of earlier connections last.\<close>

definition on_connect :: "mqtt_config \<Rightarrow> (string \<Rightarrow> bool) \<Rightarrow> 'w external_client \<Rightarrow> 'w external_client" where
  "on_connect cfg confirmed x =
     x\<lparr>xc_topics := xc_topics x @ map (\<lambda>t. (t, mt_QoS cfg)) (filter confirmed (subscriptions cfg))\<rparr>"

definition inbound :: "paho_message \<Rightarrow> time \<Rightarrow> inbound_message" where
  "inbound m now =
     \<lparr>im_Topic = pm_Topic m, im_Payload = pm_Payload m, im_QoS = pm_Qos m, im_Retained = pm_Retained m,
      im_Duplicate = pm_Duplicate m, im_ReceivedAt = now, im_ClientID = [], im_Username = [],
      im_AuthUUID = [], im_AuthTenant = [], im_RemoteAddr = [], im_LocalAddr = []\<rparr>"

text \<open>A full channel drops the message.\<close>

definition on_message :: "mqtt_config \<Rightarrow> paho_message \<Rightarrow> time \<Rightarrow> 'w external_client \<Rightarrow> 'w external_client" where
  "on_message cfg m now x =
     (if int (length (xc_messages x)) < mt_MessageBuffer cfg
      then x\<lparr>xc_messages := xc_messages x @ [inbound m now]\<rparr> else x)"

datatype external_step =
    Connects "string \<Rightarrow> bool" | Arrives paho_message time | Takes time | Ticks time

fun external_run :: "'w mqtt_env \<Rightarrow> external_step \<Rightarrow> 'w external_client \<Rightarrow> 'w external_client" where
  "external_run A (Connects confirmed) x = on_connect (me_cfg A) confirmed x"
| "external_run A (Arrives m now) x = on_message (me_cfg A) m now x"
| "external_run A (Takes now) x =
     (case xc_messages x of
        [] \<Rightarrow> x
      | msg # later \<Rightarrow> x\<lparr>xc_messages := later, xc_adapter := snd (handleMessage A msg now (xc_adapter x))\<rparr>)"
| "external_run A (Ticks now) x =
     (if mt_DownlinkEnabled (me_cfg A) then x\<lparr>xc_adapter := downlink_tick A now (xc_adapter x)\<rparr> else x)"

definition new_external :: "'w mqtt_state \<Rightarrow> 'w external_client" where
  "new_external s = \<lparr>xc_topics = [], xc_messages = [], xc_adapter = s\<rparr>"

text \<open>Connecting: a broker that does not answer in time or refuses ends \<open>Start\<close>.\<close>

definition external_Connect :: "bool \<Rightarrow> bool \<Rightarrow> 'w mqtt_state \<Rightarrow> 'w external_client result" where
  "external_Connect in_time refused s =
     (if \<not> in_time then Inl (ErrText ''mqtt connect timeout'')
      else if refused then Inl (ErrText ''mqtt connect'') else Inr (new_external s))"

section \<open>The channel\<close>

definition arrived :: "external_step \<Rightarrow> inbound_message list" where
  "arrived st = (case st of Arrives m now \<Rightarrow> [inbound m now] | _ \<Rightarrow> [])"

text \<open>The messages the loop has handled.\<close>

fun handled :: "'w mqtt_env \<Rightarrow> external_step list \<Rightarrow> 'w external_client \<Rightarrow> inbound_message list" where
  "handled A [] x = []"
| "handled A (st # sts) x =
     (case st of Takes _ \<Rightarrow> take 1 (xc_messages x) | _ \<Rightarrow> []) @ handled A sts (external_run A st x)"

text \<open>
  Messages are handled in the order in which they arrive, each at most once; the channel never holds
  more than it was made for, and none is lost as long as it has room.
\<close>

lemma external_step_messages:
  "(case st of Takes _ \<Rightarrow> take 1 (xc_messages x) | _ \<Rightarrow> []) @ xc_messages (external_run A st x) =
   xc_messages x @ (if int (length (xc_messages x)) < mt_MessageBuffer (me_cfg A) then arrived st else [])"
  by (cases st) (auto simp: on_connect_def on_message_def arrived_def split: list.splits)

lemma external_messages_subseq:
  "subseq (handled A sts x @ xc_messages (fold (external_run A) sts x)) (xc_messages x @ concat (map arrived sts))"
proof (induction sts arbitrary: x)
  case (Cons st sts)
  let ?taken = "case st of Takes _ \<Rightarrow> take 1 (xc_messages x) | _ \<Rightarrow> []" and ?y = "external_run A st x"
  have "subseq (?taken @ (handled A sts ?y @ xc_messages (fold (external_run A) sts ?y)))
      (?taken @ (xc_messages ?y @ concat (map arrived sts)))"
    by (rule list_emb_append_mono) (use Cons.IH in auto)
  moreover have "subseq (?taken @ xc_messages ?y @ concat (map arrived sts))
      (xc_messages x @ arrived st @ concat (map arrived sts))"
    unfolding append_assoc [symmetric] external_step_messages by (auto intro: list_emb_append_mono)
  ultimately show ?case by (auto intro: subseq_order.order_trans)
qed simp

lemma external_channel_bounded:
  "int (length (xc_messages x)) \<le> max 0 (mt_MessageBuffer (me_cfg A)) \<Longrightarrow>
   int (length (xc_messages (fold (external_run A) sts x))) \<le> max 0 (mt_MessageBuffer (me_cfg A))"
proof (induction sts arbitrary: x)
  case (Cons st sts)
  have "int (length (xc_messages (external_run A st x))) \<le> max 0 (mt_MessageBuffer (me_cfg A))"
    using Cons.prems by (cases st) (auto simp: on_connect_def on_message_def split: list.splits)
  with Cons.IH show ?case by simp
qed simp

lemma external_nothing_lost:
  "int (length (xc_messages x) + length sts) \<le> mt_MessageBuffer (me_cfg A) \<Longrightarrow>
   handled A sts x @ xc_messages (fold (external_run A) sts x) = xc_messages x @ concat (map arrived sts)"
proof (induction sts arbitrary: x)
  case (Cons st sts)
  let ?taken = "case st of Takes _ \<Rightarrow> take 1 (xc_messages x) | _ \<Rightarrow> []" and ?y = "external_run A st x"
  have step: "?taken @ xc_messages ?y = xc_messages x @ arrived st"
    using external_step_messages [of x st A] Cons.prems by simp
  have "length (xc_messages ?y) \<le> length (xc_messages x) + 1"
    by (cases st) (auto simp: on_connect_def on_message_def split: list.splits)
  then have IH: "handled A sts ?y @ xc_messages (fold (external_run A) sts ?y) = xc_messages ?y @ concat (map arrived sts)"
    using Cons.prems by (intro Cons.IH) simp
  have "handled A (st # sts) x @ xc_messages (fold (external_run A) (st # sts) x) =
      ?taken @ (handled A sts ?y @ xc_messages (fold (external_run A) sts ?y))" by simp
  also have "\<dots> = (?taken @ xc_messages ?y) @ concat (map arrived sts)" unfolding IH by (rule append_assoc [symmetric])
  also have "\<dots> = xc_messages x @ concat (map arrived (st # sts))" unfolding step by simp
  finally show ?case .
qed simp

end
