(* ===== verification/Http.thy ===== *)
theory Http
  imports AdapterTypes CoreTypes
begin

text \<open>
  What the web layer uses of net/http, net/url, net and encoding/json: a request as the handler
  sees it, a response, and \<^verbatim>\<open>DecodeBody\<close> of \<^verbatim>\<open>web/v1/params.go\<close>. The header is the function
  \<open>Header.Get\<close>, the query the function \<open>URL.Query().Get\<close>, and the body the document the
  JSON scanner makes of the first \<open>maxBodyBytes\<close> bytes, with the bytes that follow it.
\<close>

section \<open>Requests and responses\<close>

datatype http_method = GET | HEAD | POST | PUT | PATCH | DELETE | OPTIONS | OtherMethod string

record request =
  rq_method :: http_method
  rq_path :: string
  rq_header :: "string \<Rightarrow> string"
  rq_query :: "string \<Rightarrow> string"
  rq_cookie :: "string \<Rightarrow> string option"
  rq_host :: string
  rq_remoteAddr :: string
  rq_tls :: bool
  rq_body :: "int \<Rightarrow> (json \<times> bool) option"
  rq_raw :: "string \<Rightarrow> bytes"

text \<open>
  \<open>rq_body n\<close> is the first JSON value within \<open>n\<close> bytes and whether only white space follows it;
  \<open>rq_raw k\<close> is the text of that value's member \<open>k\<close>, which a raw field keeps as it stands.
  A response is its status and business code, the error detail, the data, the headers the model
  keeps (the cross-origin ones, \<open>Retry-After\<close> and the CSRF cookie), and what it does to the login
  session.
\<close>

record error_detail =
  er_Type :: string
  er_Field :: string

datatype payload =
    PNull | PBool bool | PInt int | PFloat float32 | PText string | PTime time
  | PList "payload list" | PMap "(string \<times> payload) list"

datatype session_change = SessionKept | SessionSet string | SessionCleared

record response =
  rs_status :: nat
  rs_code :: int
  rs_error :: "error_detail option"
  rs_body :: payload
  rs_headers :: "(string \<times> string) list"
  rs_session :: session_change

definition respond :: "nat \<Rightarrow> payload \<Rightarrow> response" where
  "respond status data = \<lparr>rs_status = status, rs_code = 0, rs_error = None, rs_body = data, rs_headers = [],
      rs_session = SessionKept\<rparr>"

definition ok_response :: "payload \<Rightarrow> response" where
  "ok_response data = respond 200 data"

definition NoContent :: response where
  "NoContent = respond 204 PNull"

definition error_response :: "nat \<Rightarrow> int \<Rightarrow> string \<Rightarrow> string \<Rightarrow> response" where
  "error_response status code typ field =
     \<lparr>rs_status = status, rs_code = code, rs_error = Some \<lparr>er_Type = typ, er_Field = field\<rparr>,
      rs_body = PNull, rs_headers = [], rs_session = SessionKept\<rparr>"

definition MethodNotAllowed :: response where
  "MethodNotAllowed = error_response 405 40501 ''method_not_allowed'' []"

definition InternalError :: "int \<Rightarrow> response" where
  "InternalError code = error_response 500 code ''internal_error'' []"

definition success :: "response \<Rightarrow> bool" where
  "success r \<longleftrightarrow> rs_status r < 400"

lemma success_simps [simp]:
  "success (ok_response x)" "success NoContent" "success (respond n x) = (n < 400)"
  "success (error_response n c t f) = (n < 400)" "\<not> success MethodNotAllowed" "\<not> success (InternalError c)"
  by (simp_all add: success_def ok_response_def NoContent_def respond_def error_response_def
      MethodNotAllowed_def InternalError_def)

section \<open>Bodies\<close>

text \<open>
  \<open>Decode\<close> of an object into a struct: every key must name a field, letter case aside, and the
  value must have the field's type; null leaves the field as it is, a pointer field excepted. A
  later key overwrites an earlier one. The result gives the fields that are set.
\<close>

datatype field_kind = KString | KStringPtr | KBool | KMap | KRaw

datatype field_value = FString string | FBool bool | FMap any_map | FRaw json

definition lookup_field :: "(string \<times> field_kind) list \<Rightarrow> string \<Rightarrow> (string \<times> field_kind) option" where
  "lookup_field spec k =
     (case find (\<lambda>(n, _). n = k) spec of Some f \<Rightarrow> Some f
      | None \<Rightarrow> find (\<lambda>(n, _). EqualFold k n) spec)"

definition decode_value :: "field_kind \<Rightarrow> json \<Rightarrow> field_value option option" where
  "decode_value kind v =
     (case (kind, v) of
        (KRaw, j) \<Rightarrow> Some (Some (FRaw j))
      | (_, JNull) \<Rightarrow> Some None
      | (KString, JString s) \<Rightarrow> Some (Some (FString s))
      | (KStringPtr, JString s) \<Rightarrow> Some (Some (FString s))
      | (KBool, JBool b) \<Rightarrow> Some (Some (FBool b))
      | (KMap, JObject kvs) \<Rightarrow> Some (Some (FMap kvs))
      | _ \<Rightarrow> None)"

fun decode_fields ::
    "(string \<times> field_kind) list \<Rightarrow> (string \<times> json) list \<Rightarrow> (string \<Rightarrow> field_value option) \<Rightarrow>
     (string \<Rightarrow> field_value option) option" where
  "decode_fields spec [] out = Some out"
| "decode_fields spec ((k, v) # kvs) out =
     (case lookup_field spec k of
        None \<Rightarrow> None
      | Some (n, kind) \<Rightarrow>
          (case decode_value kind v of
             None \<Rightarrow> None
           | Some None \<Rightarrow>
               decode_fields spec kvs (if kind = KStringPtr \<or> kind = KMap then out(n := None) else out)
           | Some (Some x) \<Rightarrow> decode_fields spec kvs (out(n \<mapsto> x))))"

definition DecodeBody ::
    "request \<Rightarrow> (string \<times> field_kind) list \<Rightarrow> int \<Rightarrow> (string \<Rightarrow> field_value option) option" where
  "DecodeBody r spec maxBodyBytes =
     (case rq_body r maxBodyBytes of
        None \<Rightarrow> None
      | Some (doc, at_end) \<Rightarrow>
          (case (case doc of JObject kvs \<Rightarrow> decode_fields spec kvs (\<lambda>_. None)
                 | JNull \<Rightarrow> Some (\<lambda>_. None) | _ \<Rightarrow> None) of
             None \<Rightarrow> None
           | Some out \<Rightarrow> if at_end then Some out else None))"

definition field_text :: "(string \<Rightarrow> field_value option) \<Rightarrow> string \<Rightarrow> string" where
  "field_text out n = (case out n of Some (FString s) \<Rightarrow> s | _ \<Rightarrow> [])"

definition field_bool :: "(string \<Rightarrow> field_value option) \<Rightarrow> string \<Rightarrow> bool" where
  "field_bool out n = (case out n of Some (FBool b) \<Rightarrow> b | _ \<Rightarrow> False)"

section \<open>Escaped path segments and addresses\<close>

definition unhex :: "char \<Rightarrow> nat option" where
  "unhex c =
     (let n = (of_char c :: nat)
      in if 48 \<le> n \<and> n \<le> 57 then Some (n - 48)
         else if 97 \<le> n \<and> n \<le> 102 then Some (n - 87)
         else if 65 \<le> n \<and> n \<le> 70 then Some (n - 55)
         else None)"

fun PathUnescape :: "string \<Rightarrow> string option" where
  "PathUnescape [] = Some []"
| "PathUnescape (c # s) =
     (if c = CHR ''%'' then
        (case s of
           a # b # r \<Rightarrow>
             (case (unhex a, unhex b) of
                (Some x, Some y) \<Rightarrow> map_option (Cons (char_of (16 * x + y))) (PathUnescape r)
              | _ \<Rightarrow> None)
         | _ \<Rightarrow> None)
      else map_option (Cons c) (PathUnescape s))"

text \<open>The last position of a byte, and the host \<open>net.SplitHostPort\<close> finds.\<close>

definition last_index :: "char \<Rightarrow> string \<Rightarrow> nat option" where
  "last_index c s =
     (if c \<in> set s then Some (length s - 1 - length (takeWhile (\<lambda>x. x \<noteq> c) (rev s))) else None)"

definition first_index :: "char \<Rightarrow> string \<Rightarrow> nat option" where
  "first_index c s = (if c \<in> set s then Some (length (takeWhile (\<lambda>x. x \<noteq> c) s)) else None)"

definition SplitHost :: "string \<Rightarrow> string option" where
  "SplitHost hostport =
     (case last_index CHR '':'' hostport of
        None \<Rightarrow> None
      | Some i \<Rightarrow>
          if hd hostport = CHR ''['' then
            (case first_index CHR '']'' hostport of
               None \<Rightarrow> None
             | Some close \<Rightarrow>
                 if close + 1 \<noteq> i then None
                 else if CHR ''['' \<in> set (drop 1 hostport) \<or> CHR '']'' \<in> set (drop (close + 1) hostport)
                 then None
                 else Some (take (close - 1) (drop 1 hostport)))
          else
            (let host = take i hostport
             in if CHR '':'' \<in> set host \<or> CHR ''['' \<in> set hostport \<or> CHR '']'' \<in> set hostport
                then None else Some host))"

text \<open>Loopback addresses of both families, a host without a port, too many colons.\<close>

lemma SplitHost_examples:
  "SplitHost ''10.0.0.7:443'' = Some ''10.0.0.7''"
  "SplitHost ''[::1]:80'' = Some ''::1''"
  "SplitHost ''10.0.0.7'' = None"
  "SplitHost ''::1:80'' = None"
  "SplitHost ''[::1]'' = None"
  by code_simp+

lemma PathUnescape_plain: "CHR ''%'' \<notin> set s \<Longrightarrow> PathUnescape s = Some s"
  by (induction s) auto

text \<open>The segments of a path below a prefix: \<open>Split(Trim(TrimPrefix(path, prefix), "/"), "/")\<close>.\<close>

definition path_parts :: "string \<Rightarrow> string \<Rightarrow> string list" where
  "path_parts pre path = Split CHR ''/'' (Trim (TrimPrefix path pre) ''/'')"

lemma path_parts_not_Nil [simp]: "path_parts p s \<noteq> []"
  by (simp add: path_parts_def)

end
