(* ===== verification/AppConfig.thy ===== *)
theory AppConfig
  imports GoStrconv
begin

text \<open>
  \<^verbatim>\<open>go/src/config/app_config.go\<close>: the configuration of the core service, its defaults and its
  normal form, and how it is read. The settings library is a parameter: \<open>v_string\<close>, \<open>v_int\<close>
  and \<open>v_bool\<close> are the values it finds for a key, after the defaults and the environment bindings
  the code registers with it, which are the tables \<open>setting_defaults\<close> and \<open>env_bindings\<close>.
\<close>

section \<open>Configuration records\<close>

record db_config =
  db_Driver :: string
  db_Path :: string
  db_DSN :: string
  db_SchemaMode :: string

record page_config =
  pg_DefaultSize :: int
  pg_MaxSize :: int

record limit_config =
  lm_Default :: int
  lm_Max :: int

record metrics_config =
  mc_MinValidTimestampMs :: int
  mc_DefaultRangeLabel :: string

record login_protection =
  lp_MaxFailures :: int
  lp_Window :: duration
  lp_Lockout :: duration

record web_config =
  wc_HTTPAddr :: string
  wc_APICORSAllowOrigins :: string
  wc_MaxAPIBodyBytes :: int
  wc_DeviceListPage :: page_config
  wc_Metrics :: metrics_config
  wc_LoginProtection :: login_protection

record auth_config =
  ac_RootURL :: string
  ac_CookieSecure :: bool
  ac_GitHubClientID :: string
  ac_GitHubClientSecret :: string
  ac_SessionCookieMaxAgeSeconds :: int
  ac_RememberCookieMaxAgeSeconds :: int

record captcha_config =
  cp_Provider :: string
  cp_SiteKey :: string
  cp_SecretKey :: string
  cp_VerifyTimeout :: duration

record device_manager_config =
  dc_QueueCapacity :: int
  dc_HeartbeatDeadline :: duration
  dc_ExternalListPage :: page_config
  dc_ExternalObservationLimit :: limit_config

record logger_config =
  lc_Level :: string
  lc_Format :: string
  lc_AddSource :: bool
  lc_Service :: string
  lc_Env :: string

record app_config =
  cfg_DB :: db_config
  cfg_Web :: web_config
  cfg_Auth :: auth_config
  cfg_IngressToken :: string
  cfg_Captcha :: captcha_config
  cfg_DeviceManager :: device_manager_config
  cfg_Logger :: logger_config

section \<open>Defaults\<close>

definition DefaultDBConfig :: db_config where
  "DefaultDBConfig = \<lparr>db_Driver = ''sqlite'', db_Path = ''./data.db'', db_DSN = [],
     db_SchemaMode = ''bootstrap''\<rparr>"

definition DefaultWebConfig :: web_config where
  "DefaultWebConfig =
     \<lparr>wc_HTTPAddr = '':8080'',
      wc_APICORSAllowOrigins = ''http://localhost:3000,http://127.0.0.1:3000'',
      wc_MaxAPIBodyBytes = 1048576,
      wc_DeviceListPage = \<lparr>pg_DefaultSize = 100, pg_MaxSize = 1000\<rparr>,
      wc_Metrics = \<lparr>mc_MinValidTimestampMs = 1672531200000, mc_DefaultRangeLabel = ''1h''\<rparr>,
      wc_LoginProtection =
        \<lparr>lp_MaxFailures = 5, lp_Window = 10 * minute, lp_Lockout = 15 * minute\<rparr>\<rparr>"

definition DefaultAuthConfig :: auth_config where
  "DefaultAuthConfig =
     \<lparr>ac_RootURL = ''http://localhost:8080'', ac_CookieSecure = False, ac_GitHubClientID = [],
      ac_GitHubClientSecret = [], ac_SessionCookieMaxAgeSeconds = 0,
      ac_RememberCookieMaxAgeSeconds = 86400 * 30\<rparr>"

definition DefaultCaptchaConfig :: captcha_config where
  "DefaultCaptchaConfig =
     \<lparr>cp_Provider = [], cp_SiteKey = [], cp_SecretKey = [], cp_VerifyTimeout = 5 * second\<rparr>"

definition DefaultDeviceManagerConfig :: device_manager_config where
  "DefaultDeviceManagerConfig =
     \<lparr>dc_QueueCapacity = 100, dc_HeartbeatDeadline = 60 * second,
      dc_ExternalListPage = \<lparr>pg_DefaultSize = 100, pg_MaxSize = 1000\<rparr>,
      dc_ExternalObservationLimit = \<lparr>lm_Default = 1000, lm_Max = 10000\<rparr>\<rparr>"

definition DefaultLoggerConfig :: logger_config where
  "DefaultLoggerConfig =
     \<lparr>lc_Level = ''info'', lc_Format = ''text'', lc_AddSource = False, lc_Service = ''goster-iot'',
      lc_Env = ''dev''\<rparr>"

definition DefaultAppConfig :: app_config where
  "DefaultAppConfig =
     \<lparr>cfg_DB = DefaultDBConfig, cfg_Web = DefaultWebConfig, cfg_Auth = DefaultAuthConfig,
      cfg_IngressToken = [], cfg_Captcha = DefaultCaptchaConfig,
      cfg_DeviceManager = DefaultDeviceManagerConfig, cfg_Logger = DefaultLoggerConfig\<rparr>"

section \<open>Normal forms\<close>

definition normalizeOrDefault :: "string \<Rightarrow> string \<Rightarrow> string" where
  "normalizeOrDefault raw fallback = (let s = TrimSpace raw in if s = [] then fallback else s)"

definition normalizePositiveInt :: "int \<Rightarrow> int \<Rightarrow> int" where
  "normalizePositiveInt raw fallback = (if raw \<le> 0 then fallback else raw)"

definition normalizeZeroOrPositiveInt :: "int \<Rightarrow> int \<Rightarrow> int" where
  "normalizeZeroOrPositiveInt raw fallback = (if raw < 0 then fallback else raw)"

definition normalizeLogLevel :: "string \<Rightarrow> string" where
  "normalizeLogLevel raw =
     (let s = ToLower (TrimSpace raw)
      in if s \<in> {''debug'', ''info'', ''warn'', ''error''} then s else ''info'')"

definition normalizeLogFormat :: "string \<Rightarrow> string" where
  "normalizeLogFormat raw =
     (let s = ToLower (TrimSpace raw) in if s \<in> {''json'', ''text''} then s else ''text'')"

definition normalizeMetricsRangeLabel :: "string \<Rightarrow> string" where
  "normalizeMetricsRangeLabel raw =
     (let s = TrimSpace raw
      in if s \<in> {''1h'', ''6h'', ''24h'', ''7d'', ''all''} then s else ''1h'')"

definition normalizeDBSchemaMode :: "string \<Rightarrow> string \<Rightarrow> string" where
  "normalizeDBSchemaMode raw fallback =
     (let s = ToLower (TrimSpace raw) in if s \<in> {''bootstrap'', ''managed''} then s else fallback)"

definition normalize_page :: "page_config \<Rightarrow> page_config \<Rightarrow> page_config" where
  "normalize_page base p =
     (let d = normalizePositiveInt (pg_DefaultSize p) (pg_DefaultSize base);
          m = normalizePositiveInt (pg_MaxSize p) (pg_MaxSize base)
      in \<lparr>pg_DefaultSize = (if d > m then m else d), pg_MaxSize = m\<rparr>)"

definition normalize_limit :: "limit_config \<Rightarrow> limit_config \<Rightarrow> limit_config" where
  "normalize_limit base p =
     (let d = normalizePositiveInt (lm_Default p) (lm_Default base);
          m = normalizePositiveInt (lm_Max p) (lm_Max base)
      in \<lparr>lm_Default = (if d > m then m else d), lm_Max = m\<rparr>)"

definition NormalizeWebConfig :: "web_config \<Rightarrow> web_config" where
  "NormalizeWebConfig cfg =
     (let base = DefaultWebConfig; lp = wc_LoginProtection cfg; blp = wc_LoginProtection base
      in \<lparr>wc_HTTPAddr = normalizeOrDefault (wc_HTTPAddr cfg) (wc_HTTPAddr base),
          wc_APICORSAllowOrigins =
            normalizeOrDefault (wc_APICORSAllowOrigins cfg) (wc_APICORSAllowOrigins base),
          wc_MaxAPIBodyBytes = normalizePositiveInt (wc_MaxAPIBodyBytes cfg) (wc_MaxAPIBodyBytes base),
          wc_DeviceListPage = normalize_page (wc_DeviceListPage base) (wc_DeviceListPage cfg),
          wc_Metrics =
            \<lparr>mc_MinValidTimestampMs = normalizePositiveInt (mc_MinValidTimestampMs (wc_Metrics cfg))
               (mc_MinValidTimestampMs (wc_Metrics base)),
             mc_DefaultRangeLabel =
               normalizeMetricsRangeLabel (mc_DefaultRangeLabel (wc_Metrics cfg))\<rparr>,
          wc_LoginProtection =
            \<lparr>lp_MaxFailures = normalizePositiveInt (lp_MaxFailures lp) (lp_MaxFailures blp),
             lp_Window = (if lp_Window lp \<le> 0 then lp_Window blp else lp_Window lp),
             lp_Lockout = (if lp_Lockout lp \<le> 0 then lp_Lockout blp else lp_Lockout lp)\<rparr>\<rparr>)"

definition NormalizeAuthConfig :: "auth_config \<Rightarrow> auth_config" where
  "NormalizeAuthConfig cfg =
     (let base = DefaultAuthConfig
      in cfg\<lparr>ac_RootURL := normalizeOrDefault (ac_RootURL cfg) (ac_RootURL base),
             ac_SessionCookieMaxAgeSeconds := normalizeZeroOrPositiveInt
               (ac_SessionCookieMaxAgeSeconds cfg) (ac_SessionCookieMaxAgeSeconds base),
             ac_RememberCookieMaxAgeSeconds := normalizePositiveInt
               (ac_RememberCookieMaxAgeSeconds cfg) (ac_RememberCookieMaxAgeSeconds base)\<rparr>)"

definition NormalizeCaptchaConfig :: "captcha_config \<Rightarrow> captcha_config" where
  "NormalizeCaptchaConfig cfg =
     (if cp_VerifyTimeout cfg \<le> 0
      then cfg\<lparr>cp_VerifyTimeout := cp_VerifyTimeout DefaultCaptchaConfig\<rparr> else cfg)"

definition NormalizeDeviceManagerConfig :: "device_manager_config \<Rightarrow> device_manager_config" where
  "NormalizeDeviceManagerConfig cfg =
     (let base = DefaultDeviceManagerConfig
      in \<lparr>dc_QueueCapacity = normalizePositiveInt (dc_QueueCapacity cfg) (dc_QueueCapacity base),
          dc_HeartbeatDeadline = (if dc_HeartbeatDeadline cfg \<le> 0 then dc_HeartbeatDeadline base
                                  else dc_HeartbeatDeadline cfg),
          dc_ExternalListPage = normalize_page (dc_ExternalListPage base) (dc_ExternalListPage cfg),
          dc_ExternalObservationLimit =
            normalize_limit (dc_ExternalObservationLimit base) (dc_ExternalObservationLimit cfg)\<rparr>)"

definition NormalizeDBConfig :: "db_config \<Rightarrow> db_config" where
  "NormalizeDBConfig cfg =
     (let base = DefaultDBConfig; driver = ToLower (normalizeOrDefault (db_Driver cfg) (db_Driver base))
      in if driver \<in> {''postgres'', ''postgresql''} then
           \<lparr>db_Driver = ''postgres'', db_Path = TrimSpace (db_Path cfg),
            db_DSN = TrimSpace (db_DSN cfg),
            db_SchemaMode = normalizeDBSchemaMode (db_SchemaMode cfg) ''managed''\<rparr>
         else
           \<lparr>db_Driver = ''sqlite'', db_Path = normalizeOrDefault (db_Path cfg) (db_Path base),
            db_DSN = TrimSpace (db_DSN cfg),
            db_SchemaMode = normalizeDBSchemaMode (db_SchemaMode cfg) ''bootstrap''\<rparr>)"

definition ResolveCookieSecure :: "string \<Rightarrow> string \<Rightarrow> string \<Rightarrow> bool" where
  "ResolveCookieSecure rawCookieSecure rawEnv rawRootURL =
     (let raw = TrimSpace rawCookieSecure
      in case (if raw \<noteq> [] then ParseBool raw else None) of
           Some v \<Rightarrow> v
         | None \<Rightarrow>
             (let env = ToLower (TrimSpace rawEnv)
              in env = ''prod'' \<or> env = ''production'' \<or>
                 HasPrefix (ToLower (TrimSpace rawRootURL)) ''https://''))"

definition parseDurationOrDefault :: "string \<Rightarrow> duration \<Rightarrow> duration" where
  "parseDurationOrDefault raw fallback =
     (let val = TrimSpace raw
      in if val = [] then fallback
         else case ParseDuration val of
             None \<Rightarrow> fallback
           | Some d \<Rightarrow> if d \<le> 0 then fallback else d)"

section \<open>Loading\<close>

datatype setting = SText string | SInt int | SBool bool

definition setting_defaults :: "(string \<times> setting) list" where
  "setting_defaults =
     [(''db.driver'', SText ''sqlite''),
      (''db.path'', SText ''./data.db''),
      (''db.dsn'', SText []),
      (''web.http_addr'', SText '':8080''),
      (''web.api_cors_allow_origins'', SText ''http://localhost:3000,http://127.0.0.1:3000''),
      (''web.max_api_body_bytes'', SInt 1048576),
      (''web.device_list.default_page_size'', SInt 100),
      (''web.device_list.max_page_size'', SInt 1000),
      (''web.metrics.min_valid_timestamp_ms'', SInt 1672531200000),
      (''web.metrics.default_range_label'', SText ''1h''),
      (''web.login_protection.max_failures'', SInt 5),
      (''web.login_protection.window'', SText ''10m0s''),
      (''web.login_protection.lockout'', SText ''15m0s''),
      (''auth.root_url'', SText ''http://localhost:8080''),
      (''auth.session_cookie_max_age_seconds'', SInt 0),
      (''auth.remember_cookie_max_age_seconds'', SInt (86400 * 30)),
      (''ingress.token'', SText []),
      (''captcha.verify_timeout'', SText ''5s''),
      (''device_manager.queue_capacity'', SInt 100),
      (''device_manager.heartbeat_deadline'', SText ''60s''),
      (''device_manager.external_list.default_size'', SInt 100),
      (''device_manager.external_list.max_size'', SInt 1000),
      (''device_manager.external_observation.default_limit'', SInt 1000),
      (''device_manager.external_observation.max_limit'', SInt 10000),
      (''logger.level'', SText ''info''),
      (''logger.format'', SText ''text''),
      (''logger.add_source'', SBool False),
      (''logger.service'', SText ''goster-iot'')]"

definition env_bindings :: "(string \<times> string) list" where
  "env_bindings =
     [(''db.driver'', ''DB_DRIVER''),
      (''db.path'', ''DB_PATH''),
      (''db.dsn'', ''DB_DSN''),
      (''db.schema_mode'', ''DB_SCHEMA_MODE''),
      (''web.http_addr'', ''WEB_HTTP_ADDR''),
      (''web.api_cors_allow_origins'', ''API_CORS_ALLOW_ORIGINS''),
      (''web.max_api_body_bytes'', ''WEB_API_MAX_BODY_BYTES''),
      (''web.device_list.default_page_size'', ''WEB_DEVICE_LIST_DEFAULT_PAGE_SIZE''),
      (''web.device_list.max_page_size'', ''WEB_DEVICE_LIST_MAX_PAGE_SIZE''),
      (''web.metrics.min_valid_timestamp_ms'', ''WEB_METRICS_MIN_VALID_TIMESTAMP_MS''),
      (''web.metrics.default_range_label'', ''WEB_METRICS_DEFAULT_RANGE_LABEL''),
      (''web.login_protection.max_failures'', ''WEB_LOGIN_MAX_FAILURES''),
      (''web.login_protection.window'', ''WEB_LOGIN_WINDOW''),
      (''web.login_protection.lockout'', ''WEB_LOGIN_LOCKOUT''),
      (''auth.root_url'', ''AUTHBOSS_ROOT_URL''),
      (''auth.cookie_secure'', ''AUTH_COOKIE_SECURE''),
      (''auth.github_client_id'', ''GITHUB_CLIENT_ID''),
      (''auth.github_client_secret'', ''GITHUB_CLIENT_SECRET''),
      (''auth.session_cookie_max_age_seconds'', ''AUTH_SESSION_COOKIE_MAX_AGE_SECONDS''),
      (''auth.remember_cookie_max_age_seconds'', ''AUTH_REMEMBER_COOKIE_MAX_AGE_SECONDS''),
      (''ingress.token'', ''PROTOCOL_INGRESS_TOKEN''),
      (''captcha.provider'', ''CAPTCHA_PROVIDER''),
      (''captcha.site_key'', ''CF_SITE_KEY''),
      (''captcha.secret_key'', ''CF_SECRET_KEY''),
      (''captcha.verify_timeout'', ''CAPTCHA_VERIFY_TIMEOUT''),
      (''device_manager.queue_capacity'', ''DM_QUEUE_CAPACITY''),
      (''device_manager.heartbeat_deadline'', ''DM_HEARTBEAT_DEADLINE''),
      (''device_manager.external_list.default_size'', ''DM_EXTERNAL_LIST_DEFAULT_SIZE''),
      (''device_manager.external_list.max_size'', ''DM_EXTERNAL_LIST_MAX_SIZE''),
      (''device_manager.external_observation.default_limit'', ''DM_EXTERNAL_OBS_DEFAULT_LIMIT''),
      (''device_manager.external_observation.max_limit'', ''DM_EXTERNAL_OBS_MAX_LIMIT''),
      (''logger.level'', ''LOG_LEVEL''),
      (''logger.format'', ''LOG_FORMAT''),
      (''logger.add_source'', ''LOG_ADD_SOURCE''),
      (''logger.service'', ''LOG_SERVICE''),
      (''logger.env'', ''LOG_ENV''),
      (''app.env'', ''APP_ENV'')]"

text \<open>
  The settings library: a bound variable that is set and not empty, or else the default, or else the
  zero value. How it reads a number or a flag from the text of a variable is a parameter.
\<close>

record settings =
  v_string :: "string \<Rightarrow> string"
  v_int :: "string \<Rightarrow> int"
  v_bool :: "string \<Rightarrow> bool"

definition env_text :: "(string \<Rightarrow> string option) \<Rightarrow> string \<Rightarrow> string option" where
  "env_text env key =
     (case map_of env_bindings key of None \<Rightarrow> None
      | Some name \<Rightarrow> (case env name of Some s \<Rightarrow> if s = [] then None else Some s | None \<Rightarrow> None))"

definition prepareViper ::
    "(string \<Rightarrow> int) \<Rightarrow> (string \<Rightarrow> bool) \<Rightarrow> (string \<Rightarrow> string option) \<Rightarrow> settings" where
  "prepareViper to_int to_bool env =
     \<lparr>v_string = (\<lambda>k. case env_text env k of Some s \<Rightarrow> s
        | None \<Rightarrow> (case map_of setting_defaults k of Some (SText s) \<Rightarrow> s | _ \<Rightarrow> [])),
      v_int = (\<lambda>k. case env_text env k of Some s \<Rightarrow> to_int s
        | None \<Rightarrow> (case map_of setting_defaults k of Some (SInt n) \<Rightarrow> n | _ \<Rightarrow> 0)),
      v_bool = (\<lambda>k. case env_text env k of Some s \<Rightarrow> to_bool s
        | None \<Rightarrow> (case map_of setting_defaults k of Some (SBool b) \<Rightarrow> b | _ \<Rightarrow> False))\<rparr>"

definition raw_web_config :: "settings \<Rightarrow> web_config" where
  "raw_web_config v =
     (let base = DefaultWebConfig; blp = wc_LoginProtection base; bpg = wc_DeviceListPage base
      in \<lparr>wc_HTTPAddr = TrimSpace (v_string v ''web.http_addr''),
          wc_APICORSAllowOrigins = TrimSpace (v_string v ''web.api_cors_allow_origins''),
          wc_MaxAPIBodyBytes =
            normalizePositiveInt (v_int v ''web.max_api_body_bytes'') (wc_MaxAPIBodyBytes base),
          wc_DeviceListPage =
            \<lparr>pg_DefaultSize = normalizePositiveInt (v_int v ''web.device_list.default_page_size'')
               (pg_DefaultSize bpg),
             pg_MaxSize = normalizePositiveInt (v_int v ''web.device_list.max_page_size'') (pg_MaxSize bpg)\<rparr>,
          wc_Metrics =
            \<lparr>mc_MinValidTimestampMs = normalizePositiveInt
               (v_int v ''web.metrics.min_valid_timestamp_ms'') (mc_MinValidTimestampMs (wc_Metrics base)),
             mc_DefaultRangeLabel =
               normalizeMetricsRangeLabel (v_string v ''web.metrics.default_range_label'')\<rparr>,
          wc_LoginProtection =
            \<lparr>lp_MaxFailures = normalizePositiveInt (v_int v ''web.login_protection.max_failures'')
               (lp_MaxFailures blp),
             lp_Window =
               parseDurationOrDefault (v_string v ''web.login_protection.window'') (lp_Window blp),
             lp_Lockout =
               parseDurationOrDefault (v_string v ''web.login_protection.lockout'') (lp_Lockout blp)\<rparr>\<rparr>)"

definition raw_auth_config :: "settings \<Rightarrow> auth_config" where
  "raw_auth_config v =
     (let base = DefaultAuthConfig; rootURL = TrimSpace (v_string v ''auth.root_url'')
      in \<lparr>ac_RootURL = rootURL,
          ac_CookieSecure = ResolveCookieSecure (TrimSpace (v_string v ''auth.cookie_secure''))
            (TrimSpace (v_string v ''app.env'')) rootURL,
          ac_GitHubClientID = TrimSpace (v_string v ''auth.github_client_id''),
          ac_GitHubClientSecret = TrimSpace (v_string v ''auth.github_client_secret''),
          ac_SessionCookieMaxAgeSeconds = normalizeZeroOrPositiveInt
            (v_int v ''auth.session_cookie_max_age_seconds'') (ac_SessionCookieMaxAgeSeconds base),
          ac_RememberCookieMaxAgeSeconds = normalizePositiveInt
            (v_int v ''auth.remember_cookie_max_age_seconds'') (ac_RememberCookieMaxAgeSeconds base)\<rparr>)"

definition raw_device_manager_config :: "settings \<Rightarrow> device_manager_config" where
  "raw_device_manager_config v =
     (let base = DefaultDeviceManagerConfig; bpg = dc_ExternalListPage base;
          blm = dc_ExternalObservationLimit base
      in \<lparr>dc_QueueCapacity =
            normalizePositiveInt (v_int v ''device_manager.queue_capacity'') (dc_QueueCapacity base),
          dc_HeartbeatDeadline = parseDurationOrDefault
            (v_string v ''device_manager.heartbeat_deadline'') (dc_HeartbeatDeadline base),
          dc_ExternalListPage =
            \<lparr>pg_DefaultSize = normalizePositiveInt
               (v_int v ''device_manager.external_list.default_size'') (pg_DefaultSize bpg),
             pg_MaxSize = normalizePositiveInt
               (v_int v ''device_manager.external_list.max_size'') (pg_MaxSize bpg)\<rparr>,
          dc_ExternalObservationLimit =
            \<lparr>lm_Default = normalizePositiveInt
               (v_int v ''device_manager.external_observation.default_limit'') (lm_Default blm),
             lm_Max = normalizePositiveInt
               (v_int v ''device_manager.external_observation.max_limit'') (lm_Max blm)\<rparr>\<rparr>)"

definition logger_env :: "settings \<Rightarrow> string" where
  "logger_env v =
     (let e = TrimSpace (v_string v ''logger.env'');
          e = (if e = [] then TrimSpace (v_string v ''app.env'') else e)
      in if e = [] then lc_Env DefaultLoggerConfig else e)"

definition loadFromViper :: "settings \<Rightarrow> app_config" where
  "loadFromViper v =
     \<lparr>cfg_DB = NormalizeDBConfig
        \<lparr>db_Driver = TrimSpace (v_string v ''db.driver''), db_Path = TrimSpace (v_string v ''db.path''),
         db_DSN = TrimSpace (v_string v ''db.dsn''),
         db_SchemaMode = TrimSpace (v_string v ''db.schema_mode'')\<rparr>,
      cfg_Web = NormalizeWebConfig (raw_web_config v),
      cfg_Auth = NormalizeAuthConfig (raw_auth_config v),
      cfg_IngressToken = TrimSpace (v_string v ''ingress.token''),
      cfg_Captcha = NormalizeCaptchaConfig
        \<lparr>cp_Provider = TrimSpace (v_string v ''captcha.provider''),
         cp_SiteKey = TrimSpace (v_string v ''captcha.site_key''),
         cp_SecretKey = TrimSpace (v_string v ''captcha.secret_key''),
         cp_VerifyTimeout = parseDurationOrDefault (v_string v ''captcha.verify_timeout'')
           (cp_VerifyTimeout DefaultCaptchaConfig)\<rparr>,
      cfg_DeviceManager = NormalizeDeviceManagerConfig (raw_device_manager_config v),
      cfg_Logger =
        \<lparr>lc_Level = normalizeLogLevel (v_string v ''logger.level''),
         lc_Format = normalizeLogFormat (v_string v ''logger.format''),
         lc_AddSource = v_bool v ''logger.add_source'',
         lc_Service =
           normalizeOrDefault (v_string v ''logger.service'') (lc_Service DefaultLoggerConfig),
         lc_Env = normalizeOrDefault (logger_env v) (lc_Env DefaultLoggerConfig)\<rparr>\<rparr>"

definition Load ::
    "(string \<Rightarrow> int) \<Rightarrow> (string \<Rightarrow> bool) \<Rightarrow> (string \<Rightarrow> string option) \<Rightarrow> app_config" where
  "Load to_int to_bool env = loadFromViper (prepareViper to_int to_bool env)"

section \<open>Properties\<close>

definition page_ok :: "page_config \<Rightarrow> bool" where
  "page_ok p \<longleftrightarrow> 0 < pg_DefaultSize p \<and> pg_DefaultSize p \<le> pg_MaxSize p"

definition web_config_ok :: "web_config \<Rightarrow> bool" where
  "web_config_ok c \<longleftrightarrow>
     wc_HTTPAddr c \<noteq> [] \<and> TrimSpace (wc_HTTPAddr c) = wc_HTTPAddr c \<and>
     wc_APICORSAllowOrigins c \<noteq> [] \<and>
     TrimSpace (wc_APICORSAllowOrigins c) = wc_APICORSAllowOrigins c \<and>
     0 < wc_MaxAPIBodyBytes c \<and> page_ok (wc_DeviceListPage c) \<and>
     0 < mc_MinValidTimestampMs (wc_Metrics c) \<and>
     mc_DefaultRangeLabel (wc_Metrics c) \<in> {''1h'', ''6h'', ''24h'', ''7d'', ''all''} \<and>
     0 < lp_MaxFailures (wc_LoginProtection c) \<and> 0 < lp_Window (wc_LoginProtection c) \<and>
     0 < lp_Lockout (wc_LoginProtection c)"

definition app_config_ok :: "app_config \<Rightarrow> bool" where
  "app_config_ok c \<longleftrightarrow>
     (db_Driver (cfg_DB c) = ''postgres'' \<or> db_Driver (cfg_DB c) = ''sqlite'' \<and> db_Path (cfg_DB c) \<noteq> []) \<and>
     db_SchemaMode (cfg_DB c) \<in> {''bootstrap'', ''managed''} \<and>
     web_config_ok (cfg_Web c) \<and>
     ac_RootURL (cfg_Auth c) \<noteq> [] \<and> 0 \<le> ac_SessionCookieMaxAgeSeconds (cfg_Auth c) \<and>
     0 < ac_RememberCookieMaxAgeSeconds (cfg_Auth c) \<and>
     0 < cp_VerifyTimeout (cfg_Captcha c) \<and>
     0 < dc_QueueCapacity (cfg_DeviceManager c) \<and> 0 < dc_HeartbeatDeadline (cfg_DeviceManager c) \<and>
     page_ok (dc_ExternalListPage (cfg_DeviceManager c)) \<and>
     0 < lm_Default (dc_ExternalObservationLimit (cfg_DeviceManager c)) \<and>
     lm_Default (dc_ExternalObservationLimit (cfg_DeviceManager c)) \<le>
       lm_Max (dc_ExternalObservationLimit (cfg_DeviceManager c)) \<and>
     lc_Level (cfg_Logger c) \<in> {''debug'', ''info'', ''warn'', ''error''} \<and>
     lc_Format (cfg_Logger c) \<in> {''json'', ''text''} \<and>
     lc_Service (cfg_Logger c) \<noteq> [] \<and> lc_Env (cfg_Logger c) \<noteq> []"

lemma normalizeOrDefault_not_Nil: "f \<noteq> [] \<Longrightarrow> normalizeOrDefault raw f \<noteq> []"
  by (simp add: normalizeOrDefault_def Let_def)

lemma normalizeOrDefault_trim:
  "TrimSpace f = f \<Longrightarrow> TrimSpace (normalizeOrDefault raw f) = normalizeOrDefault raw f"
  by (simp add: normalizeOrDefault_def Let_def)

lemma normalizePositiveInt_pos: "0 < f \<Longrightarrow> 0 < normalizePositiveInt raw f"
  by (simp add: normalizePositiveInt_def)

lemma normalize_page_ok: "page_ok base \<Longrightarrow> page_ok (normalize_page base p)"
  by (auto simp: page_ok_def normalize_page_def normalizePositiveInt_def Let_def)

lemma parseDurationOrDefault_pos: "0 < f \<Longrightarrow> 0 < parseDurationOrDefault raw f"
  by (simp add: parseDurationOrDefault_def Let_def split: option.splits)

lemma default_web_values:
  "wc_HTTPAddr DefaultWebConfig \<noteq> []"
  "TrimSpace (wc_HTTPAddr DefaultWebConfig) = wc_HTTPAddr DefaultWebConfig"
  "wc_APICORSAllowOrigins DefaultWebConfig \<noteq> []"
  "TrimSpace (wc_APICORSAllowOrigins DefaultWebConfig) = wc_APICORSAllowOrigins DefaultWebConfig"
  "page_ok (wc_DeviceListPage DefaultWebConfig)"
  by code_simp+

text \<open>The normal form is well formed, and normalising it again changes nothing.\<close>

lemma NormalizeWebConfig_ok: "web_config_ok (NormalizeWebConfig c)"
proof -
  have "page_ok (wc_DeviceListPage (NormalizeWebConfig c))"
    by (simp add: NormalizeWebConfig_def Let_def normalize_page_ok default_web_values)
  moreover have "mc_DefaultRangeLabel (wc_Metrics (NormalizeWebConfig c))
      \<in> {''1h'', ''6h'', ''24h'', ''7d'', ''all''}"
    by (simp add: NormalizeWebConfig_def Let_def normalizeMetricsRangeLabel_def)
  moreover have "wc_HTTPAddr (NormalizeWebConfig c) \<noteq> []"
    "TrimSpace (wc_HTTPAddr (NormalizeWebConfig c)) = wc_HTTPAddr (NormalizeWebConfig c)"
    "wc_APICORSAllowOrigins (NormalizeWebConfig c) \<noteq> []"
    "TrimSpace (wc_APICORSAllowOrigins (NormalizeWebConfig c)) =
       wc_APICORSAllowOrigins (NormalizeWebConfig c)"
    using default_web_values
    by (simp_all add: NormalizeWebConfig_def Let_def normalizeOrDefault_not_Nil normalizeOrDefault_trim)
  moreover have "0 < wc_MaxAPIBodyBytes (NormalizeWebConfig c)"
    "0 < mc_MinValidTimestampMs (wc_Metrics (NormalizeWebConfig c))"
    "0 < lp_MaxFailures (wc_LoginProtection (NormalizeWebConfig c))"
    "0 < lp_Window (wc_LoginProtection (NormalizeWebConfig c))"
    "0 < lp_Lockout (wc_LoginProtection (NormalizeWebConfig c))"
    by (simp_all add: NormalizeWebConfig_def Let_def normalizePositiveInt_def DefaultWebConfig_def
        minute_def second_def)
  ultimately show ?thesis by (simp only: web_config_ok_def simp_thms)
qed

lemma range_label_fixed:
  "l \<in> {''1h'', ''6h'', ''24h'', ''7d'', ''all''} \<Longrightarrow> normalizeMetricsRangeLabel l = l"
proof -
  have "normalizeMetricsRangeLabel ''1h'' = ''1h''" "normalizeMetricsRangeLabel ''6h'' = ''6h''"
    "normalizeMetricsRangeLabel ''24h'' = ''24h''" "normalizeMetricsRangeLabel ''7d'' = ''7d''"
    "normalizeMetricsRangeLabel ''all'' = ''all''"
    by code_simp+
  moreover assume "l \<in> {''1h'', ''6h'', ''24h'', ''7d'', ''all''}"
  ultimately show ?thesis by (elim insertE emptyE) simp_all
qed

lemma normalize_page_fixed: "page_ok p \<Longrightarrow> normalize_page base p = p"
  by (simp add: page_ok_def normalize_page_def normalizePositiveInt_def Let_def)

lemma normalizeOrDefault_fixed: "s \<noteq> [] \<Longrightarrow> TrimSpace s = s \<Longrightarrow> normalizeOrDefault s f = s"
  by (simp add: normalizeOrDefault_def Let_def)

lemma NormalizeWebConfig_fixed: "web_config_ok c \<Longrightarrow> NormalizeWebConfig c = c"
  unfolding web_config_ok_def
  by (simp add: NormalizeWebConfig_def Let_def normalize_page_fixed normalizeOrDefault_fixed
      range_label_fixed normalizePositiveInt_def)

text \<open>The API normalises its configuration again at every use: that is the identity.\<close>

lemma NormalizeWebConfig_idem [simp]:
  "NormalizeWebConfig (NormalizeWebConfig c) = NormalizeWebConfig c"
  by (rule NormalizeWebConfig_fixed) (rule NormalizeWebConfig_ok)

lemma NormalizeDBConfig_ok:
  "db_Driver (NormalizeDBConfig c) = ''postgres'' \<or>
     db_Driver (NormalizeDBConfig c) = ''sqlite'' \<and> db_Path (NormalizeDBConfig c) \<noteq> []"
  "db_SchemaMode (NormalizeDBConfig c) \<in> {''bootstrap'', ''managed''}"
  by (simp_all add: NormalizeDBConfig_def Let_def DefaultDBConfig_def normalizeOrDefault_not_Nil
      normalizeDBSchemaMode_def)

lemma NormalizeDeviceManagerConfig_ok:
  "0 < dc_QueueCapacity (NormalizeDeviceManagerConfig c)"
  "0 < dc_HeartbeatDeadline (NormalizeDeviceManagerConfig c)"
  "page_ok (dc_ExternalListPage (NormalizeDeviceManagerConfig c))"
  "0 < lm_Default (dc_ExternalObservationLimit (NormalizeDeviceManagerConfig c))"
  "lm_Default (dc_ExternalObservationLimit (NormalizeDeviceManagerConfig c)) \<le>
     lm_Max (dc_ExternalObservationLimit (NormalizeDeviceManagerConfig c))"
  by (simp_all add: NormalizeDeviceManagerConfig_def Let_def DefaultDeviceManagerConfig_def
      normalizePositiveInt_def second_def normalize_page_def page_ok_def normalize_limit_def)

text \<open>whatever the environment holds and however the settings library reads numbers and
  flags, the configuration the service starts with is well formed: a known driver and schema mode,
  positive sizes, limits and durations, a default page no larger than the largest, a known range
  label, log level and log format, and no blank address, origin list or service name.\<close>

theorem loaded_config_ok: "app_config_ok (Load to_int to_bool env)"
proof -
  let ?v = "prepareViper to_int to_bool env"
  have cap: "0 < cp_VerifyTimeout (NormalizeCaptchaConfig c)" for c
    by (simp add: NormalizeCaptchaConfig_def DefaultCaptchaConfig_def second_def)
  have auth: "ac_RootURL (NormalizeAuthConfig c) \<noteq> []"
    "0 \<le> ac_SessionCookieMaxAgeSeconds (NormalizeAuthConfig c)"
    "0 < ac_RememberCookieMaxAgeSeconds (NormalizeAuthConfig c)" for c
    by (simp_all add: NormalizeAuthConfig_def Let_def DefaultAuthConfig_def normalizeOrDefault_not_Nil
        normalizeZeroOrPositiveInt_def normalizePositiveInt_def)
  have log: "normalizeLogLevel raw \<in> {''debug'', ''info'', ''warn'', ''error''}"
    "normalizeLogFormat raw \<in> {''json'', ''text''}"
    "normalizeOrDefault raw (lc_Service DefaultLoggerConfig) \<noteq> []"
    "normalizeOrDefault raw (lc_Env DefaultLoggerConfig) \<noteq> []" for raw
    by (simp_all add: normalizeLogLevel_def normalizeLogFormat_def Let_def DefaultLoggerConfig_def
        normalizeOrDefault_not_Nil)
  show ?thesis
    unfolding app_config_ok_def Load_def loadFromViper_def app_config.simps logger_config.simps
    by (intro conjI cap auth log NormalizeDBConfig_ok NormalizeWebConfig_ok NormalizeDeviceManagerConfig_ok)
qed

text \<open>with no variable set, the configuration that is loaded is the default configuration: the
  defaults registered with the settings library, as texts and numbers, agree with the default
  records.\<close>

theorem load_defaults: "Load to_int to_bool (\<lambda>_. None) = DefaultAppConfig"
proof -
  have s: "v_string (prepareViper to_int to_bool (\<lambda>_. None)) k =
      (case map_of setting_defaults k of Some (SText s) \<Rightarrow> s | _ \<Rightarrow> [])"
    "v_int (prepareViper to_int to_bool (\<lambda>_. None)) k =
      (case map_of setting_defaults k of Some (SInt n) \<Rightarrow> n | _ \<Rightarrow> 0)"
    "v_bool (prepareViper to_int to_bool (\<lambda>_. None)) k =
      (case map_of setting_defaults k of Some (SBool b) \<Rightarrow> b | _ \<Rightarrow> False)" for k
    by (simp_all add: prepareViper_def env_text_def split: option.splits)
  have "loadFromViper
      \<lparr>v_string = (\<lambda>k. case map_of setting_defaults k of Some (SText s) \<Rightarrow> s | _ \<Rightarrow> []),
       v_int = (\<lambda>k. case map_of setting_defaults k of Some (SInt n) \<Rightarrow> n | _ \<Rightarrow> 0),
       v_bool = (\<lambda>k. case map_of setting_defaults k of Some (SBool b) \<Rightarrow> b | _ \<Rightarrow> False)\<rparr>
     = DefaultAppConfig"
    by code_simp
  moreover have "prepareViper to_int to_bool (\<lambda>_. None) =
      \<lparr>v_string = (\<lambda>k. case map_of setting_defaults k of Some (SText s) \<Rightarrow> s | _ \<Rightarrow> []),
       v_int = (\<lambda>k. case map_of setting_defaults k of Some (SInt n) \<Rightarrow> n | _ \<Rightarrow> 0),
       v_bool = (\<lambda>k. case map_of setting_defaults k of Some (SBool b) \<Rightarrow> b | _ \<Rightarrow> False)\<rparr>"
    using s by (intro settings.equality) (simp_all add: fun_eq_iff)
  ultimately show ?thesis by (simp add: Load_def)
qed

end
