(* ===== verification/LoginGuard.thy ===== *)
theory LoginGuard
  imports Http AppConfig Database
begin

text \<open>
  \<^verbatim>\<open>web/v1/login_guard.go\<close> and its store \<^verbatim>\<open>login_attempt_store*.go\<close>: failed logins are counted
  per user name and address within a sliding window, and too many lock that pair out. The store
  prunes what it keeps; the reference it is compared with keeps everything.
\<close>

record login_attempt_snapshot =
  la_Failures :: "time list"
  la_LockedUntil :: time

definition no_attempts :: login_attempt_snapshot where
  "no_attempts = \<lparr>la_Failures = [], la_LockedUntil = zero_time\<rparr>"

record 's login_store_ops =
  ls_Snapshot :: "string \<Rightarrow> time \<Rightarrow> duration \<Rightarrow> (login_attempt_snapshot, 's) action"
  ls_RecordFailure :: "string \<Rightarrow> time \<Rightarrow> duration \<Rightarrow> duration \<Rightarrow> int \<Rightarrow> (unit, 's) action"
  ls_Reset :: "string \<Rightarrow> (unit, 's) action"

section \<open>The guard\<close>

record 's login_guard =
  lg_maxFailures :: int
  lg_window :: duration
  lg_lockout :: duration
  lg_store :: "'s login_store_ops"

definition newLoginAttemptGuard :: "login_protection \<Rightarrow> 's login_store_ops \<Rightarrow> 's login_guard" where
  "newLoginAttemptGuard cfg store =
     (let defaults = wc_LoginProtection DefaultWebConfig
      in \<lparr>lg_maxFailures = (if lp_MaxFailures cfg \<le> 0 then lp_MaxFailures defaults else lp_MaxFailures cfg),
          lg_window = (if lp_Window cfg \<le> 0 then lp_Window defaults else lp_Window cfg),
          lg_lockout = (if lp_Lockout cfg \<le> 0 then lp_Lockout defaults else lp_Lockout cfg),
          lg_store = store\<rparr>)"

definition loginAttemptIP :: "string \<Rightarrow> string" where
  "loginAttemptIP remoteAddr =
     (let a = TrimSpace remoteAddr
      in if a = [] then ''unknown''
         else case SplitHost a of
             Some host \<Rightarrow> if TrimSpace host \<noteq> [] then TrimSpace host else a
           | None \<Rightarrow> a)"

definition loginAttemptKey :: "string \<Rightarrow> string \<Rightarrow> string" where
  "loginAttemptKey username remoteAddr =
     (let u = ToLower (TrimSpace username)
      in (if u = [] then ''unknown'' else u) @ ''|'' @ loginAttemptIP remoteAddr)"

text \<open>Allow: how long to wait, and whether the attempt may go on.\<close>

definition Allow ::
    "'s login_guard \<Rightarrow> string \<Rightarrow> string \<Rightarrow> time \<Rightarrow> (duration \<times> bool, 's) action" where
  "Allow g username remoteAddr now =
     bindE (ls_Snapshot (lg_store g) (loginAttemptKey username remoteAddr) now (lg_window g))
       (\<lambda>state. if la_LockedUntil state > now then returnE (la_LockedUntil state - now, False)
                else returnE (0, True))"

definition RecordFailure :: "'s login_guard \<Rightarrow> string \<Rightarrow> string \<Rightarrow> time \<Rightarrow> (unit, 's) action" where
  "RecordFailure g username remoteAddr now =
     ls_RecordFailure (lg_store g) (loginAttemptKey username remoteAddr) now (lg_window g)
       (lg_lockout g) (lg_maxFailures g)"

definition Reset :: "'s login_guard \<Rightarrow> string \<Rightarrow> string \<Rightarrow> (unit, 's) action" where
  "Reset g username remoteAddr = ls_Reset (lg_store g) (loginAttemptKey username remoteAddr)"

text \<open>\<open>int(math.Ceil(d.Seconds()))\<close>\<close>

definition retryAfterSeconds :: "duration \<Rightarrow> int" where
  "retryAfterSeconds d = (if d \<le> 0 then 1 else (d + second - 1) div second)"

section \<open>The in-memory store\<close>

type_synonym attempts = "string \<Rightarrow> login_attempt_snapshot option"

definition pruned :: "time \<Rightarrow> duration \<Rightarrow> login_attempt_snapshot \<Rightarrow> login_attempt_snapshot" where
  "pruned now window st =
     \<lparr>la_Failures = filter (\<lambda>ts. now - window < ts) (la_Failures st),
      la_LockedUntil = (if la_LockedUntil st > now then la_LockedUntil st else zero_time)\<rparr>"

definition prunedState ::
    "string \<Rightarrow> time \<Rightarrow> duration \<Rightarrow> attempts \<Rightarrow> login_attempt_snapshot \<times> attempts" where
  "prunedState key now window s =
     (let state = pruned now window (case s key of None \<Rightarrow> no_attempts | Some st \<Rightarrow> st)
      in if la_Failures state = [] \<and> la_LockedUntil state = zero_time
         then (no_attempts, map_delete s key)
         else (state, s(key \<mapsto> state)))"

definition mem_Snapshot :: "string \<Rightarrow> time \<Rightarrow> duration \<Rightarrow> (login_attempt_snapshot, attempts) action" where
  "mem_Snapshot key now window s =
     (case prunedState key now window s of (state, s') \<Rightarrow> (Inr state, s'))"

definition mem_RecordFailure ::
    "string \<Rightarrow> time \<Rightarrow> duration \<Rightarrow> duration \<Rightarrow> int \<Rightarrow> (unit, attempts) action" where
  "mem_RecordFailure key now window lockout maxFailures s =
     (case prunedState key now window s of (state, s') \<Rightarrow>
        let state = state\<lparr>la_Failures := la_Failures state @ [now]\<rparr>;
            state = (if int (length (la_Failures state)) \<ge> maxFailures
                     then state\<lparr>la_LockedUntil := now + lockout\<rparr> else state)
        in (Inr (), s'(key \<mapsto> state)))"

definition mem_Reset :: "string \<Rightarrow> (unit, attempts) action" where
  "mem_Reset key s = (Inr (), map_delete s key)"

definition memory_login_store :: "attempts login_store_ops" where
  "memory_login_store =
     \<lparr>ls_Snapshot = mem_Snapshot, ls_RecordFailure = mem_RecordFailure, ls_Reset = mem_Reset\<rparr>"

section \<open>The contract of a store\<close>

text \<open>
  \<open>view s k\<close> is what the store knows of a key. A call that fails changes nothing it knows.
\<close>

locale login_attempt_store =
  fixes L :: "'s login_store_ops" and view :: "'s \<Rightarrow> string \<Rightarrow> login_attempt_snapshot"
  assumes snapshot_ok: "ls_Snapshot L k now w s = (Inr st, s') \<Longrightarrow>
      st = pruned now w (view s k) \<and> view s' = (view s)(k := st)"
    and snapshot_fail: "ls_Snapshot L k now w s = (Inl e, s') \<Longrightarrow> view s' = view s"
    and record_ok: "ls_RecordFailure L k now w l m s = (Inr x, s') \<Longrightarrow>
      view s' = (view s)(k :=
        (let st = pruned now w (view s k); fs = la_Failures st @ [now]
         in \<lparr>la_Failures = fs, la_LockedUntil = (if int (length fs) \<ge> m then now + l
                                                  else la_LockedUntil st)\<rparr>))"
    and record_fail: "ls_RecordFailure L k now w l m s = (Inl e, s') \<Longrightarrow> view s' = view s"
    and reset_ok: "ls_Reset L k s = (Inr x, s') \<Longrightarrow> view s' = (view s)(k := no_attempts)"
    and reset_fail: "ls_Reset L k s = (Inl e, s') \<Longrightarrow> view s' = view s"

definition attempts_view :: "attempts \<Rightarrow> string \<Rightarrow> login_attempt_snapshot" where
  "attempts_view s k = (case s k of None \<Rightarrow> no_attempts | Some st \<Rightarrow> st)"

lemma attempts_view_upd [simp]:
  "attempts_view (s(k \<mapsto> v)) = (attempts_view s)(k := v)"
  "attempts_view (map_delete s k) = (attempts_view s)(k := no_attempts)"
  by (simp_all add: fun_eq_iff attempts_view_def)

lemma prunedState_spec:
  assumes "prunedState key now window s = (st, s')"
  shows "st = pruned now window (attempts_view s key) \<and> attempts_view s' = (attempts_view s)(key := st)"
proof -
  let ?p = "pruned now window (attempts_view s key)"
  have "?p = no_attempts" if "la_Failures ?p = []" "la_LockedUntil ?p = zero_time"
    using that by (cases ?p) (simp add: no_attempts_def)
  moreover have "prunedState key now window s =
      (if la_Failures ?p = [] \<and> la_LockedUntil ?p = zero_time
       then (no_attempts, map_delete s key) else (?p, s(key \<mapsto> ?p)))"
    by (simp add: prunedState_def attempts_view_def Let_def)
  ultimately show ?thesis using assms by (auto split: if_splits)
qed

lemma mem_RecordFailure_view:
  assumes "mem_RecordFailure k now w l m s = (r, s')"
  shows "r = Inr () \<and> attempts_view s' = (attempts_view s)(k :=
        (let st = pruned now w (attempts_view s k); fs = la_Failures st @ [now]
         in \<lparr>la_Failures = fs, la_LockedUntil = (if int (length fs) \<ge> m then now + l
                                                  else la_LockedUntil st)\<rparr>))"
proof -
  obtain st s1 where p: "prunedState k now w s = (st, s1)" by (cases "prunedState k now w s")
  note v = prunedState_spec [OF p]
  have "(if int (length (la_Failures st @ [now])) \<ge> m
           then st\<lparr>la_Failures := la_Failures st @ [now], la_LockedUntil := now + l\<rparr>
           else st\<lparr>la_Failures := la_Failures st @ [now]\<rparr>) =
      \<lparr>la_Failures = la_Failures st @ [now], la_LockedUntil =
         (if int (length (la_Failures st @ [now])) \<ge> m then now + l else la_LockedUntil st)\<rparr>"
    by (cases st) simp
  with assms p v show ?thesis by (auto simp: mem_RecordFailure_def Let_def)
qed

interpretation mem_attempts: login_attempt_store memory_login_store attempts_view
proof unfold_locales
  fix k now w l m s st s' x
  show "ls_Snapshot memory_login_store k now w s = (Inr st, s') \<Longrightarrow>
      st = pruned now w (attempts_view s k) \<and> attempts_view s' = (attempts_view s)(k := st)"
    by (auto simp: memory_login_store_def mem_Snapshot_def dest: prunedState_spec split: prod.splits)
  show "ls_RecordFailure memory_login_store k now w l m s = (Inr x, s') \<Longrightarrow>
      attempts_view s' = (attempts_view s)(k :=
        (let st = pruned now w (attempts_view s k); fs = la_Failures st @ [now]
         in \<lparr>la_Failures = fs, la_LockedUntil = (if int (length fs) \<ge> m then now + l
                                                  else la_LockedUntil st)\<rparr>))"
    using mem_RecordFailure_view by (simp add: memory_login_store_def)
  show "ls_Reset memory_login_store k s = (Inr x, s') \<Longrightarrow>
      attempts_view s' = (attempts_view s)(k := no_attempts)"
    by (auto simp: memory_login_store_def mem_Reset_def)
qed (auto simp: memory_login_store_def mem_Snapshot_def mem_RecordFailure_def mem_Reset_def Let_def
      split: prod.splits)

section \<open>The reference: keep everything\<close>

datatype login_event = TryLogin string string | LoginFailed string string | LoginReset string string

fun event_key :: "login_event \<Rightarrow> string" where
  "event_key (TryLogin u a) = loginAttemptKey u a"
| "event_key (LoginFailed u a) = loginAttemptKey u a"
| "event_key (LoginReset u a) = loginAttemptKey u a"

definition guard_step :: "'s login_guard \<Rightarrow> time \<times> login_event \<Rightarrow> 's \<Rightarrow> 's" where
  "guard_step g te s =
     (case snd te of
        TryLogin u a \<Rightarrow> snd (Allow g u a (fst te) s)
      | LoginFailed u a \<Rightarrow> snd (RecordFailure g u a (fst te) s)
      | LoginReset u a \<Rightarrow> snd (Reset g u a s))"

text \<open>
  All failures of a key since it was last reset, and the end of its lock: each failure that is the
  \<open>m\<close>-th or later within the window before it locks the key for the lockout from then on.
\<close>

fun history_step ::
    "int \<Rightarrow> duration \<Rightarrow> duration \<Rightarrow> string \<Rightarrow> time \<times> login_event \<Rightarrow> time list \<times> time \<Rightarrow> time list \<times> time" where
  "history_step m w l k (t, TryLogin u a) h = h"
| "history_step m w l k (t, LoginFailed u a) (fs, lock) =
     (if loginAttemptKey u a \<noteq> k then (fs, lock)
      else (fs @ [t],
            if m \<le> int (length (filter (\<lambda>x. t - w < x) (fs @ [t]))) then t + l else lock))"
| "history_step m w l k (t, LoginReset u a) h = (if loginAttemptKey u a = k then ([], zero_time) else h)"

definition login_history ::
    "int \<Rightarrow> duration \<Rightarrow> duration \<Rightarrow> string \<Rightarrow> (time \<times> login_event) list \<Rightarrow> time list \<times> time" where
  "login_history m w l k es = fold (history_step m w l k) es ([], zero_time)"

text \<open>From \<open>now\<close> on, a snapshot and a history give the same answers.\<close>

definition agrees :: "duration \<Rightarrow> time \<Rightarrow> login_attempt_snapshot \<Rightarrow> time list \<times> time \<Rightarrow> bool" where
  "agrees w now st h \<longleftrightarrow>
     filter (\<lambda>x. now - w < x) (la_Failures st) = filter (\<lambda>x. now - w < x) (fst h) \<and>
     (if now < snd h then la_LockedUntil st = snd h else la_LockedUntil st \<le> now)"

lemma agrees_later:
  assumes "agrees w now st h" "now \<le> later"
  shows "agrees w later st h"
proof -
  have "filter (\<lambda>x. later - w < x) xs =
      filter (\<lambda>x. later - w < x) (filter (\<lambda>x. now - w < x) xs)" for xs
    using assms(2) by (auto simp: filter_filter intro!: filter_cong)
  with assms show ?thesis unfolding agrees_def by (smt (verit))
qed

lemma agrees_pruned: "agrees w now st h \<Longrightarrow> zero_time \<le> now \<Longrightarrow> agrees w now (pruned now w st) h"
  by (auto simp: agrees_def pruned_def)

lemma agrees_failure:
  assumes "agrees w now st (fs, lock)" "zero_time \<le> now" "0 < w" "0 < l" "la_Failures (pruned now w st) @ [now] = gs"
  shows "agrees w now \<lparr>la_Failures = gs, la_LockedUntil =
      (if m \<le> int (length gs) then now + l else la_LockedUntil (pruned now w st))\<rparr>
    (fs @ [now], if m \<le> int (length (filter (\<lambda>x. now - w < x) (fs @ [now]))) then now + l else lock)"
proof -
  from agrees_pruned [OF assms(1,2)] have "agrees w now (pruned now w st) (fs, lock)" .
  moreover have "filter (\<lambda>x. now - w < x) gs = gs" using assms(3,5) by (auto simp: pruned_def)
  moreover have "filter (\<lambda>x. now - w < x) (fs @ [now]) = gs"
    using assms(1,3,5) by (auto simp: agrees_def pruned_def)
  ultimately show ?thesis using assms(4) by (simp add: agrees_def)
qed

text \<open>A store that answers every call, as the one in memory does.\<close>

locale reliable_login_store = login_attempt_store L view
  for L :: "'s login_store_ops" and view +
  assumes snapshot_answers: "\<not> isl (fst (ls_Snapshot L k now w s))"
    and record_answers: "\<not> isl (fst (ls_RecordFailure L k now w l m s))"
    and reset_answers: "\<not> isl (fst (ls_Reset L k s))"
begin

lemma snapshot_result:
  "\<exists>s'. ls_Snapshot L k now w s = (Inr (pruned now w (view s k)), s') \<and>
        view s' = (view s)(k := pruned now w (view s k))"
proof -
  obtain r s' where p: "ls_Snapshot L k now w s = (r, s')" by (cases "ls_Snapshot L k now w s")
  with snapshot_answers [of k now w s] obtain st where "r = Inr st" by (cases r) auto
  with p snapshot_ok [of k now w s st s'] show ?thesis by simp
qed

lemma record_result:
  "view (snd (ls_RecordFailure L k now w l m s)) = (view s)(k :=
     (let st = pruned now w (view s k); fs = la_Failures st @ [now]
      in \<lparr>la_Failures = fs, la_LockedUntil = (if int (length fs) \<ge> m then now + l
                                               else la_LockedUntil st)\<rparr>))"
proof -
  obtain r s' where p: "ls_RecordFailure L k now w l m s = (r, s')"
    by (cases "ls_RecordFailure L k now w l m s")
  with record_answers [of k now w l m s] obtain x where "r = Inr x" by (cases r) auto
  with p record_ok [of k now w l m s x s'] show ?thesis by simp
qed

lemma reset_result: "view (snd (ls_Reset L k s)) = (view s)(k := no_attempts)"
proof -
  obtain r s' where p: "ls_Reset L k s = (r, s')" by (cases "ls_Reset L k s")
  with reset_answers [of k s] obtain x where "r = Inr x" by (cases r) auto
  with p reset_ok [of k s x s'] show ?thesis by simp
qed

lemma Allow_view:
  "lg_store g = L \<Longrightarrow> view (snd (Allow g u a now s)) =
     (view s)(loginAttemptKey u a := pruned now (lg_window g) (view s (loginAttemptKey u a)))"
  using snapshot_result [of "loginAttemptKey u a" now "lg_window g" s]
  by (auto simp: Allow_def bindE_def returnE_def)

lemma Allow_answer:
  assumes "lg_store g = L" "agrees (lg_window g) now (view s (loginAttemptKey u a)) h" "zero_time \<le> now"
  shows "fst (Allow g u a now s) = Inr (if now < snd h then (snd h - now, False) else (0, True))"
proof -
  let ?k = "loginAttemptKey u a"
  obtain s' where p: "ls_Snapshot L ?k now (lg_window g) s = (Inr (pruned now (lg_window g) (view s ?k)), s')"
    using snapshot_result by blast
  from agrees_pruned [OF assms(2,3)] have
    "if now < snd h then la_LockedUntil (pruned now (lg_window g) (view s ?k)) = snd h
     else la_LockedUntil (pruned now (lg_window g) (view s ?k)) \<le> now"
    by (simp add: agrees_def)
  with p show ?thesis by (simp add: Allow_def bindE_def returnE_def assms(1) split: if_splits)
qed

lemma guard_step_agrees:
  assumes g: "lg_store g = L" "0 < lg_window g" "0 < lg_lockout g"
    and t: "prev \<le> fst te" "zero_time \<le> fst te"
    and h: "agrees (lg_window g) prev (view s k) (h::time list \<times> time)"
  shows "agrees (lg_window g) (fst te) (view (guard_step g te s) k)
    (history_step (lg_maxFailures g) (lg_window g) (lg_lockout g) k te h)"
proof -
  obtain t e where te: "te = (t, e)" by (cases te)
  obtain fs lock where hh: "h = (fs, lock)" by (cases h)
  have now: "agrees (lg_window g) t (view s k) (fs, lock)"
    using agrees_later [OF h t(1)] te hh by simp
  show ?thesis
  proof (cases e)
    case (TryLogin u a)
    then show ?thesis
      using now t te hh agrees_pruned [OF now]
      by (cases "k = loginAttemptKey u a") (simp_all add: guard_step_def Allow_view g(1))
  next
    case (LoginFailed u a)
    show ?thesis
    proof (cases "loginAttemptKey u a = k")
      case True
      then show ?thesis
        using agrees_failure [OF now _ g(2,3) refl, of "lg_maxFailures g"] t te hh LoginFailed
        by (simp add: guard_step_def RecordFailure_def record_result g(1) Let_def)
    next
      case False
      then show ?thesis using now te hh LoginFailed
        by (simp add: guard_step_def RecordFailure_def record_result g(1))
    qed
  next
    case (LoginReset u a)
    then show ?thesis using now te hh t
      by (simp add: guard_step_def Reset_def reset_result g(1) agrees_def no_attempts_def)
  qed
qed

lemma guard_run_agrees:
  assumes g: "lg_store g = L" "0 < lg_window g" "0 < lg_lockout g"
  shows "sorted (map fst es) \<Longrightarrow> (\<And>te. te \<in> set es \<Longrightarrow> prev \<le> fst te) \<Longrightarrow> zero_time \<le> prev \<Longrightarrow>
    agrees (lg_window g) prev (view s k) h \<Longrightarrow> (\<And>te. te \<in> set es \<Longrightarrow> fst te \<le> now) \<Longrightarrow> prev \<le> now \<Longrightarrow>
    agrees (lg_window g) now (view (fold (guard_step g) es s) k)
      (fold (history_step (lg_maxFailures g) (lg_window g) (lg_lockout g) k) es h)"
proof (induction es arbitrary: prev s h)
  case Nil
  then show ?case by (auto intro: agrees_later)
next
  case (Cons te es)
  have p: "prev \<le> fst te" using Cons.prems(2) [of te] by simp
  then have z: "zero_time \<le> fst te" using Cons.prems(3) by simp
  have rest: "sorted (map fst es)" "x \<in> set es \<Longrightarrow> fst te \<le> fst x" "x \<in> set es \<Longrightarrow> fst x \<le> now"
    "fst te \<le> now" for x
    using Cons.prems(1,5) by auto
  show ?case
    using Cons.IH [OF rest(1,2) z guard_step_agrees [OF g p z Cons.prems(4)] rest(3,4)] by simp
qed

end

interpretation mem_login: reliable_login_store memory_login_store attempts_view
  by (unfold_locales; simp add: memory_login_store_def mem_Snapshot_def mem_RecordFailure_def
      mem_Reset_def Let_def split: prod.split)

lemma newLoginAttemptGuard_pos:
  "0 < lg_maxFailures (newLoginAttemptGuard cfg L)" "0 < lg_window (newLoginAttemptGuard cfg L)"
  "0 < lg_lockout (newLoginAttemptGuard cfg L)" "lg_store (newLoginAttemptGuard cfg L) = L"
  by (simp_all add: newLoginAttemptGuard_def Let_def DefaultWebConfig_def minute_def second_def)

text \<open>C14: the guard with the store in memory, which forgets what it thinks it no longer needs, gives
  at any time exactly the answer of the full history of the attempts: a name and address are
  refused if and only if some failed login of theirs, not followed by a successful one, was the
  maxFailures-th within its window and less than the lockout ago, and the wait it announces is
  what is left of that lockout. Attempts under other names or from other addresses, and refused
  attempts, play no part. (The clock does not go back.)\<close>

theorem login_lockout_exact:
  assumes "g = newLoginAttemptGuard cfg memory_login_store"
    and "sorted (map fst es)" and "\<And>te. te \<in> set es \<Longrightarrow> zero_time \<le> fst te \<and> fst te \<le> now"
    and "zero_time \<le> now"
    and "h = login_history (lg_maxFailures g) (lg_window g) (lg_lockout g) (loginAttemptKey u a) es"
  shows "fst (Allow g u a now (fold (guard_step g) es (\<lambda>_. None))) =
    Inr (if now < snd h then (snd h - now, False) else (0, True))"
proof -
  note pos = newLoginAttemptGuard_pos [of cfg memory_login_store, folded assms(1)]
  have start: "agrees (lg_window g) zero_time (attempts_view (\<lambda>_. None) k) ([], zero_time)" for k
    by (simp add: agrees_def attempts_view_def no_attempts_def)
  have "agrees (lg_window g) now
      (attempts_view (fold (guard_step g) es (\<lambda>_. None)) (loginAttemptKey u a)) h"
    unfolding assms(5) login_history_def
    using assms(3,4) by (intro mem_login.guard_run_agrees [OF pos(4,2,3) assms(2) _ _ start]) auto
  from mem_login.Allow_answer [OF pos(4) this assms(4)] show ?thesis .
qed

text \<open>Five failures within ten minutes lock the pair for fifteen minutes from the fifth.\<close>

definition example_failures :: "(time \<times> login_event) list" where
  "example_failures =
     [(minute, LoginFailed ''Ana'' ''10.0.0.7:1000''), (2 * minute, LoginFailed ''ana'' ''10.0.0.7:1001''),
      (3 * minute, LoginFailed ''bob'' ''10.0.0.7:1002''), (4 * minute, LoginFailed ''ana '' ''10.0.0.7:2''),
      (5 * minute, LoginFailed ''ANA'' ''10.0.0.7:3''), (6 * minute, LoginFailed ''ana'' ''10.0.0.7:4'')]"

lemma login_lockout_exact_witness:
  "fst (Allow (newLoginAttemptGuard (wc_LoginProtection DefaultWebConfig) memory_login_store)
      ''ana'' ''10.0.0.7:9'' (7 * minute)
      (fold (guard_step (newLoginAttemptGuard (wc_LoginProtection DefaultWebConfig) memory_login_store))
        example_failures (\<lambda>_. None))) = Inr (14 * minute, False)"
proof -
  let ?g = "newLoginAttemptGuard (wc_LoginProtection DefaultWebConfig) memory_login_store"
  have s: "sorted (map fst example_failures)"
    "te \<in> set example_failures \<Longrightarrow> zero_time \<le> fst te \<and> fst te \<le> 7 * minute"
    "zero_time \<le> 7 * minute" for te
    by (auto simp: example_failures_def minute_def second_def zero_time_def)
  have h: "login_history (lg_maxFailures ?g) (lg_window ?g) (lg_lockout ?g)
      (loginAttemptKey ''ana'' ''10.0.0.7:9'') example_failures =
      ([minute, 2 * minute, 4 * minute, 5 * minute, 6 * minute], 21 * minute)"
    by code_simp
  from login_lockout_exact [OF refl s h [symmetric]] show ?thesis
    by (simp add: minute_def second_def)
qed

end
