(* ===== verification/TenantStore.thy ===== *)
theory TenantStore
  imports Database "HOL-Library.AList"
begin

text \<open>
  \<^verbatim>\<open>storage/tenant/repository.go\<close>: tenants, their members and the invitations to join
  them, over the tables \<open>tenants\<close>, \<open>tenant_users\<close> and \<open>tenant_invitations\<close>. Operations take
  the current time where the code calls \<open>time.Now\<close> and the random bytes (or their absence)
  where it reads \<open>crypto/rand\<close>. The SQLite schema declares foreign keys, which SQLite does not
  enforce unless asked, and the program never asks: deleting is by row only.
\<close>

section \<open>Normal forms and rows\<close>

definition normalizeTenantStatus :: "string \<Rightarrow> string" where
  "normalizeTenantStatus status =
     (let s = ToLower (TrimSpace status)
      in if s = ''suspended'' then ''suspended''
         else if s = ''archived'' then ''archived''
         else ''active'')"

definition tenantFromRow :: "tenant \<Rightarrow> tenant" where
  "tenantFromRow row =
     \<lparr>tn_ID = TrimSpace (tn_ID row), tn_Name = TrimSpace (tn_Name row),
      tn_Status = normalizeTenantStatus (tn_Status row), tn_CreatedAt = tn_CreatedAt row,
      tn_UpdatedAt = tn_UpdatedAt row\<rparr>"

definition tenantUserFromRow :: "tenant_user \<Rightarrow> tenant_user" where
  "tenantUserFromRow row =
     \<lparr>tu_TenantID = TrimSpace (tu_TenantID row), tu_Username = TrimSpace (tu_Username row),
      tu_Role = NormalizeTenantRole (tu_Role row), tu_CreatedAt = tu_CreatedAt row\<rparr>"

definition invitationFromRow :: "tenant_invitation \<Rightarrow> tenant_invitation" where
  "invitationFromRow row =
     \<lparr>iv_ID = TrimSpace (iv_ID row), iv_TenantID = TrimSpace (iv_TenantID row),
      iv_Username = TrimSpace (iv_Username row), iv_Role = NormalizeTenantRole (iv_Role row),
      iv_InvitedBy = TrimSpace (iv_InvitedBy row), iv_Status = TrimSpace (iv_Status row),
      iv_ExpiresAt = iv_ExpiresAt row, iv_CreatedAt = iv_CreatedAt row,
      iv_UpdatedAt = iv_UpdatedAt row\<rparr>"

text \<open>
  The runes of a UTF-8 string, each as its bytes. Which runes beyond ASCII are letters or digits
  is the table of package unicode, a parameter \<open>alnum\<close>.
\<close>

definition rune_len :: "char \<Rightarrow> nat" where
  "rune_len c = (let n = (of_char c :: nat)
                 in if n < 192 then 1 else if n < 224 then 2 else if n < 240 then 3 else 4)"

function runes :: "string \<Rightarrow> string list" where
  "runes [] = []"
| "runes (c # s) = (c # take (rune_len c - 1) s) # runes (drop (rune_len c - 1) s)"
  by pat_completeness auto
termination by (relation "measure length") auto

definition ascii_alnum :: "char \<Rightarrow> bool" where
  "ascii_alnum c =
     (let n = (of_char c :: nat)
      in 48 \<le> n \<and> n \<le> 57 \<or> 65 \<le> n \<and> n \<le> 90 \<or> 97 \<le> n \<and> n \<le> 122)"

definition slug_rune :: "(string \<Rightarrow> bool) \<Rightarrow> string \<Rightarrow> string" where
  "slug_rune alnum r =
     (if (case r of [c] \<Rightarrow> ascii_alnum c | _ \<Rightarrow> alnum r) then r
      else if r = ''_'' \<or> r = ''-'' then r
      else if r \<in> set space_runes then ''_''
      else [])"

definition slugTenantID :: "(string \<Rightarrow> bool) \<Rightarrow> string \<Rightarrow> time \<Rightarrow> string" where
  "slugTenantID alnum name now =
     (let s = Trim (concat (map (slug_rune alnum) (runes (ToLower (TrimSpace name))))) ''_-'';
          s = (if s = [] then ''tenant_'' @ Itoa now else s)
      in if HasPrefix s ''tenant_'' then s else ''tenant_'' @ s)"

definition newTenantRow :: "(string \<Rightarrow> bool) \<Rightarrow> tenant \<Rightarrow> time \<Rightarrow> tenant result" where
  "newTenantRow alnum tn now =
     (let name = TrimSpace (tn_Name tn); i = TrimSpace (tn_ID tn)
      in if name = [] then Inl (ErrText ''tenant name is required'')
         else Inr \<lparr>tn_ID = (if i = [] then slugTenantID alnum name now else i), tn_Name = name,
                   tn_Status = normalizeTenantStatus (tn_Status tn), tn_CreatedAt = now,
                   tn_UpdatedAt = now\<rparr>)"

section \<open>Tenants\<close>

text \<open>\<open>ORDER BY created_at ASC, id ASC\<close>\<close>

definition ordered_tenants :: "tables \<Rightarrow> tenant list" where
  "ordered_tenants t = sort_key (\<lambda>r. (tn_CreatedAt r, tn_ID r)) (t_tenants t)"

definition tenant_ListTenants :: "(tenant list, db) action" where
  "tenant_ListTenants = run_query (\<lambda>t. map tenantFromRow (ordered_tenants t))"

text \<open>The join has a row per membership of the user; the key of the table makes it one.\<close>

definition tenant_ListUserTenants :: "string \<Rightarrow> (tenant list, db) action" where
  "tenant_ListUserTenants username =
     (let u = TrimSpace username
      in if u = [] then returnE []
         else run_query (\<lambda>t. map tenantFromRow
                (concat (map (\<lambda>r. replicate (length (filter
                   (\<lambda>m. tu_TenantID m = tn_ID r \<and> tu_Username m = u) (t_tenant_users t))) r)
                  (ordered_tenants t)))))"

definition find_tenant :: "string \<Rightarrow> tables \<Rightarrow> tenant option" where
  "find_tenant i t = find (\<lambda>r. tn_ID r = i) (t_tenants t)"

definition tenant_GetTenant :: "string \<Rightarrow> (tenant, db) action" where
  "tenant_GetTenant tenantID =
     bindE (run_query (find_tenant (NormalizeTenantID tenantID)))
       (\<lambda>r. case r of None \<Rightarrow> failE ErrTenantNotFound | Some row \<Rightarrow> returnE (tenantFromRow row))"

text \<open>The keys of the table: its id, and the tenant's name.\<close>

definition insert_tenant :: "tenant \<Rightarrow> (unit, db) action" where
  "insert_tenant row =
     run_stmt (\<lambda>t.
       if \<exists>r \<in> set (t_tenants t). tn_ID r = tn_ID row \<or> tn_Name r = tn_Name row
       then (Inl ErrDB, t)
       else (Inr (), t\<lparr>t_tenants := t_tenants t @ [row]\<rparr>))"

definition tenant_CreateTenant :: "(string \<Rightarrow> bool) \<Rightarrow> tenant \<Rightarrow> time \<Rightarrow> (tenant, db) action" where
  "tenant_CreateTenant alnum tn now =
     (case newTenantRow alnum tn now of
        Inl e \<Rightarrow> failE e
      | Inr row \<Rightarrow> bindE (insert_tenant row) (\<lambda>_. returnE (tenantFromRow row)))"

text \<open>\<open>INSERT \<dots> ON CONFLICT(tenant_id, username) DO UPDATE SET role = excluded.role\<close>\<close>

definition put_member :: "tenant_user \<Rightarrow> tenant_user list \<Rightarrow> tenant_user list" where
  "put_member row ms =
     (if \<exists>m \<in> set ms. tu_TenantID m = tu_TenantID row \<and> tu_Username m = tu_Username row
      then map (\<lambda>m. if tu_TenantID m = tu_TenantID row \<and> tu_Username m = tu_Username row
                    then m\<lparr>tu_Role := tu_Role row\<rparr> else m) ms
      else ms @ [row])"

definition upsertTenantUser ::
    "string \<Rightarrow> string \<Rightarrow> tenant_role \<Rightarrow> time \<Rightarrow> (unit, db) action" where
  "upsertTenantUser tenantID username role createdAt =
     run_stmt (\<lambda>t. (Inr (), t\<lparr>t_tenant_users := put_member
       \<lparr>tu_TenantID = tenantID, tu_Username = username, tu_Role = NormalizeTenantRole role,
        tu_CreatedAt = createdAt\<rparr> (t_tenant_users t)\<rparr>))"

definition tenant_CreateTenantWithOwner ::
    "(string \<Rightarrow> bool) \<Rightarrow> tenant \<Rightarrow> string \<Rightarrow> time \<Rightarrow> (tenant, db) action" where
  "tenant_CreateTenantWithOwner alnum tn ownerUsername now =
     (let owner = TrimSpace ownerUsername
      in if owner = [] then failE (ErrText ''owner username is required'')
         else (case newTenantRow alnum tn now of
            Inl e \<Rightarrow> failE e
          | Inr row \<Rightarrow>
              bindE (run_tx (bindE (insert_tenant row)
                (\<lambda>_. upsertTenantUser (tn_ID row) owner TenantRoleAdmin (tn_CreatedAt row))))
              (\<lambda>_. returnE (tenantFromRow row))))"

text \<open>An update that sets the name keeps the key on it.\<close>

definition tenant_UpdateTenant :: "string \<Rightarrow> tenant \<Rightarrow> time \<Rightarrow> (tenant, db) action" where
  "tenant_UpdateTenant tenantID updates now =
     (let i = NormalizeTenantID tenantID; name = TrimSpace (tn_Name updates)
      in bindE
           (run_stmt (\<lambda>t.
             if find_tenant i t \<noteq> None \<and> name \<noteq> [] \<and>
                (\<exists>r \<in> set (t_tenants t). tn_ID r \<noteq> i \<and> tn_Name r = name)
             then (Inl ErrDB, t)
             else (Inr (length (filter (\<lambda>r. tn_ID r = i) (t_tenants t))),
                   t\<lparr>t_tenants := map (\<lambda>r. if tn_ID r = i then r
                       \<lparr>tn_UpdatedAt := now,
                        tn_Name := (if name \<noteq> [] then name else tn_Name r),
                        tn_Status := (if tn_Status updates \<noteq> []
                                      then normalizeTenantStatus (tn_Status updates)
                                      else tn_Status r)\<rparr> else r) (t_tenants t)\<rparr>)))
           (\<lambda>rows. if rows = 0 then failE ErrTenantNotFound else tenant_GetTenant i))"

section \<open>Members\<close>

text \<open>The map of roles is an association list with distinct keys.\<close>

definition tenant_GetUserTenantRoles :: "string \<Rightarrow> ((string \<times> tenant_role) list, db) action" where
  "tenant_GetUserTenantRoles username =
     run_query (\<lambda>t. fold
       (\<lambda>m roles. let i = TrimSpace (tu_TenantID m)
                  in if i = [] then roles
                     else AList.update i (NormalizeTenantRole (tu_Role m)) roles)
       (filter (\<lambda>m. tu_Username m = username) (t_tenant_users t)) [])"

definition tenant_ListTenantUsers :: "string \<Rightarrow> (tenant_user list, db) action" where
  "tenant_ListTenantUsers tenantID =
     (let i = NormalizeTenantID tenantID
      in bindE (tenant_GetTenant i)
           (\<lambda>_. run_query (\<lambda>t. map tenantUserFromRow
             (sort_key (\<lambda>m. (tu_CreatedAt m, tu_Username m))
               (filter (\<lambda>m. tu_TenantID m = i) (t_tenant_users t))))))"

definition tenant_AddTenantUser ::
    "string \<Rightarrow> string \<Rightarrow> tenant_role \<Rightarrow> time \<Rightarrow> (unit, db) action" where
  "tenant_AddTenantUser tenantID username role now =
     (let i = NormalizeTenantID tenantID; u = TrimSpace username
      in if u = [] then failE (ErrText ''username is required'')
         else bindE (tenant_GetTenant i) (\<lambda>_. upsertTenantUser i u role now))"

definition tenant_RemoveTenantUser :: "string \<Rightarrow> string \<Rightarrow> (unit, db) action" where
  "tenant_RemoveTenantUser tenantID username =
     (let i = NormalizeTenantID tenantID; u = TrimSpace username
      in bindE
           (run_stmt (\<lambda>t.
             (Inr (length (filter (\<lambda>m. tu_TenantID m = i \<and> tu_Username m = u) (t_tenant_users t))),
              t\<lparr>t_tenant_users :=
                  filter (\<lambda>m. \<not> (tu_TenantID m = i \<and> tu_Username m = u)) (t_tenant_users t)\<rparr>)))
           (\<lambda>rows. if rows = 0 then failE ErrTenantUserNotFound else returnE ()))"

section \<open>Invitations\<close>

definition newInvitationID :: "bytes option \<Rightarrow> string result" where
  "newInvitationID rnd =
     (case rnd of None \<Rightarrow> Inl (ErrText ''rand'') | Some b \<Rightarrow> Inr (''inv_'' @ hex_encode b))"

definition insert_invitation :: "tenant_invitation \<Rightarrow> (unit, db) action" where
  "insert_invitation row =
     run_stmt (\<lambda>t.
       if \<exists>r \<in> set (t_invitations t). iv_ID r = iv_ID row then (Inl ErrDB, t)
       else (Inr (), t\<lparr>t_invitations := t_invitations t @ [row]\<rparr>))"

definition tenant_CreateTenantInvitation ::
    "tenant_invitation \<Rightarrow> bytes option \<Rightarrow> time \<Rightarrow> (tenant_invitation, db) action" where
  "tenant_CreateTenantInvitation v rnd now =
     (let tenantID = NormalizeTenantID (iv_TenantID v);
          username = TrimSpace (iv_Username v);
          invitedBy = TrimSpace (iv_InvitedBy v)
      in if username = [] then failE (ErrText ''username is required'')
         else if invitedBy = [] then failE (ErrText ''invited_by is required'')
         else bindE (tenant_GetTenant tenantID)
           (\<lambda>_. case newInvitationID rnd of
              Inl e \<Rightarrow> failE e
            | Inr i \<Rightarrow>
                (let row = \<lparr>iv_ID = i, iv_TenantID = tenantID, iv_Username = username,
                            iv_Role = NormalizeTenantRole (iv_Role v), iv_InvitedBy = invitedBy,
                            iv_Status = ''pending'', iv_ExpiresAt = now + 7 * 24 * hour,
                            iv_CreatedAt = now, iv_UpdatedAt = now\<rparr>
                 in bindE (insert_invitation row) (\<lambda>_. returnE (invitationFromRow row)))))"

definition tenant_ListPendingInvitations ::
    "string \<Rightarrow> time \<Rightarrow> (tenant_invitation list, db) action" where
  "tenant_ListPendingInvitations username now =
     (let u = TrimSpace username
      in if u = [] then returnE []
         else run_query (\<lambda>t. map invitationFromRow (sort_key (\<lambda>r. - iv_CreatedAt r)
                (filter (\<lambda>r. iv_Username r = u \<and> iv_Status r = ''pending'' \<and> now < iv_ExpiresAt r)
                  (t_invitations t)))))"

definition find_invitation :: "string \<Rightarrow> tables \<Rightarrow> tenant_invitation option" where
  "find_invitation i t = find (\<lambda>r. iv_ID r = i) (t_invitations t)"

definition getInvitation :: "string \<Rightarrow> (tenant_invitation, db) action" where
  "getInvitation invitationID =
     bindE (run_query (find_invitation (TrimSpace invitationID)))
       (\<lambda>r. case r of None \<Rightarrow> failE ErrInvitationNotFound
            | Some row \<Rightarrow> returnE (invitationFromRow row))"

text \<open>A guarded update of an invitation's status; the result is the number of rows affected.\<close>

definition set_status ::
    "string \<Rightarrow> (tenant_invitation \<Rightarrow> bool) \<Rightarrow> string \<Rightarrow> time \<Rightarrow> (nat, db) action" where
  "set_status i guard status now =
     run_stmt (\<lambda>t.
       (Inr (length (filter (\<lambda>r. iv_ID r = i \<and> iv_Status r = ''pending'' \<and> guard r)
               (t_invitations t))),
        t\<lparr>t_invitations := map (\<lambda>r.
            if iv_ID r = i \<and> iv_Status r = ''pending'' \<and> guard r
            then r\<lparr>iv_Status := status, iv_UpdatedAt := now\<rparr> else r) (t_invitations t)\<rparr>))"

definition tenant_AcceptInvitation :: "string \<Rightarrow> time \<Rightarrow> (unit, db) action" where
  "tenant_AcceptInvitation invitationID now =
     (let i = TrimSpace invitationID
      in run_tx (bindE (getInvitation i)
           (\<lambda>inv. if iv_Status inv \<noteq> ''pending'' then failE ErrInvitationAccepted
             else if iv_ExpiresAt inv < now then failE ErrInvitationExpired
             else bindE (upsertTenantUser (iv_TenantID inv) (iv_Username inv) (iv_Role inv) now)
               (\<lambda>_. bindE (set_status i (\<lambda>r. now < iv_ExpiresAt r) ''accepted'' now)
                 (\<lambda>rows. if rows = 0 then failE ErrInvitationAccepted else returnE ())))))"

definition tenant_RejectInvitation :: "string \<Rightarrow> time \<Rightarrow> (unit, db) action" where
  "tenant_RejectInvitation invitationID now =
     (let i = TrimSpace invitationID
      in run_tx (bindE (getInvitation i)
           (\<lambda>inv. if iv_Status inv \<noteq> ''pending'' then failE ErrInvitationAccepted
             else bindE (set_status i (\<lambda>_. True) ''rejected'' now)
               (\<lambda>rows. if rows = 0 then failE ErrInvitationAccepted else returnE ()))))"

section \<open>What the operations do to the tables\<close>

text \<open>The role of a user in a tenant, the abstract state of the members' table.\<close>

definition member_role :: "tables \<Rightarrow> string \<Rightarrow> string \<Rightarrow> tenant_role option" where
  "member_role t i u =
     map_option tu_Role (find (\<lambda>m. tu_TenantID m = i \<and> tu_Username m = u) (t_tenant_users t))"

lemma find_map_found:
  "(\<And>x. P x \<Longrightarrow> P (g x)) \<Longrightarrow>
   find P (map (\<lambda>x. if P x then g x else x) xs) = map_option g (find P xs)"
  by (induction xs) auto

lemma find_map_other:
  "(\<And>x. Q x \<Longrightarrow> \<not> P x \<and> \<not> P (g x)) \<Longrightarrow>
   find P (map (\<lambda>x. if Q x then g x else x) xs) = find P xs"
  by (induction xs) auto

lemma find_snoc: "find P (xs @ [x]) = (case find P xs of None \<Rightarrow> if P x then Some x else None | r \<Rightarrow> r)"
  by (induction xs) auto

lemma member_role_put:
  "member_role (t'\<lparr>t_tenant_users := put_member row (t_tenant_users t)\<rparr>) i u =
     (if tu_TenantID row = i \<and> tu_Username row = u then Some (tu_Role row) else member_role t i u)"
proof (cases "tu_TenantID row = i \<and> tu_Username row = u")
  case True
  then show ?thesis
    by (auto simp: member_role_def put_member_def find_map_found find_snoc find_None_iff
          split: option.splits dest: find_SomeD)
next
  case False
  then have "find (\<lambda>m. tu_TenantID m = i \<and> tu_Username m = u)
      (map (\<lambda>m. if tu_TenantID m = tu_TenantID row \<and> tu_Username m = tu_Username row
                then m\<lparr>tu_Role := tu_Role row\<rparr> else m) ms) =
      find (\<lambda>m. tu_TenantID m = i \<and> tu_Username m = u) ms" for ms :: "tenant_user list"
    by (intro find_map_other) auto
  with False have "find (\<lambda>m. tu_TenantID m = i \<and> tu_Username m = u) (put_member row ms) =
      find (\<lambda>m. tu_TenantID m = i \<and> tu_Username m = u) ms" for ms
    by (auto simp: put_member_def find_snoc split: option.splits)
  with False show ?thesis by (auto simp: member_role_def)
qed

lemma run_stmt_tabs:
  assumes "run_stmt f d = (r, d')"
  obtains "tabs d' = tabs d" | x where "r = Inr x" "f (tabs d) = (Inr x, tabs d')"
  using assms by (cases r) (auto dest: run_stmt_Inl run_stmt_Inr)

lemma insert_tenant_Inr:
  "insert_tenant row d = (Inr x, d') \<Longrightarrow>
     (\<forall>r \<in> set (t_tenants (tabs d)). tn_ID r \<noteq> tn_ID row \<and> tn_Name r \<noteq> tn_Name row) \<and>
     tabs d' = (tabs d)\<lparr>t_tenants := t_tenants (tabs d) @ [row]\<rparr>"
  unfolding insert_tenant_def by (drule run_stmt_Inr) (auto split: if_splits)

lemma insert_tenant_Inl: "insert_tenant row d = (Inl e, d') \<Longrightarrow> tabs d' = tabs d"
  unfolding insert_tenant_def by (drule run_stmt_Inl)

lemma upsertTenantUser_Inr:
  "upsertTenantUser i u role now d = (Inr x, d') \<Longrightarrow>
     tabs d' = (tabs d)\<lparr>t_tenant_users := put_member
       \<lparr>tu_TenantID = i, tu_Username = u, tu_Role = NormalizeTenantRole role, tu_CreatedAt = now\<rparr>
       (t_tenant_users (tabs d))\<rparr>"
  unfolding upsertTenantUser_def by (drule run_stmt_Inr) auto

lemma upsertTenantUser_Inl: "upsertTenantUser i u role now d = (Inl e, d') \<Longrightarrow> tabs d' = tabs d"
  unfolding upsertTenantUser_def by (drule run_stmt_Inl)

lemma tenant_GetTenant_tabs: "tenant_GetTenant i d = (r, d') \<Longrightarrow> tabs d' = tabs d"
  by (auto simp: tenant_GetTenant_def bindE_def returnE_def failE_def
        split: prod.splits sum.splits option.splits dest: run_query_tabs)

lemma tenant_GetTenant_Inr:
  assumes "tenant_GetTenant i d = (Inr x, d')"
  shows "find_tenant (NormalizeTenantID i) (tabs d) \<noteq> None"
proof -
  from assms obtain r d1 where "run_query (find_tenant (NormalizeTenantID i)) d = (Inr r, d1)" "r \<noteq> None"
    unfolding tenant_GetTenant_def
    by (rule bindE_Inr) (auto simp: failE_def split: option.splits)
  from run_query_Inr [OF this(1)] this(2) show ?thesis by simp
qed

lemma getInvitation_Inr:
  assumes "getInvitation i d = (Inr v, d')"
  obtains row where "find_invitation (TrimSpace i) (tabs d) = Some row" "v = invitationFromRow row"
    "tabs d' = tabs d"
proof -
  from assms obtain row where
    q: "run_query (find_invitation (TrimSpace i)) d = (Inr (Some row), d')" "v = invitationFromRow row"
    unfolding getInvitation_def
    by (rule bindE_Inr) (auto simp: failE_def returnE_def split: option.splits)
  with run_query_Inr [OF q(1)] run_query_tabs [OF q(1)] show ?thesis by (intro that) auto
qed

lemma set_status_Inr:
  "set_status i g status now d = (Inr n, d') \<Longrightarrow>
     n = length (filter (\<lambda>r. iv_ID r = i \<and> iv_Status r = ''pending'' \<and> g r)
           (t_invitations (tabs d))) \<and>
     tabs d' = (tabs d)\<lparr>t_invitations := map (\<lambda>r.
       if iv_ID r = i \<and> iv_Status r = ''pending'' \<and> g r
       then r\<lparr>iv_Status := status, iv_UpdatedAt := now\<rparr> else r) (t_invitations (tabs d))\<rparr>"
  unfolding set_status_def by (drule run_stmt_Inr) auto

lemma newTenantRow_Inr:
  "newTenantRow alnum tn now = Inr row \<Longrightarrow>
     tn_Name row \<noteq> [] \<and> tn_Status row = normalizeTenantStatus (tn_Status tn)"
  by (auto simp: newTenantRow_def Let_def split: if_splits)

lemma CreateTenantWithOwner_Inr:
  assumes "tenant_CreateTenantWithOwner alnum tn owner now d = (Inr tn', d')"
  obtains row where "newTenantRow alnum tn now = Inr row" "tn' = tenantFromRow row"
    "TrimSpace owner \<noteq> []"
    "\<forall>r \<in> set (t_tenants (tabs d)). tn_ID r \<noteq> tn_ID row \<and> tn_Name r \<noteq> tn_Name row"
    "tabs d' = (tabs d)\<lparr>t_tenants := t_tenants (tabs d) @ [row],
       t_tenant_users := put_member
         \<lparr>tu_TenantID = tn_ID row, tu_Username = TrimSpace owner, tu_Role = TenantRoleAdmin,
          tu_CreatedAt = tn_CreatedAt row\<rparr> (t_tenant_users (tabs d))\<rparr>"
proof -
  from assms obtain row where ow: "TrimSpace owner \<noteq> []" and row: "newTenantRow alnum tn now = Inr row"
    and B: "bindE (run_tx (bindE (insert_tenant row)
        (\<lambda>_. upsertTenantUser (tn_ID row) (TrimSpace owner) TenantRoleAdmin (tn_CreatedAt row))))
      (\<lambda>_. returnE (tenantFromRow row)) d = (Inr tn', d')"
    by (auto simp: tenant_CreateTenantWithOwner_def Let_def failE_def split: if_splits sum.splits)
  from B obtain y d0 where tx: "run_tx (bindE (insert_tenant row)
        (\<lambda>_. upsertTenantUser (tn_ID row) (TrimSpace owner) TenantRoleAdmin (tn_CreatedAt row))) d
      = (Inr y, d0)" and r: "returnE (tenantFromRow row) d0 = (Inr tn', d')"
    by (rule bindE_Inr)
  from tx obtain d1 d2 where t1: "tabs d1 = tabs d" and t2: "tabs d0 = tabs d2"
    and body: "bindE (insert_tenant row)
      (\<lambda>_. upsertTenantUser (tn_ID row) (TrimSpace owner) TenantRoleAdmin (tn_CreatedAt row)) d1
      = (Inr y, d2)"
    by (rule run_tx_Inr)
  from body obtain z d3 where i: "insert_tenant row d1 = (Inr z, d3)"
    and u: "upsertTenantUser (tn_ID row) (TrimSpace owner) TenantRoleAdmin (tn_CreatedAt row) d3
      = (Inr y, d2)"
    by (rule bindE_Inr)
  have "NormalizeTenantRole TenantRoleAdmin = TenantRoleAdmin" by code_simp
  with insert_tenant_Inr [OF i] upsertTenantUser_Inr [OF u] t1 t2 r ow row show ?thesis
    by (intro that [of row]) auto
qed

lemma AcceptInvitation_Inr:
  assumes "tenant_AcceptInvitation i now d = (Inr x, d')"
  obtains row where "find_invitation (TrimSpace i) (tabs d) = Some row"
    "TrimSpace (iv_Status row) = ''pending''" "now \<le> iv_ExpiresAt row"
    "filter (\<lambda>r. iv_ID r = TrimSpace i \<and> iv_Status r = ''pending'' \<and> now < iv_ExpiresAt r)
       (t_invitations (tabs d)) \<noteq> []"
    "tabs d' = (tabs d)\<lparr>t_tenant_users := put_member
       \<lparr>tu_TenantID = TrimSpace (iv_TenantID row), tu_Username = TrimSpace (iv_Username row),
        tu_Role = NormalizeTenantRole (NormalizeTenantRole (iv_Role row)), tu_CreatedAt = now\<rparr>
       (t_tenant_users (tabs d)),
      t_invitations := map (\<lambda>r.
       if iv_ID r = TrimSpace i \<and> iv_Status r = ''pending'' \<and> now < iv_ExpiresAt r
       then r\<lparr>iv_Status := ''accepted'', iv_UpdatedAt := now\<rparr> else r) (t_invitations (tabs d))\<rparr>"
proof -
  from assms obtain d1 d2 where t: "tabs d1 = tabs d" "tabs d' = tabs d2"
    and B: "bindE (getInvitation (TrimSpace i))
           (\<lambda>inv. if iv_Status inv \<noteq> ''pending'' then failE ErrInvitationAccepted
             else if iv_ExpiresAt inv < now then failE ErrInvitationExpired
             else bindE (upsertTenantUser (iv_TenantID inv) (iv_Username inv) (iv_Role inv) now)
               (\<lambda>_. bindE (set_status (TrimSpace i) (\<lambda>r. now < iv_ExpiresAt r) ''accepted'' now)
                 (\<lambda>rows. if rows = 0 then failE ErrInvitationAccepted else returnE ()))) d1
      = (Inr x, d2)"
    unfolding tenant_AcceptInvitation_def Let_def by (rule run_tx_Inr)
  from B obtain v d3 where g: "getInvitation (TrimSpace i) d1 = (Inr v, d3)"
    and rest: "iv_Status v = ''pending''" "\<not> iv_ExpiresAt v < now"
      "bindE (upsertTenantUser (iv_TenantID v) (iv_Username v) (iv_Role v) now)
               (\<lambda>_. bindE (set_status (TrimSpace i) (\<lambda>r. now < iv_ExpiresAt r) ''accepted'' now)
                 (\<lambda>rows. if rows = 0 then failE ErrInvitationAccepted else returnE ())) d3
      = (Inr x, d2)"
    by (rule bindE_Inr) (auto simp: failE_def split: if_splits)
  from g obtain row where row: "find_invitation (TrimSpace i) (tabs d) = Some row"
    "v = invitationFromRow row" "tabs d3 = tabs d"
    by (rule getInvitation_Inr) (simp add: t)
  from rest(3) obtain y d4 where u: "upsertTenantUser (iv_TenantID v) (iv_Username v) (iv_Role v) now d3
      = (Inr y, d4)" and s: "bindE (set_status (TrimSpace i) (\<lambda>r. now < iv_ExpiresAt r) ''accepted'' now)
                 (\<lambda>rows. if rows = 0 then failE ErrInvitationAccepted else returnE ()) d4 = (Inr x, d2)"
    by (rule bindE_Inr)
  from s obtain n d5 where s1: "set_status (TrimSpace i) (\<lambda>r. now < iv_ExpiresAt r) ''accepted'' now d4
      = (Inr n, d5)" and n: "n \<noteq> 0" "d2 = d5"
    by (rule bindE_Inr) (auto simp: failE_def returnE_def split: if_splits)
  show ?thesis
    using row rest(1,2) upsertTenantUser_Inr [OF u] set_status_Inr [OF s1] n t
    by (intro that [of row]) (auto simp: invitationFromRow_def)
qed

text \<open>A rejected invitation only changes its status.\<close>

lemma RejectInvitation_Inr:
  assumes "tenant_RejectInvitation i now d = (Inr x, d')"
  shows "tabs d' = (tabs d)\<lparr>t_invitations := map (\<lambda>r.
       if iv_ID r = TrimSpace i \<and> iv_Status r = ''pending'' \<and> True
       then r\<lparr>iv_Status := ''rejected'', iv_UpdatedAt := now\<rparr> else r) (t_invitations (tabs d))\<rparr>"
proof -
  from assms obtain d1 d2 where t: "tabs d1 = tabs d" "tabs d' = tabs d2"
    and B: "bindE (getInvitation (TrimSpace i))
           (\<lambda>inv. if iv_Status inv \<noteq> ''pending'' then failE ErrInvitationAccepted
             else bindE (set_status (TrimSpace i) (\<lambda>_. True) ''rejected'' now)
                 (\<lambda>rows. if rows = 0 then failE ErrInvitationAccepted else returnE ())) d1
      = (Inr x, d2)"
    unfolding tenant_RejectInvitation_def Let_def by (rule run_tx_Inr)
  from B obtain v d3 where g: "getInvitation (TrimSpace i) d1 = (Inr v, d3)" and
    s: "bindE (set_status (TrimSpace i) (\<lambda>_. True) ''rejected'' now)
          (\<lambda>rows. if rows = 0 then failE ErrInvitationAccepted else returnE ()) d3 = (Inr x, d2)"
    by (rule bindE_Inr) (auto simp: failE_def split: if_splits)
  from g have "tabs d3 = tabs d" by (rule getInvitation_Inr) (simp add: t)
  moreover from s obtain n where "set_status (TrimSpace i) (\<lambda>_. True) ''rejected'' now d3 = (Inr n, d2)"
    by (rule bindE_Inr) (auto simp: failE_def returnE_def split: if_splits)
  ultimately show ?thesis using set_status_Inr t(2) by auto
qed

lemma UpdateTenant_tabs:
  assumes "tenant_UpdateTenant i v now d = (r, d')"
  obtains "tabs d' = tabs d"
  | g where "tabs d' = (tabs d)\<lparr>t_tenants := map g (t_tenants (tabs d))\<rparr>"
      "\<And>row. tn_ID (g row) = tn_ID row"
      "\<And>row. tn_Status (g row) \<in> {tn_Status row, normalizeTenantStatus (tn_Status v)}"
      "\<And>row. tn_Name (g row) = (if tn_ID row = NormalizeTenantID i \<and> TrimSpace (tn_Name v) \<noteq> []
                                then TrimSpace (tn_Name v) else tn_Name row)"
      "find_tenant (NormalizeTenantID i) (tabs d) \<noteq> None \<Longrightarrow> TrimSpace (tn_Name v) \<noteq> [] \<Longrightarrow>
        \<forall>row \<in> set (t_tenants (tabs d)). tn_ID row \<noteq> NormalizeTenantID i \<longrightarrow>
          tn_Name row \<noteq> TrimSpace (tn_Name v)"
proof -
  let ?i = "NormalizeTenantID i" and ?n = "TrimSpace (tn_Name v)"
  let ?g = "\<lambda>r. if tn_ID r = ?i then r
     \<lparr>tn_UpdatedAt := now, tn_Name := (if ?n \<noteq> [] then ?n else tn_Name r),
      tn_Status := (if tn_Status v \<noteq> [] then normalizeTenantStatus (tn_Status v) else tn_Status r)\<rparr>
     else r"
  let ?f = "\<lambda>t. if find_tenant ?i t \<noteq> None \<and> ?n \<noteq> [] \<and>
                (\<exists>r \<in> set (t_tenants t). tn_ID r \<noteq> ?i \<and> tn_Name r = ?n)
             then (Inl ErrDB, t)
             else (Inr (length (filter (\<lambda>r. tn_ID r = ?i) (t_tenants t))),
                   t\<lparr>t_tenants := map ?g (t_tenants t)\<rparr>)"
  from assms obtain r1 d1 where q: "run_stmt ?f d = (r1, d1)" and e: "tabs d' = tabs d1"
    unfolding tenant_UpdateTenant_def Let_def bindE_def
    by (auto simp: failE_def dest: tenant_GetTenant_tabs split: prod.splits sum.splits if_splits)
  from q show thesis
  proof (rule run_stmt_tabs)
    assume "tabs d1 = tabs d"
    then show thesis using that(1) e by simp
  next
    fix x assume "?f (tabs d) = (Inr x, tabs d1)"
    then show thesis using e by (intro that(2) [of ?g]) (auto split: if_splits)
  qed
qed

section \<open>The tables stay well formed\<close>

definition tenants_ok :: "tables \<Rightarrow> bool" where
  "tenants_ok t \<longleftrightarrow>
     distinct (map tn_ID (t_tenants t)) \<and> distinct (map tn_Name (t_tenants t)) \<and>
     (\<forall>r \<in> set (t_tenants t). tn_Name r \<noteq> [] \<and>
        tn_Status r \<in> {''active'', ''suspended'', ''archived''})"

definition members_ok :: "tables \<Rightarrow> bool" where
  "members_ok t \<longleftrightarrow>
     distinct (map (\<lambda>m. (tu_TenantID m, tu_Username m)) (t_tenant_users t)) \<and>
     (\<forall>m \<in> set (t_tenant_users t). tu_Username m \<noteq> [] \<and>
        tu_Role m \<in> {TenantRoleAdmin, TenantRoleRW, TenantRoleRO})"

definition invitations_ok :: "tables \<Rightarrow> bool" where
  "invitations_ok t \<longleftrightarrow>
     distinct (map iv_ID (t_invitations t)) \<and>
     (\<forall>v \<in> set (t_invitations t). TrimSpace (iv_Username v) \<noteq> [] \<and>
        iv_Status v \<in> {''pending'', ''accepted'', ''rejected''} \<and>
        iv_Role v \<in> {TenantRoleAdmin, TenantRoleRW, TenantRoleRO})"

definition tenancy_ok :: "tables \<Rightarrow> bool" where
  "tenancy_ok t \<longleftrightarrow> tenants_ok t \<and> members_ok t \<and> invitations_ok t"

text \<open>The operations that write, as the calls a caller makes of the repository.\<close>

datatype tenant_op =
    OpCreateTenant tenant time
  | OpCreateTenantWithOwner tenant string time
  | OpUpdateTenant string tenant time
  | OpAddTenantUser string string tenant_role time
  | OpRemoveTenantUser string string
  | OpCreateTenantInvitation tenant_invitation "bytes option" time
  | OpAcceptInvitation string time
  | OpRejectInvitation string time

fun exec_tenant_op :: "(string \<Rightarrow> bool) \<Rightarrow> tenant_op \<Rightarrow> db \<Rightarrow> db" where
  "exec_tenant_op al (OpCreateTenant tn now) d = snd (tenant_CreateTenant al tn now d)"
| "exec_tenant_op al (OpCreateTenantWithOwner tn u now) d =
     snd (tenant_CreateTenantWithOwner al tn u now d)"
| "exec_tenant_op al (OpUpdateTenant i tn now) d = snd (tenant_UpdateTenant i tn now d)"
| "exec_tenant_op al (OpAddTenantUser i u role now) d = snd (tenant_AddTenantUser i u role now d)"
| "exec_tenant_op al (OpRemoveTenantUser i u) d = snd (tenant_RemoveTenantUser i u d)"
| "exec_tenant_op al (OpCreateTenantInvitation v rnd now) d =
     snd (tenant_CreateTenantInvitation v rnd now d)"
| "exec_tenant_op al (OpAcceptInvitation i now) d = snd (tenant_AcceptInvitation i now d)"
| "exec_tenant_op al (OpRejectInvitation i now) d = snd (tenant_RejectInvitation i now d)"

text \<open>
  The effect of one operation on the tables: none, or the rows one of these writes. Every
  statement about the operations follows from it.
\<close>

inductive tenant_write :: "(string \<Rightarrow> bool) \<Rightarrow> tenant_op \<Rightarrow> tables \<Rightarrow> tables \<Rightarrow> bool"
  for al :: "string \<Rightarrow> bool" where
  nothing: "tenant_write al oper t t"
| create: "newTenantRow al tn now = Inr row \<Longrightarrow>
    \<forall>r \<in> set (t_tenants t). tn_ID r \<noteq> tn_ID row \<and> tn_Name r \<noteq> tn_Name row \<Longrightarrow>
    tenant_write al (OpCreateTenant tn now) t (t\<lparr>t_tenants := t_tenants t @ [row]\<rparr>)"
| create_owned: "newTenantRow al tn now = Inr row \<Longrightarrow> TrimSpace u \<noteq> [] \<Longrightarrow>
    \<forall>r \<in> set (t_tenants t). tn_ID r \<noteq> tn_ID row \<and> tn_Name r \<noteq> tn_Name row \<Longrightarrow>
    tenant_write al (OpCreateTenantWithOwner tn u now) t
      (t\<lparr>t_tenants := t_tenants t @ [row],
        t_tenant_users := put_member
          \<lparr>tu_TenantID = tn_ID row, tu_Username = TrimSpace u, tu_Role = TenantRoleAdmin,
           tu_CreatedAt = tn_CreatedAt row\<rparr> (t_tenant_users t)\<rparr>)"
| update: "(\<And>row. tn_ID (g row) = tn_ID row) \<Longrightarrow>
    (\<And>row. tn_Status (g row) \<in> {tn_Status row, normalizeTenantStatus (tn_Status v)}) \<Longrightarrow>
    (\<And>row. tn_Name (g row) = (if tn_ID row = NormalizeTenantID i \<and> TrimSpace (tn_Name v) \<noteq> []
                              then TrimSpace (tn_Name v) else tn_Name row)) \<Longrightarrow>
    (find_tenant (NormalizeTenantID i) t \<noteq> None \<Longrightarrow> TrimSpace (tn_Name v) \<noteq> [] \<Longrightarrow>
      \<forall>row \<in> set (t_tenants t). tn_ID row \<noteq> NormalizeTenantID i \<longrightarrow>
        tn_Name row \<noteq> TrimSpace (tn_Name v)) \<Longrightarrow>
    tenant_write al (OpUpdateTenant i v now) t (t\<lparr>t_tenants := map g (t_tenants t)\<rparr>)"
| add: "TrimSpace u \<noteq> [] \<Longrightarrow> find_tenant (NormalizeTenantID i) t \<noteq> None \<Longrightarrow>
    tenant_write al (OpAddTenantUser i u role now) t
      (t\<lparr>t_tenant_users := put_member
          \<lparr>tu_TenantID = NormalizeTenantID i, tu_Username = TrimSpace u,
           tu_Role = NormalizeTenantRole role, tu_CreatedAt = now\<rparr> (t_tenant_users t)\<rparr>)"
| remove: "tenant_write al (OpRemoveTenantUser i u) t
      (t\<lparr>t_tenant_users := filter
          (\<lambda>m. \<not> (tu_TenantID m = NormalizeTenantID i \<and> tu_Username m = TrimSpace u))
          (t_tenant_users t)\<rparr>)"
| invite: "\<forall>r \<in> set (t_invitations t). iv_ID r \<noteq> iv_ID row \<Longrightarrow> iv_Status row = ''pending'' \<Longrightarrow>
    TrimSpace (iv_Username row) \<noteq> [] \<Longrightarrow> iv_Role row = NormalizeTenantRole (iv_Role v) \<Longrightarrow>
    tenant_write al (OpCreateTenantInvitation v rnd now) t
      (t\<lparr>t_invitations := t_invitations t @ [row]\<rparr>)"
| accept: "find_invitation (TrimSpace i) t = Some row \<Longrightarrow> TrimSpace (iv_Status row) = ''pending'' \<Longrightarrow>
    now \<le> iv_ExpiresAt row \<Longrightarrow>
    filter (\<lambda>r. iv_ID r = TrimSpace i \<and> iv_Status r = ''pending'' \<and> now < iv_ExpiresAt r)
       (t_invitations t) \<noteq> [] \<Longrightarrow>
    tenant_write al (OpAcceptInvitation i now) t
      (t\<lparr>t_tenant_users := put_member
         \<lparr>tu_TenantID = TrimSpace (iv_TenantID row), tu_Username = TrimSpace (iv_Username row),
          tu_Role = NormalizeTenantRole (NormalizeTenantRole (iv_Role row)), tu_CreatedAt = now\<rparr>
         (t_tenant_users t),
        t_invitations := map (\<lambda>r.
         if iv_ID r = TrimSpace i \<and> iv_Status r = ''pending'' \<and> now < iv_ExpiresAt r
         then r\<lparr>iv_Status := ''accepted'', iv_UpdatedAt := now\<rparr> else r) (t_invitations t)\<rparr>)"
| reject: "tenant_write al (OpRejectInvitation i now) t
      (t\<lparr>t_invitations := map (\<lambda>r.
         if iv_ID r = TrimSpace i \<and> iv_Status r = ''pending'' \<and> True
         then r\<lparr>iv_Status := ''rejected'', iv_UpdatedAt := now\<rparr> else r) (t_invitations t)\<rparr>)"

lemma write_CreateTenant:
  "tenant_write al (OpCreateTenant tn now) (tabs d)
     (tabs (exec_tenant_op al (OpCreateTenant tn now) d))"
proof -
  show ?thesis
  proof (cases "newTenantRow al tn now")
    case (Inr row)
    obtain r d' where i: "insert_tenant row d = (r, d')" by (cases "insert_tenant row d")
    show ?thesis
    proof (cases r)
      case (Inr x)
      with i insert_tenant_Inr [of row d x d'] have
        "\<forall>r \<in> set (t_tenants (tabs d)). tn_ID r \<noteq> tn_ID row \<and> tn_Name r \<noteq> tn_Name row"
        "tabs (exec_tenant_op al (OpCreateTenant tn now) d) = (tabs d)\<lparr>t_tenants := t_tenants (tabs d) @ [row]\<rparr>"
        using \<open>newTenantRow al tn now = Inr row\<close>
        by (simp_all add: tenant_CreateTenant_def)
      then show ?thesis using \<open>newTenantRow al tn now = Inr row\<close>
        by (simp only: tenant_write.create)
    next
      case (Inl e)
      with i insert_tenant_Inl [of row d e d'] have "tabs (exec_tenant_op al (OpCreateTenant tn now) d) = tabs d"
        using \<open>newTenantRow al tn now = Inr row\<close>
        by (simp add: tenant_CreateTenant_def)
      then show ?thesis by (simp add: tenant_write.nothing)
    qed
  qed (simp add: tenant_CreateTenant_def tenant_write.nothing)
qed

lemma write_CreateTenantWithOwner:
  "tenant_write al (OpCreateTenantWithOwner tn u now) (tabs d)
     (tabs (exec_tenant_op al (OpCreateTenantWithOwner tn u now) d))"
proof -
  obtain r d' where r: "tenant_CreateTenantWithOwner al tn u now d = (r, d')"
    by (cases "tenant_CreateTenantWithOwner al tn u now d")
  show ?thesis
  proof (cases r)
    case (Inr x)
    with r CreateTenantWithOwner_Inr [of al tn u now d x d'] tenant_write.create_owned [of al tn now _ u "tabs d"]
    show ?thesis by (metis exec_tenant_op.simps(2) snd_conv)
  next
    case (Inl e)
    with r have "tabs d' = tabs d"
      by (auto simp: tenant_CreateTenantWithOwner_def Let_def failE_def returnE_def bindE_def
            split: if_splits sum.splits prod.splits dest: run_tx_Inl)
    with r show ?thesis by (simp add: tenant_write.nothing)
  qed
qed

lemma write_UpdateTenant:
  "tenant_write al (OpUpdateTenant i v now) (tabs d)
     (tabs (exec_tenant_op al (OpUpdateTenant i v now) d))"
proof -
  obtain r d' where r: "tenant_UpdateTenant i v now d = (r, d')"
    by (cases "tenant_UpdateTenant i v now d")
  then show ?thesis
  proof (cases rule: UpdateTenant_tabs)
    case 1
    then show ?thesis by (simp add: r tenant_write.nothing)
  next
    case (2 g)
    show ?thesis unfolding exec_tenant_op.simps r snd_conv 2(1)
      by (rule tenant_write.update) (fact 2)+
  qed
qed

lemma write_AddTenantUser:
  "tenant_write al (OpAddTenantUser i u role now) (tabs d)
     (tabs (exec_tenant_op al (OpAddTenantUser i u role now) d))"
proof -
  obtain r d' where r: "tenant_AddTenantUser i u role now d = (r, d')"
    by (cases "tenant_AddTenantUser i u role now d")
  show ?thesis
  proof (cases r)
    case (Inr x)
    with r obtain d1 y where "TrimSpace u \<noteq> []" "tenant_GetTenant (NormalizeTenantID i) d = (Inr y, d1)"
      "upsertTenantUser (NormalizeTenantID i) (TrimSpace u) role now d1 = (Inr x, d')"
      by (auto simp: tenant_AddTenantUser_def Let_def failE_def split: if_splits elim!: bindE_Inr)
    with r tenant_GetTenant_Inr tenant_GetTenant_tabs upsertTenantUser_Inr show ?thesis
      by (metis NormalizeTenantID_idem exec_tenant_op.simps(4) snd_conv tenant_write.add)
  next
    case (Inl e)
    with r tenant_GetTenant_tabs upsertTenantUser_Inl have "tabs d' = tabs d"
      by (simp add: tenant_AddTenantUser_def Let_def failE_def bindE_def
            split: if_splits sum.splits prod.splits)
    with r show ?thesis by (simp add: tenant_write.nothing)
  qed
qed

lemma write_RemoveTenantUser:
  "tenant_write al (OpRemoveTenantUser i u) (tabs d)
     (tabs (exec_tenant_op al (OpRemoveTenantUser i u) d))"
proof -
  let ?f = "\<lambda>t. (Inr (length (filter (\<lambda>m. tu_TenantID m = NormalizeTenantID i \<and>
        tu_Username m = TrimSpace u) (t_tenant_users t))) :: nat result,
      t\<lparr>t_tenant_users := filter (\<lambda>m. \<not> (tu_TenantID m = NormalizeTenantID i \<and>
        tu_Username m = TrimSpace u)) (t_tenant_users t)\<rparr>)"
  obtain r d' where r: "run_stmt ?f d = (r, d')" by (cases "run_stmt ?f d")
  then have e: "exec_tenant_op al (OpRemoveTenantUser i u) d = d'"
    by (auto simp: tenant_RemoveTenantUser_def Let_def bindE_def failE_def
          returnE_def split: sum.splits)
  from r show ?thesis
  proof (rule run_stmt_tabs)
    assume "tabs d' = tabs d"
    then show ?thesis unfolding e by (simp add: tenant_write.nothing)
  next
    fix x assume "?f (tabs d) = (Inr x, tabs d')"
    then have t': "tabs d' = (tabs d)\<lparr>t_tenant_users := filter (\<lambda>m. \<not> (tu_TenantID m =
        NormalizeTenantID i \<and> tu_Username m = TrimSpace u)) (t_tenant_users (tabs d))\<rparr>"
      by simp
    show ?thesis unfolding e t' by (rule tenant_write.remove)
  qed
qed

lemma write_AcceptInvitation:
  "tenant_write al (OpAcceptInvitation i now) (tabs d)
     (tabs (exec_tenant_op al (OpAcceptInvitation i now) d))"
proof -
  obtain r d' where r: "tenant_AcceptInvitation i now d = (r, d')"
    by (cases "tenant_AcceptInvitation i now d")
  show ?thesis
  proof (cases r)
    case (Inr x)
    with r have "tenant_AcceptInvitation i now d = (Inr x, d')" by simp
    then show ?thesis
    proof (cases rule: AcceptInvitation_Inr)
      case (1 row)
      show ?thesis unfolding exec_tenant_op.simps r snd_conv 1(5)
        by (rule tenant_write.accept) (fact 1)+
    qed
  next
    case (Inl e)
    with r have "tabs d' = tabs d" by (auto simp: tenant_AcceptInvitation_def Let_def dest: run_tx_Inl)
    with r show ?thesis by (simp add: tenant_write.nothing)
  qed
qed

lemma write_RejectInvitation:
  "tenant_write al (OpRejectInvitation i now) (tabs d)
     (tabs (exec_tenant_op al (OpRejectInvitation i now) d))"
proof -
  obtain r d' where r: "tenant_RejectInvitation i now d = (r, d')"
    by (cases "tenant_RejectInvitation i now d")
  show ?thesis
  proof (cases r)
    case (Inr x)
    with r have "tenant_RejectInvitation i now d = (Inr x, d')" by simp
    from RejectInvitation_Inr [OF this] show ?thesis
      by (simp only: exec_tenant_op.simps r snd_conv tenant_write.reject)
  next
    case (Inl e)
    with r have "tabs d' = tabs d" by (auto simp: tenant_RejectInvitation_def Let_def dest: run_tx_Inl)
    with r show ?thesis by (simp add: tenant_write.nothing)
  qed
qed

lemma write_CreateTenantInvitation:
  "tenant_write al (OpCreateTenantInvitation v rnd now) (tabs d)
     (tabs (exec_tenant_op al (OpCreateTenantInvitation v rnd now) d))"
proof -
  obtain r d' where r: "tenant_CreateTenantInvitation v rnd now d = (r, d')"
    by (cases "tenant_CreateTenantInvitation v rnd now d")
  have "tabs d' = tabs d \<or> tenant_write al (OpCreateTenantInvitation v rnd now) (tabs d) (tabs d')"
  proof (cases "tenant_GetTenant (NormalizeTenantID (iv_TenantID v)) d")
    case (Pair r1 d1)
    note G = this
    then have t1: "tabs d1 = tabs d" by (rule tenant_GetTenant_tabs)
    show ?thesis
    proof (cases "TrimSpace (iv_Username v) = [] \<or> TrimSpace (iv_InvitedBy v) = [] \<or> isl r1
        \<or> isl (newInvitationID rnd)")
      case True
      then show ?thesis using r G t1
        by (cases r1; cases "newInvitationID rnd")
          (auto simp: tenant_CreateTenantInvitation_def Let_def failE_def split: if_splits)
    next
      case False
      then obtain y k where y: "r1 = Inr y" and k: "newInvitationID rnd = Inr k"
        by (cases r1; cases "newInvitationID rnd") auto
      define row where "row = \<lparr>iv_ID = k, iv_TenantID = NormalizeTenantID (iv_TenantID v),
         iv_Username = TrimSpace (iv_Username v), iv_Role = NormalizeTenantRole (iv_Role v),
         iv_InvitedBy = TrimSpace (iv_InvitedBy v), iv_Status = ''pending'',
         iv_ExpiresAt = now + 7 * 24 * hour, iv_CreatedAt = now, iv_UpdatedAt = now\<rparr>"
      obtain r2 d2 where i: "insert_invitation row d1 = (r2, d2)" by (cases "insert_invitation row d1")
      have d': "d' = d2"
        using r G y k False i
        by (cases r2) (auto simp: tenant_CreateTenantInvitation_def Let_def row_def)
      from i show ?thesis unfolding insert_invitation_def
      proof (rule run_stmt_tabs)
        assume "tabs d2 = tabs d1"
        then show ?thesis by (simp add: d' t1)
      next
        fix x assume "(if \<exists>r\<in>set (t_invitations (tabs d1)). iv_ID r = iv_ID row
             then (Inl ErrDB, tabs d1)
             else (Inr (), (tabs d1)\<lparr>t_invitations := t_invitations (tabs d1) @ [row]\<rparr>))
           = (Inr x, tabs d2)"
        then have t': "tabs d' = (tabs d)\<lparr>t_invitations := t_invitations (tabs d) @ [row]\<rparr>"
          and fresh: "\<forall>r\<in>set (t_invitations (tabs d)). iv_ID r \<noteq> iv_ID row"
          by (auto simp: d' t1 split: if_splits)
        have "tenant_write al (OpCreateTenantInvitation v rnd now) (tabs d) (tabs d')"
          unfolding t' using False by (intro tenant_write.invite fresh) (simp_all add: row_def)
        then show ?thesis ..
      qed
    qed
  qed
  then show ?thesis using r by (auto simp: intro: tenant_write.nothing)
qed

lemma exec_tenant_op_write:
  "tenant_write al oper (tabs d) (tabs (exec_tenant_op al oper d))"
  by (cases oper) (simp_all only: write_CreateTenant write_CreateTenantWithOwner write_UpdateTenant
       write_AddTenantUser write_RemoveTenantUser write_AcceptInvitation
       write_RejectInvitation write_CreateTenantInvitation)

lemma role_cases: "NormalizeTenantRole r \<in> {TenantRoleAdmin, TenantRoleRW, TenantRoleRO}"
  by (rule NormalizeTenantRole_range)

lemma normalizeTenantStatus_range:
  "normalizeTenantStatus s \<in> {''active'', ''suspended'', ''archived''}"
  by (simp add: normalizeTenantStatus_def Let_def)

lemma two_cases: "x \<in> {a, b} \<Longrightarrow> a \<in> S \<Longrightarrow> b \<in> S \<Longrightarrow> x \<in> S"
  by auto

lemma map_key_put_member:
  "map (\<lambda>m. (tu_TenantID m, tu_Username m)) (put_member row ms) =
     map (\<lambda>m. (tu_TenantID m, tu_Username m)) ms @
     (if (tu_TenantID row, tu_Username row) \<in> (\<lambda>m. (tu_TenantID m, tu_Username m)) ` set ms then []
      else [(tu_TenantID row, tu_Username row)])"
  by (auto simp: put_member_def intro: rev_image_eqI)

lemma set_put_member:
  "m \<in> set (put_member row ms) \<Longrightarrow>
     (m \<in> set ms \<or> tu_Role m = tu_Role row) \<and>
     (tu_Username m = tu_Username row \<or> (\<exists>m' \<in> set ms. tu_Username m = tu_Username m'))"
  by (auto simp: put_member_def split: if_splits)

lemma members_ok_put:
  assumes "members_ok t" "tu_Role row \<in> {TenantRoleAdmin, TenantRoleRW, TenantRoleRO}"
    and "tu_Username row \<noteq> []"
  shows "members_ok (t'\<lparr>t_tenant_users := put_member row (t_tenant_users t)\<rparr>)"
  using assms unfolding members_ok_def
  by (auto simp: map_key_put_member dest!: set_put_member)

lemma invitations_ok_status:
  assumes "invitations_ok t" "status \<in> {''accepted'', ''rejected''}"
  shows "invitations_ok (t'\<lparr>t_invitations := map (\<lambda>r. if P r
    then r\<lparr>iv_Status := status, iv_UpdatedAt := now\<rparr> else r) (t_invitations t)\<rparr>)"
proof -
  have "map iv_ID (map (\<lambda>r. if P r then r\<lparr>iv_Status := status, iv_UpdatedAt := now\<rparr> else r)
      (t_invitations t)) = map iv_ID (t_invitations t)"
    by simp
  with assms show ?thesis unfolding invitations_ok_def by (auto simp del: map_map)
qed

lemma rename_distinct:
  assumes "distinct (map tn_ID rs)" "distinct (map tn_Name rs)"
    and "\<And>row. tn_Name (g row) = (if tn_ID row = i \<and> n \<noteq> [] then n else tn_Name row)"
    and "\<And>x row. x \<in> set rs \<Longrightarrow> tn_ID x = i \<Longrightarrow> n \<noteq> [] \<Longrightarrow> row \<in> set rs \<Longrightarrow> tn_ID row \<noteq> i \<Longrightarrow>
      tn_Name row \<noteq> n"
  shows "distinct (map (\<lambda>r. tn_Name (g r)) rs)"
  using assms(1,2,4)
proof (induction rs)
  case (Cons r rs)
  have IH: "distinct (map (\<lambda>r. tn_Name (g r)) rs)"
    using Cons.prems by (intro Cons.IH) auto
  have "tn_Name (g r) \<noteq> tn_Name (g r')" if "r' \<in> set rs" for r'
    using that Cons.prems(1,2) Cons.prems(3) [of r r'] Cons.prems(3) [of r' r]
    by (auto simp: assms(3) image_iff)
  with IH show ?case by auto
qed simp

lemma tenancy_ok_write: "tenant_write al oper t t' \<Longrightarrow> tenancy_ok t \<Longrightarrow> tenancy_ok t'"
proof (induction rule: tenant_write.induct)
  case (update g v i t now)
  have n: "distinct (map (\<lambda>r. tn_Name (g r)) (t_tenants t))"
  proof (rule rename_distinct)
    show "distinct (map tn_ID (t_tenants t))" "distinct (map tn_Name (t_tenants t))"
      using update(5) by (simp_all add: tenancy_ok_def tenants_ok_def)
    fix x row
    assume "x \<in> set (t_tenants t)" "tn_ID x = NormalizeTenantID i" "TrimSpace (tn_Name v) \<noteq> []"
      "row \<in> set (t_tenants t)" "tn_ID row \<noteq> NormalizeTenantID i"
    moreover from this(1,2) have "find_tenant (NormalizeTenantID i) t \<noteq> None"
      by (auto simp: find_tenant_def find_None_iff)
    ultimately show "tn_Name row \<noteq> TrimSpace (tn_Name v)" using update(4) by blast
  qed (rule update(3))
  have ok: "distinct (map tn_ID (t_tenants t))" "\<And>r. r \<in> set (t_tenants t) \<Longrightarrow> tn_Name r \<noteq> [] \<and>
      tn_Status r \<in> {''active'', ''suspended'', ''archived''}"
    "members_ok t" "invitations_ok t"
    using update(5) by (auto simp: tenancy_ok_def tenants_ok_def)
  have "tn_Status (g r) \<in> {''active'', ''suspended'', ''archived''}" if "r \<in> set (t_tenants t)" for r
    using ok(2) [OF that] normalizeTenantStatus_range by (intro two_cases [OF update(2)]) blast+
  moreover have "tn_Name (g r) \<noteq> []" if "r \<in> set (t_tenants t)" for r
    using ok(2) [OF that] by (simp add: update(3))
  ultimately show ?case
    using n ok by (simp add: tenancy_ok_def tenants_ok_def members_ok_def invitations_ok_def
        update(1) comp_def)
next
  case (remove i u t)
  then show ?case
    by (auto simp: tenancy_ok_def tenants_ok_def members_ok_def invitations_ok_def
        distinct_map intro: inj_on_subset)
next
  case (create tn now row t)
  with newTenantRow_Inr [OF create(1)] normalizeTenantStatus_range [of "tn_Status tn"] show ?case
    by (auto simp: tenancy_ok_def tenants_ok_def members_ok_def invitations_ok_def)
next
  case (create_owned tn now row u t)
  with newTenantRow_Inr [OF create_owned(1)] normalizeTenantStatus_range [of "tn_Status tn"]
  have "tenants_ok (t\<lparr>t_tenants := t_tenants t @ [row], t_tenant_users := x\<rparr>)" for x
    by (auto simp: tenancy_ok_def tenants_ok_def)
  with create_owned members_ok_put show ?case
    by (simp add: tenancy_ok_def invitations_ok_def)
next
  case (add u i t role now)
  have "members_ok (t\<lparr>t_tenant_users := put_member
      \<lparr>tu_TenantID = NormalizeTenantID i, tu_Username = TrimSpace u,
       tu_Role = NormalizeTenantRole role, tu_CreatedAt = now\<rparr> (t_tenant_users t)\<rparr>)"
    using add role_cases by (intro members_ok_put) (simp_all add: tenancy_ok_def)
  with add show ?case by (simp add: tenancy_ok_def tenants_ok_def invitations_ok_def)
next
  case (invite t row v rnd now)
  with role_cases [of "iv_Role v"] show ?case
    by (auto simp: tenancy_ok_def tenants_ok_def members_ok_def invitations_ok_def)
next
  case (accept i t row now)
  from accept(1) have "row \<in> set (t_invitations t)"
    by (auto simp: find_invitation_def dest: find_SomeD)
  with accept have "TrimSpace (iv_Username row) \<noteq> []" "members_ok t" "invitations_ok t" "tenants_ok t"
    by (auto simp: tenancy_ok_def invitations_ok_def)
  then have "members_ok (t\<lparr>t_tenant_users := put_member
      \<lparr>tu_TenantID = TrimSpace (iv_TenantID row), tu_Username = TrimSpace (iv_Username row),
       tu_Role = NormalizeTenantRole (NormalizeTenantRole (iv_Role row)), tu_CreatedAt = now\<rparr>
      (t_tenant_users t)\<rparr>)"
    using role_cases by (intro members_ok_put) simp_all
  moreover have "invitations_ok (t\<lparr>t_invitations := map (\<lambda>r.
         if iv_ID r = TrimSpace i \<and> iv_Status r = ''pending'' \<and> now < iv_ExpiresAt r
         then r\<lparr>iv_Status := ''accepted'', iv_UpdatedAt := now\<rparr> else r) (t_invitations t)\<rparr>)"
    using \<open>invitations_ok t\<close> by (intro invitations_ok_status) simp_all
  ultimately show ?case using \<open>tenants_ok t\<close>
    by (simp add: tenancy_ok_def tenants_ok_def members_ok_def invitations_ok_def)
next
  case (reject i now t)
  have "invitations_ok (t\<lparr>t_invitations := map (\<lambda>r.
         if iv_ID r = TrimSpace i \<and> iv_Status r = ''pending'' \<and> True
         then r\<lparr>iv_Status := ''rejected'', iv_UpdatedAt := now\<rparr> else r) (t_invitations t)\<rparr>)"
    using reject by (intro invitations_ok_status) (simp_all add: tenancy_ok_def)
  with reject show ?case by (simp add: tenancy_ok_def tenants_ok_def members_ok_def)
qed

text \<open>C40: starting from an empty database, whatever calls of the repository are made, with
  whatever arguments, clock, random bytes and database failures, the tables stay well typed:
  tenants have distinct ids and distinct non-blank names and one of the three statuses, a user has
  at most one membership in a tenant, every stored role is one of the three tenant roles, and
  every invitation has a distinct id, names somebody and is pending, accepted or rejected.\<close>

theorem tenancy_well_typed:
  "tenancy_ok (tabs (fold (exec_tenant_op al) opers (empty_db\<lparr>faults := fs\<rparr>)))"
proof -
  have "tenancy_ok (tabs d) \<Longrightarrow> tenancy_ok (tabs (fold (exec_tenant_op al) opers d))" for d
  proof (induction opers arbitrary: d)
    case (Cons oper opers)
    then show ?case using tenancy_ok_write [OF exec_tenant_op_write] by simp
  qed simp
  moreover have "tenancy_ok (tabs (empty_db\<lparr>faults := fs\<rparr>))"
    by (simp add: tenancy_ok_def tenants_ok_def members_ok_def invitations_ok_def empty_db_def
        empty_tables_def)
  ultimately show ?thesis .
qed

section \<open>Who can obtain a role\<close>

lemma find_filter_other:
  "(\<And>x. P x \<Longrightarrow> Q x) \<Longrightarrow> find P (filter Q xs) = find P xs"
  "(\<And>x. P x \<Longrightarrow> \<not> Q x) \<Longrightarrow> find P (filter Q xs) = None"
  by (induction xs) auto

lemma member_role_remove:
  "member_role (t\<lparr>t_tenant_users := filter (\<lambda>m. tu_TenantID m = j \<longrightarrow> tu_Username m \<noteq> v)
      (t_tenant_users t)\<rparr>) i u = (if i = j \<and> u = v then None else member_role t i u)"
proof (cases "i = j \<and> u = v")
  case True
  then show ?thesis by (simp add: member_role_def find_filter_other(2))
next
  case False
  then show ?thesis by (auto simp: member_role_def intro!: arg_cong [where f = "map_option tu_Role"]
        find_filter_other(1))
qed

lemma member_role_members [simp]:
  "member_role (t\<lparr>t_tenants := x\<rparr>) = member_role t"
  "member_role (t\<lparr>t_invitations := y\<rparr>) = member_role t"
  by (simp_all add: fun_eq_iff member_role_def)

lemma find_unique:
  "distinct (map f xs) \<Longrightarrow> find (\<lambda>x. f x = k) xs = Some y \<Longrightarrow> x \<in> set xs \<Longrightarrow> f x = k \<Longrightarrow> x = y"
  by (induction xs) (auto split: if_splits simp: image_iff)

lemma invitation_unique:
  assumes "invitations_ok t" "find_invitation k t = Some row" "v \<in> set (t_invitations t)" "iv_ID v = k"
  shows "v = row"
  using find_unique [of iv_ID] assms unfolding invitations_ok_def find_invitation_def by blast

lemma invitation_found:
  assumes "invitations_ok t" "find_invitation k t = Some row"
  shows "row \<in> set (t_invitations t)" "iv_ID row = k"
    and "TrimSpace (iv_Status row) = iv_Status row" "NormalizeTenantRole (iv_Role row) = iv_Role row"
proof -
  show r: "row \<in> set (t_invitations t)" "iv_ID row = k"
    using assms(2) by (auto simp: find_invitation_def dest: find_SomeD)
  have trim: "TrimSpace ''pending'' = ''pending''" "TrimSpace ''accepted'' = ''accepted''"
    "TrimSpace ''rejected'' = ''rejected''"
    by code_simp+
  have norm: "NormalizeTenantRole TenantRoleAdmin = TenantRoleAdmin"
    "NormalizeTenantRole TenantRoleRW = TenantRoleRW" "NormalizeTenantRole TenantRoleRO = TenantRoleRO"
    by code_simp+
  from assms(1) r have "iv_Status row = ''pending'' \<or> iv_Status row = ''accepted'' \<or> iv_Status row = ''rejected''"
    "iv_Role row = TenantRoleAdmin \<or> iv_Role row = TenantRoleRW \<or> iv_Role row = TenantRoleRO"
    by (auto simp: invitations_ok_def)
  then show "TrimSpace (iv_Status row) = iv_Status row" "NormalizeTenantRole (iv_Role row) = iv_Role row"
    using trim norm by metis+
qed

text \<open>The changes of roles, removals included.\<close>

lemma role_changes:
  assumes "tenancy_ok (tabs d)"
    and "member_role (tabs (exec_tenant_op al oper d)) i u \<noteq> member_role (tabs d) i u"
  shows "(\<exists>tn now v. oper = OpCreateTenantWithOwner tn v now \<and> u = TrimSpace v \<and>
            member_role (tabs (exec_tenant_op al oper d)) i u = Some TenantRoleAdmin \<and>
            find_tenant i (tabs d) = None) \<or>
         (\<exists>j v role now. oper = OpAddTenantUser j v role now \<and> i = NormalizeTenantID j \<and> u = TrimSpace v \<and>
            member_role (tabs (exec_tenant_op al oper d)) i u = Some (NormalizeTenantRole role) \<and>
            find_tenant i (tabs d) \<noteq> None) \<or>
         (\<exists>k now row. oper = OpAcceptInvitation k now \<and>
            find_invitation (TrimSpace k) (tabs d) = Some row \<and> iv_Status row = ''pending'' \<and>
            now < iv_ExpiresAt row \<and> i = TrimSpace (iv_TenantID row) \<and> u = TrimSpace (iv_Username row) \<and>
            member_role (tabs (exec_tenant_op al oper d)) i u = Some (iv_Role row)) \<or>
         (\<exists>j v. oper = OpRemoveTenantUser j v \<and> i = NormalizeTenantID j \<and> u = TrimSpace v \<and>
            member_role (tabs (exec_tenant_op al oper d)) i u = None)"
  using exec_tenant_op_write [of al oper d] assms
proof (cases rule: tenant_write.cases)
  case (create_owned tn now row v)
  then show ?thesis using assms
    by (auto simp: member_role_put find_tenant_def find_None_iff split: if_splits)
next
  case (add v j role now)
  then show ?thesis using assms by (auto simp: member_role_put split: if_splits)
next
  case (remove j v)
  then show ?thesis using assms by (auto simp: member_role_remove split: if_splits)
next
  case (accept k row now)
  have ok: "invitations_ok (tabs d)" using assms(1) by (simp add: tenancy_ok_def)
  note row = invitation_found [OF ok accept(3)]
  from accept(6) obtain v where "v \<in> set (t_invitations (tabs d))" "iv_ID v = TrimSpace k"
    "now < iv_ExpiresAt v" "iv_Status v = ''pending''"
    by (auto simp: filter_empty_conv)
  with invitation_unique [OF ok accept(3)] have "now < iv_ExpiresAt row" "iv_Status row = ''pending''"
    by auto
  with accept assms(2) row show ?thesis by (auto simp: member_role_put split: if_splits)
qed auto

text \<open>a user obtains a role in a tenant in three ways only: by creating the tenant, which makes
  the owner its administrator; by being added to an existing tenant with that role; or by accepting
  an invitation that is pending, has not expired, and names that tenant, that user and that role.
  Every other call, and every failing call, leaves each role as it was or takes it away.\<close>

theorem role_grants_justified:
  assumes "tenancy_ok (tabs d)"
    and "member_role (tabs (exec_tenant_op al oper d)) i u = Some r"
    and "member_role (tabs d) i u \<noteq> Some r"
  shows "(\<exists>tn now. \<exists>v. oper = OpCreateTenantWithOwner tn v now \<and> u = TrimSpace v \<and>
            r = TenantRoleAdmin \<and> find_tenant i (tabs d) = None) \<or>
         (\<exists>j v role now. oper = OpAddTenantUser j v role now \<and> i = NormalizeTenantID j \<and>
            u = TrimSpace v \<and> r = NormalizeTenantRole role \<and> find_tenant i (tabs d) \<noteq> None) \<or>
         (\<exists>k now row. oper = OpAcceptInvitation k now \<and>
            find_invitation (TrimSpace k) (tabs d) = Some row \<and> iv_Status row = ''pending'' \<and>
            now < iv_ExpiresAt row \<and> i = TrimSpace (iv_TenantID row) \<and>
            u = TrimSpace (iv_Username row) \<and> r = iv_Role row)"
  using role_changes [OF assms(1), of al oper i u] assms(2,3) by auto

text \<open>A tenant, an invitation for ana to join it as a writer, and its acceptance.\<close>

definition example_tenant :: tenant where
  "example_tenant = \<lparr>tn_ID = ''t1'', tn_Name = ''Home'', tn_Status = ''active'', tn_CreatedAt = 0, tn_UpdatedAt = 0\<rparr>"

definition example_invitation :: tenant_invitation where
  "example_invitation =
     \<lparr>iv_ID = ''inv'', iv_TenantID = ''t1'', iv_Username = ''ana'', iv_Role = TenantRoleRW,
      iv_InvitedBy = ''eve'', iv_Status = ''pending'', iv_ExpiresAt = 1000, iv_CreatedAt = 0,
      iv_UpdatedAt = 0\<rparr>"

definition example_tenancy :: db where
  "example_tenancy = \<lparr>tabs = empty_tables
     \<lparr>t_tenants := [example_tenant], t_invitations := [example_invitation]\<rparr>, faults = []\<rparr>"

lemma example_tenancy_ok: "tenancy_ok (tabs example_tenancy)"
  by (simp add: tenancy_ok_def tenants_ok_def members_ok_def invitations_ok_def example_tenancy_def
      example_tenant_def example_invitation_def empty_tables_def) code_simp

lemma role_grants_justified_witness:
  "\<exists>k now row. OpAcceptInvitation ''inv'' 5 = OpAcceptInvitation k now \<and>
     find_invitation (TrimSpace k) (tabs example_tenancy) = Some row \<and> iv_Status row = ''pending'' \<and>
     now < iv_ExpiresAt row \<and> ''t1'' = TrimSpace (iv_TenantID row) \<and>
     ''ana'' = TrimSpace (iv_Username row) \<and> TenantRoleRW = iv_Role row"
proof -
  have "member_role (tabs (exec_tenant_op (\<lambda>_. False) (OpAcceptInvitation ''inv'' 5) example_tenancy)) ''t1'' ''ana''
      = Some TenantRoleRW" "member_role (tabs example_tenancy) ''t1'' ''ana'' \<noteq> Some TenantRoleRW"
    by code_simp+
  from role_grants_justified [OF example_tenancy_ok this] show ?thesis by auto
qed

lemma find_status_update:
  assumes "find_invitation k t = Some row" "iv_Status row = ''pending''" "g row"
  shows "find_invitation k (t\<lparr>t_tenant_users := x, t_invitations := map (\<lambda>r.
       if iv_ID r = k \<and> iv_Status r = ''pending'' \<and> g r
       then r\<lparr>iv_Status := status, iv_UpdatedAt := now\<rparr> else r) (t_invitations t)\<rparr>) =
     Some (row\<lparr>iv_Status := status, iv_UpdatedAt := now\<rparr>)"
proof -
  have "find (\<lambda>r. iv_ID r = k) (map (\<lambda>r. if iv_ID r = k \<and> iv_Status r = ''pending'' \<and> g r
       then r\<lparr>iv_Status := status, iv_UpdatedAt := now\<rparr> else r) vs) =
     Some (row\<lparr>iv_Status := status, iv_UpdatedAt := now\<rparr>)"
    if "find (\<lambda>r. iv_ID r = k) vs = Some row" for vs
    using that assms(2,3) by (induction vs) (auto split: if_splits)
  with assms(1) show ?thesis by (simp add: find_invitation_def)
qed

text \<open>Without database failures, the outcome of accepting an invitation.\<close>

lemma AcceptInvitation_eq:
  assumes "faults d = []" "invitations_ok (tabs d)" "find_invitation (TrimSpace k) (tabs d) = Some row"
  shows "tenant_AcceptInvitation k now d =
    (if iv_Status row \<noteq> ''pending'' then (Inl ErrInvitationAccepted, d)
     else if iv_ExpiresAt row < now then (Inl ErrInvitationExpired, d)
     else if iv_ExpiresAt row = now then (Inl ErrInvitationAccepted, d)
     else (Inr (), d\<lparr>tabs := (tabs d)
       \<lparr>t_tenant_users := put_member
          \<lparr>tu_TenantID = TrimSpace (iv_TenantID row), tu_Username = TrimSpace (iv_Username row),
           tu_Role = iv_Role row, tu_CreatedAt = now\<rparr> (t_tenant_users (tabs d)),
        t_invitations := map (\<lambda>r.
          if iv_ID r = TrimSpace k \<and> iv_Status r = ''pending'' \<and> now < iv_ExpiresAt r
          then r\<lparr>iv_Status := ''accepted'', iv_UpdatedAt := now\<rparr> else r)
          (t_invitations (tabs d))\<rparr>\<rparr>))"
proof -
  note row = invitation_found [OF assms(2,3)]
  have g: "getInvitation (TrimSpace k) d = (Inr (invitationFromRow row), d)"
    using assms by (simp add: getInvitation_def bindE_def returnE_def)
  have f: "filter (\<lambda>r. iv_ID r = TrimSpace k \<and> iv_Status r = ''pending'' \<and> now < iv_ExpiresAt r)
      (t_invitations (tabs d)) = [] \<longleftrightarrow> \<not> (iv_Status row = ''pending'' \<and> now < iv_ExpiresAt row)"
    unfolding filter_empty_conv using invitation_unique [OF assms(2,3)] row(1,2) by metis
  have up: "upsertTenantUser i u role now d = (Inr (), d\<lparr>tabs := (tabs d)\<lparr>t_tenant_users := put_member
       \<lparr>tu_TenantID = i, tu_Username = u, tu_Role = NormalizeTenantRole role, tu_CreatedAt = now\<rparr>
       (t_tenant_users (tabs d))\<rparr>\<rparr>)" for i u role
    using assms(1) by (simp add: upsertTenantUser_def)
  have inv: "iv_Status (invitationFromRow row) = iv_Status row"
    "iv_ExpiresAt (invitationFromRow row) = iv_ExpiresAt row"
    "NormalizeTenantRole (iv_Role (invitationFromRow row)) = iv_Role row"
    "iv_TenantID (invitationFromRow row) = TrimSpace (iv_TenantID row)"
    "iv_Username (invitationFromRow row) = TrimSpace (iv_Username row)"
    using row by (simp_all add: invitationFromRow_def)
  have d: "d\<lparr>tabs := tabs d\<rparr> = d" by (cases d) simp
  show ?thesis
  proof (cases "iv_Status row \<noteq> ''pending'' \<or> iv_ExpiresAt row < now")
    case True
    then show ?thesis using assms(1) d
      by (auto simp: tenant_AcceptInvitation_def Let_def run_tx_def g inv)
  next
    case False
    let ?P = "\<lambda>r. iv_ID r = TrimSpace k \<and> iv_Status r = ''pending'' \<and> now < iv_ExpiresAt r"
    from f have e: "length (filter ?P (t_invitations (tabs d))) = 0 \<longleftrightarrow> iv_ExpiresAt row \<le> now"
      using False by auto
    show ?thesis using False assms(1) e d
      by (simp add: tenant_AcceptInvitation_def Let_def run_tx_def g inv up set_status_def split del: if_split)
        (simp add: bindE_def failE_def returnE_def)
  qed
qed

lemma RejectInvitation_closed:
  assumes "faults d = []" "invitations_ok (tabs d)" "find_invitation (TrimSpace k) (tabs d) = Some row"
    and "iv_Status row \<noteq> ''pending''"
  shows "tenant_RejectInvitation k now d = (Inl ErrInvitationAccepted, d)"
proof -
  have "getInvitation (TrimSpace k) d = (Inr (invitationFromRow row), d)"
    using assms by (simp add: getInvitation_def bindE_def returnE_def)
  moreover have "d\<lparr>tabs := tabs d\<rparr> = d" by (cases d) simp
  ultimately show ?thesis using assms invitation_found(3) [OF assms(2,3)]
    by (simp add: tenant_RejectInvitation_def Let_def run_tx_def invitationFromRow_def)
qed

lemma accept_invitation_outcome:
  assumes "faults d = []" "tenancy_ok (tabs d)"
    and "find_invitation (TrimSpace k) (tabs d) = Some row"
    and "tenant_AcceptInvitation k now d = (res, d')"
  shows "res = (if iv_Status row \<noteq> ''pending'' then Inl ErrInvitationAccepted
                else if iv_ExpiresAt row < now then Inl ErrInvitationExpired
                else if iv_ExpiresAt row = now then Inl ErrInvitationAccepted else Inr ())"
    and "isl res \<longrightarrow> d' = d"
    and "res = Inr () \<longrightarrow>
      member_role (tabs d') = (\<lambda>i u.
        if i = TrimSpace (iv_TenantID row) \<and> u = TrimSpace (iv_Username row)
        then Some (iv_Role row) else member_role (tabs d) i u) \<and>
      fst (tenant_AcceptInvitation k later d') = Inl ErrInvitationAccepted \<and>
      fst (tenant_RejectInvitation k later d') = Inl ErrInvitationAccepted"
    (is "_ \<longrightarrow> ?after")
proof -
  have ok: "invitations_ok (tabs d)" using assms(2) by (simp add: tenancy_ok_def)
  note eq = AcceptInvitation_eq [OF assms(1) ok assms(3), of now]
  show res: "res = (if iv_Status row \<noteq> ''pending'' then Inl ErrInvitationAccepted
                else if iv_ExpiresAt row < now then Inl ErrInvitationExpired
                else if iv_ExpiresAt row = now then Inl ErrInvitationAccepted else Inr ())"
    using assms(4) unfolding eq by (auto split: if_splits)
  show "isl res \<longrightarrow> d' = d"
    using assms(4) unfolding eq by (auto split: if_splits)
  show "res = Inr () \<longrightarrow> ?after"
  proof
    assume "res = Inr ()"
    with assms(4) have d': "d' = d\<lparr>tabs := (tabs d)
       \<lparr>t_tenant_users := put_member
          \<lparr>tu_TenantID = TrimSpace (iv_TenantID row), tu_Username = TrimSpace (iv_Username row),
           tu_Role = iv_Role row, tu_CreatedAt = now\<rparr> (t_tenant_users (tabs d)),
        t_invitations := map (\<lambda>r.
          if iv_ID r = TrimSpace k \<and> iv_Status r = ''pending'' \<and> now < iv_ExpiresAt r
          then r\<lparr>iv_Status := ''accepted'', iv_UpdatedAt := now\<rparr> else r)
          (t_invitations (tabs d))\<rparr>\<rparr>" and p: "iv_Status row = ''pending''" "now < iv_ExpiresAt row"
      unfolding eq by (auto split: if_splits)
    have "member_role (tabs d') = (\<lambda>i u.
        if i = TrimSpace (iv_TenantID row) \<and> u = TrimSpace (iv_Username row)
        then Some (iv_Role row) else member_role (tabs d) i u)"
      unfolding d' by (auto simp: fun_eq_iff member_role_put)
    moreover have "invitations_ok (tabs d')"
      using tenancy_ok_write [OF exec_tenant_op_write assms(2), of _ "OpAcceptInvitation k now"] assms(4)
      by (simp add: tenancy_ok_def)
    moreover have "find_invitation (TrimSpace k) (tabs d') =
        Some (row\<lparr>iv_Status := ''accepted'', iv_UpdatedAt := now\<rparr>)"
      using find_status_update [OF assms(3) p(1), of "\<lambda>r. now < iv_ExpiresAt r"] p(2)
      by (simp add: d')
    moreover have "faults d' = []" by (simp add: d' assms(1))
    ultimately show ?after
      by (simp add: AcceptInvitation_eq RejectInvitation_closed)
  qed
qed

text \<open>C22: accepting an invitation when the database answers. An invitation that is no longer pending
  is refused as already accepted, one past its expiry as expired, and at the very instant of its
  expiry the guarded update matches no row, the membership written before it is rolled back, and the
  caller is told it was accepted already. Otherwise the user gets exactly the invited role in the
  tenant, replacing the role he had, no other membership changes, and the invitation can be neither
  accepted nor rejected again, at any later time.\<close>

theorem accept_invitation_once:
  assumes "faults d = []" "tenancy_ok (tabs d)"
    and "find_invitation (TrimSpace k) (tabs d) = Some row"
    and "tenant_AcceptInvitation k now d = (res, d')"
  shows "res = (if iv_Status row \<noteq> ''pending'' then Inl ErrInvitationAccepted
                else if iv_ExpiresAt row < now then Inl ErrInvitationExpired
                else if iv_ExpiresAt row = now then Inl ErrInvitationAccepted else Inr ()) \<and>
    (isl res \<longrightarrow> d' = d) \<and>
    (res = Inr () \<longrightarrow>
      member_role (tabs d') = (\<lambda>i u.
        if i = TrimSpace (iv_TenantID row) \<and> u = TrimSpace (iv_Username row)
        then Some (iv_Role row) else member_role (tabs d) i u) \<and>
      fst (tenant_AcceptInvitation k later d') = Inl ErrInvitationAccepted \<and>
      fst (tenant_RejectInvitation k later d') = Inl ErrInvitationAccepted)"
  using accept_invitation_outcome [OF assms] by blast

lemma accept_invitation_once_witness:
  "fst (tenant_AcceptInvitation ''inv'' 5 example_tenancy) = Inr () \<and>
   (\<exists>d'. member_role (tabs d') ''t1'' ''ana'' = Some TenantRoleRW \<and>
      fst (tenant_AcceptInvitation ''inv'' 6 d') = Inl ErrInvitationAccepted)"
proof -
  have f: "faults example_tenancy = []"
    "find_invitation (TrimSpace ''inv'') (tabs example_tenancy) = Some example_invitation"
    by code_simp+
  have r: "fst (tenant_AcceptInvitation ''inv'' 5 example_tenancy) = Inr ()" by code_simp
  obtain d' where a: "tenant_AcceptInvitation ''inv'' 5 example_tenancy = (Inr (), d')"
    using r by (cases "tenant_AcceptInvitation ''inv'' 5 example_tenancy") auto
  have t: "TrimSpace (iv_TenantID example_invitation) = ''t1''"
    "TrimSpace (iv_Username example_invitation) = ''ana''" "iv_Role example_invitation = TenantRoleRW"
    by code_simp+
  from accept_invitation_once [OF f(1) example_tenancy_ok f(2) a, of 6] r t show ?thesis
    by (intro conjI exI [of _ d']) simp_all
qed

end
