(* ===== verification/UserStore.thy ===== *)
theory UserStore
  imports TenantStore
begin

text \<open>
  \<^verbatim>\<open>storage/user/repository.go\<close> and \<^verbatim>\<open>storage/identity/repository.go\<close>: the accounts.
  The first repository reads them for the web layer and keeps the role of the legacy tenant in
  step; the second is the credential store of the authentication library, with the account that
  library handles (\<^verbatim>\<open>identity/auth_user.go\<close>). The repository's type assertions always hold: every
  user it is handed is one it made.
\<close>

section \<open>Accounts and rows\<close>

record auth_user =
  au_ID :: int
  au_Email :: string
  au_Username :: string
  au_Password :: string
  au_Permission :: permission
  au_RecoverToken :: string
  au_RecoverTokenExpiry :: time
  au_ConfirmToken :: string
  au_Confirmed :: bool
  au_LastLogin :: time
  au_CreatedAt :: time
  au_UpdatedAt :: time
  au_OAuth2UID :: string
  au_OAuth2Provider :: string
  au_OAuth2AccessToken :: string
  au_OAuth2RefreshToken :: string
  au_OAuth2Expiry :: time
  au_RememberToken :: string

definition no_auth_user :: auth_user where
  "no_auth_user =
     \<lparr>au_ID = 0, au_Email = [], au_Username = [], au_Password = [], au_Permission = PermissionNone,
      au_RecoverToken = [], au_RecoverTokenExpiry = zero_time, au_ConfirmToken = [],
      au_Confirmed = False, au_LastLogin = zero_time, au_CreatedAt = zero_time,
      au_UpdatedAt = zero_time, au_OAuth2UID = [], au_OAuth2Provider = [],
      au_OAuth2AccessToken = [], au_OAuth2RefreshToken = [], au_OAuth2Expiry = zero_time,
      au_RememberToken = []\<rparr>"

definition nullableString :: "string \<Rightarrow> string option" where
  "nullableString v = (let v = TrimSpace v in if v = [] then None else Some v)"

definition nullableTime :: "time \<Rightarrow> time option" where
  "nullableTime v = (if v = zero_time then None else Some v)"

definition string_of_null :: "string option \<Rightarrow> string" where
  "string_of_null v = (case v of None \<Rightarrow> [] | Some s \<Rightarrow> s)"

definition time_of_null :: "time option \<Rightarrow> time" where
  "time_of_null v = (case v of None \<Rightarrow> zero_time | Some t \<Rightarrow> t)"

text \<open>The row's two time stamps are not set by the code: they are what the insert stores.\<close>

definition newAuthUserRow :: "auth_user \<Rightarrow> time \<Rightarrow> user_row" where
  "newAuthUserRow u stamp =
     \<lparr>u_ID = au_ID u, u_Email = nullableString (au_Email u), u_Username = TrimSpace (au_Username u),
      u_Password = au_Password u, u_Permission = au_Permission u,
      u_OAuth2UID = nullableString (au_OAuth2UID u),
      u_OAuth2Provider = nullableString (au_OAuth2Provider u),
      u_OAuth2AccessToken = nullableString (au_OAuth2AccessToken u),
      u_OAuth2RefreshToken = nullableString (au_OAuth2RefreshToken u),
      u_OAuth2Expiry = nullableTime (au_OAuth2Expiry u),
      u_RememberToken = nullableString (au_RememberToken u),
      u_RecoverToken = nullableString (au_RecoverToken u),
      u_RecoverTokenExpiry = nullableTime (au_RecoverTokenExpiry u),
      u_ConfirmToken = nullableString (au_ConfirmToken u), u_Confirmed = au_Confirmed u,
      u_LastLogin = nullableTime (au_LastLogin u), u_CreatedAt = stamp, u_UpdatedAt = stamp\<rparr>"

definition toAuthUser :: "user_row \<Rightarrow> auth_user" where
  "toAuthUser r =
     \<lparr>au_ID = u_ID r, au_Email = string_of_null (u_Email r), au_Username = u_Username r,
      au_Password = u_Password r, au_Permission = u_Permission r,
      au_RecoverToken = string_of_null (u_RecoverToken r),
      au_RecoverTokenExpiry = time_of_null (u_RecoverTokenExpiry r),
      au_ConfirmToken = string_of_null (u_ConfirmToken r), au_Confirmed = u_Confirmed r,
      au_LastLogin = time_of_null (u_LastLogin r), au_CreatedAt = u_CreatedAt r,
      au_UpdatedAt = u_UpdatedAt r, au_OAuth2UID = string_of_null (u_OAuth2UID r),
      au_OAuth2Provider = string_of_null (u_OAuth2Provider r),
      au_OAuth2AccessToken = string_of_null (u_OAuth2AccessToken r),
      au_OAuth2RefreshToken = string_of_null (u_OAuth2RefreshToken r),
      au_OAuth2Expiry = time_of_null (u_OAuth2Expiry r),
      au_RememberToken = string_of_null (u_RememberToken r)\<rparr>"

section \<open>The user repository\<close>

definition find_user :: "string \<Rightarrow> tables \<Rightarrow> user_row option" where
  "find_user username t = find (\<lambda>r. u_Username r = username) (t_users t)"

definition map_users :: "string \<Rightarrow> (user_row \<Rightarrow> user_row) \<Rightarrow> tables \<Rightarrow> tables" where
  "map_users username f t =
     t\<lparr>t_users := map (\<lambda>r. if u_Username r = username then f r else r) (t_users t)\<rparr>"

definition user_GetUserCount :: "(nat, db) action" where
  "user_GetUserCount = run_query (\<lambda>t. length (t_users t))"

text \<open>\<open>ORDER BY created_at ASC, id ASC\<close>\<close>

definition ordered_users :: "tables \<Rightarrow> user_row list" where
  "ordered_users t = sort_key (\<lambda>r. (u_CreatedAt r, u_ID r)) (t_users t)"

definition user_ListUsers :: "(user list, db) action" where
  "user_ListUsers =
     run_query (\<lambda>t. map (\<lambda>r. \<lparr>us_Username = u_Username r, us_Permission = u_Permission r,
       us_TenantRole = [], us_CreatedAt = u_CreatedAt r\<rparr>) (ordered_users t))"

text \<open>Every account, with its role in the tenant when it is a member.\<close>

definition tenant_view :: "string \<Rightarrow> tables \<Rightarrow> user_row \<Rightarrow> user" where
  "tenant_view tenantID t r =
     (let role = (case member_role t tenantID (u_Username r) of None \<Rightarrow> []
                  | Some raw \<Rightarrow> if TrimSpace raw \<noteq> [] then NormalizeTenantRole raw else [])
      in \<lparr>us_Username = u_Username r,
          us_Permission = (if role = [] then PermissionNone else PermissionFromTenantRole role),
          us_TenantRole = role, us_CreatedAt = u_CreatedAt r\<rparr>)"

definition user_ListUsersByTenant :: "string \<Rightarrow> (user list, db) action" where
  "user_ListUsersByTenant tenantID =
     run_query (\<lambda>t. map (tenant_view (NormalizeTenantID tenantID) t) (ordered_users t))"

definition user_GetUserPermission :: "string \<Rightarrow> (permission, db) action" where
  "user_GetUserPermission username =
     bindE (run_query (find_user username))
       (\<lambda>r. case r of None \<Rightarrow> failE ErrUserNotFound | Some row \<Rightarrow> returnE (u_Permission row))"

text \<open>
  The legacy tenant is created when it is missing; its name is a key too, so the insert fails
  when another tenant bears the name.
\<close>

definition insert_legacy_tenant :: "time \<Rightarrow> (unit, db) action" where
  "insert_legacy_tenant now =
     run_stmt (\<lambda>t.
       if find_tenant DefaultTenantID t \<noteq> None then (Inr (), t)
       else if \<exists>r \<in> set (t_tenants t). tn_Name r = ''legacy'' then (Inl ErrDB, t)
       else (Inr (), t\<lparr>t_tenants := t_tenants t @
              [\<lparr>tn_ID = DefaultTenantID, tn_Name = ''legacy'', tn_Status = ''active'',
                tn_CreatedAt = now, tn_UpdatedAt = now\<rparr>]\<rparr>))"

definition SyncLegacyTenantRole :: "string \<Rightarrow> permission \<Rightarrow> time \<Rightarrow> (unit, db) action" where
  "SyncLegacyTenantRole username perm now =
     (let u = TrimSpace username
      in if u = [] then returnE ()
         else bindE (insert_legacy_tenant now)
           (\<lambda>_. run_stmt (\<lambda>t. (Inr (), t\<lparr>t_tenant_users := put_member
              \<lparr>tu_TenantID = DefaultTenantID, tu_Username = u,
               tu_Role = PermissionToTenantRole perm, tu_CreatedAt = now\<rparr> (t_tenant_users t)\<rparr>))))"

definition user_UpdateUserPermission :: "string \<Rightarrow> permission \<Rightarrow> time \<Rightarrow> (unit, db) action" where
  "user_UpdateUserPermission username perm now =
     (let u = TrimSpace username
      in run_tx (bindE
           (run_stmt (\<lambda>t. (Inr (length (filter (\<lambda>r. u_Username r = u) (t_users t))),
                          map_users u (\<lambda>r. r\<lparr>u_Permission := perm\<rparr>) t)))
           (\<lambda>rows. if rows = 0 then failE ErrUserNotFound else SyncLegacyTenantRole u perm now)))"

section \<open>The credential store\<close>

text \<open>\<open>strings.Split(key, ";;")\<close>\<close>

function split2 :: "string \<Rightarrow> string list" where
  "split2 [] = [[]]"
| "split2 (c # s) =
     (if is_prefix '';;'' (c # s) then [] # split2 (drop 1 s)
      else (case split2 s of [] \<Rightarrow> [[c]] | p # ps \<Rightarrow> (c # p) # ps))"
  by pat_completeness auto
termination by (relation "measure length") auto

definition ident_Load :: "string \<Rightarrow> (auth_user, db) action" where
  "ident_Load key =
     (let fetch = (\<lambda>P. bindE (run_query (\<lambda>t. find P (t_users t)))
            (\<lambda>r. case r of None \<Rightarrow> failE ErrUserNotFound | Some row \<Rightarrow> returnE (toAuthUser row)))
      in if HasPrefix key ''oauth2;;'' then
           (let parts = split2 key
            in if length parts \<noteq> 3 then failE ErrUserNotFound
               else fetch (\<lambda>r. u_OAuth2Provider r = Some (parts ! 1) \<and>
                               u_OAuth2UID r = Some (parts ! 2)))
         else fetch (\<lambda>r. u_Username r = TrimSpace key))"

definition ident_Save :: "auth_user \<Rightarrow> time \<Rightarrow> (unit, db) action" where
  "ident_Save u now =
     run_tx (bindE
       (run_stmt (\<lambda>t. (Inr (length (filter (\<lambda>r. u_Username r = TrimSpace (au_Username u)) (t_users t))),
          map_users (TrimSpace (au_Username u)) (\<lambda>r. r
            \<lparr>u_Email := nullableString (au_Email u), u_Password := au_Password u,
             u_Permission := au_Permission u, u_RecoverToken := nullableString (au_RecoverToken u),
             u_RecoverTokenExpiry := nullableTime (au_RecoverTokenExpiry u),
             u_ConfirmToken := nullableString (au_ConfirmToken u), u_Confirmed := au_Confirmed u,
             u_OAuth2UID := nullableString (au_OAuth2UID u),
             u_OAuth2Provider := nullableString (au_OAuth2Provider u),
             u_OAuth2AccessToken := nullableString (au_OAuth2AccessToken u),
             u_OAuth2RefreshToken := nullableString (au_OAuth2RefreshToken u),
             u_OAuth2Expiry := nullableTime (au_OAuth2Expiry u),
             u_RememberToken := nullableString (au_RememberToken u), u_UpdatedAt := now\<rparr>) t)))
       (\<lambda>rows. if rows = 0 then failE ErrUserNotFound else returnE ()))"

text \<open>
  The defaults Create fills in: no permission, a name for an OAuth2 account without one, a
  password nobody knows for an account without one.
\<close>

definition account_defaults :: "auth_user \<Rightarrow> time \<Rightarrow> auth_user" where
  "account_defaults u now =
     u\<lparr>au_Permission := PermissionNone,
       au_Username := (if TrimSpace (au_Username u) = [] \<and> TrimSpace (au_OAuth2Provider u) \<noteq> []
                       then au_OAuth2Provider u @ ''_'' @ au_OAuth2UID u else au_Username u),
       au_Password := (if TrimSpace (au_Password u) = []
                       then ''oauth2_dummy_password_'' @ Itoa now else au_Password u)\<rparr>"

text \<open>The insert assigns the next id and keeps the key on the user name.\<close>

definition insert_user :: "user_row \<Rightarrow> (int, db) action" where
  "insert_user row =
     run_stmt (\<lambda>t.
       if find_user (u_Username row) t \<noteq> None then (Inl ErrUserFound, t)
       else (let i = (if u_ID row = 0 then t_next_user t else u_ID row)
             in if \<exists>r \<in> set (t_users t). u_ID r = i then (Inl ErrUserFound, t)
                else (Inr i, t\<lparr>t_users := t_users t @ [row\<lparr>u_ID := i\<rparr>],
                                t_next_user := max (t_next_user t) (i + 1)\<rparr>)))"

definition ident_Create :: "auth_user \<Rightarrow> time \<Rightarrow> time \<Rightarrow> (auth_user, db) action" where
  "ident_Create u stamp now =
     run_tx (bindE user_GetUserCount (\<lambda>count.
       let u = account_defaults u now
       in bindE (insert_user (newAuthUserRow u stamp)) (\<lambda>i.
            let u = u\<lparr>au_ID := i\<rparr>
            in if count = 0
               then bindE (SyncLegacyTenantRole (au_Username u) PermissionAdmin now) (\<lambda>_. returnE u)
               else returnE u)))"

definition ident_NewFromOAuth2 :: "string \<Rightarrow> (string \<Rightarrow> string) \<Rightarrow> (auth_user, db) action" where
  "ident_NewFromOAuth2 provider details =
     (let username = provider @ ''_'' @ details ''uid''
      in catchE
           (bindE (ident_Load username) (\<lambda>u. returnE (u
              \<lparr>au_OAuth2UID := details ''uid'', au_OAuth2Provider := provider,
               au_Email := details ''email''\<rparr>)))
           (\<lambda>_. returnE (no_auth_user
              \<lparr>au_Username := username, au_OAuth2Provider := provider,
               au_OAuth2UID := details ''uid'', au_Email := details ''email''\<rparr>)))"

definition ident_SaveOAuth2 :: "auth_user \<Rightarrow> time \<Rightarrow> time \<Rightarrow> (unit, db) action" where
  "ident_SaveOAuth2 u stamp now =
     catchE (ident_Save u now)
       (\<lambda>e. if e = ErrUserNotFound then bindE (ident_Create u stamp now) (\<lambda>_. returnE ())
            else failE e)"

definition ident_AddRememberToken :: "string \<Rightarrow> string \<Rightarrow> time \<Rightarrow> (unit, db) action" where
  "ident_AddRememberToken pid token now =
     bindE (run_stmt (\<lambda>t. (Inr (find_user (TrimSpace pid) t \<noteq> None),
              map_users (TrimSpace pid)
                (\<lambda>r. r\<lparr>u_RememberToken := Some token, u_UpdatedAt := now\<rparr>) t)))
       (\<lambda>affected. if affected then returnE () else failE ErrUserNotFound)"

definition ident_DelRememberTokens :: "string \<Rightarrow> time \<Rightarrow> (unit, db) action" where
  "ident_DelRememberTokens pid now =
     run_stmt (\<lambda>t. (Inr (), map_users (TrimSpace pid)
       (\<lambda>r. r\<lparr>u_RememberToken := None, u_UpdatedAt := now\<rparr>) t))"

definition ident_UseRememberToken :: "string \<Rightarrow> string \<Rightarrow> time \<Rightarrow> (unit, db) action" where
  "ident_UseRememberToken pid token now =
     bindE (run_stmt (\<lambda>t.
         (Inr (\<exists>r \<in> set (t_users t). u_Username r = TrimSpace pid \<and> u_RememberToken r = Some token),
          map_users (TrimSpace pid)
            (\<lambda>r. if u_RememberToken r = Some token
                 then r\<lparr>u_RememberToken := None, u_UpdatedAt := now\<rparr> else r) t)))
       (\<lambda>affected. if affected then returnE () else failE ErrTokenNotFound)"

section \<open>Properties\<close>

lemma find_snoc_new: "find P xs = None \<Longrightarrow> P x \<Longrightarrow> find P (xs @ [x]) = Some x"
  by (simp add: find_snoc)

lemma string_of_nullableString [simp]: "string_of_null (nullableString v) = TrimSpace v"
  by (simp add: string_of_null_def nullableString_def Let_def)

lemma time_of_nullableTime [simp]: "time_of_null (nullableTime t) = t"
  by (simp add: time_of_null_def nullableTime_def)

lemma SyncLegacyTenantRole_Inr:
  assumes "SyncLegacyTenantRole u perm now d = (Inr x, d')"
  shows "t_users (tabs d') = t_users (tabs d)"
    and "member_role (tabs d') = (\<lambda>i v. if TrimSpace u \<noteq> [] \<and> i = DefaultTenantID \<and> v = TrimSpace u
           then Some (PermissionToTenantRole perm) else member_role (tabs d) i v)"
proof -
  have "t_users (tabs d') = t_users (tabs d) \<and>
    member_role (tabs d') = (\<lambda>i v. if TrimSpace u \<noteq> [] \<and> i = DefaultTenantID \<and> v = TrimSpace u
           then Some (PermissionToTenantRole perm) else member_role (tabs d) i v)"
  proof (cases "TrimSpace u = []")
    case True
    with assms show ?thesis by (simp add: SyncLegacyTenantRole_def)
  next
    case False
    let ?put = "\<lambda>t. t\<lparr>t_tenant_users := put_member
              \<lparr>tu_TenantID = DefaultTenantID, tu_Username = TrimSpace u,
               tu_Role = PermissionToTenantRole perm, tu_CreatedAt = now\<rparr> (t_tenant_users t)\<rparr>"
    from assms False obtain y d1 where i: "insert_legacy_tenant now d = (Inr y, d1)"
      and p: "run_stmt (\<lambda>t. (Inr (), ?put t)) d1 = (Inr x, d')"
      by (auto simp: SyncLegacyTenantRole_def Let_def elim!: bindE_Inr)
    from i have "t_users (tabs d1) = t_users (tabs d)" "member_role (tabs d1) = member_role (tabs d)"
      unfolding insert_legacy_tenant_def by (auto dest!: run_stmt_result split: if_splits)
    moreover have "tabs d' = ?put (tabs d1)" using run_stmt_Inr [OF p] by simp
    ultimately show ?thesis using False by (auto simp: fun_eq_iff member_role_put)
  qed
  then show "t_users (tabs d') = t_users (tabs d)"
    and "member_role (tabs d') = (\<lambda>i v. if TrimSpace u \<noteq> [] \<and> i = DefaultTenantID \<and> v = TrimSpace u
           then Some (PermissionToTenantRole perm) else member_role (tabs d) i v)" by simp_all
qed

lemma insert_user_Inr:
  assumes "insert_user row d = (Inr i, d')"
  shows "find_user (u_Username row) (tabs d) = None"
    and "t_users (tabs d') = t_users (tabs d) @ [row\<lparr>u_ID := i\<rparr>]"
    and "member_role (tabs d') = member_role (tabs d)"
  using run_stmt_result [OF assms [unfolded insert_user_def]]
  by (auto simp: Let_def fun_eq_iff member_role_def split: if_splits)

text \<open>What is read back of a new account: every text is trimmed but the password.\<close>

definition stored_account :: "auth_user \<Rightarrow> time \<Rightarrow> auth_user" where
  "stored_account u stamp = u
     \<lparr>au_Email := TrimSpace (au_Email u), au_Username := TrimSpace (au_Username u),
      au_RecoverToken := TrimSpace (au_RecoverToken u),
      au_ConfirmToken := TrimSpace (au_ConfirmToken u), au_OAuth2UID := TrimSpace (au_OAuth2UID u),
      au_OAuth2Provider := TrimSpace (au_OAuth2Provider u),
      au_OAuth2AccessToken := TrimSpace (au_OAuth2AccessToken u),
      au_OAuth2RefreshToken := TrimSpace (au_OAuth2RefreshToken u),
      au_RememberToken := TrimSpace (au_RememberToken u), au_CreatedAt := stamp,
      au_UpdatedAt := stamp\<rparr>"

lemma toAuthUser_newAuthUserRow: "toAuthUser (newAuthUserRow u stamp) = stored_account u stamp"
  by (simp add: toAuthUser_def newAuthUserRow_def stored_account_def)

lemma Create_cases:
  assumes "ident_Create u stamp now d = (r, d')"
  obtains (failed) e where "r = Inl e" "tabs d' = tabs d"
  | (created) i where "r = Inr (account_defaults u now\<lparr>au_ID := i\<rparr>)"
      "find_user (TrimSpace (au_Username (account_defaults u now))) (tabs d) = None"
      "t_users (tabs d') = t_users (tabs d) @
         [newAuthUserRow (account_defaults u now) stamp\<lparr>u_ID := i\<rparr>]"
      "member_role (tabs d') = (\<lambda>j v. if t_users (tabs d) = [] \<and>
           TrimSpace (au_Username (account_defaults u now)) \<noteq> [] \<and> j = DefaultTenantID \<and>
           v = TrimSpace (au_Username (account_defaults u now))
         then Some TenantRoleAdmin else member_role (tabs d) j v)"
proof (cases r)
  case (Inl e)
  with assms show ?thesis by (intro failed) (auto simp: ident_Create_def dest: run_tx_Inl)
next
  case (Inr u')
  let ?u = "account_defaults u now"
  let ?rest = "\<lambda>count. bindE (insert_user (newAuthUserRow ?u stamp)) (\<lambda>i.
            if count = 0
               then bindE (SyncLegacyTenantRole (au_Username ?u) PermissionAdmin now) (\<lambda>_. returnE (?u\<lparr>au_ID := i\<rparr>))
               else returnE (?u\<lparr>au_ID := i\<rparr>))"
  from assms Inr have "run_tx (bindE user_GetUserCount ?rest) d = (Inr u', d')"
    by (simp add: ident_Create_def Let_def cong: if_cong)
  then obtain d1 d2 where t: "tabs d1 = tabs d" "tabs d' = tabs d2"
    and b: "bindE user_GetUserCount ?rest d1 = (Inr u', d2)" by (rule run_tx_Inr)
  from b obtain n d3 where c: "user_GetUserCount d1 = (Inr n, d3)" and b2: "?rest n d3 = (Inr u', d2)"
    by (rule bindE_Inr)
  from c t have n: "n = length (t_users (tabs d))" "tabs d3 = tabs d"
    unfolding user_GetUserCount_def by (auto dest: run_query_Inr run_query_tabs)
  from b2 obtain i d4 where i: "insert_user (newAuthUserRow ?u stamp) d3 = (Inr i, d4)"
    and b3: "(if n = 0
        then bindE (SyncLegacyTenantRole (au_Username ?u) PermissionAdmin now) (\<lambda>_. returnE (?u\<lparr>au_ID := i\<rparr>))
        else returnE (?u\<lparr>au_ID := i\<rparr>)) d4 = (Inr u', d2)" by (rule bindE_Inr)
  note ins = insert_user_Inr [OF i, unfolded n]
  have name: "u_Username (newAuthUserRow ?u stamp) = TrimSpace (au_Username ?u)"
    by (simp add: newAuthUserRow_def)
  show ?thesis
  proof (cases "n = 0")
    case True
    with b3 obtain y where s: "SyncLegacyTenantRole (au_Username ?u) PermissionAdmin now d4 = (Inr y, d2)"
      and u': "u' = ?u\<lparr>au_ID := i\<rparr>"
      by (auto simp: returnE_def elim!: bindE_Inr)
    have "PermissionToTenantRole PermissionAdmin = TenantRoleAdmin"
      by (simp add: PermissionToTenantRole_def)
    with SyncLegacyTenantRole_Inr [OF s] ins True n t name u' Inr show ?thesis
      by (intro created) (auto cong: if_cong)
  next
    case False
    with b3 ins n t name Inr show ?thesis by (intro created) auto
  qed
qed

text \<open>creating an account. When it fails nothing changes. When it succeeds its name was free,
  it can be looked up under its trimmed name and reads back as it was given, with every text
  trimmed and no permission of its own; and the roles change in one case only: the very first
  account becomes the administrator of the legacy tenant. No later account gets a role.\<close>

theorem first_account_is_admin:
  assumes "ident_Create u stamp now d = (r, d')"
  shows "case r of
      Inl e \<Rightarrow> tabs d' = tabs d
    | Inr u' \<Rightarrow>
        let name = TrimSpace (au_Username u') in
        au_Permission u' = PermissionNone \<and>
        find_user name (tabs d) = None \<and>
        map_option toAuthUser (find_user name (tabs d')) = Some (stored_account u' stamp) \<and>
        member_role (tabs d') = (\<lambda>j v.
          if t_users (tabs d) = [] \<and> name \<noteq> [] \<and> j = DefaultTenantID \<and> v = name
          then Some TenantRoleAdmin else member_role (tabs d) j v)"
  using assms
proof (cases rule: Create_cases)
  case (failed e)
  then show ?thesis by simp
next
  case (created i)
  let ?u = "account_defaults u now"
  have row: "newAuthUserRow ?u stamp\<lparr>u_ID := i\<rparr> = newAuthUserRow (?u\<lparr>au_ID := i\<rparr>) stamp"
    by (simp add: newAuthUserRow_def)
  have "find_user (TrimSpace (au_Username ?u)) (tabs d') = Some (newAuthUserRow (?u\<lparr>au_ID := i\<rparr>) stamp)"
    using created(2,3) unfolding find_user_def row
    by (simp add: find_snoc_new newAuthUserRow_def)
  moreover have "au_Permission ?u = PermissionNone" by (simp add: account_defaults_def)
  ultimately show ?thesis using created(1,2,4) by (simp add: toAuthUser_newAuthUserRow)
qed

lemma first_account_is_admin_witness:
  "\<exists>d'. snd (ident_Create (no_auth_user\<lparr>au_Username := ''eve'', au_Password := ''pw''\<rparr>) 0 7 empty_db) = d' \<and>
     member_role (tabs d') DefaultTenantID ''eve'' = Some TenantRoleAdmin"
proof -
  let ?u = "no_auth_user\<lparr>au_Username := ''eve'', au_Password := ''pw''\<rparr>"
  obtain r d' where c: "ident_Create ?u 0 7 empty_db = (r, d')" by (cases "ident_Create ?u 0 7 empty_db")
  have "map_option au_Username (case fst (ident_Create ?u 0 7 empty_db) of Inl _ \<Rightarrow> None | Inr x \<Rightarrow> Some x)
      = Some ''eve''" by code_simp
  then obtain u' where u': "r = Inr u'" "au_Username u' = ''eve''"
    unfolding c by (cases r) auto
  have t: "TrimSpace ''eve'' = ''eve''" "t_users (tabs empty_db) = []" by code_simp+
  from first_account_is_admin [OF c] u' t
  have "member_role (tabs d') DefaultTenantID ''eve'' = Some TenantRoleAdmin"
    by (simp add: Let_def)
  then show ?thesis using c by (intro exI [of _ d']) simp
qed

end
