(* ===== verification/WebAuth.thy ===== *)
theory WebAuth
  imports Http LoginGuard UserStore IngressCore
begin

text \<open>
  What stands between a request and a handler of the web API: the origin policy
  (\<^verbatim>\<open>web/v1/origin_policy.go\<close>), the CSRF tokens (\<^verbatim>\<open>csrf.go\<close>), the resolution of the logged-in
  user to a principal with a role in one tenant (\<^verbatim>\<open>identity/principal_resolver.go\<close>) and the
  middlewares (\<^verbatim>\<open>middleware.go\<close>, \<^verbatim>\<open>security.go\<close>). Who a session belongs to is the
  authentication library's business, a parameter; so is the parser of URLs.
\<close>

section \<open>State, environment and handlers\<close>

record csrf_entry =
  ce_token :: string
  ce_expiresAt :: time

type_synonym csrf_tokens = "string \<Rightarrow> csrf_entry option"

record web_state =
  ws_core :: core_state
  ws_login :: attempts
  ws_csrf :: csrf_tokens

record web_env =
  we_config :: web_config
  we_core :: core_config
  we_session :: "request \<Rightarrow> string option"
  we_url :: "string \<Rightarrow> (string \<times> string) option"
  we_alnum :: "string \<Rightarrow> bool"

text \<open>The time of a request, and what the random generator delivers to it.\<close>

record moment =
  mo_now :: time
  mo_random :: "bytes option"
  mo_text :: string

text \<open>What the middlewares store in the request's context.\<close>

record context_values =
  cx_Username :: string
  cx_Perm :: permission
  cx_TenantID :: string
  cx_Role :: tenant_role

definition no_context :: context_values where
  "no_context = \<lparr>cx_Username = [], cx_Perm = PermissionNone, cx_TenantID = [], cx_Role = []\<rparr>"

type_synonym handler =
  "web_env \<Rightarrow> moment \<Rightarrow> request \<Rightarrow> context_values \<Rightarrow> web_state \<Rightarrow> response \<times> web_state"

definition on_core :: "('a, core_state) action \<Rightarrow> ('a, web_state) action" where
  "on_core f s = (case f (ws_core s) of (r, c) \<Rightarrow> (r, s\<lparr>ws_core := c\<rparr>))"

definition on_db :: "('a, db) action \<Rightarrow> ('a, web_state) action" where
  "on_db f = on_core (with_db f)"

definition permits :: "permission \<Rightarrow> permission \<Rightarrow> bool" where
  "permits p minPerm \<longleftrightarrow> permission_level minPerm \<le> permission_level p"

section \<open>Tenants of a request\<close>

definition requestedTenantID :: "request \<Rightarrow> string" where
  "requestedTenantID r = TrimSpace (rq_header r ''X-Tenant-Id'')"

definition tenantID :: "request \<Rightarrow> context_values \<Rightarrow> string" where
  "tenantID r cx =
     (if TrimSpace (cx_TenantID cx) \<noteq> [] then TrimSpace (cx_TenantID cx)
      else if requestedTenantID r \<noteq> [] then requestedTenantID r
      else DefaultTenantID)"

definition scopeFromRequest :: "request \<Rightarrow> context_values \<Rightarrow> scope" where
  "scopeFromRequest r cx = \<lparr>sc_TenantID = tenantID r cx, sc_GroupIDs = []\<rparr>"

definition isTenantAccessError :: "go_error \<Rightarrow> bool" where
  "isTenantAccessError e \<longleftrightarrow> e = ErrTenantRequired \<or> e = ErrCrossTenantScope"

section \<open>The principal of a request\<close>

definition loadTenantRoles :: "string \<Rightarrow> ((string \<times> tenant_role) list, db) action" where
  "loadTenantRoles username =
     (let u = TrimSpace username
      in if u = [] then returnE [] else tenant_GetUserTenantRoles u)"

definition chooseDefaultTenant :: "(string \<times> tenant_role) list \<Rightarrow> string" where
  "chooseDefaultTenant roles =
     (if roles = [] then DefaultTenantID
      else if map_of roles DefaultTenantID \<noteq> None then DefaultTenantID
      else
        let first = fold (\<lambda>(t, _) first. let t = TrimSpace t
                          in if t = [] then first
                             else if first = [] \<or> t < first then t else first) roles []
        in if first \<noteq> [] then first else DefaultTenantID)"

definition resolveTenantRole ::
    "string \<Rightarrow> (string \<times> tenant_role) list \<Rightarrow> (string \<times> tenant_role) result" where
  "resolveTenantRole requestedTenant roles =
     (if requestedTenant \<noteq> [] then
        (case map_of roles requestedTenant of
           Some role \<Rightarrow> Inr (requestedTenant, role)
         | None \<Rightarrow> Inl ErrCrossTenantScope)
      else
        (let t = chooseDefaultTenant roles
         in case map_of roles t of Some role \<Rightarrow> Inr (t, role) | None \<Rightarrow> Inr ([], [])))"

definition Resolve :: "string \<Rightarrow> string \<Rightarrow> (request_principal, db) action" where
  "Resolve username requestedTenant =
     bindE (loadTenantRoles username)
       (\<lambda>roles. case resolveTenantRole (TrimSpace requestedTenant) roles of
          Inl e \<Rightarrow> failE e
        | Inr (t, role) \<Rightarrow> returnE
            \<lparr>rp_Username = username, rp_Permission = PermissionFromTenantRole role, rp_Role = role,
             rp_Scope = \<lparr>sc_TenantID = t, sc_GroupIDs = []\<rparr>, rp_TenantRoles = roles\<rparr>)"

section \<open>Origins\<close>

definition IsSameOriginRequest :: "web_env \<Rightarrow> request \<Rightarrow> string \<Rightarrow> bool" where
  "IsSameOriginRequest env r origin =
     (case we_url env origin of
        None \<Rightarrow> False
      | Some (scheme, host) \<Rightarrow>
          EqualFold host (rq_host r) \<and>
          EqualFold scheme (if rq_tls r then ''https'' else ''http''))"

definition allowed_origins :: "web_env \<Rightarrow> string list" where
  "allowed_origins env =
     filter (\<lambda>c. c \<noteq> [] \<and> c \<noteq> ''*'')
       (map TrimSpace (Split CHR '','' (wc_APICORSAllowOrigins (NormalizeWebConfig (we_config env)))))"

definition ResolveAllowedOrigin :: "web_env \<Rightarrow> request \<Rightarrow> string \<Rightarrow> string option" where
  "ResolveAllowedOrigin env r origin =
     (if IsSameOriginRequest env r origin \<or> origin \<in> set (allowed_origins env)
      then Some origin else None)"

section \<open>CSRF tokens\<close>

definition base64_char :: "nat \<Rightarrow> char" where
  "base64_char n =
     (if n < 26 then char_of (65 + n) else if n < 52 then char_of (71 + n)
      else if n < 62 then char_of (n - 4) else if n = 62 then CHR ''-'' else CHR ''_'')"

fun base64url :: "bytes \<Rightarrow> string" where
  "base64url [] = []"
| "base64url [a] =
     (let n = unat a * 16 in [base64_char (n div 64), base64_char (n mod 64), CHR ''='', CHR ''=''])"
| "base64url [a, b] =
     (let n = (unat a * 256 + unat b) * 4
      in [base64_char (n div 4096), base64_char (n div 64 mod 64), base64_char (n mod 64), CHR ''=''])"
| "base64url (a # b # c # r) =
     (let n = unat a * 65536 + unat b * 256 + unat c
      in [base64_char (n div 262144), base64_char (n div 4096 mod 64), base64_char (n div 64 mod 64),
          base64_char (n mod 64)] @ base64url r)"

definition csrfTokenTTL :: duration where "csrfTokenTTL = 24 * hour"

definition GenerateToken :: "string \<Rightarrow> moment \<Rightarrow> (string, csrf_tokens) action" where
  "GenerateToken sessionID mo s =
     (case mo_random mo of
        None \<Rightarrow> (Inl (ErrText ''rand''), s)
      | Some b \<Rightarrow>
          (let token = base64url b
           in (Inr token,
               s(sessionID \<mapsto> \<lparr>ce_token = token, ce_expiresAt = mo_now mo + csrfTokenTTL\<rparr>))))"

definition ValidateToken :: "string \<Rightarrow> string \<Rightarrow> time \<Rightarrow> csrf_tokens \<Rightarrow> bool" where
  "ValidateToken sessionID token now s =
     (case s sessionID of
        None \<Rightarrow> False
      | Some entry \<Rightarrow> if ce_expiresAt entry < now then False else ce_token entry = token)"

definition csrf_cleanup :: "time \<Rightarrow> csrf_tokens \<Rightarrow> csrf_tokens" where
  "csrf_cleanup now s =
     (\<lambda>sid. case s sid of
        None \<Rightarrow> None
      | Some entry \<Rightarrow> if ce_expiresAt entry < now then None else Some entry)"

definition SetCSRFCookie :: "string \<Rightarrow> response \<Rightarrow> response" where
  "SetCSRFCookie token resp = resp\<lparr>rs_headers := (''csrf_token'', token) # rs_headers resp\<rparr>"

definition GetCSRFToken :: "request \<Rightarrow> string" where
  "GetCSRFToken r =
     (if rq_header r ''X-CSRF-Token'' \<noteq> [] then rq_header r ''X-CSRF-Token''
      else case rq_cookie r ''csrf_token'' of Some v \<Rightarrow> v | None \<Rightarrow> [])"

definition ValidateCSRF :: "request \<Rightarrow> string \<Rightarrow> time \<Rightarrow> csrf_tokens \<Rightarrow> bool" where
  "ValidateCSRF r sessionID now s =
     (let token = GetCSRFToken r in token \<noteq> [] \<and> ValidateToken sessionID token now s)"

section \<open>Middlewares\<close>

text \<open>The library looks up the account of the session's owner.\<close>

definition CurrentUser :: "web_env \<Rightarrow> request \<Rightarrow> (auth_user, web_state) action" where
  "CurrentUser env r =
     (case we_session env r of
        None \<Rightarrow> failE ErrUserNotFound
      | Some pid \<Rightarrow> on_db (ident_Load pid))"

definition Middleware :: "handler \<Rightarrow> handler" where
  "Middleware next env mo r cx s =
     (let origin = TrimSpace (rq_header r ''Origin'')
      in case (if origin = [] then Some [] else
                 map_option (\<lambda>o'. [(''Access-Control-Allow-Origin'', o'),
                                   (''Access-Control-Allow-Credentials'', ''true'')])
                   (ResolveAllowedOrigin env r origin)) of
           None \<Rightarrow> (error_response 403 40302 ''forbidden_origin'' ''origin'', s)
         | Some hs \<Rightarrow>
             (case (if rq_method r = OPTIONS then (NoContent, s) else next env mo r cx s) of
                (resp, s') \<Rightarrow> (resp\<lparr>rs_headers := hs @ rs_headers resp\<rparr>, s')))"

definition AuthMiddleware :: "handler \<Rightarrow> permission \<Rightarrow> handler" where
  "AuthMiddleware next minPerm env mo r cx s =
     (case CurrentUser env r s of
        (Inl _, s1) \<Rightarrow> (error_response 401 40101 ''auth_required'' [], s1)
      | (Inr user, s1) \<Rightarrow>
          (case on_db (Resolve (au_Username user) (requestedTenantID r)) s1 of
             (Inl e, s2) \<Rightarrow>
               (if isTenantAccessError e then error_response 403 40303 ''tenant_access_denied'' ''tenant_id''
                else InternalError 50013, s2)
           | (Inr p, s2) \<Rightarrow>
               if \<not> permits (rp_Permission p) minPerm
               then (error_response 403 40301 ''permission_denied'' [], s2)
               else next env mo r
                 \<lparr>cx_Username = rp_Username p, cx_Perm = rp_Permission p,
                  cx_TenantID = sc_TenantID (rp_Scope p), cx_Role = rp_Role p\<rparr> s2))"

definition CSRFProtectionMiddleware :: "handler \<Rightarrow> handler" where
  "CSRFProtectionMiddleware next env mo r cx s =
     (if rq_method r = GET \<or> rq_method r = HEAD \<or> rq_method r = OPTIONS then next env mo r cx s
      else case CurrentUser env r s of
          (Inl _, s1) \<Rightarrow> (error_response 401 40101 ''auth_required'' [], s1)
        | (Inr user, s1) \<Rightarrow>
            if \<not> ValidateCSRF r (au_Username user) (mo_now mo) (ws_csrf s1)
            then (error_response 403 40304 ''csrf_validation_failed'' [], s1)
            else next env mo r cx s1)"

definition public :: "handler \<Rightarrow> handler" where
  "public h = Middleware h"

definition protected :: "handler \<Rightarrow> permission \<Rightarrow> handler" where
  "protected h minPerm = Middleware (AuthMiddleware h minPerm)"

definition protectedWithCSRF :: "handler \<Rightarrow> permission \<Rightarrow> handler" where
  "protectedWithCSRF h minPerm = Middleware (CSRFProtectionMiddleware (AuthMiddleware h minPerm))"

section \<open>What reaches a handler\<close>

text \<open>The tables of a web state, and a step that only reads them.\<close>

abbreviation wtabs :: "web_state \<Rightarrow> tables" where
  "wtabs s \<equiv> tabs (co_db (ws_core s))"

definition only_read :: "web_state \<Rightarrow> web_state \<Rightarrow> bool" where
  "only_read s s' \<longleftrightarrow> (\<exists>fs. s' = s\<lparr>ws_core := (ws_core s)\<lparr>co_db := (co_db (ws_core s))\<lparr>faults := fs\<rparr>\<rparr>\<rparr>)"

lemma only_read_refl: "only_read s s"
  by (cases s; cases "ws_core s"; cases "co_db (ws_core s)")
    (auto simp: only_read_def intro!: exI [of _ "faults (co_db (ws_core s))"])

lemma only_read_trans: "only_read s s1 \<Longrightarrow> only_read s1 s2 \<Longrightarrow> only_read s s2"
  by (auto simp: only_read_def)

lemma only_read_simps:
  assumes "only_read s s'"
  shows "wtabs s' = wtabs s" "ws_login s' = ws_login s" "ws_csrf s' = ws_csrf s"
    "co_cache (ws_core s') = co_cache (ws_core s)" "co_presence (ws_core s') = co_presence (ws_core s)"
    "co_queue (ws_core s') = co_queue (ws_core s)"
  using assms by (auto simp: only_read_def)

lemma on_db_only_read:
  assumes "\<And>d r d'. f d = (r, d') \<Longrightarrow> tabs d' = tabs d" "on_db f s = (r, s')"
  shows "only_read s s'"
proof -
  obtain d' where d: "f (co_db (ws_core s)) = (r, d')" "s' = s\<lparr>ws_core := (ws_core s)\<lparr>co_db := d'\<rparr>\<rparr>"
    using assms(2) by (auto simp: on_db_def on_core_def with_db_def split: prod.splits)
  have "d' = (co_db (ws_core s))\<lparr>faults := faults d'\<rparr>"
    using assms(1) [OF d(1)] by (cases d') (simp add: db.equality)
  then have "s' = s\<lparr>ws_core := (ws_core s)\<lparr>co_db := (co_db (ws_core s))\<lparr>faults := faults d'\<rparr>\<rparr>\<rparr>"
    using d(2) by metis
  then show ?thesis unfolding only_read_def by blast
qed

text \<open>A query and what follows it.\<close>

lemma bind_query_tabs:
  "(\<And>x d r d'. g x d = (r, d') \<Longrightarrow> tabs d' = tabs d) \<Longrightarrow>
   bindE (run_query f) g d = (r, d') \<Longrightarrow> tabs d' = tabs d"
  by (rule run_query_cases [of f d]) (auto simp: bindE_def)

lemma ident_Load_tabs: "ident_Load k d = (r, d') \<Longrightarrow> tabs d' = tabs d"
  by (auto simp: ident_Load_def Let_def failE_def returnE_def elim!: bind_query_tabs [rotated]
      split: if_splits option.splits)

lemma GetUserTenantRoles_tabs: "tenant_GetUserTenantRoles u d = (r, d') \<Longrightarrow> tabs d' = tabs d"
  unfolding tenant_GetUserTenantRoles_def by (rule run_query_tabs)

lemma loadTenantRoles_tabs: "loadTenantRoles u d = (r, d') \<Longrightarrow> tabs d' = tabs d"
  by (auto simp: loadTenantRoles_def Let_def returnE_def split: if_splits dest: GetUserTenantRoles_tabs)

lemma Resolve_tabs: "Resolve u t d = (r, d') \<Longrightarrow> tabs d' = tabs d"
  by (auto simp: Resolve_def bindE_def failE_def returnE_def dest: loadTenantRoles_tabs
      split: prod.splits sum.splits)

text \<open>A user holds a role in a tenant when a membership row says so.\<close>

definition holds_role :: "tables \<Rightarrow> string \<Rightarrow> string \<Rightarrow> tenant_role \<Rightarrow> bool" where
  "holds_role t username i role \<longleftrightarrow>
     (\<exists>m \<in> set (t_tenant_users t). tu_Username m = username \<and> TrimSpace (tu_TenantID m) = i \<and>
        NormalizeTenantRole (tu_Role m) = role)"

lemma roles_fold:
  "map_of (fold (\<lambda>m roles. let i = TrimSpace (tu_TenantID m)
                  in if i = [] then roles
                     else AList.update i (NormalizeTenantRole (tu_Role m)) roles) ms roles) i = Some r \<Longrightarrow>
   map_of roles i = Some r \<or>
   (i \<noteq> [] \<and> (\<exists>m \<in> set ms. TrimSpace (tu_TenantID m) = i \<and> NormalizeTenantRole (tu_Role m) = r))"
proof (induction ms arbitrary: roles)
  case (Cons m ms)
  from Cons.prems have "map_of (fold (\<lambda>m roles. let i = TrimSpace (tu_TenantID m)
                  in if i = [] then roles
                     else AList.update i (NormalizeTenantRole (tu_Role m)) roles) ms
       (let i = TrimSpace (tu_TenantID m)
                  in if i = [] then roles
                     else AList.update i (NormalizeTenantRole (tu_Role m)) roles)) i = Some r" by simp
  from Cons.IH [OF this] show ?case by (auto simp: Let_def update_conv' split: if_splits)
qed simp

lemma loadTenantRoles_holds:
  assumes "loadTenantRoles u d = (Inr roles, d')" "map_of roles i = Some role"
  shows "holds_role (tabs d) (TrimSpace u) i role \<and> i \<noteq> [] \<and> TrimSpace u \<noteq> []"
proof (cases "TrimSpace u = []")
  case True
  with assms show ?thesis by (simp add: loadTenantRoles_def returnE_def)
next
  case False
  with assms(1) have "tenant_GetUserTenantRoles (TrimSpace u) d = (Inr roles, d')"
    by (simp add: loadTenantRoles_def Let_def)
  then have roles: "roles = fold (\<lambda>m roles. let i = TrimSpace (tu_TenantID m)
        in if i = [] then roles else AList.update i (NormalizeTenantRole (tu_Role m)) roles)
       (filter (\<lambda>m. tu_Username m = TrimSpace u) (t_tenant_users (tabs d))) []"
    unfolding tenant_GetUserTenantRoles_def by (rule run_query_Inr)
  from roles_fold [OF assms(2) [unfolded roles]] False show ?thesis
    by (auto simp: holds_role_def)
qed

lemma Resolve_Inr:
  assumes "Resolve u req d = (Inr p, d')"
  shows "rp_Username p = u \<and> rp_Permission p = PermissionFromTenantRole (rp_Role p) \<and>
    (rp_Role p \<noteq> [] \<or> TrimSpace req \<noteq> [] \<or> sc_TenantID (rp_Scope p) \<noteq> [] \<longrightarrow>
      holds_role (tabs d) (TrimSpace u) (sc_TenantID (rp_Scope p)) (rp_Role p) \<and>
      sc_TenantID (rp_Scope p) \<noteq> []) \<and>
    (TrimSpace req \<noteq> [] \<longrightarrow> sc_TenantID (rp_Scope p) = TrimSpace req)"
proof -
  from assms obtain roles d1 t role where l: "loadTenantRoles u d = (Inr roles, d1)"
    and rr: "resolveTenantRole (TrimSpace req) roles = Inr (t, role)"
    and p: "p = \<lparr>rp_Username = u, rp_Permission = PermissionFromTenantRole role, rp_Role = role,
       rp_Scope = \<lparr>sc_TenantID = t, sc_GroupIDs = []\<rparr>, rp_TenantRoles = roles\<rparr>"
    unfolding Resolve_def
    by (elim bindE_Inr) (auto simp: failE_def returnE_def split: sum.splits)
  from rr have "t = [] \<and> role = [] \<and> TrimSpace req = [] \<or>
      map_of roles t = Some role \<and> (TrimSpace req \<noteq> [] \<longrightarrow> t = TrimSpace req)"
    by (auto simp: resolveTenantRole_def Let_def split: if_splits option.splits)
  with loadTenantRoles_holds [OF l] p show ?thesis by auto
qed

text \<open>
  The account a session belongs to, as the tables have it: what a lookup finds that no fault
  disturbs. Every lookup that succeeds finds the same account.
\<close>

definition session_owner :: "web_env \<Rightarrow> request \<Rightarrow> tables \<Rightarrow> string option" where
  "session_owner env r t =
     (case we_session env r of
        None \<Rightarrow> None
      | Some pid \<Rightarrow> (case fst (ident_Load pid \<lparr>tabs = t, faults = []\<rparr>) of
                      Inr u \<Rightarrow> Some (au_Username u) | Inl _ \<Rightarrow> None))"

lemma ident_Load_Inr:
  assumes "ident_Load k d = (Inr u, d')"
  shows "fst (ident_Load k \<lparr>tabs = tabs d, faults = []\<rparr>) = Inr u"
proof -
  have q: "fst (bindE (run_query (\<lambda>t. find P (t_users t)))
      (\<lambda>r. case r of None \<Rightarrow> failE ErrUserNotFound | Some row \<Rightarrow> returnE (toAuthUser row))
      \<lparr>tabs = tabs d, faults = []\<rparr>) = Inr u"
    if "bindE (run_query (\<lambda>t. find P (t_users t)))
      (\<lambda>r. case r of None \<Rightarrow> failE ErrUserNotFound | Some row \<Rightarrow> returnE (toAuthUser row)) d = (Inr u, d')" for P
  proof -
    from that obtain row where "run_query (\<lambda>t. find P (t_users t)) d = (Inr (Some row), d')"
      "u = toAuthUser row"
      by (rule bindE_Inr) (auto simp: failE_def returnE_def split: option.splits)
    moreover from run_query_Inr [OF this(1)] have "find P (t_users (tabs d)) = Some row" by simp
    ultimately show ?thesis by (simp add: bindE_def returnE_def)
  qed
  from assms show ?thesis
    by (auto simp: ident_Load_def Let_def failE_def simp del: run_query_no_fault bindE_simps
        split: if_splits intro: q)
qed

text \<open>
  The context a handler runs in: the name is that of the session's owner, the permission that of
  the role, and a role is held in the tenant of the context. Without a role there is no permission.
\<close>

definition context_ok :: "web_env \<Rightarrow> request \<Rightarrow> web_state \<Rightarrow> context_values \<Rightarrow> bool" where
  "context_ok env r s cx \<longleftrightarrow>
     session_owner env r (wtabs s) = Some (cx_Username cx) \<and>
     cx_Perm cx = PermissionFromTenantRole (cx_Role cx) \<and>
     (cx_Role cx \<noteq> [] \<longrightarrow>
        holds_role (wtabs s) (TrimSpace (cx_Username cx)) (cx_TenantID cx) (cx_Role cx) \<and>
        cx_TenantID cx \<noteq> [] \<and>
        (requestedTenantID r \<noteq> [] \<longrightarrow> cx_TenantID cx = requestedTenantID r))"

lemma PermissionFromTenantRole_Nil [simp]: "PermissionFromTenantRole [] = PermissionNone"
  by (simp add: PermissionFromTenantRole_def role_defs)

lemma permits_mono: "permits p q \<Longrightarrow> permits q q' \<Longrightarrow> permits p q'"
  by (simp add: permits_def)

lemma permits_None: "permits p PermissionNone"
  by (simp add: permits_def)

lemma context_ok_role:
  assumes "context_ok env r s cx" "permits (cx_Perm cx) PermissionReadOnly"
  shows "holds_role (wtabs s) (TrimSpace (cx_Username cx)) (cx_TenantID cx) (cx_Role cx)"
    and "cx_TenantID cx \<noteq> []" and "cx_Perm cx = PermissionFromTenantRole (cx_Role cx)"
  using assms by (auto simp: context_ok_def permits_def)

lemma CurrentUser_only_read: "CurrentUser env r s = (x, s') \<Longrightarrow> only_read s s'"
  by (auto simp: CurrentUser_def failE_def only_read_refl split: option.splits
      intro: on_db_only_read [OF ident_Load_tabs])

lemma CurrentUser_Inr:
  assumes "CurrentUser env r s = (Inr u, s')"
  shows "session_owner env r (wtabs s) = Some (au_Username u)"
  using assms by (auto simp: CurrentUser_def session_owner_def failE_def on_db_def on_core_def with_db_def
      split: option.splits prod.splits sum.splits dest: ident_Load_Inr)

lemma AuthMiddleware_cases:
  assumes "AuthMiddleware h minPerm env mo r cx s = (resp, s')"
  obtains (refused) "\<not> success resp" "only_read s s'"
  | (passed) cx' s1 where "only_read s s1" "context_ok env r s cx'" "permits (cx_Perm cx') minPerm"
      "h env mo r cx' s1 = (resp, s')"
proof -
  obtain x s1 where u: "CurrentUser env r s = (x, s1)" by (cases "CurrentUser env r s")
  note r1 = CurrentUser_only_read [OF u]
  show ?thesis
  proof (cases x)
    case (Inl e)
    with assms u have "resp = error_response 401 40101 ''auth_required'' []" "s' = s1"
      by (auto simp: AuthMiddleware_def)
    with r1 show ?thesis by (intro refused) auto
  next
    case (Inr user)
    obtain y s2 where p: "on_db (Resolve (au_Username user) (requestedTenantID r)) s1 = (y, s2)"
      by (cases "on_db (Resolve (au_Username user) (requestedTenantID r)) s1")
    have r2: "only_read s s2"
      using only_read_trans [OF r1 on_db_only_read [OF Resolve_tabs p]] by simp
    show ?thesis
    proof (cases y)
      case (Inl e)
      with assms u Inr p r2 show ?thesis
        by (intro refused) (auto simp: AuthMiddleware_def split: if_splits)
    next
      case pr: (Inr pr)
      let ?cx = "\<lparr>cx_Username = rp_Username pr, cx_Perm = rp_Permission pr,
                  cx_TenantID = sc_TenantID (rp_Scope pr), cx_Role = rp_Role pr\<rparr>"
      from p pr obtain d' where "Resolve (au_Username user) (requestedTenantID r) (co_db (ws_core s1)) = (Inr pr, d')"
        by (auto simp: on_db_def on_core_def with_db_def split: prod.splits)
      note R = Resolve_Inr [OF this, unfolded only_read_simps(1) [OF r1]]
      have ok: "context_ok env r s ?cx"
        using R CurrentUser_Inr [OF u [unfolded Inr]]
        by (auto simp: context_ok_def requestedTenantID_def)
      show ?thesis
      proof (cases "permits (rp_Permission pr) minPerm")
        case True
        with assms u Inr p pr have "h env mo r ?cx s2 = (resp, s')" by (simp add: AuthMiddleware_def)
        with ok True r2 show ?thesis by (intro passed [of s2 ?cx]) auto
      next
        case False
        with assms u Inr p pr r2 show ?thesis by (intro refused) (auto simp: AuthMiddleware_def)
      qed
    qed
  qed
qed

lemma CSRF_cases:
  assumes "CSRFProtectionMiddleware h env mo r cx s = (resp, s')"
  obtains (refused) "\<not> success resp" "only_read s s'"
  | (safe) "rq_method r \<in> {GET, HEAD, OPTIONS}" "h env mo r cx s = (resp, s')"
  | (token) s1 name where "only_read s s1" "session_owner env r (wtabs s) = Some name"
      "ValidateCSRF r name (mo_now mo) (ws_csrf s)" "h env mo r cx s1 = (resp, s')"
proof (cases "rq_method r = GET \<or> rq_method r = HEAD \<or> rq_method r = OPTIONS")
  case True
  then show ?thesis using assms by (intro safe) (auto simp: CSRFProtectionMiddleware_def)
next
  case False
  obtain x s1 where u: "CurrentUser env r s = (x, s1)" by (cases "CurrentUser env r s")
  note r1 = CurrentUser_only_read [OF u]
  show ?thesis
  proof (cases x)
    case (Inl e)
    with False assms u r1 show ?thesis by (intro refused) (auto simp: CSRFProtectionMiddleware_def)
  next
    case (Inr user)
    show ?thesis
    proof (cases "ValidateCSRF r (au_Username user) (mo_now mo) (ws_csrf s1)")
      case True
      with False assms u Inr have "h env mo r cx s1 = (resp, s')"
        by (simp add: CSRFProtectionMiddleware_def)
      with True r1 CurrentUser_Inr [OF u [unfolded Inr]] only_read_simps(3) [OF r1] show ?thesis
        by (intro token [of s1 "au_Username user"]) auto
    next
      case no: False
      with False assms u Inr r1 show ?thesis
        by (intro refused) (auto simp: CSRFProtectionMiddleware_def)
    qed
  qed
qed

lemma Middleware_cases:
  assumes "Middleware h env mo r cx s = (resp, s')"
  obtains (stopped) "s' = s" "\<not> success resp \<or> rq_method r = OPTIONS"
  | (passed) resp1 where "rq_method r \<noteq> OPTIONS" "h env mo r cx s = (resp1, s')"
      "success resp = success resp1"
  using assms
  by (auto simp: Middleware_def Let_def success_def error_response_def
      split: if_splits option.splits prod.splits)

end
