(* ===== verification/AccessControl.thy ===== *)
theory AccessControl
  imports CoreTypes
begin

text \<open>
  \<^verbatim>\<open>device_manager/access_control.go\<close>: the state of a door from the latest values of its two
  signals. An \<open>int64\<close> timestamp is an integer; a nil pointer is \<open>None\<close>.
\<close>

definition MetricTypeAccessSignalA :: byte where "MetricTypeAccessSignalA = 8"
definition MetricTypeAccessSignalB :: byte where "MetricTypeAccessSignalB = 16"

record access_state =
  as_SignalA :: "int option"
  as_SignalB :: "int option"
  as_Open :: "bool option"
  as_EvaluatedAtMs :: "int option"
  as_StatusText :: string

definition normalizeAccessSignal :: "float32 \<Rightarrow> int" where
  "normalizeAccessSignal value = (if f32_ge_one value then 1 else 0)"

definition latestAccessSignalTimestamp :: "int list \<Rightarrow> int option" where
  "latestAccessSignalTimestamp values =
     (let latest = foldl (\<lambda>latest value. if value > latest then value else latest) 0 values
      in if latest \<le> 0 then None else Some latest)"

text \<open>The loop state: the two signals with the timestamps of the points they came from.\<close>

type_synonym signal_state = "int option \<times> int"

definition take_signal :: "metric \<Rightarrow> signal_state \<Rightarrow> signal_state" where
  "take_signal point s =
     (case s of (signal, ts) \<Rightarrow>
        if signal = None \<or> m_Timestamp point \<ge> ts
        then (Some (normalizeAccessSignal (m_Value point)), m_Timestamp point) else (signal, ts))"

definition access_step :: "metric \<Rightarrow> signal_state \<times> signal_state \<Rightarrow> signal_state \<times> signal_state" where
  "access_step point s =
     (case s of (a, b) \<Rightarrow>
        if m_Type point = MetricTypeAccessSignalA then (take_signal point a, b)
        else if m_Type point = MetricTypeAccessSignalB then (a, take_signal point b)
        else (a, b))"

definition EvaluateAccessControl :: "metric list \<Rightarrow> access_state" where
  "EvaluateAccessControl points =
     (case fold access_step points ((None, 0), (None, 0)) of
        ((signalA, tsA), (signalB, tsB)) \<Rightarrow>
          let evaluatedAt = latestAccessSignalTimestamp [tsA, tsB];
              state = \<lparr>as_SignalA = signalA, as_SignalB = signalB, as_Open = None,
                       as_EvaluatedAtMs = evaluatedAt, as_StatusText = ''unknown''\<rparr>
          in case (signalA, signalB) of
               (Some a, Some b) \<Rightarrow>
                 let open = (a = 1 \<and> b = 1)
                 in state\<lparr>as_Open := Some open,
                          as_StatusText := (if open then ''open'' else ''closed'')\<rparr>
             | _ \<Rightarrow> state)"

section \<open>The latest point of a signal\<close>

text \<open>The last among the points of a type whose timestamp is not exceeded by another of the type.\<close>

fun latest :: "metric list \<Rightarrow> metric option" where
  "latest [] = None"
| "latest (p # ps) =
     (case latest ps of None \<Rightarrow> Some p
      | Some q \<Rightarrow> if m_Timestamp q \<ge> m_Timestamp p then Some q else Some p)"

definition signal_points :: "byte \<Rightarrow> metric list \<Rightarrow> metric list" where
  "signal_points t ps = filter (\<lambda>p. m_Type p = t) ps"

lemma latest_None [simp]: "latest ps = None \<longleftrightarrow> ps = []"
  by (cases ps) (auto split: option.splits)

lemma latest_max:
  "latest ps = Some p \<Longrightarrow> p \<in> set ps \<and> (\<forall>q \<in> set ps. m_Timestamp q \<le> m_Timestamp p)"
proof (induction ps arbitrary: p)
  case (Cons a ps)
  then show ?case
    by (cases "latest ps") (force split: if_splits)+
qed simp

definition signal_of :: "metric \<Rightarrow> signal_state" where
  "signal_of p = (Some (normalizeAccessSignal (m_Value p)), m_Timestamp p)"

lemma latest_snoc:
  "latest (ps @ [p]) = (case latest ps of None \<Rightarrow> Some p
     | Some q \<Rightarrow> if m_Timestamp p \<ge> m_Timestamp q then Some p else Some q)"
  by (induction ps) (auto split: option.splits)

definition latest_signal :: "metric list \<Rightarrow> signal_state" where
  "latest_signal ps = (case latest ps of None \<Rightarrow> (None, 0) | Some p \<Rightarrow> signal_of p)"

lemma take_signal_latest: "take_signal p (latest_signal ps) = latest_signal (ps @ [p])"
  by (auto simp: take_signal_def latest_signal_def latest_snoc signal_of_def split: option.splits)

lemma fold_access_step:
  "fold access_step ps ((None, 0), (None, 0)) =
   (latest_signal (signal_points 8 ps), latest_signal (signal_points 16 ps))"
proof (induction ps rule: rev_induct)
  case Nil
  then show ?case by (simp add: latest_signal_def signal_points_def)
next
  case (snoc p ps)
  then show ?case
    by (auto simp: access_step_def MetricTypeAccessSignalA_def MetricTypeAccessSignalB_def
        take_signal_latest signal_points_def)
qed

section \<open>Properties\<close>

text \<open>The evaluated door state depends only on the newest point of signal A and the newest
  point of signal B (the later one in the list among equal timestamps): the door is open exactly
  when both newest values are at least one, closed when both signals are present otherwise, and
  unknown, with no open flag, when a signal has no point.\<close>

theorem access_control_latest:
  "\<forall>s. s = EvaluateAccessControl ps \<longrightarrow>
     (case (latest (signal_points 8 ps), latest (signal_points 16 ps)) of
        (Some a, Some b) \<Rightarrow>
          as_Open s = Some (f32_ge_one (m_Value a) \<and> f32_ge_one (m_Value b)) \<and>
          as_StatusText s = (if f32_ge_one (m_Value a) \<and> f32_ge_one (m_Value b)
                             then ''open'' else ''closed'') \<and>
          as_EvaluatedAtMs s = (let t = max (m_Timestamp a) (m_Timestamp b)
                                in if t \<le> 0 then None else Some t)
      | _ \<Rightarrow> as_Open s = None \<and> as_StatusText s = ''unknown'')"
proof (intro allI impI)
  fix s assume "s = EvaluateAccessControl ps"
  then show "case (latest (signal_points 8 ps), latest (signal_points 16 ps)) of
        (Some a, Some b) \<Rightarrow>
          as_Open s = Some (f32_ge_one (m_Value a) \<and> f32_ge_one (m_Value b)) \<and>
          as_StatusText s = (if f32_ge_one (m_Value a) \<and> f32_ge_one (m_Value b)
                             then ''open'' else ''closed'') \<and>
          as_EvaluatedAtMs s = (let t = max (m_Timestamp a) (m_Timestamp b)
                                in if t \<le> 0 then None else Some t)
      | _ \<Rightarrow> as_Open s = None \<and> as_StatusText s = ''unknown''"
    by (auto simp: EvaluateAccessControl_def fold_access_step latest_signal_def signal_of_def
        normalizeAccessSignal_def latestAccessSignalTimestamp_def Let_def split: option.splits)
qed

theorem access_control_latest_witness:
  "as_StatusText (EvaluateAccessControl
     [\<lparr>m_Timestamp = 5, m_Value = f32_one, m_Type = 8\<rparr>,
      \<lparr>m_Timestamp = 6, m_Value = f32_one, m_Type = 16\<rparr>,
      \<lparr>m_Timestamp = 9, m_Value = f32_zero, m_Type = 8\<rparr>]) = ''closed''"
  using access_control_latest
    [of "[\<lparr>m_Timestamp = 5, m_Value = f32_one, m_Type = 8\<rparr>,
          \<lparr>m_Timestamp = 6, m_Value = f32_one, m_Type = 16\<rparr>,
          \<lparr>m_Timestamp = 9, m_Value = f32_zero, m_Type = 8\<rparr>]"]
  by (simp add: signal_points_def f32_ge_one_def f32_one_def f32_zero_def)

end
