(* ===== verification/WebDevices.thy ===== *)
theory WebDevices
  imports WebAuth AccessControl
begin

text \<open>
  The device handlers of the web API: \<^verbatim>\<open>web/v1/devices.go\<close>, \<^verbatim>\<open>users_metrics.go\<close>,
  \<^verbatim>\<open>access_control.go\<close>, and the parameters they read (\<^verbatim>\<open>params.go\<close>).
\<close>

section \<open>Parameters\<close>

definition ParseDeviceStatusFilter :: "string \<Rightarrow> (string \<times> auth_status option) option" where
  "ParseDeviceStatusFilter raw =
     (let status = TrimSpace (ToLower raw);
          status = (if status = [] then ''authenticated'' else status)
      in if status = ''all'' then Some (status, None)
         else if status = ''authenticated'' then Some (status, Some Authenticated)
         else if status = ''pending'' then Some (status, Some AuthenticatePending)
         else if status = ''refused'' then Some (status, Some AuthenticateRefuse)
         else if status = ''revoked'' then Some (status, Some AuthenticateRevoked)
         else None)"

definition ParseDownlinkCommand :: "string \<Rightarrow> (core_cmd \<times> string) option" where
  "ParseDownlinkCommand raw =
     (let command = TrimSpace (ToLower raw)
      in if command = ''config_push'' then Some (CoreCmdConfigPush, command)
         else if command = ''ota_data'' then Some (CoreCmdOtaData, command)
         else if command = ''action_exec'' then Some (CoreCmdActionExec, command)
         else if command = ''screen_wy'' then Some (CoreCmdScreenWy, command)
         else None)"

definition ParsePositiveIntQuery :: "string \<Rightarrow> int \<Rightarrow> int \<Rightarrow> int option" where
  "ParsePositiveIntQuery raw fallback mx =
     (if raw = [] then Some fallback
      else case ParseInt raw of
          None \<Rightarrow> None
        | Some v \<Rightarrow> if v \<le> 0 then None else if mx > 0 \<and> v > mx then None else Some v)"

definition IsValidMetricsRange :: "string \<Rightarrow> bool" where
  "IsValidMetricsRange raw \<longleftrightarrow> raw \<in> {''1h'', ''6h'', ''24h'', ''7d'', ''all''}"

definition ResolveMetricsRange ::
    "request \<Rightarrow> time \<Rightarrow> int \<Rightarrow> string \<Rightarrow> (int \<times> int \<times> string) option" where
  "ResolveMetricsRange r now minValid defaultLabel =
     (let label = (if rq_query r ''range'' = [] then defaultLabel else rq_query r ''range'');
          startRaw = rq_query r ''start_ms''; endRaw = rq_query r ''end_ms''
      in if \<not> IsValidMetricsRange label then None
         else if startRaw \<noteq> [] \<or> endRaw \<noteq> [] then
           (if startRaw = [] \<or> endRaw = [] then None
            else case (ParseInt startRaw, ParseInt endRaw) of
                (Some a, Some b) \<Rightarrow>
                  if a > b then None
                  else Some (if a < minValid then minValid else a, b, label)
              | _ \<Rightarrow> None)
         else
           (let start = (if label = ''1h'' then UnixMilli (now - hour)
                         else if label = ''6h'' then UnixMilli (now - 6 * hour)
                         else if label = ''24h'' then UnixMilli (now - 24 * hour)
                         else if label = ''7d'' then UnixMilli (now - 7 * 24 * hour)
                         else minValid)
            in Some (if start < minValid then minValid else start, UnixMilli now, label)))"

section \<open>Payloads\<close>

definition auth_status_code :: "auth_status \<Rightarrow> int" where
  "auth_status_code st =
     (case st of Authenticated \<Rightarrow> 0 | AuthenticateRefuse \<Rightarrow> 1 | AuthenticatePending \<Rightarrow> 2
      | AuthenticateUnknown \<Rightarrow> 3 | AuthenticateRevoked \<Rightarrow> 4)"

definition deviceMetadataPayload :: "device_metadata \<Rightarrow> bool \<Rightarrow> payload" where
  "deviceMetadataPayload m includeToken =
     PMap [(''name'', PText (dm_Name m)), (''hw_version'', PText (dm_HWVersion m)),
           (''sw_version'', PText (dm_SWVersion m)), (''config_version'', PText (dm_ConfigVersion m)),
           (''sn'', PText (dm_SerialNumber m)), (''mac'', PText (dm_MACAddress m)),
           (''created_at'', PTime (dm_CreatedAt m)),
           (''token'', if includeToken then PText (dm_Token m) else PNull),
           (''authenticate_status'', PInt (auth_status_code (dm_AuthenticateStatus m)))]"

definition canViewDeviceToken :: "context_values \<Rightarrow> bool" where
  "canViewDeviceToken cx \<longleftrightarrow> permits (cx_Perm cx) PermissionReadWrite"

definition device_status_code :: "device_status \<Rightarrow> int" where
  "device_status_code st =
     (case st of StatusOffline \<Rightarrow> 0 | StatusOnline \<Rightarrow> 1 | StatusDelayed \<Rightarrow> 2)"

definition status_text :: "device_status \<Rightarrow> string" where
  "status_text st =
     (case st of StatusOnline \<Rightarrow> ''online'' | StatusDelayed \<Rightarrow> ''delayed'' | StatusOffline \<Rightarrow> ''offline'')"

definition device_payload ::
    "web_env \<Rightarrow> moment \<Rightarrow> bool \<Rightarrow> web_state \<Rightarrow> string \<Rightarrow> device_metadata \<Rightarrow> payload" where
  "device_payload env mo includeToken s uuid meta =
     (let st = fst (QueryDeviceStatus (core_presence (kc_deadline (we_core env))) uuid (mo_now mo)
                 (co_presence (ws_core s)))
      in PMap [(''uuid'', PText uuid), (''meta'', deviceMetadataPayload meta includeToken),
               (''runtime'', PMap [(''status'', PInt (device_status_code st)),
                                   (''status_text'', PText (status_text st))])])"

definition provisionedDevicePayload :: "string \<Rightarrow> string \<Rightarrow> string \<Rightarrow> payload" where
  "provisionedDevicePayload tenant uuid token =
     (let pre = ''goster/v1/'' @ Trim uuid ''/''
      in PMap [(''uuid'', PText uuid), (''tenant_id'', PText tenant), (''token'', PText token),
               (''mqtt'', PMap
                 [(''client_id'', PText uuid), (''username'', PText uuid), (''password'', PText token),
                  (''telemetry_topic'', PText (pre @ ''/telemetry'')),
                  (''heartbeat_topic'', PText (pre @ ''/heartbeat'')),
                  (''downlink_topic'', PText (pre @ ''/downlink''))])])"

section \<open>Access to one device\<close>

definition on_registry :: "('a, (db, presence_map) registry) action \<Rightarrow> ('a, web_state) action" where
  "on_registry f = on_core (with_registry f)"

definition on_downlink :: "('a, (db, memory_queue) downlink) action \<Rightarrow> ('a, web_state) action" where
  "on_downlink f = on_core (with_downlink f)"

definition web_registry :: "web_env \<Rightarrow> (db, presence_map) registry_service" where
  "web_registry env = core_registry (kc_crypto (we_core env)) (kc_deadline (we_core env))"

definition isNotFoundError :: "go_error \<Rightarrow> bool" where
  "isNotFoundError e \<longleftrightarrow>
     e \<in> {ErrDeviceNotFound, ErrDeviceTokenNotFound, ErrUserNotFound, ErrTenantNotFound,
          ErrTenantUserNotFound, ErrDeviceCommandNotFound}"

definition deviceScopeError :: "go_error \<Rightarrow> int \<Rightarrow> response" where
  "deviceScopeError e notFoundCode =
     (if e = ErrDeviceTenantMismatch then error_response 403 40321 ''cross_tenant_denied'' ''uuid''
      else if e = ErrDeviceNotFound then error_response 404 notFoundCode ''not_found'' ''uuid''
      else InternalError 50024)"

text \<open>A guard is passed, or it has written its response.\<close>

definition ensurePerm :: "context_values \<Rightarrow> permission \<Rightarrow> response option" where
  "ensurePerm cx minPerm =
     (if \<not> permits (cx_Perm cx) minPerm
      then Some (error_response 403 40311 ''permission_denied'' []) else None)"

definition ensureDeviceInScope ::
    "web_env \<Rightarrow> request \<Rightarrow> context_values \<Rightarrow> string \<Rightarrow> int \<Rightarrow> web_state \<Rightarrow> response option \<times> web_state" where
  "ensureDeviceInScope env r cx uuid notFoundCode s =
     (case on_registry (GetDeviceMetadataByScope (web_registry env) (scopeFromRequest r cx) uuid) s of
        (Inl e, s') \<Rightarrow> (Some (deviceScopeError e notFoundCode), s')
      | (Inr _, s') \<Rightarrow> (None, s'))"

definition ensureDeviceExists ::
    "web_env \<Rightarrow> request \<Rightarrow> context_values \<Rightarrow> string \<Rightarrow> web_state \<Rightarrow> response option \<times> web_state" where
  "ensureDeviceExists env r cx uuid = ensureDeviceInScope env r cx uuid 40421"

text \<open>\<open>if !api.ensurePerm(...) || !api.ensureDeviceInScope(...) { return }\<close>\<close>

definition guarded_device ::
    "web_env \<Rightarrow> request \<Rightarrow> context_values \<Rightarrow> string \<Rightarrow> int \<Rightarrow> (web_state \<Rightarrow> response \<times> web_state) \<Rightarrow>
     web_state \<Rightarrow> response \<times> web_state" where
  "guarded_device env r cx uuid notFoundCode act s =
     (case ensurePerm cx PermissionReadWrite of
        Some resp \<Rightarrow> (resp, s)
      | None \<Rightarrow> (case ensureDeviceInScope env r cx uuid notFoundCode s of
                   (Some resp, s') \<Rightarrow> (resp, s')
                 | (None, s') \<Rightarrow> act s'))"

definition random_source_of :: "moment \<Rightarrow> random_source" where
  "random_source_of mo = (mo_random mo, mo_text mo)"

section \<open>Handlers\<close>

definition listDevices :: handler where
  "listDevices env mo r cx s =
     (let cfg = NormalizeWebConfig (we_config env); pg = wc_DeviceListPage cfg
      in case ParseDeviceStatusFilter (rq_query r ''status'') of
           None \<Rightarrow> (error_response 400 40011 ''validation_error'' ''status'', s)
         | Some (status, statusPtr) \<Rightarrow>
             (case ParsePositiveIntQuery (rq_query r ''page'') 1 0 of
                None \<Rightarrow> (error_response 400 40012 ''validation_error'' ''page'', s)
              | Some page \<Rightarrow>
                  (case ParsePositiveIntQuery (rq_query r ''size'') (pg_DefaultSize pg) (pg_MaxSize pg) of
                     None \<Rightarrow> (error_response 400 40013 ''validation_error'' ''size'', s)
                   | Some sz \<Rightarrow>
                       (case on_registry (ListDevicesByScope (web_registry env)
                               (scopeFromRequest r cx) statusPtr page sz) s of
                          (Inl e, s') \<Rightarrow> (InternalError 50011, s')
                        | (Inr devices, s') \<Rightarrow>
                            (ok_response (PMap
                               [(''items'', PList (map (\<lambda>d. device_payload env mo (canViewDeviceToken cx)
                                    s' (rec_UUID d) (rec_Meta d)) devices)),
                                (''page'', PMap [(''page'', PInt page), (''size'', PInt sz),
                                   (''returned'', PInt (int (length devices)))]),
                                (''status_filter'', PText status)]), s')))))"

definition create_device_fields :: "(string \<times> field_kind) list" where
  "create_device_fields =
     [(''name'', KString), (''hw_version'', KString), (''sw_version'', KString),
      (''config_version'', KString), (''sn'', KString), (''mac'', KString)]"

definition created_metadata :: "(string \<Rightarrow> field_value option) \<Rightarrow> device_metadata" where
  "created_metadata p = no_metadata
     \<lparr>dm_Name := TrimSpace (field_text p ''name''),
      dm_HWVersion := TrimSpace (field_text p ''hw_version''),
      dm_SWVersion := TrimSpace (field_text p ''sw_version''),
      dm_ConfigVersion := TrimSpace (field_text p ''config_version''),
      dm_SerialNumber := TrimSpace (field_text p ''sn''),
      dm_MACAddress := TrimSpace (field_text p ''mac'')\<rparr>"

definition max_body :: "web_env \<Rightarrow> int" where
  "max_body env = wc_MaxAPIBodyBytes (NormalizeWebConfig (we_config env))"

definition createDevice :: handler where
  "createDevice env mo r cx s =
     (case ensurePerm cx PermissionReadWrite of
        Some resp \<Rightarrow> (resp, s)
      | None \<Rightarrow>
          (case DecodeBody r create_device_fields (max_body env) of
             None \<Rightarrow> (error_response 400 40028 ''validation_error'' [], s)
           | Some p \<Rightarrow>
               let meta = created_metadata p
               in if dm_Name meta = [] then (error_response 400 40029 ''validation_error'' ''name'', s)
                  else if dm_SerialNumber meta = [] \<and> dm_MACAddress meta = []
                  then (error_response 400 40030 ''validation_error'' ''sn'', s)
                  else (case on_registry (ProvisionDevice (web_registry env)
                          \<lparr>sc_TenantID = tenantID r cx, sc_GroupIDs = []\<rparr> meta (random_source_of mo)
                          (mo_now mo)) s of
                      (Inl e, s') \<Rightarrow>
                        (if e = ErrDeviceAlreadyExists then error_response 409 40922 ''conflict'' ''sn''
                         else InternalError 50026, s')
                    | (Inr (uuid, token), s') \<Rightarrow>
                        (respond 201 (provisionedDevicePayload (tenantID r cx) uuid token), s'))))"

definition DevicesHandler :: handler where
  "DevicesHandler env mo r cx s =
     (case rq_method r of
        GET \<Rightarrow> listDevices env mo r cx s
      | POST \<Rightarrow> createDevice env mo r cx s
      | _ \<Rightarrow> (MethodNotAllowed, s))"

definition getDevice :: "string \<Rightarrow> handler" where
  "getDevice uuid env mo r cx s =
     (case on_registry (GetDeviceMetadataByScope (web_registry env) (scopeFromRequest r cx) uuid) s of
        (Inl e, s') \<Rightarrow> (deviceScopeError e 40421, s')
      | (Inr meta, s') \<Rightarrow>
          (ok_response (device_payload env mo (canViewDeviceToken cx) s' uuid meta), s'))"

definition enqueueDeviceCommand :: "string \<Rightarrow> handler" where
  "enqueueDeviceCommand uuid env mo r cx s =
     (case ensureDeviceExists env r cx uuid s of
        (Some resp, s1) \<Rightarrow> (resp, s1)
      | (None, s1) \<Rightarrow>
          (case DecodeBody r [(''command'', KString), (''payload'', KRaw)] (max_body env) of
             None \<Rightarrow> (error_response 400 40026 ''validation_error'' [], s1)
           | Some p \<Rightarrow>
               (case ParseDownlinkCommand (field_text p ''command'') of
                  None \<Rightarrow> (error_response 400 40027 ''validation_error'' ''command'', s1)
                | Some (cmdID, command) \<Rightarrow>
                    let rawPayload = (if p ''payload'' = None then []
                          else bytes_of_string (TrimSpace (string_of_bytes (rq_raw r ''payload''))))
                    in (case on_downlink (Downlink_Enqueue sql_downlink (scopeFromRequest r cx) uuid
                              cmdID command rawPayload (mo_now mo)) s1 of
                          (Inl e, s2) \<Rightarrow>
                            (if e = ErrDeviceTenantMismatch
                             then error_response 403 40321 ''cross_tenant_denied'' []
                             else error_response 409 40921 ''conflict'' ''command'', s2)
                        | (Inr msg, s2) \<Rightarrow>
                            (ok_response (PMap
                               [(''command_id'', PInt (dl_CommandID msg)), (''uuid'', PText uuid),
                                (''command'', PText command), (''cmd_id'', PInt (uint cmdID)),
                                (''status'', PText ''queued''), (''enqueued_at'', PTime (mo_now mo))]), s2)))))"

text \<open>The result of a device action: the error's response or what to answer.\<close>

definition action_result ::
    "int \<Rightarrow> int \<Rightarrow> ('a \<Rightarrow> response) \<Rightarrow> 'a result \<times> web_state \<Rightarrow> response \<times> web_state" where
  "action_result notFoundCode internalCode answer res =
     (case res of
        (Inl e, s') \<Rightarrow>
          (if isNotFoundError e then error_response 404 notFoundCode ''not_found'' ''uuid''
           else InternalError internalCode, s')
      | (Inr x, s') \<Rightarrow> (answer x, s'))"

definition action_answer :: "string \<Rightarrow> string \<Rightarrow> string \<Rightarrow> response" where
  "action_answer act uuid token =
     ok_response (PMap ([(''action'', PText act), (''target'', PText uuid), (''success'', PBool True)] @
       (if token = [] then [] else [(''token'', PText token)])))"

definition deviceAction :: "string \<Rightarrow> string \<Rightarrow> handler" where
  "deviceAction uuid act env mo r cx =
     guarded_device env r cx uuid 40423 (\<lambda>s.
       if act = ''approve'' then
         action_result 40423 50022 (action_answer act uuid)
           (on_registry (UpdateDeviceAuthenticateStatus (web_registry env) uuid Authenticated
              (random_source_of mo)) s)
       else if act = ''revoke'' then
         action_result 40423 50022 (\<lambda>_. action_answer act uuid [])
           (on_registry (RejectDevice (web_registry env) uuid (random_source_of mo)) s)
       else if act = ''unblock'' then
         action_result 40423 50022 (\<lambda>_. action_answer act uuid [])
           (on_registry (UnblockDevice (web_registry env) uuid (random_source_of mo)) s)
       else if act = ''commands'' then enqueueDeviceCommand uuid env mo r cx s
       else (error_response 404 40412 ''not_found'' ''action'', s))"

definition deleteDevice :: "string \<Rightarrow> handler" where
  "deleteDevice uuid env mo r cx =
     guarded_device env r cx uuid 40424 (\<lambda>s.
       action_result 40424 50025 (\<lambda>_. NoContent) (on_registry (DeleteDevice (web_registry env) uuid) s))"

text \<open>\<open>RefreshToken\<close> returns the token and the error.\<close>

definition on_registry_pair ::
    "((db, presence_map) registry \<Rightarrow> ('a \<times> go_error option) \<times> (db, presence_map) registry) \<Rightarrow>
     ('a, web_state) action" where
  "on_registry_pair f = on_registry (\<lambda>g. case f g of ((x, None), g') \<Rightarrow> (Inr x, g')
                                                  | ((x, Some e), g') \<Rightarrow> (Inl e, g'))"

definition refreshDeviceToken :: "string \<Rightarrow> handler" where
  "refreshDeviceToken uuid env mo r cx =
     guarded_device env r cx uuid 40425 (\<lambda>s.
       action_result 40425 50023
         (\<lambda>token. ok_response (PMap [(''uuid'', PText uuid), (''token'', PText token),
                                     (''rotated_at'', PTime (mo_now mo))]))
         (on_registry_pair (RefreshToken (web_registry env) uuid (random_source_of mo)) s))"

definition DeviceByUUIDHandler :: handler where
  "DeviceByUUIDHandler env mo r cx s =
     (let parts = path_parts ''/api/v1/devices/'' (rq_path r)
      in if hd parts = [] then (error_response 404 40411 ''not_found'' ''uuid'', s)
         else case PathUnescape (hd parts) of
             None \<Rightarrow> (error_response 400 40021 ''validation_error'' ''uuid'', s)
           | Some uuid \<Rightarrow>
               if uuid = [] then (error_response 400 40021 ''validation_error'' ''uuid'', s)
               else (case tl parts of
                   [] \<Rightarrow> (case rq_method r of
                            GET \<Rightarrow> getDevice uuid env mo r cx s
                          | DELETE \<Rightarrow> deleteDevice uuid env mo r cx s
                          | _ \<Rightarrow> (MethodNotAllowed, s))
                 | [act] \<Rightarrow> (if rq_method r \<noteq> POST then (MethodNotAllowed, s)
                             else deviceAction uuid act env mo r cx s)
                 | [a, b] \<Rightarrow>
                     (if a = ''token'' \<and> b = ''refresh'' then
                        (if rq_method r \<noteq> POST then (MethodNotAllowed, s)
                         else refreshDeviceToken uuid env mo r cx s)
                      else (error_response 404 40413 ''not_found'' [], s))
                 | _ \<Rightarrow> (error_response 404 40413 ''not_found'' [], s)))"

definition pointer :: "('a \<Rightarrow> payload) \<Rightarrow> 'a option \<Rightarrow> payload" where
  "pointer f p = (case p of None \<Rightarrow> PNull | Some x \<Rightarrow> f x)"

definition metric_payload :: "metric \<Rightarrow> payload" where
  "metric_payload p = PMap [(''ts'', PInt (m_Timestamp p)), (''value'', PFloat (m_Value p)),
                            (''type'', PInt (uint (m_Type p)))]"

definition MetricsHandler :: handler where
  "MetricsHandler env mo r cx s =
     (if rq_method r \<noteq> GET then (MethodNotAllowed, s)
      else
        let uuid = Trim (TrimPrefix (rq_path r) ''/api/v1/metrics/'') ''/'';
            mc = wc_Metrics (NormalizeWebConfig (we_config env))
        in if uuid = [] then (error_response 404 40431 ''not_found'' ''uuid'', s)
           else (case ensureDeviceExists env r cx uuid s of
               (Some resp, s1) \<Rightarrow> (resp, s1)
             | (None, s1) \<Rightarrow>
                 (case ResolveMetricsRange r (mo_now mo) (mc_MinValidTimestampMs mc)
                         (mc_DefaultRangeLabel mc) of
                    None \<Rightarrow> (error_response 400 40031 ''validation_error'' [], s1)
                  | Some (start, end', label) \<Rightarrow>
                      (case on_db (QueryMetricsByTenant (tenantID r cx) uuid start end') s1 of
                         (Inl e, s2) \<Rightarrow> (InternalError 50031, s2)
                       | (Inr points, s2) \<Rightarrow>
                           (ok_response (PMap [(''uuid'', PText uuid), (''range'', PText label),
                              (''start_ms'', PInt start), (''end_ms'', PInt end'),
                              (''points'', PList (map metric_payload points))]), s2)))))"

definition AccessControlHandler :: handler where
  "AccessControlHandler env mo r cx s =
     (if rq_method r \<noteq> GET then (MethodNotAllowed, s)
      else
        let uuid = Trim (TrimPrefix (rq_path r) ''/api/v1/access-control/'') ''/''
        in if uuid = [] then (error_response 404 40451 ''not_found'' ''uuid'', s)
           else (case ensureDeviceExists env r cx uuid s of
               (Some resp, s1) \<Rightarrow> (resp, s1)
             | (None, s1) \<Rightarrow>
                 (case on_db (QueryMetricsByTenant (tenantID r cx) uuid 0 (2 ^ 63 - 1)) s1 of
                    (Inl e, s2) \<Rightarrow> (InternalError 50051, s2)
                  | (Inr points, s2) \<Rightarrow>
                      let state = EvaluateAccessControl points
                      in (ok_response (PMap [(''uuid'', PText uuid),
                            (''signal_a'', pointer PInt (as_SignalA state)),
                            (''signal_b'', pointer PInt (as_SignalB state)),
                            (''open'', pointer PBool (as_Open state)),
                            (''evaluated_at_ms'', pointer PInt (as_EvaluatedAtMs state)),
                            (''status_text'', PText (as_StatusText state)),
                            (''rule'', PText ''signal_a == 1 && signal_b == 1'')]), s2))))"

end
