(* ===== verification/WebTenants.thy ===== *)
theory WebTenants
  imports WebAuth
begin

text \<open>
  The tenant and invitation handlers of the web API: \<^verbatim>\<open>web/v1/tenants.go\<close>,
  \<^verbatim>\<open>invitations.go\<close>, and the account list of \<^verbatim>\<open>users_metrics.go\<close>.
\<close>

section \<open>Checks and payloads\<close>

definition isValidTenantStatus :: "string \<Rightarrow> bool \<Rightarrow> bool" where
  "isValidTenantStatus status allowEmpty =
     (let s = ToLower (TrimSpace status)
      in if s = [] then allowEmpty else s \<in> {''active'', ''suspended'', ''archived''})"

definition isValidTenantRole :: "string \<Rightarrow> bool" where
  "isValidTenantRole role \<longleftrightarrow>
     ToLower (TrimSpace role) \<in> {TenantRoleAdmin, TenantRoleRW, TenantRoleRO}"

definition tenantError :: "go_error \<Rightarrow> int \<Rightarrow> response" where
  "tenantError e notFoundCode =
     (if e = ErrTenantNotFound \<or> e = ErrTenantUserNotFound
      then error_response 404 notFoundCode ''not_found'' ''tenant_id''
      else InternalError 50052)"

definition ensureTenantAccess ::
    "request \<Rightarrow> context_values \<Rightarrow> string \<Rightarrow> permission \<Rightarrow> response option" where
  "ensureTenantAccess r cx tenant minPerm =
     (if tenantID r cx \<noteq> tenant then Some (error_response 403 40351 ''tenant_access_denied'' ''tenant_id'')
      else if \<not> permits (cx_Perm cx) minPerm then Some (error_response 403 40352 ''permission_denied'' [])
      else None)"

definition tenant_payload :: "tenant \<Rightarrow> payload" where
  "tenant_payload t =
     PMap [(''id'', PText (tn_ID t)), (''name'', PText (tn_Name t)), (''status'', PText (tn_Status t)),
           (''created_at'', PTime (tn_CreatedAt t)), (''updated_at'', PTime (tn_UpdatedAt t))]"

text \<open>The tenant's \<open>meta\<close> is not stored: it is always null.\<close>

definition tenantWithRolePayload :: "tenant \<Rightarrow> tenant_role \<Rightarrow> payload" where
  "tenantWithRolePayload t role =
     PMap [(''id'', PText (tn_ID t)), (''name'', PText (tn_Name t)), (''status'', PText (tn_Status t)),
           (''created_at'', PTime (tn_CreatedAt t)), (''updated_at'', PTime (tn_UpdatedAt t)),
           (''meta'', PNull), (''role'', PText role)]"

definition tenant_user_payload :: "tenant_user \<Rightarrow> payload" where
  "tenant_user_payload m =
     PMap [(''tenant_id'', PText (tu_TenantID m)), (''username'', PText (tu_Username m)),
           (''role'', PText (tu_Role m)), (''created_at'', PTime (tu_CreatedAt m))]"

definition invitation_payload :: "tenant_invitation \<Rightarrow> payload" where
  "invitation_payload v =
     PMap [(''id'', PText (iv_ID v)), (''tenant_id'', PText (iv_TenantID v)),
           (''username'', PText (iv_Username v)), (''role'', PText (iv_Role v)),
           (''invited_by'', PText (iv_InvitedBy v)), (''status'', PText (iv_Status v)),
           (''expires_at'', PTime (iv_ExpiresAt v)), (''created_at'', PTime (iv_CreatedAt v)),
           (''updated_at'', PTime (iv_UpdatedAt v))]"

definition body_limit :: "web_env \<Rightarrow> int" where
  "body_limit env = wc_MaxAPIBodyBytes (NormalizeWebConfig (we_config env))"

definition tenant_fields :: "(string \<times> field_kind) list" where
  "tenant_fields = [(''name'', KString), (''status'', KString), (''meta'', KMap)]"

definition member_fields :: "(string \<times> field_kind) list" where
  "member_fields = [(''username'', KString), (''role'', KString)]"

definition new_tenant :: "string \<Rightarrow> string \<Rightarrow> tenant" where
  "new_tenant name status =
     \<lparr>tn_ID = [], tn_Name = name, tn_Status = status, tn_CreatedAt = zero_time, tn_UpdatedAt = zero_time\<rparr>"

section \<open>Tenants\<close>

definition listTenants :: handler where
  "listTenants env mo r cx s =
     (case on_db (tenant_GetUserTenantRoles (cx_Username cx)) s of
        (Inl e, s1) \<Rightarrow> (InternalError 50051, s1)
      | (Inr roles, s1) \<Rightarrow>
          (case on_db (tenant_ListUserTenants (cx_Username cx)) s1 of
             (Inl e, s2) \<Rightarrow> (InternalError 50051, s2)
           | (Inr tenants, s2) \<Rightarrow>
               (ok_response (PMap
                  [(''items'', PList (map (\<lambda>t. tenantWithRolePayload t
                       (case map_of roles (tn_ID t) of None \<Rightarrow> [] | Some role \<Rightarrow> role)) tenants)),
                   (''total'', PInt (int (length tenants)))]), s2)))"

definition createTenant :: handler where
  "createTenant env mo r cx s =
     (case DecodeBody r tenant_fields (body_limit env) of
        None \<Rightarrow> (error_response 400 40051 ''validation_error'' [], s)
      | Some p \<Rightarrow>
          let name = TrimSpace (field_text p ''name''); status = field_text p ''status''
          in if name = [] then (error_response 400 40052 ''validation_error'' ''name'', s)
             else if \<not> isValidTenantStatus status True
             then (error_response 400 40058 ''validation_error'' ''status'', s)
             else if TrimSpace (cx_Username cx) = [] then (error_response 401 40151 ''auth_required'' [], s)
             else (case on_db (tenant_CreateTenantWithOwner (we_alnum env) (new_tenant name status)
                       (cx_Username cx) (mo_now mo)) s of
                 (Inl e, s1) \<Rightarrow> (error_response 409 40951 ''conflict'' ''name'', s1)
               | (Inr t, s1) \<Rightarrow> (respond 201 (tenant_payload t), s1)))"

definition TenantsHandler :: handler where
  "TenantsHandler env mo r cx s =
     (case rq_method r of
        GET \<Rightarrow> listTenants env mo r cx s
      | POST \<Rightarrow> createTenant env mo r cx s
      | _ \<Rightarrow> (MethodNotAllowed, s))"

definition handleTenantDetail :: "string \<Rightarrow> handler" where
  "handleTenantDetail tenant env mo r cx s =
     (case rq_method r of
        GET \<Rightarrow>
          (case ensureTenantAccess r cx tenant PermissionReadOnly of
             Some resp \<Rightarrow> (resp, s)
           | None \<Rightarrow> (case on_db (tenant_GetTenant tenant) s of
                        (Inl e, s1) \<Rightarrow> (tenantError e 40453, s1)
                      | (Inr t, s1) \<Rightarrow> (ok_response (tenant_payload t), s1)))
      | PATCH \<Rightarrow>
          (case ensureTenantAccess r cx tenant PermissionAdmin of
             Some resp \<Rightarrow> (resp, s)
           | None \<Rightarrow>
               (case DecodeBody r tenant_fields (body_limit env) of
                  None \<Rightarrow> (error_response 400 40054 ''validation_error'' [], s)
                | Some p \<Rightarrow>
                    if \<not> isValidTenantStatus (field_text p ''status'') True
                    then (error_response 400 40058 ''validation_error'' ''status'', s)
                    else (case on_db (tenant_UpdateTenant tenant
                              (new_tenant (field_text p ''name'') (field_text p ''status'')) (mo_now mo)) s of
                        (Inl e, s1) \<Rightarrow> (tenantError e 40453, s1)
                      | (Inr t, s1) \<Rightarrow> (ok_response (tenant_payload t), s1))))
      | _ \<Rightarrow> (MethodNotAllowed, s))"

text \<open>
  An invitation by the principal: the body's user name and role are checked, the account must
  exist. The error codes are those of the two handlers that share these steps.
\<close>

record invite_codes =
  ic_body :: int
  ic_username :: int
  ic_role :: int
  ic_user :: int
  ic_internal :: int
  ic_tenant :: int

definition invite_member ::
    "invite_codes \<Rightarrow> (string \<Rightarrow> tenant_invitation \<Rightarrow> payload) \<Rightarrow> string \<Rightarrow> handler" where
  "invite_member codes answer tenant env mo r cx s =
     (case DecodeBody r member_fields (body_limit env) of
        None \<Rightarrow> (error_response 400 (ic_body codes) ''validation_error'' [], s)
      | Some p \<Rightarrow>
          let username = TrimSpace (field_text p ''username''); role = field_text p ''role''
          in if username = [] then (error_response 400 (ic_username codes) ''validation_error'' ''username'', s)
             else if \<not> isValidTenantRole role
             then (error_response 400 (ic_role codes) ''validation_error'' ''role'', s)
             else (case on_db (user_GetUserPermission username) s of
                 (Inl e, s1) \<Rightarrow>
                   (if e = ErrUserNotFound then error_response 404 (ic_user codes) ''not_found'' ''username''
                    else InternalError (ic_internal codes), s1)
               | (Inr _, s1) \<Rightarrow>
                   (case on_db (tenant_CreateTenantInvitation
                           \<lparr>iv_ID = [], iv_TenantID = tenant, iv_Username = username, iv_Role = role,
                            iv_InvitedBy = cx_Username cx, iv_Status = [], iv_ExpiresAt = zero_time,
                            iv_CreatedAt = zero_time, iv_UpdatedAt = zero_time\<rparr>
                           (mo_random mo) (mo_now mo)) s1 of
                      (Inl e, s2) \<Rightarrow> (tenantError e (ic_tenant codes), s2)
                    | (Inr v, s2) \<Rightarrow> (respond 201 (answer username v), s2))))"

definition CreateTenantInvitationHandler :: "string \<Rightarrow> handler" where
  "CreateTenantInvitationHandler tenant env mo r cx s =
     (if rq_method r \<noteq> POST then (MethodNotAllowed, s)
      else invite_member
        \<lparr>ic_body = 40064, ic_username = 40065, ic_role = 40066, ic_user = 40464, ic_internal = 50065,
         ic_tenant = 40465\<rparr> (\<lambda>_. invitation_payload) tenant env mo r cx s)"

definition tenant_users_codes :: invite_codes where
  "tenant_users_codes =
     \<lparr>ic_body = 40055, ic_username = 40056, ic_role = 40059, ic_user = 40457, ic_internal = 50053,
      ic_tenant = 40454\<rparr>"

definition invite_answer :: "string \<Rightarrow> tenant_invitation \<Rightarrow> payload" where
  "invite_answer username v =
     PMap [(''action'', PText ''invite_tenant_user''), (''target'', PText username),
           (''invitation'', invitation_payload v), (''success'', PBool True)]"

definition handleTenantUsers :: "string \<Rightarrow> string list \<Rightarrow> handler" where
  "handleTenantUsers tenant rest env mo r cx s =
     (case ensureTenantAccess r cx tenant PermissionAdmin of
        Some resp \<Rightarrow> (resp, s)
      | None \<Rightarrow>
          (case rest of
             [] \<Rightarrow>
               (case rq_method r of
                  GET \<Rightarrow> (case on_db (tenant_ListTenantUsers tenant) s of
                            (Inl e, s1) \<Rightarrow> (tenantError e 40454, s1)
                          | (Inr ms, s1) \<Rightarrow>
                              (ok_response (PMap [(''items'', PList (map tenant_user_payload ms)),
                                 (''total'', PInt (int (length ms)))]), s1))
                | POST \<Rightarrow> invite_member tenant_users_codes invite_answer tenant env mo r cx s
                | _ \<Rightarrow> (MethodNotAllowed, s))
           | [name] \<Rightarrow>
               if name = [] then (error_response 404 40455 ''not_found'' [], s)
               else if rq_method r \<noteq> DELETE then (MethodNotAllowed, s)
               else (case PathUnescape name of
                   None \<Rightarrow> (error_response 400 40057 ''validation_error'' ''username'', s)
                 | Some username \<Rightarrow>
                     if TrimSpace username = [] then (error_response 400 40057 ''validation_error'' ''username'', s)
                     else if TrimSpace (cx_Username cx) = TrimSpace username
                     then (error_response 400 40058 ''validation_error'' ''username'', s)
                     else (case on_db (tenant_RemoveTenantUser tenant username) s of
                         (Inl e, s1) \<Rightarrow> (tenantError e 40456, s1)
                       | (Inr _, s1) \<Rightarrow> (NoContent, s1)))
           | _ \<Rightarrow> (error_response 404 40455 ''not_found'' [], s)))"

definition TenantByIDHandler :: handler where
  "TenantByIDHandler env mo r cx s =
     (let parts = path_parts ''/api/v1/tenants/'' (rq_path r)
      in if hd parts = [] then (error_response 404 40451 ''not_found'' ''tenant_id'', s)
         else case PathUnescape (hd parts) of
             None \<Rightarrow> (error_response 400 40053 ''validation_error'' ''tenant_id'', s)
           | Some raw \<Rightarrow>
               if TrimSpace raw = [] then (error_response 400 40053 ''validation_error'' ''tenant_id'', s)
               else
                 let tenant = TrimSpace raw
                 in (case tl parts of
                       [] \<Rightarrow> handleTenantDetail tenant env mo r cx s
                     | p # rest \<Rightarrow>
                         if p = ''users'' then handleTenantUsers tenant rest env mo r cx s
                         else if p = ''invitations'' then
                           (if rest \<noteq> [] then (error_response 404 40452 ''not_found'' [], s)
                            else case ensureTenantAccess r cx tenant PermissionAdmin of
                                Some resp \<Rightarrow> (resp, s)
                              | None \<Rightarrow> CreateTenantInvitationHandler tenant env mo r cx s)
                         else (error_response 404 40452 ''not_found'' [], s)))"

section \<open>Invitations\<close>

definition InvitationsHandler :: handler where
  "InvitationsHandler env mo r cx s =
     (if rq_method r \<noteq> GET then (MethodNotAllowed, s)
      else if TrimSpace (cx_Username cx) = [] then (error_response 401 40151 ''auth_required'' [], s)
      else (case on_db (tenant_ListPendingInvitations (cx_Username cx) (mo_now mo)) s of
          (Inl e, s1) \<Rightarrow> (InternalError 50061, s1)
        | (Inr vs, s1) \<Rightarrow>
            (ok_response (PMap [(''items'', PList (map invitation_payload vs)),
               (''total'', PInt (int (length vs)))]), s1)))"

definition answer_invitation :: "string \<Rightarrow> string \<Rightarrow> moment \<Rightarrow> web_state \<Rightarrow> response \<times> web_state" where
  "answer_invitation invitationID act mo s =
     (let answered = ok_response (PMap [(''action'', PText act), (''success'', PBool True)])
      in if act = ''accept'' then
           (case on_db (tenant_AcceptInvitation invitationID (mo_now mo)) s of
              (Inl e, s1) \<Rightarrow>
                (if e = ErrInvitationExpired then error_response 400 40062 ''validation_error'' ''invitation_id''
                 else if e = ErrInvitationAccepted then error_response 400 40063 ''validation_error'' ''invitation_id''
                 else InternalError 50063, s1)
            | (Inr _, s1) \<Rightarrow> (answered, s1))
         else if act = ''reject'' then
           (case on_db (tenant_RejectInvitation invitationID (mo_now mo)) s of
              (Inl e, s1) \<Rightarrow>
                (if e = ErrInvitationAccepted then error_response 400 40063 ''validation_error'' ''invitation_id''
                 else InternalError 50064, s1)
            | (Inr _, s1) \<Rightarrow> (answered, s1))
         else (error_response 404 40463 ''not_found'' ''action'', s))"

definition InvitationByIDHandler :: handler where
  "InvitationByIDHandler env mo r cx s =
     (let parts = path_parts ''/api/v1/invitations/'' (rq_path r)
      in if length parts < 2 \<or> hd parts = [] then (error_response 404 40461 ''not_found'' ''invitation_id'', s)
         else case PathUnescape (hd parts) of
             None \<Rightarrow> (error_response 400 40061 ''validation_error'' ''invitation_id'', s)
           | Some raw \<Rightarrow>
               if TrimSpace raw = [] then (error_response 400 40061 ''validation_error'' ''invitation_id'', s)
               else
                 let invitationID = TrimSpace raw; act = parts ! 1
                 in if rq_method r \<noteq> POST then (MethodNotAllowed, s)
                    else if TrimSpace (cx_Username cx) = []
                    then (error_response 401 40151 ''auth_required'' [], s)
                    else (case on_db (getInvitation invitationID) s of
                        (Inl e, s1) \<Rightarrow>
                          (if e = ErrInvitationNotFound then error_response 404 40462 ''not_found'' ''invitation_id''
                           else InternalError 50062, s1)
                      | (Inr invitation, s1) \<Rightarrow>
                          if TrimSpace (iv_Username invitation) \<noteq> TrimSpace (cx_Username cx)
                          then (error_response 403 40361 ''permission_denied'' [], s1)
                          else answer_invitation invitationID act mo s1))"

section \<open>Accounts\<close>

definition user_payload :: "user \<Rightarrow> payload" where
  "user_payload u =
     PMap ([(''username'', PText (us_Username u)),
            (''permission'', PInt (int (permission_level (us_Permission u))))] @
           (if us_TenantRole u = [] then [] else [(''tenant_role'', PText (us_TenantRole u))]) @
           [(''created_at'', PTime (us_CreatedAt u))])"

definition UsersHandler :: handler where
  "UsersHandler env mo r cx s =
     (if rq_method r \<noteq> GET then (MethodNotAllowed, s)
      else (case on_db (user_ListUsersByTenant (tenantID r cx)) s of
          (Inl e, s1) \<Rightarrow> (InternalError 50041, s1)
        | (Inr us, s1) \<Rightarrow> (ok_response (PMap [(''items'', PList (map user_payload us))]), s1)))"

definition UserPermissionHandler :: handler where
  "UserPermissionHandler env mo r cx s = (error_response 410 41041 ''deprecated_endpoint'' [], s)"

end
