(* ===== verification/WebLogin.thy ===== *)
theory WebLogin
  imports WebAuth
begin

text \<open>
  Registration, login and logout: \<^verbatim>\<open>web/v1/auth.go\<close> with \<^verbatim>\<open>identity/service.go\<close>. The
  authentication library and what it calls are the parameter \<open>auth_lib\<close>: password hashes, the
  modules hooked into its events (each may take over the response), the check of an e-mail
  address, and the captcha service. Its body reader hands the posted user name and password on
  unchanged.
\<close>

record auth_lib =
  al_captcha :: "string option"
  al_verify_captcha :: "string \<Rightarrow> string \<Rightarrow> bool"
  al_valid_email :: "string \<Rightarrow> bool"
  al_hash :: "string \<Rightarrow> string option"
  al_verify :: "string \<Rightarrow> string \<Rightarrow> bool"
  al_fire :: "string \<Rightarrow> request \<Rightarrow> response option result"
  al_stamp :: "moment \<Rightarrow> time"

text \<open>\<open>al_captcha\<close> is the site key when the captcha is on.\<close>

definition on_login :: "('a, attempts) action \<Rightarrow> ('a, web_state) action" where
  "on_login f s = (case f (ws_login s) of (r, a) \<Rightarrow> (r, s\<lparr>ws_login := a\<rparr>))"

definition on_csrf :: "('a, csrf_tokens) action \<Rightarrow> ('a, web_state) action" where
  "on_csrf f s = (case f (ws_csrf s) of (r, c) \<Rightarrow> (r, s\<lparr>ws_csrf := c\<rparr>))"

definition web_login_guard :: "web_env \<Rightarrow> attempts login_guard" where
  "web_login_guard env =
     newLoginAttemptGuard (wc_LoginProtection (NormalizeWebConfig (we_config env))) memory_login_store"

definition CaptchaConfigHandler :: "auth_lib \<Rightarrow> handler" where
  "CaptchaConfigHandler L env mo r cx s =
     (if rq_method r \<noteq> GET then (MethodNotAllowed, s)
      else (ok_response (PMap (case al_captcha L of
          Some key \<Rightarrow> [(''provider'', PText ''turnstile''), (''enabled'', PBool True), (''site_key'', PText key)]
        | None \<Rightarrow> [(''provider'', PText ''none''), (''enabled'', PBool False), (''site_key'', PText [])])), s))"

definition clientIPFromRequest :: "request \<Rightarrow> string" where
  "clientIPFromRequest r =
     (let forwarded = TrimSpace (rq_header r ''X-Forwarded-For'');
          realIP = TrimSpace (rq_header r ''X-Real-IP''); remote = TrimSpace (rq_remoteAddr r)
      in if forwarded \<noteq> [] then TrimSpace (hd (Split CHR '','' forwarded))
         else if realIP \<noteq> [] then realIP
         else case SplitHost remote of
             Some host \<Rightarrow> if host \<noteq> [] then host else remote
           | None \<Rightarrow> remote)"

section \<open>The session's tenant\<close>

definition resolveSessionTenantRole ::
    "string \<Rightarrow> (string \<times> tenant_role) list \<Rightarrow> string \<times> tenant_role" where
  "resolveSessionTenantRole requestedTenant roles =
     (let requested = TrimSpace requestedTenant
      in if requested \<noteq> [] then
           (case map_of roles requested of Some role \<Rightarrow> (requested, role) | None \<Rightarrow> ([], []))
         else case map_of roles DefaultTenantID of
             Some role \<Rightarrow> (DefaultTenantID, role)
           | None \<Rightarrow>
               (case sort (filter (\<lambda>t. t \<noteq> []) (map (TrimSpace \<circ> fst) roles)) of
                  [] \<Rightarrow> ([], [])
                | t # _ \<Rightarrow> (t, case map_of roles t of Some role \<Rightarrow> role | None \<Rightarrow> [])))"

definition roleOrNil :: "tenant_role \<Rightarrow> payload" where
  "roleOrNil role = (if role = [] then PNull else PText role)"

definition session_payload ::
    "string \<Rightarrow> string \<Rightarrow> permission \<Rightarrow> tenant_role \<Rightarrow> string \<Rightarrow> (string \<times> tenant_role) list \<Rightarrow>
     (string \<times> payload) list" where
  "session_payload username email perm role tenant roles =
     [(''username'', PText username), (''email'', PText email),
      (''permission'', PInt (int (permission_level perm))), (''current_role'', roleOrNil role),
      (''active_tenant'', PText tenant),
      (''tenant_roles'', PMap (map (\<lambda>(t, role). (t, PText role)) roles)),
      (''authenticated'', PBool True)]"

definition sessionPayload ::
    "request \<Rightarrow> string \<Rightarrow> string \<Rightarrow> ((string \<times> payload) list, web_state) action" where
  "sessionPayload r username email =
     bindE (on_db (tenant_GetUserTenantRoles username))
       (\<lambda>roles. case resolveSessionTenantRole (requestedTenantID r) roles of
          (tenant, role) \<Rightarrow>
            returnE (session_payload username email (PermissionFromTenantRole role) role tenant roles))"

section \<open>Registration\<close>

definition register_fields :: "(string \<times> field_kind) list" where
  "register_fields =
     [(''username'', KString), (''password'', KString), (''email'', KStringPtr),
      (''captcha_token'', KStringPtr), (''extensions'', KMap)]"

text \<open>The checks of the form, in order: the error response of the first that fails.\<close>

definition check_registration :: "auth_lib \<Rightarrow> string \<Rightarrow> string \<Rightarrow> string \<Rightarrow> response option" where
  "check_registration L username password email =
     (if username = [] then Some (error_response 400 40002 ''validation_error'' ''username'')
      else if length username < 3 \<or> length username > 64
      then Some (error_response 400 40002 ''validation_error'' ''username'')
      else if password = [] then Some (error_response 400 40003 ''validation_error'' ''password'')
      else if length password < 8 \<or> length password > 128
      then Some (error_response 400 40003 ''validation_error'' ''password'')
      else if email \<noteq> [] \<and> \<not> al_valid_email L email
      then Some (error_response 400 40002 ''validation_error'' ''email'')
      else None)"

definition check_captcha :: "auth_lib \<Rightarrow> request \<Rightarrow> string \<Rightarrow> response option" where
  "check_captcha L r captchaToken =
     (if al_captcha L = None then None
      else if captchaToken = [] then Some (error_response 400 40005 ''validation_error'' ''captcha_token'')
      else if \<not> al_verify_captcha L captchaToken (clientIPFromRequest r)
      then Some (error_response 400 40006 ''validation_error'' ''captcha_token'')
      else None)"

definition RegisterHandler :: "auth_lib \<Rightarrow> handler" where
  "RegisterHandler L env mo r cx s =
     (if rq_method r \<noteq> POST then (MethodNotAllowed, s)
      else case DecodeBody r register_fields (wc_MaxAPIBodyBytes (NormalizeWebConfig (we_config env))) of
          None \<Rightarrow> (error_response 400 40001 ''validation_error'' [], s)
        | Some p \<Rightarrow>
            let username = TrimSpace (field_text p ''username''); password = field_text p ''password'';
                email = TrimSpace (field_text p ''email'')
            in (case check_registration L username password email of
                  Some resp \<Rightarrow> (resp, s)
                | None \<Rightarrow>
                    (case check_captcha L r (TrimSpace (field_text p ''captcha_token'')) of
                       Some resp \<Rightarrow> (resp, s)
                     | None \<Rightarrow>
                         (case al_hash L password of
                            None \<Rightarrow> (error_response 500 50003 ''internal_error'' [], s)
                          | Some hash \<Rightarrow>
                              (case on_db (ident_Create (no_auth_user
                                    \<lparr>au_Username := username, au_Email := email, au_Password := hash\<rparr>)
                                    (al_stamp L mo) (mo_now mo)) s of
                                 (Inl e, s1) \<Rightarrow>
                                   (if e = ErrUserFound then error_response 409 40901 ''conflict'' ''username''
                                    else InternalError 50004, s1)
                               | (Inr user, s1) \<Rightarrow>
                                   (case al_fire L ''after_register'' r of
                                      Inl e \<Rightarrow> (InternalError 50005, s1)
                                    | Inr handled \<Rightarrow>
                                        (case sessionPayload r username email s1 of
                                           (Inl e, s2) \<Rightarrow> (InternalError 50019, s2)
                                         | (Inr data, s2) \<Rightarrow>
                                             ((respond 201 (PMap data))
                                                \<lparr>rs_session := (if handled = None
                                                   then SessionSet (au_Username user) else SessionKept)\<rparr>, s2))))))))"

section \<open>Login\<close>

definition login_fields :: "(string \<times> field_kind) list" where
  "login_fields =
     [(''username'', KString), (''password'', KString), (''remember_me'', KBool),
      (''captcha_token'', KStringPtr), (''extensions'', KMap)]"

text \<open>A failed attempt is recorded before it is answered.\<close>

definition login_failed ::
    "web_env \<Rightarrow> moment \<Rightarrow> request \<Rightarrow> string \<Rightarrow> int \<Rightarrow> int \<Rightarrow> web_state \<Rightarrow> response \<times> web_state" where
  "login_failed env mo r username internal code s =
     (case on_login (RecordFailure (web_login_guard env) username (rq_remoteAddr r) (mo_now mo)) s of
        (Inl e, s1) \<Rightarrow> (InternalError internal, s1)
      | (Inr _, s1) \<Rightarrow> (error_response 401 code ''invalid_credentials'' [], s1))"

text \<open>
  The library's hooks around a login, in order; each may fail, with its own code, or answer in the
  handler's place. The hooks after a failed password are called for their effect alone: the code
  drops their result, and none of the library's modules the program loads registers one.
\<close>

fun fire_hooks :: "auth_lib \<Rightarrow> request \<Rightarrow> (string \<times> int) list \<Rightarrow> response option" where
  "fire_hooks L r [] = None"
| "fire_hooks L r ((event, code) # hooks) =
     (case al_fire L event r of
        Inl e \<Rightarrow> Some (InternalError code)
      | Inr (Some resp) \<Rightarrow> Some resp
      | Inr None \<Rightarrow> fire_hooks L r hooks)"

text \<open>After the password is verified and the session is set.\<close>

definition finish_login :: "auth_lib \<Rightarrow> web_env \<Rightarrow> moment \<Rightarrow> request \<Rightarrow> auth_user \<Rightarrow>
     web_state \<Rightarrow> response \<times> web_state" where
  "finish_login L env mo r user s =
     (case fire_hooks L r [(''after_auth'', 50010)] of
        Some resp \<Rightarrow> (resp\<lparr>rs_session := SessionSet (au_Username user)\<rparr>, s)
      | None \<Rightarrow>
          (case on_csrf (GenerateToken (au_Username user) mo) s of
             (Inl e, s1) \<Rightarrow> ((InternalError 50018)\<lparr>rs_session := SessionSet (au_Username user)\<rparr>, s1)
           | (Inr token, s1) \<Rightarrow>
               (case sessionPayload r (au_Username user) (au_Email user) s1 of
                  (Inl e, s2) \<Rightarrow>
                    (SetCSRFCookie token (InternalError 50019)\<lparr>rs_session := SessionSet (au_Username user)\<rparr>, s2)
                | (Inr data, s2) \<Rightarrow>
                    (SetCSRFCookie token (ok_response (PMap (data @ [(''csrf_token'', PText token)])))
                       \<lparr>rs_session := SessionSet (au_Username user)\<rparr>, s2))))"

definition LoginHandler :: "auth_lib \<Rightarrow> handler" where
  "LoginHandler L env mo r cx s =
     (if rq_method r \<noteq> POST then (MethodNotAllowed, s)
      else case DecodeBody r login_fields (wc_MaxAPIBodyBytes (NormalizeWebConfig (we_config env))) of
          None \<Rightarrow> (error_response 400 40007 ''validation_error'' [], s)
        | Some p \<Rightarrow>
            let username = TrimSpace (field_text p ''username''); password = field_text p ''password'';
                guard = web_login_guard env
            in if username = [] \<or> password = []
               then (error_response 400 40008 ''validation_error''
                       (if username \<noteq> [] then ''password'' else ''username''), s)
               else (case on_login (Allow guard username (rq_remoteAddr r) (mo_now mo)) s of
                   (Inl e, s1) \<Rightarrow> (InternalError 50014, s1)
                 | (Inr (retryAfter, allowed), s1) \<Rightarrow>
                     if \<not> allowed
                     then ((error_response 429 42911 ''too_many_attempts'' ''username'')
                             \<lparr>rs_headers := [(''Retry-After'', Itoa (retryAfterSeconds retryAfter))]\<rparr>, s1)
                     else (case on_db (ident_Load username) s1 of
                         (Inl e, s2) \<Rightarrow>
                           if e = ErrUserNotFound then login_failed env mo r username 50015 40111 s2
                           else (InternalError 50006, s2)
                       | (Inr user, s2) \<Rightarrow>
                           if \<not> al_verify L (au_Password user) password
                           then login_failed env mo r username 50016 40112 s2
                           else (case on_login (Reset guard username (rq_remoteAddr r)) s2 of
                               (Inl e, s3) \<Rightarrow> (InternalError 50017, s3)
                             | (Inr _, s3) \<Rightarrow>
                                 (case fire_hooks L r [(''before_auth'', 50008), (''before_auth_hijack'', 50009)] of
                                    Some resp \<Rightarrow> (resp, s3)
                                  | None \<Rightarrow> finish_login L env mo r user s3)))))"

definition LogoutHandler :: handler where
  "LogoutHandler env mo r cx s =
     (if rq_method r \<noteq> POST then (MethodNotAllowed, s)
      else case CurrentUser env r s of
          (Inl e, s1) \<Rightarrow> (error_response 401 40113 ''auth_required'' [], s1)
        | (Inr user, s1) \<Rightarrow>
            (case on_db (ident_DelRememberTokens (au_Username user) (mo_now mo)) s1 of
               (Inl e, s2) \<Rightarrow> (InternalError 50012, s2)
             | (Inr _, s2) \<Rightarrow> (NoContent\<lparr>rs_session := SessionCleared\<rparr>, s2)))"

definition MeHandler :: handler where
  "MeHandler env mo r cx s =
     (if rq_method r \<noteq> GET then (MethodNotAllowed, s)
      else case CurrentUser env r s of (u, s1) \<Rightarrow>
        (case on_db (tenant_GetUserTenantRoles (cx_Username cx)) s1 of
           (Inl e, s2) \<Rightarrow> (InternalError 50014, s2)
         | (Inr roles, s2) \<Rightarrow>
             (ok_response (PMap (session_payload (cx_Username cx)
                (case u of Inr user \<Rightarrow> au_Email user | Inl _ \<Rightarrow> []) (cx_Perm cx) (cx_Role cx)
                (tenantID r cx) roles)), s2)))"

end
