(* ===== verification/WebFrames.thy ===== *)
theory WebFrames
  imports WebDevices WebTenants WebLogin
begin

text \<open>
  What an operation leaves alone: rules by which a view of the tables (one table, or what it
  stands for) is seen to survive an action of the repositories, of the services over them, and of
  the handlers of the web layer. \<open>preserves p v act\<close> says that the view \<open>v\<close> of the tables, which
  the state holds at \<open>p\<close>, is the same after \<open>act\<close>.
\<close>

named_theorems frame_intros

definition preserves :: "('s \<Rightarrow> tables) \<Rightarrow> (tables \<Rightarrow> 'v) \<Rightarrow> ('s \<Rightarrow> 'b \<times> 's) \<Rightarrow> bool" where
  "preserves p v act \<longleftrightarrow> (\<forall>s. v (p (snd (act s))) = v (p s))"

lemma preservesI: "(\<And>s x s'. act s = (x, s') \<Longrightarrow> v (p s') = v (p s)) \<Longrightarrow> preserves p v act"
  unfolding preserves_def by (metis prod.collapse)

lemma preservesD: "preserves p v act \<Longrightarrow> act s = (x, s') \<Longrightarrow> v (p s') = v (p s)"
  unfolding preserves_def by (metis snd_conv)

lemma preserves_view: "preserves p v act \<Longrightarrow> preserves p (\<lambda>t. f (v t)) act"
  by (simp add: preserves_def)

section \<open>The shapes of actions and handlers\<close>

lemma preserves_unit [frame_intros]:
  "preserves p v (returnE x)" "preserves p v (failE e)" "preserves p v (\<lambda>s. (y s, s))"
  by (simp_all add: preserves_def)

lemma preserves_seq [frame_intros]:
  assumes "preserves p v m" "\<And>a. preserves p v (f a)"
  shows "preserves p v (\<lambda>s. case m s of (a, s1) \<Rightarrow> f a s1)"
  using assms unfolding preserves_def by (auto split: prod.splits) (metis snd_conv)+

lemma preserves_bindE [frame_intros]:
  assumes "preserves p v m" "\<And>x. preserves p v (f x)"
  shows "preserves p v (bindE m f)"
  using assms unfolding preserves_def bindE_def by (auto split: prod.splits sum.splits) (metis snd_conv)+

lemma preserves_catchE [frame_intros]:
  assumes "preserves p v m" "\<And>e. preserves p v (h e)"
  shows "preserves p v (catchE m h)"
  using assms unfolding preserves_def catchE_def by (auto split: prod.splits sum.splits) (metis snd_conv)+

lemma preserves_if [frame_intros]:
  "preserves p v f \<Longrightarrow> preserves p v g \<Longrightarrow> preserves p v (\<lambda>s. if b s then f s else g s)"
  by (simp add: preserves_def)

lemma preserves_cases [frame_intros]:
  "preserves p v f \<Longrightarrow> (\<And>x. preserves p v (g x)) \<Longrightarrow>
    preserves p v (\<lambda>s. case xo of None \<Rightarrow> f s | Some x \<Rightarrow> g x s)"
  "(\<And>e. preserves p v (l e)) \<Longrightarrow> (\<And>x. preserves p v (g x)) \<Longrightarrow>
    preserves p v (\<lambda>s. case xs of Inl e \<Rightarrow> l e s | Inr x \<Rightarrow> g x s)"
  "(\<And>a b. preserves p v (k a b)) \<Longrightarrow> preserves p v (\<lambda>s. case ab of (a, b) \<Rightarrow> k a b s)"
  "preserves p v f \<Longrightarrow> (\<And>y ys. preserves p v (c y ys)) \<Longrightarrow>
    preserves p v (\<lambda>s. case zs of [] \<Rightarrow> f s | y # ys \<Rightarrow> c y ys s)"
  by (simp_all add: preserves_def split: option.splits sum.splits prod.splits list.splits)

lemma preserves_case_action [frame_intros]:
  "preserves p v f \<Longrightarrow> (\<And>x. preserves p v (g x)) \<Longrightarrow>
    preserves p v (case xo of None \<Rightarrow> f | Some x \<Rightarrow> g x)"
  "(\<And>e. preserves p v (l e)) \<Longrightarrow> (\<And>x. preserves p v (g x)) \<Longrightarrow>
    preserves p v (case xs of Inl e \<Rightarrow> l e | Inr x \<Rightarrow> g x)"
  "(\<And>a b. preserves p v (k a b)) \<Longrightarrow> preserves p v (case ab of (a, b) \<Rightarrow> k a b)"
  "preserves p v f \<Longrightarrow> preserves p v g' \<Longrightarrow> preserves p v (if b then f else g')"
  by (simp_all split: option.splits sum.splits prod.splits)

section \<open>Statements and the services over them\<close>

lemma preserves_run_stmt [frame_intros]:
  assumes "\<And>t. v (snd (f t)) = v t"
  shows "preserves tabs v (run_stmt f)"
proof (rule preservesI)
  fix d x d'
  assume "run_stmt f d = (x, d')"
  with assms [of "tabs d"] show "v (tabs d') = v (tabs d)"
    by (cases f d rule: run_stmt_cases) auto
qed

lemma preserves_run_query [frame_intros]: "preserves tabs v (run_query f)"
  unfolding run_query_def by (rule preserves_run_stmt) simp

lemma preserves_run_tx [frame_intros]:
  assumes "preserves tabs v body"
  shows "preserves tabs v (run_tx body)"
proof (rule preservesI)
  fix d r d'
  assume r: "run_tx body d = (r, d')"
  show "v (tabs d') = v (tabs d)"
  proof (cases r)
    case (Inl e)
    with r run_tx_Inl show ?thesis by metis
  next
    case (Inr x)
    with r have "run_tx body d = (Inr x, d')" by simp
    then show ?thesis by (rule run_tx_Inr) (metis preservesD [OF assms])
  qed
qed

definition reg_tabs :: "(db, presence_map) registry \<Rightarrow> tables" where
  "reg_tabs g = tabs (rg_store g)"

definition dk_tabs :: "(db, memory_queue) downlink \<Rightarrow> tables" where
  "dk_tabs s = tabs (dk_store s)"

abbreviation web_preserves :: "(tables \<Rightarrow> 'v) \<Rightarrow> (web_state \<Rightarrow> 'b \<times> web_state) \<Rightarrow> bool" where
  "web_preserves \<equiv> preserves (\<lambda>s. wtabs s)"

lemma preserves_on_store [frame_intros]:
  "preserves tabs v f \<Longrightarrow> preserves reg_tabs v (on_store f)"
  by (auto simp: preserves_def on_store_def reg_tabs_def split: prod.splits) (metis snd_conv)

lemma preserves_on_repo [frame_intros]:
  "preserves tabs v f \<Longrightarrow> preserves dk_tabs v (on_repo f)"
  by (auto simp: preserves_def on_repo_def dk_tabs_def split: prod.splits) (metis snd_conv)

lemma preserves_on_queue [frame_intros]: "preserves dk_tabs v (on_queue f)"
  by (auto simp: preserves_def on_queue_def dk_tabs_def split: prod.splits)

lemma preserves_on_db [frame_intros]:
  "preserves tabs v f \<Longrightarrow> web_preserves v (on_db f)"
  by (auto simp: preserves_def on_db_def on_core_def with_db_def split: prod.splits) (metis snd_conv)

lemma preserves_on_registry [frame_intros]:
  "preserves reg_tabs v f \<Longrightarrow> web_preserves v (on_registry f)"
  by (auto simp: preserves_def on_registry_def on_core_def with_registry_def reg_tabs_def split: prod.splits)
    (metis registry.select_convs(1) snd_conv)

lemma preserves_on_downlink [frame_intros]:
  "preserves dk_tabs v f \<Longrightarrow> web_preserves v (on_downlink f)"
  by (auto simp: preserves_def on_downlink_def on_core_def with_downlink_def dk_tabs_def split: prod.splits)
    (metis downlink.select_convs(1) snd_conv)

lemma preserves_on_login [frame_intros]: "web_preserves v (on_login f)" "web_preserves v (on_csrf g)"
  by (auto simp: preserves_def on_login_def on_csrf_def split: prod.splits)

section \<open>The repositories\<close>

lemmas tenant_op_defs = tenant_ListTenants_def tenant_ListUserTenants_def tenant_GetTenant_def
  tenant_CreateTenant_def tenant_CreateTenantWithOwner_def tenant_UpdateTenant_def
  tenant_GetUserTenantRoles_def tenant_ListTenantUsers_def tenant_AddTenantUser_def
  tenant_RemoveTenantUser_def upsertTenantUser_def insert_tenant_def insert_invitation_def
  tenant_CreateTenantInvitation_def tenant_ListPendingInvitations_def getInvitation_def
  set_status_def tenant_AcceptInvitation_def tenant_RejectInvitation_def

lemmas user_op_defs = user_GetUserCount_def user_ListUsersByTenant_def user_GetUserPermission_def
  insert_legacy_tenant_def SyncLegacyTenantRole_def ident_Load_def ident_Create_def insert_user_def
  ident_DelRememberTokens_def map_users_def

text \<open>Operations that only read.\<close>

lemma reading_ops [frame_intros]:
  "preserves tabs v (tenant_ListUserTenants u)"
  "preserves tabs v (tenant_GetTenant i)"
  "preserves tabs v (tenant_GetUserTenantRoles u)"
  "preserves tabs v (tenant_ListTenantUsers i)"
  "preserves tabs v (tenant_ListPendingInvitations u now)"
  "preserves tabs v (getInvitation i)"
  "preserves tabs v (user_ListUsersByTenant i)"
  "preserves tabs v (user_GetUserPermission u)"
  "preserves tabs v (ident_Load k)"
  "preserves tabs v (device_LoadConfig uuid)"
  "preserves tabs v (device_LoadConfigByTenant i uuid)"
  "preserves tabs v (device_ListDevicesByTenant i st page sz)"
  "preserves tabs v (device_ListDevices page sz)"
  "preserves tabs v (device_ListDevicesByStatus st' page sz)"
  "preserves tabs v (device_ResolveDeviceTenant uuid)"
  "preserves tabs v (QueryMetricsByTenant i uuid a b)"
  unfolding tenant_op_defs user_op_defs Let_def device_LoadConfig_def device_LoadConfigByTenant_def
    device_ListDevicesByTenant_def device_ListDevices_def device_ListDevicesByStatus_def
    device_ResolveDeviceTenant_def QueryMetricsByTenant_def
  by (intro frame_intros; simp)+

text \<open>The operations of tenants and accounts leave the devices alone.\<close>

lemma tenant_ops_devices [frame_intros]:
  "preserves tabs t_devices (tenant_CreateTenantWithOwner al tn u now)"
  "preserves tabs t_devices (tenant_UpdateTenant i tn now)"
  "preserves tabs t_devices (tenant_RemoveTenantUser i u)"
  "preserves tabs t_devices (tenant_CreateTenantInvitation w rnd now)"
  "preserves tabs t_devices (tenant_AcceptInvitation i now)"
  "preserves tabs t_devices (tenant_RejectInvitation i now)"
  "preserves tabs t_devices (ident_Create x stamp now)"
  "preserves tabs t_devices (ident_DelRememberTokens u now)"
  unfolding tenant_op_defs user_op_defs Let_def by (intro frame_intros; simp add: Let_def)+

text \<open>The operations of devices, and those of tenants that grant nothing, leave the members alone.\<close>

lemma ops_members [frame_intros]:
  "preserves tabs t_tenant_users (tenant_UpdateTenant i tn now)"
  "preserves tabs t_tenant_users (tenant_CreateTenantInvitation w rnd now)"
  "preserves tabs t_tenant_users (tenant_RejectInvitation i now)"
  "preserves tabs t_tenant_users (ident_DelRememberTokens u now)"
  "preserves tabs t_tenant_users (device_InitDeviceInTenant i uuid meta now)"
  "preserves tabs t_tenant_users (device_DestroyDevice uuid)"
  "preserves tabs t_tenant_users (device_SaveMetadata uuid meta)"
  "preserves tabs t_tenant_users (device_UpdateToken uuid tok)"
  unfolding tenant_op_defs user_op_defs Let_def device_InitDeviceInTenant_def device_DestroyDevice_def
    device_SaveMetadata_def device_UpdateToken_def map_devices_def
  by (intro frame_intros; simp add: Let_def)+

text \<open>The registry and the downlink service over their repositories.\<close>

lemma preserves_after:
  "preserves p v act \<Longrightarrow> (\<And>s. v (p (g s)) = v (p s)) \<Longrightarrow> preserves p v (\<lambda>s. act (g s))"
  by (simp add: preserves_def)

lemma reg_tabs_drop_cached [simp]: "reg_tabs (drop_cached m s) = reg_tabs s"
  by (simp add: reg_tabs_def drop_cached_def cache_delete_def)

lemma registry_ops:
  assumes "rs_dataStore S = D"
    and "\<And>u. preserves tabs v (ds_LoadConfig D u)"
    and "\<And>u m. preserves tabs v (ds_SaveMetadata D u m)"
    and "\<And>u k. preserves tabs v (ds_UpdateToken D u k)"
    and "\<And>u. preserves tabs v (ds_DestroyDevice D u)"
    and "\<And>i u m now. preserves tabs v (ds_InitDeviceInTenant D i u m now)"
  shows "preserves reg_tabs v (UpdateDeviceAuthenticateStatus S u st rnd)"
    and "preserves reg_tabs v (update_status st S u rnd)"
    and "preserves reg_tabs v (RefreshToken S u rnd)"
    and "preserves reg_tabs v (DeleteDevice S u)"
    and "preserves reg_tabs v (ProvisionDevice S sc meta rnd now)"
proof -
  show upd: "preserves reg_tabs v (UpdateDeviceAuthenticateStatus S u st rnd)" for u st rnd
    unfolding UpdateDeviceAuthenticateStatus_def assms(1)
  proof (rule preserves_bindE)
    show "preserves reg_tabs v (on_store (ds_LoadConfig D u))" by (intro frame_intros assms(2))
    fix meta
    show "preserves reg_tabs v (\<lambda>s. bindE (on_store (ds_SaveMetadata D u (with_status S st rnd meta)))
         (\<lambda>_. returnE (dm_Token (with_status S st rnd meta))) (drop_cached meta s))"
      by (rule preserves_after) (intro frame_intros assms(3), simp)
  qed
  show "preserves reg_tabs v (update_status st S u rnd)"
    unfolding update_status_def by (intro frame_intros upd)
  have load: "v (reg_tabs s') = v (reg_tabs s)" if "on_store (ds_LoadConfig D u) s = (x, s')" for s s' x
    using preservesD [OF preserves_on_store [OF assms(2)] that] .
  have drop: "v (reg_tabs (case x of Inr meta \<Rightarrow> drop_cached meta s | Inl e \<Rightarrow> s)) = v (reg_tabs s)"
    for x :: "device_metadata result" and s
    by (simp split: sum.splits)
  show "preserves reg_tabs v (RefreshToken S u rnd)"
    unfolding RefreshToken_def [abs_def] assms(1) Let_def
  proof (rule preserves_seq)
    show "preserves reg_tabs v (on_store (ds_LoadConfig D u))" by (intro frame_intros assms(2))
    fix a :: "device_metadata result"
    show "preserves reg_tabs v (\<lambda>s. case on_store (ds_UpdateToken D u (generateSecureToken S rnd))
        (case a of Inl x \<Rightarrow> s | Inr meta \<Rightarrow> drop_cached meta s) of (b, s3) \<Rightarrow>
        case b of Inl e \<Rightarrow> ((generateSecureToken S rnd, Some e), s3)
        | Inr x \<Rightarrow> ((generateSecureToken S rnd, None), s3))"
      using preservesD [OF preserves_on_store [OF assms(4)]] drop [of _ a]
      by (intro preservesI) (fastforce split: prod.splits sum.splits)
  qed
  show "preserves reg_tabs v (DeleteDevice S u)"
    unfolding DeleteDevice_def [abs_def] assms(1) Let_def
  proof (rule preserves_seq)
    show "preserves reg_tabs v (on_store (ds_LoadConfig D u))" by (intro frame_intros assms(2))
    fix a :: "device_metadata result"
    show "preserves reg_tabs v (\<lambda>s. bindE (on_store (ds_DestroyDevice D u)) (\<lambda>_ s3.
             (Inr (), case rs_OnDelete S of None \<Rightarrow> s3
                      | Some h \<Rightarrow> s3\<lparr>rg_hook_state := h u (rg_hook_state s3)\<rparr>))
        (case a of Inl x \<Rightarrow> s | Inr meta \<Rightarrow> drop_cached meta s))"
      using preservesD [OF preserves_on_store [OF assms(5)]] drop [of _ a]
      by (intro preservesI)
        (fastforce simp: bindE_def reg_tabs_def split: prod.splits sum.splits option.splits)
  qed
  show "preserves reg_tabs v (ProvisionDevice S sc meta rnd now)"
    unfolding ProvisionDevice_def [abs_def] assms(1) Let_def
    by (intro frame_intros assms(2-))
qed

lemma Enqueue_frame:
  assumes "\<And>u cmd name pl. preserves tabs v (cr_CreateDeviceCommandByTenant (dsv_dataStore S) (sc_TenantID sc) u cmd name pl)"
    and "\<And>c st t now. preserves tabs v (cr_UpdateDeviceCommandStatus (dsv_dataStore S) c st t now)"
  shows "preserves dk_tabs v (Downlink_Enqueue S sc u cmd name pl now)"
proof -
  have mark: "preserves dk_tabs v (MarkFailed S c t now)" for c t now
    unfolding MarkFailed_def mark_status_def by (intro frame_intros assms(2))
  have mark': "preserves dk_tabs v (\<lambda>s. (Inl e, snd (MarkFailed S c t now s)))" for e c t now
    using mark by (simp add: preserves_def)
  show ?thesis unfolding Downlink_Enqueue_def Let_def
    by (intro frame_intros assms(1) mark')
qed

lemma command_ops:
  assumes "\<And>t x y. v (t\<lparr>t_commands := x, t_next_command := y\<rparr>) = v t"
    and "\<And>t x. v (t\<lparr>t_commands := x\<rparr>) = v t"
  shows "preserves tabs v (cr_CreateDeviceCommandByTenant (dsv_dataStore sql_downlink) i u cmd name pl)"
    and "preserves tabs v (cr_UpdateDeviceCommandStatus (dsv_dataStore sql_downlink) c st t now)"
  using assms
  by (auto simp: sql_downlink_def command_repository_def CreateDeviceCommandByTenant_def
      createDeviceCommandRecord_def UpdateDeviceCommandStatus_def Let_def intro!: frame_intros)

end
