(* ===== verification/WebHandlerFrames.thy ===== *)
theory WebHandlerFrames
  imports WebFrames
begin

text \<open>
  Which handlers of the web layer leave which tables alone, by the rules of the theory before: the
  handlers that only read, the handlers that never write a device, and those that never change who
  is a member of what.
\<close>

section \<open>Handlers\<close>

lemma preserves_CurrentUser [frame_intros]: "web_preserves v (CurrentUser env r)"
  unfolding CurrentUser_def by (intro frame_intros)

lemma preserves_sessionPayload [frame_intros]: "web_preserves v (sessionPayload r u e)"
  unfolding sessionPayload_def by (intro frame_intros)

lemma preserves_scope_ops [frame_intros]:
  "web_preserves v (on_registry (GetDeviceMetadataByScope (web_registry env) sc u))"
  "web_preserves v (on_registry (ListDevicesByScope (web_registry env) sc st page sz))"
  unfolding GetDeviceMetadataByScope_def GetDeviceMetadata_def ListDevicesByScope_def ListDevices_def
    web_registry_def core_registry_def sql_registry_store
  by (intro frame_intros; simp add: device_repository_def; intro frame_intros)+

lemma preserves_ensureDevice [frame_intros]:
  "web_preserves v (ensureDeviceInScope env r cx u code)" "web_preserves v (ensureDeviceExists env r cx u)"
  unfolding ensureDeviceExists_def ensureDeviceInScope_def [abs_def] by (intro frame_intros)+

lemma preserves_login_failed [frame_intros]: "web_preserves v (login_failed env mo r u i c)"
  unfolding login_failed_def [abs_def] by (intro frame_intros)

lemma preserves_finish_login [frame_intros]: "web_preserves v (finish_login L env mo r u)"
  unfolding finish_login_def [abs_def] by (intro frame_intros)

lemma reading_handlers:
  "web_preserves v (CaptchaConfigHandler L env mo r cx)"
  "web_preserves v (LoginHandler L env mo r cx)"
  "web_preserves v (MeHandler env mo r cx)"
  "web_preserves v (MetricsHandler env mo r cx)"
  "web_preserves v (AccessControlHandler env mo r cx)"
  "web_preserves v (UsersHandler env mo r cx)"
  "web_preserves v (UserPermissionHandler env mo r cx)"
  "web_preserves v (InvitationsHandler env mo r cx)"
  unfolding CaptchaConfigHandler_def [abs_def] LoginHandler_def [abs_def] MeHandler_def [abs_def]
    MetricsHandler_def [abs_def] AccessControlHandler_def [abs_def] UsersHandler_def [abs_def]
    UserPermissionHandler_def [abs_def] InvitationsHandler_def [abs_def] Let_def
  by (intro frame_intros)+

lemma preserves_method [frame_intros]:
  assumes "rq_method r = GET \<Longrightarrow> preserves p v get" "rq_method r = HEAD \<Longrightarrow> preserves p v head"
    and "rq_method r = POST \<Longrightarrow> preserves p v post" "rq_method r = PUT \<Longrightarrow> preserves p v put"
    and "rq_method r = PATCH \<Longrightarrow> preserves p v patch" "rq_method r = DELETE \<Longrightarrow> preserves p v delete"
    and "rq_method r = OPTIONS \<Longrightarrow> preserves p v options"
    and "\<And>m. rq_method r = OtherMethod m \<Longrightarrow> preserves p v (other m)"
  shows "preserves p v (\<lambda>s. case rq_method r of GET \<Rightarrow> get s | HEAD \<Rightarrow> head s | POST \<Rightarrow> post s | PUT \<Rightarrow> put s
     | PATCH \<Rightarrow> patch s | DELETE \<Rightarrow> delete s | OPTIONS \<Rightarrow> options s | OtherMethod m \<Rightarrow> other m s)"
  using assms by (cases "rq_method r") simp_all

lemmas tenant_handler_defs = listTenants_def createTenant_def TenantsHandler_def handleTenantDetail_def
  invite_member_def CreateTenantInvitationHandler_def handleTenantUsers_def TenantByIDHandler_def
  answer_invitation_def InvitationByIDHandler_def

lemma devices_unwritten:
  "web_preserves t_devices (RegisterHandler L env mo r cx)"
  "web_preserves t_devices (LogoutHandler env mo r cx)"
  "web_preserves t_devices (TenantsHandler env mo r cx)"
  "web_preserves t_devices (TenantByIDHandler env mo r cx)"
  "web_preserves t_devices (InvitationByIDHandler env mo r cx)"
  unfolding RegisterHandler_def [abs_def] LogoutHandler_def [abs_def] tenant_handler_defs [abs_def] Let_def
  by (intro frame_intros)+

lemma device_store_members:
  "preserves tabs t_tenant_users (ds_LoadConfig device_repository u)"
  "preserves tabs t_tenant_users (ds_SaveMetadata device_repository u m)"
  "preserves tabs t_tenant_users (ds_UpdateToken device_repository u k)"
  "preserves tabs t_tenant_users (ds_DestroyDevice device_repository u)"
  "preserves tabs t_tenant_users (ds_InitDeviceInTenant device_repository i u m now)"
  by (simp_all add: device_repository_def) (intro frame_intros)+

lemma web_registry_store: "rs_dataStore (web_registry env) = device_repository"
  by (simp add: web_registry_def core_registry_def)

lemmas registry_members [frame_intros] =
  registry_ops [OF web_registry_store device_store_members]

lemma action_result_frame [frame_intros]:
  "preserves p v m \<Longrightarrow> preserves p v (\<lambda>s. action_result a b f (m s))"
  by (auto simp: preserves_def action_result_def split: prod.splits sum.splits) (metis snd_conv)+

lemma guarded_device_frame [frame_intros]:
  "web_preserves v act \<Longrightarrow> web_preserves v (guarded_device env r cx u code act)"
  unfolding guarded_device_def [abs_def] by (intro frame_intros)

lemma on_registry_pair_frame [frame_intros]:
  "preserves reg_tabs v f \<Longrightarrow> web_preserves v (on_registry_pair f)"
  unfolding on_registry_pair_def
  by (intro frame_intros) (auto simp: preserves_def split: prod.splits option.splits; metis snd_conv)

lemma enqueue_handler_frame [frame_intros]:
  assumes "\<And>t x y. v (t\<lparr>t_commands := x, t_next_command := y\<rparr>) = v t"
    and "\<And>t x. v (t\<lparr>t_commands := x\<rparr>) = v t"
  shows "web_preserves v (enqueueDeviceCommand u env mo r cx)"
  unfolding enqueueDeviceCommand_def [abs_def] Let_def
  by (intro frame_intros Enqueue_frame command_ops assms)

lemmas device_handler_defs = listDevices_def createDevice_def DevicesHandler_def getDevice_def
  deviceAction_def deleteDevice_def refreshDeviceToken_def DeviceByUUIDHandler_def

lemma members_unwritten:
  "web_preserves t_tenant_users (LogoutHandler env mo r cx)"
  "web_preserves t_tenant_users (DevicesHandler env mo r cx)"
  "web_preserves t_tenant_users (DeviceByUUIDHandler env mo r cx)"
  unfolding LogoutHandler_def [abs_def] device_handler_defs [abs_def] RejectDevice_def UnblockDevice_def Let_def
  by (intro frame_intros; simp)+

end
