(* ===== verification/WebEffects.thy ===== *)
theory WebEffects
  imports WebHandlerFrames
begin

text \<open>
  What an operation may change: the registry edits one device and leaves its tenant; the device
  handlers write only devices of the tenant they were let into.
\<close>

section \<open>The registry edits one device\<close>

definition edits :: "string \<Rightarrow> (string \<Rightarrow> (string \<times> 'm) option) \<Rightarrow> (string \<Rightarrow> (string \<times> 'm) option) \<Rightarrow> bool" where
  "edits u devs devs' \<longleftrightarrow>
     (\<forall>v. v \<noteq> u \<longrightarrow> devs' v = devs v) \<and> (devs u = None \<longrightarrow> devs' u = None) \<and>
     (\<forall>x y. devs u = Some x \<longrightarrow> devs' u = Some y \<longrightarrow> fst y = fst x)"

lemma edits_refl [simp]: "edits u devs devs"
  by (simp add: edits_def)

lemma edits_upd [simp]:
  "edits u devs (devs(u := None))"
  "devs u = Some (t, m) \<Longrightarrow> edits u devs (devs(u \<mapsto> (t, m')))"
  by (auto simp: edits_def)

context device_store begin

lemma load_store:
  "on_store (ds_LoadConfig D u) s = (r, s') \<Longrightarrow> store_inv (rg_store s) \<Longrightarrow>
   store_inv (rg_store s') \<and> devs (rg_store s') = devs (rg_store s)"
  by (auto simp: on_store_def split: prod.splits dest: load_frame)

lemma drop_store [simp]: "rg_store (drop_cached m s) = rg_store s"
  by (simp add: drop_cached_def cache_delete_def)

lemma save_store:
  "on_store (ds_SaveMetadata D u m) s = (r, s') \<Longrightarrow> store_inv (rg_store s) \<Longrightarrow>
   store_inv (rg_store s') \<and> edits u (devs (rg_store s)) (devs (rg_store s'))"
  by (cases r; cases "devs (rg_store s) u")
    (auto simp: on_store_def split: prod.splits dest: save_inv save_fail save_ok)

lemma update_store:
  assumes "on_store (ds_UpdateToken D u tok) s = (r, s')" "store_inv (rg_store s)"
  shows "store_inv (rg_store s') \<and> edits u (devs (rg_store s)) (devs (rg_store s'))"
proof -
  from assms(1) obtain d where f: "ds_UpdateToken D u tok (rg_store s) = (r, d)" "rg_store s' = d"
    by (auto simp: on_store_def split: prod.splits)
  have "edits u (devs (rg_store s)) (devs d)"
  proof (cases r)
    case (Inl e)
    with update_fail [OF assms(2)] f show ?thesis by simp
  next
    case (Inr x)
    with f obtain t m where "devs (rg_store s) u = Some (t, m)"
      "devs d = (devs (rg_store s))(u \<mapsto> (t, m\<lparr>dm_Token := TrimSpace tok\<rparr>))"
      using update_ok [OF assms(2)] by blast
    then show ?thesis by simp
  qed
  with update_inv [OF assms(2) f(1)] f(2) show ?thesis by simp
qed

lemma destroy_store:
  "on_store (ds_DestroyDevice D u) s = (r, s') \<Longrightarrow> store_inv (rg_store s) \<Longrightarrow>
   store_inv (rg_store s') \<and> edits u (devs (rg_store s)) (devs (rg_store s'))"
  by (cases r) (auto simp: on_store_def split: prod.splits dest: destroy_inv destroy_fail destroy_ok)

lemma UpdateStatus_edits:
  assumes "rs_dataStore S = D" "store_inv (rg_store s)"
    and "UpdateDeviceAuthenticateStatus S u st rnd s = (r, s')"
  shows "edits u (devs (rg_store s)) (devs (rg_store s'))"
proof -
  obtain x s1 where l: "on_store (ds_LoadConfig D u) s = (x, s1)" by (cases "on_store (ds_LoadConfig D u) s")
  note load = load_store [OF l assms(2)]
  show ?thesis
  proof (cases x)
    case (Inl e)
    with assms l load show ?thesis by (simp add: UpdateDeviceAuthenticateStatus_def)
  next
    case (Inr meta)
    obtain y s2 where w: "on_store (ds_SaveMetadata D u (with_status S st rnd meta)) (drop_cached meta s1) = (y, s2)"
      by (cases "on_store (ds_SaveMetadata D u (with_status S st rnd meta)) (drop_cached meta s1)")
    have "s' = s2" using assms l Inr w by (cases y) (auto simp: UpdateDeviceAuthenticateStatus_def)
    with save_store [OF w] load show ?thesis by simp
  qed
qed

lemma update_status_edits:
  assumes "rs_dataStore S = D" "store_inv (rg_store s)" "update_status st S u rnd s = (r, s')"
  shows "edits u (devs (rg_store s)) (devs (rg_store s'))"
proof -
  from assms(3) obtain x where "UpdateDeviceAuthenticateStatus S u st rnd s = (x, s')"
    by (auto simp: update_status_def bindE_def returnE_def split: prod.splits sum.splits)
  from UpdateStatus_edits [OF assms(1,2) this] show ?thesis .
qed

lemma RefreshToken_edits:
  assumes "rs_dataStore S = D" "store_inv (rg_store s)" "RefreshToken S u rnd s = (r, s')"
  shows "edits u (devs (rg_store s)) (devs (rg_store s'))"
proof -
  obtain x s1 where l: "on_store (ds_LoadConfig D u) s = (x, s1)" by (cases "on_store (ds_LoadConfig D u) s")
  note load = load_store [OF l assms(2)]
  let ?s2 = "case x of Inr meta \<Rightarrow> drop_cached meta s1 | Inl _ \<Rightarrow> s1"
  have s2: "rg_store ?s2 = rg_store s1" by (simp split: sum.splits)
  obtain y s3 where w: "on_store (ds_UpdateToken D u (generateSecureToken S rnd)) ?s2 = (y, s3)"
    by (cases "on_store (ds_UpdateToken D u (generateSecureToken S rnd)) ?s2")
  have "s' = s3" using assms l w by (auto simp: RefreshToken_def Let_def split: sum.splits)
  with update_store [OF w] load s2 show ?thesis by simp
qed

lemma DeleteDevice_edits:
  assumes "rs_dataStore S = D" "store_inv (rg_store s)" "DeleteDevice S u s = (r, s')"
  shows "edits u (devs (rg_store s)) (devs (rg_store s'))"
proof -
  obtain x s1 where l: "on_store (ds_LoadConfig D u) s = (x, s1)" by (cases "on_store (ds_LoadConfig D u) s")
  note load = load_store [OF l assms(2)]
  let ?s2 = "case x of Inr meta \<Rightarrow> drop_cached meta s1 | Inl _ \<Rightarrow> s1"
  have s2: "rg_store ?s2 = rg_store s1" by (simp split: sum.splits)
  obtain y s3 where w: "on_store (ds_DestroyDevice D u) ?s2 = (y, s3)"
    by (cases "on_store (ds_DestroyDevice D u) ?s2")
  have "rg_store s' = rg_store s3"
    using assms l w by (cases y; cases "rs_OnDelete S") (auto simp: DeleteDevice_def Let_def)
  with destroy_store [OF w] load s2 show ?thesis by simp
qed

text \<open>What a status change that succeeds leaves behind, and a deletion.\<close>

lemma UpdateStatus_result:
  assumes "rs_dataStore S = D" "store_inv (rg_store s)"
    and "UpdateDeviceAuthenticateStatus S u st rnd s = (Inr tok, s')"
  shows "\<exists>t m. devs (rg_store s') u = Some (t, m) \<and> dm_AuthenticateStatus m = st"
proof -
  obtain x s1 where l: "on_store (ds_LoadConfig D u) s = (x, s1)" by (cases "on_store (ds_LoadConfig D u) s")
  note load = load_store [OF l assms(2)]
  from assms(1,3) l obtain meta where x: "x = Inr meta"
    by (cases x) (simp_all add: UpdateDeviceAuthenticateStatus_def)
  from l x obtain t where t: "devs (rg_store s) u = Some (t, meta)"
    by (auto simp: on_store_def split: prod.splits dest: load_ok [OF assms(2)])
  obtain y s2 where w: "on_store (ds_SaveMetadata D u (with_status S st rnd meta)) (drop_cached meta s1) = (y, s2)"
    by (cases "on_store (ds_SaveMetadata D u (with_status S st rnd meta)) (drop_cached meta s1)")
  from assms(1,3) l x w have y: "y = Inr ()" "s' = s2"
    by (cases y; simp add: UpdateDeviceAuthenticateStatus_def)+
  from w y(1) obtain d where "ds_SaveMetadata D u (with_status S st rnd meta) (rg_store s1) = (Inr (), d)"
    "rg_store s2 = d"
    by (auto simp: on_store_def split: prod.splits)
  with save_ok [of "rg_store s1" u "with_status S st rnd meta" "()" d] load t y(2) show ?thesis
    by (auto simp: stored_metadata_def with_status_def Let_def split: auth_status.splits)
qed

lemma DeleteDevice_result:
  assumes "rs_dataStore S = D" "store_inv (rg_store s)" "DeleteDevice S u s = (Inr x, s')"
  shows "devs (rg_store s') u = None"
proof -
  obtain x s1 where l: "on_store (ds_LoadConfig D u) s = (x, s1)" by (cases "on_store (ds_LoadConfig D u) s")
  note load = load_store [OF l assms(2)]
  let ?s2 = "case x of Inr meta \<Rightarrow> drop_cached meta s1 | Inl _ \<Rightarrow> s1"
  have s2: "rg_store ?s2 = rg_store s1" by (simp split: sum.splits)
  obtain y s3 where w: "on_store (ds_DestroyDevice D u) ?s2 = (y, s3)"
    by (cases "on_store (ds_DestroyDevice D u) ?s2")
  have y: "y = Inr () \<and> rg_store s' = rg_store s3"
    using assms(1,3) l w by (cases y; cases "rs_OnDelete S") (auto simp: DeleteDevice_def Let_def)
  with w s2 obtain d where "ds_DestroyDevice D u (rg_store s1) = (Inr (), d)" "rg_store s3 = d"
    by (auto simp: on_store_def split: prod.splits)
  with destroy_ok [of "rg_store s1" u "()" d] load y show ?thesis by simp
qed

text \<open>A provisioned device is new, and belongs to the tenant of the request.\<close>

lemma ProvisionDevice_adds:
  assumes "rs_dataStore S = D" "store_inv (rg_store s)" "ProvisionDevice S sc meta rnd now s = (r, s')"
  shows "devs (rg_store s') = devs (rg_store s) \<or>
    (\<exists>u m. devs (rg_store s) u = None \<and>
       devs (rg_store s') = (devs (rg_store s))(u \<mapsto> (NormalizeTenantID (sc_TenantID sc), m)))"
proof -
  let ?u = "GenerateUUID S meta"
  obtain x s1 where l: "on_store (ds_LoadConfig D ?u) s = (x, s1)" by (cases "on_store (ds_LoadConfig D ?u) s")
  note load = load_store [OF l assms(2)]
  show ?thesis
  proof (cases "x = Inl ErrDeviceNotFound")
    case False
    with assms l load show ?thesis by (auto simp: ProvisionDevice_def Let_def split: sum.splits if_splits)
  next
    case True
    define tn where "tn = (if TrimSpace (sc_TenantID sc) = [] then DefaultTenantID else TrimSpace (sc_TenantID sc))"
    define m where "m = meta\<lparr>dm_AuthenticateStatus := Authenticated, dm_Token := generateSecureToken S rnd\<rparr>"
    obtain y s2 where w: "on_store (ds_InitDeviceInTenant D tn ?u m now) s1 = (y, s2)"
      by (cases "on_store (ds_InitDeviceInTenant D tn ?u m now) s1")
    have s': "s' = s2"
      using assms l True w by (cases y) (auto simp: ProvisionDevice_def Let_def tn_def m_def)
    have tn: "NormalizeTenantID tn = NormalizeTenantID (sc_TenantID sc)"
      by (simp add: tn_def NormalizeTenantID_def Let_def)
    from w obtain d where f: "ds_InitDeviceInTenant D tn ?u m now (rg_store s1) = (y, d)" "rg_store s2 = d"
      by (auto simp: on_store_def split: prod.splits)
    show ?thesis
    proof (cases y)
      case (Inl e)
      with init_fail [of "rg_store s1" tn ?u m now e d] f load s' show ?thesis by simp
    next
      case (Inr z)
      with init_ok [of "rg_store s1" tn ?u m now z d] f load s' tn show ?thesis by auto
    qed
  qed
qed

end

section \<open>The device handlers\<close>

abbreviation web_devs :: "web_state \<Rightarrow> string \<Rightarrow> (string \<times> device_metadata) option" where
  "web_devs s \<equiv> db_devs (co_db (ws_core s))"

abbreviation web_devices_ok :: "web_state \<Rightarrow> bool" where
  "web_devices_ok s \<equiv> db_devices_ok (co_db (ws_core s))"

text \<open>Only devices of tenant \<open>i\<close> differ, before as after.\<close>

definition writes_tenant ::
    "string \<Rightarrow> (string \<Rightarrow> (string \<times> 'm) option) \<Rightarrow> (string \<Rightarrow> (string \<times> 'm) option) \<Rightarrow> bool" where
  "writes_tenant i devs devs' \<longleftrightarrow>
     (\<forall>u. devs' u \<noteq> devs u \<longrightarrow>
       (\<forall>x. devs u = Some x \<or> devs' u = Some x \<longrightarrow> fst x = i))"

lemma edits_writes_tenant:
  assumes "edits u devs devs'" "devs u = Some (i, m)"
  shows "writes_tenant i devs devs'"
  unfolding writes_tenant_def
proof (intro allI impI)
  fix v x assume v: "devs' v \<noteq> devs v" and x: "devs v = Some x \<or> devs' v = Some x"
  from v assms(1) have "v = u" by (auto simp: edits_def)
  with x assms show "fst x = i" unfolding edits_def by (metis fst_conv option.inject)
qed

definition device_change :: "request \<Rightarrow> context_values \<Rightarrow> web_state \<Rightarrow> web_state \<Rightarrow> bool" where
  "device_change r cx s s' \<longleftrightarrow>
     web_devs s' = web_devs s \<or>
     rq_method r \<in> {POST, DELETE} \<and> permits (cx_Perm cx) PermissionReadWrite \<and>
     writes_tenant (NormalizeTenantID (tenantID r cx)) (web_devs s) (web_devs s')"

lemma web_devs_cong: "t_devices (wtabs s') = t_devices (wtabs s) \<Longrightarrow> web_devs s' = web_devs s"
  by (simp add: db_devs_def find_device_def fun_eq_iff)

lemma device_change_frame:
  "web_preserves t_devices act \<Longrightarrow> act s = (x, s') \<Longrightarrow> device_change r cx s s'"
  unfolding device_change_def by (intro disjI1 web_devs_cong) (rule preservesD)

lemma tenantID_not_blank: "TrimSpace (tenantID r cx) \<noteq> []"
  by (simp add: tenantID_def requestedTenantID_def)

lemma on_registry_store:
  assumes "on_registry f s = (x, s')"
  obtains g where "f (core_registry_state (ws_core s)) = (x, g)" "co_db (ws_core s') = rg_store g"
  using assms by (auto simp: on_registry_def on_core_def with_registry_def core_registry_state_def
      split: prod.splits)

lemma ensureDeviceInScope_pass:
  assumes "ensureDeviceInScope env r cx u code s = (None, s1)" "web_devices_ok s"
  obtains m where "web_devs s u = Some (NormalizeTenantID (tenantID r cx), m)" "wtabs s1 = wtabs s"
proof -
  from assms(1) obtain m where
    l: "on_registry (GetDeviceMetadataByScope (web_registry env) (scopeFromRequest r cx) u) s = (Inr m, s1)"
    by (auto simp: ensureDeviceInScope_def split: prod.splits sum.splits)
  then obtain g where "GetDeviceMetadataByScope (web_registry env) (scopeFromRequest r cx) u
      (core_registry_state (ws_core s)) = (Inr m, g)" "co_db (ws_core s1) = rg_store g"
    by (rule on_registry_store)
  then obtain d where "device_LoadConfigByTenant (tenantID r cx) u (co_db (ws_core s)) = (Inr m, d)"
    using tenantID_not_blank [of r cx]
    by (auto simp: GetDeviceMetadataByScope_def scopeFromRequest_def on_store_def web_registry_store
        device_repository_def core_registry_state_def split: prod.splits)
  then obtain row d1 where q: "run_query (\<lambda>t. find (\<lambda>r'. d_UUID r' = u \<and>
      d_TenantID r' = NormalizeTenantID (tenantID r cx)) (t_devices t)) (co_db (ws_core s)) = (Inr (Some row), d1)"
    unfolding device_LoadConfigByTenant_def
    by (rule bindE_Inr) (auto simp: failE_def split: option.splits)
  from run_query_Inr [OF this] have row: "row \<in> set (t_devices (wtabs s))" "d_UUID row = u"
    "d_TenantID row = NormalizeTenantID (tenantID r cx)"
    by (auto dest!: sym [of "Some row"] find_SomeD)
  have "find_device u (wtabs s) = Some row"
    using find_device_iff [OF devices_okD(1) [OF assms(2) [unfolded db_devices_ok_def]]] row by blast
  then have "web_devs s u = Some (NormalizeTenantID (tenantID r cx), ToMetadata row)"
    by (simp add: db_devs_def row)
  moreover have "wtabs s1 = wtabs s"
    using preservesD [OF preserves_scope_ops(1) [where v = "\<lambda>t. t"] l] by simp
  ultimately show ?thesis by (rule that)
qed

lemma guarded_device_change:
  assumes "guarded_device env r cx u code act s = (resp, s')" "web_devices_ok s"
    and "\<And>s1. wtabs s1 = wtabs s \<Longrightarrow> act s1 = (resp, s') \<Longrightarrow>
      edits u (web_devs s1) (web_devs s')" "rq_method r \<in> {POST, DELETE}"
  shows "device_change r cx s s'"
proof (cases "permits (cx_Perm cx) PermissionReadWrite")
  case False
  with assms(1) show ?thesis
    by (auto simp: guarded_device_def ensurePerm_def device_change_def)
next
  case True
  obtain g s1 where e: "ensureDeviceInScope env r cx u code s = (g, s1)"
    by (cases "ensureDeviceInScope env r cx u code s")
  show ?thesis
  proof (cases g)
    case (Some resp')
    with e assms(1) True have "s' = s1" by (auto simp: guarded_device_def ensurePerm_def)
    with e show ?thesis by (auto intro: device_change_frame frame_intros)
  next
    case None
    with e obtain m where m: "web_devs s u = Some (NormalizeTenantID (tenantID r cx), m)" and t: "wtabs s1 = wtabs s"
      by (metis ensureDeviceInScope_pass [OF _ assms(2)])
    from None e assms(1) True have "act s1 = (resp, s')" by (auto simp: guarded_device_def ensurePerm_def)
    from assms(3) [OF t this] have "edits u (web_devs s) (web_devs s')" using web_devs_cong [of s1 s] t by simp
    from edits_writes_tenant [OF this m] True assms(4) show ?thesis by (simp add: device_change_def)
  qed
qed

lemma action_result_state: "action_result a b f res = (resp, s') \<Longrightarrow> s' = snd res"
  by (auto simp: action_result_def split: prod.splits sum.splits)

lemma on_registry_edits:
  assumes "web_devices_ok s"
    and "\<And>g x g'. db_devices_ok (rg_store g) \<Longrightarrow> f g = (x, g') \<Longrightarrow>
      edits u (db_devs (rg_store g)) (db_devs (rg_store g'))"
  shows "edits u (web_devs s) (web_devs (snd (on_registry f s)))"
proof -
  obtain x s' where r: "on_registry f s = (x, s')" by (cases "on_registry f s")
  then obtain g where "f (core_registry_state (ws_core s)) = (x, g)" "co_db (ws_core s') = rg_store g"
    by (rule on_registry_store)
  with assms(1) assms(2) [of "core_registry_state (ws_core s)" x g] r show ?thesis
    by (simp add: core_registry_state_def)
qed

lemma RefreshToken_pair_edits:
  assumes "db_devices_ok (rg_store g)"
    and "(case RefreshToken (web_registry env) u rnd g of
        ((x, None), g') \<Rightarrow> (Inr x, g') | ((x, Some e), g') \<Rightarrow> (Inl e, g')) = (y, g')"
  shows "edits u (db_devs (rg_store g)) (db_devs (rg_store g'))"
proof -
  from assms(2) obtain z where "RefreshToken (web_registry env) u rnd g = (z, g')"
    by (auto split: prod.splits option.splits)
  from sql_devices.RefreshToken_edits [OF web_registry_store assms(1) this] show ?thesis .
qed

lemma registry_op_edits:
  assumes "web_devices_ok s"
  shows "edits u (web_devs s) (web_devs (snd (on_registry
      (UpdateDeviceAuthenticateStatus (web_registry env) u st rnd) s)))"
    and "edits u (web_devs s) (web_devs (snd (on_registry (update_status st (web_registry env) u rnd) s)))"
    and "edits u (web_devs s) (web_devs (snd (on_registry (DeleteDevice (web_registry env) u) s)))"
    and "edits u (web_devs s) (web_devs (snd (on_registry_pair (RefreshToken (web_registry env) u rnd) s)))"
  unfolding on_registry_pair_def
  by (rule on_registry_edits [OF assms]; erule (1) sql_devices.UpdateStatus_edits [OF web_registry_store]
      sql_devices.update_status_edits [OF web_registry_store]
      sql_devices.DeleteDevice_edits [OF web_registry_store] RefreshToken_pair_edits)+

lemma web_devices_ok_cong: "wtabs s1 = wtabs s \<Longrightarrow> web_devices_ok s1 = web_devices_ok s"
  by (simp add: db_devices_ok_def)

lemma deviceAction_change:
  assumes "deviceAction u act env mo r cx s = (resp, s')" "web_devices_ok s" "rq_method r \<in> {POST, DELETE}"
  shows "device_change r cx s s'"
  using assms(1) unfolding deviceAction_def
proof (rule guarded_device_change [OF _ assms(2) _ assms(3)])
  fix s1
  assume t: "wtabs s1 = wtabs s" and a: "(if act = ''approve'' then
         action_result 40423 50022 (action_answer act u)
           (on_registry (UpdateDeviceAuthenticateStatus (web_registry env) u Authenticated
              (random_source_of mo)) s1)
       else if act = ''revoke'' then
         action_result 40423 50022 (\<lambda>_. action_answer act u [])
           (on_registry (RejectDevice (web_registry env) u (random_source_of mo)) s1)
       else if act = ''unblock'' then
         action_result 40423 50022 (\<lambda>_. action_answer act u [])
           (on_registry (UnblockDevice (web_registry env) u (random_source_of mo)) s1)
       else if act = ''commands'' then enqueueDeviceCommand u env mo r cx s1
       else (error_response 404 40412 ''not_found'' ''action'', s1)) = (resp, s')"
  have ok: "web_devices_ok s1" using web_devices_ok_cong [OF t] assms(2) by simp
  have same: "edits u (web_devs s1) (web_devs s')" if "enqueueDeviceCommand u env mo r cx s1 = (resp, s')"
  proof -
    have "web_preserves t_devices (enqueueDeviceCommand u env mo r cx)" by (rule enqueue_handler_frame) simp_all
    from web_devs_cong [OF preservesD [OF this that]] show ?thesis by simp
  qed
  show "edits u (web_devs s1) (web_devs s')"
    using a ok same unfolding RejectDevice_def UnblockDevice_def
    by (auto split: if_splits dest!: action_result_state intro!: registry_op_edits)
qed

lemma deleteDevice_change:
  assumes "deleteDevice u env mo r cx s = (resp, s')" "web_devices_ok s" "rq_method r \<in> {POST, DELETE}"
  shows "device_change r cx s s'"
  using assms(1) unfolding deleteDevice_def
  by (rule guarded_device_change [OF _ assms(2) _ assms(3)])
    (auto simp: web_devices_ok_cong assms(2) dest!: action_result_state intro!: registry_op_edits)

lemma refreshDeviceToken_change:
  assumes "refreshDeviceToken u env mo r cx s = (resp, s')" "web_devices_ok s" "rq_method r \<in> {POST, DELETE}"
  shows "device_change r cx s s'"
  using assms(1) unfolding refreshDeviceToken_def
  by (rule guarded_device_change [OF _ assms(2) _ assms(3)])
    (auto simp: web_devices_ok_cong assms(2) dest!: action_result_state intro!: registry_op_edits)

lemma createDevice_change:
  assumes "createDevice env mo r cx s = (resp, s')" "web_devices_ok s" "rq_method r = POST"
  shows "device_change r cx s s'"
proof (cases "permits (cx_Perm cx) PermissionReadWrite")
  case False
  with assms(1) show ?thesis by (simp add: createDevice_def ensurePerm_def device_change_def)
next
  case True
  let ?P = "\<lambda>meta. ProvisionDevice (web_registry env) \<lparr>sc_TenantID = tenantID r cx, sc_GroupIDs = []\<rparr>
    meta (random_source_of mo) (mo_now mo)"
  from assms(1) have "s' = s \<or> (\<exists>meta x. on_registry (?P meta) s = (x, s'))"
    by (auto simp: createDevice_def Let_def split: option.splits if_splits prod.splits sum.splits)
  then show ?thesis
  proof
    assume "\<exists>meta x. on_registry (?P meta) s = (x, s')"
    then obtain meta x where "on_registry (?P meta) s = (x, s')" by blast
    then obtain g where g: "?P meta (core_registry_state (ws_core s)) = (x, g)" "co_db (ws_core s') = rg_store g"
      by (rule on_registry_store)
    have "writes_tenant (NormalizeTenantID (tenantID r cx)) (web_devs s) (web_devs s')"
      using sql_devices.ProvisionDevice_adds [OF web_registry_store _ g(1)] assms(2) g(2)
      by (auto simp: core_registry_state_def writes_tenant_def split: if_splits)
    with True assms(3) show ?thesis by (simp add: device_change_def)
  qed (simp add: device_change_def)
qed

lemma DevicesHandler_change:
  assumes "DevicesHandler env mo r cx s = (resp, s')" "web_devices_ok s"
  shows "device_change r cx s s'"
proof -
  have "web_preserves t_devices (listDevices env mo r cx)"
    unfolding listDevices_def [abs_def] Let_def by (intro frame_intros)
  then have list: "device_change r cx s s'" if "listDevices env mo r cx s = (resp, s')"
    using that by (rule device_change_frame)
  show ?thesis
  proof (cases "rq_method r")
    case GET
    with assms list show ?thesis by (simp add: DevicesHandler_def)
  next
    case POST
    with assms createDevice_change show ?thesis by (simp add: DevicesHandler_def)
  qed (use assms in \<open>simp_all add: DevicesHandler_def device_change_def\<close>)
qed

lemma DeviceByUUIDHandler_change:
  assumes "DeviceByUUIDHandler env mo r cx s = (resp, s')" "web_devices_ok s"
  shows "device_change r cx s s'"
proof -
  have "web_preserves t_devices (getDevice u env mo r cx)" for u
    unfolding getDevice_def [abs_def] Let_def by (intro frame_intros)
  then have get: "device_change r cx s s'" if "getDevice u env mo r cx s = (resp, s')" for u
    using that by (rule device_change_frame)
  have same: "device_change r cx s s" by (simp add: device_change_def)
  from assms(1) show ?thesis
    unfolding DeviceByUUIDHandler_def Let_def
    using deviceAction_change [OF _ assms(2)] deleteDevice_change [OF _ assms(2)]
      refreshDeviceToken_change [OF _ assms(2)] get same
    by (auto split: if_splits option.splits list.splits http_method.splits)
qed

end
