(* ===== verification/WebMembers.thy ===== *)
theory WebMembers
  imports WebEffects
begin

text \<open>
  Whose role a handler may change: the session owner's own, by founding a tenant or by accepting
  an invitation, or another member's, who is removed by an administrator of the tenant.
\<close>

definition member_change :: "moment \<Rightarrow> request \<Rightarrow> context_values \<Rightarrow> tables \<Rightarrow> tables \<Rightarrow> bool" where
  "member_change mo r cx t t' \<longleftrightarrow>
     (\<forall>i u. member_role t' i u \<noteq> member_role t i u \<longrightarrow>
        rq_method r \<notin> {GET, HEAD, OPTIONS} \<and>
        (u = TrimSpace (cx_Username cx) \<and>
           (find_tenant i t = None \<and> member_role t' i u = Some TenantRoleAdmin \<or>
            (\<exists>row \<in> set (t_invitations t). iv_Status row = ''pending'' \<and> mo_now mo < iv_ExpiresAt row \<and>
               TrimSpace (iv_TenantID row) = i \<and> TrimSpace (iv_Username row) = u \<and>
               member_role t' i u = Some (iv_Role row))) \<or>
         u \<noteq> TrimSpace (cx_Username cx) \<and> i = tenantID r cx \<and> permits (cx_Perm cx) PermissionAdmin \<and>
           member_role t' i u = None))"

lemma member_change_refl [simp]: "member_change mo r cx t t"
  by (simp add: member_change_def)

lemma member_role_view: "t_tenant_users t' = t_tenant_users t \<Longrightarrow> member_role t' = member_role t"
  by (simp add: member_role_def fun_eq_iff)

lemma member_change_frame:
  assumes "web_preserves t_tenant_users act" "act s = (x, s')"
  shows "member_change mo r cx (wtabs s) (wtabs s')"
proof -
  have "member_role (wtabs s') = member_role (wtabs s)"
    by (rule member_role_view) (rule preservesD [OF assms])
  then show ?thesis by (simp only: member_change_def simp_thms)
qed

lemma on_db_exec:
  assumes "on_db f s = (x, s')" "snd (f (co_db (ws_core s))) = exec_tenant_op al oper (co_db (ws_core s))"
  shows "wtabs s' = tabs (exec_tenant_op al oper (co_db (ws_core s)))"
  using assms by (auto simp: on_db_def on_core_def with_db_def split: prod.splits)

lemma createTenant_change:
  assumes "createTenant env mo r cx s = (resp, s')" "tenancy_ok (wtabs s)" "rq_method r = POST"
  shows "member_change mo r cx (wtabs s) (wtabs s')"
proof -
  let ?op = "\<lambda>tn. tenant_CreateTenantWithOwner (we_alnum env) tn (cx_Username cx) (mo_now mo)"
  from assms(1) have "s' = s \<or> (\<exists>tn x. on_db (?op tn) s = (x, s'))"
    by (auto simp: createTenant_def Let_def split: option.splits if_splits prod.splits sum.splits)
  then show ?thesis
  proof
    assume "\<exists>tn x. on_db (?op tn) s = (x, s')"
    then obtain tn x where "on_db (?op tn) s = (x, s')" by blast
    then have t: "wtabs s' = tabs (exec_tenant_op (we_alnum env)
        (OpCreateTenantWithOwner tn (cx_Username cx) (mo_now mo)) (co_db (ws_core s)))"
      by (rule on_db_exec) simp
    show ?thesis unfolding member_change_def t
      using role_changes [OF assms(2)] assms(3) by fastforce
  qed simp
qed

lemma TenantsHandler_change:
  assumes "TenantsHandler env mo r cx s = (resp, s')" "tenancy_ok (wtabs s)"
  shows "member_change mo r cx (wtabs s) (wtabs s')"
proof -
  have "web_preserves t_tenant_users (listTenants env mo r cx)"
    unfolding listTenants_def [abs_def] by (intro frame_intros)
  then have list: "member_change mo r cx (wtabs s) (wtabs s')" if "listTenants env mo r cx s = (resp, s')"
    using that by (rule member_change_frame)
  show ?thesis
    by (cases "rq_method r") (use assms list createTenant_change in \<open>auto simp: TenantsHandler_def\<close>)
qed

lemma invite_frame: "web_preserves t_tenant_users (invite_member codes answer tenant env mo r cx)"
  unfolding invite_member_def [abs_def] Let_def by (intro frame_intros)

lemma handleTenantUsers_change:
  assumes "handleTenantUsers tenant rest env mo r cx s = (resp, s')" "tenancy_ok (wtabs s)"
    and "NormalizeTenantID tenant = tenant"
  shows "member_change mo r cx (wtabs s) (wtabs s')"
proof (cases "ensureTenantAccess r cx tenant PermissionAdmin")
  case (Some resp')
  with assms(1) show ?thesis by (simp add: handleTenantUsers_def)
next
  case None
  then have access: "tenantID r cx = tenant" "permits (cx_Perm cx) PermissionAdmin"
    by (auto simp: ensureTenantAccess_def split: if_splits)
  have frame: "member_change mo r cx (wtabs s) (wtabs s')"
    if "on_db (tenant_ListTenantUsers tenant) s = (x, s') \<or>
        invite_member tenant_users_codes invite_answer tenant env mo r cx s = (resp, s')" for x
    using that by (auto intro: member_change_frame [OF invite_frame] member_change_frame [OF preserves_on_db]
        frame_intros)
  from assms(1) None consider "s' = s" | x where "on_db (tenant_ListTenantUsers tenant) s = (x, s') \<or>
        invite_member tenant_users_codes invite_answer tenant env mo r cx s = (resp, s')"
    | x u where "on_db (tenant_RemoveTenantUser tenant u) s = (x, s')"
        "TrimSpace (cx_Username cx) \<noteq> TrimSpace u" "rq_method r = DELETE"
    by (auto simp: handleTenantUsers_def Let_def
        split: list.splits http_method.splits if_splits option.splits prod.splits sum.splits)
  then show ?thesis
  proof cases
    case 2
    then show ?thesis by (rule frame)
  next
    case (3 x u)
    have t: "wtabs s' = tabs (exec_tenant_op al (OpRemoveTenantUser tenant u) (co_db (ws_core s)))" for al
      using 3(1) by (rule on_db_exec) simp
    show ?thesis unfolding member_change_def
      using role_changes [OF assms(2), of "\<lambda>_. True" "OpRemoveTenantUser tenant u"] 3(2,3) access assms(3)
      by (fold t) fastforce
  qed simp
qed

lemma TenantByIDHandler_change:
  assumes "TenantByIDHandler env mo r cx s = (resp, s')" "tenancy_ok (wtabs s)"
  shows "member_change mo r cx (wtabs s) (wtabs s')"
proof -
  have norm: "NormalizeTenantID (TrimSpace raw) = TrimSpace raw" if "TrimSpace raw \<noteq> []" for raw
    using that by (simp add: NormalizeTenantID_def)
  have "web_preserves t_tenant_users (handleTenantDetail i env mo r cx)" for i
    unfolding handleTenantDetail_def [abs_def] by (intro frame_intros)
  then have detail: "member_change mo r cx (wtabs s) (wtabs s')"
    if "handleTenantDetail i env mo r cx s = (resp, s')" for i
    using that by (rule member_change_frame)
  have "web_preserves t_tenant_users (CreateTenantInvitationHandler i env mo r cx)" for i
    unfolding CreateTenantInvitationHandler_def [abs_def] by (intro frame_intros invite_frame)
  then have invite: "member_change mo r cx (wtabs s) (wtabs s')"
    if "CreateTenantInvitationHandler i env mo r cx s = (resp, s')" for i
    using that by (rule member_change_frame)
  show ?thesis
    using assms(1) detail invite handleTenantUsers_change [OF _ assms(2) norm]
    by (auto simp: TenantByIDHandler_def Let_def split: if_splits option.splits list.splits)
qed

lemma AcceptInvitation_change:
  assumes "on_db (tenant_AcceptInvitation (TrimSpace k) (mo_now mo)) s = (x, s')" "tenancy_ok (wtabs s)"
    and "find_invitation (TrimSpace k) (wtabs s) = Some row"
    and "TrimSpace (iv_Username row) = TrimSpace (cx_Username cx)" "rq_method r = POST"
  shows "member_change mo r cx (wtabs s) (wtabs s')"
proof -
  have t: "wtabs s' = tabs (exec_tenant_op al (OpAcceptInvitation (TrimSpace k) (mo_now mo)) (co_db (ws_core s)))" for al
    using assms(1) by (rule on_db_exec) simp
  have row: "row \<in> set (t_invitations (wtabs s))"
    using assms(2,3) by (auto simp: tenancy_ok_def dest: invitation_found(1))
  show ?thesis unfolding member_change_def
  proof (intro allI impI)
    fix i u
    assume "member_role (wtabs s') i u \<noteq> member_role (wtabs s) i u"
    from role_changes [OF assms(2), of "\<lambda>_. True" "OpAcceptInvitation (TrimSpace k) (mo_now mo)", folded t, OF this]
    have "iv_Status row = ''pending'' \<and> mo_now mo < iv_ExpiresAt row \<and> i = TrimSpace (iv_TenantID row) \<and>
       u = TrimSpace (iv_Username row) \<and> member_role (wtabs s') i u = Some (iv_Role row)"
      using assms(3) by auto
    with row assms(4,5) show "rq_method r \<notin> {GET, HEAD, OPTIONS} \<and>
        (u = TrimSpace (cx_Username cx) \<and>
           (find_tenant i (wtabs s) = None \<and> member_role (wtabs s') i u = Some TenantRoleAdmin \<or>
            (\<exists>row \<in> set (t_invitations (wtabs s)). iv_Status row = ''pending'' \<and> mo_now mo < iv_ExpiresAt row \<and>
               TrimSpace (iv_TenantID row) = i \<and> TrimSpace (iv_Username row) = u \<and>
               member_role (wtabs s') i u = Some (iv_Role row))) \<or>
         u \<noteq> TrimSpace (cx_Username cx) \<and> i = tenantID r cx \<and> permits (cx_Perm cx) PermissionAdmin \<and>
           member_role (wtabs s') i u = None)" by auto
  qed
qed

lemma InvitationByIDHandler_change:
  assumes "InvitationByIDHandler env mo r cx s = (resp, s')" "tenancy_ok (wtabs s)"
  shows "member_change mo r cx (wtabs s) (wtabs s')"
proof -
  have get: "member_change mo r cx (wtabs s) (wtabs s')"
    if g: "on_db (getInvitation (TrimSpace k)) s = (Inr v, s1)" "rq_method r = POST"
      "TrimSpace (iv_Username v) = TrimSpace (cx_Username cx)"
      and a: "answer_invitation (TrimSpace k) act mo s1 = (resp, s')" for k v s1 act
  proof -
    from g(1) obtain d where "getInvitation (TrimSpace k) (co_db (ws_core s)) = (Inr v, d)"
      by (auto simp: on_db_def on_core_def with_db_def split: prod.splits)
    then obtain row where row: "find_invitation (TrimSpace k) (wtabs s) = Some row" "v = invitationFromRow row"
      by (auto elim: getInvitation_Inr)
    have "preserves tabs (\<lambda>t. t) (getInvitation (TrimSpace k))" by (rule reading_ops)
    from preservesD [OF preserves_on_db [OF this] g(1)] have t: "wtabs s1 = wtabs s" .
    have "web_preserves t_tenant_users (on_db (tenant_RejectInvitation (TrimSpace k) (mo_now mo)))"
      by (intro frame_intros)
    note reject = member_change_frame [OF this, of s1 _ s' mo r cx, unfolded t]
    have "TrimSpace (iv_Username row) = TrimSpace (cx_Username cx)"
      using g(3) row(2) by (simp add: invitationFromRow_def)
    note accept = AcceptInvitation_change [of k mo s1, unfolded t, OF _ assms(2) row(1) this g(2)]
    from a accept reject t show ?thesis
      by (auto simp: answer_invitation_def Let_def split: if_splits prod.splits sum.splits)
  qed
  have same: "member_change mo r cx (wtabs s) (wtabs s')"
    if "on_db (getInvitation k) s = (x, s')" for k x
    using that by (intro member_change_frame [OF preserves_on_db [OF reading_ops(6)]])
  show ?thesis
    using assms(1) get same
    by (auto simp: InvitationByIDHandler_def Let_def split: if_splits option.splits prod.splits sum.splits)
qed

text \<open>A registration gives a role to the first account only.\<close>

lemma RegisterHandler_change:
  assumes "RegisterHandler L env mo r cx s = (resp, s')"
    and "member_role (wtabs s') i u \<noteq> member_role (wtabs s) i u"
  shows "rq_method r = POST \<and> t_users (wtabs s) = [] \<and> i = DefaultTenantID \<and>
    member_role (wtabs s') i u = Some TenantRoleAdmin"
proof -
  let ?C = "\<lambda>a. ident_Create a (al_stamp L mo) (mo_now mo)"
  have pay: "member_role (wtabs s2) = member_role (wtabs s1)"
    if "sessionPayload r n e s1 = (x, s2)" for s1 s2 n e x
    using preservesD [OF preserves_sessionPayload that, of t_tenant_users] by (intro member_role_view)
  have "member_role (wtabs s') = member_role (wtabs s) \<or> rq_method r = POST \<and>
    (\<exists>a x s1. on_db (?C a) s = (x, s1) \<and> member_role (wtabs s') = member_role (wtabs s1))"
    using assms(1) pay
    by (fastforce simp: RegisterHandler_def Let_def split: if_splits option.splits prod.splits sum.splits)
  with assms(2) obtain a x s1 where p: "rq_method r = POST" and c: "on_db (?C a) s = (x, s1)"
    and m: "member_role (wtabs s') = member_role (wtabs s1)" by auto
  from c obtain d where "?C a (co_db (ws_core s)) = (x, d)" "co_db (ws_core s1) = d"
    by (auto simp: on_db_def on_core_def with_db_def split: prod.splits)
  then show ?thesis using assms(2) p m
    by (cases rule: Create_cases) (auto split: if_splits)
qed

end
