(* ===== verification/WebApi.thy ===== *)
theory WebApi
  imports WebMembers
begin

text \<open>
  The routes of the web server: \<^verbatim>\<open>web/v1/api.go\<close> over the handlers of the components before,
  the health checks (\<^verbatim>\<open>web/health.go\<close>) and the bearer token of the ingress endpoint
  (\<^verbatim>\<open>web/ingress_auth.go\<close>). A request is served by the longest pattern that matches its path,
  the rule of the standard library's multiplexer; its path is clean, any other is redirected.
\<close>

section \<open>Routes\<close>

definition routes :: "auth_lib \<Rightarrow> (string \<times> handler) list" where
  "routes L =
     [(''/api/v1/auth/captcha/config'', public (CaptchaConfigHandler L)),
      (''/api/v1/auth/register'', public (RegisterHandler L)),
      (''/api/v1/auth/login'', public (LoginHandler L)),
      (''/api/v1/auth/logout'', protectedWithCSRF LogoutHandler PermissionNone),
      (''/api/v1/auth/me'', protected MeHandler PermissionNone),
      (''/api/v1/devices'', protectedWithCSRF DevicesHandler PermissionReadOnly),
      (''/api/v1/devices/'', protectedWithCSRF DeviceByUUIDHandler PermissionReadOnly),
      (''/api/v1/metrics/'', protected MetricsHandler PermissionReadOnly),
      (''/api/v1/access-control/'', protected AccessControlHandler PermissionReadOnly),
      (''/api/v1/users'', protected UsersHandler PermissionAdmin),
      (''/api/v1/users/'', protectedWithCSRF UserPermissionHandler PermissionAdmin),
      (''/api/v1/tenants'', protectedWithCSRF TenantsHandler PermissionNone),
      (''/api/v1/tenants/'', protectedWithCSRF TenantByIDHandler PermissionReadOnly),
      (''/api/v1/invitations'', protected InvitationsHandler PermissionNone),
      (''/api/v1/invitations/'', protectedWithCSRF InvitationByIDHandler PermissionNone)]"

definition pattern_matches :: "string \<Rightarrow> string \<Rightarrow> bool" where
  "pattern_matches pat path \<longleftrightarrow>
     (if pat \<noteq> [] \<and> last pat = CHR ''/'' then HasPrefix path pat else path = pat)"

fun longest_match :: "string \<Rightarrow> (string \<times> 'h) list \<Rightarrow> (string \<times> 'h) option" where
  "longest_match path [] = None"
| "longest_match path ((pat, h) # rs) =
     (case longest_match path rs of
        None \<Rightarrow> if pattern_matches pat path then Some (pat, h) else None
      | Some (q, k) \<Rightarrow>
          if pattern_matches pat path \<and> length q < length pat then Some (pat, h) else Some (q, k))"

definition serve_api :: "auth_lib \<Rightarrow> web_env \<Rightarrow> moment \<Rightarrow> request \<Rightarrow> web_state \<Rightarrow> response \<times> web_state" where
  "serve_api L env mo r s =
     (case longest_match (rq_path r) (routes L) of
        Some (_, h) \<Rightarrow> h env mo r no_context s
      | None \<Rightarrow>
          (if rq_path r @ ''/'' \<in> fst ` set (routes L) then (respond 301 PNull, s)
           else (respond 404 PNull, s)))"

section \<open>Health checks\<close>

definition healthCheckHandler :: "request \<Rightarrow> response" where
  "healthCheckHandler r =
     (if rq_method r \<noteq> GET then respond 405 PNull
      else respond 200 (PMap [(''status'', PText ''ok'')]))"

definition checkDatabaseConnection :: "(unit, web_state) action" where
  "checkDatabaseConnection = bindE (on_db user_GetUserCount) (\<lambda>_. returnE ())"

definition readinessCheckHandler :: "request \<Rightarrow> web_state \<Rightarrow> response \<times> web_state" where
  "readinessCheckHandler r s =
     (if rq_method r \<noteq> GET then (respond 405 PNull, s)
      else case checkDatabaseConnection s of
          (Inl _, s1) \<Rightarrow>
            (respond 503 (PMap [(''status'', PText ''unavailable''), (''reason'', PText ''database unreachable'')]), s1)
        | (Inr _, s1) \<Rightarrow> (respond 200 (PMap [(''status'', PText ''ready'')]), s1))"

section \<open>The bearer token of the ingress endpoint\<close>

text \<open>\<open>strings.Fields\<close>: the maximal runs without white space. The spaces are the runes \<open>TrimSpace\<close> strips.\<close>

function take_word :: "string \<Rightarrow> string \<times> string" where
  "take_word [] = ([], [])"
| "take_word (c # s) =
     (if \<exists>w \<in> set space_runes. w \<noteq> [] \<and> is_prefix w (c # s) then ([], c # s)
      else (case take_word s of (a, b) \<Rightarrow> (c # a, b)))"
  by pat_completeness auto
termination by (relation "measure length") auto

lemma take_word_append: "take_word s = (a, b) \<Longrightarrow> s = a @ b"
  by (induction s arbitrary: a b rule: take_word.induct) (auto split: if_splits prod.splits)

function Fields :: "string \<Rightarrow> string list" where
  "Fields s =
     (let t = trim_left s
      in if t = [] then []
         else (case take_word t of (a, b) \<Rightarrow> if a = [] then [] else a # Fields b))"
  by pat_completeness auto
termination
proof (relation "measure length")
  fix s t a b x
  assume "t = trim_left s" "(a, b) = take_word t" "a \<noteq> []"
  then have "length b < length t" "length t \<le> length s"
    using take_word_append [of t a b] length_strip [of space_runes s] by (auto simp: trim_left_def)
  then show "(b, s) \<in> measure length" by simp
qed auto

definition validBearerToken :: "string \<Rightarrow> string \<Rightarrow> bool" where
  "validBearerToken headerValue expectedToken =
     (let expectedToken = TrimSpace expectedToken
      in if expectedToken = [] then True
         else (case Fields (TrimSpace headerValue) of
             [scheme, got] \<Rightarrow> EqualFold scheme ''Bearer'' \<and> got = expectedToken
           | _ \<Rightarrow> False))"

definition withIngressBearerAuth ::
    "(request \<Rightarrow> 's \<Rightarrow> response \<times> 's) \<Rightarrow> string \<Rightarrow> request \<Rightarrow> 's \<Rightarrow> response \<times> 's" where
  "withIngressBearerAuth next token r s =
     (let token = TrimSpace token
      in if token = [] then next r s
         else if \<not> validBearerToken (rq_header r ''Authorization'') token
         then ((respond 401 PNull)
                 \<lparr>rs_headers := [(''WWW-Authenticate'', ''Bearer realm=\"protocol-ingress\"'')]\<rparr>, s)
         else next r s)"

section \<open>What a served request may change\<close>

lemma longest_match_Some:
  "longest_match path rs = Some (p, h) \<Longrightarrow> (p, h) \<in> set rs \<and> pattern_matches p path"
  by (induction rs arbitrary: p h) (auto split: option.splits if_splits prod.splits)

lemma context_ok_cong:
  assumes "wtabs s1 = wtabs s"
  shows "context_ok env r s1 cx = context_ok env r s cx"
  by (simp only: context_ok_def assms)

lemma protected_csrf_cases:
  assumes "protectedWithCSRF h minPerm env mo r cx0 s = (resp, s')"
  obtains (refused) "only_read s s'"
  | (safe) cx s1 resp1 where "only_read s s1" "rq_method r \<in> {GET, HEAD}" "h env mo r cx s1 = (resp1, s')"
  | (token) cx s1 resp1 where "only_read s s1" "context_ok env r s cx" "permits (cx_Perm cx) minPerm"
      "ValidateCSRF r (cx_Username cx) (mo_now mo) (ws_csrf s)" "h env mo r cx s1 = (resp1, s')"
  using assms unfolding protectedWithCSRF_def
proof (cases rule: Middleware_cases)
  case stopped
  then show ?thesis by (intro refused) (simp add: only_read_refl)
next
  case (passed resp1)
  from passed(2) show ?thesis
  proof (cases rule: CSRF_cases)
    case refused
    then show ?thesis by (intro that(1))
  next
    case safe
    from safe(2) show ?thesis
      by (cases rule: AuthMiddleware_cases) (use safe(1) passed(1) that(1,2) in auto)
  next
    case (token s1 name)
    from token(4) show ?thesis
    proof (cases rule: AuthMiddleware_cases)
      case refused
      with token(1) show ?thesis by (intro that(1)) (rule only_read_trans)
    next
      case (passed cx s2)
      have ok: "context_ok env r s cx"
        using passed(2) context_ok_cong [OF only_read_simps(1) [OF token(1)]] by simp
      with token(2) have "name = cx_Username cx" by (simp add: context_ok_def)
      with ok token passed only_read_trans show ?thesis by (intro that(3)) auto
    qed
  qed
qed

text \<open>A view that a handler preserves in every context survives its middlewares.\<close>

lemma wrapped_frame:
  assumes "\<And>cx. web_preserves v (h env mo r cx)"
  shows "web_preserves v (public h env mo r cx)" "web_preserves v (protected h p env mo r cx)"
    "web_preserves v (protectedWithCSRF h p env mo r cx)"
proof -
  have M: "web_preserves v (Middleware k env mo r cx)" if "\<And>cx. web_preserves v (k env mo r cx)" for k cx
    unfolding Middleware_def [abs_def] Let_def by (intro frame_intros that)
  have "preserves tabs v (Resolve u t)" for u t
    unfolding Resolve_def loadTenantRoles_def Let_def by (intro frame_intros)
  then have A: "web_preserves v (AuthMiddleware h p env mo r cx)" for cx
    unfolding AuthMiddleware_def [abs_def] by (intro frame_intros assms)
  then have C: "web_preserves v (CSRFProtectionMiddleware (AuthMiddleware h p) env mo r cx)" for cx
    unfolding CSRFProtectionMiddleware_def [abs_def] by (intro frame_intros)
  show "web_preserves v (public h env mo r cx)" "web_preserves v (protected h p env mo r cx)"
    "web_preserves v (protectedWithCSRF h p env mo r cx)"
    unfolding public_def protected_def protectedWithCSRF_def by (intro M assms A C)+
qed

lemma serve_api_cases:
  assumes "serve_api L env mo r s = (resp, s')"
  obtains (unmatched) "s' = s"
  | (matched) p h where "(p, h) \<in> set (routes L)" "pattern_matches p (rq_path r)"
      "h env mo r no_context s = (resp, s')"
proof (cases "longest_match (rq_path r) (routes L)")
  case None
  with assms show ?thesis by (intro unmatched) (auto simp: serve_api_def split: if_splits)
next
  case (Some ph)
  with assms longest_match_Some [of "rq_path r" "routes L" "fst ph" "snd ph"] show ?thesis
    by (intro matched [of "fst ph" "snd ph"]) (auto simp: serve_api_def split: prod.splits)
qed

text \<open>The name, the tenant and the role that let a request write.\<close>

definition admitted :: "web_env \<Rightarrow> moment \<Rightarrow> request \<Rightarrow> web_state \<Rightarrow> string \<Rightarrow> bool" where
  "admitted env mo r s name \<longleftrightarrow>
     session_owner env r (wtabs s) = Some name \<and> ValidateCSRF r name (mo_now mo) (ws_csrf s)"

lemma holds_role_trimmed: "holds_role t u i role \<Longrightarrow> TrimSpace i = i"
  by (auto simp: holds_role_def)

lemma device_handler_writes:
  assumes "protectedWithCSRF h PermissionReadOnly env mo r cx0 s = (resp, s')" "web_devices_ok s"
    and "\<And>cx s1 resp1. web_devices_ok s1 \<Longrightarrow> h env mo r cx s1 = (resp1, s') \<Longrightarrow> device_change r cx s1 s'"
  shows "web_devs s' = web_devs s \<or>
    (\<exists>name i role. admitted env mo r s name \<and> holds_role (wtabs s) (TrimSpace name) i role \<and>
       permits (PermissionFromTenantRole role) PermissionReadWrite \<and>
       (requestedTenantID r \<noteq> [] \<longrightarrow> i = requestedTenantID r) \<and>
       writes_tenant i (web_devs s) (web_devs s'))"
proof -
  have cong: "web_devs s1 = web_devs s \<and> web_devices_ok s1" if "only_read s s1" for s1
    using assms(2) only_read_simps(1) [OF that] web_devs_cong [of s1 s] web_devices_ok_cong [of s1 s] by simp
  from assms(1) show ?thesis
  proof (cases rule: protected_csrf_cases)
    case refused
    with cong show ?thesis by simp
  next
    case (safe cx s1 resp1)
    with assms(3) [of s1 cx resp1] cong [of s1] show ?thesis by (auto simp: device_change_def)
  next
    case (token cx s1 resp1)
    note c = cong [OF token(1)]
    have ch: "device_change r cx s1 s'" using assms(3) token(5) c by simp
    show ?thesis
    proof (cases "web_devs s' = web_devs s")
      case False
      with ch c have rw: "permits (cx_Perm cx) PermissionReadWrite"
        and w: "writes_tenant (NormalizeTenantID (tenantID r cx)) (web_devs s) (web_devs s')"
        by (auto simp: device_change_def)
      have "permits (cx_Perm cx) PermissionReadOnly"
        using rw by (rule permits_mono) (simp add: permits_def)
      note role = context_ok_role [OF token(2) this]
      have i: "NormalizeTenantID (tenantID r cx) = cx_TenantID cx"
        using role(2) holds_role_trimmed [OF role(1)] by (simp add: tenantID_def NormalizeTenantID_def Let_def)
      have "cx_Role cx \<noteq> []" using role(3) rw by (auto simp: permits_def)
      with token(2) have "requestedTenantID r \<noteq> [] \<longrightarrow> cx_TenantID cx = requestedTenantID r"
        and "session_owner env r (wtabs s) = Some (cx_Username cx)"
        by (auto simp: context_ok_def)
      with token(4) role rw w i show ?thesis by (auto simp: admitted_def)
    qed simp
  qed
qed


text \<open>Why the role of \<open>u\<close> in tenant \<open>i\<close> may change at the request of the account \<open>name\<close>.\<close>

definition justified_change :: "moment \<Rightarrow> tables \<Rightarrow> tables \<Rightarrow> string \<Rightarrow> string \<Rightarrow> string \<Rightarrow> bool" where
  "justified_change mo t t' i u name \<longleftrightarrow>
     u = TrimSpace name \<and>
       (find_tenant i t = None \<and> member_role t' i u = Some TenantRoleAdmin \<or>
        (\<exists>row \<in> set (t_invitations t). iv_Status row = ''pending'' \<and> mo_now mo < iv_ExpiresAt row \<and>
           TrimSpace (iv_TenantID row) = i \<and> TrimSpace (iv_Username row) = u \<and>
           member_role t' i u = Some (iv_Role row))) \<or>
     u \<noteq> TrimSpace name \<and> holds_role t (TrimSpace name) i TenantRoleAdmin \<and> member_role t' i u = None"

lemma context_admin:
  assumes "context_ok env r s cx" "permits (cx_Perm cx) PermissionAdmin"
  shows "holds_role (wtabs s) (TrimSpace (cx_Username cx)) (tenantID r cx) TenantRoleAdmin"
proof -
  have "permits (cx_Perm cx) PermissionReadOnly"
    using assms(2) by (rule permits_mono) (simp add: permits_def)
  note role = context_ok_role [OF assms(1) this]
  have "tenantID r cx = cx_TenantID cx"
    using role(2) holds_role_trimmed [OF role(1)] by (simp add: tenantID_def)
  moreover have "cx_Role cx = TenantRoleAdmin"
    using role(3) assms(2) by (simp add: permits_def PermissionFromTenantRole_def split: if_splits)
  ultimately show ?thesis using role(1) by simp
qed

lemma member_change_justified:
  assumes "member_change mo r cx t t'" "member_role t' i u \<noteq> member_role t i u"
    and "permits (cx_Perm cx) PermissionAdmin \<Longrightarrow>
      holds_role t (TrimSpace (cx_Username cx)) (tenantID r cx) TenantRoleAdmin"
  shows "justified_change mo t t' i u (cx_Username cx)" "rq_method r \<notin> {GET, HEAD, OPTIONS}"
proof -
  from assms(1,2) have c: "rq_method r \<notin> {GET, HEAD, OPTIONS}"
    "u = TrimSpace (cx_Username cx) \<and>
       (find_tenant i t = None \<and> member_role t' i u = Some TenantRoleAdmin \<or>
        (\<exists>row \<in> set (t_invitations t). iv_Status row = ''pending'' \<and> mo_now mo < iv_ExpiresAt row \<and>
           TrimSpace (iv_TenantID row) = i \<and> TrimSpace (iv_Username row) = u \<and>
           member_role t' i u = Some (iv_Role row))) \<or>
     u \<noteq> TrimSpace (cx_Username cx) \<and> i = tenantID r cx \<and> permits (cx_Perm cx) PermissionAdmin \<and>
       member_role t' i u = None"
    unfolding member_change_def by blast+
  show "rq_method r \<notin> {GET, HEAD, OPTIONS}" by (rule c(1))
  from c(2) show "justified_change mo t t' i u (cx_Username cx)"
    unfolding justified_change_def
  proof (elim disjE conjE)
    assume "u \<noteq> TrimSpace (cx_Username cx)" "i = tenantID r cx" "permits (cx_Perm cx) PermissionAdmin"
      "member_role t' i u = None"
    with assms(3) show "u = TrimSpace (cx_Username cx) \<and>
       (find_tenant i t = None \<and> member_role t' i u = Some TenantRoleAdmin \<or>
        (\<exists>row \<in> set (t_invitations t). iv_Status row = ''pending'' \<and> mo_now mo < iv_ExpiresAt row \<and>
           TrimSpace (iv_TenantID row) = i \<and> TrimSpace (iv_Username row) = u \<and>
           member_role t' i u = Some (iv_Role row))) \<or>
     u \<noteq> TrimSpace (cx_Username cx) \<and> holds_role t (TrimSpace (cx_Username cx)) i TenantRoleAdmin \<and>
       member_role t' i u = None" by blast
  qed (rule disjI1, blast)+
qed

lemma member_handler_writes:
  assumes "protectedWithCSRF h minPerm env mo r cx0 s = (resp, s')" "tenancy_ok (wtabs s)"
    and "\<And>cx s1 resp1. h env mo r cx s1 = (resp1, s') \<Longrightarrow> tenancy_ok (wtabs s1) \<Longrightarrow>
      member_change mo r cx (wtabs s1) (wtabs s')"
    and "member_role (wtabs s') i u \<noteq> member_role (wtabs s) i u"
  shows "\<exists>name. admitted env mo r s name \<and> justified_change mo (wtabs s) (wtabs s') i u name"
  using assms(1)
proof (cases rule: protected_csrf_cases)
  case refused
  with assms(4) only_read_simps(1) [OF refused] show ?thesis by simp
next
  case (safe cx s1 resp1)
  note t = only_read_simps(1) [OF safe(1)]
  from assms(3) [OF safe(3), unfolded t, OF assms(2)] safe(2) assms(4) show ?thesis
    unfolding member_change_def by blast
next
  case (token cx s1 resp1)
  note t = only_read_simps(1) [OF token(1)]
  from token(2,4) have "admitted env mo r s (cx_Username cx)" by (simp add: admitted_def context_ok_def)
  with member_change_justified(1) [OF assms(3) [OF token(5), unfolded t, OF assms(2)] assms(4)
      context_admin [OF token(2)]] show ?thesis by blast
qed

text \<open>C2: how a request changes who may do what. Whatever is sent to whatever route, if the role of
  user u in tenant i is different afterwards, then either this was the registration of the very
  first account, which becomes the administrator of the legacy tenant; or the request carried a session
  and a valid CSRF token of an account, and that account is u itself, which founded the tenant or
  accepted a pending, unexpired invitation to it for exactly the new role, or it is another account
  that is an administrator of the tenant and removed u from it.\<close>

theorem membership_writes_authorized:
  assumes "serve_api L env mo r s = (resp, s')" "tenancy_ok (tabs (co_db (ws_core s)))"
    and "member_role (tabs (co_db (ws_core s'))) i u \<noteq> member_role (tabs (co_db (ws_core s))) i u"
  shows "rq_path r = ''/api/v1/auth/register'' \<and> rq_method r = POST \<and>
       t_users (tabs (co_db (ws_core s))) = [] \<and> i = DefaultTenantID \<and>
       member_role (tabs (co_db (ws_core s'))) i u = Some TenantRoleAdmin \<or>
    (\<exists>name. session_owner env r (tabs (co_db (ws_core s))) = Some name \<and>
       ValidateCSRF r name (mo_now mo) (ws_csrf s) \<and>
       (u = TrimSpace name \<and>
          (find_tenant i (tabs (co_db (ws_core s))) = None \<and>
             member_role (tabs (co_db (ws_core s'))) i u = Some TenantRoleAdmin \<or>
           (\<exists>row \<in> set (t_invitations (tabs (co_db (ws_core s)))).
              iv_Status row = ''pending'' \<and> mo_now mo < iv_ExpiresAt row \<and>
              TrimSpace (iv_TenantID row) = i \<and> TrimSpace (iv_Username row) = u \<and>
              member_role (tabs (co_db (ws_core s'))) i u = Some (iv_Role row))) \<or>
        u \<noteq> TrimSpace name \<and> holds_role (tabs (co_db (ws_core s))) (TrimSpace name) i TenantRoleAdmin \<and>
          member_role (tabs (co_db (ws_core s'))) i u = None))"
    (is "?first \<or> ?later")
  using assms(1)
proof (cases rule: serve_api_cases)
  case unmatched
  with assms(3) show ?thesis by simp
next
  case (matched p h)
  have same: False if "web_preserves t_tenant_users (h env mo r no_context)"
    using member_role_view [OF preservesD [OF that matched(3)]] assms(3) by simp
  have later: ?later if "h = protectedWithCSRF k minPerm"
    "\<And>cx s1 resp1. k env mo r cx s1 = (resp1, s') \<Longrightarrow> tenancy_ok (wtabs s1) \<Longrightarrow>
      member_change mo r cx (wtabs s1) (wtabs s')" for k minPerm
  proof -
    from member_handler_writes [OF matched(3) [unfolded that(1)] assms(2) _ assms(3)] that(2)
    obtain name where "admitted env mo r s name" "justified_change mo (wtabs s) (wtabs s') i u name"
      by blast
    then show ?later unfolding admitted_def justified_change_def by blast
  qed
  have first: ?first if "p = ''/api/v1/auth/register''" "h = public (RegisterHandler L)"
    using matched(3) unfolding that(2) public_def
  proof (cases rule: Middleware_cases)
    case stopped
    with assms(3) show ?thesis by simp
  next
    case (passed resp1)
    have "rq_path r = ''/api/v1/auth/register''"
      using matched(2) that(1) by (simp add: pattern_matches_def)
    with RegisterHandler_change [OF passed(2) assms(3)] show ?thesis by blast
  qed
  from matched(1) consider "h = protectedWithCSRF TenantsHandler PermissionNone"
    | "h = protectedWithCSRF TenantByIDHandler PermissionReadOnly"
    | "h = protectedWithCSRF InvitationByIDHandler PermissionNone"
    | "p = ''/api/v1/auth/register''" "h = public (RegisterHandler L)"
    | "web_preserves t_tenant_users (h env mo r no_context)"
    unfolding routes_def
    by (auto intro!: wrapped_frame reading_handlers members_unwritten)
  then show ?thesis
  proof cases
    case 1
    from later [OF this TenantsHandler_change] show ?thesis ..
  next
    case 2
    from later [OF this TenantByIDHandler_change] show ?thesis ..
  next
    case 3
    from later [OF this InvitationByIDHandler_change] show ?thesis ..
  next
    case 4
    from first [OF this] show ?thesis ..
  qed (use same in blast)
qed

end
