(* ===== verification/WebSecurity.thy ===== *)
theory WebSecurity
  imports WebApi
begin

text \<open>
  Properties that span the web layer and what it stands on: a login session is opened for the
  right password only, and a device that the web layer turned away is refused by the ingress.
\<close>

section \<open>Login\<close>

lemma fire_hooks_session:
  assumes "\<And>e q x. al_fire L e q = Inr (Some x) \<Longrightarrow> rs_session x = SessionKept"
  shows "fire_hooks L r hooks = Some resp \<Longrightarrow> rs_session resp = SessionKept"
  by (induction hooks) (auto simp: InternalError_def error_response_def assms
      split: sum.splits option.splits)

lemma login_failed_session: "login_failed env mo r u i c s = (resp, s') \<Longrightarrow> rs_session resp = SessionKept"
  by (auto simp: login_failed_def InternalError_def error_response_def split: prod.splits sum.splits)

lemma on_login_parts: "on_login f s = (x, s') \<Longrightarrow> fst (f (ws_login s)) = x \<and> ws_core s' = ws_core s"
  by (auto simp: on_login_def split: prod.splits)

lemma finish_login_session:
  "finish_login L env mo r user s = (resp, s') \<Longrightarrow> rs_session resp = SessionSet (au_Username user)"
  by (auto simp: finish_login_def SetCSRFCookie_def split: option.splits prod.splits sum.splits)

text \<open>C13: the login handler opens a session only for the right password. If it answers with a session
  of user u, then the request was a POST with a user name and a password, the lockout of that name
  and address allowed an attempt, the name is that of the account u, and the password verifies
  against the hash stored for this account. The hooks of the library are taken not to open sessions
  of their own.\<close>

theorem login_requires_password:
  assumes "LoginHandler L env mo r cx s = (resp, s')" "rs_session resp = SessionSet u"
    and "\<forall>e q x. al_fire L e q = Inr (Some x) \<longrightarrow> rs_session x = SessionKept"
  shows "rq_method r = POST \<and>
    (\<exists>p retry row.
       DecodeBody r login_fields (wc_MaxAPIBodyBytes (NormalizeWebConfig (we_config env))) = Some p \<and>
       fst (Allow (web_login_guard env) (TrimSpace (field_text p ''username'')) (rq_remoteAddr r)
              (mo_now mo) (ws_login s)) = Inr (retry, True) \<and>
       fst (ident_Load (TrimSpace (field_text p ''username'')) \<lparr>tabs = tabs (co_db (ws_core s)), faults = []\<rparr>)
         = Inr row \<and>
       au_Username row = u \<and>
       field_text p ''password'' \<noteq> [] \<and> al_verify L (au_Password row) (field_text p ''password''))"
proof -
  have errs: "rs_session MethodNotAllowed = SessionKept" "rs_session (InternalError c) = SessionKept"
    "rs_session (error_response n c t f) = SessionKept" for n c t f
    by (simp_all add: MethodNotAllowed_def InternalError_def error_response_def)
  have post: "rq_method r = POST"
    using assms(1,2) errs by (auto simp: LoginHandler_def split: if_splits)
  let ?cfg = "wc_MaxAPIBodyBytes (NormalizeWebConfig (we_config env))"
  from assms(1,2) post errs obtain p where p: "DecodeBody r login_fields ?cfg = Some p"
    by (auto simp: LoginHandler_def split: option.splits)
  define name where "name = TrimSpace (field_text p ''username'')"
  define pw where "pw = field_text p ''password''"
  let ?allow = "on_login (Allow (web_login_guard env) name (rq_remoteAddr r) (mo_now mo)) s"
  obtain a s1 where al: "?allow = (a, s1)" by (cases ?allow)
  obtain b s2 where ld: "on_db (ident_Load name) s1 = (b, s2)" by (cases "on_db (ident_Load name) s1")
  have ne: "name \<noteq> []" "pw \<noteq> []"
    using assms(1,2) post errs p by (auto simp: LoginHandler_def Let_def name_def pw_def)
  have "\<exists>retry. a = Inr (retry, True)"
    using assms(1,2) post errs p al ne
    by (cases a) (auto simp: LoginHandler_def Let_def name_def pw_def split: if_splits)
  then obtain retry where a: "a = Inr (retry, True)" ..
  have after: "(case b of
      Inl e \<Rightarrow> if e = ErrUserNotFound then login_failed env mo r name 50015 40111 s2 else (InternalError 50006, s2)
    | Inr user \<Rightarrow>
        if \<not> al_verify L (au_Password user) pw then login_failed env mo r name 50016 40112 s2
        else (case on_login (Reset (web_login_guard env) name (rq_remoteAddr r)) s2 of
            (Inl e, s3) \<Rightarrow> (InternalError 50017, s3)
          | (Inr _, s3) \<Rightarrow>
              (case fire_hooks L r [(''before_auth'', 50008), (''before_auth_hijack'', 50009)] of
                 Some resp \<Rightarrow> (resp, s3)
               | None \<Rightarrow> finish_login L env mo r user s3))) = (resp, s')"
    using assms(1) post p al a ld ne unfolding name_def pw_def by (simp add: LoginHandler_def Let_def)
  have "\<exists>row. b = Inr row \<and> al_verify L (au_Password row) pw"
    using after assms(2) errs by (auto split: sum.splits if_splits dest: login_failed_session)
  then obtain row where b: "b = Inr row" and v: "al_verify L (au_Password row) pw" by blast
  obtain c s3 where rs: "on_login (Reset (web_login_guard env) name (rq_remoteAddr r)) s2 = (c, s3)"
    by (cases "on_login (Reset (web_login_guard env) name (rq_remoteAddr r)) s2")
  have u: "au_Username row = u"
  proof (cases "fire_hooks L r [(''before_auth'', 50008), (''before_auth_hijack'', 50009)]")
    case None
    with after b v rs errs assms(2) have "finish_login L env mo r row s3 = (resp, s')"
      by (cases c) auto
    from finish_login_session [OF this] assms(2) show ?thesis by simp
  next
    case (Some x)
    have "rs_session x = SessionKept" by (rule fire_hooks_session [OF _ Some]) (use assms(3) in blast)
    with Some after b v rs errs assms(2) show ?thesis
      by (cases c) (auto simp del: fire_hooks.simps)
  qed
  from ld b obtain d where "ident_Load name (co_db (ws_core s1)) = (Inr row, d)"
    by (auto simp: on_db_def on_core_def with_db_def split: prod.splits)
  from ident_Load_Inr [OF this] on_login_parts [OF al]
  have "fst (ident_Load name \<lparr>tabs = wtabs s, faults = []\<rparr>) = Inr row" by simp
  with post p on_login_parts [OF al] a v u ne(2) show ?thesis
    unfolding name_def pw_def by blast
qed

section \<open>Devices turned away\<close>

text \<open>Without faults the guard on the device's tenant leaves the state as it is.\<close>

lemma ensureDeviceInScope_same:
  assumes "core_ok (ws_core s)" "ensureDeviceInScope env r cx u code s = (x, s1)"
  shows "s1 = s"
proof -
  have f: "faults (co_db (ws_core s)) = []" using core_ok_store(2) [OF assms(1)] .
  have l: "device_LoadConfigByTenant (tenantID r cx) u (co_db (ws_core s)) = (y, d) \<Longrightarrow> d = co_db (ws_core s)" for y d
    using f by (auto simp: device_LoadConfigByTenant_def bindE_def failE_def returnE_def split: option.splits)
  obtain y g where g: "GetDeviceMetadataByScope (web_registry env) (scopeFromRequest r cx) u
      (core_registry_state (ws_core s)) = (y, g)"
    by (cases "GetDeviceMetadataByScope (web_registry env) (scopeFromRequest r cx) u (core_registry_state (ws_core s))")
  have "g = core_registry_state (ws_core s)"
    using g l tenantID_not_blank [of r cx]
    by (auto simp: GetDeviceMetadataByScope_def scopeFromRequest_def on_store_def web_registry_store
        device_repository_def core_registry_state_def split: prod.splits)
  then have "on_registry (GetDeviceMetadataByScope (web_registry env) (scopeFromRequest r cx) u) s = (y, s)"
    using g by (simp add: on_registry_def on_core_def with_registry_def core_registry_state_def)
  then show ?thesis using assms(2) by (auto simp: ensureDeviceInScope_def split: sum.splits)
qed

lemma guarded_device_success:
  assumes "guarded_device env r cx u code act s = (resp, s')" "success resp" "core_ok (ws_core s)"
  shows "act s = (resp, s')"
proof -
  have perm: "ensurePerm cx PermissionReadWrite = None"
    using assms(1,2) by (auto simp: guarded_device_def ensurePerm_def split: if_splits)
  obtain g s1 where e: "ensureDeviceInScope env r cx u code s = (g, s1)"
    by (cases "ensureDeviceInScope env r cx u code s")
  have "g = None"
    using assms(1,2) perm e by (auto simp: guarded_device_def ensureDeviceInScope_def deviceScopeError_def
        split: prod.splits sum.splits if_splits)
  with assms(1) perm e ensureDeviceInScope_same [OF assms(3) e] show ?thesis
    by (simp add: guarded_device_def)
qed

lemma action_result_success:
  "action_result a b f res = (resp, s') \<Longrightarrow> success resp \<Longrightarrow> \<exists>x. res = (Inr x, s')"
  by (auto simp: action_result_def split: prod.splits sum.splits if_splits)

text \<open>The registry's step within the web state keeps the token cache coherent.\<close>

lemma on_registry_step:
  assumes "on_registry f s = (x, s')"
  obtains g where "f (core_registry_state (ws_core s)) = (x, g)" "core_registry_state (ws_core s') = g"
  using assms by (auto simp: on_registry_def on_core_def with_registry_def core_registry_state_def
      split: prod.splits)

lemma status_change_effect:
  assumes "on_registry (update_status st (web_registry env) u rnd) s = (Inr x, s')" "core_ok (ws_core s)"
  shows "core_ok (ws_core s') \<and> (\<exists>t m. web_devs s' u = Some (t, m) \<and> dm_AuthenticateStatus m = st)"
proof -
  from assms(1) obtain g where g: "update_status st (web_registry env) u rnd (core_registry_state (ws_core s)) = (Inr x, g)"
    "core_registry_state (ws_core s') = g" by (rule on_registry_step)
  then obtain tok where u: "UpdateDeviceAuthenticateStatus (web_registry env) u st rnd
      (core_registry_state (ws_core s)) = (Inr tok, g)"
    by (auto simp: update_status_def elim!: bindE_Inr)
  have "core_ok (ws_core s')"
    using sql_reliable.UpdateDeviceAuthenticateStatus_ok [OF web_registry_store [of env] assms(2) [unfolded core_ok_def],
        where u = u and st = st and rnd = rnd] u g(2) by (simp add: core_ok_def)
  moreover have "db_devices_ok (rg_store (core_registry_state (ws_core s)))"
    using core_ok_store(1) [OF assms(2)] by (simp add: core_registry_state_def)
  from sql_devices.UpdateStatus_result [OF web_registry_store this u]
  have "\<exists>t m. db_devs (rg_store g) u = Some (t, m) \<and> dm_AuthenticateStatus m = st" .
  ultimately show ?thesis using g(2) by (auto simp: core_registry_state_def)
qed

lemma delete_effect:
  assumes "on_registry (DeleteDevice (web_registry env) u) s = (Inr x, s')" "core_ok (ws_core s)"
  shows "core_ok (ws_core s') \<and> web_devs s' u = None"
proof -
  from assms(1) obtain g where g: "DeleteDevice (web_registry env) u (core_registry_state (ws_core s)) = (Inr x, g)"
    "core_registry_state (ws_core s') = g" by (rule on_registry_step)
  have "core_ok (ws_core s')"
    using sql_reliable.DeleteDevice_ok [OF web_registry_store [of env] assms(2) [unfolded core_ok_def], where u = u] g
    by (simp add: core_ok_def)
  moreover have "db_devices_ok (rg_store (core_registry_state (ws_core s)))"
    using core_ok_store(1) [OF assms(2)] by (simp add: core_registry_state_def)
  from sql_devices.DeleteDevice_result [OF web_registry_store this g(1)]
  have "db_devs (rg_store g) u = None" .
  ultimately show ?thesis using g(2) by (auto simp: core_registry_state_def)
qed

text \<open>C8: a device that the web layer turned away gets no further. When a request to revoke, to unblock
  or to delete a device is answered with success, on a consistent core whose database answers, then
  the core is still consistent and no credential whatever authenticates as this device at the
  ingress: neither the token it had, cached or not, nor any other.\<close>

theorem revoked_device_refused:
  assumes "core_ok (ws_core s)" "DeviceByUUIDHandler env mo r cx s = (resp, s')" "success resp"
    and "path_parts ''/api/v1/devices/'' (rq_path r) = p # rest" "PathUnescape p = Some u"
    and "rq_method r = POST \<and> rest \<in> {[''revoke''], [''unblock'']} \<or> rq_method r = DELETE \<and> rest = []"
  shows "core_ok (ws_core s') \<and>
    (\<forall>m a c. AuthenticateDevice (core_services (we_core env)) (Some m) (ws_core s') = (Inr a, c) \<longrightarrow>
       ar_Status a = AuthAccepted \<longrightarrow> ar_Uuid a \<noteq> u)"
proof -
  have up: "p \<noteq> []" "u \<noteq> []"
    using assms(2-5) by (auto simp: DeviceByUUIDHandler_def Let_def split: if_splits)
  have st: "core_ok (ws_core s') \<and> (\<forall>t m. web_devs s' u = Some (t, m) \<longrightarrow> dm_AuthenticateStatus m \<noteq> Authenticated)"
    using assms(6)
  proof (elim disjE conjE)
    assume "rq_method r = POST" "rest \<in> {[''revoke''], [''unblock'']}"
    then obtain act where act: "rest = [act]" "act = ''revoke'' \<or> act = ''unblock''" "rq_method r = POST" by auto
    with assms(2,4,5) up have "deviceAction u act env mo r cx s = (resp, s')"
      by (simp add: DeviceByUUIDHandler_def)
    note ran = guarded_device_success [OF this [unfolded deviceAction_def] assms(3,1)]
    have "\<exists>status. status \<noteq> Authenticated \<and> action_result 40423 50022 (\<lambda>_. action_answer act u [])
        (on_registry (update_status status (web_registry env) u (random_source_of mo)) s) = (resp, s')"
      using act(2)
    proof
      assume "act = ''revoke''"
      with ran show ?thesis by (intro exI [of _ AuthenticateRefuse]) (simp add: RejectDevice_def)
    next
      assume "act = ''unblock''"
      with ran show ?thesis by (intro exI [of _ AuthenticatePending]) (simp add: UnblockDevice_def)
    qed
    then obtain status where "status \<noteq> Authenticated" "action_result 40423 50022 (\<lambda>_. action_answer act u [])
        (on_registry (update_status status (web_registry env) u (random_source_of mo)) s) = (resp, s')" by blast
    then obtain x where x: "on_registry (update_status status (web_registry env) u (random_source_of mo)) s = (Inr x, s')"
      using action_result_success [OF _ assms(3)] by fastforce
    from status_change_effect [OF x assms(1)] \<open>status \<noteq> Authenticated\<close> show ?thesis by auto
  next
    assume "rq_method r = DELETE" "rest = []"
    with assms(2,4,5) up have "deleteDevice u env mo r cx s = (resp, s')"
      by (simp add: DeviceByUUIDHandler_def)
    from guarded_device_success [OF this [unfolded deleteDevice_def] assms(3,1)]
    obtain x where x: "on_registry (DeleteDevice (web_registry env) u) s = (Inr x, s')"
      using action_result_success [OF _ assms(3)] by fastforce
    from delete_effect [OF x assms(1)] show ?thesis by auto
  qed
  show ?thesis
  proof (intro conjI allI impI)
    fix m a c
    assume "AuthenticateDevice (core_services (we_core env)) (Some m) (ws_core s') = (Inr a, c)" "ar_Status a = AuthAccepted"
    with AuthenticateDevice_spec [of "ws_core s'" "we_core env" m "Inr a" c] st
    obtain t md where "web_devs s' (ar_Uuid a) = Some (t, md)" "dm_AuthenticateStatus md = Authenticated" by auto
    with st show "ar_Uuid a \<noteq> u" by auto
  qed (use st in blast)
qed

section \<open>An administrator at work\<close>

text \<open>Ana is the administrator of the legacy tenant, bob a member; the device \<open>d1\<close> belongs to it.\<close>

definition example_account :: "int \<Rightarrow> string \<Rightarrow> user_row" where
  "example_account i name = newAuthUserRow
     (no_auth_user\<lparr>au_ID := i, au_Username := name, au_Password := ''hash''\<rparr>) 0"

definition example_member :: "string \<Rightarrow> tenant_role \<Rightarrow> tenant_user" where
  "example_member name role =
     \<lparr>tu_TenantID = DefaultTenantID, tu_Username = name, tu_Role = role, tu_CreatedAt = 0\<rparr>"

definition example_web_db :: db where
  "example_web_db = \<lparr>tabs = empty_tables
     \<lparr>t_devices := [example_device], t_users := [example_account 1 ''ana'', example_account 2 ''bob''],
      t_tenant_users := [example_member ''ana'' TenantRoleAdmin, example_member ''bob'' TenantRoleRO]\<rparr>,
      faults = []\<rparr>"

definition example_web :: web_state where
  "example_web =
     \<lparr>ws_core = example_core\<lparr>co_db := example_web_db\<rparr>, ws_login = (\<lambda>_. None),
      ws_csrf = (\<lambda>n. if n = ''ana'' then Some \<lparr>ce_token = ''tok'', ce_expiresAt = 100\<rparr> else None)\<rparr>"

definition example_web_env :: web_env where
  "example_web_env =
     \<lparr>we_config = DefaultWebConfig, we_core = example_core_config, we_session = (\<lambda>_. Some ''ana''),
      we_url = (\<lambda>_. None), we_alnum = (\<lambda>_. True)\<rparr>"

definition example_moment :: moment where
  "example_moment = \<lparr>mo_now = 7, mo_random = Some [], mo_text = ''7''\<rparr>"

definition example_request :: "http_method \<Rightarrow> string \<Rightarrow> request" where
  "example_request m path =
     \<lparr>rq_method = m, rq_path = path, rq_header = (\<lambda>h. if h = ''X-CSRF-Token'' then ''tok'' else []),
      rq_query = (\<lambda>_. []), rq_cookie = (\<lambda>_. None), rq_host = ''h'', rq_remoteAddr = ''10.0.0.7:1'',
      rq_tls = True,
      rq_body = (\<lambda>_. Some (JObject [(''username'', JString ''ana''), (''password'', JString ''pw'')], True)),
      rq_raw = (\<lambda>_. [])\<rparr>"

definition example_auth_lib :: auth_lib where
  "example_auth_lib =
     \<lparr>al_captcha = None, al_verify_captcha = (\<lambda>_ _. True), al_valid_email = (\<lambda>_. True),
      al_hash = Some, al_verify = (\<lambda>h p. h = ''hash'' \<and> p = ''pw''), al_fire = (\<lambda>_ _. Inr None),
      al_stamp = mo_now\<rparr>"

abbreviation example_serve :: "request \<Rightarrow> response \<times> web_state" where
  "example_serve r \<equiv> serve_api example_auth_lib example_web_env example_moment r example_web"

lemma example_web_devices: "db_devices_ok (co_db (ws_core example_web))"
  using example_db_ok [of "[]"]
  by (simp add: db_devices_ok_def example_web_def example_web_db_def example_db_def)

lemma example_web_core: "core_ok (ws_core example_web)"
  using example_web_devices
  by (simp add: core_ok_def sql_reliable.reg_ok_def core_registry_state_def coherent_def example_web_def
      example_core_def example_web_db_def)

lemma example_web_tenancy: "tenancy_ok (tabs (co_db (ws_core example_web)))"
  by (simp add: tenancy_ok_def tenants_ok_def members_ok_def invitations_ok_def example_web_def
      example_core_def example_web_db_def empty_tables_def example_member_def)


lemma membership_writes_authorized_witness:
  "\<exists>name. session_owner example_web_env (example_request DELETE ''/api/v1/tenants/tenant_legacy/users/bob'')
       (tabs (co_db (ws_core example_web))) = Some name \<and>
     holds_role (tabs (co_db (ws_core example_web))) (TrimSpace name) DefaultTenantID TenantRoleAdmin"
proof -
  let ?r = "example_request DELETE ''/api/v1/tenants/tenant_legacy/users/bob''"
  obtain resp s' where run: "example_serve ?r = (resp, s')" by (cases "example_serve ?r")
  have m: "member_role (tabs (co_db (ws_core (snd (example_serve ?r))))) DefaultTenantID ''bob'' = None"
    "member_role (tabs (co_db (ws_core example_web))) DefaultTenantID ''bob'' = Some TenantRoleRO"
    "rq_path ?r \<noteq> ''/api/v1/auth/register''"
    by code_simp+
  then have d: "member_role (tabs (co_db (ws_core s'))) DefaultTenantID ''bob'' \<noteq>
      member_role (tabs (co_db (ws_core example_web))) DefaultTenantID ''bob''"
    unfolding run by simp
  from m(1) have none: "member_role (tabs (co_db (ws_core s'))) DefaultTenantID ''bob'' = None" unfolding run by simp
  from membership_writes_authorized [OF run example_web_tenancy d] m(3) none show ?thesis by auto
qed

lemma login_requires_password_witness:
  "\<exists>row. fst (ident_Load ''ana'' \<lparr>tabs = tabs (co_db (ws_core example_web)), faults = []\<rparr>) = Inr row \<and>
     au_Username row = ''ana'' \<and> al_verify example_auth_lib (au_Password row) ''pw''"
proof -
  let ?r = "example_request POST ''/api/v1/auth/login''"
  let ?run = "LoginHandler example_auth_lib example_web_env example_moment ?r no_context example_web"
  obtain resp s' where run: "?run = (resp, s')" by (cases ?run)
  have "rs_session (fst ?run) = SessionSet ''ana''" by code_simp
  then have u: "rs_session resp = SessionSet ''ana''" unfolding run by simp
  have p: "map_option (\<lambda>p. (TrimSpace (field_text p ''username''), field_text p ''password''))
      (DecodeBody ?r login_fields (wc_MaxAPIBodyBytes (NormalizeWebConfig (we_config example_web_env))))
      = Some (''ana'', ''pw'')" by code_simp
  have hooks: "\<forall>e q x. al_fire example_auth_lib e q = Inr (Some x) \<longrightarrow> rs_session x = SessionKept"
    by (simp add: example_auth_lib_def)
  from login_requires_password [OF run u hooks] p show ?thesis by auto
qed

lemma revoked_device_refused_witness:
  "\<exists>s' :: web_state. core_ok (ws_core s') \<and> db_devs (co_db (ws_core example_web)) ''d1'' \<noteq> None \<and>
     (\<forall>m a c. AuthenticateDevice (core_services example_core_config) (Some m) (ws_core s') = (Inr a, c) \<longrightarrow>
       ar_Status a = AuthAccepted \<longrightarrow> ar_Uuid a \<noteq> ''d1'')"
proof -
  let ?r = "example_request POST ''/api/v1/devices/d1/revoke''"
  let ?cx = "no_context\<lparr>cx_Perm := PermissionAdmin\<rparr>"
  let ?run = "DeviceByUUIDHandler example_web_env example_moment ?r ?cx example_web"
  obtain resp s' where run: "?run = (resp, s')" by (cases ?run)
  have "success (fst ?run)" by code_simp
  then have ok: "success resp" unfolding run by simp
  have p: "path_parts ''/api/v1/devices/'' (rq_path ?r) = [''d1'', ''revoke'']" "PathUnescape ''d1'' = Some ''d1''"
    by code_simp+
  have q: "we_core example_web_env = example_core_config" "rq_method ?r = POST"
    by (simp_all add: example_web_env_def example_request_def)
  have d: "db_devs (co_db (ws_core example_web)) ''d1'' \<noteq> None"
    by (simp add: example_web_def example_web_db_def db_devs_def find_device_def example_device_def
        NewDeviceModelInTenant_def)
  from revoked_device_refused [OF example_web_core run ok p] q
  have k: "core_ok (ws_core s')"
     "\<forall>m a c. AuthenticateDevice (core_services example_core_config) (Some m) (ws_core s') = (Inr a, c) \<longrightarrow>
       ar_Status a = AuthAccepted \<longrightarrow> ar_Uuid a \<noteq> ''d1''" by simp_all
  show ?thesis by (intro exI [of _ s'] conjI) (fact k d)+
qed

end
