(* ===== verification/Captcha.thy ===== *)
theory Captcha
  imports WebSecurity
begin

text \<open>
  \<^verbatim>\<open>go/src/web/captcha.go\<close>: the captcha service, which asks Cloudflare whether the token of a form is
  good. The exchange over the network is a parameter: what the peer answers to a form posted to an
  address within a time, if it does, and what the JSON decoder makes of the body, the member \<open>success\<close>.
  The package \<^verbatim>\<open>net/url\<close> is computed.
\<close>

section \<open>Forms\<close>

definition unreserved :: "char \<Rightarrow> bool" where
  "unreserved c \<longleftrightarrow>
     (let n = (of_char c :: nat)
      in 48 \<le> n \<and> n \<le> 57 \<or> 65 \<le> n \<and> n \<le> 90 \<or> 97 \<le> n \<and> n \<le> 122 \<or> c \<in> {CHR ''-'', CHR ''_'', CHR ''.'', CHR ''~''})"

definition upper_hex :: "nat \<Rightarrow> char" where
  "upper_hex n = char_of (if n < 10 then 48 + n else 55 + n)"

definition escape_byte :: "char \<Rightarrow> string" where
  "escape_byte c =
     (if unreserved c then [c]
      else if c = CHR '' '' then [CHR ''+'']
      else [CHR 0x25, upper_hex (of_char c div 16), upper_hex (of_char c mod 16)])"

definition QueryEscape :: "string \<Rightarrow> string" where
  "QueryEscape s = concat (map escape_byte s)"

text \<open>\<open>Values.Encode\<close> of fields in the order of their names.\<close>

definition encode_form :: "(string \<times> string) list \<Rightarrow> string" where
  "encode_form flds = Join (map (\<lambda>(k, v). QueryEscape k @ CHR ''='' # QueryEscape v) flds) ''&''"

text \<open>The reader of a form, at the other end.\<close>

definition hex_value :: "char \<Rightarrow> nat" where
  "hex_value c = (let n = of_char c in if n \<le> 57 then n - 48 else if n \<le> 70 then n - 55 else n - 87)"

fun unescape :: "string \<Rightarrow> string" where
  "unescape [] = []"
| "unescape (c # cs) =
     (if c = CHR ''+'' then CHR '' '' # unescape cs
      else if c = CHR 0x25 then
        (case cs of a # b # r \<Rightarrow> char_of (16 * hex_value a + hex_value b) # unescape r | _ \<Rightarrow> [])
      else c # unescape cs)"

definition decode_form :: "string \<Rightarrow> (string \<times> string) list" where
  "decode_form body =
     map (\<lambda>p. (unescape (takeWhile (\<lambda>c. c \<noteq> CHR ''='') p), unescape (tl (dropWhile (\<lambda>c. c \<noteq> CHR ''='') p))))
       (Split CHR ''&'' body)"

section \<open>The service\<close>

record turnstile =
  ts_SiteKey :: string
  ts_SecretKey :: string
  ts_Enabled :: bool
  ts_timeout :: duration

record turnstile_net =
  tn_Post :: "duration \<Rightarrow> string \<Rightarrow> string \<Rightarrow> (nat \<times> string) option"
  tn_Decode :: "string \<Rightarrow> bool option"

definition NewTurnstileServiceWithConfig :: "captcha_config \<Rightarrow> turnstile" where
  "NewTurnstileServiceWithConfig cfg =
     (let cfg = NormalizeCaptchaConfig cfg
      in \<lparr>ts_SiteKey = cp_SiteKey cfg, ts_SecretKey = cp_SecretKey cfg,
          ts_Enabled = EqualFold (TrimSpace (cp_Provider cfg)) ''turnstile'',
          ts_timeout = cp_VerifyTimeout cfg\<rparr>)"

definition NewTurnstileService :: "app_config result \<Rightarrow> turnstile" where
  "NewTurnstileService loaded =
     NewTurnstileServiceWithConfig (case loaded of Inl _ \<Rightarrow> DefaultCaptchaConfig | Inr c \<Rightarrow> cfg_Captcha c)"

definition IsEnabled :: "turnstile option \<Rightarrow> bool" where
  "IsEnabled s = (case s of None \<Rightarrow> False | Some s \<Rightarrow> ts_Enabled s)"

definition PublicSiteKey :: "turnstile option \<Rightarrow> string" where
  "PublicSiteKey s = (case s of None \<Rightarrow> [] | Some s \<Rightarrow> ts_SiteKey s)"

definition siteverify :: string where
  "siteverify = ''https://challenges.cloudflare.com/turnstile/v0/siteverify''"

definition captcha_form :: "turnstile \<Rightarrow> string \<Rightarrow> string \<Rightarrow> (string \<times> string) list" where
  "captcha_form s token ip = [(''remoteip'', ip), (''response'', token), (''secret'', ts_SecretKey s)]"

definition VerifyToken :: "turnstile_net \<Rightarrow> turnstile \<Rightarrow> string \<Rightarrow> string \<Rightarrow> bool" where
  "VerifyToken N s token ip =
     (if \<not> ts_Enabled s then True
      else if TrimSpace token = [] then False
      else
        let timeout = (if ts_timeout s \<le> 0 then cp_VerifyTimeout DefaultCaptchaConfig else ts_timeout s)
        in (case tn_Post N timeout siteverify (encode_form (captcha_form s token ip)) of
              None \<Rightarrow> False
            | Some (status, body) \<Rightarrow>
                if status \<noteq> 200 then False
                else (case tn_Decode N body of None \<Rightarrow> False | Some passed \<Rightarrow> passed)))"

definition captcha_clientIP :: "request \<Rightarrow> string" where
  "captcha_clientIP r =
     (let forwardedFor = TrimSpace (rq_header r ''X-Forwarded-For'');
          realIP = TrimSpace (rq_header r ''X-Real-IP'')
      in if forwardedFor \<noteq> [] then TrimSpace (hd (Split CHR '','' forwardedFor))
         else if realIP \<noteq> [] then realIP
         else rq_remoteAddr r)"

text \<open>\<open>form\<close> is \<open>r.FormValue\<close>.\<close>

definition Verify :: "turnstile_net \<Rightarrow> turnstile \<Rightarrow> (string \<Rightarrow> string) \<Rightarrow> request \<Rightarrow> bool" where
  "Verify N s form r =
     (if \<not> ts_Enabled s then True
      else let token = form ''cf-turnstile-response''
           in if token = [] then False else VerifyToken N s token (captcha_clientIP r))"

text \<open>The service behind the interface the handlers use.\<close>

definition with_captcha :: "turnstile_net \<Rightarrow> turnstile \<Rightarrow> auth_lib \<Rightarrow> auth_lib" where
  "with_captcha N s L =
     L\<lparr>al_captcha := (if IsEnabled (Some s) then Some (PublicSiteKey (Some s)) else None),
       al_verify_captcha := VerifyToken N s\<rparr>"

section \<open>What is posted\<close>

lemma hex_value_upper: "n < 16 \<Longrightarrow> hex_value (upper_hex n) = n"
  by (simp add: hex_value_def upper_hex_def Let_def)

lemma escape_byte_unescape: "unescape (escape_byte c @ s) = c # unescape s"
proof -
  have "of_char c div 16 < (16 :: nat)" using nat_of_char_less_256 [of c] by (simp add: div_less_iff_less_mult)
  then have "char_of (16 * hex_value (upper_hex (of_char c div 16)) + hex_value (upper_hex (of_char c mod 16))) = c"
    by (simp add: hex_value_upper)
  then show ?thesis by (auto simp: escape_byte_def unreserved_def Let_def)
qed

lemma unescape_QueryEscape: "unescape (QueryEscape s) = s"
  by (induction s) (simp_all add: QueryEscape_def escape_byte_unescape)

lemma upper_hex_plain: "n < 16 \<Longrightarrow> upper_hex n \<notin> {CHR ''='', CHR ''&''}"
proof
  assume "n < 16" "upper_hex n \<in> {CHR ''='', CHR ''&''}"
  then have "of_char (upper_hex n) \<in> {61, 38 :: nat}" by auto
  with \<open>n < 16\<close> show False by (auto simp: upper_hex_def split: if_splits)
qed

lemma escape_byte_plain: "CHR ''='' \<notin> set (escape_byte c)" "CHR ''&'' \<notin> set (escape_byte c)"
proof -
  have "of_char c div 16 < (16 :: nat)" using nat_of_char_less_256 [of c] by (simp add: div_less_iff_less_mult)
  from upper_hex_plain [OF this] upper_hex_plain [of "of_char c mod 16"]
  show "CHR ''='' \<notin> set (escape_byte c)" "CHR ''&'' \<notin> set (escape_byte c)"
    by (auto simp: escape_byte_def unreserved_def Let_def)
qed

lemma QueryEscape_plain: "CHR ''='' \<notin> set (QueryEscape s)" "CHR ''&'' \<notin> set (QueryEscape s)"
  by (simp_all add: QueryEscape_def escape_byte_plain)

lemma field_parts:
  "CHR ''='' \<notin> set k \<Longrightarrow> takeWhile (\<lambda>c. c \<noteq> CHR ''='') (k @ CHR ''='' # v) = k"
  "CHR ''='' \<notin> set k \<Longrightarrow> dropWhile (\<lambda>c. c \<noteq> CHR ''='') (k @ CHR ''='' # v) = CHR ''='' # v"
  by (induction k) auto

lemma decode_encode_form: "fs \<noteq> [] \<Longrightarrow> decode_form (encode_form fs) = fs"
proof -
  assume ne: "fs \<noteq> []"
  let ?f = "\<lambda>(k, v). QueryEscape k @ CHR ''='' # QueryEscape v"
  have "Split CHR ''&'' (encode_form fs) = map ?f fs"
    unfolding encode_form_def by (rule Split_Join) (use ne in \<open>auto simp: QueryEscape_plain\<close>)
  then show ?thesis
    by (simp add: decode_form_def comp_def field_parts QueryEscape_plain unescape_QueryEscape split_def)
qed

lemma check_registration_status: "check_registration L u p e = Some resp \<Longrightarrow> rs_status resp = 400"
  by (auto simp: check_registration_def error_response_def Let_def split: if_splits)

lemma check_captcha_status: "check_captcha L r t = Some resp \<Longrightarrow> rs_status resp = 400"
  by (auto simp: check_captcha_def error_response_def split: if_splits)

text \<open>C30: With the captcha switched on nobody registers without passing it. If the registration handler answers that
  the account was created, or changes anything at all, then the body of the request bore a token, and
  the peer answered with status 200 and success to a form that holds exactly the secret, that token and the
  address of the client, whatever bytes they are made of: no token can add a field of its own.\<close>
theorem registration_needs_captcha:
  assumes "RegisterHandler (with_captcha N s L) env mo r cx w = (resp, w')"
    and "rs_status resp = 201 \<or> w' \<noteq> w" and "ts_Enabled s"
  shows "\<exists>p timeout form body.
    DecodeBody r register_fields (wc_MaxAPIBodyBytes (NormalizeWebConfig (we_config env))) = Some p \<and>
    TrimSpace (field_text p ''captcha_token'') \<noteq> [] \<and> 0 < timeout \<and>
    tn_Post N timeout siteverify form = Some (200, body) \<and> tn_Decode N body = Some True \<and>
    decode_form form = [(''remoteip'', clientIPFromRequest r),
      (''response'', TrimSpace (field_text p ''captcha_token'')), (''secret'', ts_SecretKey s)]"
proof -
  let ?L = "with_captcha N s L" and ?max = "wc_MaxAPIBodyBytes (NormalizeWebConfig (we_config env))"
  have "rq_method r = POST"
    using assms(1,2) by (auto simp: RegisterHandler_def MethodNotAllowed_def error_response_def split: if_splits)
  then obtain p where p: "DecodeBody r register_fields ?max = Some p"
    using assms(1,2) by (auto simp: RegisterHandler_def error_response_def split: option.splits)
  define token where "token = TrimSpace (field_text p ''captcha_token'')"
  have "check_registration ?L (TrimSpace (field_text p ''username'')) (field_text p ''password'')
      (TrimSpace (field_text p ''email'')) = None"
    using assms(1,2) \<open>rq_method r = POST\<close> p
    by (auto simp: RegisterHandler_def Let_def dest: check_registration_status split: option.splits)
  then have "check_captcha ?L r token = None"
    using assms(1,2) \<open>rq_method r = POST\<close> p
    by (auto simp: RegisterHandler_def Let_def token_def dest: check_captcha_status split: option.splits)
  with assms(3) have "VerifyToken N s token (clientIPFromRequest r)" "token \<noteq> []"
    by (auto simp: check_captcha_def with_captcha_def IsEnabled_def split: if_splits)
  moreover define timeout where
    "timeout = (if ts_timeout s \<le> 0 then cp_VerifyTimeout DefaultCaptchaConfig else ts_timeout s)"
  moreover have "0 < timeout" by (simp add: timeout_def DefaultCaptchaConfig_def second_def)
  moreover define form where "form = encode_form (captcha_form s token (clientIPFromRequest r))"
  ultimately obtain body where "tn_Post N timeout siteverify form = Some (200, body)" "tn_Decode N body = Some True"
    using assms(3) by (auto simp: VerifyToken_def Let_def split: if_splits option.splits)
  moreover have "decode_form form = captcha_form s token (clientIPFromRequest r)"
    unfolding form_def by (rule decode_encode_form) (simp add: captcha_form_def)
  ultimately show ?thesis
    using p \<open>token \<noteq> []\<close> \<open>0 < timeout\<close> unfolding token_def captcha_form_def by blast
qed

text \<open>A peer that answers every form, and a registration with a token full of separators.\<close>

definition example_net :: turnstile_net where
  "example_net = \<lparr>tn_Post = (\<lambda>_ _ form. Some (200, form)), tn_Decode = (\<lambda>_. Some True)\<rparr>"

definition example_turnstile :: turnstile where
  "example_turnstile = NewTurnstileServiceWithConfig
     \<lparr>cp_Provider = '' Turnstile'', cp_SiteKey = ''site'', cp_SecretKey = ''s3'', cp_VerifyTimeout = 0\<rparr>"

definition example_registrant :: request where
  "example_registrant = (example_request POST ''/api/v1/auth/register'')
     \<lparr>rq_body := (\<lambda>_. Some (JObject [(''username'', JString ''eve''), (''password'', JString ''long enough''),
        (''captcha_token'', JString ''t&secret=x'')], True))\<rparr>"

definition example_members_web :: web_state where
  "example_members_web = example_web\<lparr>ws_core := (ws_core example_web)
     \<lparr>co_db := example_web_db\<lparr>tabs := (tabs example_web_db)\<lparr>t_next_user := 3\<rparr>\<rparr>\<rparr>\<rparr>"

lemma registration_needs_captcha_witness:
  "\<exists>form. decode_form form = [(''remoteip'', clientIPFromRequest example_registrant), (''response'', ''t&secret=x''),
     (''secret'', ''s3'')]"
proof -
  let ?L = "with_captcha example_net example_turnstile example_auth_lib"
  let ?run = "RegisterHandler ?L example_web_env example_moment example_registrant no_context example_members_web"
  obtain resp w' where run: "?run = (resp, w')" by (cases ?run)
  have "rs_status (fst ?run) = 201" by code_simp
  then have st: "rs_status resp = 201 \<or> w' \<noteq> example_members_web" unfolding run by simp
  have en: "ts_Enabled example_turnstile" "ts_SecretKey example_turnstile = ''s3''" by code_simp+
  have p: "map_option (\<lambda>p. TrimSpace (field_text p ''captcha_token''))
      (DecodeBody example_registrant register_fields (wc_MaxAPIBodyBytes (NormalizeWebConfig (we_config example_web_env))))
      = Some ''t&secret=x''" by code_simp
  from registration_needs_captcha [OF run st en(1)] p show ?thesis by (auto simp: en(2))
qed

end
