(* ===== verification/ClientState.thy ===== *)
theory ClientState
  imports Prelude
begin

text \<open>
  \<^verbatim>\<open>identity/client_state.go\<close> and its copy \<^verbatim>\<open>web/client_state.go\<close>: the session of a client as the
  authentication library reads and writes it. The cookie store (gorilla/sessions) is a parameter: what
  \<open>Get\<close> makes of a request, and what \<open>Save\<close> puts into the response. A value of a session is a text or
  something else.
\<close>

datatype session_value = SText string | SOther

type_synonym session_values = "(string \<times> session_value) list"

datatype client_event = EventPut string string | EventDel string | EventDelAll

text \<open>\<open>Get\<close> fails without a session, or returns one, a new one when it also reports an error.\<close>

record 'r cookie_store =
  ck_Get :: "'r \<Rightarrow> string \<Rightarrow> (session_values \<times> go_error option) result"
  ck_Save :: "'r \<Rightarrow> string \<Rightarrow> session_values \<Rightarrow> 'r result"

record 'r session_storer =
  st_store :: "'r cookie_store"
  st_name :: string

definition ReadState :: "'r session_storer \<Rightarrow> 'r \<Rightarrow> session_values result" where
  "ReadState s r =
     (case ck_Get (st_store s) r (st_name s) of
        Inl err \<Rightarrow> Inl err
      | Inr (session, _) \<Rightarrow> Inr session)"

definition put_value :: "string \<Rightarrow> session_value \<Rightarrow> session_values \<Rightarrow> session_values" where
  "put_value k v vs = (k, v) # filter (\<lambda>(k', _). k' \<noteq> k) vs"

definition apply_event :: "client_event \<Rightarrow> session_values \<Rightarrow> session_values" where
  "apply_event ev vs =
     (case ev of
        EventPut k v \<Rightarrow> put_value k (SText v) vs
      | EventDel k \<Rightarrow> filter (\<lambda>(k', _). k' \<noteq> k) vs
      | EventDelAll \<Rightarrow> [])"

text \<open>The result is the next request of the client, which carries the cookie of the response; a state that is
  none of this package's writes nothing.\<close>

definition WriteState ::
    "'r session_storer \<Rightarrow> session_values option \<Rightarrow> client_event list \<Rightarrow> 'r \<Rightarrow> 'r result" where
  "WriteState s state events r =
     (case state of
        None \<Rightarrow> Inr r
      | Some vs \<Rightarrow> ck_Save (st_store s) r (st_name s) (fold apply_event events vs))"

definition state_Get :: "session_values \<Rightarrow> string \<Rightarrow> string \<times> bool" where
  "state_Get vs key =
     (case map_of vs key of Some (SText v) \<Rightarrow> (v, True) | _ \<Rightarrow> ([], False))"

text \<open>The last event about a key decides.\<close>

fun last_write :: "client_event list \<Rightarrow> string \<Rightarrow> string option option" where
  "last_write [] k = None"
| "last_write (ev # evs) k =
     (case last_write evs k of
        Some w \<Rightarrow> Some w
      | None \<Rightarrow>
          (case ev of
             EventPut k' v \<Rightarrow> if k' = k then Some (Some v) else None
           | EventDel k' \<Rightarrow> if k' = k then Some None else None
           | EventDelAll \<Rightarrow> Some None))"

lemma map_of_filter_key: "map_of (filter (\<lambda>(k', _). k' \<noteq> k) vs) j = (if j = k then None else map_of vs j)"
  by (induction vs) auto

lemma state_Get_event:
  "state_Get (apply_event ev vs) k =
     (case ev of
        EventPut k' v \<Rightarrow> if k' = k then (v, True) else state_Get vs k
      | EventDel k' \<Rightarrow> if k' = k then ([], False) else state_Get vs k
      | EventDelAll \<Rightarrow> ([], False))"
  by (simp add: state_Get_def apply_event_def put_value_def map_of_filter_key split: client_event.splits)

lemma state_Get_events:
  "state_Get (fold apply_event evs vs) k =
     (case last_write evs k of None \<Rightarrow> state_Get vs k | Some (Some v) \<Rightarrow> (v, True) | Some None \<Rightarrow> ([], False))"
  by (induction evs arbitrary: vs) (auto simp: state_Get_event split: client_event.splits option.splits)

text \<open>What is written is read back on the next request, when the store keeps what it saves.\<close>

lemma written_state_read:
  assumes "\<And>r name vs r'. ck_Save (st_store s) r name vs = Inr r' \<Longrightarrow> ck_Get (st_store s) r' name = Inr (vs, None)"
    and "WriteState s (Some vs) events r = Inr r'"
  shows "\<exists>vs'. ReadState s r' = Inr vs' \<and>
    (\<forall>k. state_Get vs' k = (case last_write events k of None \<Rightarrow> state_Get vs k
       | Some (Some v) \<Rightarrow> (v, True) | Some None \<Rightarrow> ([], False)))"
proof -
  from assms(2) have "ck_Save (st_store s) r (st_name s) (fold apply_event events vs) = Inr r'"
    by (simp add: WriteState_def)
  from assms(1) [OF this] show ?thesis by (simp add: ReadState_def state_Get_events)
qed

end
