(* ===== verification/Logging.thy ===== *)
theory Logging
  imports AppConfig
begin

text \<open>
  Package \<^verbatim>\<open>logger\<close> (\<^verbatim>\<open>config.go\<close>, \<^verbatim>\<open>redact.go\<close>, \<^verbatim>\<open>slog_logger.go\<close>, \<^verbatim>\<open>noop.go\<close>) over
  \<^verbatim>\<open>inter/logger_inter.go\<close>: what a logger hands to the handler of package slog. A logger carries the
  attributes and groups it was made with; a record that passes the level of the handler is written with
  them. The values of the fields are abstract.
\<close>

section \<open>The configuration\<close>

definition logger_defaultConfig :: logger_config where
  "logger_defaultConfig =
     \<lparr>lc_Level = ''info'', lc_Format = ''text'', lc_AddSource = False, lc_Service = ''goster-iot'', lc_Env = ''dev''\<rparr>"

definition logger_normalizeConfig :: "logger_config \<Rightarrow> logger_config" where
  "logger_normalizeConfig cfg =
     (let base = logger_defaultConfig;
          level = ToLower (TrimSpace (lc_Level cfg)); format = ToLower (TrimSpace (lc_Format cfg))
      in cfg\<lparr>lc_Level := (if level \<in> {''debug'', ''info'', ''warn'', ''error''} then level else lc_Level base),
             lc_Format := (if format \<in> {''json'', ''text''} then format else lc_Format base),
             lc_Service := (if TrimSpace (lc_Service cfg) = [] then lc_Service base else lc_Service cfg),
             lc_Env := (if TrimSpace (lc_Env cfg) = [] then lc_Env base else lc_Env cfg)\<rparr>)"

text \<open>An unset variable is the empty string.\<close>

definition logger_ConfigFromEnv :: "(string \<Rightarrow> string) \<Rightarrow> logger_config" where
  "logger_ConfigFromEnv env =
     (let cfg = logger_defaultConfig;
          level = TrimSpace (env ''LOG_LEVEL''); format = TrimSpace (env ''LOG_FORMAT'');
          addSource = TrimSpace (env ''LOG_ADD_SOURCE''); service = TrimSpace (env ''LOG_SERVICE'');
          logEnv = TrimSpace (env ''LOG_ENV''); appEnv = TrimSpace (env ''APP_ENV'')
      in logger_normalizeConfig
           \<lparr>lc_Level = (if level \<noteq> [] then ToLower level else lc_Level cfg),
            lc_Format = (if format \<noteq> [] then ToLower format else lc_Format cfg),
            lc_AddSource =
              (case (if addSource \<noteq> [] then ParseBool addSource else None) of
                 Some b \<Rightarrow> b | None \<Rightarrow> lc_AddSource cfg),
            lc_Service = (if service \<noteq> [] then service else lc_Service cfg),
            lc_Env = (if logEnv \<noteq> [] then logEnv else if appEnv \<noteq> [] then appEnv else lc_Env cfg)\<rparr>)"

section \<open>Fields and their redaction\<close>

record 'v log_field =
  lf_Key :: string
  lf_Value :: 'v

definition redactedValue :: string where "redactedValue = ''***''"

definition sensitiveFieldKeywords :: "string list" where
  "sensitiveFieldKeywords =
     [''token'', ''secret'', ''password'', ''cookie'', ''authorization'', ''apikey'', ''api_key'']"

definition isSensitiveKey :: "string \<Rightarrow> bool" where
  "isSensitiveKey key = (let k = ToLower (TrimSpace key) in list_ex (Contains k) sensitiveFieldKeywords)"

text \<open>\<open>mk\<close> makes a field value of a string.\<close>

definition RedactFields :: "(string \<Rightarrow> 'v) \<Rightarrow> 'v log_field list \<Rightarrow> 'v log_field list" where
  "RedactFields mk flds =
     map (\<lambda>f. if isSensitiveKey (lf_Key f) then \<lparr>lf_Key = lf_Key f, lf_Value = mk redactedValue\<rparr> else f) flds"

section \<open>The loggers\<close>

datatype log_level4 = LevelDebug | LevelInfo | LevelWarn | LevelError

definition level_value :: "log_level4 \<Rightarrow> int" where
  "level_value l = (case l of LevelDebug \<Rightarrow> -4 | LevelInfo \<Rightarrow> 0 | LevelWarn \<Rightarrow> 4 | LevelError \<Rightarrow> 8)"

definition parseLevel :: "string \<Rightarrow> log_level4" where
  "parseLevel level =
     (let l = ToLower (TrimSpace level)
      in if l = ''debug'' then LevelDebug else if l = ''warn'' then LevelWarn
         else if l = ''error'' then LevelError else LevelInfo)"

datatype 'v log_item = LogAttr string 'v | LogGroup string

record 'v slog_logger =
  sl_Level :: log_level4
  sl_JSON :: bool
  sl_Items :: "'v log_item list"

datatype 'v logger = Slog "'v slog_logger" | Noop

record 'v log_record =
  rc_Level :: log_level4
  rc_Message :: string
  rc_Items :: "'v log_item list"

definition toAttrs :: "'v log_field list \<Rightarrow> 'v log_item list" where
  "toAttrs flds = map (\<lambda>f. LogAttr (lf_Key f) (lf_Value f)) flds"

definition logger_New :: "(string \<Rightarrow> 'v) \<Rightarrow> logger_config \<Rightarrow> 'v logger" where
  "logger_New mk cfg =
     (let cfg = logger_normalizeConfig cfg
      in Slog \<lparr>sl_Level = parseLevel (lc_Level cfg), sl_JSON = (lc_Format cfg = ''json''),
               sl_Items = [LogAttr ''service'' (mk (lc_Service cfg)), LogAttr ''env'' (mk (lc_Env cfg))]\<rparr>)"

definition log_With :: "(string \<Rightarrow> 'v) \<Rightarrow> 'v log_field list \<Rightarrow> 'v logger \<Rightarrow> 'v logger" where
  "log_With mk flds l =
     (case l of Noop \<Rightarrow> Noop
      | Slog b \<Rightarrow> let attrs = toAttrs (RedactFields mk flds)
                 in if length attrs = 0 then l else Slog (b\<lparr>sl_Items := sl_Items b @ attrs\<rparr>))"

definition log_WithGroup :: "string \<Rightarrow> 'v logger \<Rightarrow> 'v logger" where
  "log_WithGroup name l =
     (case l of Noop \<Rightarrow> Noop
      | Slog b \<Rightarrow> if TrimSpace name = [] then l else Slog (b\<lparr>sl_Items := sl_Items b @ [LogGroup name]\<rparr>))"

text \<open>The record a call hands to the handler, if the handler takes its level.\<close>

definition log_log :: "(string \<Rightarrow> 'v) \<Rightarrow> log_level4 \<Rightarrow> string \<Rightarrow> 'v log_field list \<Rightarrow> 'v logger \<Rightarrow> 'v log_record option" where
  "log_log mk level msg flds l =
     (case l of Noop \<Rightarrow> None
      | Slog b \<Rightarrow> if level_value level < level_value (sl_Level b) then None
                 else Some \<lparr>rc_Level = level, rc_Message = msg,
                            rc_Items = sl_Items b @ toAttrs (RedactFields mk flds)\<rparr>)"

section \<open>What reaches the log\<close>

datatype 'v log_op = OpWith "'v log_field list" | OpWithGroup string

definition run_log_op :: "(string \<Rightarrow> 'v) \<Rightarrow> 'v log_op \<Rightarrow> 'v logger \<Rightarrow> 'v logger" where
  "run_log_op mk oper l = (case oper of OpWith fs \<Rightarrow> log_With mk fs l | OpWithGroup n \<Rightarrow> log_WithGroup n l)"

definition item_ok :: "(string \<Rightarrow> 'v) \<Rightarrow> 'v log_item \<Rightarrow> bool" where
  "item_ok mk i = (case i of LogGroup _ \<Rightarrow> True | LogAttr k v \<Rightarrow> isSensitiveKey k \<longrightarrow> v = mk redactedValue)"

definition logger_ok :: "(string \<Rightarrow> 'v) \<Rightarrow> 'v logger \<Rightarrow> bool" where
  "logger_ok mk l = (case l of Noop \<Rightarrow> True | Slog b \<Rightarrow> list_all (item_ok mk) (sl_Items b))"

lemma item_ok_redacted: "list_all (item_ok mk) (toAttrs (RedactFields mk fs))"
  by (simp add: list_all_iff toAttrs_def RedactFields_def item_ok_def)

lemma run_log_ops_ok: "logger_ok mk l \<Longrightarrow> logger_ok mk (fold (run_log_op mk) ops l)"
proof (induction ops arbitrary: l)
  case (Cons oper ops)
  have "logger_ok mk (run_log_op mk oper l)"
    using Cons.prems item_ok_redacted [of mk]
    by (cases l; cases oper)
       (simp_all add: run_log_op_def log_With_def log_WithGroup_def logger_ok_def Let_def item_ok_def)
  with Cons.IH show ?case by simp
qed simp

lemma logger_New_ok: "logger_ok mk (logger_New mk cfg)"
proof -
  have "\<not> isSensitiveKey ''service''" "\<not> isSensitiveKey ''env''" by code_simp+
  then show ?thesis by (simp add: logger_New_def logger_ok_def item_ok_def Let_def)
qed

text \<open>Whatever a program does with its logger, no record shows the value of a sensitive field.\<close>

lemma log_redacted:
  assumes "log_log mk level msg flds (fold (run_log_op mk) ops (logger_New mk cfg)) = Some rec"
  shows "list_all (item_ok mk) (rc_Items rec)"
  using assms run_log_ops_ok [OF logger_New_ok, of mk ops cfg] item_ok_redacted [of mk flds]
  by (auto simp: log_log_def logger_ok_def split: logger.splits if_splits)

end
