(* ===== verification/IngressApp.thy ===== *)
theory IngressApp
  imports Prelude
begin

text \<open>
  \<^verbatim>\<open>protocol-ingress/internal/app/app.go\<close> and \<^verbatim>\<open>internal/server/server.go\<close>: the process of the protocol
  ingress runs its management server and its adapters side by side and ends with them. \<open>Run\<close> is a step
  relation over its goroutines; of a component it is only known that its \<open>Start\<close> returns at some time, with
  an error or without. The endpoints of the server are functions.
\<close>

section \<open>The management server\<close>

record http_answer =
  ha_Status :: nat
  ha_ContentType :: string
  ha_Body :: string

record ingress_server =
  sr_ShutdownTimeout :: duration
  sr_startedAt :: time
  sr_ready :: bool

definition Server_New :: "duration \<Rightarrow> time \<Rightarrow> ingress_server" where
  "Server_New timeout now =
     \<lparr>sr_ShutdownTimeout = (if timeout \<le> 0 then 10 * second else timeout), sr_startedAt = now, sr_ready = True\<rparr>"

definition SetReady :: "bool \<Rightarrow> ingress_server \<Rightarrow> ingress_server" where
  "SetReady ready s = s\<lparr>sr_ready := ready\<rparr>"

text \<open>The encoder writes the members of a map in the order of their names, and a newline.\<close>

definition status_body :: "string \<Rightarrow> string" where
  "status_body status =
     ''{'' @ [CHR 0x22] @ ''service'' @ [CHR 0x22] @ '':'' @ [CHR 0x22] @ ''protocol-ingress'' @ [CHR 0x22] @ '','' @
     [CHR 0x22] @ ''status'' @ [CHR 0x22] @ '':'' @ [CHR 0x22] @ status @ [CHR 0x22] @ ''}'' @ [CHR 0x0A]"

definition healthz :: "ingress_server \<Rightarrow> http_answer" where
  "healthz s = \<lparr>ha_Status = 200, ha_ContentType = ''application/json'', ha_Body = status_body ''ok''\<rparr>"

definition readyz :: "ingress_server \<Rightarrow> http_answer" where
  "readyz s =
     (if \<not> sr_ready s
      then \<lparr>ha_Status = 503, ha_ContentType = ''application/json'', ha_Body = status_body ''not_ready''\<rparr>
      else \<lparr>ha_Status = 200, ha_ContentType = ''application/json'', ha_Body = status_body ''ready''\<rparr>)"

section \<open>The components of a run\<close>

definition ErrCanceled :: go_error where
  "ErrCanceled = ErrText ''context canceled''"

text \<open>A goroutine runs \<open>Start\<close>, has reported what it returned, or has left the wait group.\<close>

datatype task = Running | Reported "go_error option" | Ended "go_error option"

datatype main_at = Selecting | Waiting "go_error option" | Finished "go_error option"

record app_run =
  ap_Cancelled :: bool
  ap_Tasks :: "task list"
  ap_errCh :: "go_error list"
  ap_done :: bool
  ap_Main :: main_at

text \<open>The server, when there is one, and the adapters that are not nil.\<close>

definition app_tasks :: "bool \<Rightarrow> bool list \<Rightarrow> task list" where
  "app_tasks server adapters = (if server then [Running] else []) @ map (\<lambda>_. Running) (filter id adapters)"

definition Run_entry :: "task list \<Rightarrow> app_run" where
  "Run_entry tasks = \<lparr>ap_Cancelled = False, ap_Tasks = tasks, ap_errCh = [], ap_done = False, ap_Main = Selecting\<rparr>"

definition reported :: "go_error option \<Rightarrow> go_error list" where
  "reported e = (case e of Some e \<Rightarrow> if e = ErrCanceled then [] else [e] | None \<Rightarrow> [])"

definition ended :: "task \<Rightarrow> bool" where
  "ended t = (case t of Ended _ \<Rightarrow> True | _ \<Rightarrow> False)"

inductive app_step :: "app_run \<Rightarrow> app_run \<Rightarrow> bool" where
  interrupt: "app_step s (s\<lparr>ap_Cancelled := True\<rparr>)"
| returned: "i < length (ap_Tasks s) \<Longrightarrow> ap_Tasks s ! i = Running \<Longrightarrow>
    app_step s (s\<lparr>ap_Tasks := (ap_Tasks s)[i := Reported e], ap_errCh := ap_errCh s @ reported e\<rparr>)"
| wg_done: "i < length (ap_Tasks s) \<Longrightarrow> ap_Tasks s ! i = Reported e \<Longrightarrow>
    app_step s (s\<lparr>ap_Tasks := (ap_Tasks s)[i := Ended e]\<rparr>)"
| all_done: "list_all ended (ap_Tasks s) \<Longrightarrow> app_step s (s\<lparr>ap_done := True\<rparr>)"
| select_cancelled: "ap_Main s = Selecting \<Longrightarrow> ap_Cancelled s \<Longrightarrow>
    app_step s (s\<lparr>ap_Main := Waiting (Some ErrCanceled)\<rparr>)"
| select_error: "ap_Main s = Selecting \<Longrightarrow> ap_errCh s = e # es \<Longrightarrow>
    app_step s (s\<lparr>ap_Main := Waiting (Some e), ap_errCh := es, ap_Cancelled := True\<rparr>)"
| select_done: "ap_Main s = Selecting \<Longrightarrow> ap_done s \<Longrightarrow> app_step s (s\<lparr>ap_Main := Finished None\<rparr>)"
| waited: "ap_Main s = Waiting r \<Longrightarrow> ap_done s \<Longrightarrow> app_step s (s\<lparr>ap_Main := Finished r\<rparr>)"

inductive app_runs :: "task list \<Rightarrow> app_run \<Rightarrow> bool" for tasks where
  entry: "app_runs tasks (Run_entry tasks)"
| move: "app_runs tasks s \<Longrightarrow> app_step s s' \<Longrightarrow> app_runs tasks s'"

text \<open>The exit code of \<^verbatim>\<open>cmd/protocol-ingress/main.go\<close>.\<close>

definition exit_code :: "go_error option \<Rightarrow> nat" where
  "exit_code r = (case r of Some e \<Rightarrow> if e = ErrCanceled then 0 else 1 | None \<Rightarrow> 0)"

section \<open>What a run returns\<close>

definition outcome_of :: "task \<Rightarrow> go_error option option" where
  "outcome_of t = (case t of Running \<Rightarrow> None | Reported e \<Rightarrow> Some e | Ended e \<Rightarrow> Some e)"

definition failures :: "task list \<Rightarrow> go_error set" where
  "failures ts = {e. Some (Some e) \<in> set (map outcome_of ts) \<and> e \<noteq> ErrCanceled}"

definition taken :: "main_at \<Rightarrow> go_error set" where
  "taken m = (case m of Waiting (Some e) \<Rightarrow> {e} | Finished (Some e) \<Rightarrow> {e} | _ \<Rightarrow> {}) - {ErrCanceled}"

text \<open>Every failure of a component was taken by the select or is still in the channel, and no other is.\<close>

definition app_inv :: "app_run \<Rightarrow> bool" where
  "app_inv s \<longleftrightarrow>
     (ap_done s \<longrightarrow> list_all ended (ap_Tasks s)) \<and>
     (\<forall>r. ap_Main s = Finished r \<longrightarrow> ap_done s) \<and>
     failures (ap_Tasks s) = set (ap_errCh s) \<union> taken (ap_Main s) \<and>
     (ap_Main s = Selecting \<longrightarrow> ErrCanceled \<notin> set (ap_errCh s))"

lemma some_in_update:
  "i < length xs \<Longrightarrow> xs ! i = None \<Longrightarrow> Some x \<in> set (xs[i := Some e]) \<longleftrightarrow> x = e \<or> Some x \<in> set xs"
  by (induction xs arbitrary: i) (auto split: nat.splits)

lemma failures_returned:
  assumes "i < length ts" "ts ! i = Running"
  shows "failures (ts[i := Reported e]) = failures ts \<union> set (reported e)"
proof -
  have "Some x \<in> set (map outcome_of (ts[i := Reported e])) \<longleftrightarrow> x = e \<or> Some x \<in> set (map outcome_of ts)" for x
    using assms some_in_update [of i "map outcome_of ts" x e] by (simp add: map_update outcome_of_def)
  then show ?thesis by (auto simp: failures_def reported_def split: option.splits if_splits)
qed

lemma failures_done:
  assumes "i < length ts" "ts ! i = Reported e"
  shows "failures (ts[i := Ended e]) = failures ts"
proof -
  have "map outcome_of (ts[i := Ended e]) = map outcome_of ts"
    using assms list_update_id [of "map outcome_of ts" i] by (simp add: map_update outcome_of_def)
  then show ?thesis by (simp only: failures_def)
qed

lemma ended_update: "list_all ended ts \<Longrightarrow> i < length ts \<Longrightarrow> ended (ts ! i)"
  by (simp add: list_all_length)

lemma app_inv_step: "app_step s s' \<Longrightarrow> app_inv s \<Longrightarrow> app_inv s'"
proof (induction rule: app_step.induct)
  case (returned i s e)
  with ended_update [of "ap_Tasks s" i] have "\<not> ap_done s" by (auto simp: app_inv_def ended_def)
  with returned show ?case
    by (auto simp: app_inv_def failures_returned reported_def split: option.splits)
next
  case (wg_done i s e)
  with ended_update [of "ap_Tasks s" i] have "\<not> ap_done s" by (auto simp: app_inv_def ended_def)
  with wg_done show ?case by (auto simp: app_inv_def failures_done)
qed (auto simp: app_inv_def taken_def split: option.splits)

lemma app_runs_inv: "app_runs tasks s \<Longrightarrow> list_all (\<lambda>t. t = Running) tasks \<Longrightarrow> app_inv s"
proof (induction rule: app_runs.induct)
  case entry
  then have "failures tasks = {}" by (auto simp: failures_def outcome_of_def list_all_iff)
  with entry show ?case by (simp add: app_inv_def Run_entry_def taken_def)
next
  case (move s s')
  then show ?case using app_inv_step by blast
qed

text \<open>A server whose address is taken, and no adapter that stays.\<close>

definition lost_error :: app_run where
  "lost_error =
     \<lparr>ap_Cancelled = False, ap_Tasks = [Ended (Some (ErrText ''listen''))], ap_errCh = [ErrText ''listen''],
      ap_done = True, ap_Main = Finished None\<rparr>"

lemma lost_error_runs: "app_runs [Running] lost_error"
proof -
  let ?e = "Some (ErrText ''listen'')"
  define s1 where "s1 = (Run_entry [Running])\<lparr>ap_Tasks := [Reported ?e], ap_errCh := [ErrText ''listen'']\<rparr>"
  define s2 where "s2 = s1\<lparr>ap_Tasks := [Ended ?e]\<rparr>"
  define s3 where "s3 = s2\<lparr>ap_done := True\<rparr>"
  note st = s1_def s2_def s3_def Run_entry_def
  have "app_step (Run_entry [Running]) s1"
    using app_step.returned [of 0 "Run_entry [Running]" ?e] by (simp add: st reported_def ErrCanceled_def)
  moreover have "app_step s1 s2" using app_step.wg_done [of 0 s1 ?e] by (simp add: st)
  moreover have "app_step s2 s3" using app_step.all_done [of s2] by (simp add: st ended_def)
  moreover have "app_step s3 lost_error" using app_step.select_done [of s3] by (simp add: st lost_error_def)
  ultimately show ?thesis by (meson app_runs.intros)
qed

text \<open>C32: The ingress process ends only when every component has ended, and with an error only if a component
  failed with it or the process was stopped. A failure is never made up, and it is lost only in the channel:
  when all components have ended by the time the main goroutine chooses, it may take their end
  instead of the error, and then a process whose server could not even listen exits with code 0.\<close>
theorem app_run_outcome:
  assumes "app_runs (app_tasks server adapters) s" "ap_Main s = Finished r"
  shows "list_all ended (ap_Tasks s) \<and>
    (case r of None \<Rightarrow> True | Some e \<Rightarrow> e = ErrCanceled \<or> e \<in> failures (ap_Tasks s)) \<and>
    failures (ap_Tasks s) \<subseteq> insert (the r) (set (ap_errCh s)) \<and>
    (\<exists>t. app_runs (app_tasks True []) t \<and> ap_Main t = Finished None \<and>
       failures (ap_Tasks t) = {ErrText ''listen''} \<and> exit_code None = 0)"
proof -
  have "list_all (\<lambda>t. t = Running) (app_tasks server adapters)"
    by (auto simp: app_tasks_def list_all_iff)
  from app_runs_inv [OF assms(1) this] have inv: "app_inv s" .
  have "failures (ap_Tasks lost_error) = {ErrText ''listen''}"
    by (auto simp: lost_error_def failures_def outcome_of_def ErrCanceled_def)
  then have ex: "\<exists>t. app_runs (app_tasks True []) t \<and> ap_Main t = Finished None \<and>
       failures (ap_Tasks t) = {ErrText ''listen''} \<and> exit_code None = 0"
    using lost_error_runs
    by (intro exI [of _ lost_error]) (simp add: app_tasks_def exit_code_def, simp add: lost_error_def)
  have all: "list_all ended (ap_Tasks s)" using inv assms(2) by (simp add: app_inv_def)
  have fl: "failures (ap_Tasks s) = set (ap_errCh s) \<union> taken (Finished r)"
    using inv assms(2) by (simp add: app_inv_def)
  have "case r of None \<Rightarrow> True | Some e \<Rightarrow> e = ErrCanceled \<or> e \<in> failures (ap_Tasks s)"
    unfolding fl by (auto simp: taken_def split: option.splits)
  moreover have "failures (ap_Tasks s) \<subseteq> insert (the r) (set (ap_errCh s))"
    unfolding fl by (auto simp: taken_def split: option.splits)
  ultimately show ?thesis by (intro conjI all ex)
qed

lemma app_run_outcome_witness: "list_all ended (ap_Tasks lost_error)"
proof -
  have "app_runs (app_tasks True []) lost_error" using lost_error_runs by (simp add: app_tasks_def)
  from app_run_outcome [OF this, of None] show ?thesis by (simp add: lost_error_def)
qed

end
