(* ===== verification/ExternalStore.thy ===== *)
theory ExternalStore
  imports Database AdapterTypes Crypto
begin

text \<open>
  \<^verbatim>\<open>storage/external/repository.go\<close> and \<^verbatim>\<open>storage/internal/bunrepo/external_models.go\<close>: the
  entities of other platforms (Home Assistant and the like) and what is observed of them. A row keeps
  a JSON object as its text; \<open>json.Marshal\<close> and \<open>json.Unmarshal\<close> of an object, the verb \<open>%g\<close> of a
  number and SHA-256 are parameters. A numeric column holds any \<open>float64\<close>, a nil map is the empty one,
  and \<open>now\<close> is the clock in milliseconds.
\<close>

record external_entity =
  en_Source :: string
  en_EntityID :: string
  en_Domain :: string
  en_GosterUUID :: string
  en_DeviceID :: string
  en_Model :: string
  en_Name :: string
  en_RoomName :: string
  en_Unit :: string
  en_ValueType :: string
  en_DeviceClass :: string
  en_StateClass :: string
  en_Attributes :: any_map
  en_LastStateTS :: int
  en_LastText :: "string option"
  en_LastNum :: "float64 option"
  en_LastBool :: "bool option"

record external_observation =
  eo_Source :: string
  eo_EntityID :: string
  eo_Timestamp :: int
  eo_ValueNum :: "float64 option"
  eo_ValueText :: "string option"
  eo_ValueBool :: "bool option"
  eo_ValueJSON :: any_map
  eo_Unit :: string
  eo_ValueSig :: string
  eo_RawEvent :: any_map

record external_env =
  xv_Marshal :: "any_map \<Rightarrow> string option"
  xv_Unmarshal :: "string \<Rightarrow> any_map option"
  xv_FormatG :: "float64 \<Rightarrow> string"
  xv_sha256 :: "bytes \<Rightarrow> bytes"

section \<open>Nullable columns\<close>

definition NullableJSONString :: "external_env \<Rightarrow> any_map \<Rightarrow> string option result" where
  "NullableJSONString E v =
     (if length v = 0 then Inr None
      else case xv_Marshal E v of None \<Rightarrow> Inl (ErrText ''json'') | Some b \<Rightarrow> Inr (Some b))"

definition ParseNullableJSONMap :: "external_env \<Rightarrow> string option \<Rightarrow> any_map result" where
  "ParseNullableJSONMap E raw =
     (case raw of
        None \<Rightarrow> Inr []
      | Some s \<Rightarrow> if TrimSpace s = [] then Inr []
                  else case xv_Unmarshal E s of None \<Rightarrow> Inl (ErrText ''json'') | Some m \<Rightarrow> Inr m)"

definition BoolPtrToNullableInt :: "bool option \<Rightarrow> int option" where
  "BoolPtrToNullableInt v =
     (case v of None \<Rightarrow> None | Some b \<Rightarrow> if b then Some 1 else Some 0)"

definition NullIntToBoolPtr :: "int option \<Rightarrow> bool option" where
  "NullIntToBoolPtr v = (case v of None \<Rightarrow> None | Some i \<Rightarrow> Some (i \<noteq> 0))"

definition NullableFloat64 :: "float64 option \<Rightarrow> float64 option" where
  "NullableFloat64 v = (case v of None \<Rightarrow> None | Some x \<Rightarrow> Some x)"

definition NullableStringPtr :: "string option \<Rightarrow> string option" where
  "NullableStringPtr v =
     (case v of None \<Rightarrow> None | Some s \<Rightarrow> if TrimSpace s = [] then None else Some s)"

definition nullableFloatOut :: "float64 option \<Rightarrow> float64 option" where
  "nullableFloatOut v = (case v of None \<Rightarrow> None | Some out \<Rightarrow> Some out)"

definition nullableStringOut :: "string option \<Rightarrow> string option" where
  "nullableStringOut v = (case v of None \<Rightarrow> None | Some out \<Rightarrow> Some out)"

lemmas nullable_defs = NullableFloat64_def nullableFloatOut_def nullableStringOut_def

section \<open>Rows\<close>

definition NewExternalEntityRow :: "external_env \<Rightarrow> external_entity \<Rightarrow> external_entity_row result" where
  "NewExternalEntityRow E entity =
     (case NullableJSONString E (en_Attributes entity) of
        Inl e \<Rightarrow> Inl e
      | Inr attrsJSON \<Rightarrow> Inr
          \<lparr>xe_ID = 0, xe_TenantID = DefaultTenantID,
           xe_Source = TrimSpace (en_Source entity),
           xe_EntityID = TrimSpace (en_EntityID entity),
           xe_Domain = TrimSpace (en_Domain entity),
           xe_GosterUUID = TrimSpace (en_GosterUUID entity),
           xe_DeviceID = TrimSpace (en_DeviceID entity),
           xe_Model = TrimSpace (en_Model entity),
           xe_Name = TrimSpace (en_Name entity),
           xe_RoomName = TrimSpace (en_RoomName entity),
           xe_Unit = TrimSpace (en_Unit entity),
           xe_ValueType = TrimSpace (en_ValueType entity),
           xe_DeviceClass = TrimSpace (en_DeviceClass entity),
           xe_StateClass = TrimSpace (en_StateClass entity),
           xe_AttributesJSON = attrsJSON,
           xe_LastStateText = NullableStringPtr (en_LastText entity),
           xe_LastStateNum = NullableFloat64 (en_LastNum entity),
           xe_LastStateBool = BoolPtrToNullableInt (en_LastBool entity),
           xe_LastSeenTS = en_LastStateTS entity\<rparr>)"

definition ToExternalEntity :: "external_env \<Rightarrow> external_entity_row \<Rightarrow> external_entity result" where
  "ToExternalEntity E r =
     (case ParseNullableJSONMap E (xe_AttributesJSON r) of
        Inl e \<Rightarrow> Inl e
      | Inr attrs \<Rightarrow> Inr
          \<lparr>en_Source = xe_Source r, en_EntityID = xe_EntityID r, en_Domain = xe_Domain r,
           en_GosterUUID = xe_GosterUUID r, en_DeviceID = xe_DeviceID r, en_Model = xe_Model r,
           en_Name = xe_Name r, en_RoomName = xe_RoomName r, en_Unit = xe_Unit r,
           en_ValueType = xe_ValueType r, en_DeviceClass = xe_DeviceClass r,
           en_StateClass = xe_StateClass r, en_Attributes = attrs,
           en_LastStateTS = xe_LastSeenTS r,
           en_LastText = nullableStringOut (xe_LastStateText r),
           en_LastNum = nullableFloatOut (xe_LastStateNum r),
           en_LastBool = NullIntToBoolPtr (xe_LastStateBool r)\<rparr>)"

definition NewExternalObservationRow ::
    "external_env \<Rightarrow> external_observation \<Rightarrow> external_observation_row result" where
  "NewExternalObservationRow E item =
     (case NullableJSONString E (eo_ValueJSON item) of
        Inl e \<Rightarrow> Inl e
      | Inr valueJSON \<Rightarrow>
          (case NullableJSONString E (eo_RawEvent item) of
             Inl e \<Rightarrow> Inl e
           | Inr rawEventJSON \<Rightarrow> Inr
               \<lparr>xo_ID = 0, xo_TenantID = DefaultTenantID,
                xo_Source = TrimSpace (eo_Source item),
                xo_EntityID = TrimSpace (eo_EntityID item),
                xo_TS = eo_Timestamp item,
                xo_ValueNum = NullableFloat64 (eo_ValueNum item),
                xo_ValueText = NullableStringPtr (eo_ValueText item),
                xo_ValueBool = BoolPtrToNullableInt (eo_ValueBool item),
                xo_ValueJSON = valueJSON,
                xo_Unit = TrimSpace (eo_Unit item),
                xo_ValueSig = TrimSpace (eo_ValueSig item),
                xo_RawEventJSON = rawEventJSON\<rparr>))"

definition ToExternalObservation ::
    "external_env \<Rightarrow> external_observation_row \<Rightarrow> external_observation result" where
  "ToExternalObservation E r =
     (case ParseNullableJSONMap E (xo_ValueJSON r) of
        Inl e \<Rightarrow> Inl e
      | Inr valueJSON \<Rightarrow>
          (case ParseNullableJSONMap E (xo_RawEventJSON r) of
             Inl e \<Rightarrow> Inl e
           | Inr rawEvent \<Rightarrow> Inr
               \<lparr>eo_Source = xo_Source r, eo_EntityID = xo_EntityID r, eo_Timestamp = xo_TS r,
                eo_ValueNum = nullableFloatOut (xo_ValueNum r),
                eo_ValueText = nullableStringOut (xo_ValueText r),
                eo_ValueBool = NullIntToBoolPtr (xo_ValueBool r),
                eo_ValueJSON = valueJSON, eo_Unit = xo_Unit r, eo_ValueSig = xo_ValueSig r,
                eo_RawEvent = rawEvent\<rparr>))"

text \<open>The signature that tells two observations of one entity at one time apart.\<close>

definition signature_payload :: "external_env \<Rightarrow> external_observation \<Rightarrow> string" where
  "signature_payload E item =
     (case eo_ValueNum item of
        Some x \<Rightarrow> ''n:'' @ xv_FormatG E x @ ''|u:'' @ eo_Unit item
      | None \<Rightarrow>
          (case eo_ValueBool item of
             Some b \<Rightarrow> ''b:'' @ (if b then ''true'' else ''false'') @ ''|u:'' @ eo_Unit item
           | None \<Rightarrow>
               (case eo_ValueText item of
                  Some t \<Rightarrow> ''t:'' @ t @ ''|u:'' @ eo_Unit item
                | None \<Rightarrow>
                    if 0 < length (eo_ValueJSON item)
                    then ''j:'' @ (case xv_Marshal E (eo_ValueJSON item) of None \<Rightarrow> [] | Some b \<Rightarrow> b) @
                         ''|u:'' @ eo_Unit item
                    else ''empty|u:'' @ eo_Unit item)))"

definition ExternalObservationSignature :: "external_env \<Rightarrow> external_observation \<Rightarrow> string" where
  "ExternalObservationSignature E item =
     (let sum = xv_sha256 E (bytes_of_string (signature_payload E item)) in hex_encode (take 8 sum))"

section \<open>Entities\<close>

definition same_entity :: "external_entity_row \<Rightarrow> external_entity_row \<Rightarrow> bool" where
  "same_entity a b \<longleftrightarrow> xe_Source a = xe_Source b \<and> xe_EntityID a = xe_EntityID b"

text \<open>
  \<open>INSERT ... ON CONFLICT (source, entity_id) DO UPDATE\<close>: the row keeps its number and its tenant.
\<close>

definition put_entity :: "external_entity_row \<Rightarrow> tables \<Rightarrow> tables" where
  "put_entity row t =
     (if \<exists>r \<in> set (t_entities t). same_entity row r
      then t\<lparr>t_entities := map (\<lambda>r. if same_entity row r
             then row\<lparr>xe_ID := xe_ID r, xe_TenantID := xe_TenantID r\<rparr> else r) (t_entities t)\<rparr>
      else t\<lparr>t_entities := t_entities t @ [row\<lparr>xe_ID := t_next_entity t\<rparr>],
             t_next_entity := t_next_entity t + 1\<rparr>)"

definition repo_UpsertExternalEntity :: "external_env \<Rightarrow> external_entity \<Rightarrow> (unit, db) action" where
  "repo_UpsertExternalEntity E entity =
     (let source = TrimSpace (en_Source entity);
          entityID = TrimSpace (en_EntityID entity);
          domain = TrimSpace (en_Domain entity)
      in if source = [] \<or> entityID = [] \<or> domain = []
         then failE (ErrText ''source/entity_id/domain is required'')
         else
           let entity = entity\<lparr>en_Source := source, en_EntityID := entityID, en_Domain := domain\<rparr>;
               entity = (if TrimSpace (en_ValueType entity) = []
                         then entity\<lparr>en_ValueType := ''string''\<rparr> else entity)
           in case NewExternalEntityRow E entity of
                Inl e \<Rightarrow> failE e
              | Inr row \<Rightarrow> run_stmt (\<lambda>t. (Inr (), put_entity row t)))"

definition repo_GetExternalEntity ::
    "external_env \<Rightarrow> string \<Rightarrow> string \<Rightarrow> (external_entity, db) action" where
  "repo_GetExternalEntity E source entityID =
     bindE (run_query (\<lambda>t. find (\<lambda>r. xe_Source r = source \<and> xe_EntityID r = entityID) (t_entities t)))
       (\<lambda>found d. (case found of
            None \<Rightarrow> Inl (ErrText ''external entity not found'')
          | Some row \<Rightarrow> ToExternalEntity E row, d))"

text \<open>The rows converted one by one, up to the first that fails.\<close>

fun convert_rows :: "('r \<Rightarrow> 'a result) \<Rightarrow> 'r list \<Rightarrow> 'a list result" where
  "convert_rows f [] = Inr []"
| "convert_rows f (r # rs) =
     (case f r of
        Inl e \<Rightarrow> Inl e
      | Inr x \<Rightarrow> (case convert_rows f rs of Inl e \<Rightarrow> Inl e | Inr xs \<Rightarrow> Inr (x # xs)))"

definition repo_ListExternalEntities ::
    "external_env \<Rightarrow> string \<Rightarrow> string \<Rightarrow> int \<Rightarrow> int \<Rightarrow> (external_entity list, db) action" where
  "repo_ListExternalEntities E source domain limit offset =
     (let limit = (if limit \<le> 0 then 100 else limit);
          offset = (if offset < 0 then 0 else offset)
      in bindE
           (run_query (\<lambda>t. take (nat limit) (drop (nat offset)
              (sort_key (\<lambda>r. (- xe_LastSeenTS r, - xe_ID r))
                (filter (\<lambda>r. (TrimSpace source \<noteq> [] \<longrightarrow> xe_Source r = TrimSpace source) \<and>
                             (TrimSpace domain \<noteq> [] \<longrightarrow> xe_Domain r = TrimSpace domain))
                  (t_entities t))))))
           (\<lambda>rows d. (convert_rows (ToExternalEntity E) rows, d)))"

section \<open>Observations\<close>

type_synonym observation_key = "string \<times> string \<times> int \<times> string"

definition observation_key :: "external_observation_row \<Rightarrow> observation_key" where
  "observation_key r = (xo_Source r, xo_EntityID r, xo_TS r, xo_ValueSig r)"

text \<open>\<open>INSERT ... ON CONFLICT (source, entity_id, ts, value_sig) DO NOTHING\<close>, row by row.\<close>

definition put_observation :: "external_observation_row \<Rightarrow> tables \<Rightarrow> tables" where
  "put_observation row t =
     (if observation_key row \<in> observation_key ` set (t_observations t) then t
      else t\<lparr>t_observations := t_observations t @ [row\<lparr>xo_ID := t_next_observation t\<rparr>],
             t_next_observation := t_next_observation t + 1\<rparr>)"

definition repo_observation ::
    "external_env \<Rightarrow> int \<Rightarrow> external_observation \<Rightarrow> external_observation_row result" where
  "repo_observation E now item =
     (let source = TrimSpace (eo_Source item); entityID = TrimSpace (eo_EntityID item)
      in if source = [] \<or> entityID = [] then Inl (ErrText ''source/entity_id is required'')
         else
           let item = item\<lparr>eo_Source := source, eo_EntityID := entityID\<rparr>;
               item = (if eo_Timestamp item \<le> 0 then item\<lparr>eo_Timestamp := now\<rparr> else item);
               item = (if TrimSpace (eo_ValueSig item) = []
                       then item\<lparr>eo_ValueSig := ExternalObservationSignature E item\<rparr> else item)
           in NewExternalObservationRow E item)"

definition repo_BatchAppendExternalObservations ::
    "external_env \<Rightarrow> int \<Rightarrow> external_observation list \<Rightarrow> (unit, db) action" where
  "repo_BatchAppendExternalObservations E now items =
     (if length items = 0 then returnE ()
      else case convert_rows (repo_observation E now) items of
             Inl e \<Rightarrow> failE e
           | Inr rows \<Rightarrow> run_stmt (\<lambda>t. (Inr (), fold put_observation rows t)))"

definition repo_QueryExternalObservations ::
    "external_env \<Rightarrow> int \<Rightarrow> string \<Rightarrow> string \<Rightarrow> int \<Rightarrow> int \<Rightarrow> int \<Rightarrow> (external_observation list, db) action" where
  "repo_QueryExternalObservations E now source entityID start end limit =
     (let end = (if end \<le> 0 then now else end);
          start = (if start \<le> 0 \<or> end < start then end - 24 * hour div millisecond else start);
          limit = (if limit \<le> 0 then 1000 else limit)
      in bindE
           (run_query (\<lambda>t. take (nat limit) (sort_key xo_TS
              (filter (\<lambda>r. xo_Source r = TrimSpace source \<and> xo_EntityID r = TrimSpace entityID \<and>
                           start \<le> xo_TS r \<and> xo_TS r \<le> end) (t_observations t)))))
           (\<lambda>rows d. (convert_rows (ToExternalObservation E) rows, d)))"

section \<open>What is stored\<close>

text \<open>Two conversions one after the other are one conversion.\<close>

lemma convert_rows_compose:
  "convert_rows f xs = Inr ys \<Longrightarrow>
   convert_rows g ys = convert_rows (\<lambda>x. case f x of Inl e \<Rightarrow> Inl e | Inr y \<Rightarrow> g y) xs"
  by (induction xs arbitrary: ys) (auto split: sum.splits)

text \<open>
  The observations as a map from their key to their content; the entities as a map from source and
  identifier to what \<open>GetExternalEntity\<close> makes of the row.
\<close>

definition obs_map :: "external_observation_row list \<Rightarrow> observation_key \<Rightarrow> external_observation_row option" where
  "obs_map rs = map_of (map (\<lambda>r. (observation_key r, r\<lparr>xo_ID := 0\<rparr>)) rs)"

definition observed :: "db \<Rightarrow> observation_key \<Rightarrow> external_observation_row option" where
  "observed d = obs_map (t_observations (tabs d))"

definition entity_at :: "external_env \<Rightarrow> tables \<Rightarrow> string \<times> string \<Rightarrow> external_entity result option" where
  "entity_at E t k =
     map_option (ToExternalEntity E) (find (\<lambda>r. xe_Source r = fst k \<and> xe_EntityID r = snd k) (t_entities t))"

lemma observation_key_ID [simp]: "observation_key (r\<lparr>xo_ID := i\<rparr>) = observation_key r"
  by (simp add: observation_key_def)

lemma obs_map_simps [simp]:
  "obs_map [] = Map.empty"
  "obs_map (r # rs) = obs_map rs ++ [observation_key r \<mapsto> r\<lparr>xo_ID := 0\<rparr>]"
  by (simp_all add: obs_map_def)

lemma dom_obs_map: "dom (obs_map rs) = observation_key ` set rs"
  by (simp add: obs_map_def dom_map_of_conv_image_fst image_image)

lemma obs_map_snoc: "obs_map (rs @ [r]) = [observation_key r \<mapsto> r\<lparr>xo_ID := 0\<rparr>] ++ obs_map rs"
  by (simp add: obs_map_def)

lemma obs_map_put:
  "obs_map (t_observations (put_observation r t)) =
   [observation_key r \<mapsto> r\<lparr>xo_ID := 0\<rparr>] ++ obs_map (t_observations t)"
proof (cases "observation_key r \<in> observation_key ` set (t_observations t)")
  case True
  then have "observation_key r \<in> dom (obs_map (t_observations t))" by (simp add: dom_obs_map)
  then have "[observation_key r \<mapsto> r\<lparr>xo_ID := 0\<rparr>] ++ obs_map (t_observations t) = obs_map (t_observations t)"
    by (auto simp: map_add_def fun_eq_iff split: option.splits)
  with True show ?thesis by (simp add: put_observation_def)
qed (simp add: put_observation_def obs_map_snoc)

lemma obs_map_fold:
  "obs_map (t_observations (fold put_observation rs t)) = obs_map rs ++ obs_map (t_observations t)"
  by (induction rs arbitrary: t) (simp_all add: obs_map_put)

lemma keys_distinct_fold:
  "distinct (map observation_key (t_observations t)) \<Longrightarrow>
   distinct (map observation_key (t_observations (fold put_observation rs t)))"
proof (induction rs arbitrary: t)
  case (Cons r rs)
  have "distinct (map observation_key (t_observations (put_observation r t)))"
    using Cons.prems by (simp add: put_observation_def)
  with Cons.IH show ?case by simp
qed simp

lemma fold_put_present:
  "observation_key ` set rs \<subseteq> observation_key ` set (t_observations t) \<Longrightarrow> fold put_observation rs t = t"
  by (induction rs) (simp_all add: put_observation_def)

lemma ToExternalEntity_key [simp]:
  "ToExternalEntity E (r\<lparr>xe_ID := i, xe_TenantID := tn\<rparr>) = ToExternalEntity E r"
  "ToExternalEntity E (r\<lparr>xe_ID := i\<rparr>) = ToExternalEntity E r"
  by (simp_all add: ToExternalEntity_def split: sum.split)

lemma entity_at_put:
  "entity_at E (put_entity row t) =
   (entity_at E t)((xe_Source row, xe_EntityID row) \<mapsto> ToExternalEntity E row)"
proof
  fix k :: "string \<times> string"
  let ?P = "\<lambda>r. xe_Source r = fst k \<and> xe_EntityID r = snd k"
  let ?g = "\<lambda>r. if same_entity row r then row\<lparr>xe_ID := xe_ID r, xe_TenantID := xe_TenantID r\<rparr> else r"
  let ?key = "(xe_Source row, xe_EntityID row)"
  have other: "map_option (ToExternalEntity E) (find ?P (map ?g rs)) = map_option (ToExternalEntity E) (find ?P rs)"
    if "k \<noteq> ?key" for rs
    using that by (induction rs) (auto simp: same_entity_def prod_eq_iff)
  have same: "map_option (ToExternalEntity E) (find ?P (map ?g rs)) = Some (ToExternalEntity E row)"
    if "k = ?key" "\<exists>r \<in> set rs. same_entity row r" for rs
    using that(2) unfolding that(1) by (induction rs) (auto simp: same_entity_def)
  have new: "map_option (ToExternalEntity E) (find ?P (rs @ [row\<lparr>xe_ID := i\<rparr>])) =
      (if k = ?key then Some (ToExternalEntity E row) else map_option (ToExternalEntity E) (find ?P rs))"
    if "\<not> (\<exists>r \<in> set rs. same_entity row r)" for rs i
    using that by (induction rs) (auto simp: same_entity_def prod_eq_iff)
  show "entity_at E (put_entity row t) k = ((entity_at E t)(?key \<mapsto> ToExternalEntity E row)) k"
  proof (cases "\<exists>r \<in> set (t_entities t). same_entity row r")
    case True
    then have "t_entities (put_entity row t) = map ?g (t_entities t)" by (simp add: put_entity_def)
    then show ?thesis using other same True by (cases "k = ?key") (simp_all add: entity_at_def)
  next
    case False
    then have "t_entities (put_entity row t) = t_entities t @ [row\<lparr>xe_ID := t_next_entity t\<rparr>]"
      by (simp add: put_entity_def)
    then show ?thesis using new [OF False] by (cases "k = ?key") (simp_all add: entity_at_def)
  qed
qed

lemma repo_GetExternalEntity_spec:
  "faults d = [] \<Longrightarrow> repo_GetExternalEntity E s i d =
     (case entity_at E (tabs d) (s, i) of
        None \<Rightarrow> Inl (ErrText ''external entity not found'') | Some r \<Rightarrow> r, d)"
  by (auto simp: repo_GetExternalEntity_def entity_at_def bindE_def split: option.splits)

lemma repo_Batch_spec:
  assumes "repo_BatchAppendExternalObservations E now items d = (r, d')"
  shows "(\<forall>e. r = Inl e \<longrightarrow> tabs d' = tabs d) \<and>
    (\<forall>x. r = Inr x \<longrightarrow> (\<exists>rows. convert_rows (repo_observation E now) items = Inr rows \<and>
        tabs d' = fold put_observation rows (tabs d)))"
  using assms
  by (auto simp: repo_BatchAppendExternalObservations_def split: if_splits sum.splits
      dest: run_stmt_Inl run_stmt_Inr)

lemma repo_Upsert_spec:
  assumes "repo_UpsertExternalEntity E e d = (r, d')"
  shows "(\<forall>x. r = Inl x \<longrightarrow> tabs d' = tabs d) \<and>
    (\<forall>x. r = Inr x \<longrightarrow> (\<exists>row. NewExternalEntityRow E
          (e\<lparr>en_Source := TrimSpace (en_Source e), en_EntityID := TrimSpace (en_EntityID e),
             en_Domain := TrimSpace (en_Domain e),
             en_ValueType := (if TrimSpace (en_ValueType e) = [] then ''string'' else en_ValueType e)\<rparr>) = Inr row \<and>
        tabs d' = put_entity row (tabs d)))"
  using assms
  by (auto simp: repo_UpsertExternalEntity_def Let_def split: if_splits sum.splits
      dest: run_stmt_Inl run_stmt_Inr)

text \<open>The text of an object that can be read back.\<close>

definition json_faithful :: "external_env \<Rightarrow> any_map \<Rightarrow> bool" where
  "json_faithful E m \<longleftrightarrow>
     (case xv_Marshal E m of None \<Rightarrow> True | Some b \<Rightarrow> TrimSpace b \<noteq> [] \<and> xv_Unmarshal E b = Some m)"

text \<open>What a stored entity reads as.\<close>

definition stored_entity :: "external_entity \<Rightarrow> external_entity" where
  "stored_entity e =
     e\<lparr>en_Source := TrimSpace (en_Source e), en_EntityID := TrimSpace (en_EntityID e),
       en_Domain := TrimSpace (en_Domain e), en_GosterUUID := TrimSpace (en_GosterUUID e),
       en_DeviceID := TrimSpace (en_DeviceID e), en_Model := TrimSpace (en_Model e),
       en_Name := TrimSpace (en_Name e), en_RoomName := TrimSpace (en_RoomName e),
       en_Unit := TrimSpace (en_Unit e),
       en_ValueType := (if TrimSpace (en_ValueType e) = [] then ''string'' else TrimSpace (en_ValueType e)),
       en_DeviceClass := TrimSpace (en_DeviceClass e), en_StateClass := TrimSpace (en_StateClass e),
       en_LastText := NullableStringPtr (en_LastText e)\<rparr>"

lemma json_column:
  assumes "json_faithful E m" "NullableJSONString E m = Inr c"
  shows "ParseNullableJSONMap E c = Inr m"
  using assms by (auto simp: json_faithful_def NullableJSONString_def ParseNullableJSONMap_def split: if_splits option.splits)

lemma bool_column: "NullIntToBoolPtr (BoolPtrToNullableInt b) = b"
  by (simp add: NullIntToBoolPtr_def BoolPtrToNullableInt_def split: option.splits)

lemma TrimSpace_string [simp]: "TrimSpace ''string'' = ''string''" by code_simp

lemma entity_row_roundtrip:
  assumes "NewExternalEntityRow E
      (e\<lparr>en_Source := TrimSpace (en_Source e), en_EntityID := TrimSpace (en_EntityID e),
         en_Domain := TrimSpace (en_Domain e),
         en_ValueType := (if TrimSpace (en_ValueType e) = [] then ''string'' else en_ValueType e)\<rparr>) = Inr row"
    and "json_faithful E (en_Attributes e)"
  shows "ToExternalEntity E row = Inr (stored_entity e)"
    and "xe_Source row = TrimSpace (en_Source e)" "xe_EntityID row = TrimSpace (en_EntityID e)"
proof -
  from assms(1) obtain c where c: "NullableJSONString E (en_Attributes e) = Inr c"
    by (auto simp: NewExternalEntityRow_def split: sum.splits)
  note json_column [OF assms(2) c]
  with assms(1) c show "ToExternalEntity E row = Inr (stored_entity e)"
    by (cases e) (auto simp: NewExternalEntityRow_def ToExternalEntity_def stored_entity_def bool_column
      nullable_defs split: option.splits)
  from assms(1) c show "xe_Source row = TrimSpace (en_Source e)" "xe_EntityID row = TrimSpace (en_EntityID e)"
    by (auto simp: NewExternalEntityRow_def)
qed

end
