(* ===== verification/ExternalEntities.thy ===== *)
theory ExternalEntities
  imports ExternalStore AppConfig PlainText
begin

text \<open>
  \<^verbatim>\<open>device_manager/external_entity_service.go\<close>: what the core does with the entities of other
  platforms before they reach the repository, over the interface \<^verbatim>\<open>inter.ExternalEntityRepository\<close>.
  An \<open>int\<close> has 64 bits, so the offset of a page may wrap around.
\<close>

section \<open>The interface\<close>

record 'd external_repo_ops =
  xr_UpsertExternalEntity :: "external_entity \<Rightarrow> (unit, 'd) action"
  xr_GetExternalEntity :: "string \<Rightarrow> string \<Rightarrow> (external_entity, 'd) action"
  xr_ListExternalEntities :: "string \<Rightarrow> string \<Rightarrow> int \<Rightarrow> int \<Rightarrow> (external_entity list, 'd) action"
  xr_BatchAppendExternalObservations :: "external_observation list \<Rightarrow> (unit, 'd) action"
  xr_QueryExternalObservations ::
    "string \<Rightarrow> string \<Rightarrow> int \<Rightarrow> int \<Rightarrow> int \<Rightarrow> (external_observation list, 'd) action"

section \<open>The service\<close>

record external_service =
  xs_listDefaultSize :: int
  xs_listMaxSize :: int
  xs_observationDefaultLimit :: int
  xs_observationMaxLimit :: int

definition NewExternalEntityService :: "device_manager_config \<Rightarrow> external_service" where
  "NewExternalEntityService cfg =
     (let n = NormalizeDeviceManagerConfig cfg
      in \<lparr>xs_listDefaultSize = pg_DefaultSize (dc_ExternalListPage n),
          xs_listMaxSize = pg_MaxSize (dc_ExternalListPage n),
          xs_observationDefaultLimit = lm_Default (dc_ExternalObservationLimit n),
          xs_observationMaxLimit = lm_Max (dc_ExternalObservationLimit n)\<rparr>)"

definition GenerateExternalUUID :: "external_env \<Rightarrow> string \<Rightarrow> string \<Rightarrow> string" where
  "GenerateExternalUUID E source entityID =
     (let raw = ToLower (TrimSpace source) @ '':'' @ TrimSpace entityID
      in hex_encode (xv_sha256 E (bytes_of_string raw)))"

definition UpsertExternalEntity ::
    "external_env \<Rightarrow> 'd external_repo_ops \<Rightarrow> int \<Rightarrow> external_entity \<Rightarrow> (unit, 'd) action" where
  "UpsertExternalEntity E R now entity =
     (let entity = entity\<lparr>en_Source := TrimSpace (en_Source entity),
                          en_EntityID := TrimSpace (en_EntityID entity),
                          en_Domain := TrimSpace (en_Domain entity),
                          en_ValueType := TrimSpace (en_ValueType entity)\<rparr>
      in if en_Source entity = [] \<or> en_EntityID entity = [] \<or> en_Domain entity = []
         then failE (ErrText ''source/entity_id/domain is required'')
         else
           let entity = (if en_ValueType entity = [] then entity\<lparr>en_ValueType := ''string''\<rparr> else entity);
               entity = (if en_GosterUUID entity = []
                 then entity\<lparr>en_GosterUUID := GenerateExternalUUID E (en_Source entity) (en_EntityID entity)\<rparr>
                 else entity);
               entity = (if en_LastStateTS entity \<le> 0 then entity\<lparr>en_LastStateTS := now\<rparr> else entity)
           in xr_UpsertExternalEntity R entity)"

definition wrap64 :: "int \<Rightarrow> int" where
  "wrap64 x = (x + 2 ^ 63) mod 2 ^ 64 - 2 ^ 63"

definition ListExternalEntities ::
    "'d external_repo_ops \<Rightarrow> external_service \<Rightarrow> string \<Rightarrow> string \<Rightarrow> int \<Rightarrow> int \<Rightarrow>
     (external_entity list, 'd) action" where
  "ListExternalEntities R s source domain page sz =
     (let page = (if page \<le> 0 then 1 else page);
          sz = (if sz \<le> 0 then xs_listDefaultSize s else sz);
          sz = (if xs_listMaxSize s < sz then xs_listMaxSize s else sz);
          offset = wrap64 ((page - 1) * sz)
      in xr_ListExternalEntities R source domain sz offset)"

definition buildExternalObservationSignature :: "external_env \<Rightarrow> external_observation \<Rightarrow> string" where
  "buildExternalObservationSignature E item =
     (let payload =
        (case eo_ValueNum item of
           Some x \<Rightarrow> ''n:'' @ xv_FormatG E x @ ''|u:'' @ eo_Unit item
         | None \<Rightarrow>
             (case eo_ValueBool item of
                Some b \<Rightarrow> ''b:'' @ (if b then ''true'' else ''false'') @ ''|u:'' @ eo_Unit item
              | None \<Rightarrow>
                  (case eo_ValueText item of
                     Some t \<Rightarrow> ''t:'' @ t @ ''|u:'' @ eo_Unit item
                   | None \<Rightarrow>
                       if 0 < length (eo_ValueJSON item)
                       then ''j:'' @ (case xv_Marshal E (eo_ValueJSON item) of None \<Rightarrow> [] | Some b \<Rightarrow> b) @
                            ''|u:'' @ eo_Unit item
                       else ''empty|u:'' @ eo_Unit item)))
      in hex_encode (take 8 (xv_sha256 E (bytes_of_string payload))))"

definition normalized_observation ::
    "external_env \<Rightarrow> int \<Rightarrow> external_observation \<Rightarrow> external_observation result" where
  "normalized_observation E now item =
     (let item = item\<lparr>eo_Source := TrimSpace (eo_Source item), eo_EntityID := TrimSpace (eo_EntityID item)\<rparr>
      in if eo_Source item = [] \<or> eo_EntityID item = []
         then Inl (ErrText ''source/entity_id is required'')
         else
           let item = (if eo_Timestamp item \<le> 0 then item\<lparr>eo_Timestamp := now\<rparr> else item);
               item = (if TrimSpace (eo_ValueSig item) = []
                       then item\<lparr>eo_ValueSig := buildExternalObservationSignature E item\<rparr> else item)
           in Inr item)"

definition BatchAppendExternalObservations ::
    "external_env \<Rightarrow> 'd external_repo_ops \<Rightarrow> int \<Rightarrow> external_observation list \<Rightarrow> (unit, 'd) action" where
  "BatchAppendExternalObservations E R now items =
     (if length items = 0 then returnE ()
      else case convert_rows (normalized_observation E now) items of
             Inl e \<Rightarrow> failE e
           | Inr normalized \<Rightarrow> xr_BatchAppendExternalObservations R normalized)"

definition QueryExternalObservations ::
    "'d external_repo_ops \<Rightarrow> external_service \<Rightarrow> string \<Rightarrow> string \<Rightarrow> int \<Rightarrow> int \<Rightarrow> int \<Rightarrow>
     (external_observation list, 'd) action" where
  "QueryExternalObservations R s source entityID start end limit =
     (let source = TrimSpace source; entityID = TrimSpace entityID
      in if source = [] \<or> entityID = [] then failE (ErrText ''source/entity_id is required'')
         else
           let limit = (if limit \<le> 0 then xs_observationDefaultLimit s else limit);
               limit = (if xs_observationMaxLimit s < limit then xs_observationMaxLimit s else limit)
           in xr_QueryExternalObservations R source entityID start end limit)"

section \<open>The repository behind the interface\<close>

definition external_repository :: "external_env \<Rightarrow> int \<Rightarrow> db external_repo_ops" where
  "external_repository E now =
     \<lparr>xr_UpsertExternalEntity = repo_UpsertExternalEntity E,
      xr_GetExternalEntity = repo_GetExternalEntity E,
      xr_ListExternalEntities = repo_ListExternalEntities E,
      xr_BatchAppendExternalObservations = repo_BatchAppendExternalObservations E now,
      xr_QueryExternalObservations = repo_QueryExternalObservations E now\<rparr>"

section \<open>The contract of the interface\<close>

text \<open>
  \<open>obs d\<close> is what the store holds of an observation key and \<open>ent d\<close> what it answers for an entity;
  \<open>row_of\<close> is the row the store makes of an observation.
\<close>

locale external_repo =
  fixes E :: external_env and R :: "'d external_repo_ops"
    and row_of :: "external_observation \<Rightarrow> external_observation_row result"
    and obs :: "'d \<Rightarrow> observation_key \<Rightarrow> external_observation_row option"
    and ent :: "'d \<Rightarrow> string \<times> string \<Rightarrow> external_entity result option"
  assumes batch_fail: "xr_BatchAppendExternalObservations R items d = (Inl e, d') \<Longrightarrow>
      obs d' = obs d \<and> ent d' = ent d"
    and batch_ok: "xr_BatchAppendExternalObservations R items d = (Inr x, d') \<Longrightarrow>
      ent d' = ent d \<and> (\<exists>rows. convert_rows row_of items = Inr rows \<and> obs d' = obs_map rows ++ obs d)"
    and upsert_fail: "xr_UpsertExternalEntity R en d = (Inl e, d') \<Longrightarrow> obs d' = obs d \<and> ent d' = ent d"
    and upsert_ok: "xr_UpsertExternalEntity R en d = (Inr x, d') \<Longrightarrow> json_faithful E (en_Attributes en) \<Longrightarrow>
      obs d' = obs d \<and>
      ent d' = (ent d)((TrimSpace (en_Source en), TrimSpace (en_EntityID en)) \<mapsto> Inr (stored_entity en))"

text \<open>The row of an observation the service is given, and the entity it leaves in the store.\<close>

definition service_row ::
    "(external_observation \<Rightarrow> external_observation_row result) \<Rightarrow> external_env \<Rightarrow> int \<Rightarrow>
     external_observation \<Rightarrow> external_observation_row result" where
  "service_row row_of E now item =
     (case normalized_observation E now item of Inl e \<Rightarrow> Inl e | Inr it \<Rightarrow> row_of it)"

definition registered_entity :: "external_env \<Rightarrow> int \<Rightarrow> external_entity \<Rightarrow> external_entity" where
  "registered_entity E now e =
     (stored_entity e)\<lparr>en_GosterUUID := (if en_GosterUUID e = []
          then hex_encode (xv_sha256 E (bytes_of_string
            (ToLower (TrimSpace (en_Source e)) @ '':'' @ TrimSpace (en_EntityID e))))
          else TrimSpace (en_GosterUUID e)),
        en_LastStateTS := (if en_LastStateTS e \<le> 0 then now else en_LastStateTS e)\<rparr>"

context external_repo
begin

lemma service_batch:
  assumes "BatchAppendExternalObservations E R now items d = (r, d')"
  shows "ent d' = ent d \<and> (case r of Inl e \<Rightarrow> obs d' = obs d
    | Inr x \<Rightarrow> \<exists>rows. convert_rows (service_row row_of E now) items = Inr rows \<and> obs d' = obs_map rows ++ obs d)"
proof (cases "items = []")
  case True
  with assms show ?thesis by (auto simp: BatchAppendExternalObservations_def)
next
  case False
  show ?thesis
  proof (cases "convert_rows (normalized_observation E now) items")
    case (Inl e)
    with assms False show ?thesis by (auto simp: BatchAppendExternalObservations_def)
  next
    case (Inr ys)
    with assms False have "xr_BatchAppendExternalObservations R ys d = (r, d')"
      by (simp add: BatchAppendExternalObservations_def)
    moreover have "convert_rows row_of ys = convert_rows (service_row row_of E now) items"
      unfolding service_row_def by (rule convert_rows_compose [OF Inr])
    ultimately show ?thesis using batch_fail [of ys d _ d'] batch_ok [of ys d _ d'] by (cases r) auto
  qed
qed

lemma service_upsert:
  assumes "UpsertExternalEntity E R now e d = (r, d')" and "json_faithful E (en_Attributes e)"
  shows "obs d' = obs d \<and> (case r of Inl err \<Rightarrow> ent d' = ent d
    | Inr x \<Rightarrow> ent d' = (ent d)((TrimSpace (en_Source e), TrimSpace (en_EntityID e)) \<mapsto>
        Inr (registered_entity E now e)))"
proof (cases "TrimSpace (en_Source e) = [] \<or> TrimSpace (en_EntityID e) = [] \<or> TrimSpace (en_Domain e) = []")
  case True
  with assms(1) show ?thesis by (auto simp: UpsertExternalEntity_def Let_def)
next
  case False
  define en where "en = e\<lparr>en_Source := TrimSpace (en_Source e), en_EntityID := TrimSpace (en_EntityID e),
      en_Domain := TrimSpace (en_Domain e),
      en_ValueType := (if TrimSpace (en_ValueType e) = [] then ''string'' else TrimSpace (en_ValueType e)),
      en_GosterUUID := (if en_GosterUUID e = [] then GenerateExternalUUID E (en_Source e) (en_EntityID e)
        else en_GosterUUID e),
      en_LastStateTS := (if en_LastStateTS e \<le> 0 then now else en_LastStateTS e)\<rparr>"
  have run: "xr_UpsertExternalEntity R en d = (r, d')"
    using assms(1) False
    by (cases e) (simp add: UpsertExternalEntity_def Let_def en_def GenerateExternalUUID_def split: if_splits)
  have "stored_entity en = registered_entity E now e"
    by (cases e) (simp add: stored_entity_def registered_entity_def en_def GenerateExternalUUID_def Let_def)
  moreover have "json_faithful E (en_Attributes en)" using assms(2) by (simp add: en_def)
  moreover have "TrimSpace (en_Source en) = TrimSpace (en_Source e)"
    "TrimSpace (en_EntityID en) = TrimSpace (en_EntityID e)" by (simp_all add: en_def)
  ultimately show ?thesis using run by (cases r) (auto dest: upsert_fail upsert_ok)
qed

end

text \<open>The repository keeps the contract.\<close>

lemma repo_batch_ent:
  "entity_at E (fold put_observation rows t) = entity_at E t"
proof (induction rows arbitrary: t)
  case (Cons r rows)
  have "entity_at E (put_observation r t) = entity_at E t"
    by (simp add: fun_eq_iff entity_at_def put_observation_def)
  with Cons show ?case by simp
qed simp

lemma put_entity_observations [simp]: "t_observations (put_entity row t) = t_observations t"
  by (simp add: put_entity_def)

interpretation external: external_repo E "external_repository E now" "repo_observation E now" observed
    "\<lambda>d. entity_at E (tabs d)" for E now
proof
  fix items d e d' x en
  show "xr_BatchAppendExternalObservations (external_repository E now) items d = (Inl e, d') \<Longrightarrow>
      observed d' = observed d \<and> entity_at E (tabs d') = entity_at E (tabs d)"
    using repo_Batch_spec by (fastforce simp: external_repository_def observed_def)
  show "xr_BatchAppendExternalObservations (external_repository E now) items d = (Inr x, d') \<Longrightarrow>
      entity_at E (tabs d') = entity_at E (tabs d) \<and>
      (\<exists>rows. convert_rows (repo_observation E now) items = Inr rows \<and> observed d' = obs_map rows ++ observed d)"
    using repo_Batch_spec [of E now items d "Inr x" d']
    by (auto simp: external_repository_def observed_def obs_map_fold repo_batch_ent)
  show "xr_UpsertExternalEntity (external_repository E now) en d = (Inl e, d') \<Longrightarrow>
      observed d' = observed d \<and> entity_at E (tabs d') = entity_at E (tabs d)"
    using repo_Upsert_spec by (fastforce simp: external_repository_def observed_def)
  assume run: "xr_UpsertExternalEntity (external_repository E now) en d = (Inr x, d')"
    and json: "json_faithful E (en_Attributes en)"
  from run obtain row where row: "NewExternalEntityRow E
          (en\<lparr>en_Source := TrimSpace (en_Source en), en_EntityID := TrimSpace (en_EntityID en),
             en_Domain := TrimSpace (en_Domain en),
             en_ValueType := (if TrimSpace (en_ValueType en) = [] then ''string'' else en_ValueType en)\<rparr>) = Inr row"
    and tabs: "tabs d' = put_entity row (tabs d)"
    using repo_Upsert_spec [of E en d "Inr x" d'] by (auto simp: external_repository_def)
  show "observed d' = observed d \<and> entity_at E (tabs d') = (entity_at E (tabs d))
      ((TrimSpace (en_Source en), TrimSpace (en_EntityID en)) \<mapsto> Inr (stored_entity en))"
    using entity_row_roundtrip [OF row json] by (simp add: tabs observed_def entity_at_put)
qed

section \<open>Observations\<close>

abbreviation observation_row :: "external_env \<Rightarrow> int \<Rightarrow> external_observation \<Rightarrow> external_observation_row result" where
  "observation_row E now \<equiv> service_row (repo_observation E now) E now"

lemma batch_tabs:
  assumes "BatchAppendExternalObservations E (external_repository E now) now items d = (r, d')"
  shows "tabs d' = tabs d \<or>
    (\<exists>rows. convert_rows (observation_row E now) items = Inr rows \<and> tabs d' = fold put_observation rows (tabs d))"
proof (cases "convert_rows (normalized_observation E now) items")
  case (Inr ys)
  have rows: "convert_rows (repo_observation E now) ys = convert_rows (observation_row E now) items"
    unfolding service_row_def by (rule convert_rows_compose [OF Inr])
  from assms Inr have "items = [] \<and> d' = d \<or> repo_BatchAppendExternalObservations E now ys d = (r, d')"
    by (simp add: BatchAppendExternalObservations_def external_repository_def split: if_splits)
  then show ?thesis using repo_Batch_spec [of E now ys d r d'] rows by (cases r) auto
qed (use assms in \<open>auto simp: BatchAppendExternalObservations_def split: if_splits\<close>)

lemma observation_row_now:
  "0 < eo_Timestamp i \<Longrightarrow> observation_row E now i = observation_row E now' i"
  by (simp add: service_row_def normalized_observation_def repo_observation_def Let_def)

lemma convert_rows_cong:
  "(\<And>x. x \<in> set xs \<Longrightarrow> f x = g x) \<Longrightarrow> convert_rows f xs = convert_rows g xs"
  by (induction xs) (auto split: sum.splits)

text \<open>C23: A batch of observations that is accepted adds, for every source, entity, time and signature,
  the first observation the store sees of it, and keeps the ones it has; a batch that is refused
  adds nothing. So a batch whose observations carry their time may be sent again, at any later time and
  over a database that fails or not: the second sending changes no table.\<close>

theorem observations_stored_once:
  assumes "BatchAppendExternalObservations E (external_repository E now) now items d = (r, d')"
  shows "case r of
      Inl e \<Rightarrow> observed d' = observed d
    | Inr _ \<Rightarrow>
        (\<exists>rows. convert_rows (observation_row E now) items = Inr rows \<and> observed d' = obs_map rows ++ observed d) \<and>
        (list_all (\<lambda>i. 0 < eo_Timestamp i) items \<longrightarrow>
           tabs (snd (BatchAppendExternalObservations E (external_repository E now') now' items
             (d'\<lparr>faults := fs\<rparr>))) = tabs d')"
proof (cases r)
  case (Inl e)
  with external.service_batch [OF assms] show ?thesis by simp
next
  case (Inr x)
  with external.service_batch [OF assms] obtain rows where
    rows: "convert_rows (observation_row E now) items = Inr rows" "observed d' = obs_map rows ++ observed d"
    by auto
  have "observation_key ` set rows \<subseteq> dom (observed d')"
    using rows(2) dom_obs_map [of rows] by (simp add: dom_map_add)
  then have stored: "fold put_observation rows (tabs d') = tabs d'"
    using dom_obs_map [of "t_observations (tabs d')"] by (intro fold_put_present) (simp add: observed_def)
  have "tabs (snd (BatchAppendExternalObservations E (external_repository E now') now' items
             (d'\<lparr>faults := fs\<rparr>))) = tabs d'" if pos: "list_all (\<lambda>i. 0 < eo_Timestamp i) items"
  proof -
    have "convert_rows (observation_row E now') items = Inr rows"
      using rows(1) convert_rows_cong [of items "observation_row E now'" "observation_row E now"]
        observation_row_now pos by (metis list_all_iff)
    with batch_tabs [OF surjective_pairing, of E now' items "d'\<lparr>faults := fs\<rparr>"] stored show ?thesis by auto
  qed
  with Inr rows show ?thesis by auto
qed

text \<open>An environment to evaluate examples in.\<close>

definition example_external :: external_env where
  "example_external = \<lparr>xv_Marshal = (\<lambda>m. Some (''{'' @ concat (map fst m) @ ''}'')),
     xv_Unmarshal = (\<lambda>s. Some [(butlast (tl s), JNull)]), xv_FormatG = (\<lambda>x. if x = 0 then ''0'' else ''1''),
     xv_sha256 = toy_pad\<rparr>"

definition example_observation :: external_observation where
  "example_observation =
     \<lparr>eo_Source = '' ha '', eo_EntityID = ''light.kitchen'', eo_Timestamp = 7, eo_ValueNum = None,
      eo_ValueText = Some ''on'', eo_ValueBool = None, eo_ValueJSON = [], eo_Unit = [], eo_ValueSig = [],
      eo_RawEvent = []\<rparr>"

theorem observations_stored_once_witness:
  "fst (BatchAppendExternalObservations example_external (external_repository example_external 100) 100
      [example_observation, example_observation] empty_db) = Inr () \<and>
   length (t_observations (tabs (snd (BatchAppendExternalObservations example_external
      (external_repository example_external 100) 100 [example_observation, example_observation] empty_db)))) = 1 \<and>
   tabs (snd (BatchAppendExternalObservations example_external (external_repository example_external 900) 900
      [example_observation, example_observation]
      ((snd (BatchAppendExternalObservations example_external (external_repository example_external 100) 100
        [example_observation, example_observation] empty_db))\<lparr>faults := [False]\<rparr>))) =
   tabs (snd (BatchAppendExternalObservations example_external (external_repository example_external 100) 100
      [example_observation, example_observation] empty_db))"
proof -
  let ?b = "BatchAppendExternalObservations example_external (external_repository example_external 100) 100
      [example_observation, example_observation] empty_db"
  have "fst ?b = Inr ()" "length (t_observations (tabs (snd ?b))) = 1"
    "list_all (\<lambda>i. 0 < eo_Timestamp i) [example_observation, example_observation]" by code_simp+
  with observations_stored_once [OF surjective_pairing [of ?b], of 900 "[False]"] show ?thesis by simp
qed

text \<open>
  The signature of a text and its unit does not tell where the text ends, so that two different
  observations may have one signature; the second is then dropped as a duplicate.
\<close>

lemma signature_collision:
  "eo_ValueNum i = None \<Longrightarrow> eo_ValueBool i = None \<Longrightarrow>
   buildExternalObservationSignature E (i\<lparr>eo_ValueText := Some (a @ ''|u:'' @ b), eo_Unit := c\<rparr>) =
   buildExternalObservationSignature E (i\<lparr>eo_ValueText := Some a, eo_Unit := b @ ''|u:'' @ c\<rparr>)"
  by (simp add: buildExternalObservationSignature_def)

section \<open>Entities\<close>

text \<open>C24: An entity that is registered is answered, whatever is asked of it, in its normal form: its texts
  trimmed, the type of its value defaulted, its identifier derived from source and entity when it has
  none, its time the clock when it has none. Every other entity is answered as before, and a
  registration that is refused changes no answer.\<close>

theorem external_entity_registered:
  assumes "UpsertExternalEntity E (external_repository E now) now e d = (r, d')"
    and "json_faithful E (en_Attributes e)"
  shows "fst (repo_GetExternalEntity E s i (d'\<lparr>faults := []\<rparr>)) =
    (if r = Inr () \<and> s = TrimSpace (en_Source e) \<and> i = TrimSpace (en_EntityID e)
     then Inr (registered_entity E now e)
     else fst (repo_GetExternalEntity E s i (d\<lparr>faults := []\<rparr>)))"
  using external.service_upsert [OF assms] by (cases r) (simp_all add: repo_GetExternalEntity_spec)

definition example_entity :: external_entity where
  "example_entity =
     \<lparr>en_Source = ''ha'', en_EntityID = '' light.kitchen'', en_Domain = ''light'', en_GosterUUID = [],
      en_DeviceID = [], en_Model = [], en_Name = ''Lamp '', en_RoomName = [], en_Unit = [], en_ValueType = [],
      en_DeviceClass = [], en_StateClass = [], en_Attributes = [(''hue'', JNull)], en_LastStateTS = 0,
      en_LastText = Some '' '', en_LastNum = None, en_LastBool = Some False\<rparr>"

theorem external_entity_registered_witness:
  "fst (repo_GetExternalEntity example_external ''ha'' ''light.kitchen''
      ((snd (UpsertExternalEntity example_external (external_repository example_external 5) 5 example_entity
        empty_db))\<lparr>faults := []\<rparr>)) =
   Inr (registered_entity example_external 5 example_entity)"
proof -
  let ?u = "UpsertExternalEntity example_external (external_repository example_external 5) 5 example_entity empty_db"
  have "fst ?u = Inr ()" "json_faithful example_external (en_Attributes example_entity)"
    "TrimSpace (en_Source example_entity) = ''ha''" "TrimSpace (en_EntityID example_entity) = ''light.kitchen''"
    by code_simp+
  with external_entity_registered [OF surjective_pairing [of ?u]] show ?thesis by simp
qed

section \<open>Pages\<close>

definition listed_entities :: "string \<Rightarrow> string \<Rightarrow> tables \<Rightarrow> external_entity_row list" where
  "listed_entities source domain t =
     sort_key (\<lambda>r. (- xe_LastSeenTS r, - xe_ID r))
       (filter (\<lambda>r. (TrimSpace source \<noteq> [] \<longrightarrow> xe_Source r = TrimSpace source) \<and>
                    (TrimSpace domain \<noteq> [] \<longrightarrow> xe_Domain r = TrimSpace domain)) (t_entities t))"

lemma wrap64_id: "0 \<le> x \<Longrightarrow> x < 2 ^ 63 \<Longrightarrow> wrap64 x = x"
  by (simp add: wrap64_def mod_pos_pos_trivial)

lemma wrap64_neg:
  assumes "2 ^ 63 \<le> x" "x < 2 ^ 64"
  shows "wrap64 x < 0"
proof -
  have "(x + 2 ^ 63) mod 2 ^ 64 = (x - 2 ^ 63) mod 2 ^ 64"
    using mod_add_self2 [of "x - 2 ^ 63" "2 ^ 64"] by (simp add: algebra_simps)
  also have "\<dots> = x - 2 ^ 63" using assms by (simp add: mod_pos_pos_trivial)
  finally show ?thesis using assms by (simp add: wrap64_def)
qed

lemma service_sizes:
  "0 < xs_listDefaultSize (NewExternalEntityService cfg)" "0 < xs_listMaxSize (NewExternalEntityService cfg)"
  using NormalizeDeviceManagerConfig_ok(3) [of cfg] by (auto simp: NewExternalEntityService_def Let_def page_ok_def)

text \<open>C38: Listing answers page by page, in the order of the last change: a page holds at least one and at most
  the configured number of entities if there are so many, and consecutive pages are consecutive
  segments. The offset of a page is an integer of 64 bits: a page so far out that it exceeds them
  is the first page again.\<close>

theorem external_pages:
  assumes "faults d = []" and "s = NewExternalEntityService cfg"
    and "z = min (if sz \<le> 0 then xs_listDefaultSize s else sz) (xs_listMaxSize s)"
    and "(page - 1) * z < 2 ^ 64"
  shows "0 < z \<and> z \<le> xs_listMaxSize s \<and>
    ListExternalEntities (external_repository E now) s source domain page sz d =
      (convert_rows (ToExternalEntity E)
         (page_of (if (page - 1) * z < 2 ^ 63 then page else 1) z (listed_entities source domain (tabs d))), d) \<and>
    concat (map (\<lambda>p. page_of (int p + 1) z (listed_entities source domain (tabs d))) [0..<n]) =
      take (n * nat z) (listed_entities source domain (tabs d))"
proof (intro conjI)
  show z: "0 < z" "z \<le> xs_listMaxSize s" using service_sizes assms(2,3) by auto
  show "concat (map (\<lambda>p. page_of (int p + 1) z (listed_entities source domain (tabs d))) [0..<n]) =
      take (n * nat z) (listed_entities source domain (tabs d))"
    by (rule pages_concat [OF z(1)])
  let ?page = "if page \<le> 0 then 1 else page"
  let ?off = "wrap64 ((?page - 1) * z)"
  have eff: "(if xs_listMaxSize s < (if sz \<le> 0 then xs_listDefaultSize s else sz) then xs_listMaxSize s
      else (if sz \<le> 0 then xs_listDefaultSize s else sz)) = z"
    using assms(3) by (simp add: min_def)
  have off: "(if ?off < 0 then 0 else ?off) =
      ((if (page - 1) * z < 2 ^ 63 then ?page else 1) - 1) * z"
  proof (cases "(page - 1) * z < 2 ^ 63")
    case True
    moreover have "0 < page \<Longrightarrow> 0 \<le> (page - 1) * z" using z(1) by simp
    ultimately show ?thesis using wrap64_id [of "(page - 1) * z"] wrap64_id [of 0]
      by (cases "0 < page") (simp_all add: not_less)
  next
    case False
    then have "0 < (page - 1) * z" by simp
    then have "0 < page" using z(1) by (simp add: zero_less_mult_iff)
    with False show ?thesis using wrap64_neg [of "(page - 1) * z"] assms(4) by simp
  qed
  show "ListExternalEntities (external_repository E now) s source domain page sz d =
      (convert_rows (ToExternalEntity E)
         (page_of (if (page - 1) * z < 2 ^ 63 then page else 1) z (listed_entities source domain (tabs d))), d)"
    using z(1) assms(1) off
    by (simp add: ListExternalEntities_def Let_def eff external_repository_def repo_ListExternalEntities_def
        bindE_def page_of_def listed_entities_def split: if_splits)
qed

theorem external_pages_witness:
  "ListExternalEntities (external_repository example_external 0) (NewExternalEntityService DefaultDeviceManagerConfig)
     [] [] (2 ^ 62 + 1) 2
     (snd (UpsertExternalEntity example_external (external_repository example_external 5) 5 example_entity empty_db)) =
   (Inr [registered_entity example_external 5 example_entity],
    snd (UpsertExternalEntity example_external (external_repository example_external 5) 5 example_entity empty_db))"
proof -
  let ?d = "snd (UpsertExternalEntity example_external (external_repository example_external 5) 5 example_entity empty_db)"
  let ?s = "NewExternalEntityService DefaultDeviceManagerConfig"
  have "faults ?d = []" "(2::int) = min (if (2::int) \<le> 0 then xs_listDefaultSize ?s else 2) (xs_listMaxSize ?s)"
    by code_simp+
  note external_pages [OF this(1) refl this(2), of "2 ^ 62 + 1" example_external 0 "[]" "[]" 0]
  moreover have "convert_rows (ToExternalEntity example_external) (page_of 1 2 (listed_entities [] [] (tabs ?d))) =
      Inr [registered_entity example_external 5 example_entity]" by code_simp
  ultimately show ?thesis by simp
qed

end
