(* ===== verification/RuntimeStore.thy ===== *)
theory RuntimeStore
  imports ExternalEntities Telemetry UserStore
begin

text \<open>
  \<^verbatim>\<open>storage/runtime/store.go\<close>: the store the services and the web interface are given. It hands every
  call to the repository of its kind, and the repositories share one database. The operations on
  devices are those of the device repository itself, which the store embeds.
\<close>

section \<open>The calls\<close>

definition Store_AppendMetric :: "string \<Rightarrow> metric \<Rightarrow> (unit, db) action" where
  "Store_AppendMetric = AppendMetric device_ResolveDeviceTenant"

definition Store_BatchAppendMetrics :: "string \<Rightarrow> metric list \<Rightarrow> (unit, db) action" where
  "Store_BatchAppendMetrics = BatchAppendMetrics device_ResolveDeviceTenant"

definition Store_QueryMetrics :: "string \<Rightarrow> int \<Rightarrow> int \<Rightarrow> (metric list, db) action" where
  "Store_QueryMetrics = QueryMetrics"

definition Store_QueryMetricsByTenant :: "string \<Rightarrow> string \<Rightarrow> int \<Rightarrow> int \<Rightarrow> (metric list, db) action" where
  "Store_QueryMetricsByTenant = QueryMetricsByTenant"

definition Store_WriteLog :: "string \<Rightarrow> string \<Rightarrow> string \<Rightarrow> (unit, db) action" where
  "Store_WriteLog = WriteLog device_ResolveDeviceTenant"

definition Store_CreateDeviceCommand :: "string \<Rightarrow> core_cmd \<Rightarrow> string \<Rightarrow> bytes \<Rightarrow> (int, db) action" where
  "Store_CreateDeviceCommand = CreateDeviceCommand device_ResolveDeviceTenant"

definition Store_CreateDeviceCommandByTenant :: "string \<Rightarrow> string \<Rightarrow> core_cmd \<Rightarrow> string \<Rightarrow> bytes \<Rightarrow> (int, db) action" where
  "Store_CreateDeviceCommandByTenant = CreateDeviceCommandByTenant device_ResolveDeviceTenant"

definition Store_UpdateDeviceCommandStatus :: "int \<Rightarrow> command_status \<Rightarrow> string \<Rightarrow> time \<Rightarrow> (unit, db) action" where
  "Store_UpdateDeviceCommandStatus = UpdateDeviceCommandStatus"

definition Store_UpsertExternalEntity :: "external_env \<Rightarrow> external_entity \<Rightarrow> (unit, db) action" where
  "Store_UpsertExternalEntity = repo_UpsertExternalEntity"

definition Store_GetExternalEntity :: "external_env \<Rightarrow> string \<Rightarrow> string \<Rightarrow> (external_entity, db) action" where
  "Store_GetExternalEntity = repo_GetExternalEntity"

definition Store_ListExternalEntities :: "external_env \<Rightarrow> string \<Rightarrow> string \<Rightarrow> int \<Rightarrow> int \<Rightarrow> (external_entity list, db) action" where
  "Store_ListExternalEntities = repo_ListExternalEntities"

definition Store_BatchAppendExternalObservations :: "external_env \<Rightarrow> int \<Rightarrow> external_observation list \<Rightarrow> (unit, db) action" where
  "Store_BatchAppendExternalObservations = repo_BatchAppendExternalObservations"

definition Store_QueryExternalObservations :: "external_env \<Rightarrow> int \<Rightarrow> string \<Rightarrow> string \<Rightarrow> int \<Rightarrow> int \<Rightarrow> int \<Rightarrow> (external_observation list, db) action" where
  "Store_QueryExternalObservations = repo_QueryExternalObservations"

definition Store_GetUserCount :: "(nat, db) action" where
  "Store_GetUserCount = user_GetUserCount"

definition Store_ListUsers :: "(user list, db) action" where
  "Store_ListUsers = user_ListUsers"

definition Store_ListUsersByTenant :: "string \<Rightarrow> (user list, db) action" where
  "Store_ListUsersByTenant = user_ListUsersByTenant"

definition Store_GetUserPermission :: "string \<Rightarrow> (permission, db) action" where
  "Store_GetUserPermission = user_GetUserPermission"

definition Store_UpdateUserPermission :: "string \<Rightarrow> permission \<Rightarrow> time \<Rightarrow> (unit, db) action" where
  "Store_UpdateUserPermission = user_UpdateUserPermission"

definition Store_GetUserTenantRoles :: "string \<Rightarrow> ((string \<times> tenant_role) list, db) action" where
  "Store_GetUserTenantRoles = tenant_GetUserTenantRoles"

definition Store_ListTenants :: "(tenant list, db) action" where
  "Store_ListTenants = tenant_ListTenants"

definition Store_ListUserTenants :: "string \<Rightarrow> (tenant list, db) action" where
  "Store_ListUserTenants = tenant_ListUserTenants"

definition Store_GetTenant :: "string \<Rightarrow> (tenant, db) action" where
  "Store_GetTenant = tenant_GetTenant"

definition Store_CreateTenant :: "(string \<Rightarrow> bool) \<Rightarrow> tenant \<Rightarrow> time \<Rightarrow> (tenant, db) action" where
  "Store_CreateTenant = tenant_CreateTenant"

definition Store_CreateTenantWithOwner :: "(string \<Rightarrow> bool) \<Rightarrow> tenant \<Rightarrow> string \<Rightarrow> time \<Rightarrow> (tenant, db) action" where
  "Store_CreateTenantWithOwner = tenant_CreateTenantWithOwner"

definition Store_UpdateTenant :: "string \<Rightarrow> tenant \<Rightarrow> time \<Rightarrow> (tenant, db) action" where
  "Store_UpdateTenant = tenant_UpdateTenant"

definition Store_ListTenantUsers :: "string \<Rightarrow> (tenant_user list, db) action" where
  "Store_ListTenantUsers = tenant_ListTenantUsers"

definition Store_AddTenantUser :: "string \<Rightarrow> string \<Rightarrow> tenant_role \<Rightarrow> time \<Rightarrow> (unit, db) action" where
  "Store_AddTenantUser = tenant_AddTenantUser"

definition Store_RemoveTenantUser :: "string \<Rightarrow> string \<Rightarrow> (unit, db) action" where
  "Store_RemoveTenantUser = tenant_RemoveTenantUser"

definition Store_CreateTenantInvitation :: "tenant_invitation \<Rightarrow> bytes option \<Rightarrow> time \<Rightarrow> (tenant_invitation, db) action" where
  "Store_CreateTenantInvitation = tenant_CreateTenantInvitation"

definition Store_ListPendingInvitations :: "string \<Rightarrow> time \<Rightarrow> (tenant_invitation list, db) action" where
  "Store_ListPendingInvitations = tenant_ListPendingInvitations"

definition Store_GetInvitation :: "string \<Rightarrow> (tenant_invitation, db) action" where
  "Store_GetInvitation = getInvitation"

definition Store_AcceptInvitation :: "string \<Rightarrow> time \<Rightarrow> (unit, db) action" where
  "Store_AcceptInvitation = tenant_AcceptInvitation"

definition Store_RejectInvitation :: "string \<Rightarrow> time \<Rightarrow> (unit, db) action" where
  "Store_RejectInvitation = tenant_RejectInvitation"

section \<open>The interfaces of the store\<close>

text \<open>The parts of \<^verbatim>\<open>inter.CoreStore\<close> the services take.\<close>

definition store_telemetry :: "db telemetry_store_ops" where
  "store_telemetry = \<lparr>ts_BatchAppendMetrics = Store_BatchAppendMetrics, ts_WriteLog = Store_WriteLog\<rparr>"

definition store_commands :: "db command_repo_ops" where
  "store_commands =
     \<lparr>cr_CreateDeviceCommandByTenant = Store_CreateDeviceCommandByTenant,
      cr_UpdateDeviceCommandStatus = Store_UpdateDeviceCommandStatus\<rparr>"

definition store_external :: "external_env \<Rightarrow> int \<Rightarrow> db external_repo_ops" where
  "store_external E now =
     \<lparr>xr_UpsertExternalEntity = Store_UpsertExternalEntity E, xr_GetExternalEntity = Store_GetExternalEntity E,
      xr_ListExternalEntities = Store_ListExternalEntities E,
      xr_BatchAppendExternalObservations = Store_BatchAppendExternalObservations E now,
      xr_QueryExternalObservations = Store_QueryExternalObservations E now\<rparr>"

text \<open>What the services rest on: the store is the repositories.\<close>

lemma store_is_repositories:
  "store_telemetry = telemetry_repository"
  "store_commands = command_repository device_ResolveDeviceTenant"
  "store_external E now = external_repository E now"
  by (simp_all add: store_telemetry_def store_commands_def store_external_def telemetry_repository_def
      command_repository_def external_repository_def Store_BatchAppendMetrics_def Store_WriteLog_def
      Store_CreateDeviceCommandByTenant_def Store_UpdateDeviceCommandStatus_def Store_UpsertExternalEntity_def
      Store_GetExternalEntity_def Store_ListExternalEntities_def Store_BatchAppendExternalObservations_def
      Store_QueryExternalObservations_def)

interpretation store: external_repo E "store_external E now" "repo_observation E now" observed
    "\<lambda>d. entity_at E (tabs d)" for E now
  unfolding store_is_repositories by (rule external.external_repo_axioms)

end
