(* ===== verification/StoreOpening.thy ===== *)
theory StoreOpening
  imports AppConfig Database
begin

text \<open>
  How a process gets its stores, and gives them back: \<^verbatim>\<open>persistence/schema.go\<close>,
  \<^verbatim>\<open>persistence/auth_store.go\<close>, \<^verbatim>\<open>persistence/runtime_store.go\<close>,
  \<^verbatim>\<open>persistence/combined_store.go\<close>, \<^verbatim>\<open>storage/internal/bunrepo/store.go\<close> and
  \<^verbatim>\<open>cli/cli.go\<close>. Modelled are the connections that are open and the calls that fail:
  \<open>wr_fails\<close> says, call by call, which ones do. What a call does with the data of the database is the
  matter of the repositories and of the migration.
\<close>

record conn_handle =
  ch_ID :: nat
  ch_Driver :: string
  ch_DSN :: string

record resources =
  wr_open :: "conn_handle list"
  wr_next :: nat
  wr_fails :: "bool list"

section \<open>Connections\<close>

definition may_fail :: "(unit, resources) action" where
  "may_fail w =
     (case wr_fails w of
        True # fs \<Rightarrow> (Inl ErrDB, w\<lparr>wr_fails := fs\<rparr>)
      | fs \<Rightarrow> (Inr (), w\<lparr>wr_fails := tl fs\<rparr>))"

definition sql_Open :: "string \<Rightarrow> string \<Rightarrow> (conn_handle, resources) action" where
  "sql_Open driver dsn =
     bindE may_fail (\<lambda>_ w. let h = \<lparr>ch_ID = wr_next w, ch_Driver = driver, ch_DSN = dsn\<rparr>
        in (Inr h, w\<lparr>wr_open := h # wr_open w, wr_next := wr_next w + 1\<rparr>))"

text \<open>A connection is gone after \<open>Close\<close>, also when that returns an error.\<close>

definition sql_Close :: "conn_handle \<Rightarrow> (unit, resources) action" where
  "sql_Close h w =
     (case may_fail w of (r, w1) \<Rightarrow> (r, w1\<lparr>wr_open := filter (\<lambda>c. c \<noteq> h) (wr_open w1)\<rparr>))"

text \<open>\<open>_ = Close(h); return err\<close> and \<open>defer Close(h)\<close>\<close>

definition close_and_fail :: "conn_handle \<Rightarrow> go_error \<Rightarrow> ('a, resources) action" where
  "close_and_fail h e w = (case sql_Close h w of (_, w') \<Rightarrow> (Inl e, w'))"

definition defer_close :: "conn_handle \<Rightarrow> ('a, resources) action \<Rightarrow> ('a, resources) action" where
  "defer_close h body w = (case body w of (r, w1) \<Rightarrow> (case sql_Close h w1 of (_, w2) \<Rightarrow> (r, w2)))"

definition bun_open :: "conn_handle \<Rightarrow> (conn_handle, resources) action" where
  "bun_open h = bindE (catchE may_fail (close_and_fail h)) (\<lambda>_. returnE h)"

definition bun_OpenSQLite :: "string \<Rightarrow> (conn_handle, resources) action" where
  "bun_OpenSQLite path = bindE (sql_Open ''sqlite'' (path @ ''?_loc=Local'')) bun_open"

definition bun_OpenPostgres :: "string \<Rightarrow> (conn_handle, resources) action" where
  "bun_OpenPostgres dsn = bindE (sql_Open ''pgx'' (TrimSpace dsn)) bun_open"

definition CloseIfPossible :: "conn_handle \<Rightarrow> (unit, resources) action" where
  "CloseIfPossible h = sql_Close h"

section \<open>The schema\<close>

definition EnsureSQLite :: "string \<Rightarrow> (unit, resources) action" where
  "EnsureSQLite dbPath =
     bindE (sql_Open ''sqlite'' (dbPath @ ''?_loc=Local'')) (\<lambda>h. defer_close h may_fail)"

definition EnsurePostgres :: "string \<Rightarrow> (unit, resources) action" where
  "EnsurePostgres dsn = bindE (sql_Open ''pgx'' (TrimSpace dsn)) (\<lambda>h. defer_close h may_fail)"

definition EnsureSchema :: "db_config \<Rightarrow> (unit, resources) action" where
  "EnsureSchema cfg =
     (let cfg = NormalizeDBConfig cfg; driver = ToLower (TrimSpace (db_Driver cfg))
      in if driver = ''sqlite'' then EnsureSQLite (db_Path cfg)
         else if driver = ''postgres'' then
           (if TrimSpace (db_DSN cfg) = [] then failE (ErrText ''postgres dsn'') else EnsurePostgres (db_DSN cfg))
         else failE (ErrText ''unsupported database driver''))"

section \<open>The stores\<close>

text \<open>A probe for an account nobody has: any answer but a failure of the database will do.\<close>

definition validateAuthStore :: "conn_handle \<Rightarrow> (unit, resources) action" where
  "validateAuthStore store = may_fail"

definition opened :: "(conn_handle \<Rightarrow> (unit, resources) action) \<Rightarrow> conn_handle \<Rightarrow> (conn_handle, resources) action" where
  "opened validate store = bindE (catchE (validate store) (close_and_fail store)) (\<lambda>_. returnE store)"

definition OpenAuthStore :: "db_config \<Rightarrow> (conn_handle, resources) action" where
  "OpenAuthStore cfg =
     (let cfg = NormalizeDBConfig cfg; driver = ToLower (TrimSpace (db_Driver cfg));
          schema = (if db_SchemaMode cfg = ''bootstrap'' then EnsureSchema cfg else returnE ())
      in if driver = ''sqlite'' then
           bindE schema (\<lambda>_. bindE (bun_OpenSQLite (db_Path cfg)) (opened validateAuthStore))
         else if driver = ''postgres'' then
           (if TrimSpace (db_DSN cfg) = [] then failE (ErrText ''postgres dsn'')
            else bindE schema (\<lambda>_. bindE (bun_OpenPostgres (db_DSN cfg)) (opened validateAuthStore)))
         else failE (ErrText ''unsupported database driver''))"

text \<open>A page of the devices and the number of accounts.\<close>

definition validateRuntimeStore :: "conn_handle \<Rightarrow> (unit, resources) action" where
  "validateRuntimeStore store = bindE may_fail (\<lambda>_. bindE may_fail (\<lambda>_. returnE ()))"

definition openBunRuntimeStore :: "db_config \<Rightarrow> (conn_handle, resources) action" where
  "openBunRuntimeStore cfg =
     (if db_Driver cfg = ''sqlite'' then bindE (bun_OpenSQLite (db_Path cfg)) (opened validateRuntimeStore)
      else if db_Driver cfg = ''postgres'' then
        (if db_DSN cfg = [] then failE (ErrText ''postgres dsn'')
         else bindE (bun_OpenPostgres (db_DSN cfg)) (opened validateRuntimeStore))
      else failE (ErrText ''unsupported database driver''))"

definition OpenRuntimeStore :: "db_config \<Rightarrow> (conn_handle, resources) action" where
  "OpenRuntimeStore cfg =
     (let cfg = NormalizeDBConfig cfg
      in if db_SchemaMode cfg = ''bootstrap''
         then bindE (EnsureSchema cfg) (\<lambda>_. openBunRuntimeStore (cfg\<lparr>db_SchemaMode := ''managed''\<rparr>))
         else openBunRuntimeStore cfg)"

record combined_store =
  cs_Runtime :: conn_handle
  cs_Auth :: conn_handle

definition OpenStore :: "db_config \<Rightarrow> (combined_store, resources) action" where
  "OpenStore cfg =
     (let cfg = NormalizeDBConfig cfg; managed = cfg\<lparr>db_SchemaMode := ''managed''\<rparr>
      in bindE (if db_SchemaMode cfg \<noteq> ''managed'' then EnsureSchema cfg else returnE ()) (\<lambda>_.
         let cfg = managed
         in bindE (OpenRuntimeStore cfg) (\<lambda>runtimeStore.
            bindE (catchE (OpenAuthStore cfg) (close_and_fail runtimeStore)) (\<lambda>authStore.
            returnE \<lparr>cs_Runtime = runtimeStore, cs_Auth = authStore\<rparr>))))"

definition persistence_OpenSQLite :: "string \<Rightarrow> (combined_store, resources) action" where
  "persistence_OpenSQLite path =
     OpenStore \<lparr>db_Driver = ''sqlite'', db_Path = path, db_DSN = [], db_SchemaMode = []\<rparr>"

definition persistence_OpenPostgres :: "string \<Rightarrow> (combined_store, resources) action" where
  "persistence_OpenPostgres dsn =
     OpenStore \<lparr>db_Driver = ''postgres'', db_Path = [], db_DSN = dsn, db_SchemaMode = []\<rparr>"

text \<open>Both are closed; the first error is the result.\<close>

definition persistence_Close :: "combined_store \<Rightarrow> (unit, resources) action" where
  "persistence_Close s w =
     (case CloseIfPossible (cs_Auth s) w of (r1, w1) \<Rightarrow>
        (case CloseIfPossible (cs_Runtime s) w1 of (r2, w2) \<Rightarrow>
           (case r1 of Inl e \<Rightarrow> (Inl e, w2) | Inr _ \<Rightarrow> (r2, w2))))"

section \<open>The command line\<close>

text \<open>
  The server until it ends: after the stores the login library, the login service and the web server are
  set up and the web server runs; each may fail, and a cancelled context ends it without an error.
\<close>

definition serve :: "app_config result \<Rightarrow> (unit, resources) action" where
  "serve loaded =
     (case loaded of
        Inl e \<Rightarrow> failE e
      | Inr appCfg \<Rightarrow>
          let dbCfg = (cfg_DB appCfg)\<lparr>db_SchemaMode := ''managed''\<rparr>
          in bindE (OpenAuthStore dbCfg) (\<lambda>authStore. defer_close authStore (
             bindE (OpenRuntimeStore dbCfg) (\<lambda>runtimeStore. defer_close runtimeStore (
             bindE may_fail (\<lambda>_. bindE may_fail (\<lambda>_. bindE may_fail (\<lambda>_. may_fail))))))))"

definition runDBCommand :: "app_config result \<Rightarrow> string \<Rightarrow> (unit, resources) action" where
  "runDBCommand loaded action =
     (case loaded of
        Inl e \<Rightarrow> failE e
      | Inr appCfg \<Rightarrow>
          if action \<in> {''init'', ''migrate''} then EnsureSchema (cfg_DB appCfg)
          else failE (ErrText ''unknown db command''))"

definition RunWithArgs :: "app_config result \<Rightarrow> string list \<Rightarrow> (unit, resources) action" where
  "RunWithArgs loaded args =
     (case args of
        [] \<Rightarrow> serve loaded
      | a # rest \<Rightarrow>
          if a = ''serve'' then
            (if length args \<noteq> 1 then failE (ErrText ''serve arguments'') else serve loaded)
          else if a = ''db'' then
            (if length args < 2 then failE (ErrText ''db command'') else runDBCommand loaded (args ! 1))
          else failE (ErrText ''unknown command''))"

section \<open>Who closes what\<close>

definition res_ok :: "resources \<Rightarrow> bool" where
  "res_ok w \<longleftrightarrow> (\<forall>c \<in> set (wr_open w). ch_ID c < wr_next w)"

definition keeps_open :: "('a, resources) action \<Rightarrow> bool" where
  "keeps_open A \<longleftrightarrow> (\<forall>w r w'. res_ok w \<longrightarrow> A w = (r, w') \<longrightarrow> res_ok w' \<and> wr_open w' = wr_open w)"

text \<open>An action that leaves a connection open to a database when it succeeds, and none when it fails.\<close>

definition opens :: "(conn_handle, resources) action \<Rightarrow> bool" where
  "opens A \<longleftrightarrow> (\<forall>w r w'. res_ok w \<longrightarrow> A w = (r, w') \<longrightarrow> res_ok w' \<and>
     (case r of Inl e \<Rightarrow> wr_open w' = wr_open w
      | Inr h \<Rightarrow> wr_open w' = h # wr_open w \<and> h \<notin> set (wr_open w)))"

lemma keeps_simps [intro]:
  "keeps_open may_fail" "keeps_open (returnE x)" "keeps_open (failE e)"
  by (auto simp: keeps_open_def may_fail_def res_ok_def returnE_def failE_def split: list.splits bool.splits)

lemma keeps_openI:
  "(\<And>w r w'. res_ok w \<Longrightarrow> A w = (r, w') \<Longrightarrow> res_ok w' \<and> wr_open w' = wr_open w) \<Longrightarrow> keeps_open A"
  unfolding keeps_open_def by blast

lemma keeps_openD: "keeps_open A \<Longrightarrow> res_ok w \<Longrightarrow> A w = (r, w') \<Longrightarrow> res_ok w' \<and> wr_open w' = wr_open w"
  unfolding keeps_open_def by blast

lemma keeps_bind [intro]:
  assumes "keeps_open A" "\<And>x. keeps_open (B x)"
  shows "keeps_open (bindE A B)"
proof (rule keeps_openI)
  fix w r w'
  assume ok: "res_ok w" and run: "bindE A B w = (r, w')"
  obtain q w1 where a: "A w = (q, w1)" by fastforce
  note 1 = keeps_openD [OF assms(1) ok a]
  show "res_ok w' \<and> wr_open w' = wr_open w"
  proof (cases q)
    case (Inl e)
    with run a 1 show ?thesis by (simp add: bindE_def)
  next
    case (Inr x)
    with run a have "B x w1 = (r, w')" by (simp add: bindE_def)
    with keeps_openD [OF assms(2)] 1 show ?thesis by metis
  qed
qed

lemma opens_sql_Open [intro]: "opens (sql_Open d s)"
  by (auto simp: opens_def sql_Open_def bindE_def may_fail_def res_ok_def Let_def
      split: list.splits bool.splits prod.splits sum.splits)

lemma sql_Close_open:
  "res_ok w \<Longrightarrow> sql_Close h w = (r, w') \<Longrightarrow> res_ok w' \<and> wr_open w' = filter (\<lambda>c. c \<noteq> h) (wr_open w)"
  by (auto simp: sql_Close_def may_fail_def res_ok_def split: list.splits bool.splits prod.splits)

text \<open>The connection last opened is closed again.\<close>

lemma opens_deferred [intro]:
  assumes "opens A" "\<And>h. keeps_open (B h)"
  shows "keeps_open (bindE A (\<lambda>h. defer_close h (B h)))"
  unfolding keeps_open_def
proof (intro allI impI)
  fix w r w'
  assume ok: "res_ok w" and run: "bindE A (\<lambda>h. defer_close h (B h)) w = (r, w')"
  obtain q w1 where a: "A w = (q, w1)" by fastforce
  show "res_ok w' \<and> wr_open w' = wr_open w"
  proof (cases q)
    case (Inl e)
    with run a ok assms(1) show ?thesis by (fastforce simp: bindE_def opens_def)
  next
    case (Inr h)
    obtain r2 w2 where b: "B h w1 = (r2, w2)" by fastforce
    obtain r3 w3 where c: "sql_Close h w2 = (r3, w3)" by fastforce
    from a ok Inr assms(1) have 1: "res_ok w1" "wr_open w1 = h # wr_open w" "h \<notin> set (wr_open w)"
      unfolding opens_def by fastforce+
    from b 1 assms(2) have 2: "res_ok w2" "wr_open w2 = wr_open w1" unfolding keeps_open_def by blast+
    from run a Inr b c have "w' = w3" by (simp add: bindE_def defer_close_def)
    with sql_Close_open [OF 2(1) c] 1 2 show ?thesis by (auto simp: filter_id_conv)
  qed
qed

lemma opens_checked [intro]:
  assumes "opens A" "\<And>h. keeps_open (B h)"
  shows "opens (bindE A (\<lambda>h. bindE (catchE (B h) (close_and_fail h)) (\<lambda>_. returnE h)))"
  unfolding opens_def
proof (intro allI impI)
  fix w r w'
  assume ok: "res_ok w" and run: "bindE A (\<lambda>h. bindE (catchE (B h) (close_and_fail h)) (\<lambda>_. returnE h)) w = (r, w')"
  obtain q w1 where a: "A w = (q, w1)" by fastforce
  show "res_ok w' \<and> (case r of Inl e \<Rightarrow> wr_open w' = wr_open w
      | Inr h \<Rightarrow> wr_open w' = h # wr_open w \<and> h \<notin> set (wr_open w))"
  proof (cases q)
    case (Inl e)
    with run a ok assms(1) show ?thesis by (fastforce simp: bindE_def opens_def)
  next
    case (Inr h)
    obtain r2 w2 where b: "B h w1 = (r2, w2)" by fastforce
    from a ok Inr assms(1) have 1: "res_ok w1" "wr_open w1 = h # wr_open w" "h \<notin> set (wr_open w)"
      unfolding opens_def by fastforce+
    from b 1 assms(2) have 2: "res_ok w2" "wr_open w2 = wr_open w1" unfolding keeps_open_def by blast+
    show ?thesis
    proof (cases r2)
      case (Inl e)
      obtain r3 w3 where c: "sql_Close h w2 = (r3, w3)" by fastforce
      from run a Inr b Inl c have "w' = w3" "r = Inl e" by (simp_all add: bindE_def catchE_def close_and_fail_def)
      with sql_Close_open [OF 2(1) c] 1 2 show ?thesis by (auto simp: filter_id_conv)
    next
      case (Inr x)
      with run a \<open>q = Inr h\<close> b have "w' = w2" "r = Inr h" by (simp_all add: bindE_def catchE_def returnE_def)
      with 1 2 show ?thesis by simp
    qed
  qed
qed

lemma opensD:
  "opens A \<Longrightarrow> res_ok w \<Longrightarrow> A w = (r, w') \<Longrightarrow> res_ok w' \<and>
     (case r of Inl e \<Rightarrow> wr_open w' = wr_open w
      | Inr h \<Rightarrow> wr_open w' = h # wr_open w \<and> h \<notin> set (wr_open w))"
  unfolding opens_def by blast

lemma opens_after [intro]:
  assumes "keeps_open A" "\<And>x. opens (B x)"
  shows "opens (bindE A B)"
  unfolding opens_def
proof (intro allI impI)
  fix w r w'
  assume ok: "res_ok w" and run: "bindE A B w = (r, w')"
  obtain q w1 where a: "A w = (q, w1)" by fastforce
  note 1 = keeps_openD [OF assms(1) ok a]
  show "res_ok w' \<and> (case r of Inl e \<Rightarrow> wr_open w' = wr_open w
      | Inr h \<Rightarrow> wr_open w' = h # wr_open w \<and> h \<notin> set (wr_open w))"
  proof (cases q)
    case (Inl e)
    with run a have "r = Inl e" "w' = w1" by (simp_all add: bindE_def)
    with 1 show ?thesis by simp
  next
    case (Inr x)
    with run a have "B x w1 = (r, w')" by (simp add: bindE_def)
    from opensD [OF assms(2) conjunct1 [OF 1] this] show ?thesis unfolding conjunct2 [OF 1] .
  qed
qed

lemma opens_fail [intro]: "opens (failE e)"
  by (simp add: opens_def failE_def)


lemma opens_bun [intro]: "opens (bun_OpenSQLite path)" "opens (bun_OpenPostgres dsn)"
  unfolding bun_OpenSQLite_def bun_OpenPostgres_def bun_open_def by (auto intro!: opens_checked)

lemma keeps_EnsureSchema [intro]: "keeps_open (EnsureSchema cfg)"
  unfolding EnsureSchema_def EnsureSQLite_def EnsurePostgres_def Let_def by auto

lemma keeps_validate [intro]: "keeps_open (validateAuthStore h)" "keeps_open (validateRuntimeStore h)"
  unfolding validateAuthStore_def validateRuntimeStore_def by auto

lemma opens_validated [intro]:
  "opens A \<Longrightarrow> (\<And>h. keeps_open (validate h)) \<Longrightarrow> opens (bindE A (opened validate))"
  unfolding opened_def by (rule opens_checked)

lemma opens_OpenAuthStore [intro]: "opens (OpenAuthStore cfg)"
  unfolding OpenAuthStore_def Let_def by (auto intro!: opens_after opens_validated)

lemma opens_OpenRuntimeStore [intro]: "opens (OpenRuntimeStore cfg)"
  unfolding OpenRuntimeStore_def openBunRuntimeStore_def Let_def by (auto intro!: opens_after opens_validated)

lemma keeps_RunWithArgs: "keeps_open (RunWithArgs loaded args)"
proof -
  have "keeps_open (serve loaded)"
    unfolding serve_def Let_def by (cases loaded) (auto intro!: opens_deferred)
  moreover have "keeps_open (runDBCommand loaded a)" for a
    unfolding runDBCommand_def by (cases loaded) auto
  ultimately show ?thesis unfolding RunWithArgs_def by (cases args) auto
qed

lemma close_and_fail_open:
  "res_ok w \<Longrightarrow> close_and_fail h e w = (r, w') \<Longrightarrow>
     r = Inl e \<and> res_ok w' \<and> wr_open w' = filter (\<lambda>c. c \<noteq> h) (wr_open w)"
  unfolding close_and_fail_def by (cases "sql_Close h w") (auto dest: sql_Close_open)

lemma OpenStore_open:
  assumes "res_ok w" "OpenStore cfg w = (r, w')"
  shows "res_ok w' \<and> (case r of
     Inl e \<Rightarrow> wr_open w' = wr_open w
   | Inr s \<Rightarrow> wr_open w' = cs_Auth s # cs_Runtime s # wr_open w \<and> distinct [cs_Auth s, cs_Runtime s] \<and>
       cs_Auth s \<notin> set (wr_open w) \<and> cs_Runtime s \<notin> set (wr_open w))"
proof -
  define N where "N = NormalizeDBConfig cfg"
  define M where "M = N\<lparr>db_SchemaMode := ''managed''\<rparr>"
  define S where "S = (if db_SchemaMode N \<noteq> ''managed'' then EnsureSchema N else returnE ())"
  obtain r1 w1 where 1: "S w = (r1, w1)" by fastforce
  have "keeps_open S" unfolding S_def by auto
  note k1 = keeps_openD [OF this assms(1) 1]
  have run: "bindE S (\<lambda>_. bindE (OpenRuntimeStore M) (\<lambda>rt.
      bindE (catchE (OpenAuthStore M) (close_and_fail rt)) (\<lambda>au.
      returnE \<lparr>cs_Runtime = rt, cs_Auth = au\<rparr>))) w = (r, w')"
    using assms(2) unfolding OpenStore_def Let_def S_def M_def N_def .
  show ?thesis
  proof (cases r1)
    case (Inl e)
    with run 1 k1 show ?thesis by auto
  next
    case (Inr u)
    obtain r2 w2 where 2: "OpenRuntimeStore M w1 = (r2, w2)" by fastforce
    note k2 = opensD [OF opens_OpenRuntimeStore conjunct1 [OF k1] 2]
    show ?thesis
    proof (cases r2)
      case (Inl e)
      with run 1 Inr 2 have "r = Inl e" "w' = w2" by auto
      with k1 k2 Inl show ?thesis by simp
    next
      case rt: (Inr rt)
      obtain r3 w3 where 3: "OpenAuthStore M w2 = (r3, w3)" by fastforce
      note k3 = opensD [OF opens_OpenAuthStore conjunct1 [OF k2] 3]
      show ?thesis
      proof (cases r3)
        case (Inl e)
        obtain r4 :: "conn_handle result" and w4 where 4: "close_and_fail rt e w3 = (r4, w4)" by fastforce
        note k4 = close_and_fail_open [OF conjunct1 [OF k3] 4]
        have "catchE (OpenAuthStore M) (close_and_fail rt) w2 = (Inl e, w4)"
          using 3 Inl 4 k4 by (simp add: catchE_def)
        with run 1 Inr 2 rt have "r = Inl e" "w' = w4" by simp_all
        with k1 k2 k3 k4 rt Inl show ?thesis by (auto simp: filter_id_conv)
      next
        case au: (Inr au)
        have "catchE (OpenAuthStore M) (close_and_fail rt) w2 = (Inr au, w3)"
          using 3 au by (simp add: catchE_def)
        with run 1 Inr 2 rt have "r = Inr \<lparr>cs_Runtime = rt, cs_Auth = au\<rparr>" "w' = w3" by simp_all
        with k1 k2 k3 rt au show ?thesis by auto
      qed
    qed
  qed
qed

lemma persistence_Close_open:
  assumes "res_ok w" "persistence_Close s w = (r, w')"
  shows "wr_open w' = filter (\<lambda>c. c \<noteq> cs_Runtime s) (filter (\<lambda>c. c \<noteq> cs_Auth s) (wr_open w))"
proof -
  obtain r1 w1 where 1: "sql_Close (cs_Auth s) w = (r1, w1)" by fastforce
  obtain r2 w2 where 2: "sql_Close (cs_Runtime s) w1 = (r2, w2)" by fastforce
  note k1 = sql_Close_open [OF assms(1) 1]
  note k2 = sql_Close_open [OF conjunct1 [OF k1] 2]
  from assms(2) 1 2 have "w' = w2"
    by (cases r1) (simp_all add: persistence_Close_def CloseIfPossible_def)
  with k1 k2 show ?thesis by simp
qed

text \<open>C25: The program gives back every database connection it opens. Whatever arguments it is started with,
  whatever its configuration and whichever of its calls fail, on the error paths of the openers as on the
  ordinary way out, the connections that are open when it returns are those that were open
  before. A combined store that opens holds two new connections, one that does not holds none, and
  closing it gives both back even when closing the first one fails.\<close>
theorem program_closes_connections:
  assumes "res_ok w"
  shows "wr_open (snd (RunWithArgs loaded args w)) = wr_open w \<and>
     (case OpenStore cfg w of
        (Inl e, w1) \<Rightarrow> wr_open w1 = wr_open w
      | (Inr s, w1) \<Rightarrow> cs_Auth s \<noteq> cs_Runtime s \<and> cs_Auth s \<notin> set (wr_open w) \<and> cs_Runtime s \<notin> set (wr_open w) \<and>
          wr_open w1 = [cs_Auth s, cs_Runtime s] @ wr_open w \<and>
          wr_open (snd (persistence_Close s w1)) = wr_open w)"
proof
  show "wr_open (snd (RunWithArgs loaded args w)) = wr_open w"
    using keeps_openD [OF keeps_RunWithArgs assms, of loaded args] by (metis prod.collapse)
next
  obtain r w1 where o: "OpenStore cfg w = (r, w1)" by fastforce
  note k = OpenStore_open [OF assms o]
  show "case OpenStore cfg w of
        (Inl e, w1) \<Rightarrow> wr_open w1 = wr_open w
      | (Inr s, w1) \<Rightarrow> cs_Auth s \<noteq> cs_Runtime s \<and> cs_Auth s \<notin> set (wr_open w) \<and> cs_Runtime s \<notin> set (wr_open w) \<and>
          wr_open w1 = [cs_Auth s, cs_Runtime s] @ wr_open w \<and>
          wr_open (snd (persistence_Close s w1)) = wr_open w"
  proof (cases r)
    case (Inl e)
    with o k show ?thesis by simp
  next
    case (Inr s)
    obtain q w2 where c: "persistence_Close s w1 = (q, w2)" by fastforce
    from persistence_Close_open [OF conjunct1 [OF k] c] k Inr o c show ?thesis
      by (auto simp: filter_id_conv)
  qed
qed

text \<open>The server with one connection of another part open, where reading the accounts of the second store
  fails after both stores have connected.\<close>
lemma program_closes_connections_witness:
  "let w = \<lparr>wr_open = [\<lparr>ch_ID = 0, ch_Driver = ''pgx'', ch_DSN = ''x''\<rparr>], wr_next = 1,
            wr_fails = [False, False, False, False, False, True]\<rparr>
   in wr_open (snd (RunWithArgs (Inr DefaultAppConfig) [''serve''] w)) = wr_open w"
  unfolding Let_def
  by (rule program_closes_connections [THEN conjunct1]) (simp add: res_ok_def)

end
