(* ===== verification/GoFilepath.thy ===== *)
theory GoFilepath
  imports Prelude
begin

text \<open>
  The functions of \<^verbatim>\<open>path/filepath\<close> on a system whose separator is the slash, as the code uses them:
  \<open>Clean\<close>, \<open>Join\<close>, \<open>Dir\<close> and \<open>Base\<close>.
\<close>

text \<open>The elements of a cleaned path, last one first.\<close>

fun clean_parts :: "bool \<Rightarrow> string list \<Rightarrow> string list \<Rightarrow> string list" where
  "clean_parts rooted out [] = rev out"
| "clean_parts rooted out (p # ps) =
     (if p = [] \<or> p = ''.'' then clean_parts rooted out ps
      else if p = ''..'' then
        (case out of
           [] \<Rightarrow> clean_parts rooted (if rooted then [] else [p]) ps
         | q # rest \<Rightarrow> if q = ''..'' then clean_parts rooted (p # out) ps else clean_parts rooted rest ps)
      else clean_parts rooted (p # out) ps)"

definition Clean :: "string \<Rightarrow> string" where
  "Clean path =
     (let rooted = (path \<noteq> [] \<and> hd path = CHR ''/'');
          body = Join (clean_parts rooted [] (Split (CHR ''/'') path)) ''/''
      in if rooted then ''/'' @ body else if body = [] then ''.'' else body)"

text \<open>\<open>filepath.Join\<close>: empty elements are ignored, the result is cleaned unless there is no element.\<close>

definition path_join :: "string list \<Rightarrow> string" where
  "path_join elems =
     (let es = filter (\<lambda>e. e \<noteq> []) elems in if es = [] then [] else Clean (Join es ''/''))"

definition strip_slashes :: "string \<Rightarrow> string" where
  "strip_slashes path = rev (dropWhile (\<lambda>c. c = CHR ''/'') (rev path))"

definition path_base :: "string \<Rightarrow> string" where
  "path_base path =
     (if path = [] then ''.''
      else let p = strip_slashes path
           in if p = [] then ''/'' else last (Split (CHR ''/'') p))"

text \<open>\<open>filepath.Dir\<close>: what precedes the last element, cleaned.\<close>

definition path_dir :: "string \<Rightarrow> string" where
  "path_dir path = Clean (rev (dropWhile (\<lambda>c. c \<noteq> CHR ''/'') (rev path)))"

lemma filepath_examples:
  "Clean ''/a/./b/../c//'' = ''/a/c''" "Clean [] = ''.''" "Clean ''/..'' = ''/''" "Clean ''../../a'' = ''../../a''"
  "path_join [''/srv/'', [], ''db'', ''../x''] = ''/srv/x''" "path_base ''/db/0001_init.sql'' = ''0001_init.sql''"
  "path_dir ''/srv/bin/goster'' = ''/srv/bin''" "path_dir ''goster'' = ''.''"
  by code_simp+

end
