(* ===== verification/Migration.thy ===== *)
theory Migration
  imports UserStore GoFilepath
begin

text \<open>
  \<^verbatim>\<open>dbschema/migrate.go\<close>: bringing a database to the present schema when the program starts. A
  schema is its tables with their columns, the rows of \<^verbatim>\<open>schema_migrations\<close> and the data. What a
  statement of a migration script does is a parameter, since the script is a file the program
  reads; the statements written in the code are definitions. The driver fails with a text, and
  \<open>mg_faults\<close> lists, statement by statement, which ones it fails and how. The file system and the
  environment are parameters too.
\<close>

record schema =
  sm_tables :: "string \<Rightarrow> string list option"
  sm_versions :: "string list option"
  sm_data :: tables

record mig =
  mg_schema :: schema
  mg_faults :: "string option list"

record files =
  fl_MigrationsDir :: string
  fl_Getwd :: "string option"
  fl_Executable :: "string option"
  fl_Caller :: "string option"
  fl_IsDir :: "string \<Rightarrow> bool"
  fl_ReadDir :: "string \<Rightarrow> (string \<times> bool) list option"
  fl_ReadFile :: "string \<Rightarrow> string option"

type_synonym script_exec = "string \<Rightarrow> schema \<Rightarrow> schema result"
type_synonym statement = "schema \<Rightarrow> unit result \<times> schema"

section \<open>Statements and transactions\<close>

definition mig_stmt :: "(schema \<Rightarrow> 'a result \<times> schema) \<Rightarrow> ('a, mig) action" where
  "mig_stmt f m =
     (case mg_faults m of
        Some e # fs \<Rightarrow> (Inl (ErrText e), m\<lparr>mg_faults := fs\<rparr>)
      | fs \<Rightarrow> (case f (mg_schema m) of
                 (Inl e, s) \<Rightarrow> (Inl e, m\<lparr>mg_faults := tl fs\<rparr>)
               | (Inr x, s) \<Rightarrow> (Inr x, m\<lparr>mg_schema := s, mg_faults := tl fs\<rparr>)))"

definition mig_query :: "(schema \<Rightarrow> 'a) \<Rightarrow> ('a, mig) action" where
  "mig_query f = mig_stmt (\<lambda>s. (Inr (f s), s))"

text \<open>A transaction; a failure before the commit has succeeded rolls it back.\<close>

definition mig_tx :: "('a, mig) action \<Rightarrow> ('a, mig) action" where
  "mig_tx body m =
     (case mig_query (\<lambda>s. ()) m of
        (Inl e, m1) \<Rightarrow> (Inl e, m1)
      | (Inr _, m1) \<Rightarrow>
          (case body m1 of
             (Inl e, m2) \<Rightarrow> (Inl e, m2\<lparr>mg_schema := mg_schema m\<rparr>)
           | (Inr x, m2) \<Rightarrow>
               (case mig_query (\<lambda>s. ()) m2 of
                  (Inl e, m3) \<Rightarrow> (Inl e, m3\<lparr>mg_schema := mg_schema m\<rparr>)
                | (Inr _, m3) \<Rightarrow> (Inr x, m3))))"

text \<open>\<open>for ... { if err := f(x); err != nil { return err } }\<close>\<close>

fun for_all :: "('a \<Rightarrow> (unit, 's) action) \<Rightarrow> 'a list \<Rightarrow> (unit, 's) action" where
  "for_all f [] = returnE ()"
| "for_all f (x # xs) = bindE (f x) (\<lambda>_. for_all f xs)"

section \<open>Drivers\<close>

datatype driver = SQLite | Postgres

definition normalizeDriver :: "string \<Rightarrow> driver option" where
  "normalizeDriver driver =
     (let d = ToLower (TrimSpace driver)
      in if d = ''sqlite'' then Some SQLite else if d = ''postgres'' then Some Postgres else None)"

definition driver_dir :: "driver \<Rightarrow> string" where
  "driver_dir d = (case d of SQLite \<Rightarrow> ''sqlite'' | Postgres \<Rightarrow> ''postgres'')"

text \<open>What the drivers say of a missing table and of a column that exists.\<close>

definition no_table :: "driver \<Rightarrow> string \<Rightarrow> go_error" where
  "no_table d tbl =
     (case d of SQLite \<Rightarrow> ErrText (''SQL logic error: no such table: '' @ tbl)
      | Postgres \<Rightarrow> ErrText (''ERROR: relation '' @ tbl @ '' does not exist''))"

definition duplicate_column :: "string \<Rightarrow> go_error" where
  "duplicate_column col = ErrText (''SQL logic error: duplicate column name: '' @ col)"

definition error_text :: "go_error \<Rightarrow> string" where
  "error_text e = (case e of ErrText t \<Rightarrow> t | _ \<Rightarrow> [])"

section \<open>The table of versions\<close>

definition ensureMigrationsTable :: "(unit, mig) action" where
  "ensureMigrationsTable =
     mig_stmt (\<lambda>s. (Inr (), if sm_versions s = None then s\<lparr>sm_versions := Some []\<rparr> else s))"

definition versions_of :: "schema \<Rightarrow> string list" where
  "versions_of s = (case sm_versions s of None \<Rightarrow> [] | Some vs \<Rightarrow> vs)"

definition loadAppliedVersions :: "(string list, mig) action" where
  "loadAppliedVersions = mig_query (\<lambda>s. map TrimSpace (versions_of s))"

text \<open>The text of an SQL literal, and the string a literal denotes.\<close>

definition quoteSQLLiteral :: "string \<Rightarrow> string" where
  "quoteSQLLiteral value =
     [CHR 0x27] @ concat (map (\<lambda>c. if c = CHR 0x27 then [c, c] else [c]) value) @ [CHR 0x27]"

fun literal_rest :: "string \<Rightarrow> (string \<times> string) option" where
  "literal_rest [] = None"
| "literal_rest (c # cs) =
     (if c \<noteq> CHR 0x27 then map_option (\<lambda>(v, r). (c # v, r)) (literal_rest cs)
      else (case cs of
              d # ds \<Rightarrow> if d = CHR 0x27 then map_option (\<lambda>(v, r). (d # v, r)) (literal_rest ds)
                        else Some ([], cs)
            | [] \<Rightarrow> Some ([], [])))"

definition read_literal :: "string \<Rightarrow> (string \<times> string) option" where
  "read_literal s = (case s of c # cs \<Rightarrow> if c = CHR 0x27 then literal_rest cs else None | [] \<Rightarrow> None)"

text \<open>\<open>INSERT INTO schema_migrations(version) VALUES (...)\<close>; the version is the key.\<close>

definition record_version :: "string \<Rightarrow> statement" where
  "record_version version s =
     (case read_literal (quoteSQLLiteral version) of
        Some (v, []) \<Rightarrow>
          (if v \<in> set (versions_of s) then (Inl (ErrText ''UNIQUE constraint failed''), s)
           else (Inr (), s\<lparr>sm_versions := Some (versions_of s @ [v])\<rparr>))
      | _ \<Rightarrow> (Inl (ErrText ''syntax error''), s))"

section \<open>Migration scripts\<close>

text \<open>
  The rest of the text, the statement so far (last byte first), whether it is inside single and
  inside double quotes, and whether the last byte was a backslash.
\<close>

fun split_sql :: "string \<Rightarrow> string \<Rightarrow> bool \<Rightarrow> bool \<Rightarrow> bool \<Rightarrow> string list" where
  "split_sql [] built inSingle inDouble prevSlash =
     (let stmt = TrimSpace (rev built) in if stmt \<noteq> [] then [stmt] else [])"
| "split_sql (r # rs) built inSingle inDouble prevSlash =
     (if r = CHR '';'' \<and> \<not> inSingle \<and> \<not> inDouble
      then (let stmt = TrimSpace (rev built)
            in (if stmt \<noteq> [] then [stmt] else []) @ split_sql rs [] inSingle inDouble False)
      else split_sql rs (r # built)
             (if r = CHR 0x27 \<and> \<not> inDouble \<and> \<not> prevSlash then \<not> inSingle else inSingle)
             (if r = CHR 0x22 \<and> \<not> inSingle \<and> \<not> prevSlash then \<not> inDouble else inDouble)
             (r = CHR 0x5C))"

definition splitSQLStatements :: "string \<Rightarrow> string list" where
  "splitSQLStatements sqlText = split_sql sqlText [] False False False"

definition exec_script :: "script_exec \<Rightarrow> string \<Rightarrow> (unit, mig) action" where
  "exec_script X stmt =
     mig_stmt (\<lambda>s. case X stmt s of Inl e \<Rightarrow> (Inl e, s) | Inr s' \<Rightarrow> (Inr (), s'))"

definition applyMigrationFile ::
    "script_exec \<Rightarrow> files \<Rightarrow> string \<Rightarrow> string \<Rightarrow> (unit, mig) action" where
  "applyMigrationFile X F version path =
     (case fl_ReadFile F path of
        None \<Rightarrow> failE (ErrText ''read'')
      | Some content \<Rightarrow>
          mig_tx (bindE (for_all (exec_script X) (splitSQLStatements content))
            (\<lambda>_. mig_stmt (record_version version))))"

definition migration_candidates :: "files \<Rightarrow> string \<Rightarrow> string list" where
  "migration_candidates F d =
     (let v = TrimSpace (fl_MigrationsDir F)
      in (if v \<noteq> [] then [path_join [v, d]] else []) @
         (case fl_Getwd F of None \<Rightarrow> []
          | Some wd \<Rightarrow> [path_join [wd, ''db'', ''migrations'', d],
                        path_join [wd, ''go'', ''db'', ''migrations'', d]]) @
         (case fl_Executable F of None \<Rightarrow> []
          | Some exe \<Rightarrow>
              let exeDir = path_dir exe
              in [path_join [exeDir, ''db'', ''migrations'', d],
                  path_join [exeDir, ''..'', ''db'', ''migrations'', d]]) @
         (case fl_Caller F of None \<Rightarrow> []
          | Some file \<Rightarrow> [path_join [path_dir file, ''..'', ''..'', ''db'', ''migrations'', d]]))"

fun first_dir :: "files \<Rightarrow> string list \<Rightarrow> string list \<Rightarrow> string option" where
  "first_dir F seen [] = None"
| "first_dir F seen (c # cs) =
     (let dir = Clean c
      in if dir \<in> set seen then first_dir F seen cs
         else if fl_IsDir F dir then Some dir else first_dir F (dir # seen) cs)"

definition migrationDir :: "files \<Rightarrow> driver \<Rightarrow> string result" where
  "migrationDir F d =
     (case first_dir F [] (migration_candidates F (driver_dir d)) of
        None \<Rightarrow> Inl (ErrText ''migration dir not found'')
      | Some dir \<Rightarrow> Inr dir)"

definition HasSuffix :: "string \<Rightarrow> string \<Rightarrow> bool" where
  "HasSuffix s suf = is_prefix (rev suf) (rev s)"

definition listMigrationFiles :: "files \<Rightarrow> driver \<Rightarrow> string list result" where
  "listMigrationFiles F d =
     (case migrationDir F d of
        Inl e \<Rightarrow> Inl e
      | Inr dir \<Rightarrow>
          (case fl_ReadDir F dir of
             None \<Rightarrow> Inl (ErrText ''readdir'')
           | Some entries \<Rightarrow>
               Inr (sort (map (\<lambda>(name, _). path_join [dir, name])
                 (filter (\<lambda>(name, isDir). \<not> isDir \<and> HasSuffix (ToLower name) ''.sql'') entries)))))"

section \<open>Literals and statements\<close>

lemma literal_rest_quoted:
  "literal_rest (concat (map (\<lambda>c. if c = CHR 0x27 then [c, c] else [c]) v) @ [CHR 0x27]) = Some (v, [])"
  by (induction v) simp_all

lemma read_quoted [simp]: "read_literal (quoteSQLLiteral v) = Some (v, [])"
  by (simp add: read_literal_def quoteSQLLiteral_def literal_rest_quoted)

text \<open>
  The quoting rule of SQL, in which a backslash is no escape: \<open>sql_closed None s\<close> holds when the quotes
  of \<open>s\<close> are balanced and its semicolons are inside quotes.
\<close>

fun sql_closed :: "char option \<Rightarrow> string \<Rightarrow> bool" where
  "sql_closed q [] \<longleftrightarrow> q = None"
| "sql_closed None (c # cs) \<longleftrightarrow>
     (if c = CHR 0x27 \<or> c = CHR 0x22 then sql_closed (Some c) cs else c \<noteq> CHR '';'' \<and> sql_closed None cs)"
| "sql_closed (Some q) (c # cs) \<longleftrightarrow> (if c = q then sql_closed None cs else sql_closed (Some q) cs)"

definition sql_text :: "string \<Rightarrow> bool" where
  "sql_text s \<longleftrightarrow> sql_closed None s \<and> CHR 0x5C \<notin> set s"

lemma split_sql_closed:
  "sql_closed q s \<Longrightarrow> CHR 0x5C \<notin> set s \<Longrightarrow> q \<in> {None, Some (CHR 0x27), Some (CHR 0x22)} \<Longrightarrow>
   split_sql (s @ rest) built (q = Some (CHR 0x27)) (q = Some (CHR 0x22)) False =
   split_sql rest (rev s @ built) False False False"
proof (induction q s arbitrary: built rule: sql_closed.induct)
  case (2 c cs)
  then show ?case using "2.IH"(1) [of "c # built"] "2.IH"(2) [of "c # built"] by (cases "c = CHR 0x27 \<or> c = CHR 0x22") auto
next
  case (3 q c cs)
  then show ?case using "3.IH"(1) [of "c # built"] "3.IH"(2) [of "c # built"] by (cases "c = q") auto
qed simp

text \<open>A script whose statements have balanced quotes, semicolons only inside quotes and no backslash is cut
  into exactly its statements, trimmed, empty ones left out.\<close>

theorem statements_split:
  assumes "list_all sql_text ss"
  shows "splitSQLStatements (Join ss '';'') = filter (\<lambda>t. t \<noteq> []) (map TrimSpace ss)"
proof -
  have "split_sql (Join ss '';'') [] False False False = filter (\<lambda>t. t \<noteq> []) (map TrimSpace ss)"
    using assms
  proof (induction ss rule: induct_list012)
    case (2 s)
    then show ?case using split_sql_closed [of None s "[]" "[]"] by (simp add: sql_text_def Let_def)
  next
    case (3 s s' ss)
    then show ?case using split_sql_closed [of None s "CHR '';'' # Join (s' # ss) '';''" "[]"]
      by (simp add: sql_text_def Let_def)
  qed simp
  then show ?thesis by (simp add: splitSQLStatements_def)
qed

theorem statements_split_witness:
  "splitSQLStatements (Join [''INSERT INTO demo VALUES ('' @ [CHR 0x27] @ ''a;b'' @ [CHR 0x27] @ '')'',
      CHR 0x0A # ''CREATE TABLE demo (id INTEGER)'', [CHR 0x0A]] '';'') =
   [''INSERT INTO demo VALUES ('' @ [CHR 0x27] @ ''a;b'' @ [CHR 0x27] @ '')'', ''CREATE TABLE demo (id INTEGER)'']"
proof -
  let ?ss = "[''INSERT INTO demo VALUES ('' @ [CHR 0x27] @ ''a;b'' @ [CHR 0x27] @ '')'',
      CHR 0x0A # ''CREATE TABLE demo (id INTEGER)'', [CHR 0x0A]]"
  have "list_all sql_text ?ss" by code_simp
  moreover have "filter (\<lambda>t. t \<noteq> []) (map TrimSpace ?ss) =
      [''INSERT INTO demo VALUES ('' @ [CHR 0x27] @ ''a;b'' @ [CHR 0x27] @ '')'', ''CREATE TABLE demo (id INTEGER)'']"
    by code_simp
  ultimately show ?thesis using statements_split [of ?ss] by metis
qed

text \<open>
  A comment is read like a statement, so an apostrophe in it hides every semicolon after it; and a
  backslash before a closing quote, an ordinary character of SQL, is taken for an escape.
\<close>

lemma comment_swallows_statements:
  "splitSQLStatements (''-- it'' @ [CHR 0x27] @ ''s;SELECT 1;SELECT 2;'') =
   [''-- it'' @ [CHR 0x27] @ ''s;SELECT 1;SELECT 2;'']"
  "splitSQLStatements (''SELECT '' @ [CHR 0x27, CHR 0x5C, CHR 0x27] @ '';SELECT 2'') =
   [''SELECT '' @ [CHR 0x27, CHR 0x5C, CHR 0x27] @ '';SELECT 2'']"
  by code_simp+

end
