(* ===== verification/SchemaUpgrade.thy ===== *)
theory SchemaUpgrade
  imports Migration
begin

text \<open>
  The statements \<^verbatim>\<open>dbschema/migrate.go\<close> runs after the scripts to bring older databases up to date,
  and \<open>Ensure\<close>, which puts everything together. A statement fails when its table or one of its columns
  is missing; \<open>now\<close> is the clock of the database. The table of the commands of other platforms holds
  no data of the model, so a statement on its rows only checks the columns.
\<close>

section \<open>Statements\<close>

text \<open>\<open>SELECT COUNT(*) FROM table\<close>, of which only the failure matters.\<close>

definition tableExists :: "driver \<Rightarrow> string \<Rightarrow> (bool, mig) action" where
  "tableExists D tbl =
     catchE
       (mig_stmt (\<lambda>s. case sm_tables s tbl of None \<Rightarrow> (Inl (no_table D tbl), s) | Some _ \<Rightarrow> (Inr True, s)))
       (\<lambda>e. let msg = ToLower (error_text e)
            in if Contains msg ''no such table'' \<or> Contains msg ''does not exist'' \<or>
                  Contains msg ''undefined table''
               then returnE False else failE e)"

fun legacy_tables :: "driver \<Rightarrow> string list \<Rightarrow> (bool, mig) action" where
  "legacy_tables D [] = returnE False"
| "legacy_tables D (tbl # tbls) =
     bindE (tableExists D tbl) (\<lambda>ok. if ok then returnE True else legacy_tables D tbls)"

definition looksLikeLegacySchema :: "driver \<Rightarrow> (bool, mig) action" where
  "looksLikeLegacySchema D = legacy_tables D [''devices'', ''metrics'', ''logs'', ''users'']"

text \<open>\<open>ALTER TABLE ... ADD COLUMN\<close>; \<open>fill\<close> puts the default in the rows the table has.\<close>

definition add_column :: "driver \<Rightarrow> string \<Rightarrow> string \<Rightarrow> (tables \<Rightarrow> tables) \<Rightarrow> statement" where
  "add_column D tbl col fill s =
     (case sm_tables s tbl of
        None \<Rightarrow> (Inl (no_table D tbl), s)
      | Some cols \<Rightarrow>
          if col \<in> set cols
          then (case D of SQLite \<Rightarrow> (Inl (duplicate_column col), s) | Postgres \<Rightarrow> (Inr (), s))
          else (Inr (), s\<lparr>sm_tables := (sm_tables s)(tbl \<mapsto> cols @ [col]), sm_data := fill (sm_data s)\<rparr>))"

definition has_columns :: "schema \<Rightarrow> string \<Rightarrow> string list \<Rightarrow> bool" where
  "has_columns s tbl cols \<longleftrightarrow>
     (case sm_tables s tbl of None \<Rightarrow> False | Some cs \<Rightarrow> set cols \<subseteq> set cs)"

text \<open>A statement on columns of a table that changes the data.\<close>

definition on_columns ::
    "driver \<Rightarrow> (string \<times> string list) list \<Rightarrow> (tables \<Rightarrow> unit result \<times> tables) \<Rightarrow> statement" where
  "on_columns D needs f s =
     (case filter (\<lambda>(tbl, cols). \<not> has_columns s tbl cols) needs of
        (tbl, _) # _ \<Rightarrow> (Inl (no_table D tbl), s)
      | [] \<Rightarrow> (case f (sm_data s) of (Inl e, t) \<Rightarrow> (Inl e, s) | (Inr x, t) \<Rightarrow> (Inr (), s\<lparr>sm_data := t\<rparr>)))"

definition create_index :: "driver \<Rightarrow> string \<Rightarrow> string list \<Rightarrow> statement" where
  "create_index D tbl cols = on_columns D [(tbl, cols)] (\<lambda>t. (Inr (), t))"

text \<open>\<open>INSERT INTO tenants ... ON CONFLICT(id) DO NOTHING\<close>; the name is a key of its own.\<close>

definition put_legacy_tenant :: "time \<Rightarrow> tables \<Rightarrow> unit result \<times> tables" where
  "put_legacy_tenant now t =
     (if find_tenant DefaultTenantID t \<noteq> None then (Inr (), t)
      else if \<exists>r \<in> set (t_tenants t). tn_Name r = ''legacy'' then (Inl (ErrText ''UNIQUE constraint failed''), t)
      else (Inr (), t\<lparr>t_tenants := t_tenants t @
             [\<lparr>tn_ID = DefaultTenantID, tn_Name = ''legacy'', tn_Status = ''active'',
               tn_CreatedAt = now, tn_UpdatedAt = now\<rparr>]\<rparr>))"

definition insert_legacy :: "driver \<Rightarrow> time \<Rightarrow> statement" where
  "insert_legacy D now =
     on_columns D [(''tenants'', [''id'', ''name'', ''status''])] (put_legacy_tenant now)"

text \<open>\<open>tenant_id IS NULL OR TRIM(tenant_id) = ''\<close>: \<open>TRIM\<close> removes spaces only.\<close>

definition blank_sql :: "string \<Rightarrow> bool" where
  "blank_sql s \<longleftrightarrow> list_all (\<lambda>c. c = CHR '' '') s"

definition or_legacy :: "string \<Rightarrow> string" where
  "or_legacy tenantID = (if blank_sql tenantID then DefaultTenantID else tenantID)"

definition device_tenants :: "(string \<Rightarrow> string) \<Rightarrow> tables \<Rightarrow> tables" where
  "device_tenants g t = t\<lparr>t_devices := map (\<lambda>r. r\<lparr>d_TenantID := g (d_TenantID r)\<rparr>) (t_devices t)\<rparr>"

definition metric_tenants :: "(string \<Rightarrow> string) \<Rightarrow> tables \<Rightarrow> tables" where
  "metric_tenants g t = t\<lparr>t_metrics := map (\<lambda>r. r\<lparr>mr_TenantID := g (mr_TenantID r)\<rparr>) (t_metrics t)\<rparr>"

definition log_tenants :: "(string \<Rightarrow> string) \<Rightarrow> tables \<Rightarrow> tables" where
  "log_tenants g t = t\<lparr>t_logs := map (\<lambda>r. r\<lparr>lg_TenantID := g (lg_TenantID r)\<rparr>) (t_logs t)\<rparr>"

definition entity_tenants :: "(string \<Rightarrow> string) \<Rightarrow> tables \<Rightarrow> tables" where
  "entity_tenants g t = t\<lparr>t_entities := map (\<lambda>r. r\<lparr>xe_TenantID := g (xe_TenantID r)\<rparr>) (t_entities t)\<rparr>"

definition observation_tenants :: "(string \<Rightarrow> string) \<Rightarrow> tables \<Rightarrow> tables" where
  "observation_tenants g t =
     t\<lparr>t_observations := map (\<lambda>r. r\<lparr>xo_TenantID := g (xo_TenantID r)\<rparr>) (t_observations t)\<rparr>"

definition metric_types :: "tables \<Rightarrow> tables" where
  "metric_types t = t\<lparr>t_metrics := map (\<lambda>r. r\<lparr>mr_Type := 0\<rparr>) (t_metrics t)\<rparr>"

definition legacy_update :: "driver \<Rightarrow> string \<Rightarrow> (tables \<Rightarrow> tables) \<Rightarrow> statement" where
  "legacy_update D tbl f = on_columns D [(tbl, [''tenant_id''])] (\<lambda>t. (Inr (), f t))"

text \<open>
  The accounts become members of the legacy tenant, with the role of their permission; a member
  that is there gets that role.
\<close>

definition legacy_member :: "time \<Rightarrow> user_row \<Rightarrow> tenant_user" where
  "legacy_member now u =
     \<lparr>tu_TenantID = DefaultTenantID, tu_Username = u_Username u,
      tu_Role = (if 3 \<le> permission_level (u_Permission u) then ''tenant_admin''
                 else if permission_level (u_Permission u) = 2 then ''tenant_rw'' else ''tenant_ro''),
      tu_CreatedAt = now\<rparr>"

definition put_legacy_members :: "time \<Rightarrow> tables \<Rightarrow> tables" where
  "put_legacy_members now t =
     t\<lparr>t_tenant_users := fold (\<lambda>u. put_member (legacy_member now u))
         (filter (\<lambda>u. \<not> blank_sql (u_Username u)) (t_users t)) (t_tenant_users t)\<rparr>"

definition insert_legacy_members :: "time \<Rightarrow> statement" where
  "insert_legacy_members now =
     on_columns SQLite
       [(''tenant_users'', [''tenant_id'', ''username'', ''role'']), (''users'', [''username'', ''permission''])]
       (\<lambda>t. (Inr (), put_legacy_members now t))"

section \<open>SQLite\<close>

abbreviation legacy_of :: "string \<Rightarrow> string" where "legacy_of \<equiv> \<lambda>_. DefaultTenantID"

definition sqlite_columns :: "statement list" where
  "sqlite_columns =
     [add_column SQLite ''metrics'' ''type'' metric_types,
      add_column SQLite ''devices'' ''tenant_id'' (device_tenants legacy_of),
      add_column SQLite ''metrics'' ''tenant_id'' (metric_tenants legacy_of),
      add_column SQLite ''logs'' ''tenant_id'' (log_tenants legacy_of),
      add_column SQLite ''integration_external_entities'' ''tenant_id'' (entity_tenants legacy_of),
      add_column SQLite ''integration_external_observations'' ''tenant_id'' (observation_tenants legacy_of),
      add_column SQLite ''integration_external_commands'' ''tenant_id'' id]"

definition isSQLiteDuplicateColumnError :: "go_error \<Rightarrow> bool" where
  "isSQLiteDuplicateColumnError e \<longleftrightarrow> Contains (ToLower (error_text e)) ''duplicate column name''"

definition applySQLiteCompatColumns :: "(unit, mig) action" where
  "applySQLiteCompatColumns =
     for_all (\<lambda>stmt. catchE (mig_stmt stmt)
       (\<lambda>e. if \<not> isSQLiteDuplicateColumnError e then failE e else returnE ())) sqlite_columns"

definition compat_indexes :: "driver \<Rightarrow> statement list" where
  "compat_indexes D =
     [create_index D ''metrics'' [''uuid'', ''type'', ''ts''],
      create_index D ''devices'' [''tenant_id'', ''uuid''],
      create_index D ''metrics'' [''tenant_id'', ''uuid'', ''ts''],
      create_index D ''logs'' [''tenant_id'', ''uuid'', ''created_at''],
      create_index D ''integration_external_entities'' [''tenant_id'', ''source'', ''domain''],
      create_index D ''integration_external_observations'' [''tenant_id'', ''source'', ''entity_id'', ''ts''],
      create_index D ''integration_external_commands'' [''tenant_id'', ''source'', ''status'', ''requested_at'']]"

definition sqlite_post :: "time \<Rightarrow> statement list" where
  "sqlite_post now =
     compat_indexes SQLite @
     [insert_legacy SQLite now,
      legacy_update SQLite ''devices'' (device_tenants or_legacy),
      legacy_update SQLite ''metrics'' (metric_tenants or_legacy),
      legacy_update SQLite ''logs'' (log_tenants or_legacy),
      legacy_update SQLite ''integration_external_entities'' (entity_tenants or_legacy),
      legacy_update SQLite ''integration_external_observations'' (observation_tenants or_legacy),
      legacy_update SQLite ''integration_external_commands'' id,
      insert_legacy_members now]"

definition applySQLiteCompatPost :: "time \<Rightarrow> (unit, mig) action" where
  "applySQLiteCompatPost now = for_all mig_stmt (sqlite_post now)"

section \<open>PostgreSQL\<close>

definition postgres_failed :: "go_error \<Rightarrow> go_error" where
  "postgres_failed e = ErrText (''postgres compat upgrade failed: '' @ error_text e)"

definition postgres_columns :: "statement list" where
  "postgres_columns =
     [add_column Postgres ''devices'' ''tenant_id'' (device_tenants legacy_of),
      add_column Postgres ''metrics'' ''type'' metric_types,
      add_column Postgres ''metrics'' ''tenant_id'' (metric_tenants legacy_of),
      add_column Postgres ''logs'' ''tenant_id'' (log_tenants legacy_of),
      add_column Postgres ''integration_external_entities'' ''tenant_id'' (entity_tenants legacy_of),
      add_column Postgres ''integration_external_observations'' ''tenant_id'' (observation_tenants legacy_of),
      add_column Postgres ''integration_external_commands'' ''tenant_id'' id]"

definition applyPostgresCompatColumns :: "(unit, mig) action" where
  "applyPostgresCompatColumns =
     for_all (\<lambda>stmt. catchE (mig_stmt stmt) (\<lambda>e. failE (postgres_failed e))) postgres_columns"

definition postgres_post :: "time \<Rightarrow> statement list" where
  "postgres_post now = compat_indexes Postgres @ [insert_legacy Postgres now]"

definition applyPostgresCompatPost :: "time \<Rightarrow> (unit, mig) action" where
  "applyPostgresCompatPost now =
     for_all (\<lambda>stmt. catchE (mig_stmt stmt) (\<lambda>e. failE (postgres_failed e))) (postgres_post now)"

section \<open>Ensure\<close>

definition applyCompatColumnUpgrades :: "driver \<Rightarrow> (unit, mig) action" where
  "applyCompatColumnUpgrades D =
     (case D of SQLite \<Rightarrow> applySQLiteCompatColumns | Postgres \<Rightarrow> applyPostgresCompatColumns)"

definition applyCompatUpgrades :: "driver \<Rightarrow> time \<Rightarrow> (unit, mig) action" where
  "applyCompatUpgrades D now =
     (case D of
        SQLite \<Rightarrow> bindE applySQLiteCompatColumns (\<lambda>_. applySQLiteCompatPost now)
      | Postgres \<Rightarrow> bindE applyPostgresCompatColumns (\<lambda>_. applyPostgresCompatPost now))"

definition Ensure :: "script_exec \<Rightarrow> files \<Rightarrow> string \<Rightarrow> time \<Rightarrow> (unit, mig) action" where
  "Ensure X F driver now =
     (case normalizeDriver driver of
        None \<Rightarrow> failE (ErrText ''unsupported migration driver'')
      | Some D \<Rightarrow>
          bindE (mig_query (\<lambda>s. ())) (\<lambda>_.
          bindE ensureMigrationsTable (\<lambda>_.
          bindE loadAppliedVersions (\<lambda>applied.
          bindE (if length applied = 0
                 then bindE (looksLikeLegacySchema D)
                        (\<lambda>legacy. if legacy then applyCompatColumnUpgrades D else returnE ())
                 else returnE ()) (\<lambda>_.
          case listMigrationFiles F D of
            Inl e \<Rightarrow> failE e
          | Inr files \<Rightarrow>
              bindE (for_all (\<lambda>file. let version = path_base file
                                     in if version \<in> set applied then returnE ()
                                        else applyMigrationFile X F version file) files)
                (\<lambda>_. applyCompatUpgrades D now))))))"

end
