(* ===== verification/MigrationSteps.thy ===== *)
theory MigrationSteps
  imports SchemaUpgrade
begin

text \<open>
  \<open>Ensure\<close> as a list of steps. \<open>impl A s ss v\<close> says that from the schema \<open>s\<close> the action \<open>A\<close> runs the
  steps \<open>ss\<close> in order and returns \<open>v\<close>: without failures of the driver it does what the steps do, and
  whatever the driver fails, it stops after some of them. A failure whose text the code takes for a
  missing table or an existing column is not a plain one.
\<close>

section \<open>Steps\<close>

fun run_steps :: "statement list \<Rightarrow> statement" where
  "run_steps [] s = (Inr (), s)"
| "run_steps (f # fs) s = (case f s of (Inl e, _) \<Rightarrow> (Inl e, s) | (Inr _, s') \<Rightarrow> run_steps fs s')"

lemma run_steps_append:
  "run_steps (fs @ gs) s = (case run_steps fs s of (Inl e, s') \<Rightarrow> (Inl e, s') | (Inr _, s') \<Rightarrow> run_steps gs s')"
  by (induction fs arbitrary: s) (auto split: prod.splits sum.splits)

lemma run_steps_take:
  "run_steps (take k fs) s = (Inr x, s') \<Longrightarrow> run_steps fs s = run_steps (drop k fs) s'"
  using run_steps_append [of "take k fs" "drop k fs" s] by simp

definition plain_fault :: "string option \<Rightarrow> bool" where
  "plain_fault f \<longleftrightarrow> (case f of None \<Rightarrow> True
     | Some e \<Rightarrow> let m = ToLower e in \<not> Contains m ''no such table'' \<and> \<not> Contains m ''does not exist'' \<and>
         \<not> Contains m ''undefined table'' \<and> \<not> Contains m ''duplicate column name'')"

text \<open>What a run of an action may leave: its result \<open>r\<close> and its state \<open>m\<close>, when the driver fails as \<open>fs\<close>.\<close>

definition outcome ::
    "schema \<Rightarrow> statement list \<Rightarrow> 'a \<Rightarrow> string option list \<Rightarrow> 'a result \<Rightarrow> mig \<Rightarrow> bool" where
  "outcome s ss v fs r m \<longleftrightarrow>
     list_all plain_fault (mg_faults m) \<and>
     (\<exists>k \<le> length ss. run_steps (take k ss) s = (Inr (), mg_schema m) \<and>
        (\<forall>x. r = Inr x \<longrightarrow> k = length ss \<and> x = v)) \<and>
     (fs = [] \<longrightarrow> mg_faults m = [] \<and>
        run_steps ss s = (map_sum id (\<lambda>_. ()) r, mg_schema m))"

definition impl :: "('a, mig) action \<Rightarrow> schema \<Rightarrow> statement list \<Rightarrow> 'a \<Rightarrow> bool" where
  "impl A s ss v \<longleftrightarrow>
     (\<forall>fs r m. list_all plain_fault fs \<longrightarrow> A \<lparr>mg_schema = s, mg_faults = fs\<rparr> = (r, m) \<longrightarrow>
        outcome s ss v fs r m)"

lemma implI:
  "(\<And>fs r m. list_all plain_fault fs \<Longrightarrow> A \<lparr>mg_schema = s, mg_faults = fs\<rparr> = (r, m) \<Longrightarrow>
      outcome s ss v fs r m) \<Longrightarrow> impl A s ss v"
  by (simp add: impl_def)

lemma implD:
  "impl A s ss v \<Longrightarrow> list_all plain_fault fs \<Longrightarrow> A \<lparr>mg_schema = s, mg_faults = fs\<rparr> = (r, m) \<Longrightarrow>
   outcome s ss v fs r m"
  by (simp add: impl_def)

lemma outcome_stop:
  "list_all plain_fault (mg_faults m) \<Longrightarrow> mg_schema m = s \<Longrightarrow>
   (fs = [] \<Longrightarrow> mg_faults m = [] \<and> run_steps ss s = (Inl e, s)) \<Longrightarrow> outcome s ss v fs (Inl e) m"
  unfolding outcome_def by (auto intro!: exI [of _ 0])

lemma outcome_done:
  "list_all plain_fault (mg_faults m) \<Longrightarrow> run_steps ss s = (Inr (), mg_schema m) \<Longrightarrow>
   (fs = [] \<Longrightarrow> mg_faults m = []) \<Longrightarrow> outcome s ss v fs (Inr v) m"
  unfolding outcome_def by (auto intro!: exI [of _ "length ss"])

lemma impl_return: "impl (returnE v) s [] v"
  by (rule implI) (auto simp: returnE_def intro!: outcome_done)

lemma mig_stmt_cases:
  assumes "mig_stmt f \<lparr>mg_schema = s, mg_faults = fs\<rparr> = (r, m)"
  obtains (fault) e fs' where "fs = Some e # fs'" "r = Inl (ErrText e)" "m = \<lparr>mg_schema = s, mg_faults = fs'\<rparr>"
  | (err) e s' where "f s = (Inl e, s')" "r = Inl e" "m = \<lparr>mg_schema = s, mg_faults = tl fs\<rparr>"
  | (ok) x s' where "f s = (Inr x, s')" "r = Inr x" "m = \<lparr>mg_schema = s', mg_faults = tl fs\<rparr>"
proof (cases "\<exists>e fs'. fs = Some e # fs'")
  case True
  with assms fault show ?thesis by (auto simp: mig_stmt_def)
next
  case False
  then have "(case f s of (Inl e, _) \<Rightarrow> (Inl e, \<lparr>mg_schema = s, mg_faults = tl fs\<rparr>)
      | (Inr x, s') \<Rightarrow> (Inr x, \<lparr>mg_schema = s', mg_faults = tl fs\<rparr>)) = (r, m)"
    using assms by (cases fs; cases "f s"; cases "fst (f s)"; cases "hd fs") (auto simp: mig_stmt_def)
  then show ?thesis using err ok by (cases "f s"; cases "fst (f s)") auto
qed

lemma plain_tl: "list_all plain_fault fs \<Longrightarrow> list_all plain_fault (tl fs)"
  by (cases fs) simp_all

lemma impl_statement: "impl (mig_stmt f) s [f] ()"
proof (rule implI)
  fix fs r m
  assume fs: "list_all plain_fault fs" and run: "mig_stmt f \<lparr>mg_schema = s, mg_faults = fs\<rparr> = (r, m)"
  from run show "outcome s [f] () fs r m"
    by (cases rule: mig_stmt_cases) (use fs plain_tl in \<open>auto intro!: outcome_stop outcome_done\<close>)
qed

lemma impl_query: "impl (mig_query f) s [] (f s)"
proof (rule implI)
  fix fs r m
  assume fs: "list_all plain_fault fs" and "mig_query f \<lparr>mg_schema = s, mg_faults = fs\<rparr> = (r, m)"
  then have "mig_stmt (\<lambda>s. (Inr (f s), s)) \<lparr>mg_schema = s, mg_faults = fs\<rparr> = (r, m)" by (simp add: mig_query_def)
  then show "outcome s [] (f s) fs r m"
    by (cases rule: mig_stmt_cases) (use fs plain_tl in \<open>auto intro!: outcome_stop outcome_done\<close>)
qed

lemma impl_bind:
  assumes A: "impl A s ss v" and B: "\<And>s'. run_steps ss s = (Inr (), s') \<Longrightarrow> impl (B v) s' ts w"
  shows "impl (bindE A B) s (ss @ ts) w"
proof (rule implI)
  fix fs r m
  assume fs: "list_all plain_fault fs" and run: "bindE A B \<lparr>mg_schema = s, mg_faults = fs\<rparr> = (r, m)"
  obtain q m1 where a: "A \<lparr>mg_schema = s, mg_faults = fs\<rparr> = (q, m1)" by (cases "A \<lparr>mg_schema = s, mg_faults = fs\<rparr>")
  note A1 = implD [OF A fs a]
  then obtain k where k: "k \<le> length ss" "run_steps (take k ss) s = (Inr (), mg_schema m1)"
    "\<forall>x. q = Inr x \<longrightarrow> k = length ss \<and> x = v" by (auto simp: outcome_def)
  show "outcome s (ss @ ts) w fs r m"
  proof (cases q)
    case (Inl e)
    with run a have "r = Inl e" "m = m1" by (simp_all add: bindE_def)
    with A1 k Inl show ?thesis unfolding outcome_def by (auto simp: run_steps_append intro!: exI [of _ k])
  next
    case (Inr x)
    with k have x: "x = v" and all: "run_steps ss s = (Inr (), mg_schema m1)" by auto
    from run a Inr x have b: "B v \<lparr>mg_schema = mg_schema m1, mg_faults = mg_faults m1\<rparr> = (r, m)"
      by (cases m1) (simp add: bindE_def)
    have B1: "outcome (mg_schema m1) ts w (mg_faults m1) r m"
      using A1 by (intro implD [OF B [OF all] _ b]) (simp add: outcome_def)
    then obtain j where j: "j \<le> length ts" "run_steps (take j ts) (mg_schema m1) = (Inr (), mg_schema m)"
      "\<forall>x. r = Inr x \<longrightarrow> j = length ts \<and> x = w" by (auto simp: outcome_def)
    have "run_steps (take (length ss + j) (ss @ ts)) s = (Inr (), mg_schema m)"
      using j(2) all by (simp add: run_steps_append)
    moreover have "list_all plain_fault (mg_faults m)" using B1 by (simp add: outcome_def)
    moreover have "mg_faults m = [] \<and> run_steps (ss @ ts) s = (map_sum id (\<lambda>_. ()) r, mg_schema m)" if "fs = []"
    proof -
      have "mg_faults m1 = []" using A1 that by (simp add: outcome_def)
      with B1 all show ?thesis by (simp add: outcome_def run_steps_append)
    qed
    ultimately show ?thesis using j(1,3) unfolding outcome_def
      by (intro conjI exI [of _ "length ss + j"]) auto
  qed
qed

lemma impl_seq: "impl A s ss () \<Longrightarrow> (\<And>s'. impl B s' ts w) \<Longrightarrow> impl (bindE A (\<lambda>_. B)) s (ss @ ts) w"
  by (rule impl_bind [where v = "()"])

lemma impl_for_all:
  "(\<And>x s. x \<in> set xs \<Longrightarrow> impl (f x) s [g x] ()) \<Longrightarrow> impl (for_all f xs) s (map g xs) ()"
proof (induction xs arbitrary: s)
  case (Cons x xs)
  have "impl (bindE (f x) (\<lambda>_. for_all f xs)) s ([g x] @ map g xs) ()"
    using Cons by (intro impl_bind) auto
  then show ?case by simp
qed (simp add: impl_return)

text \<open>Steps that do nothing.\<close>

lemma run_steps_noop: "(\<And>f. f \<in> set fs \<Longrightarrow> f s = (Inr (), s)) \<Longrightarrow> run_steps (fs @ gs) s = run_steps gs s"
proof (induction fs)
  case (Cons f fs)
  have "f s = (Inr (), s)" and "run_steps (fs @ gs) s = run_steps gs s" using Cons by simp_all
  then show ?case by simp
qed simp

section \<open>The stages of \<open>Ensure\<close>\<close>

text \<open>A transaction is one step.\<close>

definition tx_step :: "statement list \<Rightarrow> statement" where
  "tx_step ss s = (case run_steps ss s of (Inl e, _) \<Rightarrow> (Inl e, s) | (Inr _, s') \<Rightarrow> (Inr (), s'))"

lemma mig_query_cases:
  assumes "mig_query f \<lparr>mg_schema = s, mg_faults = fs\<rparr> = (r, m)"
  obtains (fault) e fs' where "fs = Some e # fs'" "r = Inl (ErrText e)" "m = \<lparr>mg_schema = s, mg_faults = fs'\<rparr>"
  | (ok) "r = Inr (f s)" "m = \<lparr>mg_schema = s, mg_faults = tl fs\<rparr>"
proof -
  have "mig_stmt (\<lambda>s. (Inr (f s), s)) \<lparr>mg_schema = s, mg_faults = fs\<rparr> = (r, m)"
    using assms by (simp add: mig_query_def)
  then show thesis by (cases rule: mig_stmt_cases) (use fault ok in auto)
qed

lemma impl_tx:
  assumes body: "impl body s ss ()"
  shows "impl (mig_tx body) s [tx_step ss] ()"
proof (rule implI)
  fix fs r m
  assume fs: "list_all plain_fault fs" and run: "mig_tx body \<lparr>mg_schema = s, mg_faults = fs\<rparr> = (r, m)"
  obtain q m1 where start: "mig_query (\<lambda>s. ()) \<lparr>mg_schema = s, mg_faults = fs\<rparr> = (q, m1)"
    by (cases "mig_query (\<lambda>s. ()) \<lparr>mg_schema = s, mg_faults = fs\<rparr>")
  from start show "outcome s [tx_step ss] () fs r m"
  proof (cases rule: mig_query_cases)
    case (fault e fs')
    with run start fs show ?thesis by (auto simp: mig_tx_def intro!: outcome_stop)
  next
    case ok
    obtain p m2 where b: "body \<lparr>mg_schema = s, mg_faults = tl fs\<rparr> = (p, m2)"
      by (cases "body \<lparr>mg_schema = s, mg_faults = tl fs\<rparr>")
    note B = implD [OF body plain_tl [OF fs] b]
    show ?thesis
    proof (cases p)
      case (Inl e)
      with run start ok b have "r = Inl e" "m = m2\<lparr>mg_schema := s\<rparr>" by (simp_all add: mig_tx_def)
      with B Inl show ?thesis by (auto simp: outcome_def tx_step_def intro!: outcome_stop)
    next
      case (Inr u)
      with B have all: "run_steps ss s = (Inr (), mg_schema m2)" and pl: "list_all plain_fault (mg_faults m2)"
        and nil: "tl fs = [] \<Longrightarrow> mg_faults m2 = []" by (auto simp: outcome_def)
      obtain c m3 where commit: "mig_query (\<lambda>s. ()) \<lparr>mg_schema = mg_schema m2, mg_faults = mg_faults m2\<rparr> = (c, m3)"
        by (cases "mig_query (\<lambda>s. ()) \<lparr>mg_schema = mg_schema m2, mg_faults = mg_faults m2\<rparr>")
      have rm: "(r, m) = (case c of Inl e \<Rightarrow> (Inl e, m3\<lparr>mg_schema := s\<rparr>) | Inr _ \<Rightarrow> (Inr u, m3))"
        using run start ok b Inr commit by (cases m2; cases c) (auto simp: mig_tx_def)
      from commit show ?thesis
      proof (cases rule: mig_query_cases)
        case (fault e fs')
        with rm nil pl show ?thesis by (auto intro!: outcome_stop)
      next
        case ok
        with rm nil pl all show ?thesis by (auto simp: tx_step_def plain_tl intro!: outcome_done)
      qed
    qed
  qed
qed

text \<open>What an action makes of the failure of a statement: it may ignore it or name it otherwise.\<close>

definition or_ignore :: "(go_error \<Rightarrow> bool) \<Rightarrow> statement \<Rightarrow> statement" where
  "or_ignore P f s =
     (case f s of (Inl e, s') \<Rightarrow> if P e then (Inr (), s) else (Inl e, s) | (Inr x, s') \<Rightarrow> (Inr x, s'))"

definition or_rename :: "(go_error \<Rightarrow> go_error) \<Rightarrow> statement \<Rightarrow> statement" where
  "or_rename g f s = (case f s of (Inl e, s') \<Rightarrow> (Inl (g e), s) | (Inr x, s') \<Rightarrow> (Inr x, s'))"

lemma plain_not_duplicate: "plain_fault (Some e) \<Longrightarrow> \<not> isSQLiteDuplicateColumnError (ErrText e)"
  by (simp add: plain_fault_def isSQLiteDuplicateColumnError_def error_text_def Let_def)

lemma impl_or_ignore:
  "impl (catchE (mig_stmt f) (\<lambda>e. if \<not> isSQLiteDuplicateColumnError e then failE e else returnE ())) s
     [or_ignore isSQLiteDuplicateColumnError f] ()"
proof (rule implI)
  fix fs r m
  let ?A = "catchE (mig_stmt f) (\<lambda>e. if \<not> isSQLiteDuplicateColumnError e then failE e else returnE ())"
  assume fs: "list_all plain_fault fs" and run: "?A \<lparr>mg_schema = s, mg_faults = fs\<rparr> = (r, m)"
  obtain q m1 where st: "mig_stmt f \<lparr>mg_schema = s, mg_faults = fs\<rparr> = (q, m1)"
    by (cases "mig_stmt f \<lparr>mg_schema = s, mg_faults = fs\<rparr>")
  from st show "outcome s [or_ignore isSQLiteDuplicateColumnError f] () fs r m"
  proof (cases rule: mig_stmt_cases)
    case (fault e fs')
    with run st fs plain_not_duplicate [of e] show ?thesis by (auto intro!: outcome_stop)
  next
    case (err e s')
    with run st fs show ?thesis
      by (cases "isSQLiteDuplicateColumnError e")
         (auto simp: or_ignore_def plain_tl intro!: outcome_stop outcome_done)
  next
    case (ok x s')
    with run st fs show ?thesis by (auto simp: or_ignore_def plain_tl intro!: outcome_done)
  qed
qed

lemma impl_or_rename:
  "impl (catchE (mig_stmt f) (\<lambda>e. failE (g e))) s [or_rename g f] ()"
proof (rule implI)
  fix fs r m
  assume fs: "list_all plain_fault fs"
    and run: "catchE (mig_stmt f) (\<lambda>e. failE (g e)) \<lparr>mg_schema = s, mg_faults = fs\<rparr> = (r, m)"
  obtain q m1 where st: "mig_stmt f \<lparr>mg_schema = s, mg_faults = fs\<rparr> = (q, m1)"
    by (cases "mig_stmt f \<lparr>mg_schema = s, mg_faults = fs\<rparr>")
  from st show "outcome s [or_rename g f] () fs r m"
    by (cases rule: mig_stmt_cases)
       (use run st fs plain_tl in \<open>auto simp: or_rename_def intro!: outcome_stop outcome_done\<close>)
qed

text \<open>The upgrades as lists of steps.\<close>

definition column_steps :: "driver \<Rightarrow> statement list" where
  "column_steps D =
     (case D of SQLite \<Rightarrow> map (or_ignore isSQLiteDuplicateColumnError) sqlite_columns
      | Postgres \<Rightarrow> map (or_rename postgres_failed) postgres_columns)"

definition post_steps :: "driver \<Rightarrow> time \<Rightarrow> statement list" where
  "post_steps D now =
     (case D of SQLite \<Rightarrow> sqlite_post now | Postgres \<Rightarrow> map (or_rename postgres_failed) (postgres_post now))"

lemma impl_columns: "impl (applyCompatColumnUpgrades D) s (column_steps D) ()"
  by (cases D) (auto simp: applyCompatColumnUpgrades_def column_steps_def applySQLiteCompatColumns_def
      applyPostgresCompatColumns_def intro!: impl_for_all impl_or_ignore impl_or_rename)

lemma impl_post_sqlite: "impl (applySQLiteCompatPost now) s (sqlite_post now) ()"
  using impl_for_all [of "sqlite_post now" mig_stmt "\<lambda>f. f" s] impl_statement
  by (simp add: applySQLiteCompatPost_def)

lemma impl_upgrades: "impl (applyCompatUpgrades D now) s (column_steps D @ post_steps D now) ()"
proof (cases D)
  case SQLite
  have "impl (bindE applySQLiteCompatColumns (\<lambda>_. applySQLiteCompatPost now)) s
      (column_steps SQLite @ sqlite_post now) ()"
    using impl_columns [of SQLite] impl_post_sqlite by (intro impl_bind) (simp_all add: applyCompatColumnUpgrades_def)
  with SQLite show ?thesis by (simp add: applyCompatUpgrades_def post_steps_def)
next
  case Postgres
  have "impl (bindE applyPostgresCompatColumns (\<lambda>_. applyPostgresCompatPost now)) s
      (column_steps Postgres @ map (or_rename postgres_failed) (postgres_post now)) ()"
    using impl_columns [of Postgres]
    by (intro impl_bind) (auto simp: applyCompatColumnUpgrades_def applyPostgresCompatPost_def
        intro!: impl_for_all impl_or_rename)
  with Postgres show ?thesis by (simp add: applyCompatUpgrades_def post_steps_def)
qed

end
