(* ===== verification/MigrationUpgrades.thy ===== *)
theory MigrationUpgrades
  imports MigrationSteps
begin

text \<open>
  The upgrade statements may be repeated. What a statement has achieved stays achieved
  (\<open>upgrades s s'\<close>), and a statement whose effect is there does nothing.
\<close>

section \<open>What stays\<close>

lemma tenants_fixed:
  "device_tenants g t = t \<longleftrightarrow> (\<forall>r \<in> set (t_devices t). g (d_TenantID r) = d_TenantID r)"
  "metric_tenants g t = t \<longleftrightarrow> (\<forall>r \<in> set (t_metrics t). g (mr_TenantID r) = mr_TenantID r)"
  "log_tenants g t = t \<longleftrightarrow> (\<forall>r \<in> set (t_logs t). g (lg_TenantID r) = lg_TenantID r)"
  "entity_tenants g t = t \<longleftrightarrow> (\<forall>r \<in> set (t_entities t). g (xe_TenantID r) = xe_TenantID r)"
  "observation_tenants g t = t \<longleftrightarrow> (\<forall>r \<in> set (t_observations t). g (xo_TenantID r) = xo_TenantID r)"
proof -
  have m: "map f xs = xs \<longleftrightarrow> (\<forall>x \<in> set xs. f x = x)" for f :: "'a \<Rightarrow> 'a" and xs
    by (induction xs) auto
  have d: "r\<lparr>d_TenantID := x\<rparr> = r \<longleftrightarrow> x = d_TenantID r" for r :: device_row and x by (cases r) auto
  have e: "r\<lparr>mr_TenantID := x\<rparr> = r \<longleftrightarrow> x = mr_TenantID r" for r :: metric_row and x by (cases r) auto
  have f: "r\<lparr>lg_TenantID := x\<rparr> = r \<longleftrightarrow> x = lg_TenantID r" for r :: log_row and x by (cases r) auto
  have g: "r\<lparr>xe_TenantID := x\<rparr> = r \<longleftrightarrow> x = xe_TenantID r" for r :: external_entity_row and x by (cases r) auto
  have h: "r\<lparr>xo_TenantID := x\<rparr> = r \<longleftrightarrow> x = xo_TenantID r" for r :: external_observation_row and x by (cases r) auto
  show "device_tenants g t = t \<longleftrightarrow> (\<forall>r \<in> set (t_devices t). g (d_TenantID r) = d_TenantID r)"
    "metric_tenants g t = t \<longleftrightarrow> (\<forall>r \<in> set (t_metrics t). g (mr_TenantID r) = mr_TenantID r)"
    "log_tenants g t = t \<longleftrightarrow> (\<forall>r \<in> set (t_logs t). g (lg_TenantID r) = lg_TenantID r)"
    "entity_tenants g t = t \<longleftrightarrow> (\<forall>r \<in> set (t_entities t). g (xe_TenantID r) = xe_TenantID r)"
    "observation_tenants g t = t \<longleftrightarrow> (\<forall>r \<in> set (t_observations t). g (xo_TenantID r) = xo_TenantID r)"
    by (cases t; simp add: device_tenants_def metric_tenants_def log_tenants_def entity_tenants_def
        observation_tenants_def m d e f g h)+
qed

definition settled_data :: "tables \<Rightarrow> tables \<Rightarrow> bool" where
  "settled_data t t' \<longleftrightarrow>
     (device_tenants or_legacy t = t \<longrightarrow> device_tenants or_legacy t' = t') \<and>
     (metric_tenants or_legacy t = t \<longrightarrow> metric_tenants or_legacy t' = t') \<and>
     (log_tenants or_legacy t = t \<longrightarrow> log_tenants or_legacy t' = t') \<and>
     (entity_tenants or_legacy t = t \<longrightarrow> entity_tenants or_legacy t' = t') \<and>
     (observation_tenants or_legacy t = t \<longrightarrow> observation_tenants or_legacy t' = t') \<and>
     (find_tenant DefaultTenantID t \<noteq> None \<longrightarrow> find_tenant DefaultTenantID t' \<noteq> None) \<and>
     ((\<forall>n. put_legacy_members n t = t) \<longrightarrow> (\<forall>n. put_legacy_members n t' = t'))"

definition upgrades :: "schema \<Rightarrow> schema \<Rightarrow> bool" where
  "upgrades s s' \<longleftrightarrow>
     (\<forall>tbl cols. has_columns s tbl cols \<longrightarrow> has_columns s' tbl cols) \<and>
     dom (sm_tables s') = dom (sm_tables s) \<and> sm_versions s' = sm_versions s \<and>
     settled_data (sm_data s) (sm_data s')"

lemma settled_data_refl [simp]: "settled_data t t"
  by (simp add: settled_data_def)

lemma upgrades_refl [simp]: "upgrades s s"
  by (simp add: upgrades_def)

lemma upgrades_trans: "upgrades s s' \<Longrightarrow> upgrades s' s'' \<Longrightarrow> upgrades s s''"
  by (auto simp: upgrades_def settled_data_def)

definition advances :: "statement \<Rightarrow> bool" where
  "advances f \<longleftrightarrow> (\<forall>s x s'. f s = (Inr x, s') \<longrightarrow> upgrades s s')"

definition repeatable :: "statement \<Rightarrow> statement \<Rightarrow> bool" where
  "repeatable f g \<longleftrightarrow> (\<forall>s x s' s''. f s = (Inr x, s') \<longrightarrow> upgrades s' s'' \<longrightarrow> g s'' = (Inr (), s''))"

lemma run_steps_advances:
  "list_all advances fs \<Longrightarrow> run_steps fs s = (Inr x, s') \<Longrightarrow> upgrades s s'"
proof (induction fs arbitrary: s)
  case (Cons f fs)
  from Cons.prems(2) obtain y s1 where f: "f s = (Inr y, s1)" "run_steps fs s1 = (Inr x, s')"
    by (auto split: prod.splits sum.splits)
  with Cons have "upgrades s s1" "upgrades s1 s'" by (auto simp: advances_def)
  then show ?case by (rule upgrades_trans)
qed simp

text \<open>Steps that have been run may be run again, at another time.\<close>

lemma run_steps_again:
  "list_all advances fs \<Longrightarrow> list_all2 repeatable fs gs \<Longrightarrow> run_steps fs s = (Inr x, s') \<Longrightarrow> upgrades s' s'' \<Longrightarrow>
   run_steps (gs @ hs) s'' = run_steps hs s''"
proof (induction fs arbitrary: s gs)
  case (Cons f fs)
  from Cons.prems(3) obtain y s1 where f: "f s = (Inr y, s1)" "run_steps fs s1 = (Inr x, s')"
    by (auto split: prod.splits sum.splits)
  from Cons.prems(2) obtain g gs' where g: "gs = g # gs'" "repeatable f g" "list_all2 repeatable fs gs'"
    by (auto simp: list_all2_Cons1)
  have "upgrades s1 s''"
    using run_steps_advances [OF _ f(2)] Cons.prems(1,4) upgrades_trans by auto
  with f g(2) have "g s'' = (Inr (), s'')" by (auto simp: repeatable_def)
  with g Cons.IH [OF _ g(3) f(2)] Cons.prems show ?case by simp
qed simp

section \<open>The statements\<close>

lemma add_column_advances: "(\<And>t. settled_data t (fill t)) \<Longrightarrow> advances (add_column D tbl col fill)"
  by (auto simp: advances_def add_column_def upgrades_def has_columns_def split: option.splits if_splits driver.splits)

lemma on_columns_advances:
  "(\<And>t x t'. f t = (Inr x, t') \<Longrightarrow> settled_data t t') \<Longrightarrow> advances (on_columns D needs f)"
  by (auto simp: advances_def on_columns_def upgrades_def has_columns_def split: list.splits prod.splits sum.splits)

lemma or_ignore_advances: "advances f \<Longrightarrow> advances (or_ignore P f)"
  by (auto simp: advances_def or_ignore_def split: prod.splits sum.splits if_splits)

lemma or_rename_advances: "advances f \<Longrightarrow> advances (or_rename g f)"
  by (auto simp: advances_def or_rename_def split: prod.splits sum.splits)

lemma or_rename_repeatable: "repeatable f g \<Longrightarrow> repeatable (or_rename h f) (or_rename h g)"
  by (fastforce simp: repeatable_def or_rename_def split: prod.splits sum.splits)

lemma add_column_has: "add_column D tbl col fill s = (Inr x, s') \<Longrightarrow> has_columns s' tbl [col]"
  by (auto simp: add_column_def has_columns_def split: option.splits if_splits driver.splits)

lemma add_column_present:
  "has_columns s tbl [col] \<Longrightarrow>
   add_column D tbl col fill s = (case D of SQLite \<Rightarrow> (Inl (duplicate_column col), s) | Postgres \<Rightarrow> (Inr (), s))"
  by (auto simp: add_column_def has_columns_def split: option.splits)

lemma add_column_repeatable:
  assumes dup: "isSQLiteDuplicateColumnError (duplicate_column col)"
    and none: "\<not> isSQLiteDuplicateColumnError (no_table SQLite tbl)"
  shows "repeatable (or_ignore isSQLiteDuplicateColumnError (add_column SQLite tbl col fill))
      (or_ignore isSQLiteDuplicateColumnError (add_column SQLite tbl col fill))"
  unfolding repeatable_def
proof (intro allI impI)
  fix s x s' s''
  assume run: "or_ignore isSQLiteDuplicateColumnError (add_column SQLite tbl col fill) s = (Inr x, s')"
    and up: "upgrades s' s''"
  have "has_columns s' tbl [col]"
    using run dup none
    by (auto simp: or_ignore_def add_column_def has_columns_def split: option.splits if_splits)
  with up show "or_ignore isSQLiteDuplicateColumnError (add_column SQLite tbl col fill) s'' = (Inr (), s'')"
    using dup add_column_present [of s'' tbl col SQLite fill] by (auto simp: or_ignore_def upgrades_def)
qed

lemma add_column_repeatable_postgres:
  "repeatable (add_column Postgres tbl col fill) (add_column Postgres tbl col fill)"
  unfolding repeatable_def
  using add_column_has add_column_present [of _ tbl col Postgres fill] by (fastforce simp: upgrades_def)

lemma filter_missing:
  "filter (\<lambda>(tbl, cols). \<not> has_columns s tbl cols) needs = [] \<longleftrightarrow> (\<forall>(tbl, cols) \<in> set needs. has_columns s tbl cols)"
  by (auto simp: filter_empty_conv)

lemma on_columns_repeatable:
  assumes "\<And>t x t' t''. f t = (Inr x, t') \<Longrightarrow> settled_data t' t'' \<Longrightarrow> \<exists>y. g t'' = (Inr y, t'')"
  shows "repeatable (on_columns D needs f) (on_columns D needs g)"
  unfolding repeatable_def
proof (intro allI impI)
  fix s x s' s''
  assume run: "on_columns D needs f s = (Inr x, s')" and up: "upgrades s' s''"
  from run have needs: "\<forall>(tbl, cols) \<in> set needs. has_columns s tbl cols"
    unfolding on_columns_def by (simp add: filter_missing [symmetric] split: list.splits prod.splits)
  then have "filter (\<lambda>(tbl, cols). \<not> has_columns s tbl cols) needs = []" by (simp add: filter_missing)
  with run obtain y t' where f: "f (sm_data s) = (Inr y, t')" "s' = s\<lparr>sm_data := t'\<rparr>"
    by (auto simp: on_columns_def split: prod.splits sum.splits)
  have "has_columns s'' tbl cols" if "has_columns s tbl cols" for tbl cols
    using that up f(2) by (simp add: upgrades_def has_columns_def)
  then have "filter (\<lambda>(tbl, cols). \<not> has_columns s'' tbl cols) needs = []"
    using needs by (auto simp: filter_missing)
  moreover have "\<exists>z. g (sm_data s'') = (Inr z, sm_data s'')"
    using up f by (intro assms) (auto simp: upgrades_def)
  ultimately show "on_columns D needs g s'' = (Inr (), s'')" by (auto simp: on_columns_def)
qed

text \<open>The tenants of the rows.\<close>

lemma or_legacy_idem [simp]: "or_legacy (or_legacy x) = or_legacy x" "or_legacy DefaultTenantID = DefaultTenantID"
proof -
  show d: "or_legacy DefaultTenantID = DefaultTenantID" by (simp add: or_legacy_def)
  show "or_legacy (or_legacy x) = or_legacy x" using d by (simp add: or_legacy_def)
qed

definition members_after :: "time \<Rightarrow> user_row list \<Rightarrow> tenant_user list \<Rightarrow> tenant_user list" where
  "members_after now us ms =
     fold (\<lambda>u. put_member (legacy_member now u)) (filter (\<lambda>u. \<not> blank_sql (u_Username u)) us) ms"

lemma members_fixed:
  "put_legacy_members now t = t \<longleftrightarrow> members_after now (t_users t) (t_tenant_users t) = t_tenant_users t"
  by (cases t) (simp add: put_legacy_members_def members_after_def)

lemma tenants_fields:
  "t_metrics (device_tenants g t) = t_metrics t" "t_logs (device_tenants g t) = t_logs t"
  "t_entities (device_tenants g t) = t_entities t" "t_observations (device_tenants g t) = t_observations t"
  "t_tenants (device_tenants g t) = t_tenants t" "t_users (device_tenants g t) = t_users t"
  "t_tenant_users (device_tenants g t) = t_tenant_users t"
  "t_devices (metric_tenants g t) = t_devices t" "t_logs (metric_tenants g t) = t_logs t"
  "t_entities (metric_tenants g t) = t_entities t" "t_observations (metric_tenants g t) = t_observations t"
  "t_tenants (metric_tenants g t) = t_tenants t" "t_users (metric_tenants g t) = t_users t"
  "t_tenant_users (metric_tenants g t) = t_tenant_users t"
  "t_devices (log_tenants g t) = t_devices t" "t_metrics (log_tenants g t) = t_metrics t"
  "t_entities (log_tenants g t) = t_entities t" "t_observations (log_tenants g t) = t_observations t"
  "t_tenants (log_tenants g t) = t_tenants t" "t_users (log_tenants g t) = t_users t"
  "t_tenant_users (log_tenants g t) = t_tenant_users t"
  "t_devices (entity_tenants g t) = t_devices t" "t_metrics (entity_tenants g t) = t_metrics t"
  "t_logs (entity_tenants g t) = t_logs t" "t_observations (entity_tenants g t) = t_observations t"
  "t_tenants (entity_tenants g t) = t_tenants t" "t_users (entity_tenants g t) = t_users t"
  "t_tenant_users (entity_tenants g t) = t_tenant_users t"
  "t_devices (observation_tenants g t) = t_devices t" "t_metrics (observation_tenants g t) = t_metrics t"
  "t_logs (observation_tenants g t) = t_logs t" "t_entities (observation_tenants g t) = t_entities t"
  "t_tenants (observation_tenants g t) = t_tenants t" "t_users (observation_tenants g t) = t_users t"
  "t_tenant_users (observation_tenants g t) = t_tenant_users t"
  "t_devices (metric_types t) = t_devices t" "t_logs (metric_types t) = t_logs t"
  "t_entities (metric_types t) = t_entities t" "t_observations (metric_types t) = t_observations t"
  "t_tenants (metric_types t) = t_tenants t" "t_users (metric_types t) = t_users t"
  "t_tenant_users (metric_types t) = t_tenant_users t"
  "t_devices (device_tenants g t) = map (\<lambda>r. r\<lparr>d_TenantID := g (d_TenantID r)\<rparr>) (t_devices t)"
  "t_metrics (metric_tenants g t) = map (\<lambda>r. r\<lparr>mr_TenantID := g (mr_TenantID r)\<rparr>) (t_metrics t)"
  "t_logs (log_tenants g t) = map (\<lambda>r. r\<lparr>lg_TenantID := g (lg_TenantID r)\<rparr>) (t_logs t)"
  "t_entities (entity_tenants g t) = map (\<lambda>r. r\<lparr>xe_TenantID := g (xe_TenantID r)\<rparr>) (t_entities t)"
  "t_observations (observation_tenants g t) = map (\<lambda>r. r\<lparr>xo_TenantID := g (xo_TenantID r)\<rparr>) (t_observations t)"
  "t_metrics (metric_types t) = map (\<lambda>r. r\<lparr>mr_Type := 0\<rparr>) (t_metrics t)"
  by (simp_all add: device_tenants_def metric_tenants_def log_tenants_def entity_tenants_def
      observation_tenants_def metric_types_def)

lemmas settled_simps = settled_data_def tenants_fixed members_fixed find_tenant_def tenants_fields

lemma fills_settled [simp]:
  "settled_data t (metric_types t)"
  "settled_data t (device_tenants legacy_of t)" "settled_data t (metric_tenants legacy_of t)"
  "settled_data t (log_tenants legacy_of t)" "settled_data t (entity_tenants legacy_of t)"
  "settled_data t (observation_tenants legacy_of t)"
  "settled_data t (device_tenants or_legacy t)" "settled_data t (metric_tenants or_legacy t)"
  "settled_data t (log_tenants or_legacy t)" "settled_data t (entity_tenants or_legacy t)"
  "settled_data t (observation_tenants or_legacy t)"
  by (simp_all add: settled_simps)

section \<open>The members of the legacy tenant\<close>

definition member_key :: "tenant_user \<Rightarrow> string \<times> string" where
  "member_key m = (tu_TenantID m, tu_Username m)"

text \<open>Of the rows put with one key the last decides the role.\<close>

definition last_role :: "tenant_user list \<Rightarrow> string \<times> string \<Rightarrow> tenant_role option" where
  "last_role rs = map_of (rev (map (\<lambda>r. (member_key r, tu_Role r)) rs))"

lemma last_role_snoc: "last_role (rs @ [r]) = (last_role rs)(member_key r \<mapsto> tu_Role r)"
  by (simp add: last_role_def)

lemma member_key_role [simp]: "member_key (m\<lparr>tu_Role := x\<rparr>) = member_key m"
  by (simp add: member_key_def)

lemma same_key: "member_key m = member_key r \<longleftrightarrow> tu_TenantID m = tu_TenantID r \<and> tu_Username m = tu_Username r"
  by (simp add: member_key_def)

lemma put_member_key:
  "put_member r ms =
     (if \<exists>m \<in> set ms. member_key m = member_key r
      then map (\<lambda>m. if member_key m = member_key r then m\<lparr>tu_Role := tu_Role r\<rparr> else m) ms else ms @ [r])"
  by (simp add: put_member_def same_key)

lemma put_member_keys:
  "member_key ` set (put_member r ms) = insert (member_key r) (member_key ` set ms)"
proof (cases "\<exists>m \<in> set ms. member_key m = member_key r")
  case True
  let ?g = "\<lambda>m. if member_key m = member_key r then m\<lparr>tu_Role := tu_Role r\<rparr> else m"
  have "map member_key (map ?g ms) = map member_key ms" by simp
  then have "set (map member_key (map ?g ms)) = set (map member_key ms)" by (rule arg_cong)
  then have "member_key ` set (map ?g ms) = member_key ` set ms" by (simp only: set_map)
  moreover have "member_key r \<in> member_key ` set ms" using True by (metis imageI)
  ultimately show ?thesis using True put_member_key [of r ms] by (simp add: insert_absorb)
qed (simp add: put_member_key [of r ms])

lemma fold_put_keys: "member_key ` set (fold put_member rs ms) = member_key ` set rs \<union> member_key ` set ms"
  by (induction rs arbitrary: ms) (simp_all add: put_member_keys)

lemma fold_put_roles:
  "m \<in> set (fold put_member rs ms) \<Longrightarrow> last_role rs (member_key m) = Some role \<Longrightarrow> tu_Role m = role"
proof (induction rs arbitrary: m role rule: rev_induct)
  case (snoc r rs)
  then show ?case
    by (auto simp: last_role_snoc put_member_key [of r "fold put_member rs ms"] split: if_splits)
qed (simp add: last_role_def)

text \<open>Rows put in again, their creation time aside, change nothing.\<close>

definition with_role :: "tenant_user \<Rightarrow> tenant_role option \<Rightarrow> tenant_user" where
  "with_role m r = (case r of None \<Rightarrow> m | Some role \<Rightarrow> m\<lparr>tu_Role := role\<rparr>)"

lemma member_key_with_role [simp]: "member_key (with_role m r) = member_key m"
  by (simp add: with_role_def member_key_def split: option.split)

lemma fold_put_present_members:
  "\<forall>r \<in> set rs. member_key r \<in> member_key ` set ms \<Longrightarrow>
   fold put_member rs ms = map (\<lambda>m. with_role m (last_role rs (member_key m))) ms"
proof (induction rs rule: rev_induct)
  case (snoc r rs)
  let ?ms = "map (\<lambda>m. with_role m (last_role rs (member_key m))) ms"
  have fold: "fold put_member rs ms = ?ms" using snoc by simp
  from snoc.prems have "member_key r \<in> member_key ` set ms" by simp
  then have "\<exists>m \<in> set ?ms. member_key m = member_key r" by auto
  then have "put_member r ?ms = map (\<lambda>m. if member_key m = member_key r then m\<lparr>tu_Role := tu_Role r\<rparr> else m) ?ms"
    by (simp add: put_member_key [of r ?ms])
  also have "\<dots> = map (\<lambda>m. with_role m (last_role (rs @ [r]) (member_key m))) ms"
    by (auto simp: last_role_snoc with_role_def split: option.splits)
  finally show ?case using fold by simp
qed (simp add: last_role_def with_role_def)

lemma fold_put_again:
  assumes "map member_key rs' = map member_key rs" and "map tu_Role rs' = map tu_Role rs"
  shows "fold put_member rs' (fold put_member rs ms) = fold put_member rs ms"
proof -
  let ?ms = "fold put_member rs ms"
  have zip: "map (\<lambda>r. (member_key r, tu_Role r)) xs = zip (map member_key xs) (map tu_Role xs)" for xs
    by (induction xs) simp_all
  have last: "last_role rs' = last_role rs" unfolding last_role_def zip assms by (rule refl)
  have "set (map member_key rs') = set (map member_key rs)" using assms(1) by simp
  then have keys: "\<forall>r \<in> set rs'. member_key r \<in> member_key ` set ?ms" using fold_put_keys [of rs ms] by auto
  have "with_role m (last_role rs (member_key m)) = m" if "m \<in> set ?ms" for m
    using fold_put_roles [OF that] by (simp add: with_role_def split: option.split)
  then show ?thesis unfolding fold_put_present_members [OF keys] last by (simp add: map_idI)
qed

lemma members_after_again: "members_after n us (members_after n' us ms) = members_after n' us ms"
proof -
  let ?us = "filter (\<lambda>u. \<not> blank_sql (u_Username u)) us"
  have f: "members_after n us ms = fold put_member (map (legacy_member n) ?us) ms" for n ms
    unfolding members_after_def by (simp add: fold_map comp_def)
  have "map member_key (map (legacy_member n) ?us) = map member_key (map (legacy_member n') ?us)"
    "map tu_Role (map (legacy_member n) ?us) = map tu_Role (map (legacy_member n') ?us)"
    by (simp_all add: member_key_def legacy_member_def)
  then show ?thesis unfolding f by (rule fold_put_again)
qed

lemma members_again: "put_legacy_members n (put_legacy_members n' t) = put_legacy_members n' t"
  using members_after_again [of n "t_users t" n' "t_tenant_users t"]
  by (simp add: put_legacy_members_def members_after_def)

lemma members_settled [simp]: "settled_data t (put_legacy_members n t)"
proof -
  have "put_legacy_members m (put_legacy_members n t) = put_legacy_members n t" for m by (rule members_again)
  then show ?thesis
    unfolding settled_data_def by (simp add: tenants_fixed find_tenant_def put_legacy_members_def)
qed

section \<open>The lists\<close>

lemma duplicate_texts:
  "isSQLiteDuplicateColumnError (duplicate_column ''type'')"
  "isSQLiteDuplicateColumnError (duplicate_column ''tenant_id'')"
  "\<not> isSQLiteDuplicateColumnError (no_table SQLite ''metrics'')"
  "\<not> isSQLiteDuplicateColumnError (no_table SQLite ''devices'')"
  "\<not> isSQLiteDuplicateColumnError (no_table SQLite ''logs'')"
  "\<not> isSQLiteDuplicateColumnError (no_table SQLite ''integration_external_entities'')"
  "\<not> isSQLiteDuplicateColumnError (no_table SQLite ''integration_external_observations'')"
  "\<not> isSQLiteDuplicateColumnError (no_table SQLite ''integration_external_commands'')"
  by code_simp+

lemma column_steps_ok:
  "list_all advances (column_steps D)" "list_all2 repeatable (column_steps D) (column_steps D)"
proof -
  show "list_all advances (column_steps D)"
    by (cases D) (simp_all add: column_steps_def sqlite_columns_def postgres_columns_def
        or_ignore_advances or_rename_advances add_column_advances)
  show "list_all2 repeatable (column_steps D) (column_steps D)"
    by (cases D) (simp_all add: column_steps_def sqlite_columns_def postgres_columns_def
        add_column_repeatable or_rename_repeatable add_column_repeatable_postgres duplicate_texts)
qed

lemma tenants_appended [simp]: "settled_data t (t\<lparr>t_tenants := t_tenants t @ rs\<rparr>)"
proof -
  have "find P (t_tenants t) \<noteq> None \<Longrightarrow> find P (t_tenants t @ rs) \<noteq> None" for P :: "tenant \<Rightarrow> bool"
    by (auto simp: find_None_iff)
  then show ?thesis by (simp add: settled_data_def tenants_fixed members_fixed find_tenant_def)
qed

lemma legacy_tenant_appended: "find_tenant DefaultTenantID (t\<lparr>t_tenants := t_tenants t @
    [\<lparr>tn_ID = DefaultTenantID, tn_Name = a, tn_Status = b, tn_CreatedAt = c, tn_UpdatedAt = d\<rparr>]\<rparr>) \<noteq> None"
  by (simp add: find_tenant_def find_snoc split: option.split)

lemma put_legacy_tenant_cases:
  assumes "put_legacy_tenant now t = (Inr x, t')"
  shows "find_tenant DefaultTenantID t' \<noteq> None" and "settled_data t t'"
proof -
  have "find_tenant DefaultTenantID t' \<noteq> None \<and> settled_data t t'"
  proof (cases "find_tenant DefaultTenantID t = None")
    case False
    then have "t' = t" using assms by (simp add: put_legacy_tenant_def)
    with False show ?thesis by simp
  next
    case True
    show ?thesis
    proof (cases "\<exists>r \<in> set (t_tenants t). tn_Name r = ''legacy''")
      case False
      with True assms have t': "t' = t\<lparr>t_tenants := t_tenants t @
        [\<lparr>tn_ID = DefaultTenantID, tn_Name = ''legacy'', tn_Status = ''active'', tn_CreatedAt = now, tn_UpdatedAt = now\<rparr>]\<rparr>"
        by (simp add: put_legacy_tenant_def)
      show ?thesis unfolding t' by (intro conjI legacy_tenant_appended tenants_appended)
    qed (use True assms in \<open>simp add: put_legacy_tenant_def\<close>)
  qed
  then show "find_tenant DefaultTenantID t' \<noteq> None" "settled_data t t'" by simp_all
qed

lemma put_legacy_tenant_again: "find_tenant DefaultTenantID t \<noteq> None \<Longrightarrow> put_legacy_tenant now t = (Inr (), t)"
  by (simp add: put_legacy_tenant_def)

lemma insert_legacy_ok: "advances (insert_legacy D now)" "repeatable (insert_legacy D now) (insert_legacy D now')"
proof -
  show "advances (insert_legacy D now)" unfolding insert_legacy_def
    by (rule on_columns_advances [OF put_legacy_tenant_cases(2)])
  show "repeatable (insert_legacy D now) (insert_legacy D now')" unfolding insert_legacy_def
  proof (rule on_columns_repeatable)
    fix t x t' t''
    assume "put_legacy_tenant now t = (Inr x, t')" "settled_data t' t''"
    then have "find_tenant DefaultTenantID t'' \<noteq> None"
      using put_legacy_tenant_cases(1) unfolding settled_data_def by metis
    then show "\<exists>y. put_legacy_tenant now' t'' = (Inr y, t'')" by (simp add: put_legacy_tenant_again)
  qed
qed

lemma index_ok: "advances (create_index D tbl cols)" "repeatable (create_index D tbl cols) (create_index D tbl cols)"
  unfolding create_index_def by (auto intro!: on_columns_advances on_columns_repeatable)

lemma update_ok:
  "(\<And>t. settled_data t (f t)) \<Longrightarrow> advances (legacy_update D tbl f)"
  "(\<And>t t'. settled_data (f t) t' \<Longrightarrow> f t' = t') \<Longrightarrow> repeatable (legacy_update D tbl f) (legacy_update D tbl f)"
  unfolding legacy_update_def by (auto intro!: on_columns_advances on_columns_repeatable)

lemma updates_again:
  "settled_data (device_tenants or_legacy t) t' \<Longrightarrow> device_tenants or_legacy t' = t'"
  "settled_data (metric_tenants or_legacy t) t' \<Longrightarrow> metric_tenants or_legacy t' = t'"
  "settled_data (log_tenants or_legacy t) t' \<Longrightarrow> log_tenants or_legacy t' = t'"
  "settled_data (entity_tenants or_legacy t) t' \<Longrightarrow> entity_tenants or_legacy t' = t'"
  "settled_data (observation_tenants or_legacy t) t' \<Longrightarrow> observation_tenants or_legacy t' = t'"
  unfolding settled_data_def by (simp_all add: tenants_fixed tenants_fields)

lemma members_ok:
  "advances (insert_legacy_members now)" "repeatable (insert_legacy_members now) (insert_legacy_members now')"
proof -
  show "advances (insert_legacy_members now)" unfolding insert_legacy_members_def
    by (rule on_columns_advances) auto
  have "put_legacy_members now' t' = t'" if "settled_data (put_legacy_members now t) t'" for t t'
    using that members_again by (simp add: settled_data_def)
  then show "repeatable (insert_legacy_members now) (insert_legacy_members now')"
    unfolding insert_legacy_members_def by (intro on_columns_repeatable) auto
qed

lemma post_steps_ok:
  "list_all advances (post_steps D now)" "list_all2 repeatable (post_steps D now) (post_steps D now')"
proof -
  show "list_all advances (post_steps D now)"
    by (cases D) (simp_all add: post_steps_def sqlite_post_def postgres_post_def compat_indexes_def
        index_ok insert_legacy_ok members_ok update_ok or_rename_advances)
  show "list_all2 repeatable (post_steps D now) (post_steps D now')"
    by (cases D) (simp_all add: post_steps_def sqlite_post_def postgres_post_def compat_indexes_def
        index_ok insert_legacy_ok members_ok update_ok updates_again or_rename_repeatable)
qed

end
