(* ===== verification/MigrationSafety.thy ===== *)
theory MigrationSafety
  imports MigrationUpgrades
begin

text \<open>
  What \<open>Ensure\<close> guarantees: a run that was cut short is made good by the next one, a schema that is up to
  date stays as it is, and on SQLite every run gives the members of the legacy tenant their roles anew.
\<close>

section \<open>\<open>Ensure\<close> as a plan\<close>

definition legacy_schema :: "schema \<Rightarrow> bool" where
  "legacy_schema s \<longleftrightarrow> (\<exists>tbl \<in> {''devices'', ''metrics'', ''logs'', ''users''}. sm_tables s tbl \<noteq> None)"

definition create_step :: statement where
  "create_step s = (Inr (), if sm_versions s = None then s\<lparr>sm_versions := Some []\<rparr> else s)"

definition script_statement :: "script_exec \<Rightarrow> string \<Rightarrow> statement" where
  "script_statement X stmt s = (case X stmt s of Inl e \<Rightarrow> (Inl e, s) | Inr s' \<Rightarrow> (Inr (), s'))"

definition script_step :: "script_exec \<Rightarrow> files \<Rightarrow> string \<Rightarrow> statement" where
  "script_step X F path =
     (case fl_ReadFile F path of
        None \<Rightarrow> (\<lambda>s. (Inl (ErrText ''read''), s))
      | Some content \<Rightarrow> tx_step (map (script_statement X) (splitSQLStatements content) @
          [record_version (path_base path)]))"

definition pending :: "schema \<Rightarrow> string list \<Rightarrow> string list" where
  "pending s = filter (\<lambda>f. path_base f \<notin> set (map TrimSpace (versions_of s)))"

definition legacy_steps :: "driver \<Rightarrow> schema \<Rightarrow> statement list" where
  "legacy_steps D s = (if versions_of s = [] \<and> legacy_schema s then column_steps D else [])"

definition plan :: "script_exec \<Rightarrow> files \<Rightarrow> driver \<Rightarrow> time \<Rightarrow> schema \<Rightarrow> statement list" where
  "plan X F D now s =
     [create_step] @ legacy_steps D s @
     (case listMigrationFiles F D of
        Inl e \<Rightarrow> [\<lambda>s. (Inl e, s)]
      | Inr files \<Rightarrow> map (script_step X F) (pending s files) @ column_steps D @ post_steps D now)"

lemma impl_fail: "impl (failE e) s [\<lambda>s. (Inl e, s)] v"
  by (rule implI) (auto simp: failE_def intro!: outcome_stop)

lemma missing_texts:
  "tbl \<in> {''devices'', ''metrics'', ''logs'', ''users''} \<Longrightarrow>
   (let msg = ToLower (error_text (no_table D tbl))
    in Contains msg ''no such table'' \<or> Contains msg ''does not exist'' \<or> Contains msg ''undefined table'')"
  by (cases D; auto; code_simp)

lemma impl_tableExists:
  assumes tbl: "tbl \<in> {''devices'', ''metrics'', ''logs'', ''users''}"
  shows "impl (tableExists D tbl) s [] (sm_tables s tbl \<noteq> None)"
proof (rule implI)
  fix fs r m
  let ?f = "\<lambda>s. case sm_tables s tbl of None \<Rightarrow> (Inl (no_table D tbl), s) | Some _ \<Rightarrow> (Inr True, s)"
  assume fs: "list_all plain_fault fs" and run: "tableExists D tbl \<lparr>mg_schema = s, mg_faults = fs\<rparr> = (r, m)"
  obtain q m1 where st: "mig_stmt ?f \<lparr>mg_schema = s, mg_faults = fs\<rparr> = (q, m1)"
    by (cases "mig_stmt ?f \<lparr>mg_schema = s, mg_faults = fs\<rparr>")
  from st show "outcome s [] (sm_tables s tbl \<noteq> None) fs r m"
  proof (cases rule: mig_stmt_cases)
    case (fault e fs')
    with run st fs show ?thesis
      by (auto simp: tableExists_def plain_fault_def Let_def error_text_def intro!: outcome_stop)
  next
    case (err e s')
    then have "e = no_table D tbl" "sm_tables s tbl = None" by (auto split: option.splits)
    with err run st fs missing_texts [OF tbl, of D] show ?thesis
      by (auto simp: tableExists_def Let_def plain_tl intro!: outcome_done)
  next
    case (ok x s')
    then have "x = True" "s' = s" "sm_tables s tbl \<noteq> None" by (auto split: option.splits)
    with ok run st fs show ?thesis by (auto simp: tableExists_def plain_tl intro!: outcome_done)
  qed
qed

lemma impl_legacy_tables:
  "set tbls \<subseteq> {''devices'', ''metrics'', ''logs'', ''users''} \<Longrightarrow>
   impl (legacy_tables D tbls) s [] (\<exists>tbl \<in> set tbls. sm_tables s tbl \<noteq> None)"
proof (induction tbls)
  case (Cons tbl tbls)
  have "impl (bindE (tableExists D tbl) (\<lambda>ok. if ok then returnE True else legacy_tables D tbls)) s ([] @ [])
      (\<exists>t \<in> set (tbl # tbls). sm_tables s t \<noteq> None)"
  proof (rule impl_bind [OF impl_tableExists])
    show "tbl \<in> {''devices'', ''metrics'', ''logs'', ''users''}" using Cons.prems by simp
    fix s' assume "run_steps [] s = (Inr (), s')"
    then have "s' = s" by simp
    with Cons impl_return [of True s]
    show "impl (if sm_tables s tbl \<noteq> None then returnE True else legacy_tables D tbls) s' []
        (\<exists>t \<in> set (tbl # tbls). sm_tables s t \<noteq> None)" by auto
  qed
  then show ?case by simp
qed (simp add: impl_return)

lemma impl_script:
  "impl (applyMigrationFile X F (path_base path) path) s [script_step X F path] ()"
proof (cases "fl_ReadFile F path")
  case None
  then show ?thesis using impl_fail by (simp add: applyMigrationFile_def script_step_def)
next
  case (Some content)
  have each: "impl (exec_script X stmt) s [script_statement X stmt] ()" for stmt s
    using impl_statement [of "script_statement X stmt" s]
    by (simp add: exec_script_def script_statement_def [abs_def])
  have "impl (bindE (for_all (exec_script X) (splitSQLStatements content))
      (\<lambda>_. mig_stmt (record_version (path_base path)))) s
      (map (script_statement X) (splitSQLStatements content) @ [record_version (path_base path)]) ()"
    by (rule impl_seq [OF impl_for_all impl_statement]) (rule each)
  then show ?thesis using Some by (simp add: applyMigrationFile_def script_step_def impl_tx)
qed

lemma impl_scripts:
  "impl (for_all (\<lambda>file. let version = path_base file
       in if version \<in> set applied then returnE () else applyMigrationFile X F version file) files) s
     (map (script_step X F) (filter (\<lambda>f. path_base f \<notin> set applied) files)) ()"
proof (induction files arbitrary: s)
  case (Cons f files)
  let ?A = "\<lambda>file. let version = path_base file
       in if version \<in> set applied then returnE () else applyMigrationFile X F version file"
  have steps: "map (script_step X F) (filter (\<lambda>f. path_base f \<notin> set applied) (f # files)) =
      (if path_base f \<in> set applied then [] else [script_step X F f]) @
      map (script_step X F) (filter (\<lambda>f. path_base f \<notin> set applied) files)" by simp
  show ?case unfolding for_all.simps(2) steps
  proof (rule impl_seq)
    show "impl (?A f) s (if path_base f \<in> set applied then [] else [script_step X F f]) ()"
      by (simp add: Let_def impl_return impl_script)
  qed (rule Cons.IH)
qed (simp add: impl_return)

lemma impl_Ensure:
  assumes "normalizeDriver driver = Some D"
  shows "impl (Ensure X F driver now) s (plan X F D now s) ()"
proof -
  let ?s = "snd (create_step s)"
  let ?tail = "case listMigrationFiles F D of Inl e \<Rightarrow> [\<lambda>s. (Inl e, s)]
      | Inr files \<Rightarrow> map (script_step X F) (pending s files) @ column_steps D @ post_steps D now"
  let ?files = "\<lambda>applied files. for_all (\<lambda>file. let version = path_base file
            in if version \<in> set applied then returnE () else applyMigrationFile X F version file) files"
  let ?rest = "\<lambda>applied. case listMigrationFiles F D of Inl e \<Rightarrow> failE e
      | Inr files \<Rightarrow> bindE (?files applied files) (\<lambda>_. applyCompatUpgrades D now)"
  let ?check = "\<lambda>applied. if length applied = 0
      then bindE (looksLikeLegacySchema D) (\<lambda>legacy. if legacy then applyCompatColumnUpgrades D else returnE ())
      else returnE ()"
  have same: "versions_of ?s = versions_of s" "legacy_schema ?s = legacy_schema s"
    by (simp_all add: create_step_def versions_of_def legacy_schema_def)
  have leg: "impl (?check (map TrimSpace (versions_of s))) ?s (legacy_steps D s) ()"
  proof (cases "versions_of s = []")
    case True
    have "impl (bindE (looksLikeLegacySchema D) (\<lambda>legacy. if legacy then applyCompatColumnUpgrades D else returnE ())) ?s
        ([] @ legacy_steps D s) ()"
      unfolding looksLikeLegacySchema_def
      by (rule impl_bind [OF impl_legacy_tables])
         (use True same in \<open>auto simp: legacy_steps_def legacy_schema_def impl_columns impl_return\<close>)
    with True show ?thesis by simp
  qed (simp add: legacy_steps_def impl_return)
  have rest: "impl (?rest (map TrimSpace (versions_of s))) s' ?tail ()" for s'
  proof (cases "listMigrationFiles F D")
    case (Inr files)
    have "impl (bindE (?files (map TrimSpace (versions_of s)) files) (\<lambda>_. applyCompatUpgrades D now)) s'
        (map (script_step X F) (pending s files) @ column_steps D @ post_steps D now) ()"
      unfolding pending_def by (rule impl_seq [OF impl_scripts impl_upgrades])
    with Inr show ?thesis by simp
  qed (simp add: impl_fail)
  have load: "impl loadAppliedVersions ?s [] (map TrimSpace (versions_of s))"
    using impl_query [of "\<lambda>s. map TrimSpace (versions_of s)" ?s] same by (simp add: loadAppliedVersions_def)
  have create: "impl ensureMigrationsTable s [create_step] ()"
    using impl_statement [of create_step s] by (simp add: ensureMigrationsTable_def create_step_def [abs_def])
  have B1: "impl (bindE (?check (map TrimSpace (versions_of s))) (\<lambda>_. ?rest (map TrimSpace (versions_of s)))) ?s
      (legacy_steps D s @ ?tail) ()"
    by (rule impl_seq [OF leg rest])
  have B2: "impl (bindE loadAppliedVersions (\<lambda>applied. bindE (?check applied) (\<lambda>_. ?rest applied))) ?s
      ([] @ legacy_steps D s @ ?tail) ()"
    by (rule impl_bind [OF load]) (use B1 in simp)
  have B3: "impl (bindE ensureMigrationsTable (\<lambda>_. bindE loadAppliedVersions (\<lambda>applied.
      bindE (?check applied) (\<lambda>_. ?rest applied)))) s ([create_step] @ legacy_steps D s @ ?tail) ()"
    by (rule impl_bind [OF create]) (use B2 in \<open>simp add: create_step_def\<close>)
  have "impl (bindE (mig_query (\<lambda>s. ())) (\<lambda>_. bindE ensureMigrationsTable (\<lambda>_. bindE loadAppliedVersions (\<lambda>applied.
      bindE (?check applied) (\<lambda>_. ?rest applied))))) s ([] @ [create_step] @ legacy_steps D s @ ?tail) ()"
    by (rule impl_bind [OF impl_query]) (use B3 in simp)
  then show ?thesis by (simp add: Ensure_def assms plan_def)
qed

section \<open>Scripts that have been run\<close>

text \<open>The statements of a script leave the table of versions alone.\<close>

definition scripts_frame :: "script_exec \<Rightarrow> bool" where
  "scripts_frame X \<longleftrightarrow> (\<forall>stmt s s'. X stmt s = Inr s' \<longrightarrow> sm_versions s' = sm_versions s)"

text \<open>The names of the scripts differ and have no white space at their ends.\<close>

definition names_ok :: "files \<Rightarrow> driver \<Rightarrow> bool" where
  "names_ok F D \<longleftrightarrow>
     (case listMigrationFiles F D of Inl e \<Rightarrow> True
      | Inr files \<Rightarrow> distinct (map path_base files) \<and>
          list_all (\<lambda>f. TrimSpace (path_base f) = path_base f) files)"

lemma run_statements_frame:
  "scripts_frame X \<Longrightarrow> run_steps (map (script_statement X) stmts) s = (Inr x, s') \<Longrightarrow>
   sm_versions s' = sm_versions s"
  by (induction stmts arbitrary: s)
     (auto simp: script_statement_def scripts_frame_def split: sum.splits)

lemma record_version_ok:
  "record_version v s = (Inr x, s') \<Longrightarrow> sm_versions s' = Some (versions_of s @ [v])"
  by (auto simp: record_version_def split: if_splits)

lemma script_step_versions:
  assumes "scripts_frame X" "script_step X F f s = (Inr x, s')"
  shows "sm_versions s' = Some (versions_of s @ [path_base f])"
proof (cases "fl_ReadFile F f")
  case (Some content)
  with assms(2) obtain s1 where "run_steps (map (script_statement X) (splitSQLStatements content)) s = (Inr (), s1)"
    and "record_version (path_base f) s1 = (Inr (), s')"
    by (auto simp: script_step_def tx_step_def run_steps_append split: prod.splits sum.splits)
  with run_statements_frame [OF assms(1)] record_version_ok show ?thesis by (fastforce simp: versions_of_def)
qed (use assms in \<open>simp add: script_step_def\<close>)

lemma run_scripts_versions:
  "scripts_frame X \<Longrightarrow> run_steps (map (script_step X F) fs) s = (Inr x, s') \<Longrightarrow> sm_versions s \<noteq> None \<Longrightarrow>
   sm_versions s' = Some (versions_of s @ map path_base fs)"
proof (induction fs arbitrary: s)
  case (Cons f fs)
  from Cons.prems(2) obtain y s1 where f: "script_step X F f s = (Inr y, s1)"
    "run_steps (map (script_step X F) fs) s1 = (Inr x, s')" by (auto split: prod.splits sum.splits)
  with Cons.IH [OF Cons.prems(1) f(2)] script_step_versions [OF Cons.prems(1) f(1)]
  show ?case by (simp add: versions_of_def)
qed (auto simp: versions_of_def)

lemma filter_taken: "distinct (map g xs) \<Longrightarrow> filter (\<lambda>x. g x \<notin> g ` set (take i xs)) xs = drop i xs"
proof -
  assume d: "distinct (map g xs)"
  have "distinct (map g (take i xs @ drop i xs))" using d by simp
  then have "\<And>x. x \<in> set (drop i xs) \<Longrightarrow> g x \<notin> g ` set (take i xs)"
    unfolding map_append distinct_append set_map by auto
  moreover have "filter P xs = filter P (take i xs) @ filter P (drop i xs)" for P
    by (metis append_take_drop_id filter_append)
  ultimately show ?thesis by (simp add: filter_id_conv filter_empty_conv)
qed

lemma pending_rest:
  assumes "names_ok F D" "listMigrationFiles F D = Inr files"
    and "versions_of s' = versions_of s @ map path_base (take i (pending s files))"
  shows "pending s' files = drop i (pending s files)"
proof -
  let ?p = "pending s files"
  have trim: "TrimSpace (path_base f) = path_base f" if "f \<in> set ?p" for f
    using that assms(1,2) by (auto simp: names_ok_def pending_def list_all_iff)
  have "set (map TrimSpace (versions_of s')) = set (map TrimSpace (versions_of s)) \<union> path_base ` set (take i ?p)"
    using trim by (force simp: assms(3) image_Un image_image dest: in_set_takeD)
  then have "pending s' files = filter (\<lambda>f. path_base f \<notin> path_base ` set (take i ?p)) ?p"
    by (simp add: pending_def conj_commute)
  also have "\<dots> = drop i ?p"
    using assms(1,2) by (intro filter_taken) (simp add: pending_def names_ok_def distinct_map_filter)
  finally show ?thesis .
qed

lemma upgrades_legacy:
  "upgrades s s' \<Longrightarrow> versions_of s' = versions_of s \<and> legacy_schema s' = legacy_schema s"
proof -
  assume up: "upgrades s s'"
  then have "sm_tables s' t \<noteq> None \<longleftrightarrow> sm_tables s t \<noteq> None" for t
    unfolding upgrades_def by (metis domIff)
  with up show ?thesis by (simp add: legacy_schema_def versions_of_def upgrades_def)
qed

lemma create_again: "sm_versions s \<noteq> None \<Longrightarrow> run_steps ([create_step] @ ss) s = run_steps ss s"
  by (auto simp: create_step_def)

section \<open>A run that was cut short\<close>

lemma steps_split:
  assumes "run_steps (take k (as @ bs)) s = (Inr (), s')"
  obtains (first) "k \<le> length as" "run_steps (take k as) s = (Inr (), s')"
  | (second) s1 j where "k = length as + j" "0 < j" "run_steps as s = (Inr (), s1)" "run_steps (take j bs) s1 = (Inr (), s')"
proof (cases "k \<le> length as")
  case True
  with assms first show ?thesis by simp
next
  case False
  then have "run_steps (as @ take (k - length as) bs) s = (Inr (), s')" using assms by simp
  then obtain s1 where "run_steps as s = (Inr (), s1)" "run_steps (take (k - length as) bs) s1 = (Inr (), s')"
    by (auto simp: run_steps_append split: prod.splits sum.splits)
  with False second [of "k - length as" s1] show ?thesis by simp
qed

text \<open>Steps of a list of repeatable statements, run up to a point and then from the start.\<close>

lemma repeat_prefix:
  assumes adv: "list_all advances fs" and rep: "list_all2 repeatable fs fs"
    and run: "run_steps (take k fs) s = (Inr (), s')"
  shows "run_steps (fs @ gs) s' = run_steps (drop k fs @ gs) s'"
proof -
  have "list_all advances (take k fs)" using adv by (auto simp: list_all_iff dest: in_set_takeD)
  moreover have "list_all2 repeatable (take k fs) (take k fs)" using rep by simp
  ultimately have "run_steps (take k fs @ (drop k fs @ gs)) s' = run_steps (drop k fs @ gs) s'"
    using run by (intro run_steps_again [OF _ _ run]) simp_all
  then show ?thesis by (simp add: append_assoc [symmetric] del: append_assoc)
qed

lemma prefix_upgrades:
  "list_all advances fs \<Longrightarrow> run_steps (take k fs) s = (Inr (), s') \<Longrightarrow> upgrades s s'"
  by (rule run_steps_advances [of "take k fs"]) (auto simp: list_all_iff dest: in_set_takeD)

text \<open>After the scripts: the upgrades may have been run in part.\<close>

lemma upgrades_ok:
  "list_all advances (column_steps D @ post_steps D now)"
  "list_all2 repeatable (column_steps D @ post_steps D now) (column_steps D @ post_steps D now')"
  using column_steps_ok post_steps_ok by (auto intro: list_all2_appendI)

lemma legacy_steps_ok: "list_all advances (legacy_steps D s)" "list_all2 repeatable (legacy_steps D s) (legacy_steps D s)"
  using column_steps_ok by (simp_all add: legacy_steps_def)

text \<open>The upgrades of a legacy schema are done, when scripts and upgrades have been run after them.\<close>

lemma legacy_noop:
  assumes leg: "run_steps (legacy_steps D s) s1 = (Inr (), s2)" "legacy_schema s1 = legacy_schema s"
    and scripts: "run_steps (map (script_step X F) fs) s2 = (Inr (), s3)" and up: "upgrades s3 s'"
    and v: "versions_of s' = versions_of s @ map path_base fs"
  shows "run_steps (legacy_steps D s' @ ss) s' = run_steps ss s'"
proof (cases "legacy_steps D s' = []")
  case False
  then have "versions_of s = []" "fs = []" "legacy_schema s'" and L: "legacy_steps D s' = column_steps D"
    using v by (auto simp: legacy_steps_def split: if_splits)
  moreover have "s3 = s2" using scripts \<open>fs = []\<close> by simp
  moreover have "legacy_schema s = legacy_schema s'"
    using upgrades_legacy [OF up] upgrades_legacy [OF run_steps_advances [OF legacy_steps_ok(1) leg(1)]]
      leg(2) \<open>s3 = s2\<close> by simp
  ultimately have again: "run_steps (column_steps D) s1 = (Inr (), s2)" "upgrades s2 s'"
    using leg(1) up by (simp_all add: legacy_steps_def)
  show ?thesis unfolding L by (rule run_steps_again [OF column_steps_ok again])
qed simp

lemma resume:
  assumes frame: "scripts_frame X" and names: "names_ok F D"
    and run: "run_steps (take k (plan X F D now s)) s = (Inr (), s')"
  shows "run_steps (plan X F D now s') s' = run_steps (plan X F D now s) s"
proof (cases k)
  case 0
  with run show ?thesis by simp
next
  case (Suc k')
  let ?tail = "case listMigrationFiles F D of Inl e \<Rightarrow> [\<lambda>s. (Inl e, s)]
      | Inr files \<Rightarrow> map (script_step X F) (pending s files) @ column_steps D @ post_steps D now"
  obtain s1 where s1: "create_step s = (Inr (), s1)" "sm_versions s1 \<noteq> None" "versions_of s1 = versions_of s"
    "legacy_schema s1 = legacy_schema s" by (auto simp: create_step_def versions_of_def legacy_schema_def)
  have P: "plan X F D now s = [create_step] @ legacy_steps D s @ ?tail" by (simp add: plan_def)
  have whole: "run_steps (plan X F D now s) s = run_steps (legacy_steps D s @ ?tail) s1"
    unfolding P using s1(1) by simp
  have part: "run_steps (take k' (legacy_steps D s @ ?tail)) s1 = (Inr (), s')"
    using run s1(1) unfolding P Suc by simp
  from part show ?thesis
  proof (cases rule: steps_split)
    case first
    have up: "upgrades s1 s'" by (rule prefix_upgrades [OF legacy_steps_ok(1) first(2)])
    then have v: "versions_of s' = versions_of s" "legacy_schema s' = legacy_schema s" "sm_versions s' \<noteq> None"
      using upgrades_legacy [OF up] s1 by (simp_all add: upgrades_def)
    have p: "pending s' = pending s" unfolding pending_def v(1) by (rule refl)
    have "plan X F D now s' = plan X F D now s" unfolding plan_def legacy_steps_def v(1,2) p by (rule refl)
    then have "run_steps (plan X F D now s') s' = run_steps (legacy_steps D s @ ?tail) s'"
      using create_again [OF v(3)] P by simp
    also have "\<dots> = run_steps (drop k' (legacy_steps D s) @ ?tail) s'"
      by (rule repeat_prefix [OF legacy_steps_ok first(2)])
    also have "\<dots> = run_steps (legacy_steps D s @ ?tail) s1"
      using run_steps_take [OF part] first(1) by simp
    finally show ?thesis using whole by simp
  next
    case (second s2 j)
    have up: "upgrades s1 s2" by (rule run_steps_advances [OF legacy_steps_ok(1) second(3)])
    note v2 = upgrades_legacy [OF up]
    have some2: "sm_versions s2 \<noteq> None" using up s1(2) by (simp add: upgrades_def)
    obtain files where files: "listMigrationFiles F D = Inr files"
      using second(2,4) by (cases "listMigrationFiles F D"; cases j) auto
    let ?P = "pending s files"
    let ?C = "column_steps D @ post_steps D now"
    have whole2: "run_steps (plan X F D now s) s = run_steps (map (script_step X F) ?P @ ?C) s2"
      using whole second(3) files by (simp add: run_steps_append)
    have part2: "run_steps (take j (map (script_step X F) ?P @ ?C)) s2 = (Inr (), s')"
      using second(4) files by simp
    from part2 show ?thesis
    proof (cases rule: steps_split)
      case first
      then have "sm_versions s' = Some (versions_of s2 @ map path_base (take j ?P))"
        using run_scripts_versions [OF frame _ some2, of F "take j ?P" "()" s'] by (simp add: take_map)
      then have v: "sm_versions s' \<noteq> None" "versions_of s' = versions_of s @ map path_base (take j ?P)"
        using v2 s1(3) by (simp_all add: versions_of_def)
      have rest: "pending s' files = drop j ?P" by (rule pending_rest [OF names files v(2)])
      have "legacy_steps D s' = []" using v(2) second(2) first(1) by (auto simp: legacy_steps_def)
      then have "run_steps (plan X F D now s') s' = run_steps (map (script_step X F) (drop j ?P) @ ?C) s'"
        using create_again [OF v(1)] rest files by (simp add: plan_def)
      also have "\<dots> = run_steps (map (script_step X F) ?P @ ?C) s2"
        using run_steps_take [OF part2] first(1) by (simp add: drop_map)
      finally show ?thesis using whole2 by simp
    next
      case (second s3 i)
      have "sm_versions s3 = Some (versions_of s2 @ map path_base ?P)"
        by (rule run_scripts_versions [OF frame second(3) some2])
      moreover have up3: "upgrades s3 s'" by (rule prefix_upgrades [OF upgrades_ok(1) second(4)])
      ultimately have v: "sm_versions s' \<noteq> None" "versions_of s' = versions_of s @ map path_base (take (length ?P) ?P)"
        using v2 s1(3) by (simp_all add: versions_of_def upgrades_def)
      have rest: "pending s' files = []" using pending_rest [OF names files v(2)] by simp
      have noop: "run_steps (legacy_steps D s' @ ?C) s' = run_steps ?C s'"
        using v(2) by (intro legacy_noop [OF \<open>run_steps (legacy_steps D s) s1 = (Inr (), s2)\<close> s1(4) second(3) up3]) simp
      have "run_steps (plan X F D now s') s' = run_steps ?C s'"
        using create_again [OF v(1)] rest files noop by (simp add: plan_def)
      also have "\<dots> = run_steps (drop i ?C) s'"
        using repeat_prefix [OF upgrades_ok second(4), of "[]"] by simp
      also have "\<dots> = run_steps ?C s3" using run_steps_take [OF second(4)] by simp
      also have "\<dots> = run_steps (map (script_step X F) ?P @ ?C) s2"
        using second(3) by (simp add: run_steps_append)
      finally show ?thesis using whole2 by simp
    qed
  qed
qed

text \<open>Schemas a crashed run, or several, may leave.\<close>

definition crashed :: "script_exec \<Rightarrow> files \<Rightarrow> string \<Rightarrow> time \<Rightarrow> string option list list \<Rightarrow> schema \<Rightarrow> schema" where
  "crashed X F driver now fss s =
     fold (\<lambda>fs s. mg_schema (snd (Ensure X F driver now \<lparr>mg_schema = s, mg_faults = fs\<rparr>))) fss s"

lemma Ensure_result:
  assumes "normalizeDriver driver = Some D"
  shows "Ensure X F driver now \<lparr>mg_schema = s, mg_faults = []\<rparr> = Ensure X F driver now' \<lparr>mg_schema = s', mg_faults = []\<rparr> \<longleftrightarrow>
    run_steps (plan X F D now s) s = run_steps (plan X F D now' s') s'"
proof -
  have run: "Ensure X F driver n \<lparr>mg_schema = t, mg_faults = []\<rparr> = (r, m) \<Longrightarrow>
      m = \<lparr>mg_schema = mg_schema m, mg_faults = []\<rparr> \<and> run_steps (plan X F D n t) t = (r, mg_schema m)" for n t r m
    using implD [OF impl_Ensure [OF assms, of X F n t], of "[]" r m]
    by (cases m; cases r) (auto simp: outcome_def)
  obtain r m where 1: "Ensure X F driver now \<lparr>mg_schema = s, mg_faults = []\<rparr> = (r, m)" by fastforce
  obtain r' m' where 2: "Ensure X F driver now' \<lparr>mg_schema = s', mg_faults = []\<rparr> = (r', m')" by fastforce
  show ?thesis using run [OF 1] run [OF 2] 1 2 by (metis prod.inject)
qed

text \<open>C12: A run of the migration that the driver cuts short, at whatever statement, leaves nothing to repair: after
  any number of such runs one without failures returns the same and leaves the same schema and the same data
  as if it had been the first.\<close>

theorem migration_resumes:
  assumes "scripts_frame X" and "normalizeDriver driver = Some D" and "names_ok F D"
    and "list_all (list_all plain_fault) fss"
  shows "Ensure X F driver now \<lparr>mg_schema = crashed X F driver now fss s, mg_faults = []\<rparr> =
    Ensure X F driver now \<lparr>mg_schema = s, mg_faults = []\<rparr>"
  using assms(4)
proof (induction fss arbitrary: s)
  case (Cons fs fss)
  obtain r m where e: "Ensure X F driver now \<lparr>mg_schema = s, mg_faults = fs\<rparr> = (r, m)" by fastforce
  have "outcome s (plan X F D now s) () fs r m"
    using Cons.prems by (intro implD [OF impl_Ensure [OF assms(2)] _ e]) simp
  then obtain k where "run_steps (take k (plan X F D now s)) s = (Inr (), mg_schema m)"
    by (auto simp: outcome_def)
  from resume [OF assms(1,3) this] have "Ensure X F driver now \<lparr>mg_schema = mg_schema m, mg_faults = []\<rparr> =
      Ensure X F driver now \<lparr>mg_schema = s, mg_faults = []\<rparr>"
    using Ensure_result [OF assms(2)] by blast
  with Cons.IH [of "mg_schema m"] Cons.prems e show ?case by (simp add: crashed_def)
qed (simp add: crashed_def)

text \<open>A schema that is up to date.\<close>

lemma plan_done:
  assumes frame: "scripts_frame X" and run: "run_steps (plan X F D now s) s = (Inr (), s')"
  obtains s1 s2 s3 files where
    "listMigrationFiles F D = Inr files" "run_steps (legacy_steps D s) s1 = (Inr (), s2)"
    "legacy_schema s1 = legacy_schema s" "run_steps (map (script_step X F) (pending s files)) s2 = (Inr (), s3)"
    "run_steps (column_steps D @ post_steps D now) s3 = (Inr (), s')"
    "sm_versions s' = Some (versions_of s @ map path_base (pending s files))"
proof -
  obtain s1 where s1: "create_step s = (Inr (), s1)" "sm_versions s1 \<noteq> None" "versions_of s1 = versions_of s"
    "legacy_schema s1 = legacy_schema s" by (auto simp: create_step_def versions_of_def legacy_schema_def)
  from run s1(1) obtain s2 where s2: "run_steps (legacy_steps D s) s1 = (Inr (), s2)"
    and rest: "run_steps (case listMigrationFiles F D of Inl e \<Rightarrow> [\<lambda>s. (Inl e, s)]
      | Inr files \<Rightarrow> map (script_step X F) (pending s files) @ column_steps D @ post_steps D now) s2 = (Inr (), s')"
    by (auto simp: plan_def run_steps_append split: prod.splits sum.splits)
  obtain files where files: "listMigrationFiles F D = Inr files"
    using rest by (cases "listMigrationFiles F D") auto
  with rest obtain s3 where s3: "run_steps (map (script_step X F) (pending s files)) s2 = (Inr (), s3)"
    "run_steps (column_steps D @ post_steps D now) s3 = (Inr (), s')"
    unfolding files sum.case run_steps_append [of "map (script_step X F) (pending s files)"]
    by (auto split: prod.splits sum.splits)
  have up: "upgrades s1 s2" by (rule run_steps_advances [OF legacy_steps_ok(1) s2])
  then have "sm_versions s2 \<noteq> None" "versions_of s2 = versions_of s"
    using s1 upgrades_legacy [OF up] by (simp_all add: upgrades_def)
  then have "sm_versions s3 = Some (versions_of s @ map path_base (pending s files))"
    using run_scripts_versions [OF frame s3(1)] by simp
  moreover have "upgrades s3 s'" by (rule run_steps_advances [OF upgrades_ok(1) s3(2)])
  ultimately have "sm_versions s' = Some (versions_of s @ map path_base (pending s files))"
    by (simp add: upgrades_def)
  with that [OF files s2 s1(4) s3] show thesis .
qed

lemma plan_stable:
  assumes frame: "scripts_frame X" and names: "names_ok F D" and run: "run_steps (plan X F D now s) s = (Inr (), s')"
  shows "run_steps (plan X' F D now' s') s' = (Inr (), s')"
  using frame run
proof (rule plan_done)
  fix s1 s2 s3 files
  assume files: "listMigrationFiles F D = Inr files" and s2: "run_steps (legacy_steps D s) s1 = (Inr (), s2)"
    "legacy_schema s1 = legacy_schema s" and s3: "run_steps (map (script_step X F) (pending s files)) s2 = (Inr (), s3)"
    and C: "run_steps (column_steps D @ post_steps D now) s3 = (Inr (), s')"
    and vs: "sm_versions s' = Some (versions_of s @ map path_base (pending s files))"
  have v: "versions_of s' = versions_of s @ map path_base (take (length (pending s files)) (pending s files))"
    using vs by (simp add: versions_of_def)
  have rest: "pending s' files = []" using pending_rest [OF names files v] by simp
  have up: "upgrades s3 s'" by (rule run_steps_advances [OF upgrades_ok(1) C])
  have "run_steps (plan X' F D now' s') s' = run_steps (legacy_steps D s' @ column_steps D @ post_steps D now') s'"
    using create_again [of s'] vs rest files by (simp add: plan_def)
  also have "\<dots> = run_steps (column_steps D @ post_steps D now') s'"
    using v by (intro legacy_noop [OF s2 s3 up]) simp
  also have "\<dots> = run_steps ((column_steps D @ post_steps D now') @ []) s'" by simp
  also have "\<dots> = run_steps [] s'" by (rule run_steps_again [OF upgrades_ok C]) simp
  finally show ?thesis by simp
qed

lemma Ensure_success:
  assumes "normalizeDriver driver = Some D" "list_all plain_fault fs"
    "Ensure X F driver now \<lparr>mg_schema = s, mg_faults = fs\<rparr> = (Inr (), m)"
  shows "run_steps (plan X F D now s) s = (Inr (), mg_schema m)"
  using implD [OF impl_Ensure [OF assms(1)] assms(2,3)] by (auto simp: outcome_def)

text \<open>C28: When the migration returns, every script is recorded, the old ones first and the new ones in the order
  of their names; and a migration of that schema, at any later time, runs no script, returns at once
  and changes nothing.\<close>

theorem migration_stable:
  assumes "scripts_frame X" and "normalizeDriver driver = Some D" and "names_ok F D"
    and "listMigrationFiles F D = Inr files" and "list_all plain_fault fs"
    and "Ensure X F driver now \<lparr>mg_schema = s, mg_faults = fs\<rparr> = (Inr (), m)"
  shows "sm_versions (mg_schema m) = Some (versions_of s @ map path_base (pending s files)) \<and>
    Ensure X' F driver now' \<lparr>mg_schema = mg_schema m, mg_faults = []\<rparr> =
      (Inr (), \<lparr>mg_schema = mg_schema m, mg_faults = []\<rparr>)"
proof
  note run = Ensure_success [OF assms(2,5,6)]
  show "sm_versions (mg_schema m) = Some (versions_of s @ map path_base (pending s files))"
    using plan_done [OF assms(1) run] assms(4) by (metis sum.inject(2))
  obtain r m' where e: "Ensure X' F driver now' \<lparr>mg_schema = mg_schema m, mg_faults = []\<rparr> = (r, m')" by fastforce
  from implD [OF impl_Ensure [OF assms(2)] _ e] plan_stable [OF assms(1,3) run, of X' now']
  show "Ensure X' F driver now' \<lparr>mg_schema = mg_schema m, mg_faults = []\<rparr> =
      (Inr (), \<lparr>mg_schema = mg_schema m, mg_faults = []\<rparr>)"
    using e by (cases r; cases m') (auto simp: outcome_def)
qed

section \<open>Members of the legacy tenant\<close>

lemma run_steps_last:
  "run_steps (fs @ [f]) s = (Inr x, s') \<Longrightarrow> \<exists>s0 y. f s0 = (Inr y, s')"
  by (auto simp: run_steps_append split: prod.splits sum.splits)

lemma members_inserted:
  assumes "insert_legacy_members now s0 = (Inr x, s')"
  shows "\<exists>t. sm_data s' = put_legacy_members now t \<and> t_users t = t_users (sm_data s')"
  using assms unfolding insert_legacy_members_def on_columns_def
  by (auto simp: put_legacy_members_def split: list.splits prod.splits)

lemma last_role_unique:
  "distinct (map member_key rs) \<Longrightarrow> r \<in> set rs \<Longrightarrow> last_role rs (member_key r) = Some (tu_Role r)"
  unfolding last_role_def
  by (intro map_of_is_SomeI) (simp_all add: rev_map [symmetric] comp_def)

lemma legacy_member_role [simp]: "tu_Role (legacy_member now u) = PermissionToTenantRole (u_Permission u)"
  by (cases "u_Permission u") (simp_all add: legacy_member_def PermissionToTenantRole_def role_defs)

lemma members_after_role:
  assumes "distinct (map u_Username us)" "u \<in> set us" "\<not> blank_sql (u_Username u)"
  shows "map_option tu_Role (find (\<lambda>m. tu_TenantID m = DefaultTenantID \<and> tu_Username m = u_Username u)
      (members_after now us ms)) = Some (PermissionToTenantRole (u_Permission u))"
proof -
  let ?rs = "map (legacy_member now) (filter (\<lambda>u. \<not> blank_sql (u_Username u)) us)"
  let ?ms = "fold put_member ?rs ms"
  have fold: "members_after now us ms = ?ms" by (simp add: members_after_def fold_map comp_def)
  have "distinct (map u_Username (filter (\<lambda>u. \<not> blank_sql (u_Username u)) us))"
    using assms(1) by (rule distinct_map_filter)
  then have "distinct (map (\<lambda>u. (DefaultTenantID, u_Username u)) (filter (\<lambda>u. \<not> blank_sql (u_Username u)) us))"
    by (auto simp: distinct_map inj_on_def)
  then have dist: "distinct (map member_key ?rs)" by (simp add: comp_def member_key_def legacy_member_def)
  have mem: "legacy_member now u \<in> set ?rs" using assms(2,3) by simp
  have key: "member_key (legacy_member now u) = (DefaultTenantID, u_Username u)"
    by (simp add: member_key_def legacy_member_def)
  let ?P = "\<lambda>m. tu_TenantID m = DefaultTenantID \<and> tu_Username m = u_Username u"
  have "(DefaultTenantID, u_Username u) \<in> member_key ` set ?ms"
    using fold_put_keys [of ?rs ms] mem key by (metis UnI1 imageI)
  then have "\<exists>m \<in> set ?ms. ?P m" by (auto simp: member_key_def intro!: bexI)
  then have "find ?P ?ms \<noteq> None" unfolding find_None_iff by blast
  then obtain m where m: "find ?P ?ms = Some m" by auto
  then have "?P m" "m \<in> set ?ms" using find_SomeD [OF m] by simp_all
  moreover have "last_role ?rs (member_key m) = Some (PermissionToTenantRole (u_Permission u))"
    using last_role_unique [OF dist mem] key \<open>?P m\<close> by (simp add: member_key_def)
  ultimately have "tu_Role m = PermissionToTenantRole (u_Permission u)"
    using fold_put_roles [of m ?rs ms] by blast
  with m fold show ?thesis by simp
qed

text \<open>C27: On SQLite every migration, also one that finds the schema up to date, gives every account the role of
  its permission in the legacy tenant, whatever the members were before: whoever was removed from that
  tenant is a member again, and a role that was changed there is changed back.\<close>

theorem migration_restores_legacy_members:
  assumes "scripts_frame X" and "normalizeDriver driver = Some SQLite" and "list_all plain_fault fs"
    and "Ensure X F driver now \<lparr>mg_schema = s, mg_faults = fs\<rparr> = (Inr (), m)"
    and "distinct (map u_Username (t_users (sm_data (mg_schema m))))"
    and "u \<in> set (t_users (sm_data (mg_schema m)))" and "\<not> blank_sql (u_Username u)"
  shows "member_role (sm_data (mg_schema m)) DefaultTenantID (u_Username u) =
    Some (PermissionToTenantRole (u_Permission u))"
  using assms(1) Ensure_success [OF assms(2-4)]
proof (rule plan_done)
  fix s3
  assume "run_steps (column_steps SQLite @ post_steps SQLite now) s3 = (Inr (), mg_schema m)"
  moreover have "column_steps SQLite @ post_steps SQLite now =
      (column_steps SQLite @ butlast (sqlite_post now)) @ [insert_legacy_members now]"
    by (simp add: post_steps_def sqlite_post_def compat_indexes_def)
  ultimately obtain s0 y where "insert_legacy_members now s0 = (Inr y, mg_schema m)"
    using run_steps_last by metis
  then obtain t where t: "sm_data (mg_schema m) = put_legacy_members now t"
    "t_users t = t_users (sm_data (mg_schema m))" using members_inserted by blast
  have "t_tenant_users (sm_data (mg_schema m)) = members_after now (t_users t) (t_tenant_users t)"
    unfolding t(1) by (simp add: put_legacy_members_def members_after_def)
  with members_after_role [OF assms(5-7), of now "t_tenant_users t"] t(2)
  show ?thesis by (simp add: member_role_def)
qed

section \<open>An example\<close>

text \<open>A directory with two scripts; the first creates every table with the columns the upgrades need.\<close>

definition example_files :: files where
  "example_files =
     \<lparr>fl_MigrationsDir = ''/m'', fl_Getwd = None, fl_Executable = None, fl_Caller = None,
      fl_IsDir = (\<lambda>d. d = ''/m/sqlite''),
      fl_ReadDir = (\<lambda>d. Some [(''2_more.sql'', False), (''1_init.sql'', False), (''README'', False)]),
      fl_ReadFile = (\<lambda>p. Some (if p = ''/m/sqlite/1_init.sql'' then ''CREATE;'' else ''CHECK;CHECK''))\<rparr>"

definition example_columns :: "string \<Rightarrow> string list option" where
  "example_columns tbl =
     (if tbl \<in> {''devices'', ''metrics'', ''logs'', ''users'', ''tenants'', ''tenant_users'',
        ''integration_external_entities'', ''integration_external_observations'', ''integration_external_commands''}
      then Some [''uuid'', ''type'', ''ts'', ''tenant_id'', ''created_at'', ''source'', ''domain'', ''entity_id'',
        ''status'', ''requested_at'', ''id'', ''name'', ''username'', ''permission'', ''role'']
      else None)"

definition example_exec :: script_exec where
  "example_exec stmt s =
     (if stmt = ''CREATE'' then Inr (s\<lparr>sm_tables := example_columns\<rparr>)
      else if sm_tables s ''devices'' = None then Inl (ErrText ''no devices'') else Inr s)"

definition example_account :: user_row where
  "example_account =
     \<lparr>u_ID = 1, u_Email = None, u_Username = ''bob'', u_Password = ''h'', u_Permission = PermissionNone,
      u_OAuth2UID = None, u_OAuth2Provider = None, u_OAuth2AccessToken = None, u_OAuth2RefreshToken = None,
      u_OAuth2Expiry = None, u_RememberToken = None, u_RecoverToken = None, u_RecoverTokenExpiry = None,
      u_ConfirmToken = None, u_Confirmed = False, u_LastLogin = None, u_CreatedAt = 0, u_UpdatedAt = 0\<rparr>"

definition example_schema :: schema where
  "example_schema = \<lparr>sm_tables = Map.empty, sm_versions = None,
     sm_data = empty_tables\<lparr>t_users := [example_account]\<rparr>\<rparr>"

lemma example_frame: "scripts_frame example_exec"
  by (auto simp: scripts_frame_def example_exec_def split: if_splits)

lemma example_migration:
  "normalizeDriver ''SQLite'' = Some SQLite" "names_ok example_files SQLite"
  "listMigrationFiles example_files SQLite = Inr [''/m/sqlite/1_init.sql'', ''/m/sqlite/2_more.sql'']"
  "fst (Ensure example_exec example_files ''SQLite'' 7 \<lparr>mg_schema = example_schema, mg_faults = []\<rparr>) = Inr ()"
  by code_simp+

theorem migration_resumes_witness:
  "Ensure example_exec example_files ''SQLite'' 7
     \<lparr>mg_schema = crashed example_exec example_files ''SQLite'' 7
        [replicate 9 None @ [Some ''disk full''], replicate 30 None @ [Some ''disk full'']] example_schema,
      mg_faults = []\<rparr> =
   Ensure example_exec example_files ''SQLite'' 7 \<lparr>mg_schema = example_schema, mg_faults = []\<rparr>"
proof -
  have "list_all (list_all plain_fault) [replicate 9 None @ [Some ''disk full''], replicate 30 None @ [Some ''disk full'']]"
    by code_simp
  from migration_resumes [OF example_frame example_migration(1,2) this] show ?thesis .
qed

theorem migration_stable_witness:
  "sm_versions (mg_schema (snd (Ensure example_exec example_files ''SQLite'' 7
     \<lparr>mg_schema = example_schema, mg_faults = []\<rparr>))) = Some [''1_init.sql'', ''2_more.sql'']"
proof -
  let ?run = "Ensure example_exec example_files ''SQLite'' 7 \<lparr>mg_schema = example_schema, mg_faults = []\<rparr>"
  have run: "?run = (Inr (), snd ?run)" using example_migration(4) by (metis prod.collapse)
  have "versions_of example_schema @ map path_base (pending example_schema
      [''/m/sqlite/1_init.sql'', ''/m/sqlite/2_more.sql'']) = [''1_init.sql'', ''2_more.sql'']" by code_simp
  with migration_stable [OF example_frame example_migration(1-3) _ run, of example_exec 8] show ?thesis by simp
qed

theorem migration_restores_legacy_members_witness:
  "member_role (sm_data example_schema) DefaultTenantID ''bob'' = None \<and>
   member_role (sm_data (mg_schema (snd (Ensure example_exec example_files ''SQLite'' 7
     \<lparr>mg_schema = example_schema, mg_faults = []\<rparr>)))) DefaultTenantID ''bob'' = Some TenantRoleRO"
proof -
  let ?run = "Ensure example_exec example_files ''SQLite'' 7 \<lparr>mg_schema = example_schema, mg_faults = []\<rparr>"
  have run: "?run = (Inr (), snd ?run)" using example_migration(4) by (metis prod.collapse)
  have "t_users (sm_data (mg_schema (snd ?run))) = [example_account]" by code_simp
  moreover have "member_role (sm_data example_schema) DefaultTenantID ''bob'' = None"
    "\<not> blank_sql (u_Username example_account)" "u_Username example_account = ''bob''"
    "PermissionToTenantRole (u_Permission example_account) = TenantRoleRO" by code_simp+
  ultimately show ?thesis
    using migration_restores_legacy_members [OF example_frame example_migration(1) _ run, of example_account] by simp
qed

end
