(* ===== verification/Spec2Isabelle.thy ===== *)
theory Spec2Isabelle
  imports EndToEnd TcpTermination TcpServer MqttDownlink MqttTelemetry MqttExternal WebSecurity
    Captcha ClientState Logging IngressApp RuntimeStore StoreOpening MigrationSafety
begin

text \<open>
  Goster-IoT: a verification development of the core service and of the protocol ingress.

  \<^bold>\<open>The program.\<close> Two processes. The core (\<^verbatim>\<open>src/go/src\<close>) keeps devices, tenants, users, telemetry
  and a log of downlink commands in an SQL database, and serves a web API to people and an RPC service to the
  ingress. The protocol ingress (\<^verbatim>\<open>src/protocol-ingress\<close>) speaks the device protocols, a binary
  protocol over TCP and MQTT, turns what devices say into canonical events, and calls the core. A device is
  registered through the ingress, approved by a person through the web API, and then authenticates with the
  token it was given.

  \<^bold>\<open>Ingress.\<close> \<^verbatim>\<open>Codec\<close>, \<^verbatim>\<open>Crc\<close>, \<^verbatim>\<open>Payload\<close> and \<^verbatim>\<open>GosterTypes\<close> model package
  \<^verbatim>\<open>protocol/gosterwy\<close> (frames, checksums, nonces, payload formats) and \<^verbatim>\<open>AdapterTypes\<close> the neutral
  events and commands of \<^verbatim>\<open>adapter/adapter.go\<close>. \<^verbatim>\<open>TcpSession\<close> and \<^verbatim>\<open>TcpConn\<close> model
  \<^verbatim>\<open>adapter/customtcp\<close>: a connection is a record of its session, key, write counter, frames written and
  the state behind the core client; \<^verbatim>\<open>handleConnection\<close> is a function from the bytes received to that record.
  \<^verbatim>\<open>TcpServer\<close> is the accept loop around it, a step relation whose actors are the loop, the goroutine that
  shuts it down and the handlers.
  \<^verbatim>\<open>MqttMapper\<close>, \<^verbatim>\<open>MqttAdapter\<close> and \<^verbatim>\<open>MqttBroker\<close> model \<^verbatim>\<open>adapter/mqtt\<close>: the
  mapping of topics and payloads, what is done with a message and with the commands pulled for a device, and
  the hook of the embedded broker, whose steps \<^verbatim>\<open>broker_run\<close> are what the broker library calls;
  \<^verbatim>\<open>MqttExternal\<close> is the adapter as a client of another broker.
  \<^verbatim>\<open>Normalizer\<close> models \<^verbatim>\<open>normalizer/normalizer.go\<close> in both directions, \<^verbatim>\<open>IngressProto\<close> the
  messages of the RPC protocol, \<^verbatim>\<open>CoreClient\<close> the client of \<^verbatim>\<open>coreclient/client.go\<close> over a link that
  may lose a request or an answer, \<^verbatim>\<open>IngressConfig\<close> the configuration of the process, and
  \<^verbatim>\<open>IngressApp\<close> the process itself: \<^verbatim>\<open>app/app.go\<close>, whose components run side by side, and the endpoints of
  \<^verbatim>\<open>server/server.go\<close>.

  \<^bold>\<open>Core.\<close> \<^verbatim>\<open>Database\<close> has the tables as lists of rows, statements and transactions over them, and a
  schedule of driver failures. \<^verbatim>\<open>DeviceStore\<close>, \<^verbatim>\<open>CommandStore\<close>, \<^verbatim>\<open>Telemetry\<close>,
  \<^verbatim>\<open>TenantStore\<close> and \<^verbatim>\<open>UserStore\<close> are the repositories of \<^verbatim>\<open>storage\<close> with their services;
  \<^verbatim>\<open>Registry\<close> is the device registry with its token cache, \<^verbatim>\<open>CommandQueue\<close> and \<^verbatim>\<open>Downlink\<close>
  the queue of commands and the service that keeps queue and log together, \<^verbatim>\<open>Presence\<close> and
  \<^verbatim>\<open>AccessControl\<close> the two small services of \<^verbatim>\<open>device_manager\<close>. \<^verbatim>\<open>IngressCore\<close> is
  \<^verbatim>\<open>web/ingress/service.go\<close> over all of them, wired on one state. \<^verbatim>\<open>ExternalStore\<close> and
  \<^verbatim>\<open>ExternalEntities\<close> are the entities and observations of other platforms, repository and service;
  \<^verbatim>\<open>RuntimeStore\<close> joins the repositories as \<^verbatim>\<open>storage/runtime/store.go\<close> does. \<^verbatim>\<open>Migration\<close> and
  \<^verbatim>\<open>SchemaUpgrade\<close> are \<^verbatim>\<open>dbschema/migrate.go\<close>, over the paths of \<^verbatim>\<open>GoFilepath\<close>: a schema is its tables
  with their columns, the recorded versions and the data. \<^verbatim>\<open>StoreOpening\<close> is \<^verbatim>\<open>persistence\<close> and
  \<^verbatim>\<open>cli/cli.go\<close>: which connections are opened and closed. \<^verbatim>\<open>AppConfig\<close> is
  \<^verbatim>\<open>config/app_config.go\<close>. \<^verbatim>\<open>Http\<close>, \<^verbatim>\<open>LoginGuard\<close>, \<^verbatim>\<open>WebAuth\<close>,
  \<^verbatim>\<open>WebDevices\<close>, \<^verbatim>\<open>WebTenants\<close>, \<^verbatim>\<open>WebLogin\<close> and \<^verbatim>\<open>WebApi\<close> are package
  \<^verbatim>\<open>web/v1\<close> with what it uses of \<^verbatim>\<open>identity\<close>: handlers are functions from a request and a state to a
  response and a state, composed with the middlewares as \<^verbatim>\<open>api.go\<close> composes them. \<^verbatim>\<open>Captcha\<close> is the
  service of \<^verbatim>\<open>web/captcha.go\<close> behind the registration handler, \<^verbatim>\<open>ClientState\<close> the session of a client over a
  cookie store, and \<^verbatim>\<open>Logging\<close> what package \<^verbatim>\<open>logger\<close> lets through to its handler.

  \<^bold>\<open>Foundations.\<close> \<^verbatim>\<open>Prelude\<close> has Go's strings as byte strings and the string functions;
  \<^verbatim>\<open>Float\<close>, \<^verbatim>\<open>GoStrconv\<close>, \<^verbatim>\<open>GoTime\<close>, \<^verbatim>\<open>GoTimeParse\<close> and \<^verbatim>\<open>GoJson\<close> compute what
  the code uses of the standard library: IEEE numbers as bit patterns with correct rounding, the parsers of
  \<^verbatim>\<open>strconv\<close> and \<^verbatim>\<open>time\<close>, and a JSON decoder. \<^verbatim>\<open>Crypto\<close> has the cryptographic primitives as a
  record of functions with the laws the code relies on.

  \<^bold>\<open>Conventions.\<close> An operation on a state is an \<^verbatim>\<open>action\<close>, from a state to a result (\<^verbatim>\<open>Inl\<close> an
  error, \<^verbatim>\<open>Inr\<close> a value) and the new state. A clock reading is an argument, in nanoseconds since the Unix epoch;
  an operation that reads the clock more than once is given one reading. Numbers of fixed width are words,
  Go's \<^verbatim>\<open>int\<close> is \<^verbatim>\<open>int\<close> where the code compares and counts only. Error texts are kept as keys. Maps whose
  order the code can observe are association lists, and where Go chooses the order it is an argument.

  \<^bold>\<open>Interfaces.\<close> Each is a locale with the laws its clients use, and is interpreted on the model of the code
  that provides it: \<^verbatim>\<open>device_store\<close> and \<^verbatim>\<open>reliable_store\<close> (the registry over the repository),
  \<^verbatim>\<open>command_repo\<close> and \<^verbatim>\<open>command_queue\<close>, joined in \<^verbatim>\<open>downlink_client\<close>, \<^verbatim>\<open>presence_store\<close>,
  \<^verbatim>\<open>login_attempt_store\<close> and \<^verbatim>\<open>reliable_login_store\<close>, and \<^verbatim>\<open>external_repo\<close>, interpreted on the
  repository and on the runtime store; \<^verbatim>\<open>conn_invariant\<close> lifts an invariant of the
  primitive changes of a TCP connection to the whole loop and is interpreted twice.

  \<^bold>\<open>What is shown.\<close>
  \<^item> The codec inverts itself, detects corruption and truncation, and is bounded (\<^verbatim>\<open>Codec\<close>).
  \<^item> A connection, TCP or MQTT, is bound to a device only by the core's consent, and reports only about it
    (\<^verbatim>\<open>EndToEnd\<close>, \<^verbatim>\<open>MqttSafety\<close>, \<^verbatim>\<open>MqttReports\<close>); nonces never repeat (\<^verbatim>\<open>TcpInvariants\<close>);
    serving a connection ends, at a bounded cost (\<^verbatim>\<open>TcpTermination\<close>).
  \<^item> Readings arrive in the database exactly, from a frame (\<^verbatim>\<open>EndToEnd\<close>) or a message
    (\<^verbatim>\<open>MqttTelemetry\<close>), and all or none of them.
  \<^item> Commands are queued first in first out, always recorded, delivered unchanged, put back when a TCP
    connection ends, published on topics only their device can read, and accounted for in the log
    (\<^verbatim>\<open>CommandQueue\<close>, \<^verbatim>\<open>Downlink\<close>, \<^verbatim>\<open>EndToEnd\<close>, \<^verbatim>\<open>MqttTopics\<close>, \<^verbatim>\<open>MqttDownlink\<close>).
  \<^item> The token cache agrees with the database after any sequence of operations (\<^verbatim>\<open>Registry\<close>), and a device
    turned away through the web API is refused at the ingress (\<^verbatim>\<open>WebSecurity\<close>).
  \<^item> Requests to any route change devices and roles only with the right session, token and role
    (\<^verbatim>\<open>WebFrames\<close>, \<^verbatim>\<open>WebHandlerFrames\<close>, \<^verbatim>\<open>WebEffects\<close>, \<^verbatim>\<open>WebMembers\<close>, \<^verbatim>\<open>WebSecurity\<close>:
    rules by which a view of the tables is seen to survive an operation, applied along the handlers). The
    login guard decides as the full history of failures would (\<^verbatim>\<open>LoginGuard\<close>).
  \<^item> A migration may be cut short anywhere and any number of times: the next one ends as if it had been the first, and
    after it nothing is left to do (\<^verbatim>\<open>MigrationSteps\<close>: a run is a list of atomic statements of which a failure
    leaves a prefix; \<^verbatim>\<open>MigrationUpgrades\<close>: each is repeatable; \<^verbatim>\<open>MigrationSafety\<close>: the whole).
  \<^item> External entities are read back as registered, and an observation is stored once however often it is sent
    (\<^verbatim>\<open>ExternalEntities\<close>).
  \<^item> With the captcha on nobody registers without the peer's consent to the token sent (\<^verbatim>\<open>Captcha\<close>), the values of
    sensitive fields never reach the log (\<^verbatim>\<open>Logging\<close>), and the ingress process ends only after its components
    (\<^verbatim>\<open>IngressApp\<close>).
  \<^item> The program closes every connection it opens, on every error path (\<^verbatim>\<open>StoreOpening\<close>), and the accept loop
    of the TCP adapter always comes to its end (\<^verbatim>\<open>TcpServer\<close>).
  \<^item> Both configurations are within their bounds for every environment (\<^verbatim>\<open>AppConfig\<close>,
    \<^verbatim>\<open>IngressConfig\<close>).
  \<^item> Where the code does not do what it means to, a theorem states what it does: a registration before a
    handshake, the race of authentication with revocation, the takeover of an MQTT session, receipts for
    commands of other devices, members that a migration brings back, pages beyond 64 bits, a connection that
    outlives the shutdown, an error that is lost when a process ends at once.

  \<^bold>\<open>Recursion and fuel.\<close> Loops over lists are structural; the loop of a connection recurs on its input, which
  every packet shortens by 48 bytes or more; \<^verbatim>\<open>strip\<close> and \<^verbatim>\<open>ReplaceAll\<close> recur on the length of the text.
  The JSON decoder has fuel twice the length of the text and one more, one unit for each value or separator,
  of which each takes at least a byte in two calls, and refuses nesting beyond 10000 levels as the library
  does. The items of a duration are at most as many as its bytes.

  \<^bold>\<open>Parameters.\<close> SHA-256, HMAC, AES-GCM and X25519 (with laws), random bytes, \<^verbatim>\<open>json.Marshal\<close>, \<^verbatim>\<open>structpb\<close>,
  the text of a float64 and of a local time, the Unicode letter test, URL and e-mail parsing, Authboss's
  password check and hooks, the session store and the exchange with the captcha service. Each is an argument or a field of
  an environment record; laws are hypotheses with an instance that satisfies them.

  \<^bold>\<open>Not modelled.\<close> Sockets, timeouts, signals and logging: input, output and concurrency around the
  modelled operations, each of which the code runs under a lock or in one goroutine, or whose interleaving is
  modelled explicitly (the two halves of \<^verbatim>\<open>Authenticate\<close>, the goroutines of the accept loop). The MQTT
  libraries: the steps of a broker are what the code relies on. The statements of a migration script are
  read from files and are a parameter, text that is not valid UTF-8 included; the tables are modelled as the
  scripts leave them. Authboss itself, the assembly of the web server, the generated protocol code, the frontend
  and the test environment are left out.
\<close>

end
